(* ===== verification/Prelude.thy ===== *)
theory Prelude
  imports "HOL-Library.Word"
begin

text \<open>
  Shared vocabulary of the development: the machine integer types of
  \<^verbatim>\<open>include/u_types.h\<close>, the result type in which every failing assertion and
  every undefined C++ operation is an error value, C bit-fields as operations on
  words, and little-endian byte encodings.
\<close>

unbundle bit_operations_syntax

type_synonym u8 = "8 word"
type_synonym u16 = "16 word"
type_synonym u32 = "32 word"
type_synonym u64 = "64 word"

named_theorems res_simps \<open>simplification rules of the result monad\<close>
named_theorems field_simps_bits \<open>reading C bit-fields after writing them\<close>
named_theorems uvm_defs \<open>definitions unfolded by the component proofs\<close>

section \<open>Errors as values\<close>

text \<open>
  \<^item> \<open>Assertion\<close>: an \<^verbatim>\<open>Is_True\<close> or \<^verbatim>\<open>Is_True_Rel\<close> whose condition is false
    (the process prints the message and exits);
  \<^item> \<open>Out_of_range\<close>: the exception of \<^verbatim>\<open>vector::at\<close> or \<^verbatim>\<open>map::at\<close>;
  \<^item> \<open>Out_of_block\<close>: an access outside the C object it is made through;
  \<^item> \<open>Div_undefined\<close>, \<open>Shift_undefined\<close>, \<open>Conv_undefined\<close>: integer division, shift or
    floating-point to integer conversion with operands for
    which C++ defines no result;
  \<^item> \<open>Exit_failure\<close>: a message on the error stream and \<^verbatim>\<open>exit(-1)\<close>;
  \<^item> \<open>Exit_with n\<close>: the program ends with \<^verbatim>\<open>exit(n)\<close>.
\<close>

datatype uvm_error =
    Assertion
  | Out_of_range
  | Out_of_block
  | Div_undefined
  | Shift_undefined
  | Conv_undefined
  | Exit_failure
  | Exit_with u32

type_synonym 'a res = "uvm_error + 'a"

abbreviation (input) Ok :: "'a \<Rightarrow> 'a res" where
  "Ok \<equiv> Inr"

abbreviation (input) Fail :: "uvm_error \<Rightarrow> 'a res" where
  "Fail \<equiv> Inl"

definition bindr :: "'a res \<Rightarrow> ('a \<Rightarrow> 'b res) \<Rightarrow> 'b res" where
  "bindr r f = (case r of Inl e \<Rightarrow> Inl e | Inr x \<Rightarrow> f x)"

definition Is_True :: "bool \<Rightarrow> 'a res \<Rightarrow> 'a res" where
  "Is_True b r = (if b then r else Inl Assertion)"

text \<open>Reading a C++ vector with \<^verbatim>\<open>at\<close>, which throws, and a C array, which must not leave its block.\<close>

definition vec_at :: "'a list \<Rightarrow> nat \<Rightarrow> 'a res" where
  "vec_at xs i = (if i < length xs then Inr (xs ! i) else Inl Out_of_range)"

definition arr_at :: "'a list \<Rightarrow> nat \<Rightarrow> 'a res" where
  "arr_at xs i = (if i < length xs then Inr (xs ! i) else Inl Out_of_block)"

definition arr_upd :: "'a list \<Rightarrow> nat \<Rightarrow> 'a \<Rightarrow> 'a list res" where
  "arr_upd xs i v = (if i < length xs then Inr (xs[i := v]) else Inl Out_of_block)"

primrec mapr :: "('a \<Rightarrow> 'b res) \<Rightarrow> 'a list \<Rightarrow> 'b list res" where
  "mapr f [] = Inr []"
| "mapr f (x # xs) = bindr (f x) (\<lambda>y. bindr (mapr f xs) (\<lambda>ys. Inr (y # ys)))"

primrec foldr_res :: "('a \<Rightarrow> 's \<Rightarrow> 's res) \<Rightarrow> 'a list \<Rightarrow> 's \<Rightarrow> 's res" where
  "foldr_res f [] s = Inr s"
| "foldr_res f (x # xs) s = bindr (f x s) (foldr_res f xs)"

text \<open>Consecutive elements written into an array from position \<open>p\<close> on, as \<^verbatim>\<open>memcpy\<close> does.\<close>

definition arr_copy :: "'a list \<Rightarrow> nat \<Rightarrow> 'a list \<Rightarrow> 'a list res" where
  "arr_copy xs p ys =
    (if p + length ys \<le> length xs then Inr (take p xs @ ys @ drop (p + length ys) xs) else Inl Out_of_block)"

section \<open>C bit-fields\<close>

text \<open>
  A bit-field of width \<open>n\<close> at bit position \<open>lo\<close> (least significant first, as GCC lays
  them out on a little-endian target).  Writing truncates the value to the width and
  keeps every other bit.
\<close>

definition get_bits :: "nat \<Rightarrow> nat \<Rightarrow> 'w::len word \<Rightarrow> 'w word" where
  "get_bits lo n w = take_bit n (drop_bit lo w)"

definition set_bits :: "nat \<Rightarrow> nat \<Rightarrow> 'w::len word \<Rightarrow> 'w word \<Rightarrow> 'w word" where
  "set_bits lo n v w = (w AND NOT (push_bit lo (mask n))) OR push_bit lo (take_bit n v)"

definition get_sbits :: "nat \<Rightarrow> nat \<Rightarrow> 'w::len word \<Rightarrow> 'w word" where
  "get_sbits lo n w = signed_take_bit (n - 1) (drop_bit lo w)"

type_synonym bitfield = "nat \<times> nat"

definition rd :: "bitfield \<Rightarrow> 'w::len word \<Rightarrow> 'w word" where
  "rd f w = get_bits (fst f) (snd f) w"

definition rd_s :: "bitfield \<Rightarrow> 'w::len word \<Rightarrow> 'w word" where
  "rd_s f w = get_sbits (fst f) (snd f) w"

definition wr :: "bitfield \<Rightarrow> 'w::len word \<Rightarrow> 'w word \<Rightarrow> 'w word" where
  "wr f v w = set_bits (fst f) (snd f) v w"

text \<open>A struct of bit-fields: its members in declaration order, written one after the other.\<close>

definition in_word :: "nat \<Rightarrow> bitfield \<Rightarrow> bool" where
  "in_word len f \<longleftrightarrow> 0 < snd f \<and> fst f + snd f \<le> len"

definition apart :: "bitfield \<Rightarrow> bitfield \<Rightarrow> bool" where
  "apart f g \<longleftrightarrow> fst f + snd f \<le> fst g \<or> fst g + snd g \<le> fst f"

primrec disjoint_fields :: "bitfield list \<Rightarrow> bool" where
  "disjoint_fields [] \<longleftrightarrow> True"
| "disjoint_fields (f # fs) \<longleftrightarrow> list_all (apart f) fs \<and> disjoint_fields fs"

primrec wr_all :: "bitfield list \<Rightarrow> 'w::len word list \<Rightarrow> 'w word \<Rightarrow> 'w word" where
  "wr_all [] vs w = w"
| "wr_all (f # fs) vs w = wr_all fs (tl vs) (wr f (hd vs) w)"

section \<open>Little-endian bytes\<close>

primrec le_bytes :: "nat \<Rightarrow> 'w::len word \<Rightarrow> u8 list" where
  "le_bytes 0 w = []"
| "le_bytes (Suc n) w = ucast w # le_bytes n (drop_bit 8 w)"

primrec le_word :: "u8 list \<Rightarrow> 'w::len word" where
  "le_word [] = 0"
| "le_word (b # bs) = ucast b OR push_bit 8 (le_word bs)"

section \<open>Lemmas\<close>

subsection \<open>The result monad\<close>

lemma bindr_simps [simp, res_simps]:
  "bindr (Inl e) f = Inl e"
  "bindr (Inr x) f = f x"
  by (simp_all add: bindr_def)

lemma bindr_assoc [res_simps]:
  "bindr (bindr r f) g = bindr r (\<lambda>x. bindr (f x) g)"
  by (cases r) simp_all

lemma bindr_eq_Inr [simp, res_simps]:
  "bindr r f = Inr y \<longleftrightarrow> (\<exists>x. r = Inr x \<and> f x = Inr y)"
  by (cases r) simp_all

lemma bindr_cong [fundef_cong]:
  "r = r' \<Longrightarrow> (\<And>x. r' = Inr x \<Longrightarrow> f x = g x) \<Longrightarrow> bindr r f = bindr r' g"
  by (cases r') simp_all

lemma Is_True_simps [simp, res_simps]:
  "Is_True True r = r"
  "Is_True False r = Inl Assertion"
  by (simp_all add: Is_True_def)

lemma Is_True_eq_Inr [simp, res_simps]:
  "Is_True b r = Inr y \<longleftrightarrow> b \<and> r = Inr y"
  by (simp add: Is_True_def)

lemma vec_at_Inr [simp, res_simps]:
  "vec_at xs i = Inr y \<longleftrightarrow> i < length xs \<and> xs ! i = y"
  by (simp add: vec_at_def)

lemma arr_at_Inr [simp, res_simps]:
  "arr_at xs i = Inr y \<longleftrightarrow> i < length xs \<and> xs ! i = y"
  by (simp add: arr_at_def)

lemma arr_upd_Inr [simp, res_simps]:
  "arr_upd xs i v = Inr ys \<longleftrightarrow> i < length xs \<and> ys = xs[i := v]"
  by (auto simp: arr_upd_def)

lemma arr_copy_Inr [simp, res_simps]:
  "arr_copy xs p ys = Inr zs \<longleftrightarrow> p + length ys \<le> length xs \<and> zs = take p xs @ ys @ drop (p + length ys) xs"
  by (auto simp: arr_copy_def)

lemma mapr_length:
  "mapr f xs = Inr ys \<Longrightarrow> length ys = length xs"
  by (induction xs arbitrary: ys) auto

lemma mapr_nth:
  "mapr f xs = Inr ys \<Longrightarrow> i < length xs \<Longrightarrow> f (xs ! i) = Inr (ys ! i)"
proof (induction xs arbitrary: ys i)
  case (Cons x xs)
  then show ?case by (cases i) auto
qed simp

lemma mapr_total:
  "(\<And>x. x \<in> set xs \<Longrightarrow> f x = Inr (g x)) \<Longrightarrow> mapr f xs = Inr (map g xs)"
  by (induction xs) auto

lemma foldr_res_append:
  "foldr_res f (xs @ ys) s = bindr (foldr_res f xs s) (foldr_res f ys)"
proof (induction xs arbitrary: s)
  case (Cons x xs)
  then show ?case by (cases "f x s") simp_all
qed simp

lemma foldr_res_cong:
  "(\<And>x. x \<in> set xs \<Longrightarrow> f x = g x) \<Longrightarrow> foldr_res f xs s = foldr_res g xs s"
  by (induction xs arbitrary: s) (auto cong: bindr_cong)

text \<open>An invariant kept by every step of a fold is kept by the fold.\<close>

lemma foldr_res_invariant:
  assumes "foldr_res f xs s = Inr t" and "P s"
    and "\<And>x s t. x \<in> set xs \<Longrightarrow> P s \<Longrightarrow> f x s = Inr t \<Longrightarrow> P t"
  shows "P t"
  using assms
proof (induction xs arbitrary: s)
  case (Cons x xs)
  from Cons.prems(1) obtain u where u: "f x s = Inr u" "foldr_res f xs u = Inr t"
    by auto
  moreover from u Cons.prems have "P u" by auto
  ultimately show ?case using Cons.IH Cons.prems(3) by auto
qed simp

subsection \<open>Bit-fields\<close>

lemma get_set_bits [field_simps_bits]:
  "lo + n \<le> LENGTH('w) \<Longrightarrow> get_bits lo n (set_bits lo n v (w::'w::len word)) = take_bit n v"
  by (rule bit_word_eqI) (auto simp: get_bits_def set_bits_def bit_simps)

lemma get_set_bits_other [field_simps_bits]:
  "lo' + n' \<le> lo \<or> lo + n \<le> lo' \<Longrightarrow>
    get_bits lo' n' (set_bits lo n v (w::'w::len word)) = get_bits lo' n' w"
  by (rule bit_word_eqI) (auto simp: get_bits_def set_bits_def bit_simps dest: bit_imp_le_length)

lemma get_set_sbits [field_simps_bits]:
  "0 < n \<Longrightarrow> lo + n \<le> LENGTH('w) \<Longrightarrow>
    get_sbits lo n (set_bits lo n v (w::'w::len word)) = signed_take_bit (n - 1) v"
  by (rule bit_word_eqI) (auto simp: get_sbits_def set_bits_def bit_simps min_def)

lemma get_set_sbits_other [field_simps_bits]:
  "0 < n' \<Longrightarrow> lo' + n' \<le> LENGTH('w) \<Longrightarrow> lo' + n' \<le> lo \<or> lo + n \<le> lo' \<Longrightarrow>
    get_sbits lo' n' (set_bits lo n v (w::'w::len word)) = get_sbits lo' n' w"
  by (rule bit_word_eqI) (auto simp: get_sbits_def set_bits_def bit_simps min_def)

lemma get_bits_zero [simp]: "get_bits lo n 0 = 0"
  by (simp add: get_bits_def)

lemma take_bit_unat_less:
  "unat (w::'w::len word) < 2 ^ n \<Longrightarrow> take_bit n w = w"
  by (simp add: word_unat_eq_iff unsigned_take_bit_eq take_bit_nat_eq_self_iff)

lemma get_bits_less:
  "n < LENGTH('w) \<Longrightarrow> unat (get_bits lo n (w::'w::len word)) < 2 ^ n"
  by (simp add: get_bits_def unsigned_take_bit_eq)

lemma rd_wr [field_simps_bits]:
  "in_word LENGTH('w) f \<Longrightarrow> rd f (wr f v (w::'w::len word)) = take_bit (snd f) v"
  by (simp add: rd_def wr_def in_word_def get_set_bits)

lemma rd_wr_other [field_simps_bits]:
  "apart f g \<Longrightarrow> rd f (wr g v (w::'w::len word)) = rd f w"
  by (auto simp: rd_def wr_def apart_def intro!: get_set_bits_other)

lemma rd_s_wr [field_simps_bits]:
  "in_word LENGTH('w) f \<Longrightarrow> rd_s f (wr f v (w::'w::len word)) = signed_take_bit (snd f - 1) v"
  by (simp add: rd_s_def wr_def in_word_def get_set_sbits)

lemma rd_s_wr_other [field_simps_bits]:
  "in_word LENGTH('w) f \<Longrightarrow> apart f g \<Longrightarrow> rd_s f (wr g v (w::'w::len word)) = rd_s f w"
  by (auto simp: rd_s_def wr_def apart_def in_word_def intro!: get_set_sbits_other)

lemma apart_sym: "apart f g \<longleftrightarrow> apart g f"
  by (auto simp: apart_def)

lemma rd_wr_all_other:
  "list_all (apart f) fs \<Longrightarrow> rd f (wr_all fs vs (w::'w::len word)) = rd f w"
  by (induction fs arbitrary: vs w) (simp_all add: rd_wr_other)

lemma rd_s_wr_all_other:
  "in_word LENGTH('w) f \<Longrightarrow> list_all (apart f) fs \<Longrightarrow>
    rd_s f (wr_all fs vs (w::'w::len word)) = rd_s f w"
  by (induction fs arbitrary: vs w) (simp_all add: rd_s_wr_other)

text \<open>
  The contract of a struct layout: the members lie inside the word and do not overlap.  Then
  every member reads back what was written to it, truncated to its width, whatever the other
  members received and whatever the word held before.
\<close>

locale bitfield_struct =
  fixes members :: "bitfield list" and word_type :: "'w::len itself"
  assumes in_word: "list_all (in_word LENGTH('w)) members"
    and disjoint: "disjoint_fields members"
begin

lemma rd_member:
  assumes "i < length members" and "i < length vs"
  shows "rd (members ! i) (wr_all members vs (w::'w word)) = take_bit (snd (members ! i)) (vs ! i)"
  using in_word disjoint assms
proof (induction members arbitrary: i vs w)
  case (Cons f fs)
  then show ?case
    by (cases i; cases vs) (simp_all add: rd_wr_all_other rd_wr)
qed simp

lemma rd_s_member:
  assumes "i < length members" and "i < length vs"
  shows "rd_s (members ! i) (wr_all members vs (w::'w word)) =
    signed_take_bit (snd (members ! i) - 1) (vs ! i)"
  using in_word disjoint assms
proof (induction members arbitrary: i vs w)
  case (Cons f fs)
  then show ?case
    by (cases i; cases vs) (simp_all add: rd_s_wr_all_other rd_s_wr)
qed simp

end

subsection \<open>Truncation of values that fit\<close>

lemma signed_take_bit_fits:
  assumes "- (2 ^ n) \<le> sint (w::'w::len word)" and "sint w < 2 ^ n"
  shows "signed_take_bit n w = w"
proof (rule bit_word_eqI)
  fix i assume i: "i < LENGTH('w)"
  have "signed_take_bit n (sint w) = sint w"
    using assms by (simp add: signed_take_bit_int_eq_self)
  then have "bit (sint w) (min i n) = bit (sint w) i"
    by (metis Bit_Operations.bit_signed_take_bit_iff min.commute possible_bit_int)
  moreover have "bit (sint w) j = bit w j" if "j < LENGTH('w)" for j
    using that by (auto simp: bit_sint_iff)
  ultimately show "bit (signed_take_bit n w) i = bit w i"
    using i by (simp add: Bit_Operations.bit_signed_take_bit_iff min.commute)
qed

lemma ucast_signed_take_bit_ucast:
  "n < 32 \<Longrightarrow> ucast (signed_take_bit n (ucast (c::u32) :: u64)) = signed_take_bit n c"
  by (rule bit_word_eqI) (auto simp: bit_simps min_def)

lemma ucast_take_bit_ucast:
  "ucast (take_bit n (ucast (c::u32) :: u64)) = take_bit n c"
  by (rule bit_word_eqI) (auto simp: bit_simps)

lemma unat_less_u32: "unat (c::u32) < 4294967296"
  using unsigned_less [where ?'b = 32 and ?'a = nat, of c] by simp

lemma unat_of_nat_u32: "n < 2 ^ 32 \<Longrightarrow> unat (of_nat n :: u32) = n"
  by (simp add: unat_of_nat)

lemma unat_of_nat_u64: "n < 2 ^ 64 \<Longrightarrow> unat (of_nat n :: u64) = n"
  by (simp add: unat_of_nat)

lemma unat_ucast_u64 [simp]: "unat (ucast (c::u32) :: u64) = unat c"
  using unat_less_u32 [of c] by (simp add: unsigned_ucast_eq take_bit_nat_eq_self_iff)

subsection \<open>Little-endian encodings\<close>

lemma le_bytes_length [simp]: "length (le_bytes n w) = n"
  by (induction n arbitrary: w) simp_all

lemma le_word_bytes:
  "le_word (le_bytes n (w::'w::len word)) = take_bit (8 * n) w"
proof (induction n arbitrary: w)
  case (Suc n)
  have "ucast (ucast w :: u8) OR push_bit 8 (take_bit (8 * n) (drop_bit 8 w)) = take_bit (8 + 8 * n) w"
    by (rule bit_word_eqI) (auto simp: bit_simps)
  with Suc show ?case by simp
qed simp

lemma le_word_bytes_full:
  "LENGTH('w::len) = 8 * n \<Longrightarrow> le_word (le_bytes n (w::'w word)) = w"
  by (simp add: le_word_bytes take_bit_word_eq_self)

lemma le_bytes_nth: "i < n \<Longrightarrow> le_bytes n w ! i = ucast (drop_bit (8 * i) w)"
proof (induction n arbitrary: i w)
  case (Suc n)
  then show ?case by (cases i) (simp_all add: ac_simps)
qed simp

text \<open>Storing a truncated word stores the low bytes of the word.\<close>

lemma le_bytes_narrow:
  assumes "8 * n \<le> LENGTH('v)"
  shows "le_bytes n (ucast (w::'w::len word) :: 'v::len word) = le_bytes n w"
proof (rule nth_equalityI)
  fix i assume i: "i < length (le_bytes n (ucast w :: 'v word))"
  have "(ucast (drop_bit (8 * i) (ucast w :: 'v word)) :: u8) = ucast (drop_bit (8 * i) w)"
  proof (rule bit_word_eqI)
    fix j assume j: "j < LENGTH(8)"
    have "8 * i + j < LENGTH('v)" using i j assms by simp
    then show "bit (ucast (drop_bit (8 * i) (ucast w :: 'v word)) :: u8) j =
        bit (ucast (drop_bit (8 * i) w) :: u8) j"
      by (auto simp: bit_simps)
  qed
  with i show "le_bytes n (ucast w :: 'v word) ! i = le_bytes n w ! i"
    by (simp add: le_bytes_nth)
qed simp

end
