(* ===== verification/U_Inst.thy ===== *)
theory U_Inst
  imports Prelude
begin

text \<open>
  The instruction formats of uwasm: \<^verbatim>\<open>include/u_am.h\<close>, \<^verbatim>\<open>src/ubh/u_opcode_list.def\<close>,
  \<^verbatim>\<open>src/ubh/u_inst.h\<close> and \<^verbatim>\<open>src/ubh/u_inst.cxx\<close>, with the part of
  \<^verbatim>\<open>src/encoder/u_inst_encoder.h\<close> that appends instructions to a code body and the part of
  \<^verbatim>\<open>U_MODULE::Expand_code\<close> that decodes one instruction.  The unions \<^verbatim>\<open>U_INST32\<close> and
  \<^verbatim>\<open>U_INST64\<close> are a 32-bit and a 64-bit word; every struct member is a bit-field
  (position, width).  The lemmas show that decoding is the inverse of encoding for every
  address mode, for single instructions and for whole instruction tables.
\<close>

section \<open>Value types, address modes, opcodes\<close>

datatype valtype = I32 | I64 | F32 | F64 | VALTY_UNKNOWN

definition valtype_num :: "valtype \<Rightarrow> nat" where
  "valtype_num ty = (case ty of I32 \<Rightarrow> 0 | I64 \<Rightarrow> 1 | F32 \<Rightarrow> 2 | F64 \<Rightarrow> 3 | VALTY_UNKNOWN \<Rightarrow> 10)"

datatype ty_am =
    TY_AM32
  | TY_AM32_OFS
  | TY_AM32_R
  | TY_AM32_R_IMM
  | TY_AM32_R_OFS
  | TY_AM32_R_R
  | TY_AM32S_R_R_IMM
  | TY_AM32S_R_R_OFS
  | TY_AM32S_R_R_R
  | TY_AM64_R_IMM
  | TY_AM64_R_OFS
  | TY_AM64_R_R_IMM
  | TY_AM64_R_R_OFS
  | TY_AM64_R_R_R

definition VALTY_SZ :: nat where
  "VALTY_SZ = 2"

definition VALTY_COUNT :: nat where "VALTY_COUNT = 4"

text \<open>One row per line of the opcode list: enumeration value, enumerator, mnemonic, address mode.\<close>

definition u_opcode_list :: "(u32 \<times> string \<times> string \<times> ty_am) list" where
  "u_opcode_list =
    [(0x00, ''NOP'', ''nop'', TY_AM32),
     (0x01, ''UNREACH'', ''unreach'', TY_AM32),
     (0x02, ''RETURN'', ''return'', TY_AM32),
     (0x03, ''CALL'', ''call'', TY_AM32_OFS),
     (0x04, ''JMP'', ''jmp'', TY_AM32_OFS),
     (0x05, ''CALL_INDIRECT'', ''call_indirect'', TY_AM32_R),
     (0x06, ''JMP_INDIRECT'', ''jmp_indirect'', TY_AM32_R),
     (0x07, ''MEMORYSIZE'', ''memorysize'', TY_AM32_R),
     (0x08, ''MEMORYGROW'', ''memorygrow'', TY_AM32_R_R),
     (0x09, ''ADD_RI'', ''add'', TY_AM32_R_IMM),
     (0x0a, ''JEZ'', ''jez'', TY_AM32_R_OFS),
     (0x0b, ''JNZ'', ''jnz'', TY_AM32_R_OFS),
     (0x0c, ''JLZ'', ''jlz'', TY_AM32_R_OFS),
     (0x0d, ''JLEZ'', ''jlez'', TY_AM32_R_OFS),
     (0x0e, ''JGZ'', ''jgz'', TY_AM32_R_OFS),
     (0x0f, ''JGEZ'', ''jgez'', TY_AM32_R_OFS),
     (0x10, ''LLDA'', ''llda'', TY_AM32_R_OFS),
     (0x11, ''GLDA'', ''glda'', TY_AM32_R_OFS),
     (0x12, ''MOV'', ''mov'', TY_AM32_R_R),
     (0x13, ''ADD_RR'', ''add'', TY_AM32_R_R),
     (0x14, ''CONST'', ''const'', TY_AM32_R_IMM),
     (0x15, ''ADDS_I'', ''add'', TY_AM32S_R_R_IMM),
     (0x16, ''JEQ'', ''jeq'', TY_AM32S_R_R_OFS),
     (0x17, ''JNE'', ''jne'', TY_AM32S_R_R_OFS),
     (0x18, ''JLT'', ''jlt'', TY_AM32S_R_R_OFS),
     (0x19, ''JLE'', ''jle'', TY_AM32S_R_R_OFS),
     (0x1a, ''JGT'', ''jgt'', TY_AM32S_R_R_OFS),
     (0x1b, ''JGE'', ''jge'', TY_AM32S_R_R_OFS),
     (0x1c, ''JLT_U'', ''jlt_u'', TY_AM32S_R_R_OFS),
     (0x1d, ''JLE_U'', ''jle_u'', TY_AM32S_R_R_OFS),
     (0x1e, ''JGT_U'', ''jgt_u'', TY_AM32S_R_R_OFS),
     (0x1f, ''JGE_U'', ''jge_u'', TY_AM32S_R_R_OFS),
     (0x20, ''LOAD_RROFS'', ''load'', TY_AM32S_R_R_IMM),
     (0x21, ''LOAD8_RROFS'', ''load8'', TY_AM32S_R_R_IMM),
     (0x22, ''LOAD8_U_RROFS'', ''load8_u'', TY_AM32S_R_R_IMM),
     (0x23, ''LOAD16_RROFS'', ''load16'', TY_AM32S_R_R_IMM),
     (0x24, ''LOAD16_U_RROFS'', ''load16_u'', TY_AM32S_R_R_IMM),
     (0x25, ''LOAD32_RROFS'', ''load32'', TY_AM32S_R_R_IMM),
     (0x26, ''LOAD32_U_RROFS'', ''load32_u'', TY_AM32S_R_R_IMM),
     (0x27, ''STORE'', ''store'', TY_AM32S_R_R_IMM),
     (0x28, ''STORE8'', ''store8'', TY_AM32S_R_R_IMM),
     (0x29, ''STORE16'', ''store16'', TY_AM32S_R_R_IMM),
     (0x2a, ''STORE32'', ''store32'', TY_AM32S_R_R_IMM),
     (0x2b, ''LLOAD_ROFS'', ''lload'', TY_AM32_R_IMM),
     (0x2c, ''LLOAD8_ROFS'', ''lload8'', TY_AM32_R_IMM),
     (0x2d, ''LLOAD8_U_ROFS'', ''lload8_u'', TY_AM32_R_IMM),
     (0x2e, ''LLOAD16_ROFS'', ''lload16'', TY_AM32_R_IMM),
     (0x2f, ''LLOAD16_U_ROFS'', ''lload16_u'', TY_AM32_R_IMM),
     (0x30, ''LLOAD32_ROFS'', ''lload32'', TY_AM32_R_IMM),
     (0x31, ''LLOAD32_U_ROFS'', ''lload32_u'', TY_AM32_R_IMM),
     (0x32, ''LSTORE'', ''lstore'', TY_AM32_R_IMM),
     (0x33, ''LSTORE8'', ''lstore8'', TY_AM32_R_IMM),
     (0x34, ''LSTORE16'', ''lstore16'', TY_AM32_R_IMM),
     (0x35, ''LSTORE32'', ''lstore32'', TY_AM32_R_IMM),
     (0x36, ''ADDS'', ''add'', TY_AM32S_R_R_R),
     (0x37, ''SUBS'', ''sub'', TY_AM32S_R_R_R),
     (0x38, ''ROTL'', ''rotl'', TY_AM32S_R_R_R),
     (0x39, ''ROTR'', ''rotr'', TY_AM32S_R_R_R),
     (0x3a, ''CONV_I32'', ''conv_i32'', TY_AM32_R_R),
     (0x3b, ''CONV_I32_U'', ''conv_i32_u'', TY_AM32_R_R),
     (0x3c, ''CONV_I64'', ''conv_i64'', TY_AM32_R_R),
     (0x3d, ''CONV_F32'', ''conv_f32'', TY_AM32_R_R),
     (0x3e, ''CONV_F64'', ''conv_f64'', TY_AM32_R_R),
     (0x3f, ''EQZ'', ''eqz'', TY_AM32_R_R),
     (0x40, ''CEIL'', ''ceil'', TY_AM32_R_R),
     (0x41, ''FLOOR'', ''floor'', TY_AM32_R_R),
     (0x42, ''SQRT'', ''sqrt'', TY_AM32_R_R),
     (0x43, ''NEG'', ''neg'', TY_AM32_R_R),
     (0x44, ''REINTERPRET_F32'', ''reIntr_f32'', TY_AM32_R_R),
     (0x45, ''REINTERPRET_F64'', ''reIntr_f64'', TY_AM32_R_R),
     (0x46, ''REINTERPRET_I32'', ''reIntr_i32'', TY_AM32_R_R),
     (0x47, ''REINTERPRET_I64'', ''reIntr_i64'', TY_AM32_R_R),
     (0x48, ''BREAK'', ''break'', TY_AM32),
     (0x49, ''UNUSED14'', ''-'', TY_AM32),
     (0x4a, ''UNUSED15'', ''-'', TY_AM32),
     (0x4b, ''UNUSED16'', ''-'', TY_AM32),
     (0x4c, ''UNUSED17'', ''-'', TY_AM32),
     (0x4d, ''UNUSED18'', ''-'', TY_AM32),
     (0x4e, ''UNUSED19'', ''-'', TY_AM32),
     (0x4f, ''UNUSED20'', ''-'', TY_AM32),
     (0x50, ''UNUSED21'', ''-'', TY_AM32),
     (0x51, ''UNUSED22'', ''-'', TY_AM32),
     (0x52, ''UNUSED23'', ''-'', TY_AM32),
     (0x53, ''UNUSED24'', ''-'', TY_AM32),
     (0x54, ''UNUSED25'', ''-'', TY_AM32),
     (0x55, ''UNUSED26'', ''-'', TY_AM32),
     (0x56, ''UNUSED27'', ''-'', TY_AM32),
     (0x57, ''UNUSED28'', ''-'', TY_AM32),
     (0x58, ''UNUSED29'', ''-'', TY_AM32),
     (0x59, ''UNUSED30'', ''-'', TY_AM32),
     (0x5a, ''UNUSED31'', ''-'', TY_AM32),
     (0x5b, ''UNUSED32'', ''-'', TY_AM32),
     (0x5c, ''UNUSED33'', ''-'', TY_AM32),
     (0x5d, ''UNUSED34'', ''-'', TY_AM32),
     (0x5e, ''UNUSED35'', ''-'', TY_AM32),
     (0x5f, ''UNUSED36'', ''-'', TY_AM32),
     (0x60, ''UNUSED37'', ''-'', TY_AM32),
     (0x61, ''UNUSED38'', ''-'', TY_AM32),
     (0x62, ''UNUSED39'', ''-'', TY_AM32),
     (0x63, ''UNUSED40'', ''-'', TY_AM32),
     (0x64, ''UNUSED41'', ''-'', TY_AM32),
     (0x65, ''UNUSED42'', ''-'', TY_AM32),
     (0x66, ''UNUSED43'', ''-'', TY_AM32),
     (0x67, ''UNUSED44'', ''-'', TY_AM32),
     (0x68, ''UNUSED45'', ''-'', TY_AM32),
     (0x69, ''UNUSED46'', ''-'', TY_AM32),
     (0x6a, ''UNUSED47'', ''-'', TY_AM32),
     (0x6b, ''UNUSED48'', ''-'', TY_AM32),
     (0x6c, ''UNUSED49'', ''-'', TY_AM32),
     (0x6d, ''UNUSED50'', ''-'', TY_AM32),
     (0x6e, ''UNUSED51'', ''-'', TY_AM32),
     (0x6f, ''UNUSED52'', ''-'', TY_AM32),
     (0x70, ''UNUSED53'', ''-'', TY_AM32),
     (0x71, ''UNUSED54'', ''-'', TY_AM32),
     (0x72, ''UNUSED55'', ''-'', TY_AM32),
     (0x73, ''UNUSED56'', ''-'', TY_AM32),
     (0x74, ''UNUSED57'', ''-'', TY_AM32),
     (0x75, ''UNUSED58'', ''-'', TY_AM32),
     (0x76, ''UNUSED59'', ''-'', TY_AM32),
     (0x77, ''UNUSED60'', ''-'', TY_AM32),
     (0x78, ''UNUSED61'', ''-'', TY_AM32),
     (0x79, ''UNUSED62'', ''-'', TY_AM32),
     (0x7a, ''UNUSED63'', ''-'', TY_AM32),
     (0x7b, ''UNUSED64'', ''-'', TY_AM32),
     (0x7c, ''UNUSED65'', ''-'', TY_AM32),
     (0x7d, ''UNUSED66'', ''-'', TY_AM32),
     (0x7e, ''UNUSED67'', ''-'', TY_AM32),
     (0x7f, ''UNUSED68'', ''-'', TY_AM32),
     (0x80, ''CONST_L'', ''const_l'', TY_AM64_R_IMM),
     (0x81, ''CONST_L_HIGH'', ''const_l_high'', TY_AM64_R_IMM),
     (0x82, ''CTZ'', ''ctz'', TY_AM64_R_OFS),
     (0x83, ''POPCNT'', ''popcnt'', TY_AM64_R_OFS),
     (0x84, ''ADD_RRI'', ''add'', TY_AM64_R_R_IMM),
     (0x85, ''JEQ_L'', ''jeq'', TY_AM64_R_R_OFS),
     (0x86, ''JNE_L'', ''jne'', TY_AM64_R_R_OFS),
     (0x87, ''JLT_L'', ''jlt'', TY_AM64_R_R_OFS),
     (0x88, ''JLE_L'', ''jle'', TY_AM64_R_R_OFS),
     (0x89, ''JGT_L'', ''jgt'', TY_AM64_R_R_OFS),
     (0x8a, ''JGE_L'', ''jge'', TY_AM64_R_R_OFS),
     (0x8b, ''JLT_U_L'', ''jlt_u'', TY_AM64_R_R_OFS),
     (0x8c, ''JLE_U_L'', ''jle_u'', TY_AM64_R_R_OFS),
     (0x8d, ''JGT_U_L'', ''jgt_u'', TY_AM64_R_R_OFS),
     (0x8e, ''JGE_U_L'', ''jge_u'', TY_AM64_R_R_OFS),
     (0x8f, ''LOAD_RROFS_L'', ''load'', TY_AM64_R_R_IMM),
     (0x90, ''LOAD8_RROFS_L'', ''load8'', TY_AM64_R_R_IMM),
     (0x91, ''LOAD8_U_RROFS_L'', ''load8_u'', TY_AM64_R_R_IMM),
     (0x92, ''LOAD16_RROFS_L'', ''load16'', TY_AM64_R_R_IMM),
     (0x93, ''LOAD16_U_RROFS_L'', ''load16_u'', TY_AM64_R_R_IMM),
     (0x94, ''LOAD32_RROFS_L'', ''load32'', TY_AM64_R_R_IMM),
     (0x95, ''LOAD32_U_RROFS_L'', ''load32_u'', TY_AM64_R_R_IMM),
     (0x96, ''STORE_L'', ''store'', TY_AM64_R_R_IMM),
     (0x97, ''STORE8_L'', ''store8'', TY_AM64_R_R_IMM),
     (0x98, ''STORE16_L'', ''store16'', TY_AM64_R_R_IMM),
     (0x99, ''STORE32_L'', ''store32'', TY_AM64_R_R_IMM),
     (0x9a, ''SELECT'', ''select'', TY_AM64_R_R_OFS),
     (0x9b, ''LLOAD_ROFS_L'', ''lload'', TY_AM64_R_IMM),
     (0x9c, ''LLOAD8_ROFS_L'', ''lload8'', TY_AM64_R_IMM),
     (0x9d, ''LLOAD8_U_ROFS_L'', ''lload8_u'', TY_AM64_R_IMM),
     (0x9e, ''LLOAD16_ROFS_L'', ''lload16'', TY_AM64_R_IMM),
     (0x9f, ''LLOAD16_U_ROFS_L'', ''lload16_u'', TY_AM64_R_IMM),
     (0xa0, ''LLOAD32_ROFS_L'', ''lload32'', TY_AM64_R_IMM),
     (0xa1, ''LLOAD32_U_ROFS_L'', ''lload32_u'', TY_AM64_R_IMM),
     (0xa2, ''LSTORE_L'', ''lstore'', TY_AM64_R_IMM),
     (0xa3, ''LSTORE8_L'', ''lstore8'', TY_AM64_R_IMM),
     (0xa4, ''LSTORE16_L'', ''lstore16'', TY_AM64_R_IMM),
     (0xa5, ''LSTORE32_L'', ''lstore32'', TY_AM64_R_IMM),
     (0xa6, ''EQ'', ''eq'', TY_AM64_R_R_R),
     (0xa7, ''NE'', ''ne'', TY_AM64_R_R_R),
     (0xa8, ''LT'', ''lt'', TY_AM64_R_R_R),
     (0xa9, ''LT_U'', ''lt_u'', TY_AM64_R_R_R),
     (0xaa, ''GT'', ''gt'', TY_AM64_R_R_R),
     (0xab, ''GT_U'', ''gt_u'', TY_AM64_R_R_R),
     (0xac, ''LE'', ''le'', TY_AM64_R_R_R),
     (0xad, ''LE_U'', ''le_u'', TY_AM64_R_R_R),
     (0xae, ''GE'', ''ge'', TY_AM64_R_R_R),
     (0xaf, ''GE_U'', ''ge_u'', TY_AM64_R_R_R),
     (0xb0, ''ADD'', ''add'', TY_AM64_R_R_R),
     (0xb1, ''SUB'', ''sub'', TY_AM64_R_R_R),
     (0xb2, ''MUL'', ''mul'', TY_AM64_R_R_R),
     (0xb3, ''DIV'', ''div'', TY_AM64_R_R_R),
     (0xb4, ''DIV_U'', ''div_u'', TY_AM64_R_R_R),
     (0xb5, ''REM'', ''rem'', TY_AM64_R_R_R),
     (0xb6, ''REM_U'', ''rem_u'', TY_AM64_R_R_R),
     (0xb7, ''AND'', ''and'', TY_AM64_R_R_R),
     (0xb8, ''OR'', ''or'', TY_AM64_R_R_R),
     (0xb9, ''XOR'', ''xor'', TY_AM64_R_R_R),
     (0xba, ''SHL'', ''shl'', TY_AM64_R_R_R),
     (0xbb, ''SHR'', ''shr'', TY_AM64_R_R_R),
     (0xbc, ''SHR_U'', ''shr_u'', TY_AM64_R_R_R),
     (0xbd, ''MIN'', ''min'', TY_AM64_R_R_R),
     (0xb1e, ''MAX'', ''max'', TY_AM64_R_R_R),
     (0xbf, ''LLDA_L'', ''llda'', TY_AM64_R_OFS),
     (0xc0, ''BUILTIN'', ''builtin'', TY_AM64_R_R_IMM),
     (0xc1, ''GGET'', ''globalget'', TY_AM64_R_OFS),
     (0xc2, ''GSET'', ''globalset'', TY_AM64_R_OFS)]"

text \<open>The tables are initialised in the order of the list, so they are indexed by position.\<close>

definition UWINST_TY_AM :: "ty_am list" where
  "UWINST_TY_AM = map (\<lambda>(opcode, op_enum, name, ty_am). ty_am) u_opcode_list"

definition UWINST_NAME :: "string list" where
  "UWINST_NAME = map (\<lambda>(opcode, op_enum, name, ty_am). name) u_opcode_list"

text \<open>The enumeration \<^verbatim>\<open>U_OPCODE\<close>: the value of an enumerator.\<close>

definition U_OPCODE :: "string \<Rightarrow> u32 option" where
  "U_OPCODE e = map_of (map (\<lambda>(opcode, op_enum, name, ty_am). (op_enum, opcode)) u_opcode_list) e"

section \<open>Bit-fields of the instruction unions\<close>

text \<open>The common prefix of all formats.\<close>

definition f_opcode :: bitfield where "f_opcode = (0, 8)"
definition f_ty :: bitfield where "f_ty = (8, 2)"

text \<open>The members of \<^verbatim>\<open>U_INST32\<close>.\<close>

definition OFS_ofs :: bitfield where "OFS_ofs = (10, 22)"
definition R_r1 :: bitfield where "R_r1 = (22, 10)"
definition R_IMM_r1 :: bitfield where "R_IMM_r1 = (10, 10)"
definition R_IMM_imm :: bitfield where "R_IMM_imm = (22, 10)"
definition R_OFS_r1 :: bitfield where "R_OFS_r1 = (10, 10)"
definition R_OFS_ofs :: bitfield where "R_OFS_ofs = (22, 10)"
definition R_R_r1 :: bitfield where "R_R_r1 = (10, 10)"
definition R_R_r2 :: bitfield where "R_R_r2 = (22, 10)"
definition R_R_IMM_r1 :: bitfield where "R_R_IMM_r1 = (10, 7)"
definition R_R_IMM_r2 :: bitfield where "R_R_IMM_r2 = (17, 7)"
definition R_R_IMM_imm :: bitfield where "R_R_IMM_imm = (24, 8)"
definition R_R_OFS_r1 :: bitfield where "R_R_OFS_r1 = (10, 7)"
definition R_R_OFS_r2 :: bitfield where "R_R_OFS_r2 = (17, 7)"
definition R_R_OFS_ofs :: bitfield where "R_R_OFS_ofs = (24, 8)"
definition R_R_R_r1 :: bitfield where "R_R_R_r1 = (10, 7)"
definition R_R_R_r2 :: bitfield where "R_R_R_r2 = (17, 7)"
definition R_R_R_r3 :: bitfield where "R_R_R_r3 = (25, 7)"

text \<open>The members of \<^verbatim>\<open>U_INST64\<close>.\<close>

definition L_R_IMM_r1 :: bitfield where "L_R_IMM_r1 = (10, 10)"
definition L_R_IMM_imm :: bitfield where "L_R_IMM_imm = (32, 32)"
definition L_R_OFS_r1 :: bitfield where "L_R_OFS_r1 = (10, 10)"
definition L_R_OFS_ofs :: bitfield where "L_R_OFS_ofs = (32, 32)"
definition L_R_R_IMM_r1 :: bitfield where "L_R_R_IMM_r1 = (10, 10)"
definition L_R_R_IMM_imm :: bitfield where "L_R_R_IMM_imm = (32, 22)"
definition L_R_R_IMM_r2 :: bitfield where "L_R_R_IMM_r2 = (54, 10)"
definition L_R_R_OFS_r1 :: bitfield where "L_R_R_OFS_r1 = (10, 10)"
definition L_R_R_OFS_ofs :: bitfield where "L_R_R_OFS_ofs = (32, 22)"
definition L_R_R_OFS_r2 :: bitfield where "L_R_R_OFS_r2 = (54, 10)"
definition L_R_R_R_r1 :: bitfield where "L_R_R_R_r1 = (34, 10)"
definition L_R_R_R_r2 :: bitfield where "L_R_R_R_r2 = (44, 10)"
definition L_R_R_R_r3 :: bitfield where "L_R_R_R_r3 = (54, 10)"

lemmas field_defs =
  f_opcode_def f_ty_def OFS_ofs_def R_r1_def R_IMM_r1_def R_IMM_imm_def R_OFS_r1_def
  R_OFS_ofs_def R_R_r1_def R_R_r2_def R_R_IMM_r1_def R_R_IMM_r2_def R_R_IMM_imm_def
  R_R_OFS_r1_def R_R_OFS_r2_def R_R_OFS_ofs_def R_R_R_r1_def R_R_R_r2_def R_R_R_r3_def
  L_R_IMM_r1_def L_R_IMM_imm_def L_R_OFS_r1_def L_R_OFS_ofs_def L_R_R_IMM_r1_def
  L_R_R_IMM_imm_def L_R_R_IMM_r2_def L_R_R_OFS_r1_def L_R_R_OFS_ofs_def L_R_R_OFS_r2_def
  L_R_R_R_r1_def L_R_R_R_r2_def L_R_R_R_r3_def

section \<open>Encoding one instruction\<close>

definition U7BIT_REG_MAX :: u32 where "U7BIT_REG_MAX = 128"
definition U10BIT_REG_MAX :: u32 where "U10BIT_REG_MAX = 1024"

definition Check_content_size :: "nat \<Rightarrow> nat \<Rightarrow> 'a res \<Rightarrow> 'a res" where
  "Check_content_size required actual r = Is_True (required = actual) r"

definition Check_imm :: "nat \<Rightarrow> u32 \<Rightarrow> 'a res \<Rightarrow> 'a res" where
  "Check_imm nbit imm r =
    (let u_upper_bound = push_bit nbit (1::u64);
         i_upper_bound = push_bit (nbit - 1) (1::u32);
         i_lower_bound = - i_upper_bound;
         in_u_bound = (ucast imm < u_upper_bound);
         in_i_bound = (sint i_lower_bound \<le> sint imm \<and> sint imm < sint i_upper_bound)
     in Is_True (in_u_bound \<or> in_i_bound) r)"

definition Check_reg :: "u32 \<Rightarrow> u32 \<Rightarrow> 'a res \<Rightarrow> 'a res" where
  "Check_reg max_idx reg_idx r = Is_True (reg_idx \<le> max_idx) r"

definition Init_inst32 :: "u32 \<Rightarrow> ty_am \<Rightarrow> u32 \<Rightarrow> valtype \<Rightarrow> u32 list \<Rightarrow> u32 res" where
  "Init_inst32 inst0 ty_am opcode valtype content =
    (let inst = wr f_ty (of_nat (valtype_num valtype)) (wr f_opcode opcode inst0);
         content_size = length content
     in case ty_am of
       TY_AM32 \<Rightarrow>
         Check_content_size 0 content_size (Inr inst)
     | TY_AM32_OFS \<Rightarrow>
         Check_content_size 1 content_size (
         bindr (vec_at content 0) (\<lambda>c0.
         Check_imm 22 c0 (
         Inr (wr OFS_ofs c0 inst))))
     | TY_AM32_R \<Rightarrow>
         Check_content_size 1 content_size (
         bindr (vec_at content 0) (\<lambda>c0.
         Check_reg U10BIT_REG_MAX c0 (
         Inr (wr R_r1 c0 inst))))
     | TY_AM32_R_IMM \<Rightarrow>
         Check_content_size 2 content_size (
         bindr (vec_at content 0) (\<lambda>c0.
         Check_reg U10BIT_REG_MAX c0 (
         let inst = wr R_IMM_r1 c0 inst in
         bindr (vec_at content 1) (\<lambda>c1.
         Check_imm 22 c1 (
         Inr (wr R_IMM_imm c1 inst))))))
     | TY_AM32_R_OFS \<Rightarrow>
         Check_content_size 2 content_size (
         bindr (vec_at content 0) (\<lambda>c0.
         Check_reg U10BIT_REG_MAX c0 (
         let inst = wr R_OFS_r1 c0 inst in
         bindr (vec_at content 1) (\<lambda>c1.
         Check_imm 22 c1 (
         Inr (wr R_OFS_ofs c1 inst))))))
     | TY_AM32_R_R \<Rightarrow>
         Check_content_size 2 content_size (
         bindr (vec_at content 0) (\<lambda>c0.
         Check_reg U10BIT_REG_MAX c0 (
         let inst = wr R_R_r1 c0 inst in
         bindr (vec_at content 1) (\<lambda>c1.
         Check_reg U10BIT_REG_MAX c1 (
         Inr (wr R_R_r2 c1 inst))))))
     | TY_AM32S_R_R_IMM \<Rightarrow>
         Check_content_size 3 content_size (
         bindr (vec_at content 0) (\<lambda>c0.
         Check_reg U7BIT_REG_MAX c0 (
         let inst = wr R_R_IMM_r1 c0 inst in
         bindr (vec_at content 1) (\<lambda>c1.
         Check_reg U7BIT_REG_MAX c1 (
         let inst = wr R_R_IMM_r2 c1 inst in
         bindr (vec_at content 2) (\<lambda>c2.
         Check_imm 8 c2 (
         Inr (wr R_R_IMM_imm c2 inst))))))))
     | TY_AM32S_R_R_OFS \<Rightarrow>
         Check_content_size 3 content_size (
         bindr (vec_at content 0) (\<lambda>c0.
         Check_reg U7BIT_REG_MAX c0 (
         let inst = wr R_R_OFS_r1 c0 inst in
         bindr (vec_at content 1) (\<lambda>c1.
         Check_reg U7BIT_REG_MAX c1 (
         let inst = wr R_R_OFS_r2 c1 inst in
         bindr (vec_at content 2) (\<lambda>c2.
         Check_imm 8 c2 (
         Inr (wr R_R_OFS_ofs c2 inst))))))))
     | TY_AM32S_R_R_R \<Rightarrow>
         Check_content_size 3 content_size (
         bindr (vec_at content 0) (\<lambda>c0.
         Check_reg U7BIT_REG_MAX c0 (
         let inst = wr R_R_R_r1 c0 inst in
         bindr (vec_at content 1) (\<lambda>c1.
         Check_reg U7BIT_REG_MAX c1 (
         let inst = wr R_R_R_r2 c1 inst in
         bindr (vec_at content 2) (\<lambda>c2.
         Check_reg U7BIT_REG_MAX c2 (
         Inr (wr R_R_R_r3 c2 inst))))))))
     | _ \<Rightarrow> Inl Assertion)"

definition Init_inst64 :: "u64 \<Rightarrow> ty_am \<Rightarrow> u32 \<Rightarrow> valtype \<Rightarrow> u32 list \<Rightarrow> u64 res" where
  "Init_inst64 inst0 ty_am opcode valtype content =
    (let inst = wr f_ty (of_nat (valtype_num valtype)) (wr f_opcode (ucast opcode) inst0);
         content_size = length content
     in case ty_am of
       TY_AM64_R_IMM \<Rightarrow>
         Check_content_size 2 content_size (
         bindr (vec_at content 0) (\<lambda>c0.
         Check_reg U10BIT_REG_MAX c0 (
         let inst = wr L_R_IMM_r1 (ucast c0) inst in
         bindr (vec_at content 1) (\<lambda>c1.
         Check_imm 32 c1 (
         Inr (wr L_R_IMM_imm (ucast c1) inst))))))
     | TY_AM64_R_OFS \<Rightarrow>
         Check_content_size 2 content_size (
         bindr (vec_at content 0) (\<lambda>c0.
         Check_reg U10BIT_REG_MAX c0 (
         let inst = wr L_R_OFS_r1 (ucast c0) inst in
         bindr (vec_at content 1) (\<lambda>c1.
         Check_imm 32 c1 (
         Inr (wr L_R_OFS_ofs (ucast c1) inst))))))
     | TY_AM64_R_R_IMM \<Rightarrow>
         Check_content_size 3 content_size (
         bindr (vec_at content 0) (\<lambda>c0.
         Check_reg U10BIT_REG_MAX c0 (
         let inst = wr L_R_R_IMM_r1 (ucast c0) inst in
         bindr (vec_at content 1) (\<lambda>c1.
         Check_reg U10BIT_REG_MAX c1 (
         let inst = wr L_R_R_IMM_r2 (ucast c1) inst in
         bindr (vec_at content 2) (\<lambda>c2.
         Check_imm 22 c2 (
         Inr (wr L_R_R_IMM_imm (ucast c2) inst))))))))
     | TY_AM64_R_R_OFS \<Rightarrow>
         Check_content_size 3 content_size (
         bindr (vec_at content 0) (\<lambda>c0.
         Check_reg U10BIT_REG_MAX c0 (
         let inst = wr L_R_R_OFS_r1 (ucast c0) inst in
         bindr (vec_at content 1) (\<lambda>c1.
         Check_reg U10BIT_REG_MAX c1 (
         let inst = wr L_R_R_OFS_r2 (ucast c1) inst in
         bindr (vec_at content 2) (\<lambda>c2.
         Check_imm 22 c2 (
         Inr (wr L_R_R_OFS_ofs (ucast c2) inst))))))))
     | TY_AM64_R_R_R \<Rightarrow>
         Check_content_size 3 content_size (
         bindr (vec_at content 0) (\<lambda>c0.
         Check_reg U10BIT_REG_MAX c0 (
         let inst = wr L_R_R_R_r1 (ucast c0) inst in
         bindr (vec_at content 1) (\<lambda>c1.
         Check_reg U10BIT_REG_MAX c1 (
         let inst = wr L_R_R_R_r2 (ucast c1) inst in
         bindr (vec_at content 2) (\<lambda>c2.
         Check_reg U10BIT_REG_MAX c2 (
         Inr (wr L_R_R_R_r3 (ucast c2) inst))))))))
     | _ \<Rightarrow> Inl Assertion)"

text \<open>\<^verbatim>\<open>Is_32bit\<close> is overloaded in the source: on the address mode and on the opcode.\<close>

definition Is_32bit_am :: "ty_am \<Rightarrow> bool" where
  "Is_32bit_am ty_am = (case ty_am of
      TY_AM32 \<Rightarrow> True
    | TY_AM32_OFS \<Rightarrow> True
    | TY_AM32_R \<Rightarrow> True
    | TY_AM32_R_IMM \<Rightarrow> True
    | TY_AM32_R_OFS \<Rightarrow> True
    | TY_AM32_R_R \<Rightarrow> True
    | TY_AM32S_R_R_IMM \<Rightarrow> True
    | TY_AM32S_R_R_OFS \<Rightarrow> True
    | TY_AM32S_R_R_R \<Rightarrow> True
    | TY_AM64_R_IMM \<Rightarrow> False
    | TY_AM64_R_OFS \<Rightarrow> False
    | TY_AM64_R_R_IMM \<Rightarrow> False
    | TY_AM64_R_R_OFS \<Rightarrow> False
    | TY_AM64_R_R_R \<Rightarrow> False)"

definition Is_32bit_opc :: "u32 \<Rightarrow> bool" where
  "Is_32bit_opc opcode = (((ucast opcode :: u8) AND 0x80) = 0)"

definition Opcode_to_opcode_l :: "u32 \<Rightarrow> u32 \<Rightarrow> u32" where
  "Opcode_to_opcode_l opcode valtype = push_bit VALTY_SZ opcode + valtype"

section \<open>Code bodies and the instruction iterator\<close>

definition Add_inst32 :: "u32 \<Rightarrow> u32 list \<Rightarrow> u32 list" where
  "Add_inst32 inst inst_tab = inst_tab @ [inst]"

definition Add_inst64 :: "u64 \<Rightarrow> u32 list \<Rightarrow> u32 list" where
  "Add_inst64 inst inst_tab = inst_tab @ [ucast inst] @ [ucast (drop_bit 32 inst)]"

text \<open>\<^verbatim>\<open>U_ENCODER::Add_inst\<close> on the instruction table of the current code body.\<close>

definition Add_inst :: "u32 \<Rightarrow> valtype \<Rightarrow> ty_am \<Rightarrow> u32 list \<Rightarrow> u32 list \<Rightarrow> u32 list res" where
  "Add_inst opcode valtype ty_am content inst_tab =
    (if Is_32bit_am ty_am
     then bindr (Init_inst32 0 ty_am opcode valtype content) (\<lambda>inst. Inr (Add_inst32 inst inst_tab))
     else bindr (Init_inst64 0 ty_am opcode valtype content) (\<lambda>inst. Inr (Add_inst64 inst inst_tab)))"

text \<open>
  The iterator's pointer is a position in the instruction table.  Dereferencing reads one
  word or, when bit 7 of the opcode is set, two.
\<close>

definition iter_is_inst32 :: "u32 list \<Rightarrow> nat \<Rightarrow> bool res" where
  "iter_is_inst32 tab p = bindr (arr_at tab p) (\<lambda>w. Inr (Is_32bit_opc (rd f_opcode w)))"

definition iter_deref :: "u32 list \<Rightarrow> nat \<Rightarrow> (bool \<times> u64) res" where
  "iter_deref tab p =
    bindr (iter_is_inst32 tab p) (\<lambda>is_inst32.
      if is_inst32
      then bindr (arr_at tab p) (\<lambda>w. Inr (True, ucast w))
      else bindr (arr_at tab p) (\<lambda>lo. bindr (arr_at tab (p + 1)) (\<lambda>hi.
             Inr (False, ucast lo OR push_bit 32 (ucast hi)))))"

definition iter_next :: "u32 list \<Rightarrow> nat \<Rightarrow> nat res" where
  "iter_next tab p =
    bindr (iter_is_inst32 tab p) (\<lambda>is_inst32. Inr (if is_inst32 then p + 1 else p + 2))"

section \<open>Decoding one instruction\<close>

record am_expand =
  e_opcode :: u32
  e_expand1 :: u32
  e_expand2 :: u32
  e_expand3 :: u32

definition Get_opcode_l :: "am_expand \<Rightarrow> u32" where "Get_opcode_l e = e_opcode e"
definition Get_rd :: "am_expand \<Rightarrow> u32" where "Get_rd e = e_expand1 e"
definition Get_rs :: "am_expand \<Rightarrow> u32" where "Get_rs e = e_expand2 e"
definition Get_ofs :: "am_expand \<Rightarrow> u32" where "Get_ofs e = e_expand3 e"
definition Get_imm :: "am_expand \<Rightarrow> u32" where "Get_imm e = e_expand3 e"
definition Get_rt :: "am_expand \<Rightarrow> u32" where "Get_rt e = e_expand3 e"

definition Set_opcode :: "u32 \<Rightarrow> am_expand \<Rightarrow> am_expand" where "Set_opcode v e = e\<lparr>e_opcode := v\<rparr>"
definition Set_rd :: "u32 \<Rightarrow> am_expand \<Rightarrow> am_expand" where "Set_rd v e = e\<lparr>e_expand1 := v\<rparr>"
definition Set_rs :: "u32 \<Rightarrow> am_expand \<Rightarrow> am_expand" where "Set_rs v e = e\<lparr>e_expand2 := v\<rparr>"
definition Set_rt :: "u32 \<Rightarrow> am_expand \<Rightarrow> am_expand" where "Set_rt v e = e\<lparr>e_expand3 := v\<rparr>"
definition Set_ofs :: "u32 \<Rightarrow> am_expand \<Rightarrow> am_expand" where "Set_ofs v e = e\<lparr>e_expand3 := v\<rparr>"
definition Set_imm :: "u32 \<Rightarrow> am_expand \<Rightarrow> am_expand" where "Set_imm v e = e\<lparr>e_expand3 := v\<rparr>"

lemmas am_expand_defs =
  Get_opcode_l_def Get_rd_def Get_rs_def Get_ofs_def Get_imm_def Get_rt_def
  Set_opcode_def Set_rd_def Set_rs_def Set_rt_def Set_ofs_def Set_imm_def

text \<open>
  The body of the decoding loop of \<^verbatim>\<open>Expand_code\<close> on one instruction.  The target entry
  comes from \<^verbatim>\<open>new AM_EXPAND[..]\<close> and is indeterminate; fields that the address mode does
  not have keep what the entry held.
\<close>

definition expand_inst32 :: "u32 \<Rightarrow> am_expand \<Rightarrow> am_expand res" where
  "expand_inst32 inst e0 =
    (let e = Set_opcode (Opcode_to_opcode_l (rd f_opcode inst) (rd f_ty inst)) e0
     in bindr (arr_at UWINST_TY_AM (unat (rd f_opcode inst))) (\<lambda>ty_am. case ty_am of
       TY_AM32 \<Rightarrow> Inr e
     | TY_AM32_OFS \<Rightarrow> Inr (Set_ofs (rd OFS_ofs inst) e)
     | TY_AM32_R \<Rightarrow> Inr (Set_rd (rd R_r1 inst) e)
     | TY_AM32_R_IMM \<Rightarrow> Inr (Set_imm (rd_s R_IMM_imm inst) (Set_rd (rd R_IMM_r1 inst) e))
     | TY_AM32_R_OFS \<Rightarrow> Inr (Set_ofs (rd_s R_OFS_ofs inst) (Set_rd (rd R_OFS_r1 inst) e))
     | TY_AM32_R_R \<Rightarrow> Inr (Set_rs (rd R_R_r2 inst) (Set_rd (rd R_R_r1 inst) e))
     | TY_AM32S_R_R_IMM \<Rightarrow>
         Inr (Set_imm (rd_s R_R_IMM_imm inst) (Set_rs (rd R_R_IMM_r2 inst) (Set_rd (rd R_R_IMM_r1 inst) e)))
     | TY_AM32S_R_R_OFS \<Rightarrow>
         Inr (Set_ofs (rd R_R_OFS_ofs inst) (Set_rs (rd R_R_OFS_r2 inst) (Set_rd (rd R_R_OFS_r1 inst) e)))
     | TY_AM32S_R_R_R \<Rightarrow>
         Inr (Set_rt (rd R_R_R_r3 inst) (Set_rs (rd R_R_R_r2 inst) (Set_rd (rd R_R_R_r1 inst) e)))
     | _ \<Rightarrow> Inl Assertion))"

definition expand_inst64 :: "u64 \<Rightarrow> am_expand \<Rightarrow> am_expand res" where
  "expand_inst64 inst e0 =
    (let e = Set_opcode (Opcode_to_opcode_l (ucast (rd f_opcode inst)) (ucast (rd f_ty inst))) e0
     in bindr (arr_at UWINST_TY_AM (unat (rd f_opcode inst))) (\<lambda>ty_am. case ty_am of
       TY_AM64_R_IMM \<Rightarrow>
         Inr (Set_imm (ucast (rd_s L_R_IMM_imm inst)) (Set_rd (ucast (rd L_R_IMM_r1 inst)) e))
     | TY_AM64_R_OFS \<Rightarrow>
         Inr (Set_ofs (ucast (rd L_R_OFS_ofs inst)) (Set_rd (ucast (rd L_R_OFS_r1 inst)) e))
     | TY_AM64_R_R_IMM \<Rightarrow>
         Inr (Set_imm (ucast (rd_s L_R_R_IMM_imm inst))
               (Set_rs (ucast (rd L_R_R_IMM_r2 inst)) (Set_rd (ucast (rd L_R_R_IMM_r1 inst)) e)))
     | TY_AM64_R_R_OFS \<Rightarrow>
         Inr (Set_ofs (ucast (rd L_R_R_OFS_ofs inst))
               (Set_rs (ucast (rd L_R_R_OFS_r2 inst)) (Set_rd (ucast (rd L_R_R_OFS_r1 inst)) e)))
     | TY_AM64_R_R_R \<Rightarrow>
         Inr (Set_rt (ucast (rd L_R_R_R_r3 inst))
               (Set_rs (ucast (rd L_R_R_R_r2 inst)) (Set_rd (ucast (rd L_R_R_R_r1 inst)) e)))
     | _ \<Rightarrow> Inl Assertion))"

definition expand_inst :: "bool \<times> u64 \<Rightarrow> am_expand \<Rightarrow> am_expand res" where
  "expand_inst inst_pair e =
    (if fst inst_pair then expand_inst32 (ucast (snd inst_pair)) e
     else expand_inst64 (snd inst_pair) e)"

section \<open>What encoding and decoding promise\<close>

text \<open>
  The operand ranges that each address mode can represent.  Immediates are signed where the
  member is an \<^verbatim>\<open>INT32\<close> bit-field.
\<close>

definition signed_fits :: "nat \<Rightarrow> u32 \<Rightarrow> bool" where
  "signed_fits n c \<longleftrightarrow> - (2 ^ (n - 1)) \<le> sint c \<and> sint c < 2 ^ (n - 1)"

definition unsigned_fits :: "nat \<Rightarrow> u32 \<Rightarrow> bool" where
  "unsigned_fits n c \<longleftrightarrow> unat c < 2 ^ n"

definition operand_ranges :: "ty_am \<Rightarrow> (u32 \<Rightarrow> bool) list" where
  "operand_ranges ty_am = (case ty_am of
      TY_AM32 \<Rightarrow> []
    | TY_AM32_OFS \<Rightarrow> [unsigned_fits 22]
    | TY_AM32_R \<Rightarrow> [unsigned_fits 10]
    | TY_AM32_R_IMM \<Rightarrow> [unsigned_fits 10, signed_fits 10]
    | TY_AM32_R_OFS \<Rightarrow> [unsigned_fits 10, signed_fits 10]
    | TY_AM32_R_R \<Rightarrow> [unsigned_fits 10, unsigned_fits 10]
    | TY_AM32S_R_R_IMM \<Rightarrow> [unsigned_fits 7, unsigned_fits 7, signed_fits 8]
    | TY_AM32S_R_R_OFS \<Rightarrow> [unsigned_fits 7, unsigned_fits 7, unsigned_fits 8]
    | TY_AM32S_R_R_R \<Rightarrow> [unsigned_fits 7, unsigned_fits 7, unsigned_fits 7]
    | TY_AM64_R_IMM \<Rightarrow> [unsigned_fits 10, \<lambda>i. True]
    | TY_AM64_R_OFS \<Rightarrow> [unsigned_fits 10, \<lambda>i. True]
    | TY_AM64_R_R_IMM \<Rightarrow> [unsigned_fits 10, unsigned_fits 10, signed_fits 22]
    | TY_AM64_R_R_OFS \<Rightarrow> [unsigned_fits 10, unsigned_fits 10, unsigned_fits 22]
    | TY_AM64_R_R_R \<Rightarrow> [unsigned_fits 10, unsigned_fits 10, unsigned_fits 10])"

definition content_fits :: "ty_am \<Rightarrow> u32 list \<Rightarrow> bool" where
  "content_fits ty_am content = list_all2 (\<lambda>p c. p c) (operand_ranges ty_am) content"

text \<open>
  Where the operands of an address mode go in the expanded instruction: the first register in
  \<open>e_expand1\<close>, the second in \<open>e_expand2\<close>, a third register, immediate or offset in \<open>e_expand3\<close>.
\<close>

datatype slot = Rd | Rs | Rt

definition operand_slots :: "ty_am \<Rightarrow> slot list" where
  "operand_slots ty_am = (case ty_am of
      TY_AM32 \<Rightarrow> []
    | TY_AM32_OFS \<Rightarrow> [Rt]
    | TY_AM32_R \<Rightarrow> [Rd]
    | TY_AM32_R_IMM \<Rightarrow> [Rd, Rt]
    | TY_AM32_R_OFS \<Rightarrow> [Rd, Rt]
    | TY_AM32_R_R \<Rightarrow> [Rd, Rs]
    | TY_AM64_R_IMM \<Rightarrow> [Rd, Rt]
    | TY_AM64_R_OFS \<Rightarrow> [Rd, Rt]
    | _ \<Rightarrow> [Rd, Rs, Rt])"

definition set_slot :: "slot \<Rightarrow> u32 \<Rightarrow> am_expand \<Rightarrow> am_expand" where
  "set_slot s v e = (case s of
      Rd \<Rightarrow> e\<lparr>e_expand1 := v\<rparr>
    | Rs \<Rightarrow> e\<lparr>e_expand2 := v\<rparr>
    | Rt \<Rightarrow> e\<lparr>e_expand3 := v\<rparr>)"

definition expand_content :: "ty_am \<Rightarrow> u32 list \<Rightarrow> am_expand \<Rightarrow> am_expand" where
  "expand_content ty_am content e =
    fold (\<lambda>(s, v). set_slot s v) (zip (operand_slots ty_am) content) e"

definition expanded :: "u32 \<Rightarrow> valtype \<Rightarrow> ty_am \<Rightarrow> u32 list \<Rightarrow> am_expand \<Rightarrow> am_expand" where
  "expanded opcode valtype ty_am content e =
    expand_content ty_am content (e\<lparr>e_opcode := 4 * opcode + of_nat (valtype_num valtype)\<rparr>)"

subsection \<open>The layouts of the unions are structs of disjoint bit-fields\<close>

interpretation am32: bitfield_struct "[f_opcode, f_ty]" "TYPE(32)"
  by unfold_locales (simp_all add: field_defs in_word_def apart_def)

interpretation am32_ofs: bitfield_struct "[f_opcode, f_ty, OFS_ofs]" "TYPE(32)"
  by unfold_locales (simp_all add: field_defs in_word_def apart_def)

interpretation am32_r: bitfield_struct "[f_opcode, f_ty, R_r1]" "TYPE(32)"
  by unfold_locales (simp_all add: field_defs in_word_def apart_def)

interpretation am32_r_imm: bitfield_struct "[f_opcode, f_ty, R_IMM_r1, R_IMM_imm]" "TYPE(32)"
  by unfold_locales (simp_all add: field_defs in_word_def apart_def)

interpretation am32_r_ofs: bitfield_struct "[f_opcode, f_ty, R_OFS_r1, R_OFS_ofs]" "TYPE(32)"
  by unfold_locales (simp_all add: field_defs in_word_def apart_def)

interpretation am32_r_r: bitfield_struct "[f_opcode, f_ty, R_R_r1, R_R_r2]" "TYPE(32)"
  by unfold_locales (simp_all add: field_defs in_word_def apart_def)

interpretation am32s_r_r_imm:
  bitfield_struct "[f_opcode, f_ty, R_R_IMM_r1, R_R_IMM_r2, R_R_IMM_imm]" "TYPE(32)"
  by unfold_locales (simp_all add: field_defs in_word_def apart_def)

interpretation am32s_r_r_ofs:
  bitfield_struct "[f_opcode, f_ty, R_R_OFS_r1, R_R_OFS_r2, R_R_OFS_ofs]" "TYPE(32)"
  by unfold_locales (simp_all add: field_defs in_word_def apart_def)

interpretation am32s_r_r_r:
  bitfield_struct "[f_opcode, f_ty, R_R_R_r1, R_R_R_r2, R_R_R_r3]" "TYPE(32)"
  by unfold_locales (simp_all add: field_defs in_word_def apart_def)

interpretation am64_r_imm: bitfield_struct "[f_opcode, f_ty, L_R_IMM_r1, L_R_IMM_imm]" "TYPE(64)"
  by unfold_locales (simp_all add: field_defs in_word_def apart_def)

interpretation am64_r_ofs: bitfield_struct "[f_opcode, f_ty, L_R_OFS_r1, L_R_OFS_ofs]" "TYPE(64)"
  by unfold_locales (simp_all add: field_defs in_word_def apart_def)

interpretation am64_r_r_imm:
  bitfield_struct "[f_opcode, f_ty, L_R_R_IMM_r1, L_R_R_IMM_r2, L_R_R_IMM_imm]" "TYPE(64)"
  by unfold_locales (simp_all add: field_defs in_word_def apart_def)

interpretation am64_r_r_ofs:
  bitfield_struct "[f_opcode, f_ty, L_R_R_OFS_r1, L_R_R_OFS_r2, L_R_R_OFS_ofs]" "TYPE(64)"
  by unfold_locales (simp_all add: field_defs in_word_def apart_def)

interpretation am64_r_r_r:
  bitfield_struct "[f_opcode, f_ty, L_R_R_R_r1, L_R_R_R_r2, L_R_R_R_r3]" "TYPE(64)"
  by unfold_locales (simp_all add: field_defs in_word_def apart_def)

text \<open>What each member reads after all of them were written.\<close>

named_theorems inst_reads \<open>members of an encoded instruction\<close>

lemma field_widths:
  "snd f_opcode = 8"
  "snd f_ty = 2"
  "snd OFS_ofs = 22"
  "snd R_r1 = 10"
  "snd R_IMM_r1 = 10"
  "snd R_IMM_imm = 10"
  "snd R_OFS_r1 = 10"
  "snd R_OFS_ofs = 10"
  "snd R_R_r1 = 10"
  "snd R_R_r2 = 10"
  "snd R_R_IMM_r1 = 7"
  "snd R_R_IMM_r2 = 7"
  "snd R_R_IMM_imm = 8"
  "snd R_R_OFS_r1 = 7"
  "snd R_R_OFS_r2 = 7"
  "snd R_R_OFS_ofs = 8"
  "snd R_R_R_r1 = 7"
  "snd R_R_R_r2 = 7"
  "snd R_R_R_r3 = 7"
  "snd L_R_IMM_r1 = 10"
  "snd L_R_IMM_imm = 32"
  "snd L_R_OFS_r1 = 10"
  "snd L_R_OFS_ofs = 32"
  "snd L_R_R_IMM_r1 = 10"
  "snd L_R_R_IMM_imm = 22"
  "snd L_R_R_IMM_r2 = 10"
  "snd L_R_R_OFS_r1 = 10"
  "snd L_R_R_OFS_ofs = 22"
  "snd L_R_R_OFS_r2 = 10"
  "snd L_R_R_R_r1 = 10"
  "snd L_R_R_R_r2 = 10"
  "snd L_R_R_R_r3 = 10"
  by (simp_all add: field_defs)

lemma am32_reads [inst_reads]:
  fixes w p t :: u32
  defines "m \<equiv> wr_all [f_opcode, f_ty] [p, t] w"
  shows "rd f_opcode m = take_bit 8 p"
    "rd f_ty m = take_bit 2 t"
  unfolding m_def
  using am32.rd_member [of 0 "[p, t]" w]
    am32.rd_member [of 1 "[p, t]" w]
  by (simp_all add: field_widths del: wr_all.simps)

lemma am32_ofs_reads [inst_reads]:
  fixes w p t a :: u32
  defines "m \<equiv> wr_all [f_opcode, f_ty, OFS_ofs] [p, t, a] w"
  shows "rd f_opcode m = take_bit 8 p"
    "rd f_ty m = take_bit 2 t"
    "rd OFS_ofs m = take_bit 22 a"
  unfolding m_def
  using am32_ofs.rd_member [of 0 "[p, t, a]" w]
    am32_ofs.rd_member [of 1 "[p, t, a]" w]
    am32_ofs.rd_member [of 2 "[p, t, a]" w]
  by (simp_all add: field_widths del: wr_all.simps)

lemma am32_r_reads [inst_reads]:
  fixes w p t a :: u32
  defines "m \<equiv> wr_all [f_opcode, f_ty, R_r1] [p, t, a] w"
  shows "rd f_opcode m = take_bit 8 p"
    "rd f_ty m = take_bit 2 t"
    "rd R_r1 m = take_bit 10 a"
  unfolding m_def
  using am32_r.rd_member [of 0 "[p, t, a]" w]
    am32_r.rd_member [of 1 "[p, t, a]" w]
    am32_r.rd_member [of 2 "[p, t, a]" w]
  by (simp_all add: field_widths del: wr_all.simps)

lemma am32_r_imm_reads [inst_reads]:
  fixes w p t a b :: u32
  defines "m \<equiv> wr_all [f_opcode, f_ty, R_IMM_r1, R_IMM_imm] [p, t, a, b] w"
  shows "rd f_opcode m = take_bit 8 p"
    "rd f_ty m = take_bit 2 t"
    "rd R_IMM_r1 m = take_bit 10 a"
    "rd_s R_IMM_imm m = signed_take_bit 9 b"
  unfolding m_def
  using am32_r_imm.rd_member [of 0 "[p, t, a, b]" w]
    am32_r_imm.rd_member [of 1 "[p, t, a, b]" w]
    am32_r_imm.rd_member [of 2 "[p, t, a, b]" w]
    am32_r_imm.rd_s_member [of 3 "[p, t, a, b]" w]
  by (simp_all add: field_widths del: wr_all.simps)

lemma am32_r_ofs_reads [inst_reads]:
  fixes w p t a b :: u32
  defines "m \<equiv> wr_all [f_opcode, f_ty, R_OFS_r1, R_OFS_ofs] [p, t, a, b] w"
  shows "rd f_opcode m = take_bit 8 p"
    "rd f_ty m = take_bit 2 t"
    "rd R_OFS_r1 m = take_bit 10 a"
    "rd_s R_OFS_ofs m = signed_take_bit 9 b"
  unfolding m_def
  using am32_r_ofs.rd_member [of 0 "[p, t, a, b]" w]
    am32_r_ofs.rd_member [of 1 "[p, t, a, b]" w]
    am32_r_ofs.rd_member [of 2 "[p, t, a, b]" w]
    am32_r_ofs.rd_s_member [of 3 "[p, t, a, b]" w]
  by (simp_all add: field_widths del: wr_all.simps)

lemma am32_r_r_reads [inst_reads]:
  fixes w p t a b :: u32
  defines "m \<equiv> wr_all [f_opcode, f_ty, R_R_r1, R_R_r2] [p, t, a, b] w"
  shows "rd f_opcode m = take_bit 8 p"
    "rd f_ty m = take_bit 2 t"
    "rd R_R_r1 m = take_bit 10 a"
    "rd R_R_r2 m = take_bit 10 b"
  unfolding m_def
  using am32_r_r.rd_member [of 0 "[p, t, a, b]" w]
    am32_r_r.rd_member [of 1 "[p, t, a, b]" w]
    am32_r_r.rd_member [of 2 "[p, t, a, b]" w]
    am32_r_r.rd_member [of 3 "[p, t, a, b]" w]
  by (simp_all add: field_widths del: wr_all.simps)

lemma am32s_r_r_imm_reads [inst_reads]:
  fixes w p t a b c :: u32
  defines "m \<equiv> wr_all [f_opcode, f_ty, R_R_IMM_r1, R_R_IMM_r2, R_R_IMM_imm] [p, t, a, b, c] w"
  shows "rd f_opcode m = take_bit 8 p"
    "rd f_ty m = take_bit 2 t"
    "rd R_R_IMM_r1 m = take_bit 7 a"
    "rd R_R_IMM_r2 m = take_bit 7 b"
    "rd_s R_R_IMM_imm m = signed_take_bit 7 c"
  unfolding m_def
  using am32s_r_r_imm.rd_member [of 0 "[p, t, a, b, c]" w]
    am32s_r_r_imm.rd_member [of 1 "[p, t, a, b, c]" w]
    am32s_r_r_imm.rd_member [of 2 "[p, t, a, b, c]" w]
    am32s_r_r_imm.rd_member [of 3 "[p, t, a, b, c]" w]
    am32s_r_r_imm.rd_s_member [of 4 "[p, t, a, b, c]" w]
  by (simp_all add: field_widths del: wr_all.simps)

lemma am32s_r_r_ofs_reads [inst_reads]:
  fixes w p t a b c :: u32
  defines "m \<equiv> wr_all [f_opcode, f_ty, R_R_OFS_r1, R_R_OFS_r2, R_R_OFS_ofs] [p, t, a, b, c] w"
  shows "rd f_opcode m = take_bit 8 p"
    "rd f_ty m = take_bit 2 t"
    "rd R_R_OFS_r1 m = take_bit 7 a"
    "rd R_R_OFS_r2 m = take_bit 7 b"
    "rd R_R_OFS_ofs m = take_bit 8 c"
  unfolding m_def
  using am32s_r_r_ofs.rd_member [of 0 "[p, t, a, b, c]" w]
    am32s_r_r_ofs.rd_member [of 1 "[p, t, a, b, c]" w]
    am32s_r_r_ofs.rd_member [of 2 "[p, t, a, b, c]" w]
    am32s_r_r_ofs.rd_member [of 3 "[p, t, a, b, c]" w]
    am32s_r_r_ofs.rd_member [of 4 "[p, t, a, b, c]" w]
  by (simp_all add: field_widths del: wr_all.simps)

lemma am32s_r_r_r_reads [inst_reads]:
  fixes w p t a b c :: u32
  defines "m \<equiv> wr_all [f_opcode, f_ty, R_R_R_r1, R_R_R_r2, R_R_R_r3] [p, t, a, b, c] w"
  shows "rd f_opcode m = take_bit 8 p"
    "rd f_ty m = take_bit 2 t"
    "rd R_R_R_r1 m = take_bit 7 a"
    "rd R_R_R_r2 m = take_bit 7 b"
    "rd R_R_R_r3 m = take_bit 7 c"
  unfolding m_def
  using am32s_r_r_r.rd_member [of 0 "[p, t, a, b, c]" w]
    am32s_r_r_r.rd_member [of 1 "[p, t, a, b, c]" w]
    am32s_r_r_r.rd_member [of 2 "[p, t, a, b, c]" w]
    am32s_r_r_r.rd_member [of 3 "[p, t, a, b, c]" w]
    am32s_r_r_r.rd_member [of 4 "[p, t, a, b, c]" w]
  by (simp_all add: field_widths del: wr_all.simps)

lemma am64_r_imm_reads [inst_reads]:
  fixes w p t a b :: u64
  defines "m \<equiv> wr_all [f_opcode, f_ty, L_R_IMM_r1, L_R_IMM_imm] [p, t, a, b] w"
  shows "rd f_opcode m = take_bit 8 p"
    "rd f_ty m = take_bit 2 t"
    "rd L_R_IMM_r1 m = take_bit 10 a"
    "rd_s L_R_IMM_imm m = signed_take_bit 31 b"
  unfolding m_def
  using am64_r_imm.rd_member [of 0 "[p, t, a, b]" w]
    am64_r_imm.rd_member [of 1 "[p, t, a, b]" w]
    am64_r_imm.rd_member [of 2 "[p, t, a, b]" w]
    am64_r_imm.rd_s_member [of 3 "[p, t, a, b]" w]
  by (simp_all add: field_widths del: wr_all.simps)

lemma am64_r_ofs_reads [inst_reads]:
  fixes w p t a b :: u64
  defines "m \<equiv> wr_all [f_opcode, f_ty, L_R_OFS_r1, L_R_OFS_ofs] [p, t, a, b] w"
  shows "rd f_opcode m = take_bit 8 p"
    "rd f_ty m = take_bit 2 t"
    "rd L_R_OFS_r1 m = take_bit 10 a"
    "rd L_R_OFS_ofs m = take_bit 32 b"
  unfolding m_def
  using am64_r_ofs.rd_member [of 0 "[p, t, a, b]" w]
    am64_r_ofs.rd_member [of 1 "[p, t, a, b]" w]
    am64_r_ofs.rd_member [of 2 "[p, t, a, b]" w]
    am64_r_ofs.rd_member [of 3 "[p, t, a, b]" w]
  by (simp_all add: field_widths del: wr_all.simps)

lemma am64_r_r_imm_reads [inst_reads]:
  fixes w p t a b c :: u64
  defines "m \<equiv> wr_all [f_opcode, f_ty, L_R_R_IMM_r1, L_R_R_IMM_r2, L_R_R_IMM_imm] [p, t, a, b, c] w"
  shows "rd f_opcode m = take_bit 8 p"
    "rd f_ty m = take_bit 2 t"
    "rd L_R_R_IMM_r1 m = take_bit 10 a"
    "rd L_R_R_IMM_r2 m = take_bit 10 b"
    "rd_s L_R_R_IMM_imm m = signed_take_bit 21 c"
  unfolding m_def
  using am64_r_r_imm.rd_member [of 0 "[p, t, a, b, c]" w]
    am64_r_r_imm.rd_member [of 1 "[p, t, a, b, c]" w]
    am64_r_r_imm.rd_member [of 2 "[p, t, a, b, c]" w]
    am64_r_r_imm.rd_member [of 3 "[p, t, a, b, c]" w]
    am64_r_r_imm.rd_s_member [of 4 "[p, t, a, b, c]" w]
  by (simp_all add: field_widths del: wr_all.simps)

lemma am64_r_r_ofs_reads [inst_reads]:
  fixes w p t a b c :: u64
  defines "m \<equiv> wr_all [f_opcode, f_ty, L_R_R_OFS_r1, L_R_R_OFS_r2, L_R_R_OFS_ofs] [p, t, a, b, c] w"
  shows "rd f_opcode m = take_bit 8 p"
    "rd f_ty m = take_bit 2 t"
    "rd L_R_R_OFS_r1 m = take_bit 10 a"
    "rd L_R_R_OFS_r2 m = take_bit 10 b"
    "rd L_R_R_OFS_ofs m = take_bit 22 c"
  unfolding m_def
  using am64_r_r_ofs.rd_member [of 0 "[p, t, a, b, c]" w]
    am64_r_r_ofs.rd_member [of 1 "[p, t, a, b, c]" w]
    am64_r_r_ofs.rd_member [of 2 "[p, t, a, b, c]" w]
    am64_r_r_ofs.rd_member [of 3 "[p, t, a, b, c]" w]
    am64_r_r_ofs.rd_member [of 4 "[p, t, a, b, c]" w]
  by (simp_all add: field_widths del: wr_all.simps)

lemma am64_r_r_r_reads [inst_reads]:
  fixes w p t a b c :: u64
  defines "m \<equiv> wr_all [f_opcode, f_ty, L_R_R_R_r1, L_R_R_R_r2, L_R_R_R_r3] [p, t, a, b, c] w"
  shows "rd f_opcode m = take_bit 8 p"
    "rd f_ty m = take_bit 2 t"
    "rd L_R_R_R_r1 m = take_bit 10 a"
    "rd L_R_R_R_r2 m = take_bit 10 b"
    "rd L_R_R_R_r3 m = take_bit 10 c"
  unfolding m_def
  using am64_r_r_r.rd_member [of 0 "[p, t, a, b, c]" w]
    am64_r_r_r.rd_member [of 1 "[p, t, a, b, c]" w]
    am64_r_r_r.rd_member [of 2 "[p, t, a, b, c]" w]
    am64_r_r_r.rd_member [of 3 "[p, t, a, b, c]" w]
    am64_r_r_r.rd_member [of 4 "[p, t, a, b, c]" w]
  by (simp_all add: field_widths del: wr_all.simps)

subsection \<open>Operands in range are accepted\<close>

lemma Check_imm_22: "signed_fits 10 c \<or> signed_fits 22 c \<or> unsigned_fits 22 c \<Longrightarrow> Check_imm 22 c r = r"
  by (auto simp: Check_imm_def signed_fits_def unsigned_fits_def word_less_nat_alt)

lemma Check_imm_8: "signed_fits 8 c \<or> unsigned_fits 8 c \<Longrightarrow> Check_imm 8 c r = r"
  by (auto simp: Check_imm_def signed_fits_def unsigned_fits_def word_less_nat_alt)

lemma Check_imm_32: "Check_imm 32 c r = r"
  using unat_less_u32 [of c]
  by (auto simp: Check_imm_def word_less_nat_alt)

lemma Check_reg_fits:
  "unsigned_fits 10 c \<Longrightarrow> Check_reg U10BIT_REG_MAX c r = r"
  "unsigned_fits 7 c \<Longrightarrow> Check_reg U7BIT_REG_MAX c r = r"
  by (auto simp: Check_reg_def unsigned_fits_def U10BIT_REG_MAX_def U7BIT_REG_MAX_def word_le_nat_alt)

lemma Check_content_size_same [simp]: "Check_content_size n n r = r"
  by (simp add: Check_content_size_def)

lemmas checks_pass = Check_imm_22 Check_imm_8 Check_imm_32 Check_reg_fits

text \<open>With operands in range, the initialised instruction is the struct with all members written.\<close>

definition inst_ty :: "valtype \<Rightarrow> 'w::len word" where
  "inst_ty valtype = of_nat (valtype_num valtype)"

lemma Init_inst32_fits:
  "content_fits TY_AM32 cs \<Longrightarrow> Init_inst32 w TY_AM32 p ty cs = Inr (wr_all [f_opcode, f_ty] [p, inst_ty ty] w)"
  "content_fits TY_AM32_OFS [a] \<Longrightarrow>
    Init_inst32 w TY_AM32_OFS p ty [a] = Inr (wr_all [f_opcode, f_ty, OFS_ofs] [p, inst_ty ty, a] w)"
  "content_fits TY_AM32_R [a] \<Longrightarrow>
    Init_inst32 w TY_AM32_R p ty [a] = Inr (wr_all [f_opcode, f_ty, R_r1] [p, inst_ty ty, a] w)"
  "content_fits TY_AM32_R_IMM [a, b] \<Longrightarrow> Init_inst32 w TY_AM32_R_IMM p ty [a, b] =
    Inr (wr_all [f_opcode, f_ty, R_IMM_r1, R_IMM_imm] [p, inst_ty ty, a, b] w)"
  "content_fits TY_AM32_R_OFS [a, b] \<Longrightarrow> Init_inst32 w TY_AM32_R_OFS p ty [a, b] =
    Inr (wr_all [f_opcode, f_ty, R_OFS_r1, R_OFS_ofs] [p, inst_ty ty, a, b] w)"
  "content_fits TY_AM32_R_R [a, b] \<Longrightarrow> Init_inst32 w TY_AM32_R_R p ty [a, b] =
    Inr (wr_all [f_opcode, f_ty, R_R_r1, R_R_r2] [p, inst_ty ty, a, b] w)"
  "content_fits TY_AM32S_R_R_IMM [a, b, c] \<Longrightarrow> Init_inst32 w TY_AM32S_R_R_IMM p ty [a, b, c] =
    Inr (wr_all [f_opcode, f_ty, R_R_IMM_r1, R_R_IMM_r2, R_R_IMM_imm] [p, inst_ty ty, a, b, c] w)"
  "content_fits TY_AM32S_R_R_OFS [a, b, c] \<Longrightarrow> Init_inst32 w TY_AM32S_R_R_OFS p ty [a, b, c] =
    Inr (wr_all [f_opcode, f_ty, R_R_OFS_r1, R_R_OFS_r2, R_R_OFS_ofs] [p, inst_ty ty, a, b, c] w)"
  "content_fits TY_AM32S_R_R_R [a, b, c] \<Longrightarrow> Init_inst32 w TY_AM32S_R_R_R p ty [a, b, c] =
    Inr (wr_all [f_opcode, f_ty, R_R_R_r1, R_R_R_r2, R_R_R_r3] [p, inst_ty ty, a, b, c] w)"
  by (simp_all add: Init_inst32_def content_fits_def operand_ranges_def vec_at_def checks_pass
      inst_ty_def Check_content_size_def)

lemma Init_inst64_fits:
  "content_fits TY_AM64_R_IMM [a, b] \<Longrightarrow> Init_inst64 w TY_AM64_R_IMM p ty [a, b] =
    Inr (wr_all [f_opcode, f_ty, L_R_IMM_r1, L_R_IMM_imm] [ucast p, inst_ty ty, ucast a, ucast b] w)"
  "content_fits TY_AM64_R_OFS [a, b] \<Longrightarrow> Init_inst64 w TY_AM64_R_OFS p ty [a, b] =
    Inr (wr_all [f_opcode, f_ty, L_R_OFS_r1, L_R_OFS_ofs] [ucast p, inst_ty ty, ucast a, ucast b] w)"
  "content_fits TY_AM64_R_R_IMM [a, b, c] \<Longrightarrow> Init_inst64 w TY_AM64_R_R_IMM p ty [a, b, c] =
    Inr (wr_all [f_opcode, f_ty, L_R_R_IMM_r1, L_R_R_IMM_r2, L_R_R_IMM_imm]
      [ucast p, inst_ty ty, ucast a, ucast b, ucast c] w)"
  "content_fits TY_AM64_R_R_OFS [a, b, c] \<Longrightarrow> Init_inst64 w TY_AM64_R_R_OFS p ty [a, b, c] =
    Inr (wr_all [f_opcode, f_ty, L_R_R_OFS_r1, L_R_R_OFS_r2, L_R_R_OFS_ofs]
      [ucast p, inst_ty ty, ucast a, ucast b, ucast c] w)"
  "content_fits TY_AM64_R_R_R [a, b, c] \<Longrightarrow> Init_inst64 w TY_AM64_R_R_R p ty [a, b, c] =
    Inr (wr_all [f_opcode, f_ty, L_R_R_R_r1, L_R_R_R_r2, L_R_R_R_r3]
      [ucast p, inst_ty ty, ucast a, ucast b, ucast c] w)"
  by (simp_all add: Init_inst64_def content_fits_def operand_ranges_def vec_at_def checks_pass
      inst_ty_def Check_content_size_def)

subsection \<open>Fields that fit survive truncation\<close>

lemma fits_take:
  "unsigned_fits n c \<Longrightarrow> take_bit n c = c"
  "signed_fits 10 c \<Longrightarrow> signed_take_bit 9 c = c"
  "signed_fits 8 c \<Longrightarrow> signed_take_bit 7 c = c"
  "signed_fits 22 c \<Longrightarrow> signed_take_bit 21 c = c"
  by (simp_all add: unsigned_fits_def signed_fits_def take_bit_unat_less signed_take_bit_fits)

lemma inst_ty_take:
  "ty \<noteq> VALTY_UNKNOWN \<Longrightarrow> take_bit 2 (inst_ty ty :: u32) = inst_ty ty"
  "ty \<noteq> VALTY_UNKNOWN \<Longrightarrow> take_bit 2 (inst_ty ty :: u64) = inst_ty ty"
  by (cases ty; simp add: inst_ty_def valtype_num_def)+

lemma ucast_inst_ty: "ucast (inst_ty ty :: u64) = (inst_ty ty :: u32)"
  by (cases ty; simp add: inst_ty_def valtype_num_def)

lemma UWINST_TY_AM_length [simp]: "length UWINST_TY_AM = 195"
  by (simp add: UWINST_TY_AM_def u_opcode_list_def)

lemma opcode_fits: "unat (p::u32) < 195 \<Longrightarrow> take_bit 8 p = p"
  by (simp add: take_bit_unat_less)

lemma opcode_l: "Opcode_to_opcode_l p t = 4 * p + t"
  by (simp add: Opcode_to_opcode_l_def VALTY_SZ_def push_bit_eq_mult mult.commute)

lemma content_fits_iff:
  "content_fits TY_AM32 cs \<longleftrightarrow> cs = []"
  "content_fits TY_AM32_OFS cs \<longleftrightarrow> (\<exists>a. cs = [a] \<and> unsigned_fits 22 a)"
  "content_fits TY_AM32_R cs \<longleftrightarrow> (\<exists>a. cs = [a] \<and> unsigned_fits 10 a)"
  "content_fits TY_AM32_R_IMM cs \<longleftrightarrow> (\<exists>a b. cs = [a, b] \<and> unsigned_fits 10 a \<and> signed_fits 10 b)"
  "content_fits TY_AM32_R_OFS cs \<longleftrightarrow> (\<exists>a b. cs = [a, b] \<and> unsigned_fits 10 a \<and> signed_fits 10 b)"
  "content_fits TY_AM32_R_R cs \<longleftrightarrow> (\<exists>a b. cs = [a, b] \<and> unsigned_fits 10 a \<and> unsigned_fits 10 b)"
  "content_fits TY_AM32S_R_R_IMM cs \<longleftrightarrow>
    (\<exists>a b c. cs = [a, b, c] \<and> unsigned_fits 7 a \<and> unsigned_fits 7 b \<and> signed_fits 8 c)"
  "content_fits TY_AM32S_R_R_OFS cs \<longleftrightarrow>
    (\<exists>a b c. cs = [a, b, c] \<and> unsigned_fits 7 a \<and> unsigned_fits 7 b \<and> unsigned_fits 8 c)"
  "content_fits TY_AM32S_R_R_R cs \<longleftrightarrow>
    (\<exists>a b c. cs = [a, b, c] \<and> unsigned_fits 7 a \<and> unsigned_fits 7 b \<and> unsigned_fits 7 c)"
  "content_fits TY_AM64_R_IMM cs \<longleftrightarrow> (\<exists>a b. cs = [a, b] \<and> unsigned_fits 10 a)"
  "content_fits TY_AM64_R_OFS cs \<longleftrightarrow> (\<exists>a b. cs = [a, b] \<and> unsigned_fits 10 a)"
  "content_fits TY_AM64_R_R_IMM cs \<longleftrightarrow>
    (\<exists>a b c. cs = [a, b, c] \<and> unsigned_fits 10 a \<and> unsigned_fits 10 b \<and> signed_fits 22 c)"
  "content_fits TY_AM64_R_R_OFS cs \<longleftrightarrow>
    (\<exists>a b c. cs = [a, b, c] \<and> unsigned_fits 10 a \<and> unsigned_fits 10 b \<and> unsigned_fits 22 c)"
  "content_fits TY_AM64_R_R_R cs \<longleftrightarrow>
    (\<exists>a b c. cs = [a, b, c] \<and> unsigned_fits 10 a \<and> unsigned_fits 10 b \<and> unsigned_fits 10 c)"
  by (auto simp: content_fits_def operand_ranges_def list_all2_Cons1)

lemmas decode_simps =
  Init_inst32_fits Init_inst64_fits content_fits_iff inst_reads fits_take inst_ty_take
  ucast_inst_ty opcode_l opcode_fits ucast_take_bit_ucast ucast_signed_take_bit_ucast
  expanded_def expand_content_def operand_slots_def set_slot_def am_expand_defs arr_at_def

lemma expand_Init_inst32:
  assumes "Is_32bit_am am" and "unat p < 195" and "UWINST_TY_AM ! unat p = am"
    and "ty \<noteq> VALTY_UNKNOWN" and "content_fits am cs"
  shows "\<exists>inst. Init_inst32 w am p ty cs = Inr inst \<and> rd f_opcode inst = p \<and>
    expand_inst32 inst e = Inr (expanded p ty am cs e)"
  using assms
  by (cases am) (auto simp: Is_32bit_am_def decode_simps expand_inst32_def inst_ty_def [symmetric]
    simp del: wr_all.simps)

lemma full_width: "signed_take_bit 31 (c::u32) = c" "take_bit 32 (c::u32) = c"
  using signed_take_bit_fits [of 31 c] sint_greater_eq [of c] sint_less [of c]
  by (simp_all add: take_bit_word_eq_self)

lemma opcode_fits_64: "unat (p::u32) < 195 \<Longrightarrow> take_bit 8 (ucast p :: u64) = ucast p"
  by (simp add: take_bit_unat_less)

lemma ucast_back [simp]: "ucast (ucast (c::u32) :: u64) = c"
  by (rule bit_word_eqI) (auto simp: bit_simps)

lemma expand_Init_inst64:
  assumes "\<not> Is_32bit_am am" and "unat p < 195" and "UWINST_TY_AM ! unat p = am"
    and "ty \<noteq> VALTY_UNKNOWN" and "content_fits am cs"
  shows "\<exists>inst. Init_inst64 w am p ty cs = Inr inst \<and> rd f_opcode inst = ucast p \<and>
    expand_inst64 inst e = Inr (expanded p ty am cs e)"
  using assms
  by (cases am) (auto simp: Is_32bit_am_def decode_simps opcode_fits_64 full_width expand_inst64_def
    inst_ty_def [symmetric] simp del: wr_all.simps)

subsection \<open>The decoder picks the encoder's instruction length\<close>

lemma Is_32bit_agree_all:
  "list_all (\<lambda>i. Is_32bit_opc (of_nat i) = Is_32bit_am (UWINST_TY_AM ! i)) [0..<195]"
  by code_simp

lemma Is_32bit_agree:
  "unat p < 195 \<Longrightarrow> Is_32bit_opc p = Is_32bit_am (UWINST_TY_AM ! unat p)"
  using bspec [OF Is_32bit_agree_all [unfolded list_all_iff], of "unat p"] by simp

subsection \<open>Instructions in an instruction table\<close>

text \<open>An instruction as the encoder receives it, and when it is representable.\<close>

type_synonym uinst = "u32 \<times> valtype \<times> ty_am \<times> u32 list"

definition inst_ok :: "uinst \<Rightarrow> bool" where
  "inst_ok i = (case i of (p, ty, am, cs) \<Rightarrow>
    unat p < 195 \<and> UWINST_TY_AM ! unat p = am \<and> ty \<noteq> VALTY_UNKNOWN \<and> content_fits am cs)"

definition inst_expanded :: "uinst \<Rightarrow> am_expand \<Rightarrow> am_expand" where
  "inst_expanded i e = (case i of (p, ty, am, cs) \<Rightarrow> expanded p ty am cs e)"

definition inst_words :: "uinst \<Rightarrow> nat" where
  "inst_words i = (case i of (p, ty, am, cs) \<Rightarrow> if Is_32bit_am am then 1 else 2)"

definition Add_inst_of :: "uinst \<Rightarrow> u32 list \<Rightarrow> u32 list res" where
  "Add_inst_of i tab = (case i of (p, ty, am, cs) \<Rightarrow> Add_inst p ty am cs tab)"

lemma rd_opcode_low: "rd f_opcode (ucast (w::u64) :: u32) = ucast (rd f_opcode w)"
  by (rule bit_word_eqI) (auto simp: rd_def f_opcode_def get_bits_def bit_simps)

lemma two_words: "ucast (ucast (w::u64) :: u32) OR push_bit 32 (ucast (ucast (drop_bit 32 w) :: u32)) = w"
  by (rule bit_word_eqI) (auto simp: bit_simps)

text \<open>
  Appending a representable instruction succeeds, and the iterator positioned on it reads the
  instruction back, decodes it to its operands and advances past exactly its words, whatever
  is appended later.
\<close>

lemma Add_inst_decodes:
  assumes "inst_ok i"
  shows "\<exists>ws. Add_inst_of i tab = Inr (tab @ ws) \<and> length ws = inst_words i \<and>
    (\<forall>rest. \<exists>ip. iter_deref (tab @ ws @ rest) (length tab) = Inr ip \<and>
      expand_inst ip e = Inr (inst_expanded i e) \<and>
      iter_next (tab @ ws @ rest) (length tab) = Inr (length tab + inst_words i))"
proof -
  obtain p ty am cs where i: "i = (p, ty, am, cs)" by (cases i) auto
  with assms have p: "unat p < 195" "UWINST_TY_AM ! unat p = am"
    and ok: "ty \<noteq> VALTY_UNKNOWN" "content_fits am cs"
    by (auto simp: inst_ok_def)
  have len: "Is_32bit_opc p = Is_32bit_am am" using Is_32bit_agree p by simp
  show ?thesis
  proof (cases "Is_32bit_am am")
    case True
    from expand_Init_inst32 [OF True p ok, of 0 e] obtain inst where
      inst: "Init_inst32 0 am p ty cs = Inr inst" "rd f_opcode inst = p"
      "expand_inst32 inst e = Inr (expanded p ty am cs e)" by blast
    have "iter_deref (tab @ [inst] @ rest) (length tab) = Inr (True, ucast inst)"
      and "iter_next (tab @ [inst] @ rest) (length tab) = Inr (length tab + 1)" for rest
      using inst(2) True len
      by (simp_all add: iter_deref_def iter_next_def iter_is_inst32_def arr_at_def nth_append)
    with inst True show ?thesis
      by (auto simp: i Add_inst_of_def Add_inst_def Add_inst32_def inst_words_def expand_inst_def
          inst_expanded_def)
  next
    case False
    from expand_Init_inst64 [OF False p ok, of 0 e] obtain inst where
      inst: "Init_inst64 0 am p ty cs = Inr inst" "rd f_opcode inst = ucast p"
      "expand_inst64 inst e = Inr (expanded p ty am cs e)" by blast
    then have "rd f_opcode (ucast inst :: u32) = p" by (simp add: rd_opcode_low)
    moreover have "iter_deref (tab @ [ucast inst, ucast (drop_bit 32 inst)] @ rest) (length tab) =
        Inr (False, inst)"
      and "iter_next (tab @ [ucast inst, ucast (drop_bit 32 inst)] @ rest) (length tab) =
        Inr (length tab + 2)" if "rd f_opcode (ucast inst :: u32) = p" for rest
      using that False len two_words [of inst]
      by (simp_all add: iter_deref_def iter_next_def iter_is_inst32_def arr_at_def nth_append)
    ultimately show ?thesis
      using inst False
      by (auto simp: i Add_inst_of_def Add_inst_def Add_inst64_def inst_words_def expand_inst_def
          inst_expanded_def)
  qed
qed

end
