(* ===== verification/Ubh.thy ===== *)
theory Ubh
  imports U_Inst
begin

text \<open>
  The entries of a uwasm binary (\<^verbatim>\<open>include/ubh/ubh.h\<close>, \<^verbatim>\<open>src/ubh/ubh.cxx\<close>): section
  headers, types, functions, code descriptors, globals and data segments.  The section header
  is a union of three structs and is kept as one 32-bit word with bit-field accesses; the
  other classes are records whose constructors and setters truncate to the declared widths.
\<close>

section \<open>Section headers\<close>

definition SEC_CUST :: u32 where "SEC_CUST = 0x0"
definition SEC_TYPE :: u32 where "SEC_TYPE = 0x1"
definition SEC_IMPORT :: u32 where "SEC_IMPORT = 0x2"
definition SEC_FUNC :: u32 where "SEC_FUNC = 0x3"
definition SEC_TAB :: u32 where "SEC_TAB = 0x4"
definition SEC_MEM :: u32 where "SEC_MEM = 0x5"
definition SEC_GLBL :: u32 where "SEC_GLBL = 0x6"
definition SEC_EXPORT :: u32 where "SEC_EXPORT = 0x7"
definition SEC_START :: u32 where "SEC_START = 0x8"
definition SEC_ELEM :: u32 where "SEC_ELEM = 0x9"
definition SEC_CODE :: u32 where "SEC_CODE = 0xA"
definition SEC_BIN :: u32 where "SEC_BIN = 0xB"
definition SEC_DEBUG :: u32 where "SEC_DEBUG = 0xC"

lemmas sec_tag_defs =
  SEC_CUST_def SEC_TYPE_def SEC_IMPORT_def SEC_FUNC_def SEC_TAB_def SEC_MEM_def SEC_GLBL_def
  SEC_EXPORT_def SEC_START_def SEC_ELEM_def SEC_CODE_def SEC_BIN_def SEC_DEBUG_def

datatype section_id =
    S_TYPE | S_IMPORT | S_FUNC | S_DATA | S_GLBL | S_EXPORT | S_EXPORT_GLBL | S_CODE
  | S_NN_STR | S_MODULE_NAME | S_GLBL_NAME | S_RELOC | S_IMP_NAT | S_NAT | S_COUNT

record ubh_shdr =
  sh_u :: u32
  sh_idx :: u32

definition S1_sec_tag :: bitfield where "S1_sec_tag = (0, 4)"
definition S1_kind :: bitfield where "S1_kind = (4, 12)"
definition S1_elem_num :: bitfield where "S1_elem_num = (16, 16)"
definition S2_kind :: bitfield where "S2_kind = (4, 4)"
definition S2_elem_num :: bitfield where "S2_elem_num = (8, 24)"
definition S3_dummy :: bitfield where "S3_dummy = (4, 28)"

lemmas shdr_field_defs =
  S1_sec_tag_def S1_kind_def S1_elem_num_def S2_kind_def S2_elem_num_def S3_dummy_def

definition Get_sec_tag :: "ubh_shdr \<Rightarrow> u32" where
  "Get_sec_tag s = rd S1_sec_tag (sh_u s)"

definition Select_struct :: "ubh_shdr \<Rightarrow> nat res" where
  "Select_struct s =
    (let sec_tag = Get_sec_tag s in
     if sec_tag = SEC_TYPE \<or> sec_tag = SEC_FUNC \<or> sec_tag = SEC_MEM \<or> sec_tag = SEC_CODE \<or>
        sec_tag = SEC_CUST \<or> sec_tag = SEC_BIN
     then Inr 1
     else if sec_tag = SEC_IMPORT \<or> sec_tag = SEC_TAB \<or> sec_tag = SEC_GLBL \<or> sec_tag = SEC_EXPORT
     then Inr 2
     else if sec_tag = SEC_START \<or> sec_tag = SEC_DEBUG
     then Inr 3
     else Inl Assertion)"

definition Get_elem_num :: "ubh_shdr \<Rightarrow> u32 res" where
  "Get_elem_num s = bindr (Select_struct s) (\<lambda>k.
    if k = 1 then Inr (rd S1_elem_num (sh_u s))
    else if k = 2 then Inr (rd S2_elem_num (sh_u s))
    else Inl Assertion)"

definition Get_kind :: "ubh_shdr \<Rightarrow> u32 res" where
  "Get_kind s = bindr (Select_struct s) (\<lambda>k.
    if k = 1 then Inr (rd S1_kind (sh_u s))
    else if k = 2 then Inr (rd S2_kind (sh_u s))
    else Inl Assertion)"

definition Set_sec_tag :: "u16 \<Rightarrow> ubh_shdr \<Rightarrow> ubh_shdr" where
  "Set_sec_tag sec_tag s = s\<lparr>sh_u := wr S1_sec_tag (ucast sec_tag) (sh_u s)\<rparr>"

definition Set_elem_num :: "u16 \<Rightarrow> ubh_shdr \<Rightarrow> ubh_shdr res" where
  "Set_elem_num elem_num s = bindr (Select_struct s) (\<lambda>k.
    if k = 1 then Inr (s\<lparr>sh_u := wr S1_elem_num (ucast elem_num) (sh_u s)\<rparr>)
    else if k = 2 then Inr (s\<lparr>sh_u := wr S2_elem_num (ucast elem_num) (sh_u s)\<rparr>)
    else Inr s)"

definition Set_kind :: "u16 \<Rightarrow> ubh_shdr \<Rightarrow> ubh_shdr res" where
  "Set_kind kind s = bindr (Select_struct s) (\<lambda>k.
    if k = 1 then Inr (s\<lparr>sh_u := wr S1_kind (ucast kind) (sh_u s)\<rparr>)
    else if k = 2 then Inr (s\<lparr>sh_u := wr S2_kind (ucast kind) (sh_u s)\<rparr>)
    else Inl Assertion)"

definition UBH_SHDR :: "u16 \<Rightarrow> u16 \<Rightarrow> u32 \<Rightarrow> ubh_shdr res" where
  "UBH_SHDR sec_tag elem_num idx =
    (let s = \<lparr>sh_u = wr S3_dummy 0 (wr S1_sec_tag 0 0), sh_idx = idx\<rparr>
     in Set_elem_num elem_num (Set_sec_tag sec_tag s))"

definition Have_sec :: "ubh_shdr \<Rightarrow> bool" where
  "Have_sec s = (Get_sec_tag s \<noteq> SEC_START)"

definition Get_sec_id_from_header :: "ubh_shdr \<Rightarrow> section_id res" where
  "Get_sec_id_from_header s =
    (let sec_tag = Get_sec_tag s in
     if sec_tag = SEC_TYPE then Inr S_TYPE
     else if sec_tag = SEC_FUNC then Inr S_FUNC
     else if sec_tag = SEC_GLBL then Inr S_GLBL
     else if sec_tag = SEC_TAB then
       bindr (Get_kind s) (\<lambda>kind.
         if kind = 0 then Inr S_MODULE_NAME
         else if kind = 1 then Inr S_GLBL_NAME
         else if kind = 2 then Inr S_NN_STR
         else Inl Assertion)
     else if sec_tag = SEC_MEM then
       bindr (Get_kind s) (\<lambda>kind. if kind = 0 then Inr S_DATA else Inr S_RELOC)
     else if sec_tag = SEC_IMPORT then
       bindr (Get_kind s) (\<lambda>kind.
         if kind = 0 then Inr S_IMPORT
         else if kind = 1 then Inr S_IMP_NAT
         else Inl Assertion)
     else if sec_tag = SEC_EXPORT then
       bindr (Get_kind s) (\<lambda>kind.
         if kind = 1 then Inr S_EXPORT_GLBL
         else if kind = 0 then Inr S_EXPORT
         else Inl Assertion)
     else if sec_tag = SEC_CODE then Inr S_CODE
     else if sec_tag = SEC_BIN then Inr S_NAT
     else Inl Assertion)"

section \<open>Types\<close>

definition RET_RANGE :: nat where "RET_RANGE = 2"
definition PARAM_RANGE :: nat where "PARAM_RANGE = 4"
definition MAX_TYPE_ELEM_RANGE :: nat where "MAX_TYPE_ELEM_RANGE = 32 - RET_RANGE - PARAM_RANGE"
definition MAX_TYPE_ELEM_NUM :: nat where "MAX_TYPE_ELEM_NUM = MAX_TYPE_ELEM_RANGE div VALTY_SZ + 1"
definition TYPE_MASK :: u32 where "TYPE_MASK = 2 ^ VALTY_SZ - 1"

lemmas type_const_defs =
  RET_RANGE_def PARAM_RANGE_def MAX_TYPE_ELEM_RANGE_def MAX_TYPE_ELEM_NUM_def TYPE_MASK_def
  VALTY_SZ_def

record ubh_type =
  t_ret_num :: u32
  t_param_num :: u32
  t_elem :: u32

definition UBH_TYPE :: "u16 \<Rightarrow> u16 \<Rightarrow> u32 \<Rightarrow> ubh_type" where
  "UBH_TYPE ret_num param_num elem =
    \<lparr>t_ret_num = take_bit RET_RANGE (ucast ret_num),
     t_param_num = take_bit PARAM_RANGE (ucast param_num),
     t_elem = take_bit MAX_TYPE_ELEM_RANGE elem\<rparr>"

definition Is_stored_local :: "ubh_type \<Rightarrow> bool" where
  "Is_stored_local t = (t_param_num t \<noteq> 2 ^ PARAM_RANGE - 1)"

definition ubh_type_eq :: "ubh_type \<Rightarrow> ubh_type \<Rightarrow> bool" where
  "ubh_type_eq a b =
    (t_ret_num a = t_ret_num b \<and> t_param_num a = t_param_num b \<and> t_elem a = t_elem b)"

section \<open>Functions, code, globals\<close>

definition F_EXTERN :: u16 where "F_EXTERN = 0x0001"
definition F_NATIVE :: u16 where "F_NATIVE = 0x0002"
definition F_EXPORT :: u16 where "F_EXPORT = 0x0004"
definition F_IMPORT_WASM :: u16 where "F_IMPORT_WASM = 0x008"

lemmas func_flag_defs = F_EXTERN_def F_NATIVE_def F_EXPORT_def F_IMPORT_WASM_def

record ubh_func =
  fn_type_idx :: u16
  fn_name_idx :: u16
  fn_flags :: u16
  fn_code_idx :: u16

definition UBH_FUNC :: "u16 \<Rightarrow> u16 \<Rightarrow> u16 \<Rightarrow> u32 \<Rightarrow> ubh_func" where
  "UBH_FUNC type_idx name_idx flags code_idx =
    \<lparr>fn_type_idx = type_idx, fn_name_idx = name_idx, fn_flags = flags, fn_code_idx = ucast code_idx\<rparr>"

definition Set_code_idx :: "u16 \<Rightarrow> ubh_func \<Rightarrow> ubh_func" where
  "Set_code_idx code_idx f = f\<lparr>fn_code_idx := code_idx\<rparr>"

definition Is_set_flag :: "u16 \<Rightarrow> ubh_func \<Rightarrow> bool" where
  "Is_set_flag flag f = ((fn_flags f AND flag) \<noteq> 0)"

definition Get_code_idx :: "ubh_func \<Rightarrow> nat res" where
  "Get_code_idx f = Is_True (\<not> Is_set_flag F_EXTERN f) (Inr (unat (fn_code_idx f)))"

text \<open>
  A code descriptor together with the instruction and label words its table offsets point to
  once \<^verbatim>\<open>Set_code_sec\<close> or \<^verbatim>\<open>Convert_off_to_ptr\<close> has fixed them up.
\<close>

record ubh_code =
  c_local :: "u32 list"
  c_io :: "u32 list"
  c_stack_size :: u32
  c_label_num :: u32
  c_code_size :: u32
  c_inst_tab :: "u32 list"
  c_label_tab :: "u32 list"

definition UBH_CODE :: "u32 \<times> u32 \<times> u32 \<times> u32 \<Rightarrow> u32 \<times> u32 \<times> u32 \<times> u32 \<Rightarrow> u32 \<Rightarrow> ubh_code" where
  "UBH_CODE local_regs io_regs stack_size =
    (case local_regs of (l0, l1, l2, l3) \<Rightarrow> case io_regs of (o0, o1, o2, o3) \<Rightarrow>
      \<lparr>c_local = [take_bit 10 l0, take_bit 10 l1, take_bit 10 l2, take_bit 10 l3],
       c_io = [take_bit 8 o0, take_bit 8 o1, take_bit 8 o2, take_bit 8 o3],
       c_stack_size = take_bit 22 stack_size,
       c_label_num = 0, c_code_size = 0, c_inst_tab = [], c_label_tab = []\<rparr>)"

definition Set_label_num :: "u32 \<Rightarrow> ubh_code \<Rightarrow> ubh_code" where
  "Set_label_num label_num c = c\<lparr>c_label_num := take_bit 12 label_num\<rparr>"

definition Set_code_size :: "u32 \<Rightarrow> ubh_code \<Rightarrow> ubh_code" where
  "Set_code_size code_size c = c\<lparr>c_code_size := take_bit 20 code_size\<rparr>"

text \<open>
  Import, native import and export entries.  The constructor of \<^verbatim>\<open>UBH_IMP_NAT\<close> leaves \<^verbatim>\<open>_nat_idx\<close>
  unset: its value is the parameter \<open>junk\<close>.
\<close>

definition K_FUNC :: u8 where "K_FUNC = 0"

record ubh_import =
  im_desc_tag :: u32
  im_func_idx :: u32

definition UBH_IMPORT :: "u8 \<Rightarrow> u32 \<Rightarrow> ubh_import" where
  "UBH_IMPORT desc_tag func_idx =
    \<lparr>im_desc_tag = take_bit 4 (ucast desc_tag), im_func_idx = take_bit 28 func_idx\<rparr>"

record ubh_export =
  ex_desc_tag :: u32
  ex_func_idx :: u32

definition UBH_EXPORT :: "u8 \<Rightarrow> u32 \<Rightarrow> ubh_export" where
  "UBH_EXPORT desc_tag func_idx =
    \<lparr>ex_desc_tag = take_bit 4 (ucast desc_tag), ex_func_idx = take_bit 28 func_idx\<rparr>"

record ubh_imp_nat =
  in_desc_tag :: u32
  in_func_idx :: u32
  in_ntype_off :: u32
  in_nat_idx :: u32
  in_nat_off :: u32

definition UBH_IMP_NAT :: "u32 \<Rightarrow> u8 \<Rightarrow> u32 \<Rightarrow> u32 \<Rightarrow> ubh_imp_nat" where
  "UBH_IMP_NAT junk desc_tag func_idx ntype_off =
    \<lparr>in_desc_tag = take_bit 4 (ucast desc_tag), in_func_idx = take_bit 28 func_idx,
     in_ntype_off = ntype_off, in_nat_idx = take_bit 8 junk, in_nat_off = 0xffffff\<rparr>"

definition Set_nat_idx :: "u32 \<Rightarrow> ubh_imp_nat \<Rightarrow> ubh_imp_nat" where
  "Set_nat_idx nat_idx e = e\<lparr>in_nat_idx := take_bit 8 nat_idx\<rparr>"

definition Set_nat_off :: "u32 \<Rightarrow> ubh_imp_nat \<Rightarrow> ubh_imp_nat" where
  "Set_nat_off nat_off e = e\<lparr>in_nat_off := take_bit 24 nat_off\<rparr>"

record ubh_exp_glbl =
  eg_glbl_name_idx :: u32
  eg_glbl_tab_idx :: u32

text \<open>A native code entry; \<open>n_buf\<close> is the section from its buffer offset on, once that is a pointer.\<close>

record ubh_nat =
  n_byte_num :: u32
  n_checksum :: u32
  n_buf :: "u8 list"

record ubh_glbl =
  g_mut :: u16
  g_ty :: u16
  g_data_idx :: u32
  g_init_val :: u64

definition Set_mutable :: "bool \<Rightarrow> ubh_glbl \<Rightarrow> ubh_glbl" where
  "Set_mutable mut g = g\<lparr>g_mut := (if mut then 1 else 0)\<rparr>"

definition Set_glbl_ty :: "u32 \<Rightarrow> ubh_glbl \<Rightarrow> ubh_glbl" where
  "Set_glbl_ty ty g = g\<lparr>g_ty := take_bit 2 (ucast ty)\<rparr>"

definition Set_init_val :: "u64 \<Rightarrow> ubh_glbl \<Rightarrow> ubh_glbl" where
  "Set_init_val i g = g\<lparr>g_init_val := i\<rparr>"

definition Set_data_idx :: "u32 \<Rightarrow> ubh_glbl \<Rightarrow> ubh_glbl" where
  "Set_data_idx data_idx g = g\<lparr>g_data_idx := data_idx\<rparr>"

section \<open>Data segments\<close>

record ubh_dseg_info =
  ds_mem_offset :: u32
  ds_size :: u32

text \<open>\<^verbatim>\<open>UBH_DATA_SEGMENTS\<close>: the header's magic number and the array of segment descriptors.\<close>

record ubh_data_segments =
  dss_magic :: u64
  dss_infos :: "ubh_dseg_info list"

definition SIZEOF_DSEG_INFO :: nat where "SIZEOF_DSEG_INFO = 8"
definition SIZEOF_DATA_SEGMENTS :: nat where "SIZEOF_DATA_SEGMENTS = 16"

definition Calc_size :: "ubh_data_segments \<Rightarrow> u32" where
  "Calc_size d = of_nat (length (dss_infos d) * SIZEOF_DSEG_INFO + SIZEOF_DATA_SEGMENTS)"

definition Calc_total_space :: "ubh_data_segments \<Rightarrow> u32" where
  "Calc_total_space d = fold (\<lambda>i total. total + ds_size i) (dss_infos d) (Calc_size d)"

definition Calc_max_ofs :: "ubh_data_segments \<Rightarrow> u32" where
  "Calc_max_ofs d =
    fold (\<lambda>i mx. if mx < ds_size i + ds_mem_offset i then ds_size i + ds_mem_offset i else mx)
      (dss_infos d) 0"

section \<open>Lemmas\<close>

interpretation shdr_s1: bitfield_struct "[S1_sec_tag, S1_kind, S1_elem_num]" "TYPE(32)"
  by unfold_locales (simp_all add: shdr_field_defs in_word_def apart_def)

interpretation shdr_s2: bitfield_struct "[S1_sec_tag, S2_kind, S2_elem_num]" "TYPE(32)"
  by unfold_locales (simp_all add: shdr_field_defs in_word_def apart_def)

lemma Calc_max_ofs_bound_aux:
  fixes mx :: u32 and ix :: "ubh_dseg_info list"
  shows "mx \<le> fold (\<lambda>i mx. if mx < ds_size i + ds_mem_offset i then ds_size i + ds_mem_offset i else mx) ix mx
    \<and> (\<forall>i\<in>set ix. ds_size i + ds_mem_offset i
        \<le> fold (\<lambda>i mx. if mx < ds_size i + ds_mem_offset i then ds_size i + ds_mem_offset i else mx) ix mx)"
proof (induction ix arbitrary: mx)
  case (Cons a ix)
  let ?m = "if mx < ds_size a + ds_mem_offset a then ds_size a + ds_mem_offset a else mx"
  from Cons.IH [of ?m] show ?case by (auto simp: not_less split: if_splits intro: order_trans)
qed simp

lemma Calc_max_ofs_bound:
  "i \<in> set (dss_infos d) \<Longrightarrow> ds_size i + ds_mem_offset i \<le> Calc_max_ofs d"
  using Calc_max_ofs_bound_aux [of 0 "dss_infos d"] by (simp add: Calc_max_ofs_def)

end
