(* ===== verification/U_Module.thy ===== *)
theory U_Module
  imports Ubh
begin

text \<open>
  The module loader \<^verbatim>\<open>U_MODULE\<close> (\<^verbatim>\<open>src/ubh/u_module.h\<close>, \<^verbatim>\<open>src/ubh/u_module.cxx\<close>): the
  section map, the type caches built by \<^verbatim>\<open>Decode_type_and_cache\<close>, the expanded instruction
  table built by \<^verbatim>\<open>Expand_code\<close>, and the mapping between expanded and binary program counters.  Sections are lists of decoded
  entries; pointers into the expanded table are indices into it.  A code descriptor carries the words its tables refer to, whether
  the source holds them as pointers or, after \<^verbatim>\<open>Set_keep_off(true)\<close>, as offsets into the section; so the conversions
  \<^verbatim>\<open>Convert_off_to_ptr\<close> and \<^verbatim>\<open>Convert_ptr_to_off\<close> and the call of the former at the start of \<^verbatim>\<open>Expand_code\<close>, made only for a module
  that keeps offsets, are left out.  Only the static linker sets that flag, and it does not expand code.
\<close>

section \<open>State\<close>

type_synonym pc_info = "u32 \<times> u32"

record u_module =
  m_shdr_tab :: "ubh_shdr list"
  m_sec_map :: "section_id \<Rightarrow> nat option"
  m_type_sec :: "ubh_type list"
  m_func_sec :: "ubh_func list"
  m_code_sec :: "ubh_code list"
  m_glbl_sec :: "ubh_glbl list"
  m_nn_str :: "u8 list"
  m_data_sec :: "u8 list"
  m_reloc_sec :: "u32 list"
  m_param_num_tab :: "u32 list"
  m_ret_num_tab :: "u32 list"
  m_param_tab :: "u8 list list"
  m_ret_tab :: "u8 list list"
  m_reg_num_tab :: "u64 list"
  m_fp_shs_tab :: "u64 list"
  m_expanded_table :: "am_expand list"
  m_expanded_func_base :: "nat option list"
  m_lab_tab :: "nat list option list"
  m_end_pc :: nat
  m_expanded_pc_map :: "u32 list"
  m_origin_pc_map :: "u32 list"
  m_pc_to_exp_map :: "(pc_info \<times> nat) list"
  m_exp_to_pc_map :: "(nat \<times> pc_info) list"
  m_import_sec :: "ubh_import list"
  m_imp_nat_sec :: "ubh_imp_nat list"
  m_export_sec :: "ubh_export list"
  m_exp_glbl_sec :: "ubh_exp_glbl list"
  m_module_name :: "u8 list"
  m_glbl_name :: "u8 list"
  m_nat_sec :: "ubh_nat list"

text \<open>The constructor: no section yet.  An unset section pointer is an empty section.\<close>

definition U_MODULE :: u_module where
  "U_MODULE = \<lparr>m_shdr_tab = [], m_sec_map = (\<lambda>sec_id. None), m_type_sec = [], m_func_sec = [], m_code_sec = [],
    m_glbl_sec = [], m_nn_str = [], m_data_sec = [], m_reloc_sec = [], m_param_num_tab = [], m_ret_num_tab = [],
    m_param_tab = [], m_ret_tab = [], m_reg_num_tab = [], m_fp_shs_tab = [], m_expanded_table = [],
    m_expanded_func_base = [], m_lab_tab = [], m_end_pc = 0, m_expanded_pc_map = [], m_origin_pc_map = [],
    m_pc_to_exp_map = [], m_exp_to_pc_map = [], m_import_sec = [], m_imp_nat_sec = [], m_export_sec = [],
    m_exp_glbl_sec = [], m_module_name = [], m_glbl_name = [], m_nat_sec = []\<rparr>"

section \<open>Sections\<close>

definition Contains_section :: "u_module \<Rightarrow> section_id \<Rightarrow> bool" where
  "Contains_section m sec_id = (m_sec_map m sec_id \<noteq> None)"

definition Get_shdr_idx :: "u_module \<Rightarrow> section_id \<Rightarrow> nat res" where
  "Get_shdr_idx m sec_id = (case m_sec_map m sec_id of None \<Rightarrow> Inl Assertion | Some i \<Rightarrow> Inr i)"

definition Get_shdr_by_sec_id :: "u_module \<Rightarrow> section_id \<Rightarrow> ubh_shdr res" where
  "Get_shdr_by_sec_id m sec_id = bindr (Get_shdr_idx m sec_id) (arr_at (m_shdr_tab m))"

definition sec_elem_num :: "u_module \<Rightarrow> section_id \<Rightarrow> nat res" where
  "sec_elem_num m sec_id =
    bindr (Get_shdr_by_sec_id m sec_id) (\<lambda>h. bindr (Get_elem_num h) (\<lambda>n. Inr (unat n)))"

text \<open>\<^verbatim>\<open>Set_shdr_tab\<close>: cache the header index of every section; later headers win.\<close>

definition Set_shdr_tab :: "ubh_shdr list \<Rightarrow> u_module \<Rightarrow> u_module res" where
  "Set_shdr_tab shdr_tab m =
    foldr_res (\<lambda>i m.
        bindr (arr_at shdr_tab i) (\<lambda>sec_header.
        if \<not> Have_sec sec_header then Inr m
        else bindr (Get_sec_id_from_header sec_header) (\<lambda>sec_id.
             Inr (m\<lparr>m_sec_map := (m_sec_map m)(sec_id \<mapsto> i)\<rparr>))))
      [0..<length shdr_tab] (m\<lparr>m_shdr_tab := shdr_tab\<rparr>)"

definition Get_type :: "u_module \<Rightarrow> nat \<Rightarrow> ubh_type res" where
  "Get_type m i = arr_at (m_type_sec m) i"

definition Get_func :: "u_module \<Rightarrow> nat \<Rightarrow> ubh_func res" where
  "Get_func m i = arr_at (m_func_sec m) i"

definition Get_code :: "u_module \<Rightarrow> nat \<Rightarrow> ubh_code res" where
  "Get_code m i = arr_at (m_code_sec m) i"

definition Get_glbl :: "u_module \<Rightarrow> nat \<Rightarrow> ubh_glbl res" where
  "Get_glbl m i = arr_at (m_glbl_sec m) i"

section \<open>Types\<close>

definition CHAR_BIT :: nat where "CHAR_BIT = 8"

text \<open>
  Value types packed in the type entry itself.  The shift count is unsigned: past the
  thirteenth element it wraps around and the shift is undefined.
\<close>

definition valty_local :: "u32 \<Rightarrow> nat \<Rightarrow> u8 res" where
  "valty_local type_list j =
    (if (j + 1) * VALTY_SZ \<le> MAX_TYPE_ELEM_RANGE
     then Inr (ucast (drop_bit (MAX_TYPE_ELEM_RANGE - (j + 1) * VALTY_SZ) type_list AND TYPE_MASK))
     else Inl Shift_undefined)"

text \<open>Value types in the non-null string table, four to a byte; return types are read from the first byte only.\<close>

definition valty_byte :: "u8 \<Rightarrow> nat \<Rightarrow> u8 res" where
  "valty_byte elem off =
    (if (off + 1) * 2 \<le> CHAR_BIT
     then Inr (drop_bit (CHAR_BIT - (off + 1) * 2) elem AND ucast TYPE_MASK)
     else Inl Shift_undefined)"

text \<open>\<^verbatim>\<open>push_back\<close> of one value type and the increment of its counter.\<close>

definition cache_valty ::
  "nat \<Rightarrow> u8 \<Rightarrow> u8 list list \<times> u32 list \<Rightarrow> (u8 list list \<times> u32 list) res" where
  "cache_valty i valty t =
    bindr (arr_at (fst t) i) (\<lambda>old.
    bindr (arr_upd (fst t) i (old @ [valty])) (\<lambda>tab.
    bindr (arr_at (snd t) (i * VALTY_COUNT + unat valty)) (\<lambda>n.
    bindr (arr_upd (snd t) (i * VALTY_COUNT + unat valty) (n + 1)) (\<lambda>num.
    Inr (tab, num)))))"

definition decode_valtys ::
  "nat \<Rightarrow> (nat \<Rightarrow> u8 res) \<Rightarrow> nat list \<Rightarrow> u8 list list \<times> u32 list \<Rightarrow> (u8 list list \<times> u32 list) res" where
  "decode_valtys i read js t =
    foldr_res (\<lambda>j t. bindr (read j) (\<lambda>valty. cache_valty i valty t)) js t"

definition nn_read16 :: "u8 list \<Rightarrow> nat \<Rightarrow> u16 res" where
  "nn_read16 s i = bindr (arr_at s i) (\<lambda>lo. bindr (arr_at s (i + 1)) (\<lambda>hi.
    Inr (ucast lo OR push_bit 8 (ucast hi))))"

type_synonym type_caches = "(u8 list list \<times> u32 list) \<times> (u8 list list \<times> u32 list)"

text \<open>One iteration of the first loop of \<^verbatim>\<open>Decode_type_and_cache\<close>: \<open>(return cache, parameter cache)\<close>.\<close>

definition decode_type :: "u_module \<Rightarrow> nat \<Rightarrow> type_caches \<Rightarrow> type_caches res" where
  "decode_type m i t =
    bindr (Get_type m i) (\<lambda>ty.
    let ret_num = unat (t_ret_num ty); type_list = t_elem ty in
    if Is_stored_local ty
    then let param_num = unat (t_param_num ty) in
      bindr (decode_valtys i (valty_local type_list) [0..<ret_num] (fst t)) (\<lambda>r.
      bindr (decode_valtys i (valty_local type_list) [ret_num..<ret_num + param_num] (snd t)) (\<lambda>p.
      Inr (r, p)))
    else let nn_str_idx = unat (t_elem ty) in
      bindr (nn_read16 (m_nn_str m) nn_str_idx) (\<lambda>w.
      let param_num = unat (ucast w :: u8); nn_str_ptr = nn_str_idx + 2 in
      bindr (decode_valtys i
        (\<lambda>j. bindr (arr_at (m_nn_str m) nn_str_ptr) (\<lambda>elem. valty_byte elem j))
        [0..<ret_num] (fst t)) (\<lambda>r.
      bindr (decode_valtys i
        (\<lambda>j. bindr (arr_at (m_nn_str m) (nn_str_ptr + j div 4)) (\<lambda>elem. valty_byte elem (j mod 4)))
        [ret_num..<ret_num + param_num] (snd t)) (\<lambda>p.
      Inr (r, p)))))"

text \<open>Four 16-bit counts stored through a \<^verbatim>\<open>UINT16 *\<close> into a 64-bit cell.\<close>

definition pack16 :: "u32 \<Rightarrow> u32 \<Rightarrow> u32 \<Rightarrow> u32 \<Rightarrow> u64" where
  "pack16 a b c d =
    ucast (ucast a :: u16) OR push_bit 16 (ucast (ucast b :: u16)) OR
    push_bit 32 (ucast (ucast c :: u16)) OR push_bit 48 (ucast (ucast d :: u16))"

definition unpack16 :: "nat \<Rightarrow> u64 \<Rightarrow> u32" where
  "unpack16 i w = ucast (ucast (drop_bit (16 * i) w) :: u16)"

text \<open>One iteration of the second loop: register counts of a function that has code.\<close>

definition cache_reg_num :: "u_module \<Rightarrow> nat \<Rightarrow> u64 list \<times> u64 list \<Rightarrow> (u64 list \<times> u64 list) res" where
  "cache_reg_num m i t =
    bindr (Get_func m i) (\<lambda>func.
    if Is_set_flag F_EXTERN func then Inr t
    else bindr (Get_code_idx func) (\<lambda>ci. bindr (Get_code m ci) (\<lambda>code.
      let l = c_local code; io = c_io code in
      bindr (arr_upd (fst t) i (pack16 (l ! 0 + io ! 0) (l ! 1 + io ! 1) (l ! 2 + io ! 2) (l ! 3 + io ! 3))) (\<lambda>reg.
      bindr (arr_upd (snd t) i (pack16 (l ! 0) (l ! 1) (l ! 2) (l ! 3))) (\<lambda>shs.
      Inr (reg, shs))))))"

definition Decode_type_and_cache :: "u_module \<Rightarrow> u_module res" where
  "Decode_type_and_cache m =
    bindr (sec_elem_num m S_TYPE) (\<lambda>type_num.
    bindr (sec_elem_num m S_FUNC) (\<lambda>func_num.
    bindr (foldr_res (decode_type m) [0..<type_num]
             ((replicate type_num [], replicate (type_num * VALTY_COUNT) 0),
              (replicate type_num [], replicate (type_num * VALTY_COUNT) 0))) (\<lambda>t.
    bindr (foldr_res (cache_reg_num m) [0..<func_num]
             (replicate func_num 0, replicate func_num 0)) (\<lambda>c.
    Inr (m\<lparr>m_ret_tab := fst (fst t), m_ret_num_tab := snd (fst t),
           m_param_tab := fst (snd t), m_param_num_tab := snd (snd t),
           m_reg_num_tab := fst c, m_fp_shs_tab := snd c\<rparr>)))))"

section \<open>Program counter maps\<close>

definition Bind_expand_pc :: "nat \<Rightarrow> u32 \<Rightarrow> u32 \<Rightarrow> (nat \<times> pc_info) list \<Rightarrow> (nat \<times> pc_info) list" where
  "Bind_expand_pc e func_id ubh_pc mp =
    (case map_of mp e of None \<Rightarrow> mp @ [(e, (func_id, ubh_pc))] | Some v \<Rightarrow> mp)"

definition Map_to_ubh_pc :: "u_module \<Rightarrow> nat \<Rightarrow> pc_info res" where
  "Map_to_ubh_pc m e = (case map_of (m_exp_to_pc_map m) e of None \<Rightarrow> Inl Assertion | Some v \<Rightarrow> Inr v)"

definition Map_to_expand_pc :: "u_module \<Rightarrow> u32 \<Rightarrow> u32 \<Rightarrow> nat res" where
  "Map_to_expand_pc m func_id ubh_pc =
    (case map_of (m_pc_to_exp_map m) (func_id, ubh_pc) of None \<Rightarrow> Inl Assertion | Some e \<Rightarrow> Inr e)"

section \<open>Expanding the code\<close>

definition OPC_BREAK :: u32 where "OPC_BREAK = 0x48"

text \<open>The arrays under construction; \<open>x_num\<close> is \<^verbatim>\<open>inst_num\<close> and the index of \<^verbatim>\<open>e_inst_p\<close>.\<close>

record expand_state =
  x_num :: nat
  x_table :: "am_expand list"
  x_origin :: "u32 list"
  x_expanded :: "u32 list"
  x_exp_to_pc :: "(nat \<times> pc_info) list"

definition expand_step :: "u32 list \<Rightarrow> nat \<Rightarrow> nat \<Rightarrow> nat \<Rightarrow> expand_state \<Rightarrow> expand_state res" where
  "expand_step tab code_base_idx i offset st =
    bindr (arr_upd (x_origin st) (code_base_idx + offset) (of_nat (x_num st))) (\<lambda>origin.
    bindr (arr_upd (x_expanded st) (x_num st) (of_nat (code_base_idx + offset))) (\<lambda>expanded.
    bindr (iter_deref tab offset) (\<lambda>inst_pair.
    bindr (arr_at (x_table st) (x_num st)) (\<lambda>e0.
    bindr (expand_inst inst_pair e0) (\<lambda>e.
    Inr (st\<lparr>x_num := x_num st + 1, x_table := (x_table st)[x_num st := e],
            x_origin := origin, x_expanded := expanded,
            x_exp_to_pc := Bind_expand_pc (x_num st) (of_nat i) (of_nat offset) (x_exp_to_pc st)\<rparr>))))))"

lemma iter_next_bounds: "iter_next tab p = Inr q \<Longrightarrow> p < q \<and> p < length tab"
  by (auto simp: iter_next_def iter_is_inst32_def)

text \<open>The instruction loop of one function, from \<open>offset\<close> to the end of its instruction table.\<close>

function expand_loop :: "u32 list \<Rightarrow> nat \<Rightarrow> nat \<Rightarrow> nat \<Rightarrow> nat \<Rightarrow> expand_state \<Rightarrow> expand_state res" where
  "expand_loop tab code_sz code_base_idx i offset st =
    (if offset = code_sz then Inr st
     else bindr (expand_step tab code_base_idx i offset st) (\<lambda>st'.
          bindr (iter_next tab offset) (\<lambda>next.
          expand_loop tab code_sz code_base_idx i next st')))"
  by pat_completeness auto
termination
  by (relation "measure (\<lambda>(tab, code_sz, code_base_idx, i, offset, st). length tab - offset)")
    (auto dest!: iter_next_bounds)

declare expand_loop.simps [simp del]

text \<open>The indeterminate contents of freshly allocated arrays.\<close>

record indet =
  junk_am :: "nat \<Rightarrow> am_expand"
  junk_u32 :: "nat \<Rightarrow> u32"

record expand_out =
  o_st :: expand_state
  o_base :: nat
  o_func_base :: "nat option list"
  o_lab_tab :: "nat list option list"

definition expand_func :: "u_module \<Rightarrow> nat \<Rightarrow> expand_out \<Rightarrow> expand_out res" where
  "expand_func m i o1 =
    bindr (Get_func m i) (\<lambda>func.
    if Is_set_flag F_EXTERN func then Inr o1
    else bindr (Get_code_idx func) (\<lambda>ci. bindr (Get_code m ci) (\<lambda>code.
      let code_sz = unat (c_code_size code); base = o_base o1 in
      bindr (expand_loop (c_inst_tab code) code_sz base i 0 (o_st o1)) (\<lambda>st.
      bindr (mapr (\<lambda>j. bindr (arr_at (c_label_tab code) j) (\<lambda>l.
               bindr (arr_at (x_origin st) (unat (of_nat base + l :: u32))) (\<lambda>n. Inr (unat n))))
             [0..<unat (c_label_num code)]) (\<lambda>labs.
      bindr (arr_at (x_origin st) base) (\<lambda>start.
      bindr (arr_upd (o_lab_tab o1) i (Some labs)) (\<lambda>lab_tab.
      bindr (arr_upd (o_func_base o1) i (Some (unat start))) (\<lambda>func_base.
      Inr (o1\<lparr>o_st := st, o_base := base + code_sz, o_func_base := func_base,
              o_lab_tab := lab_tab\<rparr>)))))))))"

definition func_code_size :: "u_module \<Rightarrow> nat \<Rightarrow> nat \<Rightarrow> nat res" where
  "func_code_size m i code_sz =
    bindr (Get_func m i) (\<lambda>func.
    if Is_set_flag F_EXTERN func then Inr code_sz
    else bindr (Get_code_idx func) (\<lambda>ci. bindr (Get_code m ci) (\<lambda>code.
         Inr (code_sz + unat (c_code_size code)))))"

definition Expand_code :: "indet \<Rightarrow> u_module \<Rightarrow> u_module res" where
  "Expand_code ind m =
    bindr (sec_elem_num m S_FUNC) (\<lambda>func_num.
    bindr (foldr_res (func_code_size m) [0..<func_num] 0) (\<lambda>code_sz.
    let st0 = \<lparr>x_num = 0, x_table = map (junk_am ind) [0..<code_sz + 2],
               x_origin = map (junk_u32 ind) [0..<code_sz],
               x_expanded = map (junk_u32 ind) [0..<code_sz],
               x_exp_to_pc = m_exp_to_pc_map m\<rparr>;
        o0 = \<lparr>o_st = st0, o_base = 0, o_func_base = replicate func_num None,
              o_lab_tab = replicate func_num None\<rparr>
    in bindr (foldr_res (expand_func m) [0..<func_num] o0) (\<lambda>o1.
       let n = x_num (o_st o1) in
       bindr (arr_at (x_table (o_st o1)) (n + 1)) (\<lambda>e.
       Inr (m\<lparr>m_expanded_table := (x_table (o_st o1))[n + 1 := Set_opcode (push_bit VALTY_SZ OPC_BREAK) e],
              m_expanded_func_base := o_func_base o1, m_lab_tab := o_lab_tab o1, m_end_pc := n,
              m_expanded_pc_map := x_expanded (o_st o1), m_origin_pc_map := x_origin (o_st o1),
              m_exp_to_pc_map := x_exp_to_pc (o_st o1)\<rparr>)))))"

end
