(* ===== verification/Register.thy ===== *)
theory Register
  imports Prelude
begin

text \<open>
  The register files: \<^verbatim>\<open>REGISTER\<close> of \<^verbatim>\<open>src/interpreter/exec_unit.h\<close>.  Registers of all
  frames live in one growing block; the current frame starts at the frame pointer.  The cells
  are a total function so that what \<^verbatim>\<open>realloc\<close> leaves indeterminate is whatever the
  function holds there; an access past the block is the error \<open>Out_of_block\<close>.
\<close>

section \<open>State and operations\<close>

record 'v register =
  r_fp :: u32
  r_cur_mem_size :: u32
  r_cells :: "nat \<Rightarrow> 'v"
  r_cur :: nat

definition INITIAL_REG_SIZE :: u32 where "INITIAL_REG_SIZE = 16 * 1024"

definition REGISTER :: "(nat \<Rightarrow> 'v::zero) \<Rightarrow> 'v register" where
  "REGISTER junk =
    \<lparr>r_fp = 0, r_cur_mem_size = INITIAL_REG_SIZE,
     r_cells = (\<lambda>i. if i < unat INITIAL_REG_SIZE then 0 else junk i), r_cur = 0\<rparr>"

definition reg_get :: "'v register \<Rightarrow> u32 \<Rightarrow> 'v res" where
  "reg_get r i =
    (if r_cur r + unat i < unat (r_cur_mem_size r) then Inr (r_cells r (r_cur r + unat i))
     else Inl Out_of_block)"

definition reg_set :: "'v register \<Rightarrow> u32 \<Rightarrow> 'v \<Rightarrow> 'v register res" where
  "reg_set r i v =
    (if r_cur r + unat i < unat (r_cur_mem_size r)
     then Inr (r\<lparr>r_cells := (r_cells r)(r_cur r + unat i := v)\<rparr>)
     else Inl Out_of_block)"

definition Alloc :: "u32 \<Rightarrow> 'v register \<Rightarrow> 'v register" where
  "Alloc len r =
    (if r_cur_mem_size r < r_fp r + len
     then let r = r\<lparr>r_cur_mem_size := (r_cur_mem_size r + r_fp r + len) * 2\<rparr>
          in r\<lparr>r_cur := unat (r_fp r)\<rparr>
     else r)"

definition Set_fp :: "u32 \<Rightarrow> 'v register \<Rightarrow> 'v register" where
  "Set_fp fp r = r\<lparr>r_fp := fp, r_cur := unat fp\<rparr>"

definition Increment :: "u32 \<Rightarrow> 'v register \<Rightarrow> 'v register" where
  "Increment sz r = (let r = r\<lparr>r_fp := r_fp r + sz\<rparr> in r\<lparr>r_cur := unat (r_fp r)\<rparr>)"

section \<open>The contract of a register file\<close>

text \<open>\<open>holds r n\<close>: the current frame has \<open>n\<close> accessible registers.\<close>

definition reg_inv :: "'v register \<Rightarrow> bool" where
  "reg_inv r = (r_cur r = unat (r_fp r))"

definition reg_holds :: "'v register \<Rightarrow> nat \<Rightarrow> bool" where
  "reg_holds r n = (unat (r_fp r) + n \<le> unat (r_cur_mem_size r))"

text \<open>Growing by \<open>len\<close> from frame \<open>fp\<close> does not wrap the 32-bit size computation.\<close>

definition alloc_fits :: "'v register \<Rightarrow> u32 \<Rightarrow> bool" where
  "alloc_fits r len =
    (2 * (unat (r_cur_mem_size r) + unat (r_fp r) + unat len) < 2 ^ 32)"

locale register_file =
  fixes inv :: "'r \<Rightarrow> bool"
    and fp :: "'r \<Rightarrow> u32"
    and holds :: "'r \<Rightarrow> nat \<Rightarrow> bool"
    and fits :: "'r \<Rightarrow> u32 \<Rightarrow> bool"
    and get :: "'r \<Rightarrow> u32 \<Rightarrow> 'v res"
    and set :: "'r \<Rightarrow> u32 \<Rightarrow> 'v \<Rightarrow> 'r res"
    and alloc :: "u32 \<Rightarrow> 'r \<Rightarrow> 'r"
    and set_fp :: "u32 \<Rightarrow> 'r \<Rightarrow> 'r"
    and incr :: "u32 \<Rightarrow> 'r \<Rightarrow> 'r"
  assumes inv_set: "inv r \<Longrightarrow> set r i v = Inr r' \<Longrightarrow> inv r'"
    and inv_alloc: "inv r \<Longrightarrow> inv (alloc n r)"
    and inv_set_fp: "inv (set_fp f r)"
    and inv_incr: "inv (incr n r)"
    and fp_set: "set r i v = Inr r' \<Longrightarrow> fp r' = fp r"
    and fp_alloc: "fp (alloc n r) = fp r"
    and fp_set_fp: "fp (set_fp f r) = f"
    and fp_incr: "fp (incr n r) = fp r + n"
    and get_total: "inv r \<Longrightarrow> holds r k \<Longrightarrow> unat i < k \<Longrightarrow> \<exists>v. get r i = Inr v"
    and set_total: "inv r \<Longrightarrow> holds r k \<Longrightarrow> unat i < k \<Longrightarrow> \<exists>r'. set r i v = Inr r'"
    and get_set: "set r i v = Inr r' \<Longrightarrow> get r' j = (if i = j then Inr v else get r j)"
    and holds_set: "set r i v = Inr r' \<Longrightarrow> holds r' k = holds r k"
    and holds_alloc: "fits r n \<Longrightarrow> holds (alloc n r) (unat n)"
    and get_alloc: "inv r \<Longrightarrow> fits r n \<Longrightarrow> get r i = Inr v \<Longrightarrow> get (alloc n r) i = Inr v"
    and set_fp_back: "inv r \<Longrightarrow> set_fp (fp r) (incr n r) = r"
    and set_fp_set_fp: "set_fp f (set_fp g r) = set_fp f r"
    and set_fp_id: "inv r \<Longrightarrow> set_fp (fp r) r = r"
begin

text \<open>Entering a frame and leaving it without touching registers is the identity.\<close>

lemma enter_leave: "inv r \<Longrightarrow> set_fp (fp r) (set_fp g (incr n r)) = r"
  by (simp add: set_fp_set_fp set_fp_back)

lemma get_set_same: "set r i v = Inr r' \<Longrightarrow> get r' i = Inr v"
  by (simp add: get_set)

lemma set_preserves: "inv r \<Longrightarrow> set r i v = Inr r' \<Longrightarrow> inv r' \<and> fp r' = fp r \<and> holds r' = holds r"
  using inv_set fp_set holds_set by auto

end

section \<open>REGISTER meets the contract\<close>

lemmas register_defs = reg_inv_def reg_get_def reg_set_def Alloc_def Set_fp_def Increment_def

lemma alloc_fits_unat:
  assumes "alloc_fits r len"
  shows "unat (r_fp r + len) = unat (r_fp r) + unat len"
    and "unat ((r_cur_mem_size r + r_fp r + len) * 2) =
      2 * (unat (r_cur_mem_size r) + unat (r_fp r) + unat len)"
  using assms by (simp_all add: alloc_fits_def unat_word_ariths)

lemma reg_holds_Alloc: "alloc_fits r len \<Longrightarrow> reg_holds (Alloc len r) (unat len)"
  by (auto simp: reg_holds_def Alloc_def Let_def alloc_fits_unat word_less_nat_alt
      simp del: distrib_right_numeral)

lemma reg_get_Alloc:
  "reg_inv r \<Longrightarrow> alloc_fits r len \<Longrightarrow> reg_get r i = Inr v \<Longrightarrow> reg_get (Alloc len r) i = Inr v"
  by (auto simp: register_defs Let_def alloc_fits_unat split: if_splits simp del: distrib_right_numeral)

interpretation reg: register_file reg_inv r_fp reg_holds alloc_fits reg_get reg_set Alloc Set_fp Increment
proof
  fix r r' :: "'v register" and n i j f g :: u32 and v :: 'v and k :: nat
  show "reg_inv r \<Longrightarrow> reg_set r i v = Inr r' \<Longrightarrow> reg_inv r'"
    by (auto simp: register_defs split: if_splits)
  show "reg_inv r \<Longrightarrow> reg_inv (Alloc n r)"
    by (auto simp: register_defs Let_def)
  show "reg_inv (Set_fp f r)" by (simp add: register_defs)
  show "reg_inv (Increment n r)" by (simp add: register_defs Let_def)
  show "reg_set r i v = Inr r' \<Longrightarrow> r_fp r' = r_fp r"
    by (auto simp: register_defs split: if_splits)
  show "r_fp (Alloc n r) = r_fp r" by (simp add: register_defs Let_def)
  show "r_fp (Set_fp f r) = f" by (simp add: register_defs)
  show "r_fp (Increment n r) = r_fp r + n" by (simp add: register_defs Let_def)
  show "reg_inv r \<Longrightarrow> reg_holds r k \<Longrightarrow> unat i < k \<Longrightarrow> \<exists>v. reg_get r i = Inr v"
    by (auto simp: register_defs reg_holds_def)
  show "reg_inv r \<Longrightarrow> reg_holds r k \<Longrightarrow> unat i < k \<Longrightarrow> \<exists>r'. reg_set r i v = Inr r'"
    by (auto simp: register_defs reg_holds_def)
  show "reg_set r i v = Inr r' \<Longrightarrow> reg_get r' j = (if i = j then Inr v else reg_get r j)"
    by (auto simp: register_defs word_unat_eq_iff split: if_splits)
  show "reg_set r i v = Inr r' \<Longrightarrow> reg_holds r' k = reg_holds r k"
    by (auto simp: register_defs reg_holds_def split: if_splits)
  show "alloc_fits r n \<Longrightarrow> reg_holds (Alloc n r) (unat n)" by (rule reg_holds_Alloc)
  show "reg_inv r \<Longrightarrow> alloc_fits r n \<Longrightarrow> reg_get r i = Inr v \<Longrightarrow> reg_get (Alloc n r) i = Inr v"
    by (rule reg_get_Alloc)
  show "reg_inv r \<Longrightarrow> Set_fp (r_fp r) (Increment n r) = r"
    by (simp add: register_defs Let_def)
  show "Set_fp f (Set_fp g r) = Set_fp f r" by (simp add: register_defs)
  show "reg_inv r \<Longrightarrow> Set_fp (r_fp r) r = r" by (simp add: register_defs)
qed

lemma REGISTER_inv: "reg_inv (REGISTER junk)" "r_fp (REGISTER junk) = 0"
  "reg_holds (REGISTER junk) 16384"
  by (simp_all add: reg_inv_def reg_holds_def REGISTER_def INITIAL_REG_SIZE_def)

text \<open>
  For frame pointers and lengths far below the 32-bit range the block only grows, and the
  allocated registers are accessible.
\<close>

lemma Alloc_small:
  assumes "unat (r_fp r) \<le> 2 ^ 27" and "unat len \<le> 65535"
  shows "unat (r_cur_mem_size r) \<le> unat (r_cur_mem_size (Alloc len r))"
    and "reg_holds (Alloc len r) (unat len)"
proof -
  have sum: "unat (r_fp r + len) = unat (r_fp r) + unat len"
    using assms by (simp add: unat_word_ariths)
  show "unat (r_cur_mem_size r) \<le> unat (r_cur_mem_size (Alloc len r))"
    and "reg_holds (Alloc len r) (unat len)"
  proof (atomize(full), cases "r_cur_mem_size r < r_fp r + len")
    case True
    then have "unat (r_cur_mem_size r) < unat (r_fp r) + unat len"
      using sum by (simp add: word_less_nat_alt)
    then have "alloc_fits r len" using assms by (simp add: alloc_fits_def)
    with True show "unat (r_cur_mem_size r) \<le> unat (r_cur_mem_size (Alloc len r)) \<and>
        reg_holds (Alloc len r) (unat len)"
      using alloc_fits_unat(2) [of r len] reg_holds_Alloc [of r len] by (simp add: Alloc_def Let_def)
  next
    case False
    then show "unat (r_cur_mem_size r) \<le> unat (r_cur_mem_size (Alloc len r)) \<and>
        reg_holds (Alloc len r) (unat len)"
      using sum by (simp add: Alloc_def reg_holds_def word_less_nat_alt)
  qed
qed

end
