(* ===== verification/Ctx_Stack.thy ===== *)
theory Ctx_Stack
  imports Prelude
begin

text \<open>
  Execution contexts and the context stack: \<^verbatim>\<open>EXEC_CONTEXT\<close> and \<^verbatim>\<open>CONTEXT_STACK\<close> of
  \<^verbatim>\<open>src/interpreter/exec_unit.h\<close>.  The stack is a vector indexed by \<^verbatim>\<open>_sta_top_idx\<close>; it is
  shown to implement a list of saved contexts as long as it holds fewer contexts than the
  vector has slots.
\<close>

section \<open>Contexts\<close>

text \<open>
  \<^verbatim>\<open>_pc\<close> is an index into the expanded instruction table, \<^verbatim>\<open>_label_tab\<close> the label table it
  points to, \<^verbatim>\<open>_sp\<close> an offset from the memory base; a null pointer is \<open>None\<close>.
\<close>

record exec_context =
  x_fp_i32 :: u32
  x_fp_i64 :: u32
  x_fp_f32 :: u32
  x_fp_f64 :: u32
  x_func_idx :: u32
  x_pc :: "nat option"
  x_label_tab :: "nat list option"
  x_sp :: "int option"

definition EXEC_CONTEXT :: exec_context where
  "EXEC_CONTEXT = \<lparr>x_fp_i32 = 0, x_fp_i64 = 0, x_fp_f32 = 0, x_fp_f64 = 0, x_func_idx = 0,
    x_pc = None, x_label_tab = None, x_sp = None\<rparr>"

definition Get_label :: "exec_context \<Rightarrow> u32 \<Rightarrow> nat res" where
  "Get_label c lab_idx =
    (case x_label_tab c of None \<Rightarrow> Inl Out_of_block | Some t \<Rightarrow> arr_at t (unat lab_idx))"

section \<open>The stack\<close>

definition DEFAULT_STACK_SIZE :: nat where "DEFAULT_STACK_SIZE = 1024"

record context_stack =
  cs_vec :: "nat \<Rightarrow> exec_context"
  cs_size :: nat
  cs_capacity :: int
  cs_top :: int

definition CONTEXT_STACK :: context_stack where
  "CONTEXT_STACK = \<lparr>cs_vec = (\<lambda>i. EXEC_CONTEXT), cs_size = DEFAULT_STACK_SIZE,
    cs_capacity = int DEFAULT_STACK_SIZE, cs_top = -1\<rparr>"

definition Push :: "exec_context \<Rightarrow> context_stack \<Rightarrow> context_stack res" where
  "Push context s =
    (let s = (if cs_top s = cs_capacity s
              then s\<lparr>cs_capacity := cs_capacity s * 2, cs_size := nat (cs_capacity s * 2)\<rparr>
              else s);
         top = cs_top s + 1
     in if 0 \<le> top \<and> top < int (cs_size s)
        then Inr (s\<lparr>cs_top := top, cs_vec := (cs_vec s)(nat top := context)\<rparr>)
        else Inl Out_of_block)"

definition Pop :: "context_stack \<Rightarrow> context_stack res" where
  "Pop s = Is_True (0 \<le> cs_top s) (Inr (s\<lparr>cs_top := cs_top s - 1\<rparr>))"

definition Top :: "context_stack \<Rightarrow> exec_context res" where
  "Top s = (if 0 \<le> cs_top s \<and> cs_top s < int (cs_size s) then Inr (cs_vec s (nat (cs_top s)))
            else Inl Out_of_block)"

section \<open>The contract: a bounded stack of contexts\<close>

locale bounded_stack =
  fixes inv :: "'s \<Rightarrow> bool"
    and abs :: "'s \<Rightarrow> 'c list"
    and room :: "'s \<Rightarrow> nat"
    and push :: "'c \<Rightarrow> 's \<Rightarrow> 's res"
    and pop :: "'s \<Rightarrow> 's res"
    and top :: "'s \<Rightarrow> 'c res"
  assumes push_ok: "inv s \<Longrightarrow> 0 < room s \<Longrightarrow>
      \<exists>s'. push c s = Inr s' \<and> inv s' \<and> abs s' = c # abs s \<and> Suc (room s') = room s"
    and push_full: "inv s \<Longrightarrow> room s = 0 \<Longrightarrow> push c s = Inl Out_of_block"
    and pop_ok: "inv s \<Longrightarrow> abs s \<noteq> [] \<Longrightarrow>
      \<exists>s'. pop s = Inr s' \<and> inv s' \<and> abs s' = tl (abs s) \<and> room s' = Suc (room s)"
    and pop_empty: "inv s \<Longrightarrow> abs s = [] \<Longrightarrow> pop s = Inl Assertion"
    and top_ok: "inv s \<Longrightarrow> abs s \<noteq> [] \<Longrightarrow> top s = Inr (hd (abs s))"
begin

lemma push_Inr:
  assumes "inv s" and "push c s = Inr s'"
  shows "inv s'" and "abs s' = c # abs s" and "0 < room s" and "Suc (room s') = room s"
proof -
  have "0 < room s" using assms push_full [of s c] by (cases "room s") auto
  with push_ok [OF assms(1), of c] assms(2)
  show "inv s'" "abs s' = c # abs s" "0 < room s" "Suc (room s') = room s" by auto
qed

lemma pop_Inr:
  assumes "inv s" and "pop s = Inr s'"
  shows "inv s'" and "abs s' = tl (abs s)" and "abs s \<noteq> []" and "room s' = Suc (room s)"
proof -
  have "abs s \<noteq> []" using assms pop_empty by force
  with pop_ok [OF assms(1)] assms(2)
  show "inv s'" "abs s' = tl (abs s)" "abs s \<noteq> []" "room s' = Suc (room s)" by auto
qed

text \<open>What was pushed is on top, and popping it leads back to the same contents.\<close>

lemma push_top_pop:
  assumes "inv s" and "push c s = Inr s'"
  shows "top s' = Inr c" and "\<exists>s''. pop s' = Inr s'' \<and> inv s'' \<and> abs s'' = abs s \<and> room s'' = room s"
  using push_Inr [OF assms] top_ok [of s'] pop_ok [of s'] by auto

end

section \<open>CONTEXT\_STACK meets the contract\<close>

text \<open>
  The vector never reallocates: the branch that would grow it tests \<open>top = capacity\<close>, which
  the top index only reaches after a write one slot past the end.
\<close>

definition cs_inv :: "context_stack \<Rightarrow> bool" where
  "cs_inv s \<longleftrightarrow> -1 \<le> cs_top s \<and> cs_top s < int (cs_size s) \<and> int (cs_size s) = cs_capacity s"

definition cs_abs :: "context_stack \<Rightarrow> exec_context list" where
  "cs_abs s = rev (map (cs_vec s) [0..<nat (cs_top s + 1)])"

definition cs_room :: "context_stack \<Rightarrow> nat" where
  "cs_room s = nat (int (cs_size s) - 1 - cs_top s)"

lemma cs_abs_Nil: "cs_inv s \<Longrightarrow> cs_abs s = [] \<longleftrightarrow> cs_top s = -1"
  by (auto simp: cs_abs_def cs_inv_def)

lemma cs_abs_push:
  assumes "cs_inv s" and "0 < cs_room s"
  shows "Push c s = Inr (s\<lparr>cs_top := cs_top s + 1, cs_vec := (cs_vec s)(nat (cs_top s + 1) := c)\<rparr>)"
    and "cs_abs (s\<lparr>cs_top := cs_top s + 1, cs_vec := (cs_vec s)(nat (cs_top s + 1) := c)\<rparr>) = c # cs_abs s"
proof -
  show "Push c s = Inr (s\<lparr>cs_top := cs_top s + 1, cs_vec := (cs_vec s)(nat (cs_top s + 1) := c)\<rparr>)"
    using assms by (auto simp: Push_def cs_inv_def cs_room_def Let_def)
  have "nat (cs_top s + 2) = Suc (nat (cs_top s + 1))" using assms by (auto simp: cs_inv_def)
  then show "cs_abs (s\<lparr>cs_top := cs_top s + 1, cs_vec := (cs_vec s)(nat (cs_top s + 1) := c)\<rparr>) = c # cs_abs s"
    by (simp add: cs_abs_def add.assoc)
qed

lemma cs_abs_pop:
  assumes "cs_inv s" and "cs_abs s \<noteq> []"
  shows "cs_abs s = cs_vec s (nat (cs_top s)) # cs_abs (s\<lparr>cs_top := cs_top s - 1\<rparr>)"
proof -
  from assms have "0 \<le> cs_top s" by (auto simp: cs_abs_Nil cs_inv_def)
  then have "nat (cs_top s + 1) = Suc (nat (cs_top s))" by simp
  then show ?thesis by (simp add: cs_abs_def)
qed

interpretation cstk: bounded_stack cs_inv cs_abs cs_room Push Pop Top
proof
  fix s :: context_stack and c :: exec_context
  show "\<exists>s'. Push c s = Inr s' \<and> cs_inv s' \<and> cs_abs s' = c # cs_abs s \<and> Suc (cs_room s') = cs_room s"
    if "cs_inv s" "0 < cs_room s"
    using that cs_abs_push [OF that, of c] by (auto simp: cs_inv_def cs_room_def)
  show "Push c s = Inl Out_of_block" if "cs_inv s" "cs_room s = 0"
    using that by (auto simp: Push_def cs_inv_def cs_room_def)
  show "\<exists>s'. Pop s = Inr s' \<and> cs_inv s' \<and> cs_abs s' = tl (cs_abs s) \<and> cs_room s' = Suc (cs_room s)"
    if "cs_inv s" "cs_abs s \<noteq> []"
    using that cs_abs_pop [OF that] cs_abs_Nil [OF that(1)]
    by (auto simp: Pop_def cs_inv_def cs_room_def)
  show "Pop s = Inl Assertion" if "cs_inv s" "cs_abs s = []"
    using that by (simp add: Pop_def cs_abs_Nil)
  show "Top s = Inr (hd (cs_abs s))" if "cs_inv s" "cs_abs s \<noteq> []"
    using that cs_abs_pop [OF that] cs_abs_Nil [OF that(1)] by (auto simp: Top_def cs_inv_def)
qed

lemma CONTEXT_STACK_inv: "cs_inv CONTEXT_STACK" "cs_abs CONTEXT_STACK = []" "cs_room CONTEXT_STACK = 1024"
  by (simp_all add: cs_inv_def cs_abs_def cs_room_def CONTEXT_STACK_def DEFAULT_STACK_SIZE_def)

end
