(* ===== verification/Memory.thy ===== *)
theory Memory
  imports Prelude
begin

text \<open>
  The linear memory of the machine: the block the embedder hands to \<^verbatim>\<open>Init_memory\<close>.
  Addresses are offsets from \<^verbatim>\<open>_mem_p\<close>; a pointer that C++ code may compute but not
  dereference (below the block, past its end, null or stale) is an address whose access is
  the error \<open>Out_of_block\<close>.  Words are stored little-endian.
\<close>

section \<open>State and operations\<close>

text \<open>\<open>mb_live\<close> is false once the allocator has moved the block and \<^verbatim>\<open>_mem_p\<close> is dangling.\<close>

record memory =
  mb_bytes :: "nat \<Rightarrow> u8"
  mb_len :: nat
  mb_live :: bool

type_synonym address = "int option"

definition mem_ok :: "memory \<Rightarrow> address \<Rightarrow> nat \<Rightarrow> bool" where
  "mem_ok m a n = (case a of None \<Rightarrow> False
    | Some p \<Rightarrow> mb_live m \<and> 0 \<le> p \<and> p + int n \<le> int (mb_len m))"

definition mem_read :: "memory \<Rightarrow> address \<Rightarrow> nat \<Rightarrow> u8 list res" where
  "mem_read m a n =
    (if mem_ok m a n then Inr (map (\<lambda>i. mb_bytes m (nat (the a) + i)) [0..<n])
     else Inl Out_of_block)"

definition mem_write :: "memory \<Rightarrow> address \<Rightarrow> u8 list \<Rightarrow> memory res" where
  "mem_write m a bs =
    (if mem_ok m a (length bs)
     then Inr (m\<lparr>mb_bytes := (\<lambda>i. if nat (the a) \<le> i \<and> i < nat (the a) + length bs
                                  then bs ! (i - nat (the a)) else mb_bytes m i)\<rparr>)
     else Inl Out_of_block)"

definition load8 :: "memory \<Rightarrow> address \<Rightarrow> u8 res" where
  "load8 m a = bindr (mem_read m a 1) (\<lambda>bs. Inr (le_word bs))"

definition load16 :: "memory \<Rightarrow> address \<Rightarrow> u16 res" where
  "load16 m a = bindr (mem_read m a 2) (\<lambda>bs. Inr (le_word bs))"

definition load32 :: "memory \<Rightarrow> address \<Rightarrow> u32 res" where
  "load32 m a = bindr (mem_read m a 4) (\<lambda>bs. Inr (le_word bs))"

definition load64 :: "memory \<Rightarrow> address \<Rightarrow> u64 res" where
  "load64 m a = bindr (mem_read m a 8) (\<lambda>bs. Inr (le_word bs))"

definition store8 :: "memory \<Rightarrow> address \<Rightarrow> u8 \<Rightarrow> memory res" where
  "store8 m a v = mem_write m a (le_bytes 1 v)"

definition store16 :: "memory \<Rightarrow> address \<Rightarrow> u16 \<Rightarrow> memory res" where
  "store16 m a v = mem_write m a (le_bytes 2 v)"

definition store32 :: "memory \<Rightarrow> address \<Rightarrow> u32 \<Rightarrow> memory res" where
  "store32 m a v = mem_write m a (le_bytes 4 v)"

definition store64 :: "memory \<Rightarrow> address \<Rightarrow> u64 \<Rightarrow> memory res" where
  "store64 m a v = mem_write m a (le_bytes 8 v)"

lemmas load_defs = load8_def load16_def load32_def load64_def
lemmas store_defs = store8_def store16_def store32_def store64_def

section \<open>The contract of a memory cell of some width\<close>

text \<open>
  A typed access is a pair of partial operations: storing succeeds exactly where loading does,
  a load returns the last value stored there, and leaves accesses to disjoint cells alone.
\<close>

definition disjoint_range :: "address \<Rightarrow> nat \<Rightarrow> address \<Rightarrow> nat \<Rightarrow> bool" where
  "disjoint_range a n b k = (case (a, b) of
    (Some p, Some q) \<Rightarrow> p + int n \<le> q \<or> q + int k \<le> p | _ \<Rightarrow> True)"

locale typed_access =
  fixes load :: "memory \<Rightarrow> address \<Rightarrow> 'w::len word res"
    and store :: "memory \<Rightarrow> address \<Rightarrow> 'w word \<Rightarrow> memory res"
    and width :: nat
  assumes load_ok: "mem_ok m a width \<longleftrightarrow> (\<exists>v. load m a = Inr v)"
    and store_ok: "mem_ok m a width \<longleftrightarrow> (\<exists>m'. store m a v = Inr m')"
    and load_fail: "\<not> mem_ok m a width \<Longrightarrow> load m a = Inl Out_of_block"
    and store_fail: "\<not> mem_ok m a width \<Longrightarrow> store m a v = Inl Out_of_block"
    and load_store: "store m a v = Inr m' \<Longrightarrow> load m' a = Inr v"
    and store_frame: "store m a v = Inr m' \<Longrightarrow> disjoint_range a width b k \<Longrightarrow>
      mem_read m' b k = mem_read m b k"
    and store_shape: "store m a v = Inr m' \<Longrightarrow> mb_len m' = mb_len m \<and> mb_live m' = mb_live m"
begin

lemma store_then_load:
  assumes "mem_ok m a width"
  obtains m' where "store m a v = Inr m'" "load m' a = Inr v" "mb_len m' = mb_len m"
  using assms store_ok load_store store_shape by blast

lemma mem_ok_store: "store m a v = Inr m' \<Longrightarrow> mem_ok m' b k = mem_ok m b k"
  using store_shape by (auto simp: mem_ok_def split: option.splits)

end

section \<open>The machine's accesses meet the contract\<close>

lemma mem_write_ok: "mem_ok m a (length bs) \<longleftrightarrow> (\<exists>m'. mem_write m a bs = Inr m')"
  by (simp add: mem_write_def)

lemma mem_read_write:
  "mem_write m a bs = Inr m' \<Longrightarrow> mem_read m' a (length bs) = Inr bs"
  by (auto simp: mem_write_def mem_read_def mem_ok_def split: if_splits option.splits
      intro!: nth_equalityI)

lemma mem_write_frame:
  "mem_write m a bs = Inr m' \<Longrightarrow> disjoint_range a (length bs) b k \<Longrightarrow> mem_read m' b k = mem_read m b k"
  by (auto simp: mem_write_def mem_read_def mem_ok_def disjoint_range_def
      split: if_splits option.splits)

lemma mem_write_shape:
  "mem_write m a bs = Inr m' \<Longrightarrow> mb_len m' = mb_len m \<and> mb_live m' = mb_live m"
  by (auto simp: mem_write_def split: if_splits)

lemma typed_access_mem:
  assumes "\<And>m a. load m a = bindr (mem_read m a n) (\<lambda>bs. Inr (le_word bs))"
    and "\<And>m a v. store m a v = mem_write m a (le_bytes n v)"
    and "LENGTH('w::len) = 8 * n"
  shows "typed_access load (store :: memory \<Rightarrow> address \<Rightarrow> 'w word \<Rightarrow> memory res) n"
proof
  fix m m' :: memory and a b :: address and v :: "'w word" and k :: nat
  show "mem_ok m a n \<longleftrightarrow> (\<exists>v. load m a = Inr v)"
    by (simp add: assms(1) mem_read_def)
  show "mem_ok m a n \<longleftrightarrow> (\<exists>m'. store m a v = Inr m')"
    using mem_write_ok [of m a "le_bytes n v"] by (simp add: assms(2))
  show "load m a = Inl Out_of_block" if "\<not> mem_ok m a n"
    using that by (simp add: assms(1) mem_read_def)
  show "store m a v = Inl Out_of_block" if "\<not> mem_ok m a n"
    using that by (simp add: assms(2) mem_write_def)
  show "load m' a = Inr v" if "store m a v = Inr m'"
    using that mem_read_write [of m a "le_bytes n v" m']
    by (simp add: assms le_word_bytes_full)
  show "mem_read m' b k = mem_read m b k" if "store m a v = Inr m'" "disjoint_range a n b k"
    using that mem_write_frame [of m a "le_bytes n v" m' b k] by (simp add: assms(2))
  show "mb_len m' = mb_len m \<and> mb_live m' = mb_live m" if "store m a v = Inr m'"
    using that mem_write_shape by (auto simp: assms(2))
qed

interpretation cell8: typed_access load8 store8 1
  by (rule typed_access_mem) (simp_all add: load8_def store8_def)

interpretation cell16: typed_access load16 store16 2
  by (rule typed_access_mem) (simp_all add: load16_def store16_def)

interpretation cell32: typed_access load32 store32 4
  by (rule typed_access_mem) (simp_all add: load32_def store32_def)

interpretation cell64: typed_access load64 store64 8
  by (rule typed_access_mem) (simp_all add: load64_def store64_def)

end
