(* ===== verification/Machine.thy ===== *)
theory Machine
  imports U_Module Register Ctx_Stack Memory "HOL-Library.Signed_Division"
begin

text \<open>
  The machine \<^verbatim>\<open>UWASM_MACHINE\<close> of \<^verbatim>\<open>src/interpreter/exec_unit.h\<close> and
  \<^verbatim>\<open>src/interpreter/exec_unit.cxx\<close>: its state, the frame operations (function prologue and
  epilogue, environment initialisation, stack allocation), address computation and memory
  growth.  Floating-point registers hold IEEE bit patterns.  What the process environment
  provides is a parameter: floating-point arithmetic and conversions (\<open>fpu\<close>), the outcome of
  \<^verbatim>\<open>realloc\<close> and the effect of a system or native call (\<open>host\<close>).
\<close>

section \<open>State\<close>

record uwasm_machine =
  reg_i32 :: "u32 register"
  reg_i64 :: "u64 register"
  reg_f32 :: "u32 register"
  reg_f64 :: "u64 register"
  ctx_stack :: context_stack
  module :: u_module
  mem :: memory
  sta_p :: address
  mem_size :: u32
  global_start :: "u64 list"
  current :: exec_context

section \<open>The environment\<close>

record fpu =
  f32_add :: "u32 \<Rightarrow> u32 \<Rightarrow> u32"
  f32_sub :: "u32 \<Rightarrow> u32 \<Rightarrow> u32"
  f32_mul :: "u32 \<Rightarrow> u32 \<Rightarrow> u32"
  f32_div :: "u32 \<Rightarrow> u32 \<Rightarrow> u32"
  f32_ceil :: "u32 \<Rightarrow> u32"
  f32_floor :: "u32 \<Rightarrow> u32"
  f32_of_int :: "int \<Rightarrow> u32"
  f32_trunc :: "u32 \<Rightarrow> int option"
  f32_to_f64 :: "u32 \<Rightarrow> u64"
  f64_add :: "u64 \<Rightarrow> u64 \<Rightarrow> u64"
  f64_sub :: "u64 \<Rightarrow> u64 \<Rightarrow> u64"
  f64_mul :: "u64 \<Rightarrow> u64 \<Rightarrow> u64"
  f64_div :: "u64 \<Rightarrow> u64 \<Rightarrow> u64"
  f64_ceil :: "u64 \<Rightarrow> u64"
  f64_floor :: "u64 \<Rightarrow> u64"
  f64_sqrt :: "u64 \<Rightarrow> u64"
  f64_fmin :: "u64 \<Rightarrow> u64 \<Rightarrow> u64"
  f64_fmax :: "u64 \<Rightarrow> u64 \<Rightarrow> u64"
  f64_of_int :: "int \<Rightarrow> u64"
  f64_trunc :: "u64 \<Rightarrow> int option"
  f64_to_f32 :: "u64 \<Rightarrow> u32"

text \<open>\<^verbatim>\<open>realloc\<close> fails, grows the block where it is, or moves it.\<close>

datatype realloc_result = Realloc_null | Realloc_in_place | Realloc_moved

record host =
  h_fpu :: fpu
  h_realloc :: "nat \<Rightarrow> realloc_result"
  h_sys_call :: "u32 \<Rightarrow> uwasm_machine \<Rightarrow> uwasm_machine res"

section \<open>Registers\<close>

definition i32_get :: "uwasm_machine \<Rightarrow> u32 \<Rightarrow> u32 res" where
  "i32_get m i = reg_get (reg_i32 m) i"

definition i64_get :: "uwasm_machine \<Rightarrow> u32 \<Rightarrow> u64 res" where
  "i64_get m i = reg_get (reg_i64 m) i"

definition f32_get :: "uwasm_machine \<Rightarrow> u32 \<Rightarrow> u32 res" where
  "f32_get m i = reg_get (reg_f32 m) i"

definition f64_get :: "uwasm_machine \<Rightarrow> u32 \<Rightarrow> u64 res" where
  "f64_get m i = reg_get (reg_f64 m) i"

definition i32_set :: "u32 \<Rightarrow> u32 \<Rightarrow> uwasm_machine \<Rightarrow> uwasm_machine res" where
  "i32_set i v m = bindr (reg_set (reg_i32 m) i v) (\<lambda>r. Inr (m\<lparr>reg_i32 := r\<rparr>))"

definition i64_set :: "u32 \<Rightarrow> u64 \<Rightarrow> uwasm_machine \<Rightarrow> uwasm_machine res" where
  "i64_set i v m = bindr (reg_set (reg_i64 m) i v) (\<lambda>r. Inr (m\<lparr>reg_i64 := r\<rparr>))"

definition f32_set :: "u32 \<Rightarrow> u32 \<Rightarrow> uwasm_machine \<Rightarrow> uwasm_machine res" where
  "f32_set i v m = bindr (reg_set (reg_f32 m) i v) (\<lambda>r. Inr (m\<lparr>reg_f32 := r\<rparr>))"

definition f64_set :: "u32 \<Rightarrow> u64 \<Rightarrow> uwasm_machine \<Rightarrow> uwasm_machine res" where
  "f64_set i v m = bindr (reg_set (reg_f64 m) i v) (\<lambda>r. Inr (m\<lparr>reg_f64 := r\<rparr>))"

definition Get_ret_val :: "uwasm_machine \<Rightarrow> u32 res" where
  "Get_ret_val m = i32_get m 0"

section \<open>Program counter, stack and addresses\<close>

definition Inc_pc :: "uwasm_machine \<Rightarrow> uwasm_machine" where
  "Inc_pc m = m\<lparr>current := (current m)\<lparr>x_pc := map_option Suc (x_pc (current m))\<rparr>\<rparr>"

definition Set_pc :: "nat option \<Rightarrow> uwasm_machine \<Rightarrow> uwasm_machine" where
  "Set_pc pc m = m\<lparr>current := (current m)\<lparr>x_pc := pc\<rparr>\<rparr>"

definition Get_label_tab :: "uwasm_machine \<Rightarrow> u32 \<Rightarrow> nat list option res" where
  "Get_label_tab m i = arr_at (m_lab_tab (module m)) (unat i)"

definition Get_expanded_func_base :: "uwasm_machine \<Rightarrow> u32 \<Rightarrow> nat option res" where
  "Get_expanded_func_base m i = arr_at (m_expanded_func_base (module m)) (unat i)"

definition Get_reg_num :: "uwasm_machine \<Rightarrow> u32 \<Rightarrow> u64 res" where
  "Get_reg_num m i = arr_at (m_reg_num_tab (module m)) (unat i)"

definition Get_fp_shs_num :: "uwasm_machine \<Rightarrow> u32 \<Rightarrow> u64 res" where
  "Get_fp_shs_num m i = arr_at (m_fp_shs_tab (module m)) (unat i)"

definition Set_func_idx :: "u32 \<Rightarrow> uwasm_machine \<Rightarrow> uwasm_machine res" where
  "Set_func_idx func_idx m =
    bindr (Get_label_tab m func_idx) (\<lambda>lab_tab.
    bindr (Get_expanded_func_base m func_idx) (\<lambda>base.
    Inr (m\<lparr>current := (current m)\<lparr>x_func_idx := func_idx, x_label_tab := lab_tab, x_pc := base\<rparr>\<rparr>)))"

definition Allocate_stack :: "u32 \<Rightarrow> uwasm_machine \<Rightarrow> uwasm_machine res" where
  "Allocate_stack func_idx m =
    bindr (Get_func (module m) (unat func_idx)) (\<lambda>func.
    bindr (Get_code_idx func) (\<lambda>ci.
    bindr (Get_code (module m) ci) (\<lambda>code.
    let stack_size = c_stack_size code in
    if stack_size > 0
    then Inr (m\<lparr>current := (current m)\<lparr>
           x_sp := map_option (\<lambda>csp. csp - uint stack_size) (x_sp (current m))\<rparr>\<rparr>)
    else Inr m)))"

text \<open>
  \<^verbatim>\<open>Get_ofst_addr\<close>: a stack address is its distance from the end of memory, a global address
  its data index.
\<close>

definition Get_ofst_addr :: "u32 \<Rightarrow> bool \<Rightarrow> uwasm_machine \<Rightarrow> u32 res" where
  "Get_ofst_addr ofst is_stack m =
    (if is_stack
     then (case (x_sp (current m), sta_p m) of
            (Some sp, Some sta) \<Rightarrow> Inr (word_of_int (sp + uint ofst - sta))
          | _ \<Rightarrow> Inl Out_of_block)
     else bindr (Get_glbl (module m) (unat ofst)) (\<lambda>g. Inr (g_data_idx g)))"

definition add_ofs :: "int \<Rightarrow> address \<Rightarrow> address" where
  "add_ofs n a = map_option (\<lambda>p. p + n) a"

text \<open>
  \<^verbatim>\<open>Get_base_addr\<close>: a positive offset counts from the start of memory, any other from its
  end.  The check compares the 32-bit \<^verbatim>\<open>abs\<close>, which maps the least integer to itself.
\<close>

definition abs32 :: "u32 \<Rightarrow> u32" where
  "abs32 x = (if sint x < 0 then - x else x)"

definition Get_base_addr :: "u32 \<Rightarrow> uwasm_machine \<Rightarrow> address res" where
  "Get_base_addr reg_idx m =
    bindr (i32_get m reg_idx) (\<lambda>ptr_ofs.
    Is_True (abs32 ptr_ofs < mem_size m)
      (Inr (if sint ptr_ofs > 0 then Some (sint ptr_ofs) else add_ofs (sint ptr_ofs) (sta_p m))))"

text \<open>A global table entry takes eight bytes; \<^verbatim>\<open>_global_start + ofst\<close> must stay in the table.\<close>

definition global_get :: "u32 \<Rightarrow> uwasm_machine \<Rightarrow> u64 res" where
  "global_get ofst m = arr_at (global_start m) (unat ofst)"

definition global_set :: "u32 \<Rightarrow> u64 \<Rightarrow> uwasm_machine \<Rightarrow> uwasm_machine res" where
  "global_set ofst v m =
    bindr (arr_upd (global_start m) (unat ofst) v) (\<lambda>g. Inr (m\<lparr>global_start := g\<rparr>))"

section \<open>Calls\<close>

text \<open>Move the frame pointers past the caller's local registers, keeping the context in step.\<close>

definition inc_fp_i32 :: "u32 \<Rightarrow> uwasm_machine \<Rightarrow> uwasm_machine" where
  "inc_fp_i32 n m = (let r = Increment n (reg_i32 m)
    in m\<lparr>reg_i32 := r, current := (current m)\<lparr>x_fp_i32 := r_fp r\<rparr>\<rparr>)"

definition inc_fp_i64 :: "u32 \<Rightarrow> uwasm_machine \<Rightarrow> uwasm_machine" where
  "inc_fp_i64 n m = (if n \<noteq> 0 then let r = Increment n (reg_i64 m)
    in m\<lparr>reg_i64 := r, current := (current m)\<lparr>x_fp_i64 := r_fp r\<rparr>\<rparr> else m)"

definition inc_fp_f32 :: "u32 \<Rightarrow> uwasm_machine \<Rightarrow> uwasm_machine" where
  "inc_fp_f32 n m = (if n \<noteq> 0 then let r = Increment n (reg_f32 m)
    in m\<lparr>reg_f32 := r, current := (current m)\<lparr>x_fp_f32 := r_fp r\<rparr>\<rparr> else m)"

definition inc_fp_f64 :: "u32 \<Rightarrow> uwasm_machine \<Rightarrow> uwasm_machine" where
  "inc_fp_f64 n m = (if n \<noteq> 0 then let r = Increment n (reg_f64 m)
    in m\<lparr>reg_f64 := r, current := (current m)\<lparr>x_fp_f64 := r_fp r\<rparr>\<rparr> else m)"

definition shift_frames :: "u64 \<Rightarrow> uwasm_machine \<Rightarrow> uwasm_machine" where
  "shift_frames fp_shs m =
    (if fp_shs > 0xffff
     then inc_fp_f64 (unpack16 3 fp_shs) (inc_fp_f32 (unpack16 2 fp_shs)
            (inc_fp_i64 (unpack16 1 fp_shs) (inc_fp_i32 (unpack16 0 fp_shs) m)))
     else inc_fp_i32 (ucast fp_shs) m)"

text \<open>Make room for the registers of a frame.\<close>

definition alloc_nonzero :: "u32 \<Rightarrow> 'v register \<Rightarrow> 'v register" where
  "alloc_nonzero n r = (if n \<noteq> 0 then Alloc n r else r)"

definition alloc_frames :: "u64 \<Rightarrow> uwasm_machine \<Rightarrow> uwasm_machine" where
  "alloc_frames reg_num m =
    (if reg_num > 0xffff
     then m\<lparr>reg_i32 := Alloc (unpack16 0 reg_num) (reg_i32 m),
            reg_i64 := alloc_nonzero (unpack16 1 reg_num) (reg_i64 m),
            reg_f32 := alloc_nonzero (unpack16 2 reg_num) (reg_f32 m),
            reg_f64 := alloc_nonzero (unpack16 3 reg_num) (reg_f64 m)\<rparr>
     else m\<lparr>reg_i32 := Alloc (ucast reg_num) (reg_i32 m)\<rparr>)"

definition Func_epilogue :: "uwasm_machine \<Rightarrow> uwasm_machine res" where
  "Func_epilogue m =
    bindr (Top (ctx_stack m)) (\<lambda>prev_ctx.
    let m = m\<lparr>current := prev_ctx\<rparr> in
    bindr (Pop (ctx_stack m)) (\<lambda>s.
    let m = m\<lparr>ctx_stack := s\<rparr> in
    bindr (Get_fp_shs_num m (x_func_idx (current m))) (\<lambda>fp_shs.
    let m = m\<lparr>reg_i32 := Set_fp (x_fp_i32 (current m)) (reg_i32 m)\<rparr> in
    if fp_shs > 0xffff
    then Inr (m\<lparr>reg_i64 := Set_fp (x_fp_i64 (current m)) (reg_i64 m),
                reg_f32 := Set_fp (x_fp_f32 (current m)) (reg_f32 m),
                reg_f64 := Set_fp (x_fp_f64 (current m)) (reg_f64 m)\<rparr>)
    else Inr m)))"

text \<open>The two branches of \<^verbatim>\<open>Func_prologue\<close> once the caller is saved and the frames are shifted.\<close>

definition call_native :: "host \<Rightarrow> u32 \<Rightarrow> uwasm_machine \<Rightarrow> uwasm_machine res" where
  "call_native H callee_idx m =
    bindr (h_sys_call H callee_idx m) (\<lambda>m.
    bindr (Func_epilogue m) (\<lambda>m.
    Inr (Inc_pc m)))"

definition enter_callee :: "u32 \<Rightarrow> uwasm_machine \<Rightarrow> uwasm_machine res" where
  "enter_callee callee_idx m =
    bindr (Get_label_tab m callee_idx) (\<lambda>lab_tab.
    let m = m\<lparr>current := (current m)\<lparr>x_label_tab := lab_tab\<rparr>\<rparr> in
    bindr (Get_expanded_func_base m callee_idx) (\<lambda>base.
    let m = Set_pc base m in
    bindr (Allocate_stack callee_idx m) (\<lambda>m.
    bindr (Get_reg_num m callee_idx) (\<lambda>reg_num.
    Inr (alloc_frames reg_num m)))))"

definition Func_prologue :: "host \<Rightarrow> u32 \<Rightarrow> uwasm_machine \<Rightarrow> uwasm_machine res" where
  "Func_prologue H callee_idx m =
    bindr (Get_func (module m) (unat callee_idx)) (\<lambda>callee.
    let caller_func_idx = x_func_idx (current m) in
    bindr (Push (current m) (ctx_stack m)) (\<lambda>s.
    let m = m\<lparr>ctx_stack := s, current := (current m)\<lparr>x_func_idx := callee_idx\<rparr>\<rparr> in
    bindr (Get_fp_shs_num m caller_func_idx) (\<lambda>fp_shs.
    let m = shift_frames fp_shs m in
    if Is_set_flag F_EXTERN callee \<or> Is_set_flag F_NATIVE callee
    then call_native H callee_idx m
    else enter_callee callee_idx m)))"

definition Init_env :: "u32 \<Rightarrow> uwasm_machine \<Rightarrow> uwasm_machine res" where
  "Init_env func_idx m =
    (let m = m\<lparr>current := (current m)\<lparr>x_func_idx := func_idx,
               x_pc := Some (m_end_pc (module m))\<rparr>\<rparr> in
     bindr (Push (current m) (ctx_stack m)) (\<lambda>s.
     bindr (Set_func_idx func_idx (m\<lparr>ctx_stack := s\<rparr>)) (\<lambda>m.
     let m = m\<lparr>current := (current m)\<lparr>x_sp := sta_p m\<rparr>\<rparr> in
     bindr (Get_reg_num m func_idx) (\<lambda>reg_num.
     let m = m\<lparr>reg_i32 := alloc_nonzero (unpack16 0 reg_num) (reg_i32 m),
               reg_i64 := alloc_nonzero (unpack16 1 reg_num) (reg_i64 m),
               reg_f32 := alloc_nonzero (unpack16 2 reg_num) (reg_f32 m),
               reg_f64 := alloc_nonzero (unpack16 3 reg_num) (reg_f64 m)\<rparr> in
     Allocate_stack func_idx m))))"

section \<open>Memory growth\<close>

definition MEM_PAGE_SIZE :: u32 where "MEM_PAGE_SIZE = 65536"

text \<open>
  \<^verbatim>\<open>Grow_memory\<close> discards the pointer \<^verbatim>\<open>realloc\<close> returns.  In the build with assertions
  the early return is unreachable; it is kept as the code has it.
\<close>

definition Grow_memory :: "host \<Rightarrow> u32 \<Rightarrow> uwasm_machine \<Rightarrow> (u32 \<times> uwasm_machine) res" where
  "Grow_memory H target_size_bytes m =
    Is_True (target_size_bytes \<ge> mem_size m) (
    Is_True (target_size_bytes mod MEM_PAGE_SIZE = 0) (
    if target_size_bytes < mem_size m \<or> target_size_bytes mod MEM_PAGE_SIZE \<noteq> 0
    then Inr (-1, m)
    else (case h_realloc H (unat target_size_bytes) of
        Realloc_null \<Rightarrow> Inr (-1, m)
      | Realloc_in_place \<Rightarrow>
          Inr (target_size_bytes,
               m\<lparr>mem := (mem m)\<lparr>mb_len := unat target_size_bytes\<rparr>, mem_size := target_size_bytes\<rparr>)
      | Realloc_moved \<Rightarrow>
          Inr (target_size_bytes,
               m\<lparr>mem := (mem m)\<lparr>mb_live := False\<rparr>, mem_size := target_size_bytes\<rparr>))))"

end
