(* ===== verification/Float_Bits.thy ===== *)
theory Float_Bits
  imports Machine
begin

text \<open>
  Scalar operations used by the instruction handlers: comparisons of IEEE bit patterns,
  truncation to integers, integer division and shifts with the operands for which C++ defines
  no result as errors, and the builtin codes.
\<close>

named_theorems handler_defs \<open>definitions of the instruction handlers\<close>

section \<open>Floating-point comparison on bit patterns\<close>

definition f32_nan :: "u32 \<Rightarrow> bool" where
  "f32_nan w = (take_bit 31 w > 0x7F800000)"

definition f32_key :: "u32 \<Rightarrow> int" where
  "f32_key w = (if bit w 31 then - uint (take_bit 31 w) else uint (take_bit 31 w))"

definition f32_eq :: "u32 \<Rightarrow> u32 \<Rightarrow> bool" where
  "f32_eq a b = (\<not> f32_nan a \<and> \<not> f32_nan b \<and> f32_key a = f32_key b)"

definition f32_lt :: "u32 \<Rightarrow> u32 \<Rightarrow> bool" where
  "f32_lt a b = (\<not> f32_nan a \<and> \<not> f32_nan b \<and> f32_key a < f32_key b)"

definition f32_le :: "u32 \<Rightarrow> u32 \<Rightarrow> bool" where
  "f32_le a b = (\<not> f32_nan a \<and> \<not> f32_nan b \<and> f32_key a \<le> f32_key b)"

definition f64_nan :: "u64 \<Rightarrow> bool" where
  "f64_nan w = (take_bit 63 w > 0x7FF0000000000000)"

definition f64_key :: "u64 \<Rightarrow> int" where
  "f64_key w = (if bit w 63 then - uint (take_bit 63 w) else uint (take_bit 63 w))"

definition f64_eq :: "u64 \<Rightarrow> u64 \<Rightarrow> bool" where
  "f64_eq a b = (\<not> f64_nan a \<and> \<not> f64_nan b \<and> f64_key a = f64_key b)"

definition f64_lt :: "u64 \<Rightarrow> u64 \<Rightarrow> bool" where
  "f64_lt a b = (\<not> f64_nan a \<and> \<not> f64_nan b \<and> f64_key a < f64_key b)"

definition f64_le :: "u64 \<Rightarrow> u64 \<Rightarrow> bool" where
  "f64_le a b = (\<not> f64_nan a \<and> \<not> f64_nan b \<and> f64_key a \<le> f64_key b)"

text \<open>The values 0 and 1 converted to floating point, and the absolute value.\<close>

definition f32_of_bool :: "bool \<Rightarrow> u32" where
  "f32_of_bool b = (if b then 0x3F800000 else 0)"

definition f64_of_bool :: "bool \<Rightarrow> u64" where
  "f64_of_bool b = (if b then 0x3FF0000000000000 else 0)"

definition f64_abs :: "u64 \<Rightarrow> u64" where
  "f64_abs w = take_bit 63 w"

section \<open>Conversion to integers\<close>

text \<open>A truncated value outside the target type, an infinity or a NaN has no defined conversion.\<close>

definition to_i32 :: "int option \<Rightarrow> u32 res" where
  "to_i32 t = (case t of None \<Rightarrow> Inl Conv_undefined
    | Some i \<Rightarrow> if - (2 ^ 31) \<le> i \<and> i < 2 ^ 31 then Inr (word_of_int i) else Inl Conv_undefined)"

definition to_u32 :: "int option \<Rightarrow> u32 res" where
  "to_u32 t = (case t of None \<Rightarrow> Inl Conv_undefined
    | Some i \<Rightarrow> if 0 \<le> i \<and> i < 2 ^ 32 then Inr (word_of_int i) else Inl Conv_undefined)"

definition to_i64 :: "int option \<Rightarrow> u64 res" where
  "to_i64 t = (case t of None \<Rightarrow> Inl Conv_undefined
    | Some i \<Rightarrow> if - (2 ^ 63) \<le> i \<and> i < 2 ^ 63 then Inr (word_of_int i) else Inl Conv_undefined)"

section \<open>Integer division and shifts\<close>

definition div_ok :: "'w::len word \<Rightarrow> 'w word \<Rightarrow> bool" where
  "div_ok x y = (y \<noteq> 0 \<and> \<not> (sint x = - (2 ^ (LENGTH('w) - 1)) \<and> sint y = -1))"

definition div_s :: "'w::len word \<Rightarrow> 'w word \<Rightarrow> 'w word res" where
  "div_s x y = (if div_ok x y then Inr (word_of_int (sint x sdiv sint y)) else Inl Div_undefined)"

definition rem_s :: "'w::len word \<Rightarrow> 'w word \<Rightarrow> 'w word res" where
  "rem_s x y = (if div_ok x y then Inr (word_of_int (sint x smod sint y)) else Inl Div_undefined)"

definition shl :: "'w::len word \<Rightarrow> u32 \<Rightarrow> 'w word res" where
  "shl x n = (if unat n < LENGTH('w) then Inr (push_bit (unat n) x) else Inl Shift_undefined)"

definition shr_u :: "'w::len word \<Rightarrow> u32 \<Rightarrow> 'w word res" where
  "shr_u x n = (if unat n < LENGTH('w) then Inr (drop_bit (unat n) x) else Inl Shift_undefined)"

definition shr_s :: "'w::len word \<Rightarrow> u32 \<Rightarrow> 'w word res" where
  "shr_s x n = (if unat n < LENGTH('w) then Inr (signed_drop_bit (unat n) x) else Inl Shift_undefined)"

text \<open>
  The loop of the trailing-zero count: \<^verbatim>\<open>while (ofs << non_zero) non_zero++\<close> on 32 bits.
\<close>

function ctz_loop :: "u32 \<Rightarrow> nat \<Rightarrow> nat res" where
  "ctz_loop ofs non_zero =
    (if 32 \<le> non_zero then Inl Shift_undefined
     else if push_bit non_zero ofs \<noteq> 0 then ctz_loop ofs (non_zero + 1)
     else Inr non_zero)"
  by pat_completeness auto
termination
  by (relation "measure (\<lambda>(ofs, n). 32 - n)") auto

declare ctz_loop.simps [simp del]

section \<open>Builtin codes and limits\<close>

definition UBT_I64EXTEND32S :: u16 where "UBT_I64EXTEND32S = 0x01"
definition UBT_I64EXTEND32U :: u16 where "UBT_I64EXTEND32U = 0x02"
definition UBT_I32WRAPI64 :: u16 where "UBT_I32WRAPI64 = 0x03"
definition UBT_F64CVTI32S :: u16 where "UBT_F64CVTI32S = 0x04"
definition UBT_F64CVTI32U :: u16 where "UBT_F64CVTI32U = 0x05"
definition UBT_I32TRUNCF64U :: u16 where "UBT_I32TRUNCF64U = 0x06"
definition UBT_I64REINTEPRETF64 :: u16 where "UBT_I64REINTEPRETF64 = 0x07"
definition UBT_I32REINTEPRETF32 :: u16 where "UBT_I32REINTEPRETF32 = 0x08"
definition UBT_F64REINTEPRETI64 :: u16 where "UBT_F64REINTEPRETI64 = 0x09"
definition UBT_F32REINTEPRETI32 :: u16 where "UBT_F32REINTEPRETI32 = 0x0a"
definition UBT_F64ABS :: u16 where "UBT_F64ABS = 0x0b"
definition UBT_I32TRUNCF64S :: u16 where "UBT_I32TRUNCF64S = 0x0b"

definition UINT32_MAX :: u32 where "UINT32_MAX = 0xFFFFFFFF"

section \<open>Writing to the expanded instruction table\<close>

text \<open>\<^verbatim>\<open>inst->Set_ofs\<close> through the instruction pointer of the current instruction.\<close>

definition set_inst_ofs :: "nat \<Rightarrow> u32 \<Rightarrow> uwasm_machine \<Rightarrow> uwasm_machine res" where
  "set_inst_ofs p v m =
    bindr (arr_at (m_expanded_table (module m)) p) (\<lambda>e.
    bindr (arr_upd (m_expanded_table (module m)) p (Set_ofs v e)) (\<lambda>t.
    Inr (m\<lparr>module := (module m)\<lparr>m_expanded_table := t\<rparr>\<rparr>)))"

end
