(* ===== verification/Exec_Ops_32.thy ===== *)
theory Exec_Ops_32
  imports Float_Bits
begin

text \<open>
  The handlers of the 32-bit opcodes (\<^verbatim>\<open>src/interpreter/exec_unit_func.h\<close>), one definition
  per member function, in the order of the file.  A handler maps the fetched instruction and
  the machine to the machine after it, or to the error it ends in.  Signed arithmetic wraps
  around (two's complement).  Handlers that use floating-point arithmetic or the allocator take
  the environment as their first argument; the indirect transfers, which write the target back
  into the instruction, take its position in the expanded table.
\<close>

definition Nop_am32 :: "am_expand \<Rightarrow> uwasm_machine \<Rightarrow> uwasm_machine res" where [handler_defs]:
  "Nop_am32 inst m =
    Inr m"

definition Unreach_am32 :: "am_expand \<Rightarrow> uwasm_machine \<Rightarrow> uwasm_machine res" where [handler_defs]:
  "Unreach_am32 inst m =
    Inl Assertion"

definition Return_am32 :: "am_expand \<Rightarrow> uwasm_machine \<Rightarrow> uwasm_machine res" where [handler_defs]:
  "Return_am32 inst m =
    Func_epilogue m"

definition Call_am32_ofs :: "host \<Rightarrow> am_expand \<Rightarrow> uwasm_machine \<Rightarrow> uwasm_machine res" where [handler_defs]:
  "Call_am32_ofs H inst m =
    Func_prologue H (Get_ofs inst) m"

definition Jmp_am32_ofs :: "am_expand \<Rightarrow> uwasm_machine \<Rightarrow> uwasm_machine res" where [handler_defs]:
  "Jmp_am32_ofs inst m =
    bindr (Get_label (current m) (Get_ofs inst)) (\<lambda>l.
    Inr (Set_pc (Some l) m))"

definition Call_indirect_am32_r :: "host \<Rightarrow> nat \<Rightarrow> am_expand \<Rightarrow> uwasm_machine \<Rightarrow> uwasm_machine res" where [handler_defs]:
  "Call_indirect_am32_r H p inst m =
    bindr (i32_get m (Get_rd inst)) (\<lambda>x.
    bindr (set_inst_ofs p x m) (\<lambda>m.
    Call_am32_ofs H (Set_ofs x inst) m))"

definition Jmp_indirect_am32_r :: "nat \<Rightarrow> am_expand \<Rightarrow> uwasm_machine \<Rightarrow> uwasm_machine res" where [handler_defs]:
  "Jmp_indirect_am32_r p inst m =
    bindr (i32_get m (Get_rd inst)) (\<lambda>x.
    bindr (set_inst_ofs p x m) (\<lambda>m.
    Jmp_am32_ofs (Set_ofs x inst) m))"

definition Add_i32_am32_r_imm :: "am_expand \<Rightarrow> uwasm_machine \<Rightarrow> uwasm_machine res" where [handler_defs]:
  "Add_i32_am32_r_imm inst m =
    bindr (i32_get m (Get_rd inst)) (\<lambda>x.
    i32_set (Get_rd inst) (x + Get_imm inst) m)"

definition Add_i64_am32_r_imm :: "am_expand \<Rightarrow> uwasm_machine \<Rightarrow> uwasm_machine res" where [handler_defs]:
  "Add_i64_am32_r_imm inst m =
    bindr (i64_get m (Get_rd inst)) (\<lambda>x.
    i64_set (Get_rd inst) (x + scast (Get_imm inst)) m)"

definition Jez_i32_am32_r_ofs :: "am_expand \<Rightarrow> uwasm_machine \<Rightarrow> uwasm_machine res" where [handler_defs]:
  "Jez_i32_am32_r_ofs inst m =
    bindr (i32_get m (Get_rd inst)) (\<lambda>x.
    if x = 0 then Jmp_am32_ofs inst m else Inr (Inc_pc m))"

definition Jez_i64_am32_r_ofs :: "am_expand \<Rightarrow> uwasm_machine \<Rightarrow> uwasm_machine res" where [handler_defs]:
  "Jez_i64_am32_r_ofs inst m =
    bindr (i64_get m (Get_rd inst)) (\<lambda>x.
    if x = 0 then Jmp_am32_ofs inst m else Inr (Inc_pc m))"

definition Jez_f32_am32_r_ofs :: "am_expand \<Rightarrow> uwasm_machine \<Rightarrow> uwasm_machine res" where [handler_defs]:
  "Jez_f32_am32_r_ofs inst m =
    bindr (f32_get m (Get_rd inst)) (\<lambda>x.
    if f32_eq x 0 then Jmp_am32_ofs inst m else Inr (Inc_pc m))"

definition Jez_f64_am32_r_ofs :: "am_expand \<Rightarrow> uwasm_machine \<Rightarrow> uwasm_machine res" where [handler_defs]:
  "Jez_f64_am32_r_ofs inst m =
    bindr (f64_get m (Get_rd inst)) (\<lambda>x.
    if f64_eq x 0 then Jmp_am32_ofs inst m else Inr (Inc_pc m))"

definition Jnz_i32_am32_r_ofs :: "am_expand \<Rightarrow> uwasm_machine \<Rightarrow> uwasm_machine res" where [handler_defs]:
  "Jnz_i32_am32_r_ofs inst m =
    bindr (i32_get m (Get_rd inst)) (\<lambda>x.
    if x \<noteq> 0 then Jmp_am32_ofs inst m else Inr (Inc_pc m))"

definition Jnz_i64_am32_r_ofs :: "am_expand \<Rightarrow> uwasm_machine \<Rightarrow> uwasm_machine res" where [handler_defs]:
  "Jnz_i64_am32_r_ofs inst m =
    bindr (i64_get m (Get_rd inst)) (\<lambda>x.
    if x \<noteq> 0 then Jmp_am32_ofs inst m else Inr (Inc_pc m))"

definition Jnz_f32_am32_r_ofs :: "am_expand \<Rightarrow> uwasm_machine \<Rightarrow> uwasm_machine res" where [handler_defs]:
  "Jnz_f32_am32_r_ofs inst m =
    bindr (f32_get m (Get_rd inst)) (\<lambda>x.
    if \<not> f32_eq x 0 then Jmp_am32_ofs inst m else Inr (Inc_pc m))"

definition Jnz_f64_am32_r_ofs :: "am_expand \<Rightarrow> uwasm_machine \<Rightarrow> uwasm_machine res" where [handler_defs]:
  "Jnz_f64_am32_r_ofs inst m =
    bindr (f64_get m (Get_rd inst)) (\<lambda>x.
    if \<not> f64_eq x 0 then Jmp_am32_ofs inst m else Inr (Inc_pc m))"

definition Jlz_i32_am32_r_ofs :: "am_expand \<Rightarrow> uwasm_machine \<Rightarrow> uwasm_machine res" where [handler_defs]:
  "Jlz_i32_am32_r_ofs inst m =
    bindr (i32_get m (Get_rd inst)) (\<lambda>x.
    if sint x < 0 then Jmp_am32_ofs inst m else Inr (Inc_pc m))"

definition Jlz_i64_am32_r_ofs :: "am_expand \<Rightarrow> uwasm_machine \<Rightarrow> uwasm_machine res" where [handler_defs]:
  "Jlz_i64_am32_r_ofs inst m =
    bindr (i64_get m (Get_rd inst)) (\<lambda>x.
    if sint x < 0 then Jmp_am32_ofs inst m else Inr (Inc_pc m))"

definition Jlz_f32_am32_r_ofs :: "am_expand \<Rightarrow> uwasm_machine \<Rightarrow> uwasm_machine res" where [handler_defs]:
  "Jlz_f32_am32_r_ofs inst m =
    bindr (f32_get m (Get_rd inst)) (\<lambda>x.
    if f32_lt x 0 then Jmp_am32_ofs inst m else Inr (Inc_pc m))"

definition Jlz_f64_am32_r_ofs :: "am_expand \<Rightarrow> uwasm_machine \<Rightarrow> uwasm_machine res" where [handler_defs]:
  "Jlz_f64_am32_r_ofs inst m =
    bindr (f64_get m (Get_rd inst)) (\<lambda>x.
    if f64_lt x 0 then Jmp_am32_ofs inst m else Inr (Inc_pc m))"

definition Jlez_i32_am32_r_ofs :: "am_expand \<Rightarrow> uwasm_machine \<Rightarrow> uwasm_machine res" where [handler_defs]:
  "Jlez_i32_am32_r_ofs inst m =
    bindr (i32_get m (Get_rd inst)) (\<lambda>x.
    if sint x \<le> 0 then Jmp_am32_ofs inst m else Inr (Inc_pc m))"

definition Jlez_i64_am32_r_ofs :: "am_expand \<Rightarrow> uwasm_machine \<Rightarrow> uwasm_machine res" where [handler_defs]:
  "Jlez_i64_am32_r_ofs inst m =
    bindr (i64_get m (Get_rd inst)) (\<lambda>x.
    if sint x \<le> 0 then Jmp_am32_ofs inst m else Inr (Inc_pc m))"

definition Jlez_f32_am32_r_ofs :: "am_expand \<Rightarrow> uwasm_machine \<Rightarrow> uwasm_machine res" where [handler_defs]:
  "Jlez_f32_am32_r_ofs inst m =
    bindr (f32_get m (Get_rd inst)) (\<lambda>x.
    if f32_le x 0 then Jmp_am32_ofs inst m else Inr (Inc_pc m))"

definition Jlez_f64_am32_r_ofs :: "am_expand \<Rightarrow> uwasm_machine \<Rightarrow> uwasm_machine res" where [handler_defs]:
  "Jlez_f64_am32_r_ofs inst m =
    bindr (f64_get m (Get_rd inst)) (\<lambda>x.
    if f64_le x 0 then Jmp_am32_ofs inst m else Inr (Inc_pc m))"

definition Jgz_i32_am32_r_ofs :: "am_expand \<Rightarrow> uwasm_machine \<Rightarrow> uwasm_machine res" where [handler_defs]:
  "Jgz_i32_am32_r_ofs inst m =
    bindr (i32_get m (Get_rd inst)) (\<lambda>x.
    if sint x > 0 then Jmp_am32_ofs inst m else Inr (Inc_pc m))"

definition Jgz_i64_am32_r_ofs :: "am_expand \<Rightarrow> uwasm_machine \<Rightarrow> uwasm_machine res" where [handler_defs]:
  "Jgz_i64_am32_r_ofs inst m =
    bindr (i64_get m (Get_rd inst)) (\<lambda>x.
    if sint x > 0 then Jmp_am32_ofs inst m else Inr (Inc_pc m))"

definition Jgz_f32_am32_r_ofs :: "am_expand \<Rightarrow> uwasm_machine \<Rightarrow> uwasm_machine res" where [handler_defs]:
  "Jgz_f32_am32_r_ofs inst m =
    bindr (f32_get m (Get_rd inst)) (\<lambda>x.
    if f32_lt 0 x then Jmp_am32_ofs inst m else Inr (Inc_pc m))"

definition Jgz_f64_am32_r_ofs :: "am_expand \<Rightarrow> uwasm_machine \<Rightarrow> uwasm_machine res" where [handler_defs]:
  "Jgz_f64_am32_r_ofs inst m =
    bindr (f64_get m (Get_rd inst)) (\<lambda>x.
    if f64_lt 0 x then Jmp_am32_ofs inst m else Inr (Inc_pc m))"

definition Jgez_i32_am32_r_ofs :: "am_expand \<Rightarrow> uwasm_machine \<Rightarrow> uwasm_machine res" where [handler_defs]:
  "Jgez_i32_am32_r_ofs inst m =
    bindr (i32_get m (Get_rd inst)) (\<lambda>x.
    if sint x \<ge> 0 then Jmp_am32_ofs inst m else Inr (Inc_pc m))"

definition Jgez_i64_am32_r_ofs :: "am_expand \<Rightarrow> uwasm_machine \<Rightarrow> uwasm_machine res" where [handler_defs]:
  "Jgez_i64_am32_r_ofs inst m =
    bindr (i64_get m (Get_rd inst)) (\<lambda>x.
    if sint x \<ge> 0 then Jmp_am32_ofs inst m else Inr (Inc_pc m))"

definition Jgez_f32_am32_r_ofs :: "am_expand \<Rightarrow> uwasm_machine \<Rightarrow> uwasm_machine res" where [handler_defs]:
  "Jgez_f32_am32_r_ofs inst m =
    bindr (f32_get m (Get_rd inst)) (\<lambda>x.
    if f32_le 0 x then Jmp_am32_ofs inst m else Inr (Inc_pc m))"

definition Jgez_f64_am32_r_ofs :: "am_expand \<Rightarrow> uwasm_machine \<Rightarrow> uwasm_machine res" where [handler_defs]:
  "Jgez_f64_am32_r_ofs inst m =
    bindr (f64_get m (Get_rd inst)) (\<lambda>x.
    if f64_le 0 x then Jmp_am32_ofs inst m else Inr (Inc_pc m))"

definition Llda_i32_am32_r_ofs :: "am_expand \<Rightarrow> uwasm_machine \<Rightarrow> uwasm_machine res" where [handler_defs]:
  "Llda_i32_am32_r_ofs inst m =
    bindr (Get_ofst_addr (Get_ofs inst) True m) (\<lambda>a.
    i32_set (Get_rd inst) a m)"

definition Llda_i64_am32_r_ofs :: "am_expand \<Rightarrow> uwasm_machine \<Rightarrow> uwasm_machine res" where [handler_defs]:
  "Llda_i64_am32_r_ofs inst m =
    bindr (Get_ofst_addr (Get_ofs inst) True m) (\<lambda>a.
    i64_set (Get_rd inst) (scast a) m)"

definition Glda_i32_am32_r_ofs :: "am_expand \<Rightarrow> uwasm_machine \<Rightarrow> uwasm_machine res" where [handler_defs]:
  "Glda_i32_am32_r_ofs inst m =
    bindr (Get_ofst_addr (Get_ofs inst) False m) (\<lambda>a.
    i32_set (Get_rd inst) a m)"

definition Glda_i64_am32_r_ofs :: "am_expand \<Rightarrow> uwasm_machine \<Rightarrow> uwasm_machine res" where [handler_defs]:
  "Glda_i64_am32_r_ofs inst m =
    bindr (Get_ofst_addr (Get_ofs inst) False m) (\<lambda>a.
    i64_set (Get_rd inst) (scast a) m)"

definition Mov_i32_am32_r_r :: "am_expand \<Rightarrow> uwasm_machine \<Rightarrow> uwasm_machine res" where [handler_defs]:
  "Mov_i32_am32_r_r inst m =
    bindr (i32_get m (Get_rs inst)) (\<lambda>x.
    i32_set (Get_rd inst) x m)"

definition Mov_i64_am32_r_r :: "am_expand \<Rightarrow> uwasm_machine \<Rightarrow> uwasm_machine res" where [handler_defs]:
  "Mov_i64_am32_r_r inst m =
    bindr (i64_get m (Get_rs inst)) (\<lambda>x.
    i64_set (Get_rd inst) x m)"

definition Mov_f32_am32_r_r :: "am_expand \<Rightarrow> uwasm_machine \<Rightarrow> uwasm_machine res" where [handler_defs]:
  "Mov_f32_am32_r_r inst m =
    bindr (f32_get m (Get_rs inst)) (\<lambda>x.
    f32_set (Get_rd inst) x m)"

definition Mov_f64_am32_r_r :: "am_expand \<Rightarrow> uwasm_machine \<Rightarrow> uwasm_machine res" where [handler_defs]:
  "Mov_f64_am32_r_r inst m =
    bindr (f64_get m (Get_rs inst)) (\<lambda>x.
    f64_set (Get_rd inst) x m)"

definition Add_i32_am32_r_r :: "am_expand \<Rightarrow> uwasm_machine \<Rightarrow> uwasm_machine res" where [handler_defs]:
  "Add_i32_am32_r_r inst m =
    bindr (i32_get m (Get_rd inst)) (\<lambda>x.
    bindr (i32_get m (Get_rs inst)) (\<lambda>y.
    i32_set (Get_rd inst) (x + y) m))"

definition Add_i64_am32_r_r :: "am_expand \<Rightarrow> uwasm_machine \<Rightarrow> uwasm_machine res" where [handler_defs]:
  "Add_i64_am32_r_r inst m =
    bindr (i64_get m (Get_rd inst)) (\<lambda>x.
    bindr (i64_get m (Get_rs inst)) (\<lambda>y.
    i64_set (Get_rd inst) (x + y) m))"

definition Add_f32_am32_r_r :: "host \<Rightarrow> am_expand \<Rightarrow> uwasm_machine \<Rightarrow> uwasm_machine res" where [handler_defs]:
  "Add_f32_am32_r_r H inst m =
    bindr (f32_get m (Get_rd inst)) (\<lambda>x.
    bindr (f32_get m (Get_rs inst)) (\<lambda>y.
    f32_set (Get_rd inst) (f32_add (h_fpu H) x y) m))"

definition Add_f64_am32_r_r :: "host \<Rightarrow> am_expand \<Rightarrow> uwasm_machine \<Rightarrow> uwasm_machine res" where [handler_defs]:
  "Add_f64_am32_r_r H inst m =
    bindr (f64_get m (Get_rd inst)) (\<lambda>x.
    bindr (f64_get m (Get_rs inst)) (\<lambda>y.
    f64_set (Get_rd inst) (f64_add (h_fpu H) x y) m))"

definition Const_i32_am32_r_imm :: "am_expand \<Rightarrow> uwasm_machine \<Rightarrow> uwasm_machine res" where [handler_defs]:
  "Const_i32_am32_r_imm inst m =
    i32_set (Get_rd inst) (Get_imm inst) m"

definition Const_i64_am32_r_imm :: "am_expand \<Rightarrow> uwasm_machine \<Rightarrow> uwasm_machine res" where [handler_defs]:
  "Const_i64_am32_r_imm inst m =
    i64_set (Get_rd inst) (scast (Get_imm inst)) m"

definition Add_i32_am32s_r_r_imm :: "am_expand \<Rightarrow> uwasm_machine \<Rightarrow> uwasm_machine res" where [handler_defs]:
  "Add_i32_am32s_r_r_imm inst m =
    bindr (i32_get m (Get_rs inst)) (\<lambda>x.
    i32_set (Get_rd inst) (x + Get_imm inst) m)"

definition Add_i64_am32s_r_r_imm :: "am_expand \<Rightarrow> uwasm_machine \<Rightarrow> uwasm_machine res" where [handler_defs]:
  "Add_i64_am32s_r_r_imm inst m =
    bindr (i64_get m (Get_rs inst)) (\<lambda>x.
    i64_set (Get_rd inst) (x + scast (Get_imm inst)) m)"

definition Jeq_i32_am32s_r_r_ofs :: "am_expand \<Rightarrow> uwasm_machine \<Rightarrow> uwasm_machine res" where [handler_defs]:
  "Jeq_i32_am32s_r_r_ofs inst m =
    bindr (i32_get m (Get_rd inst)) (\<lambda>x.
    bindr (i32_get m (Get_rs inst)) (\<lambda>y.
    if x = y then Jmp_am32_ofs inst m else Inr (Inc_pc m)))"

definition Jeq_i64_am32s_r_r_ofs :: "am_expand \<Rightarrow> uwasm_machine \<Rightarrow> uwasm_machine res" where [handler_defs]:
  "Jeq_i64_am32s_r_r_ofs inst m =
    bindr (i64_get m (Get_rd inst)) (\<lambda>x.
    bindr (i64_get m (Get_rs inst)) (\<lambda>y.
    if x = y then Jmp_am32_ofs inst m else Inr (Inc_pc m)))"

definition Jeq_f32_am32s_r_r_ofs :: "am_expand \<Rightarrow> uwasm_machine \<Rightarrow> uwasm_machine res" where [handler_defs]:
  "Jeq_f32_am32s_r_r_ofs inst m =
    bindr (f32_get m (Get_rd inst)) (\<lambda>x.
    bindr (f32_get m (Get_rs inst)) (\<lambda>y.
    if f32_eq x y then Jmp_am32_ofs inst m else Inr (Inc_pc m)))"

definition Jeq_f64_am32s_r_r_ofs :: "am_expand \<Rightarrow> uwasm_machine \<Rightarrow> uwasm_machine res" where [handler_defs]:
  "Jeq_f64_am32s_r_r_ofs inst m =
    bindr (f64_get m (Get_rd inst)) (\<lambda>x.
    bindr (f64_get m (Get_rs inst)) (\<lambda>y.
    if f64_eq x y then Jmp_am32_ofs inst m else Inr (Inc_pc m)))"

definition Jne_i32_am32s_r_r_ofs :: "am_expand \<Rightarrow> uwasm_machine \<Rightarrow> uwasm_machine res" where [handler_defs]:
  "Jne_i32_am32s_r_r_ofs inst m =
    bindr (i32_get m (Get_rd inst)) (\<lambda>x.
    bindr (i32_get m (Get_rs inst)) (\<lambda>y.
    if x \<noteq> y then Jmp_am32_ofs inst m else Inr (Inc_pc m)))"

definition Jne_i64_am32s_r_r_ofs :: "am_expand \<Rightarrow> uwasm_machine \<Rightarrow> uwasm_machine res" where [handler_defs]:
  "Jne_i64_am32s_r_r_ofs inst m =
    bindr (i64_get m (Get_rd inst)) (\<lambda>x.
    bindr (i64_get m (Get_rs inst)) (\<lambda>y.
    if x \<noteq> y then Jmp_am32_ofs inst m else Inr (Inc_pc m)))"

definition Jne_f32_am32s_r_r_ofs :: "am_expand \<Rightarrow> uwasm_machine \<Rightarrow> uwasm_machine res" where [handler_defs]:
  "Jne_f32_am32s_r_r_ofs inst m =
    bindr (f32_get m (Get_rd inst)) (\<lambda>x.
    bindr (f32_get m (Get_rs inst)) (\<lambda>y.
    if \<not> f32_eq x y then Jmp_am32_ofs inst m else Inr (Inc_pc m)))"

definition Jne_f64_am32s_r_r_ofs :: "am_expand \<Rightarrow> uwasm_machine \<Rightarrow> uwasm_machine res" where [handler_defs]:
  "Jne_f64_am32s_r_r_ofs inst m =
    bindr (f64_get m (Get_rd inst)) (\<lambda>x.
    bindr (f64_get m (Get_rs inst)) (\<lambda>y.
    if \<not> f64_eq x y then Jmp_am32_ofs inst m else Inr (Inc_pc m)))"

definition Jlt_i32_am32s_r_r_ofs :: "am_expand \<Rightarrow> uwasm_machine \<Rightarrow> uwasm_machine res" where [handler_defs]:
  "Jlt_i32_am32s_r_r_ofs inst m =
    bindr (i32_get m (Get_rd inst)) (\<lambda>x.
    bindr (i32_get m (Get_rs inst)) (\<lambda>y.
    if sint x < sint y then Jmp_am32_ofs inst m else Inr (Inc_pc m)))"

definition Jlt_i64_am32s_r_r_ofs :: "am_expand \<Rightarrow> uwasm_machine \<Rightarrow> uwasm_machine res" where [handler_defs]:
  "Jlt_i64_am32s_r_r_ofs inst m =
    bindr (i64_get m (Get_rd inst)) (\<lambda>x.
    bindr (i64_get m (Get_rs inst)) (\<lambda>y.
    if sint x < sint y then Jmp_am32_ofs inst m else Inr (Inc_pc m)))"

definition Jlt_f32_am32s_r_r_ofs :: "am_expand \<Rightarrow> uwasm_machine \<Rightarrow> uwasm_machine res" where [handler_defs]:
  "Jlt_f32_am32s_r_r_ofs inst m =
    bindr (f32_get m (Get_rd inst)) (\<lambda>x.
    bindr (f32_get m (Get_rs inst)) (\<lambda>y.
    if f32_lt x y then Jmp_am32_ofs inst m else Inr (Inc_pc m)))"

definition Jlt_f64_am32s_r_r_ofs :: "am_expand \<Rightarrow> uwasm_machine \<Rightarrow> uwasm_machine res" where [handler_defs]:
  "Jlt_f64_am32s_r_r_ofs inst m =
    bindr (f64_get m (Get_rd inst)) (\<lambda>x.
    bindr (f64_get m (Get_rs inst)) (\<lambda>y.
    if f64_lt x y then Jmp_am32_ofs inst m else Inr (Inc_pc m)))"

definition Jle_i32_am32s_r_r_ofs :: "am_expand \<Rightarrow> uwasm_machine \<Rightarrow> uwasm_machine res" where [handler_defs]:
  "Jle_i32_am32s_r_r_ofs inst m =
    bindr (i32_get m (Get_rd inst)) (\<lambda>x.
    bindr (i32_get m (Get_rs inst)) (\<lambda>y.
    if sint x \<le> sint y then Jmp_am32_ofs inst m else Inr (Inc_pc m)))"

definition Jle_i64_am32s_r_r_ofs :: "am_expand \<Rightarrow> uwasm_machine \<Rightarrow> uwasm_machine res" where [handler_defs]:
  "Jle_i64_am32s_r_r_ofs inst m =
    bindr (i64_get m (Get_rd inst)) (\<lambda>x.
    bindr (i64_get m (Get_rs inst)) (\<lambda>y.
    if sint x \<le> sint y then Jmp_am32_ofs inst m else Inr (Inc_pc m)))"

definition Jle_f32_am32s_r_r_ofs :: "am_expand \<Rightarrow> uwasm_machine \<Rightarrow> uwasm_machine res" where [handler_defs]:
  "Jle_f32_am32s_r_r_ofs inst m =
    bindr (f32_get m (Get_rd inst)) (\<lambda>x.
    bindr (f32_get m (Get_rs inst)) (\<lambda>y.
    if f32_le x y then Jmp_am32_ofs inst m else Inr (Inc_pc m)))"

definition Jle_f64_am32s_r_r_ofs :: "am_expand \<Rightarrow> uwasm_machine \<Rightarrow> uwasm_machine res" where [handler_defs]:
  "Jle_f64_am32s_r_r_ofs inst m =
    bindr (f64_get m (Get_rd inst)) (\<lambda>x.
    bindr (f64_get m (Get_rs inst)) (\<lambda>y.
    if f64_le x y then Jmp_am32_ofs inst m else Inr (Inc_pc m)))"

definition Jgt_i32_am32s_r_r_ofs :: "am_expand \<Rightarrow> uwasm_machine \<Rightarrow> uwasm_machine res" where [handler_defs]:
  "Jgt_i32_am32s_r_r_ofs inst m =
    bindr (i32_get m (Get_rd inst)) (\<lambda>x.
    bindr (i32_get m (Get_rs inst)) (\<lambda>y.
    if sint x > sint y then Jmp_am32_ofs inst m else Inr (Inc_pc m)))"

definition Jgt_i64_am32s_r_r_ofs :: "am_expand \<Rightarrow> uwasm_machine \<Rightarrow> uwasm_machine res" where [handler_defs]:
  "Jgt_i64_am32s_r_r_ofs inst m =
    bindr (i64_get m (Get_rd inst)) (\<lambda>x.
    bindr (i64_get m (Get_rs inst)) (\<lambda>y.
    if sint x > sint y then Jmp_am32_ofs inst m else Inr (Inc_pc m)))"

definition Jgt_f32_am32s_r_r_ofs :: "am_expand \<Rightarrow> uwasm_machine \<Rightarrow> uwasm_machine res" where [handler_defs]:
  "Jgt_f32_am32s_r_r_ofs inst m =
    bindr (f32_get m (Get_rd inst)) (\<lambda>x.
    bindr (f32_get m (Get_rs inst)) (\<lambda>y.
    if f32_lt y x then Jmp_am32_ofs inst m else Inr (Inc_pc m)))"

definition Jgt_f64_am32s_r_r_ofs :: "am_expand \<Rightarrow> uwasm_machine \<Rightarrow> uwasm_machine res" where [handler_defs]:
  "Jgt_f64_am32s_r_r_ofs inst m =
    bindr (f64_get m (Get_rd inst)) (\<lambda>x.
    bindr (f64_get m (Get_rs inst)) (\<lambda>y.
    if f64_lt y x then Jmp_am32_ofs inst m else Inr (Inc_pc m)))"

definition Jge_i32_am32s_r_r_ofs :: "am_expand \<Rightarrow> uwasm_machine \<Rightarrow> uwasm_machine res" where [handler_defs]:
  "Jge_i32_am32s_r_r_ofs inst m =
    bindr (i32_get m (Get_rd inst)) (\<lambda>x.
    bindr (i32_get m (Get_rs inst)) (\<lambda>y.
    if sint x \<ge> sint y then Jmp_am32_ofs inst m else Inr (Inc_pc m)))"

definition Jge_i64_am32s_r_r_ofs :: "am_expand \<Rightarrow> uwasm_machine \<Rightarrow> uwasm_machine res" where [handler_defs]:
  "Jge_i64_am32s_r_r_ofs inst m =
    bindr (i64_get m (Get_rd inst)) (\<lambda>x.
    bindr (i64_get m (Get_rs inst)) (\<lambda>y.
    if sint x \<ge> sint y then Jmp_am32_ofs inst m else Inr (Inc_pc m)))"

definition Jge_f32_am32s_r_r_ofs :: "am_expand \<Rightarrow> uwasm_machine \<Rightarrow> uwasm_machine res" where [handler_defs]:
  "Jge_f32_am32s_r_r_ofs inst m =
    bindr (f32_get m (Get_rd inst)) (\<lambda>x.
    bindr (f32_get m (Get_rs inst)) (\<lambda>y.
    if f32_le y x then Jmp_am32_ofs inst m else Inr (Inc_pc m)))"

definition Jge_f64_am32s_r_r_ofs :: "am_expand \<Rightarrow> uwasm_machine \<Rightarrow> uwasm_machine res" where [handler_defs]:
  "Jge_f64_am32s_r_r_ofs inst m =
    bindr (f64_get m (Get_rd inst)) (\<lambda>x.
    bindr (f64_get m (Get_rs inst)) (\<lambda>y.
    if f64_le y x then Jmp_am32_ofs inst m else Inr (Inc_pc m)))"

definition Jlt_u_i32_am32s_r_r_ofs :: "am_expand \<Rightarrow> uwasm_machine \<Rightarrow> uwasm_machine res" where [handler_defs]:
  "Jlt_u_i32_am32s_r_r_ofs inst m =
    bindr (i32_get m (Get_rd inst)) (\<lambda>x.
    bindr (i32_get m (Get_rs inst)) (\<lambda>y.
    if x < y then Jmp_am32_ofs inst m else Inr (Inc_pc m)))"

definition Jlt_u_i64_am32s_r_r_ofs :: "am_expand \<Rightarrow> uwasm_machine \<Rightarrow> uwasm_machine res" where [handler_defs]:
  "Jlt_u_i64_am32s_r_r_ofs inst m =
    bindr (i64_get m (Get_rd inst)) (\<lambda>x.
    bindr (i64_get m (Get_rs inst)) (\<lambda>y.
    if x < y then Jmp_am32_ofs inst m else Inr (Inc_pc m)))"

definition Jle_u_i32_am32s_r_r_ofs :: "am_expand \<Rightarrow> uwasm_machine \<Rightarrow> uwasm_machine res" where [handler_defs]:
  "Jle_u_i32_am32s_r_r_ofs inst m =
    bindr (i32_get m (Get_rd inst)) (\<lambda>x.
    bindr (i32_get m (Get_rs inst)) (\<lambda>y.
    if x \<le> y then Jmp_am32_ofs inst m else Inr (Inc_pc m)))"

definition Jle_u_i64_am32s_r_r_ofs :: "am_expand \<Rightarrow> uwasm_machine \<Rightarrow> uwasm_machine res" where [handler_defs]:
  "Jle_u_i64_am32s_r_r_ofs inst m =
    bindr (i64_get m (Get_rd inst)) (\<lambda>x.
    bindr (i64_get m (Get_rs inst)) (\<lambda>y.
    if x \<le> y then Jmp_am32_ofs inst m else Inr (Inc_pc m)))"

definition Jgt_u_i32_am32s_r_r_ofs :: "am_expand \<Rightarrow> uwasm_machine \<Rightarrow> uwasm_machine res" where [handler_defs]:
  "Jgt_u_i32_am32s_r_r_ofs inst m =
    bindr (i32_get m (Get_rd inst)) (\<lambda>x.
    bindr (i32_get m (Get_rs inst)) (\<lambda>y.
    if x > y then Jmp_am32_ofs inst m else Inr (Inc_pc m)))"

definition Jgt_u_i64_am32s_r_r_ofs :: "am_expand \<Rightarrow> uwasm_machine \<Rightarrow> uwasm_machine res" where [handler_defs]:
  "Jgt_u_i64_am32s_r_r_ofs inst m =
    bindr (i64_get m (Get_rd inst)) (\<lambda>x.
    bindr (i64_get m (Get_rs inst)) (\<lambda>y.
    if x > y then Jmp_am32_ofs inst m else Inr (Inc_pc m)))"

definition Jge_u_i32_am32s_r_r_ofs :: "am_expand \<Rightarrow> uwasm_machine \<Rightarrow> uwasm_machine res" where [handler_defs]:
  "Jge_u_i32_am32s_r_r_ofs inst m =
    bindr (i32_get m (Get_rd inst)) (\<lambda>x.
    bindr (i32_get m (Get_rs inst)) (\<lambda>y.
    if x \<ge> y then Jmp_am32_ofs inst m else Inr (Inc_pc m)))"

definition Jge_u_i64_am32s_r_r_ofs :: "am_expand \<Rightarrow> uwasm_machine \<Rightarrow> uwasm_machine res" where [handler_defs]:
  "Jge_u_i64_am32s_r_r_ofs inst m =
    bindr (i64_get m (Get_rd inst)) (\<lambda>x.
    bindr (i64_get m (Get_rs inst)) (\<lambda>y.
    if x \<ge> y then Jmp_am32_ofs inst m else Inr (Inc_pc m)))"

definition Load_i32_am32s_r_r_imm :: "am_expand \<Rightarrow> uwasm_machine \<Rightarrow> uwasm_machine res" where [handler_defs]:
  "Load_i32_am32s_r_r_imm inst m =
    bindr (Get_base_addr (Get_rs inst) m) (\<lambda>base_addr.
    let addr = add_ofs (sint (Get_imm inst)) base_addr in
    bindr (load32 (mem m) addr) (\<lambda>v.
    i32_set (Get_rd inst) v m))"

definition Load_i64_am32s_r_r_imm :: "am_expand \<Rightarrow> uwasm_machine \<Rightarrow> uwasm_machine res" where [handler_defs]:
  "Load_i64_am32s_r_r_imm inst m =
    bindr (Get_base_addr (Get_rs inst) m) (\<lambda>base_addr.
    let addr = add_ofs (sint (Get_imm inst)) base_addr in
    bindr (load64 (mem m) addr) (\<lambda>v.
    i64_set (Get_rd inst) v m))"

definition Load_f32_am32s_r_r_imm :: "am_expand \<Rightarrow> uwasm_machine \<Rightarrow> uwasm_machine res" where [handler_defs]:
  "Load_f32_am32s_r_r_imm inst m =
    bindr (Get_base_addr (Get_rs inst) m) (\<lambda>base_addr.
    let addr = add_ofs (sint (Get_imm inst)) base_addr in
    bindr (load32 (mem m) addr) (\<lambda>v.
    f32_set (Get_rd inst) v m))"

definition Load_f64_am32s_r_r_imm :: "am_expand \<Rightarrow> uwasm_machine \<Rightarrow> uwasm_machine res" where [handler_defs]:
  "Load_f64_am32s_r_r_imm inst m =
    bindr (Get_base_addr (Get_rs inst) m) (\<lambda>base_addr.
    let addr = add_ofs (sint (Get_imm inst)) base_addr in
    bindr (load64 (mem m) addr) (\<lambda>v.
    f64_set (Get_rd inst) v m))"

definition Load8_i32_am32s_r_r_imm :: "am_expand \<Rightarrow> uwasm_machine \<Rightarrow> uwasm_machine res" where [handler_defs]:
  "Load8_i32_am32s_r_r_imm inst m =
    bindr (Get_base_addr (Get_rs inst) m) (\<lambda>base_addr.
    let addr = add_ofs (sint (Get_imm inst)) base_addr in
    bindr (load8 (mem m) addr) (\<lambda>v.
    i32_set (Get_rd inst) (scast v) m))"

definition Load8_i64_am32s_r_r_imm :: "am_expand \<Rightarrow> uwasm_machine \<Rightarrow> uwasm_machine res" where [handler_defs]:
  "Load8_i64_am32s_r_r_imm inst m =
    bindr (Get_base_addr (Get_rs inst) m) (\<lambda>base_addr.
    let addr = add_ofs (sint (Get_imm inst)) base_addr in
    bindr (load8 (mem m) addr) (\<lambda>v.
    i64_set (Get_rd inst) (scast v) m))"

definition Load8_u_i32_am32s_r_r_imm :: "am_expand \<Rightarrow> uwasm_machine \<Rightarrow> uwasm_machine res" where [handler_defs]:
  "Load8_u_i32_am32s_r_r_imm inst m =
    bindr (Get_base_addr (Get_rs inst) m) (\<lambda>base_addr.
    let addr = add_ofs (sint (Get_imm inst)) base_addr in
    bindr (load8 (mem m) addr) (\<lambda>v.
    i32_set (Get_rd inst) (ucast v) m))"

definition Load8_u_i64_am32s_r_r_imm :: "am_expand \<Rightarrow> uwasm_machine \<Rightarrow> uwasm_machine res" where [handler_defs]:
  "Load8_u_i64_am32s_r_r_imm inst m =
    bindr (Get_base_addr (Get_rs inst) m) (\<lambda>base_addr.
    let addr = add_ofs (sint (Get_imm inst)) base_addr in
    bindr (load8 (mem m) addr) (\<lambda>v.
    i64_set (Get_rd inst) (ucast v) m))"

definition Load16_i32_am32s_r_r_imm :: "am_expand \<Rightarrow> uwasm_machine \<Rightarrow> uwasm_machine res" where [handler_defs]:
  "Load16_i32_am32s_r_r_imm inst m =
    bindr (Get_base_addr (Get_rs inst) m) (\<lambda>base_addr.
    let addr = add_ofs (sint (Get_imm inst)) base_addr in
    bindr (load16 (mem m) addr) (\<lambda>v.
    i32_set (Get_rd inst) (scast v) m))"

definition Load16_i64_am32s_r_r_imm :: "am_expand \<Rightarrow> uwasm_machine \<Rightarrow> uwasm_machine res" where [handler_defs]:
  "Load16_i64_am32s_r_r_imm inst m =
    bindr (Get_base_addr (Get_rs inst) m) (\<lambda>base_addr.
    let addr = add_ofs (sint (Get_imm inst)) base_addr in
    bindr (load16 (mem m) addr) (\<lambda>v.
    i64_set (Get_rd inst) (scast v) m))"

definition Load16_u_i32_am32s_r_r_imm :: "am_expand \<Rightarrow> uwasm_machine \<Rightarrow> uwasm_machine res" where [handler_defs]:
  "Load16_u_i32_am32s_r_r_imm inst m =
    bindr (Get_base_addr (Get_rs inst) m) (\<lambda>base_addr.
    let addr = add_ofs (sint (Get_imm inst)) base_addr in
    bindr (load16 (mem m) addr) (\<lambda>v.
    i32_set (Get_rd inst) (ucast v) m))"

definition Load16_u_i64_am32s_r_r_imm :: "am_expand \<Rightarrow> uwasm_machine \<Rightarrow> uwasm_machine res" where [handler_defs]:
  "Load16_u_i64_am32s_r_r_imm inst m =
    bindr (Get_base_addr (Get_rs inst) m) (\<lambda>base_addr.
    let addr = add_ofs (sint (Get_imm inst)) base_addr in
    bindr (load16 (mem m) addr) (\<lambda>v.
    i64_set (Get_rd inst) (ucast v) m))"

definition Load32_i64_am32s_r_r_imm :: "am_expand \<Rightarrow> uwasm_machine \<Rightarrow> uwasm_machine res" where [handler_defs]:
  "Load32_i64_am32s_r_r_imm inst m =
    bindr (Get_base_addr (Get_rs inst) m) (\<lambda>base_addr.
    let addr = add_ofs (sint (Get_imm inst)) base_addr in
    bindr (load32 (mem m) addr) (\<lambda>v.
    i64_set (Get_rd inst) (scast v) m))"

definition Load32_u_i64_am32s_r_r_imm :: "am_expand \<Rightarrow> uwasm_machine \<Rightarrow> uwasm_machine res" where [handler_defs]:
  "Load32_u_i64_am32s_r_r_imm inst m =
    bindr (Get_base_addr (Get_rs inst) m) (\<lambda>base_addr.
    let addr = add_ofs (sint (Get_imm inst)) base_addr in
    bindr (load32 (mem m) addr) (\<lambda>v.
    i64_set (Get_rd inst) (ucast v) m))"

definition Store_i32_am32s_r_r_imm :: "am_expand \<Rightarrow> uwasm_machine \<Rightarrow> uwasm_machine res" where [handler_defs]:
  "Store_i32_am32s_r_r_imm inst m =
    bindr (Get_base_addr (Get_rs inst) m) (\<lambda>base_addr.
    let addr = add_ofs (sint (Get_imm inst)) base_addr in
    bindr (i32_get m (Get_rd inst)) (\<lambda>x.
    bindr (store32 (mem m) addr x) (\<lambda>mem. Inr (m\<lparr>mem := mem\<rparr>))))"

definition Store_i64_am32s_r_r_imm :: "am_expand \<Rightarrow> uwasm_machine \<Rightarrow> uwasm_machine res" where [handler_defs]:
  "Store_i64_am32s_r_r_imm inst m =
    bindr (Get_base_addr (Get_rs inst) m) (\<lambda>base_addr.
    let addr = add_ofs (sint (Get_imm inst)) base_addr in
    bindr (i64_get m (Get_rd inst)) (\<lambda>x.
    bindr (store64 (mem m) addr x) (\<lambda>mem. Inr (m\<lparr>mem := mem\<rparr>))))"

definition Store_f32_am32s_r_r_imm :: "am_expand \<Rightarrow> uwasm_machine \<Rightarrow> uwasm_machine res" where [handler_defs]:
  "Store_f32_am32s_r_r_imm inst m =
    bindr (Get_base_addr (Get_rs inst) m) (\<lambda>base_addr.
    let addr = add_ofs (sint (Get_imm inst)) base_addr in
    bindr (f32_get m (Get_rd inst)) (\<lambda>x.
    bindr (store32 (mem m) addr x) (\<lambda>mem. Inr (m\<lparr>mem := mem\<rparr>))))"

definition Store_f64_am32s_r_r_imm :: "am_expand \<Rightarrow> uwasm_machine \<Rightarrow> uwasm_machine res" where [handler_defs]:
  "Store_f64_am32s_r_r_imm inst m =
    bindr (Get_base_addr (Get_rs inst) m) (\<lambda>base_addr.
    let addr = add_ofs (sint (Get_imm inst)) base_addr in
    bindr (f64_get m (Get_rd inst)) (\<lambda>x.
    bindr (store64 (mem m) addr x) (\<lambda>mem. Inr (m\<lparr>mem := mem\<rparr>))))"

definition Store8_i32_am32s_r_r_imm :: "am_expand \<Rightarrow> uwasm_machine \<Rightarrow> uwasm_machine res" where [handler_defs]:
  "Store8_i32_am32s_r_r_imm inst m =
    bindr (Get_base_addr (Get_rs inst) m) (\<lambda>base_addr.
    let addr = add_ofs (sint (Get_imm inst)) base_addr in
    bindr (i32_get m (Get_rd inst)) (\<lambda>x.
    bindr (store8 (mem m) addr (ucast x)) (\<lambda>mem. Inr (m\<lparr>mem := mem\<rparr>))))"

definition Store8_i64_am32s_r_r_imm :: "am_expand \<Rightarrow> uwasm_machine \<Rightarrow> uwasm_machine res" where [handler_defs]:
  "Store8_i64_am32s_r_r_imm inst m =
    bindr (Get_base_addr (Get_rs inst) m) (\<lambda>base_addr.
    let addr = add_ofs (sint (Get_imm inst)) base_addr in
    bindr (i64_get m (Get_rd inst)) (\<lambda>x.
    bindr (store8 (mem m) addr (ucast x)) (\<lambda>mem. Inr (m\<lparr>mem := mem\<rparr>))))"

definition Store16_i32_am32s_r_r_imm :: "am_expand \<Rightarrow> uwasm_machine \<Rightarrow> uwasm_machine res" where [handler_defs]:
  "Store16_i32_am32s_r_r_imm inst m =
    bindr (Get_base_addr (Get_rs inst) m) (\<lambda>base_addr.
    let addr = add_ofs (sint (Get_imm inst)) base_addr in
    bindr (i32_get m (Get_rd inst)) (\<lambda>x.
    bindr (store16 (mem m) addr (ucast x)) (\<lambda>mem. Inr (m\<lparr>mem := mem\<rparr>))))"

definition Store16_i64_am32s_r_r_imm :: "am_expand \<Rightarrow> uwasm_machine \<Rightarrow> uwasm_machine res" where [handler_defs]:
  "Store16_i64_am32s_r_r_imm inst m =
    bindr (Get_base_addr (Get_rs inst) m) (\<lambda>base_addr.
    let addr = add_ofs (sint (Get_imm inst)) base_addr in
    bindr (i64_get m (Get_rd inst)) (\<lambda>x.
    bindr (store16 (mem m) addr (ucast x)) (\<lambda>mem. Inr (m\<lparr>mem := mem\<rparr>))))"

definition Store32_i64_am32s_r_r_imm :: "am_expand \<Rightarrow> uwasm_machine \<Rightarrow> uwasm_machine res" where [handler_defs]:
  "Store32_i64_am32s_r_r_imm inst m =
    bindr (Get_base_addr (Get_rs inst) m) (\<lambda>base_addr.
    let addr = add_ofs (sint (Get_imm inst)) base_addr in
    bindr (i64_get m (Get_rd inst)) (\<lambda>x.
    bindr (store32 (mem m) addr (ucast x)) (\<lambda>mem. Inr (m\<lparr>mem := mem\<rparr>))))"

definition Lload_i32_am32_r_imm :: "am_expand \<Rightarrow> uwasm_machine \<Rightarrow> uwasm_machine res" where [handler_defs]:
  "Lload_i32_am32_r_imm inst m =
    (let addr = add_ofs (sint (Get_imm inst)) (x_sp (current m)) in
    bindr (load32 (mem m) addr) (\<lambda>v.
    i32_set (Get_rd inst) v m))"

definition Lload_i64_am32_r_imm :: "am_expand \<Rightarrow> uwasm_machine \<Rightarrow> uwasm_machine res" where [handler_defs]:
  "Lload_i64_am32_r_imm inst m =
    (let addr = add_ofs (sint (Get_imm inst)) (x_sp (current m)) in
    bindr (load64 (mem m) addr) (\<lambda>v.
    i64_set (Get_rd inst) v m))"

definition Lload_f32_am32_r_imm :: "am_expand \<Rightarrow> uwasm_machine \<Rightarrow> uwasm_machine res" where [handler_defs]:
  "Lload_f32_am32_r_imm inst m =
    (let addr = add_ofs (sint (Get_imm inst)) (x_sp (current m)) in
    bindr (load32 (mem m) addr) (\<lambda>v.
    f32_set (Get_rd inst) v m))"

definition Lload_f64_am32_r_imm :: "am_expand \<Rightarrow> uwasm_machine \<Rightarrow> uwasm_machine res" where [handler_defs]:
  "Lload_f64_am32_r_imm inst m =
    (let addr = add_ofs (sint (Get_imm inst)) (x_sp (current m)) in
    bindr (load64 (mem m) addr) (\<lambda>v.
    f64_set (Get_rd inst) v m))"

definition Lload8_i32_am32_r_imm :: "am_expand \<Rightarrow> uwasm_machine \<Rightarrow> uwasm_machine res" where [handler_defs]:
  "Lload8_i32_am32_r_imm inst m =
    (let addr = add_ofs (sint (Get_imm inst)) (x_sp (current m)) in
    bindr (load8 (mem m) addr) (\<lambda>v.
    i32_set (Get_rd inst) (scast v) m))"

definition Lload8_i64_am32_r_imm :: "am_expand \<Rightarrow> uwasm_machine \<Rightarrow> uwasm_machine res" where [handler_defs]:
  "Lload8_i64_am32_r_imm inst m =
    (let addr = add_ofs (sint (Get_imm inst)) (x_sp (current m)) in
    bindr (load8 (mem m) addr) (\<lambda>v.
    i64_set (Get_rd inst) (scast v) m))"

definition Lload8_u_i32_am32_r_imm :: "am_expand \<Rightarrow> uwasm_machine \<Rightarrow> uwasm_machine res" where [handler_defs]:
  "Lload8_u_i32_am32_r_imm inst m =
    (let addr = add_ofs (sint (Get_imm inst)) (x_sp (current m)) in
    bindr (load8 (mem m) addr) (\<lambda>v.
    i32_set (Get_rd inst) (ucast v) m))"

definition Lload8_u_i64_am32_r_imm :: "am_expand \<Rightarrow> uwasm_machine \<Rightarrow> uwasm_machine res" where [handler_defs]:
  "Lload8_u_i64_am32_r_imm inst m =
    (let addr = add_ofs (sint (Get_imm inst)) (x_sp (current m)) in
    bindr (load8 (mem m) addr) (\<lambda>v.
    i64_set (Get_rd inst) (ucast v) m))"

definition Lload16_i32_am32_r_imm :: "am_expand \<Rightarrow> uwasm_machine \<Rightarrow> uwasm_machine res" where [handler_defs]:
  "Lload16_i32_am32_r_imm inst m =
    (let addr = add_ofs (sint (Get_imm inst)) (x_sp (current m)) in
    bindr (load16 (mem m) addr) (\<lambda>v.
    i32_set (Get_rd inst) (scast v) m))"

definition Lload16_i64_am32_r_imm :: "am_expand \<Rightarrow> uwasm_machine \<Rightarrow> uwasm_machine res" where [handler_defs]:
  "Lload16_i64_am32_r_imm inst m =
    (let addr = add_ofs (sint (Get_imm inst)) (x_sp (current m)) in
    bindr (load16 (mem m) addr) (\<lambda>v.
    i64_set (Get_rd inst) (scast v) m))"

definition Lload16_u_i32_am32_r_imm :: "am_expand \<Rightarrow> uwasm_machine \<Rightarrow> uwasm_machine res" where [handler_defs]:
  "Lload16_u_i32_am32_r_imm inst m =
    (let addr = add_ofs (sint (Get_imm inst)) (x_sp (current m)) in
    bindr (load16 (mem m) addr) (\<lambda>v.
    i32_set (Get_rd inst) (ucast v) m))"

definition Lload16_u_i64_am32_r_imm :: "am_expand \<Rightarrow> uwasm_machine \<Rightarrow> uwasm_machine res" where [handler_defs]:
  "Lload16_u_i64_am32_r_imm inst m =
    (let addr = add_ofs (sint (Get_imm inst)) (x_sp (current m)) in
    bindr (load16 (mem m) addr) (\<lambda>v.
    i64_set (Get_rd inst) (ucast v) m))"

definition Lload32_i64_am32_r_imm :: "am_expand \<Rightarrow> uwasm_machine \<Rightarrow> uwasm_machine res" where [handler_defs]:
  "Lload32_i64_am32_r_imm inst m =
    (let addr = add_ofs (sint (Get_imm inst)) (x_sp (current m)) in
    bindr (load32 (mem m) addr) (\<lambda>v.
    i64_set (Get_rd inst) (scast v) m))"

definition Lload32_u_i64_am32_r_imm :: "am_expand \<Rightarrow> uwasm_machine \<Rightarrow> uwasm_machine res" where [handler_defs]:
  "Lload32_u_i64_am32_r_imm inst m =
    (let addr = add_ofs (sint (Get_imm inst)) (x_sp (current m)) in
    bindr (load32 (mem m) addr) (\<lambda>v.
    i64_set (Get_rd inst) (ucast v) m))"

definition Lstore_i32_am32_r_imm :: "am_expand \<Rightarrow> uwasm_machine \<Rightarrow> uwasm_machine res" where [handler_defs]:
  "Lstore_i32_am32_r_imm inst m =
    (let addr = add_ofs (sint (Get_imm inst)) (x_sp (current m)) in
    bindr (i32_get m (Get_rd inst)) (\<lambda>x.
    bindr (store32 (mem m) addr x) (\<lambda>mem. Inr (m\<lparr>mem := mem\<rparr>))))"

definition Lstore_i64_am32_r_imm :: "am_expand \<Rightarrow> uwasm_machine \<Rightarrow> uwasm_machine res" where [handler_defs]:
  "Lstore_i64_am32_r_imm inst m =
    (let addr = add_ofs (sint (Get_imm inst)) (x_sp (current m)) in
    bindr (i64_get m (Get_rd inst)) (\<lambda>x.
    bindr (store64 (mem m) addr x) (\<lambda>mem. Inr (m\<lparr>mem := mem\<rparr>))))"

definition Lstore_f32_am32_r_imm :: "am_expand \<Rightarrow> uwasm_machine \<Rightarrow> uwasm_machine res" where [handler_defs]:
  "Lstore_f32_am32_r_imm inst m =
    (let addr = add_ofs (sint (Get_imm inst)) (x_sp (current m)) in
    bindr (f32_get m (Get_rd inst)) (\<lambda>x.
    bindr (store32 (mem m) addr x) (\<lambda>mem. Inr (m\<lparr>mem := mem\<rparr>))))"

definition Lstore_f64_am32_r_imm :: "am_expand \<Rightarrow> uwasm_machine \<Rightarrow> uwasm_machine res" where [handler_defs]:
  "Lstore_f64_am32_r_imm inst m =
    (let addr = add_ofs (sint (Get_imm inst)) (x_sp (current m)) in
    bindr (f64_get m (Get_rd inst)) (\<lambda>x.
    bindr (store64 (mem m) addr x) (\<lambda>mem. Inr (m\<lparr>mem := mem\<rparr>))))"

definition Lstore8_i32_am32_r_imm :: "am_expand \<Rightarrow> uwasm_machine \<Rightarrow> uwasm_machine res" where [handler_defs]:
  "Lstore8_i32_am32_r_imm inst m =
    (let addr = add_ofs (sint (Get_imm inst)) (x_sp (current m)) in
    bindr (i32_get m (Get_rd inst)) (\<lambda>x.
    bindr (store8 (mem m) addr (ucast x)) (\<lambda>mem. Inr (m\<lparr>mem := mem\<rparr>))))"

definition Lstore8_i64_am32_r_imm :: "am_expand \<Rightarrow> uwasm_machine \<Rightarrow> uwasm_machine res" where [handler_defs]:
  "Lstore8_i64_am32_r_imm inst m =
    (let addr = add_ofs (sint (Get_imm inst)) (x_sp (current m)) in
    bindr (i64_get m (Get_rd inst)) (\<lambda>x.
    bindr (store8 (mem m) addr (ucast x)) (\<lambda>mem. Inr (m\<lparr>mem := mem\<rparr>))))"

definition Lstore16_i32_am32_r_imm :: "am_expand \<Rightarrow> uwasm_machine \<Rightarrow> uwasm_machine res" where [handler_defs]:
  "Lstore16_i32_am32_r_imm inst m =
    (let addr = add_ofs (sint (Get_imm inst)) (x_sp (current m)) in
    bindr (i32_get m (Get_rd inst)) (\<lambda>x.
    bindr (store16 (mem m) addr (ucast x)) (\<lambda>mem. Inr (m\<lparr>mem := mem\<rparr>))))"

definition Lstore16_i64_am32_r_imm :: "am_expand \<Rightarrow> uwasm_machine \<Rightarrow> uwasm_machine res" where [handler_defs]:
  "Lstore16_i64_am32_r_imm inst m =
    (let addr = add_ofs (sint (Get_imm inst)) (x_sp (current m)) in
    bindr (i64_get m (Get_rd inst)) (\<lambda>x.
    bindr (store16 (mem m) addr (ucast x)) (\<lambda>mem. Inr (m\<lparr>mem := mem\<rparr>))))"

definition Lstore32_i64_am32_r_imm :: "am_expand \<Rightarrow> uwasm_machine \<Rightarrow> uwasm_machine res" where [handler_defs]:
  "Lstore32_i64_am32_r_imm inst m =
    (let addr = add_ofs (sint (Get_imm inst)) (x_sp (current m)) in
    bindr (i64_get m (Get_rd inst)) (\<lambda>x.
    bindr (store32 (mem m) addr (ucast x)) (\<lambda>mem. Inr (m\<lparr>mem := mem\<rparr>))))"

definition Add_i32_am32s_r_r_r :: "am_expand \<Rightarrow> uwasm_machine \<Rightarrow> uwasm_machine res" where [handler_defs]:
  "Add_i32_am32s_r_r_r inst m =
    bindr (i32_get m (Get_rs inst)) (\<lambda>x.
    bindr (i32_get m (Get_rt inst)) (\<lambda>y.
    i32_set (Get_rd inst) (x + y) m))"

definition Add_i64_am32s_r_r_r :: "am_expand \<Rightarrow> uwasm_machine \<Rightarrow> uwasm_machine res" where [handler_defs]:
  "Add_i64_am32s_r_r_r inst m =
    bindr (i64_get m (Get_rs inst)) (\<lambda>x.
    bindr (i64_get m (Get_rt inst)) (\<lambda>y.
    i64_set (Get_rd inst) (x + y) m))"

definition Add_f32_am32s_r_r_r :: "host \<Rightarrow> am_expand \<Rightarrow> uwasm_machine \<Rightarrow> uwasm_machine res" where [handler_defs]:
  "Add_f32_am32s_r_r_r H inst m =
    bindr (f32_get m (Get_rs inst)) (\<lambda>x.
    bindr (f32_get m (Get_rt inst)) (\<lambda>y.
    f32_set (Get_rd inst) (f32_add (h_fpu H) x y) m))"

definition Add_f64_am32s_r_r_r :: "host \<Rightarrow> am_expand \<Rightarrow> uwasm_machine \<Rightarrow> uwasm_machine res" where [handler_defs]:
  "Add_f64_am32s_r_r_r H inst m =
    bindr (f64_get m (Get_rs inst)) (\<lambda>x.
    bindr (f64_get m (Get_rt inst)) (\<lambda>y.
    f64_set (Get_rd inst) (f64_add (h_fpu H) x y) m))"

definition Sub_i32_am32s_r_r_r :: "am_expand \<Rightarrow> uwasm_machine \<Rightarrow> uwasm_machine res" where [handler_defs]:
  "Sub_i32_am32s_r_r_r inst m =
    bindr (i32_get m (Get_rs inst)) (\<lambda>x.
    bindr (i32_get m (Get_rt inst)) (\<lambda>y.
    i32_set (Get_rd inst) (x - y) m))"

definition Sub_i64_am32s_r_r_r :: "am_expand \<Rightarrow> uwasm_machine \<Rightarrow> uwasm_machine res" where [handler_defs]:
  "Sub_i64_am32s_r_r_r inst m =
    bindr (i64_get m (Get_rs inst)) (\<lambda>x.
    bindr (i64_get m (Get_rt inst)) (\<lambda>y.
    i64_set (Get_rd inst) (x - y) m))"

definition Sub_f32_am32s_r_r_r :: "host \<Rightarrow> am_expand \<Rightarrow> uwasm_machine \<Rightarrow> uwasm_machine res" where [handler_defs]:
  "Sub_f32_am32s_r_r_r H inst m =
    bindr (f32_get m (Get_rs inst)) (\<lambda>x.
    bindr (f32_get m (Get_rt inst)) (\<lambda>y.
    f32_set (Get_rd inst) (f32_sub (h_fpu H) x y) m))"

definition Sub_f64_am32s_r_r_r :: "host \<Rightarrow> am_expand \<Rightarrow> uwasm_machine \<Rightarrow> uwasm_machine res" where [handler_defs]:
  "Sub_f64_am32s_r_r_r H inst m =
    bindr (f64_get m (Get_rs inst)) (\<lambda>x.
    bindr (f64_get m (Get_rt inst)) (\<lambda>y.
    f64_set (Get_rd inst) (f64_sub (h_fpu H) x y) m))"

definition Rotl_i32_am32s_r_r_r :: "am_expand \<Rightarrow> uwasm_machine \<Rightarrow> uwasm_machine res" where [handler_defs]:
  "Rotl_i32_am32s_r_r_r inst m =
    bindr (i32_get m (Get_rt inst)) (\<lambda>num_bit.
    bindr (shl num_bit num_bit) (\<lambda>hi.
    bindr (shr_u num_bit (32 - num_bit)) (\<lambda>lo.
    i32_set (Get_rd inst) (hi OR lo) m)))"

definition Rotl_i64_am32s_r_r_r :: "am_expand \<Rightarrow> uwasm_machine \<Rightarrow> uwasm_machine res" where [handler_defs]:
  "Rotl_i64_am32s_r_r_r inst m =
    bindr (i32_get m (Get_rt inst)) (\<lambda>num_bit.
    bindr (shl num_bit num_bit) (\<lambda>hi.
    bindr (shr_u num_bit (64 - num_bit)) (\<lambda>lo.
    i64_set (Get_rd inst) (ucast hi OR ucast lo) m)))"

definition Rotr_i32_am32s_r_r_r :: "am_expand \<Rightarrow> uwasm_machine \<Rightarrow> uwasm_machine res" where [handler_defs]:
  "Rotr_i32_am32s_r_r_r inst m =
    bindr (i32_get m (Get_rt inst)) (\<lambda>num_bit.
    bindr (shr_u num_bit num_bit) (\<lambda>lo.
    bindr (shl num_bit (32 - num_bit)) (\<lambda>hi.
    i32_set (Get_rd inst) (lo OR hi) m)))"

definition Rotr_i64_am32s_r_r_r :: "am_expand \<Rightarrow> uwasm_machine \<Rightarrow> uwasm_machine res" where [handler_defs]:
  "Rotr_i64_am32s_r_r_r inst m =
    bindr (i32_get m (Get_rt inst)) (\<lambda>num_bit.
    bindr (shr_u num_bit num_bit) (\<lambda>lo.
    bindr (shl num_bit (64 - num_bit)) (\<lambda>hi.
    i64_set (Get_rd inst) (ucast lo OR ucast hi) m)))"

definition Conv_i32_i64_am32_r_r :: "am_expand \<Rightarrow> uwasm_machine \<Rightarrow> uwasm_machine res" where [handler_defs]:
  "Conv_i32_i64_am32_r_r inst m =
    bindr (i32_get m (Get_rs inst)) (\<lambda>x.
    i64_set (Get_rd inst) (scast x) m)"

definition Conv_i32_f32_am32_r_r :: "host \<Rightarrow> am_expand \<Rightarrow> uwasm_machine \<Rightarrow> uwasm_machine res" where [handler_defs]:
  "Conv_i32_f32_am32_r_r H inst m =
    bindr (i32_get m (Get_rs inst)) (\<lambda>x.
    f32_set (Get_rd inst) (f32_of_int (h_fpu H) (sint x)) m)"

definition Conv_i32_f64_am32_r_r :: "host \<Rightarrow> am_expand \<Rightarrow> uwasm_machine \<Rightarrow> uwasm_machine res" where [handler_defs]:
  "Conv_i32_f64_am32_r_r H inst m =
    bindr (i32_get m (Get_rs inst)) (\<lambda>x.
    f64_set (Get_rd inst) (f64_of_int (h_fpu H) (sint x)) m)"

definition Conv_i32_u_i64_am32_r_r :: "am_expand \<Rightarrow> uwasm_machine \<Rightarrow> uwasm_machine res" where [handler_defs]:
  "Conv_i32_u_i64_am32_r_r inst m =
    bindr (i32_get m (Get_rs inst)) (\<lambda>x.
    i64_set (Get_rd inst) (ucast x) m)"

definition Conv_i64_i32_am32_r_r :: "am_expand \<Rightarrow> uwasm_machine \<Rightarrow> uwasm_machine res" where [handler_defs]:
  "Conv_i64_i32_am32_r_r inst m =
    bindr (i64_get m (Get_rs inst)) (\<lambda>x.
    i32_set (Get_rd inst) (ucast x) m)"

definition Conv_i64_f32_am32_r_r :: "host \<Rightarrow> am_expand \<Rightarrow> uwasm_machine \<Rightarrow> uwasm_machine res" where [handler_defs]:
  "Conv_i64_f32_am32_r_r H inst m =
    bindr (i64_get m (Get_rs inst)) (\<lambda>x.
    f32_set (Get_rd inst) (f32_of_int (h_fpu H) (sint x)) m)"

definition Conv_i64_f64_am32_r_r :: "host \<Rightarrow> am_expand \<Rightarrow> uwasm_machine \<Rightarrow> uwasm_machine res" where [handler_defs]:
  "Conv_i64_f64_am32_r_r H inst m =
    bindr (i64_get m (Get_rs inst)) (\<lambda>x.
    f64_set (Get_rd inst) (f64_of_int (h_fpu H) (sint x)) m)"

definition Conv_f32_i32_am32_r_r :: "host \<Rightarrow> am_expand \<Rightarrow> uwasm_machine \<Rightarrow> uwasm_machine res" where [handler_defs]:
  "Conv_f32_i32_am32_r_r H inst m =
    bindr (f32_get m (Get_rs inst)) (\<lambda>x.
    bindr (to_i32 (f32_trunc (h_fpu H) x)) (\<lambda>v.
    i32_set (Get_rd inst) v m))"

definition Conv_f32_i64_am32_r_r :: "host \<Rightarrow> am_expand \<Rightarrow> uwasm_machine \<Rightarrow> uwasm_machine res" where [handler_defs]:
  "Conv_f32_i64_am32_r_r H inst m =
    bindr (f32_get m (Get_rs inst)) (\<lambda>x.
    bindr (to_i64 (f32_trunc (h_fpu H) x)) (\<lambda>v.
    i64_set (Get_rd inst) v m))"

definition Conv_f32_f64_am32_r_r :: "host \<Rightarrow> am_expand \<Rightarrow> uwasm_machine \<Rightarrow> uwasm_machine res" where [handler_defs]:
  "Conv_f32_f64_am32_r_r H inst m =
    bindr (f32_get m (Get_rs inst)) (\<lambda>x.
    f64_set (Get_rd inst) (f32_to_f64 (h_fpu H) x) m)"

definition Conv_f64_i32_am32_r_r :: "host \<Rightarrow> am_expand \<Rightarrow> uwasm_machine \<Rightarrow> uwasm_machine res" where [handler_defs]:
  "Conv_f64_i32_am32_r_r H inst m =
    bindr (f64_get m (Get_rs inst)) (\<lambda>x.
    bindr (to_i32 (f64_trunc (h_fpu H) x)) (\<lambda>v.
    i32_set (Get_rd inst) v m))"

definition Conv_f64_i64_am32_r_r :: "host \<Rightarrow> am_expand \<Rightarrow> uwasm_machine \<Rightarrow> uwasm_machine res" where [handler_defs]:
  "Conv_f64_i64_am32_r_r H inst m =
    bindr (f64_get m (Get_rs inst)) (\<lambda>x.
    bindr (to_i64 (f64_trunc (h_fpu H) x)) (\<lambda>v.
    i64_set (Get_rd inst) v m))"

definition Conv_f64_f32_am32_r_r :: "host \<Rightarrow> am_expand \<Rightarrow> uwasm_machine \<Rightarrow> uwasm_machine res" where [handler_defs]:
  "Conv_f64_f32_am32_r_r H inst m =
    bindr (f64_get m (Get_rs inst)) (\<lambda>x.
    f32_set (Get_rd inst) (f64_to_f32 (h_fpu H) x) m)"

definition Eqz_i32_am32_r_r :: "am_expand \<Rightarrow> uwasm_machine \<Rightarrow> uwasm_machine res" where [handler_defs]:
  "Eqz_i32_am32_r_r inst m =
    bindr (i32_get m (Get_rs inst)) (\<lambda>x.
    i32_set (Get_rd inst) (of_bool (x = 0)) m)"

definition Eqz_i64_am32_r_r :: "am_expand \<Rightarrow> uwasm_machine \<Rightarrow> uwasm_machine res" where [handler_defs]:
  "Eqz_i64_am32_r_r inst m =
    bindr (i64_get m (Get_rs inst)) (\<lambda>x.
    i64_set (Get_rd inst) (of_bool (x = 0)) m)"

definition Eqz_f32_am32_r_r :: "am_expand \<Rightarrow> uwasm_machine \<Rightarrow> uwasm_machine res" where [handler_defs]:
  "Eqz_f32_am32_r_r inst m =
    bindr (f32_get m (Get_rs inst)) (\<lambda>x.
    f32_set (Get_rd inst) (f32_of_bool (f32_eq x 0)) m)"

definition Eqz_f64_am32_r_r :: "am_expand \<Rightarrow> uwasm_machine \<Rightarrow> uwasm_machine res" where [handler_defs]:
  "Eqz_f64_am32_r_r inst m =
    bindr (f64_get m (Get_rs inst)) (\<lambda>x.
    f64_set (Get_rd inst) (f64_of_bool (f64_eq x 0)) m)"

definition Ceil_f32_am32_r_r :: "host \<Rightarrow> am_expand \<Rightarrow> uwasm_machine \<Rightarrow> uwasm_machine res" where [handler_defs]:
  "Ceil_f32_am32_r_r H inst m =
    bindr (f32_get m (Get_rs inst)) (\<lambda>x.
    f32_set (Get_rd inst) (f32_ceil (h_fpu H) x) m)"

definition Ceil_f64_am32_r_r :: "host \<Rightarrow> am_expand \<Rightarrow> uwasm_machine \<Rightarrow> uwasm_machine res" where [handler_defs]:
  "Ceil_f64_am32_r_r H inst m =
    bindr (f64_get m (Get_rs inst)) (\<lambda>x.
    f64_set (Get_rd inst) (f64_ceil (h_fpu H) x) m)"

definition Floor_f32_am32_r_r :: "host \<Rightarrow> am_expand \<Rightarrow> uwasm_machine \<Rightarrow> uwasm_machine res" where [handler_defs]:
  "Floor_f32_am32_r_r H inst m =
    bindr (f32_get m (Get_rs inst)) (\<lambda>x.
    f32_set (Get_rd inst) (f32_floor (h_fpu H) x) m)"

definition Floor_f64_am32_r_r :: "host \<Rightarrow> am_expand \<Rightarrow> uwasm_machine \<Rightarrow> uwasm_machine res" where [handler_defs]:
  "Floor_f64_am32_r_r H inst m =
    bindr (f64_get m (Get_rs inst)) (\<lambda>x.
    f64_set (Get_rd inst) (f64_floor (h_fpu H) x) m)"

definition Sqrt_f32_am32_r_r :: "host \<Rightarrow> am_expand \<Rightarrow> uwasm_machine \<Rightarrow> uwasm_machine res" where [handler_defs]:
  "Sqrt_f32_am32_r_r H inst m =
    f32_set (Get_rd inst)
      (f64_to_f32 (h_fpu H) (f64_sqrt (h_fpu H) (f64_of_int (h_fpu H) (uint (Get_rs inst))))) m"

definition Sqrt_f64_am32_r_r :: "host \<Rightarrow> am_expand \<Rightarrow> uwasm_machine \<Rightarrow> uwasm_machine res" where [handler_defs]:
  "Sqrt_f64_am32_r_r H inst m =
    f64_set (Get_rd inst)
      (f64_sqrt (h_fpu H) (f64_of_int (h_fpu H) (uint (Get_rs inst)))) m"

definition Neg_f32_am32_r_r :: "host \<Rightarrow> am_expand \<Rightarrow> uwasm_machine \<Rightarrow> uwasm_machine res" where [handler_defs]:
  "Neg_f32_am32_r_r H inst m =
    bindr (i32_get m (Get_rs inst)) (\<lambda>x.
    f32_set (Get_rd inst) (f32_of_int (h_fpu H) (sint (- x))) m)"

definition Neg_f64_am32_r_r :: "host \<Rightarrow> am_expand \<Rightarrow> uwasm_machine \<Rightarrow> uwasm_machine res" where [handler_defs]:
  "Neg_f64_am32_r_r H inst m =
    bindr (i64_get m (Get_rs inst)) (\<lambda>x.
    f64_set (Get_rd inst) (f64_of_int (h_fpu H) (sint (- x))) m)"

definition Reintr_f32_i32_am32_r_r :: "am_expand \<Rightarrow> uwasm_machine \<Rightarrow> uwasm_machine res" where [handler_defs]:
  "Reintr_f32_i32_am32_r_r inst m =
    bindr (f32_get m (Get_rs inst)) (\<lambda>val.
    i32_set (Get_rd inst) val m)"

definition Reintr_f64_i64_am32_r_r :: "am_expand \<Rightarrow> uwasm_machine \<Rightarrow> uwasm_machine res" where [handler_defs]:
  "Reintr_f64_i64_am32_r_r inst m =
    bindr (f64_get m (Get_rs inst)) (\<lambda>val.
    i64_set (Get_rd inst) val m)"

definition Reintr_i32_f32_am32_r_r :: "am_expand \<Rightarrow> uwasm_machine \<Rightarrow> uwasm_machine res" where [handler_defs]:
  "Reintr_i32_f32_am32_r_r inst m =
    bindr (i32_get m (Get_rs inst)) (\<lambda>val.
    f32_set (Get_rd inst) val m)"

definition Reintr_i64_f64_am32_r_r :: "am_expand \<Rightarrow> uwasm_machine \<Rightarrow> uwasm_machine res" where [handler_defs]:
  "Reintr_i64_f64_am32_r_r inst m =
    bindr (i64_get m (Get_rs inst)) (\<lambda>val.
    f64_set (Get_rd inst) val m)"

definition Break_am32 :: "am_expand \<Rightarrow> uwasm_machine \<Rightarrow> uwasm_machine res" where [handler_defs]:
  "Break_am32 inst m =
    Inr m"

end
