(* ===== verification/Exec_Ops_64.thy ===== *)
theory Exec_Ops_64
  imports Exec_Ops_32
begin

text \<open>
  The handlers of the 64-bit opcodes and of the builtin, global, memory and select
  instructions (\<^verbatim>\<open>src/interpreter/exec_unit_func.h\<close>), one definition per member function.
\<close>

definition Globalget_i32_am64_r_ofs :: "am_expand \<Rightarrow> uwasm_machine \<Rightarrow> uwasm_machine res" where [handler_defs]:
  "Globalget_i32_am64_r_ofs inst m =
    bindr (global_get (Get_ofs inst) m) (\<lambda>g.
    i32_set (Get_rd inst) (ucast g) m)"

definition Globalget_i64_am64_r_ofs :: "am_expand \<Rightarrow> uwasm_machine \<Rightarrow> uwasm_machine res" where [handler_defs]:
  "Globalget_i64_am64_r_ofs inst m =
    Inl Assertion"

definition Globalget_f32_am64_r_ofs :: "am_expand \<Rightarrow> uwasm_machine \<Rightarrow> uwasm_machine res" where [handler_defs]:
  "Globalget_f32_am64_r_ofs inst m =
    Inl Assertion"

definition Globalget_f64_am64_r_ofs :: "am_expand \<Rightarrow> uwasm_machine \<Rightarrow> uwasm_machine res" where [handler_defs]:
  "Globalget_f64_am64_r_ofs inst m =
    Inl Assertion"

definition Globalset_i32_am64_r_ofs :: "am_expand \<Rightarrow> uwasm_machine \<Rightarrow> uwasm_machine res" where [handler_defs]:
  "Globalset_i32_am64_r_ofs inst m =
    bindr (i32_get m (Get_rd inst)) (\<lambda>x.
    bindr (global_get (Get_ofs inst) m) (\<lambda>g.
    global_set (Get_ofs inst) (set_bits 0 32 (ucast x) g) m))"

definition Globalset_i64_am64_r_ofs :: "am_expand \<Rightarrow> uwasm_machine \<Rightarrow> uwasm_machine res" where [handler_defs]:
  "Globalset_i64_am64_r_ofs inst m =
    Inl Assertion"

definition Globalset_f32_am64_r_ofs :: "am_expand \<Rightarrow> uwasm_machine \<Rightarrow> uwasm_machine res" where [handler_defs]:
  "Globalset_f32_am64_r_ofs inst m =
    Inl Assertion"

definition Globalset_f64_am64_r_ofs :: "am_expand \<Rightarrow> uwasm_machine \<Rightarrow> uwasm_machine res" where [handler_defs]:
  "Globalset_f64_am64_r_ofs inst m =
    Inl Assertion"

definition Const_l_i32_am64_r_imm :: "am_expand \<Rightarrow> uwasm_machine \<Rightarrow> uwasm_machine res" where [handler_defs]:
  "Const_l_i32_am64_r_imm inst m =
    i32_set (Get_rd inst) (Get_imm inst) m"

definition Const_l_i64_am64_r_imm :: "am_expand \<Rightarrow> uwasm_machine \<Rightarrow> uwasm_machine res" where [handler_defs]:
  "Const_l_i64_am64_r_imm inst m =
    i64_set (Get_rd inst) (scast (Get_imm inst)) m"

definition Const_l_f32_am64_r_imm :: "am_expand \<Rightarrow> uwasm_machine \<Rightarrow> uwasm_machine res" where [handler_defs]:
  "Const_l_f32_am64_r_imm inst m =
    f32_set (Get_rd inst) (Get_ofs inst) m"

definition Const_l_f64_am64_r_imm :: "am_expand \<Rightarrow> uwasm_machine \<Rightarrow> uwasm_machine res" where [handler_defs]:
  "Const_l_f64_am64_r_imm inst m =
    bindr (f64_get m (Get_rd inst)) (\<lambda>val.
    let const_imm = ucast (Get_ofs inst) in
    f64_set (Get_rd inst) ((val AND 0xFFFFFFFF00000000) OR const_imm) m)"

definition Const_l_high_i64_am64_r_imm :: "am_expand \<Rightarrow> uwasm_machine \<Rightarrow> uwasm_machine res" where [handler_defs]:
  "Const_l_high_i64_am64_r_imm inst m =
    bindr (i64_get m (Get_rd inst)) (\<lambda>val.
    let const_imm = ucast (Get_ofs inst) in
    i64_set (Get_rd inst) ((val AND 0xFFFFFFFF) OR push_bit 32 const_imm) m)"

definition Const_l_high_f64_am64_r_imm :: "am_expand \<Rightarrow> uwasm_machine \<Rightarrow> uwasm_machine res" where [handler_defs]:
  "Const_l_high_f64_am64_r_imm inst m =
    bindr (f64_get m (Get_rd inst)) (\<lambda>val.
    let const_imm = ucast (Get_ofs inst) in
    f64_set (Get_rd inst) ((val AND 0xFFFFFFFF) OR push_bit 32 const_imm) m)"

definition Ctz_i32_am64_r_ofs :: "am_expand \<Rightarrow> uwasm_machine \<Rightarrow> uwasm_machine res" where [handler_defs]:
  "Ctz_i32_am64_r_ofs inst m =
    bindr (ctz_loop (Get_ofs inst) 0) (\<lambda>non_zero.
    i32_set (Get_rd inst) (32 - of_nat non_zero) m)"

definition Ctz_i64_am64_r_ofs :: "am_expand \<Rightarrow> uwasm_machine \<Rightarrow> uwasm_machine res" where [handler_defs]:
  "Ctz_i64_am64_r_ofs inst m =
    bindr (ctz_loop (Get_ofs inst) 0) (\<lambda>non_zero.
    i64_set (Get_rd inst) (64 - of_nat non_zero) m)"

definition Popcnt_i32_am64_r_ofs :: "am_expand \<Rightarrow> uwasm_machine \<Rightarrow> uwasm_machine res" where [handler_defs]:
  "Popcnt_i32_am64_r_ofs inst m =
    (let one_bit = fold (\<lambda>i one_bit. one_bit + (drop_bit i (Get_ofs inst) AND 1)) [0..<32] 0 in
    i32_set (Get_rd inst) one_bit m)"

definition Popcnt_i64_am64_r_ofs :: "am_expand \<Rightarrow> uwasm_machine \<Rightarrow> uwasm_machine res" where [handler_defs]:
  "Popcnt_i64_am64_r_ofs inst m =
    (let one_bit = fold (\<lambda>i one_bit. one_bit + (drop_bit i (ucast (Get_ofs inst) :: u64) AND 1)) [0..<64] 0 in
    i64_set (Get_rd inst) one_bit m)"

definition Add_i32_am64_r_r_imm :: "am_expand \<Rightarrow> uwasm_machine \<Rightarrow> uwasm_machine res" where [handler_defs]:
  "Add_i32_am64_r_r_imm inst m =
    bindr (i32_get m (Get_rs inst)) (\<lambda>x.
    i32_set (Get_rd inst) (x + Get_imm inst) m)"

definition Add_i64_am64_r_r_imm :: "am_expand \<Rightarrow> uwasm_machine \<Rightarrow> uwasm_machine res" where [handler_defs]:
  "Add_i64_am64_r_r_imm inst m =
    bindr (i64_get m (Get_rs inst)) (\<lambda>x.
    i64_set (Get_rd inst) (x + scast (Get_imm inst)) m)"

definition Jeq_i32_am64_r_r_ofs :: "am_expand \<Rightarrow> uwasm_machine \<Rightarrow> uwasm_machine res" where [handler_defs]:
  "Jeq_i32_am64_r_r_ofs inst m =
    bindr (i32_get m (Get_rd inst)) (\<lambda>x.
    bindr (i32_get m (Get_rs inst)) (\<lambda>y.
    if x = y then Jmp_am32_ofs inst m else Inr (Inc_pc m)))"

definition Jeq_i64_am64_r_r_ofs :: "am_expand \<Rightarrow> uwasm_machine \<Rightarrow> uwasm_machine res" where [handler_defs]:
  "Jeq_i64_am64_r_r_ofs inst m =
    bindr (i64_get m (Get_rd inst)) (\<lambda>x.
    bindr (i64_get m (Get_rs inst)) (\<lambda>y.
    if x = y then Jmp_am32_ofs inst m else Inr (Inc_pc m)))"

definition Jeq_f32_am64_r_r_ofs :: "am_expand \<Rightarrow> uwasm_machine \<Rightarrow> uwasm_machine res" where [handler_defs]:
  "Jeq_f32_am64_r_r_ofs inst m =
    bindr (f32_get m (Get_rd inst)) (\<lambda>x.
    bindr (f32_get m (Get_rs inst)) (\<lambda>y.
    if f32_eq x y then Jmp_am32_ofs inst m else Inr (Inc_pc m)))"

definition Jeq_f64_am64_r_r_ofs :: "am_expand \<Rightarrow> uwasm_machine \<Rightarrow> uwasm_machine res" where [handler_defs]:
  "Jeq_f64_am64_r_r_ofs inst m =
    bindr (f64_get m (Get_rd inst)) (\<lambda>x.
    bindr (f64_get m (Get_rs inst)) (\<lambda>y.
    if f64_eq x y then Jmp_am32_ofs inst m else Inr (Inc_pc m)))"

definition Jne_i32_am64_r_r_ofs :: "am_expand \<Rightarrow> uwasm_machine \<Rightarrow> uwasm_machine res" where [handler_defs]:
  "Jne_i32_am64_r_r_ofs inst m =
    bindr (i32_get m (Get_rd inst)) (\<lambda>x.
    bindr (i32_get m (Get_rs inst)) (\<lambda>y.
    if x \<noteq> y then Jmp_am32_ofs inst m else Inr (Inc_pc m)))"

definition Jne_i64_am64_r_r_ofs :: "am_expand \<Rightarrow> uwasm_machine \<Rightarrow> uwasm_machine res" where [handler_defs]:
  "Jne_i64_am64_r_r_ofs inst m =
    bindr (i64_get m (Get_rd inst)) (\<lambda>x.
    bindr (i64_get m (Get_rs inst)) (\<lambda>y.
    if x \<noteq> y then Jmp_am32_ofs inst m else Inr (Inc_pc m)))"

definition Jne_f32_am64_r_r_ofs :: "am_expand \<Rightarrow> uwasm_machine \<Rightarrow> uwasm_machine res" where [handler_defs]:
  "Jne_f32_am64_r_r_ofs inst m =
    bindr (f32_get m (Get_rd inst)) (\<lambda>x.
    bindr (f32_get m (Get_rs inst)) (\<lambda>y.
    if \<not> f32_eq x y then Jmp_am32_ofs inst m else Inr (Inc_pc m)))"

definition Jne_f64_am64_r_r_ofs :: "am_expand \<Rightarrow> uwasm_machine \<Rightarrow> uwasm_machine res" where [handler_defs]:
  "Jne_f64_am64_r_r_ofs inst m =
    bindr (f64_get m (Get_rd inst)) (\<lambda>x.
    bindr (f64_get m (Get_rs inst)) (\<lambda>y.
    if \<not> f64_eq x y then Jmp_am32_ofs inst m else Inr (Inc_pc m)))"

definition Jlt_i32_am64_r_r_ofs :: "am_expand \<Rightarrow> uwasm_machine \<Rightarrow> uwasm_machine res" where [handler_defs]:
  "Jlt_i32_am64_r_r_ofs inst m =
    bindr (i32_get m (Get_rd inst)) (\<lambda>x.
    bindr (i32_get m (Get_rs inst)) (\<lambda>y.
    if sint x < sint y then Jmp_am32_ofs inst m else Inr (Inc_pc m)))"

definition Jlt_i64_am64_r_r_ofs :: "am_expand \<Rightarrow> uwasm_machine \<Rightarrow> uwasm_machine res" where [handler_defs]:
  "Jlt_i64_am64_r_r_ofs inst m =
    bindr (i64_get m (Get_rd inst)) (\<lambda>x.
    bindr (i64_get m (Get_rs inst)) (\<lambda>y.
    if sint x < sint y then Jmp_am32_ofs inst m else Inr (Inc_pc m)))"

definition Jlt_f32_am64_r_r_ofs :: "am_expand \<Rightarrow> uwasm_machine \<Rightarrow> uwasm_machine res" where [handler_defs]:
  "Jlt_f32_am64_r_r_ofs inst m =
    bindr (f32_get m (Get_rd inst)) (\<lambda>x.
    bindr (f32_get m (Get_rs inst)) (\<lambda>y.
    if f32_lt x y then Jmp_am32_ofs inst m else Inr (Inc_pc m)))"

definition Jlt_f64_am64_r_r_ofs :: "am_expand \<Rightarrow> uwasm_machine \<Rightarrow> uwasm_machine res" where [handler_defs]:
  "Jlt_f64_am64_r_r_ofs inst m =
    bindr (f64_get m (Get_rd inst)) (\<lambda>x.
    bindr (f64_get m (Get_rs inst)) (\<lambda>y.
    if f64_lt x y then Jmp_am32_ofs inst m else Inr (Inc_pc m)))"

definition Jle_i32_am64_r_r_ofs :: "am_expand \<Rightarrow> uwasm_machine \<Rightarrow> uwasm_machine res" where [handler_defs]:
  "Jle_i32_am64_r_r_ofs inst m =
    bindr (i32_get m (Get_rd inst)) (\<lambda>x.
    bindr (i32_get m (Get_rs inst)) (\<lambda>y.
    if sint x \<le> sint y then Jmp_am32_ofs inst m else Inr (Inc_pc m)))"

definition Jle_i64_am64_r_r_ofs :: "am_expand \<Rightarrow> uwasm_machine \<Rightarrow> uwasm_machine res" where [handler_defs]:
  "Jle_i64_am64_r_r_ofs inst m =
    bindr (i64_get m (Get_rd inst)) (\<lambda>x.
    bindr (i64_get m (Get_rs inst)) (\<lambda>y.
    if sint x \<le> sint y then Jmp_am32_ofs inst m else Inr (Inc_pc m)))"

definition Jle_f32_am64_r_r_ofs :: "am_expand \<Rightarrow> uwasm_machine \<Rightarrow> uwasm_machine res" where [handler_defs]:
  "Jle_f32_am64_r_r_ofs inst m =
    bindr (f32_get m (Get_rd inst)) (\<lambda>x.
    bindr (f32_get m (Get_rs inst)) (\<lambda>y.
    if f32_le x y then Jmp_am32_ofs inst m else Inr (Inc_pc m)))"

definition Jle_f64_am64_r_r_ofs :: "am_expand \<Rightarrow> uwasm_machine \<Rightarrow> uwasm_machine res" where [handler_defs]:
  "Jle_f64_am64_r_r_ofs inst m =
    bindr (f64_get m (Get_rd inst)) (\<lambda>x.
    bindr (f64_get m (Get_rs inst)) (\<lambda>y.
    if f64_le x y then Jmp_am32_ofs inst m else Inr (Inc_pc m)))"

definition Jgt_i32_am64_r_r_ofs :: "am_expand \<Rightarrow> uwasm_machine \<Rightarrow> uwasm_machine res" where [handler_defs]:
  "Jgt_i32_am64_r_r_ofs inst m =
    bindr (i32_get m (Get_rd inst)) (\<lambda>x.
    bindr (i32_get m (Get_rs inst)) (\<lambda>y.
    if sint x > sint y then Jmp_am32_ofs inst m else Inr (Inc_pc m)))"

definition Jgt_i64_am64_r_r_ofs :: "am_expand \<Rightarrow> uwasm_machine \<Rightarrow> uwasm_machine res" where [handler_defs]:
  "Jgt_i64_am64_r_r_ofs inst m =
    bindr (i64_get m (Get_rd inst)) (\<lambda>x.
    bindr (i64_get m (Get_rs inst)) (\<lambda>y.
    if sint x > sint y then Jmp_am32_ofs inst m else Inr (Inc_pc m)))"

definition Jgt_f32_am64_r_r_ofs :: "am_expand \<Rightarrow> uwasm_machine \<Rightarrow> uwasm_machine res" where [handler_defs]:
  "Jgt_f32_am64_r_r_ofs inst m =
    bindr (f32_get m (Get_rd inst)) (\<lambda>x.
    bindr (f32_get m (Get_rs inst)) (\<lambda>y.
    if f32_lt y x then Jmp_am32_ofs inst m else Inr (Inc_pc m)))"

definition Jgt_f64_am64_r_r_ofs :: "am_expand \<Rightarrow> uwasm_machine \<Rightarrow> uwasm_machine res" where [handler_defs]:
  "Jgt_f64_am64_r_r_ofs inst m =
    bindr (f64_get m (Get_rd inst)) (\<lambda>x.
    bindr (f64_get m (Get_rs inst)) (\<lambda>y.
    if f64_lt y x then Jmp_am32_ofs inst m else Inr (Inc_pc m)))"

definition Jge_i32_am64_r_r_ofs :: "am_expand \<Rightarrow> uwasm_machine \<Rightarrow> uwasm_machine res" where [handler_defs]:
  "Jge_i32_am64_r_r_ofs inst m =
    bindr (i32_get m (Get_rd inst)) (\<lambda>x.
    bindr (i32_get m (Get_rs inst)) (\<lambda>y.
    if sint x \<ge> sint y then Jmp_am32_ofs inst m else Inr (Inc_pc m)))"

definition Jge_i64_am64_r_r_ofs :: "am_expand \<Rightarrow> uwasm_machine \<Rightarrow> uwasm_machine res" where [handler_defs]:
  "Jge_i64_am64_r_r_ofs inst m =
    bindr (i64_get m (Get_rd inst)) (\<lambda>x.
    bindr (i64_get m (Get_rs inst)) (\<lambda>y.
    if sint x \<ge> sint y then Jmp_am32_ofs inst m else Inr (Inc_pc m)))"

definition Jge_f32_am64_r_r_ofs :: "am_expand \<Rightarrow> uwasm_machine \<Rightarrow> uwasm_machine res" where [handler_defs]:
  "Jge_f32_am64_r_r_ofs inst m =
    bindr (f32_get m (Get_rd inst)) (\<lambda>x.
    bindr (f32_get m (Get_rs inst)) (\<lambda>y.
    if f32_le y x then Jmp_am32_ofs inst m else Inr (Inc_pc m)))"

definition Jge_f64_am64_r_r_ofs :: "am_expand \<Rightarrow> uwasm_machine \<Rightarrow> uwasm_machine res" where [handler_defs]:
  "Jge_f64_am64_r_r_ofs inst m =
    bindr (f64_get m (Get_rd inst)) (\<lambda>x.
    bindr (f64_get m (Get_rs inst)) (\<lambda>y.
    if f64_le y x then Jmp_am32_ofs inst m else Inr (Inc_pc m)))"

definition Jlt_u_i32_am64_r_r_ofs :: "am_expand \<Rightarrow> uwasm_machine \<Rightarrow> uwasm_machine res" where [handler_defs]:
  "Jlt_u_i32_am64_r_r_ofs inst m =
    bindr (i32_get m (Get_rd inst)) (\<lambda>x.
    bindr (i32_get m (Get_rs inst)) (\<lambda>y.
    if x < y then Jmp_am32_ofs inst m else Inr (Inc_pc m)))"

definition Jlt_u_i64_am64_r_r_ofs :: "am_expand \<Rightarrow> uwasm_machine \<Rightarrow> uwasm_machine res" where [handler_defs]:
  "Jlt_u_i64_am64_r_r_ofs inst m =
    bindr (i64_get m (Get_rd inst)) (\<lambda>x.
    bindr (i64_get m (Get_rs inst)) (\<lambda>y.
    if x < y then Jmp_am32_ofs inst m else Inr (Inc_pc m)))"

definition Jle_u_i32_am64_r_r_ofs :: "am_expand \<Rightarrow> uwasm_machine \<Rightarrow> uwasm_machine res" where [handler_defs]:
  "Jle_u_i32_am64_r_r_ofs inst m =
    bindr (i32_get m (Get_rd inst)) (\<lambda>x.
    bindr (i32_get m (Get_rs inst)) (\<lambda>y.
    if x \<le> y then Jmp_am32_ofs inst m else Inr (Inc_pc m)))"

definition Jle_u_i64_am64_r_r_ofs :: "am_expand \<Rightarrow> uwasm_machine \<Rightarrow> uwasm_machine res" where [handler_defs]:
  "Jle_u_i64_am64_r_r_ofs inst m =
    bindr (i64_get m (Get_rd inst)) (\<lambda>x.
    bindr (i64_get m (Get_rs inst)) (\<lambda>y.
    if x \<le> y then Jmp_am32_ofs inst m else Inr (Inc_pc m)))"

definition Jgt_u_i32_am64_r_r_ofs :: "am_expand \<Rightarrow> uwasm_machine \<Rightarrow> uwasm_machine res" where [handler_defs]:
  "Jgt_u_i32_am64_r_r_ofs inst m =
    bindr (i32_get m (Get_rd inst)) (\<lambda>x.
    bindr (i32_get m (Get_rs inst)) (\<lambda>y.
    if x > y then Jmp_am32_ofs inst m else Inr (Inc_pc m)))"

definition Jgt_u_i64_am64_r_r_ofs :: "am_expand \<Rightarrow> uwasm_machine \<Rightarrow> uwasm_machine res" where [handler_defs]:
  "Jgt_u_i64_am64_r_r_ofs inst m =
    bindr (i64_get m (Get_rd inst)) (\<lambda>x.
    bindr (i64_get m (Get_rs inst)) (\<lambda>y.
    if x > y then Jmp_am32_ofs inst m else Inr (Inc_pc m)))"

definition Jge_u_i32_am64_r_r_ofs :: "am_expand \<Rightarrow> uwasm_machine \<Rightarrow> uwasm_machine res" where [handler_defs]:
  "Jge_u_i32_am64_r_r_ofs inst m =
    bindr (i32_get m (Get_rd inst)) (\<lambda>x.
    bindr (i32_get m (Get_rs inst)) (\<lambda>y.
    if x \<ge> y then Jmp_am32_ofs inst m else Inr (Inc_pc m)))"

definition Jge_u_i64_am64_r_r_ofs :: "am_expand \<Rightarrow> uwasm_machine \<Rightarrow> uwasm_machine res" where [handler_defs]:
  "Jge_u_i64_am64_r_r_ofs inst m =
    bindr (i64_get m (Get_rd inst)) (\<lambda>x.
    bindr (i64_get m (Get_rs inst)) (\<lambda>y.
    if x \<ge> y then Jmp_am32_ofs inst m else Inr (Inc_pc m)))"

definition Load_i32_am64_r_r_imm :: "am_expand \<Rightarrow> uwasm_machine \<Rightarrow> uwasm_machine res" where [handler_defs]:
  "Load_i32_am64_r_r_imm inst m =
    bindr (Get_base_addr (Get_rs inst) m) (\<lambda>base_addr.
    let addr = add_ofs (sint (Get_imm inst)) base_addr in
    bindr (load32 (mem m) addr) (\<lambda>v.
    i32_set (Get_rd inst) v m))"

definition Load_i64_am64_r_r_imm :: "am_expand \<Rightarrow> uwasm_machine \<Rightarrow> uwasm_machine res" where [handler_defs]:
  "Load_i64_am64_r_r_imm inst m =
    bindr (Get_base_addr (Get_rs inst) m) (\<lambda>base_addr.
    let addr = add_ofs (sint (Get_imm inst)) base_addr in
    bindr (load64 (mem m) addr) (\<lambda>v.
    i64_set (Get_rd inst) v m))"

definition Load_f32_am64_r_r_imm :: "am_expand \<Rightarrow> uwasm_machine \<Rightarrow> uwasm_machine res" where [handler_defs]:
  "Load_f32_am64_r_r_imm inst m =
    bindr (Get_base_addr (Get_rs inst) m) (\<lambda>base_addr.
    let addr = add_ofs (sint (Get_imm inst)) base_addr in
    bindr (load32 (mem m) addr) (\<lambda>v.
    f32_set (Get_rd inst) v m))"

definition Load_f64_am64_r_r_imm :: "am_expand \<Rightarrow> uwasm_machine \<Rightarrow> uwasm_machine res" where [handler_defs]:
  "Load_f64_am64_r_r_imm inst m =
    bindr (Get_base_addr (Get_rs inst) m) (\<lambda>base_addr.
    let addr = add_ofs (sint (Get_imm inst)) base_addr in
    bindr (load64 (mem m) addr) (\<lambda>v.
    f64_set (Get_rd inst) v m))"

definition Load8_i32_am64_r_r_imm :: "am_expand \<Rightarrow> uwasm_machine \<Rightarrow> uwasm_machine res" where [handler_defs]:
  "Load8_i32_am64_r_r_imm inst m =
    bindr (Get_base_addr (Get_rs inst) m) (\<lambda>base_addr.
    let addr = add_ofs (sint (Get_imm inst)) base_addr in
    bindr (load8 (mem m) addr) (\<lambda>v.
    i32_set (Get_rd inst) (scast v) m))"

definition Load8_i64_am64_r_r_imm :: "am_expand \<Rightarrow> uwasm_machine \<Rightarrow> uwasm_machine res" where [handler_defs]:
  "Load8_i64_am64_r_r_imm inst m =
    bindr (Get_base_addr (Get_rs inst) m) (\<lambda>base_addr.
    let addr = add_ofs (sint (Get_imm inst)) base_addr in
    bindr (load8 (mem m) addr) (\<lambda>v.
    i64_set (Get_rd inst) (scast v) m))"

definition Load8_u_i32_am64_r_r_imm :: "am_expand \<Rightarrow> uwasm_machine \<Rightarrow> uwasm_machine res" where [handler_defs]:
  "Load8_u_i32_am64_r_r_imm inst m =
    bindr (Get_base_addr (Get_rs inst) m) (\<lambda>base_addr.
    let addr = add_ofs (sint (Get_imm inst)) base_addr in
    bindr (load8 (mem m) addr) (\<lambda>v.
    i32_set (Get_rd inst) (ucast v) m))"

definition Load8_u_i64_am64_r_r_imm :: "am_expand \<Rightarrow> uwasm_machine \<Rightarrow> uwasm_machine res" where [handler_defs]:
  "Load8_u_i64_am64_r_r_imm inst m =
    bindr (Get_base_addr (Get_rs inst) m) (\<lambda>base_addr.
    let addr = add_ofs (sint (Get_imm inst)) base_addr in
    bindr (load8 (mem m) addr) (\<lambda>v.
    i64_set (Get_rd inst) (ucast v) m))"

definition Load16_i32_am64_r_r_imm :: "am_expand \<Rightarrow> uwasm_machine \<Rightarrow> uwasm_machine res" where [handler_defs]:
  "Load16_i32_am64_r_r_imm inst m =
    bindr (Get_base_addr (Get_rs inst) m) (\<lambda>base_addr.
    let addr = add_ofs (sint (Get_imm inst)) base_addr in
    bindr (load16 (mem m) addr) (\<lambda>v.
    i32_set (Get_rd inst) (scast v) m))"

definition Load16_i64_am64_r_r_imm :: "am_expand \<Rightarrow> uwasm_machine \<Rightarrow> uwasm_machine res" where [handler_defs]:
  "Load16_i64_am64_r_r_imm inst m =
    bindr (Get_base_addr (Get_rs inst) m) (\<lambda>base_addr.
    let addr = add_ofs (sint (Get_imm inst)) base_addr in
    bindr (load16 (mem m) addr) (\<lambda>v.
    i64_set (Get_rd inst) (scast v) m))"

definition Load16_u_i32_am64_r_r_imm :: "am_expand \<Rightarrow> uwasm_machine \<Rightarrow> uwasm_machine res" where [handler_defs]:
  "Load16_u_i32_am64_r_r_imm inst m =
    bindr (Get_base_addr (Get_rs inst) m) (\<lambda>base_addr.
    let addr = add_ofs (sint (Get_imm inst)) base_addr in
    bindr (load16 (mem m) addr) (\<lambda>v.
    i32_set (Get_rd inst) (ucast v) m))"

definition Load16_u_i64_am64_r_r_imm :: "am_expand \<Rightarrow> uwasm_machine \<Rightarrow> uwasm_machine res" where [handler_defs]:
  "Load16_u_i64_am64_r_r_imm inst m =
    bindr (Get_base_addr (Get_rs inst) m) (\<lambda>base_addr.
    let addr = add_ofs (sint (Get_imm inst)) base_addr in
    bindr (load16 (mem m) addr) (\<lambda>v.
    i64_set (Get_rd inst) (ucast v) m))"

definition Load32_i64_am64_r_r_imm :: "am_expand \<Rightarrow> uwasm_machine \<Rightarrow> uwasm_machine res" where [handler_defs]:
  "Load32_i64_am64_r_r_imm inst m =
    bindr (Get_base_addr (Get_rs inst) m) (\<lambda>base_addr.
    let addr = add_ofs (sint (Get_imm inst)) base_addr in
    bindr (load32 (mem m) addr) (\<lambda>v.
    i64_set (Get_rd inst) (scast v) m))"

definition Load32_u_i64_am64_r_r_imm :: "am_expand \<Rightarrow> uwasm_machine \<Rightarrow> uwasm_machine res" where [handler_defs]:
  "Load32_u_i64_am64_r_r_imm inst m =
    bindr (Get_base_addr (Get_rs inst) m) (\<lambda>base_addr.
    let addr = add_ofs (sint (Get_imm inst)) base_addr in
    bindr (load32 (mem m) addr) (\<lambda>v.
    i64_set (Get_rd inst) (ucast v) m))"

definition Store_i32_am64_r_r_imm :: "am_expand \<Rightarrow> uwasm_machine \<Rightarrow> uwasm_machine res" where [handler_defs]:
  "Store_i32_am64_r_r_imm inst m =
    bindr (Get_base_addr (Get_rs inst) m) (\<lambda>base_addr.
    let addr = add_ofs (sint (Get_imm inst)) base_addr in
    bindr (i32_get m (Get_rd inst)) (\<lambda>x.
    bindr (store32 (mem m) addr x) (\<lambda>mem. Inr (m\<lparr>mem := mem\<rparr>))))"

definition Store_i64_am64_r_r_imm :: "am_expand \<Rightarrow> uwasm_machine \<Rightarrow> uwasm_machine res" where [handler_defs]:
  "Store_i64_am64_r_r_imm inst m =
    bindr (Get_base_addr (Get_rs inst) m) (\<lambda>base_addr.
    let addr = add_ofs (sint (Get_imm inst)) base_addr in
    bindr (i64_get m (Get_rd inst)) (\<lambda>x.
    bindr (store64 (mem m) addr x) (\<lambda>mem. Inr (m\<lparr>mem := mem\<rparr>))))"

definition Store_f32_am64_r_r_imm :: "am_expand \<Rightarrow> uwasm_machine \<Rightarrow> uwasm_machine res" where [handler_defs]:
  "Store_f32_am64_r_r_imm inst m =
    bindr (Get_base_addr (Get_rs inst) m) (\<lambda>base_addr.
    let addr = add_ofs (sint (Get_imm inst)) base_addr in
    bindr (f32_get m (Get_rd inst)) (\<lambda>x.
    bindr (store32 (mem m) addr x) (\<lambda>mem. Inr (m\<lparr>mem := mem\<rparr>))))"

definition Store_f64_am64_r_r_imm :: "am_expand \<Rightarrow> uwasm_machine \<Rightarrow> uwasm_machine res" where [handler_defs]:
  "Store_f64_am64_r_r_imm inst m =
    bindr (Get_base_addr (Get_rs inst) m) (\<lambda>base_addr.
    let addr = add_ofs (sint (Get_imm inst)) base_addr in
    bindr (f64_get m (Get_rd inst)) (\<lambda>x.
    bindr (store64 (mem m) addr x) (\<lambda>mem. Inr (m\<lparr>mem := mem\<rparr>))))"

definition Store8_i32_am64_r_r_imm :: "am_expand \<Rightarrow> uwasm_machine \<Rightarrow> uwasm_machine res" where [handler_defs]:
  "Store8_i32_am64_r_r_imm inst m =
    bindr (Get_base_addr (Get_rs inst) m) (\<lambda>base_addr.
    let addr = add_ofs (sint (Get_imm inst)) base_addr in
    bindr (i32_get m (Get_rd inst)) (\<lambda>x.
    bindr (store8 (mem m) addr (ucast x)) (\<lambda>mem. Inr (m\<lparr>mem := mem\<rparr>))))"

definition Store8_i64_am64_r_r_imm :: "am_expand \<Rightarrow> uwasm_machine \<Rightarrow> uwasm_machine res" where [handler_defs]:
  "Store8_i64_am64_r_r_imm inst m =
    bindr (Get_base_addr (Get_rs inst) m) (\<lambda>base_addr.
    let addr = add_ofs (sint (Get_imm inst)) base_addr in
    bindr (i64_get m (Get_rd inst)) (\<lambda>x.
    bindr (store8 (mem m) addr (ucast x)) (\<lambda>mem. Inr (m\<lparr>mem := mem\<rparr>))))"

definition Store16_i32_am64_r_r_imm :: "am_expand \<Rightarrow> uwasm_machine \<Rightarrow> uwasm_machine res" where [handler_defs]:
  "Store16_i32_am64_r_r_imm inst m =
    bindr (Get_base_addr (Get_rs inst) m) (\<lambda>base_addr.
    let addr = add_ofs (sint (Get_imm inst)) base_addr in
    bindr (i32_get m (Get_rd inst)) (\<lambda>x.
    bindr (store16 (mem m) addr (ucast x)) (\<lambda>mem. Inr (m\<lparr>mem := mem\<rparr>))))"

definition Store16_i64_am64_r_r_imm :: "am_expand \<Rightarrow> uwasm_machine \<Rightarrow> uwasm_machine res" where [handler_defs]:
  "Store16_i64_am64_r_r_imm inst m =
    bindr (Get_base_addr (Get_rs inst) m) (\<lambda>base_addr.
    let addr = add_ofs (sint (Get_imm inst)) base_addr in
    bindr (i64_get m (Get_rd inst)) (\<lambda>x.
    bindr (store16 (mem m) addr (ucast x)) (\<lambda>mem. Inr (m\<lparr>mem := mem\<rparr>))))"

definition Store32_i64_am64_r_r_imm :: "am_expand \<Rightarrow> uwasm_machine \<Rightarrow> uwasm_machine res" where [handler_defs]:
  "Store32_i64_am64_r_r_imm inst m =
    bindr (Get_base_addr (Get_rs inst) m) (\<lambda>base_addr.
    let addr = add_ofs (sint (Get_imm inst)) base_addr in
    bindr (i64_get m (Get_rd inst)) (\<lambda>x.
    bindr (store32 (mem m) addr (ucast x)) (\<lambda>mem. Inr (m\<lparr>mem := mem\<rparr>))))"

definition Lload_i32_am64_r_imm :: "am_expand \<Rightarrow> uwasm_machine \<Rightarrow> uwasm_machine res" where [handler_defs]:
  "Lload_i32_am64_r_imm inst m =
    Lload_i32_am32_r_imm inst m"

definition Lload_i64_am64_r_imm :: "am_expand \<Rightarrow> uwasm_machine \<Rightarrow> uwasm_machine res" where [handler_defs]:
  "Lload_i64_am64_r_imm inst m =
    Lload_i64_am32_r_imm inst m"

definition Lload_f32_am64_r_imm :: "am_expand \<Rightarrow> uwasm_machine \<Rightarrow> uwasm_machine res" where [handler_defs]:
  "Lload_f32_am64_r_imm inst m =
    Lload_f32_am32_r_imm inst m"

definition Lload_f64_am64_r_imm :: "am_expand \<Rightarrow> uwasm_machine \<Rightarrow> uwasm_machine res" where [handler_defs]:
  "Lload_f64_am64_r_imm inst m =
    Lload_f64_am32_r_imm inst m"

definition Lload8_i32_am64_r_imm :: "am_expand \<Rightarrow> uwasm_machine \<Rightarrow> uwasm_machine res" where [handler_defs]:
  "Lload8_i32_am64_r_imm inst m =
    Lload8_i32_am32_r_imm inst m"

definition Lload8_i64_am64_r_imm :: "am_expand \<Rightarrow> uwasm_machine \<Rightarrow> uwasm_machine res" where [handler_defs]:
  "Lload8_i64_am64_r_imm inst m =
    Lload8_i64_am32_r_imm inst m"

definition Lload8_u_i32_am64_r_imm :: "am_expand \<Rightarrow> uwasm_machine \<Rightarrow> uwasm_machine res" where [handler_defs]:
  "Lload8_u_i32_am64_r_imm inst m =
    Lload8_u_i32_am32_r_imm inst m"

definition Lload8_u_i64_am64_r_imm :: "am_expand \<Rightarrow> uwasm_machine \<Rightarrow> uwasm_machine res" where [handler_defs]:
  "Lload8_u_i64_am64_r_imm inst m =
    Lload8_u_i64_am32_r_imm inst m"

definition Lload16_i32_am64_r_imm :: "am_expand \<Rightarrow> uwasm_machine \<Rightarrow> uwasm_machine res" where [handler_defs]:
  "Lload16_i32_am64_r_imm inst m =
    Lload16_i32_am32_r_imm inst m"

definition Lload16_i64_am64_r_imm :: "am_expand \<Rightarrow> uwasm_machine \<Rightarrow> uwasm_machine res" where [handler_defs]:
  "Lload16_i64_am64_r_imm inst m =
    Lload16_i64_am32_r_imm inst m"

definition Lload16_u_i32_am64_r_imm :: "am_expand \<Rightarrow> uwasm_machine \<Rightarrow> uwasm_machine res" where [handler_defs]:
  "Lload16_u_i32_am64_r_imm inst m =
    Lload16_u_i32_am32_r_imm inst m"

definition Lload16_u_i64_am64_r_imm :: "am_expand \<Rightarrow> uwasm_machine \<Rightarrow> uwasm_machine res" where [handler_defs]:
  "Lload16_u_i64_am64_r_imm inst m =
    Lload16_u_i64_am32_r_imm inst m"

definition Lload32_i64_am64_r_imm :: "am_expand \<Rightarrow> uwasm_machine \<Rightarrow> uwasm_machine res" where [handler_defs]:
  "Lload32_i64_am64_r_imm inst m =
    Lload32_i64_am32_r_imm inst m"

definition Lload32_u_i64_am64_r_imm :: "am_expand \<Rightarrow> uwasm_machine \<Rightarrow> uwasm_machine res" where [handler_defs]:
  "Lload32_u_i64_am64_r_imm inst m =
    Lload32_u_i64_am32_r_imm inst m"

definition Lstore_i32_am64_r_imm :: "am_expand \<Rightarrow> uwasm_machine \<Rightarrow> uwasm_machine res" where [handler_defs]:
  "Lstore_i32_am64_r_imm inst m =
    Lstore_i32_am32_r_imm inst m"

definition Lstore_i64_am64_r_imm :: "am_expand \<Rightarrow> uwasm_machine \<Rightarrow> uwasm_machine res" where [handler_defs]:
  "Lstore_i64_am64_r_imm inst m =
    Lstore_i64_am32_r_imm inst m"

definition Lstore_f32_am64_r_imm :: "am_expand \<Rightarrow> uwasm_machine \<Rightarrow> uwasm_machine res" where [handler_defs]:
  "Lstore_f32_am64_r_imm inst m =
    Lstore_f32_am32_r_imm inst m"

definition Lstore_f64_am64_r_imm :: "am_expand \<Rightarrow> uwasm_machine \<Rightarrow> uwasm_machine res" where [handler_defs]:
  "Lstore_f64_am64_r_imm inst m =
    Lstore_f64_am32_r_imm inst m"

definition Lstore8_i32_am64_r_imm :: "am_expand \<Rightarrow> uwasm_machine \<Rightarrow> uwasm_machine res" where [handler_defs]:
  "Lstore8_i32_am64_r_imm inst m =
    Lstore8_i32_am32_r_imm inst m"

definition Lstore8_i64_am64_r_imm :: "am_expand \<Rightarrow> uwasm_machine \<Rightarrow> uwasm_machine res" where [handler_defs]:
  "Lstore8_i64_am64_r_imm inst m =
    Lstore8_i64_am32_r_imm inst m"

definition Lstore16_i32_am64_r_imm :: "am_expand \<Rightarrow> uwasm_machine \<Rightarrow> uwasm_machine res" where [handler_defs]:
  "Lstore16_i32_am64_r_imm inst m =
    Lstore16_i32_am32_r_imm inst m"

definition Lstore16_i64_am64_r_imm :: "am_expand \<Rightarrow> uwasm_machine \<Rightarrow> uwasm_machine res" where [handler_defs]:
  "Lstore16_i64_am64_r_imm inst m =
    Lstore16_i64_am32_r_imm inst m"

definition Lstore32_i64_am64_r_imm :: "am_expand \<Rightarrow> uwasm_machine \<Rightarrow> uwasm_machine res" where [handler_defs]:
  "Lstore32_i64_am64_r_imm inst m =
    Lstore32_i64_am32_r_imm inst m"

definition Eq_i32_am64_r_r_r :: "am_expand \<Rightarrow> uwasm_machine \<Rightarrow> uwasm_machine res" where [handler_defs]:
  "Eq_i32_am64_r_r_r inst m =
    bindr (i32_get m (Get_rs inst)) (\<lambda>x.
    bindr (i32_get m (Get_rt inst)) (\<lambda>y.
    i32_set (Get_rd inst) (of_bool (x = y)) m))"

definition Eq_i64_am64_r_r_r :: "am_expand \<Rightarrow> uwasm_machine \<Rightarrow> uwasm_machine res" where [handler_defs]:
  "Eq_i64_am64_r_r_r inst m =
    bindr (i64_get m (Get_rs inst)) (\<lambda>x.
    bindr (i64_get m (Get_rt inst)) (\<lambda>y.
    i64_set (Get_rd inst) (of_bool (x = y)) m))"

definition Eq_f32_am64_r_r_r :: "am_expand \<Rightarrow> uwasm_machine \<Rightarrow> uwasm_machine res" where [handler_defs]:
  "Eq_f32_am64_r_r_r inst m =
    bindr (f32_get m (Get_rs inst)) (\<lambda>x.
    bindr (f32_get m (Get_rt inst)) (\<lambda>y.
    f32_set (Get_rd inst) (f32_of_bool (f32_eq x y)) m))"

definition Eq_f64_am64_r_r_r :: "am_expand \<Rightarrow> uwasm_machine \<Rightarrow> uwasm_machine res" where [handler_defs]:
  "Eq_f64_am64_r_r_r inst m =
    bindr (f64_get m (Get_rs inst)) (\<lambda>x.
    bindr (f64_get m (Get_rt inst)) (\<lambda>y.
    f64_set (Get_rd inst) (f64_of_bool (f64_eq x y)) m))"

definition Ne_i32_am64_r_r_r :: "am_expand \<Rightarrow> uwasm_machine \<Rightarrow> uwasm_machine res" where [handler_defs]:
  "Ne_i32_am64_r_r_r inst m =
    bindr (i32_get m (Get_rs inst)) (\<lambda>x.
    bindr (i32_get m (Get_rt inst)) (\<lambda>y.
    i32_set (Get_rd inst) (of_bool (x \<noteq> y)) m))"

definition Ne_i64_am64_r_r_r :: "am_expand \<Rightarrow> uwasm_machine \<Rightarrow> uwasm_machine res" where [handler_defs]:
  "Ne_i64_am64_r_r_r inst m =
    bindr (i64_get m (Get_rs inst)) (\<lambda>x.
    bindr (i64_get m (Get_rt inst)) (\<lambda>y.
    i64_set (Get_rd inst) (of_bool (x \<noteq> y)) m))"

definition Ne_f32_am64_r_r_r :: "am_expand \<Rightarrow> uwasm_machine \<Rightarrow> uwasm_machine res" where [handler_defs]:
  "Ne_f32_am64_r_r_r inst m =
    bindr (f32_get m (Get_rs inst)) (\<lambda>x.
    bindr (f32_get m (Get_rt inst)) (\<lambda>y.
    f32_set (Get_rd inst) (f32_of_bool (\<not> f32_eq x y)) m))"

definition Ne_f64_am64_r_r_r :: "am_expand \<Rightarrow> uwasm_machine \<Rightarrow> uwasm_machine res" where [handler_defs]:
  "Ne_f64_am64_r_r_r inst m =
    bindr (f64_get m (Get_rs inst)) (\<lambda>x.
    bindr (f64_get m (Get_rt inst)) (\<lambda>y.
    f64_set (Get_rd inst) (f64_of_bool (\<not> f64_eq x y)) m))"

definition Lt_i32_am64_r_r_r :: "am_expand \<Rightarrow> uwasm_machine \<Rightarrow> uwasm_machine res" where [handler_defs]:
  "Lt_i32_am64_r_r_r inst m =
    bindr (i32_get m (Get_rs inst)) (\<lambda>x.
    bindr (i32_get m (Get_rt inst)) (\<lambda>y.
    i32_set (Get_rd inst) (of_bool (sint x < sint y)) m))"

definition Lt_i64_am64_r_r_r :: "am_expand \<Rightarrow> uwasm_machine \<Rightarrow> uwasm_machine res" where [handler_defs]:
  "Lt_i64_am64_r_r_r inst m =
    bindr (i64_get m (Get_rs inst)) (\<lambda>x.
    bindr (i64_get m (Get_rt inst)) (\<lambda>y.
    i64_set (Get_rd inst) (of_bool (sint x < sint y)) m))"

definition Lt_f32_am64_r_r_r :: "am_expand \<Rightarrow> uwasm_machine \<Rightarrow> uwasm_machine res" where [handler_defs]:
  "Lt_f32_am64_r_r_r inst m =
    bindr (f32_get m (Get_rs inst)) (\<lambda>x.
    bindr (f32_get m (Get_rt inst)) (\<lambda>y.
    f32_set (Get_rd inst) (f32_of_bool (f32_lt x y)) m))"

definition Lt_f64_am64_r_r_r :: "am_expand \<Rightarrow> uwasm_machine \<Rightarrow> uwasm_machine res" where [handler_defs]:
  "Lt_f64_am64_r_r_r inst m =
    bindr (f64_get m (Get_rs inst)) (\<lambda>x.
    bindr (f64_get m (Get_rt inst)) (\<lambda>y.
    f64_set (Get_rd inst) (f64_of_bool (f64_lt x y)) m))"

definition Lt_u_i32_am64_r_r_r :: "am_expand \<Rightarrow> uwasm_machine \<Rightarrow> uwasm_machine res" where [handler_defs]:
  "Lt_u_i32_am64_r_r_r inst m =
    bindr (i32_get m (Get_rs inst)) (\<lambda>x.
    bindr (i32_get m (Get_rt inst)) (\<lambda>y.
    i32_set (Get_rd inst) (of_bool (x < y)) m))"

definition Lt_u_i64_am64_r_r_r :: "am_expand \<Rightarrow> uwasm_machine \<Rightarrow> uwasm_machine res" where [handler_defs]:
  "Lt_u_i64_am64_r_r_r inst m =
    bindr (i64_get m (Get_rs inst)) (\<lambda>x.
    bindr (i64_get m (Get_rt inst)) (\<lambda>y.
    i64_set (Get_rd inst) (of_bool (x < y)) m))"

definition Gt_i32_am64_r_r_r :: "am_expand \<Rightarrow> uwasm_machine \<Rightarrow> uwasm_machine res" where [handler_defs]:
  "Gt_i32_am64_r_r_r inst m =
    bindr (i32_get m (Get_rs inst)) (\<lambda>x.
    bindr (i32_get m (Get_rt inst)) (\<lambda>y.
    i32_set (Get_rd inst) (of_bool (sint x > sint y)) m))"

definition Gt_i64_am64_r_r_r :: "am_expand \<Rightarrow> uwasm_machine \<Rightarrow> uwasm_machine res" where [handler_defs]:
  "Gt_i64_am64_r_r_r inst m =
    bindr (i64_get m (Get_rs inst)) (\<lambda>x.
    bindr (i64_get m (Get_rt inst)) (\<lambda>y.
    i64_set (Get_rd inst) (of_bool (sint x > sint y)) m))"

definition Gt_f32_am64_r_r_r :: "am_expand \<Rightarrow> uwasm_machine \<Rightarrow> uwasm_machine res" where [handler_defs]:
  "Gt_f32_am64_r_r_r inst m =
    bindr (f32_get m (Get_rs inst)) (\<lambda>x.
    bindr (f32_get m (Get_rt inst)) (\<lambda>y.
    f32_set (Get_rd inst) (f32_of_bool (f32_lt y x)) m))"

definition Gt_f64_am64_r_r_r :: "am_expand \<Rightarrow> uwasm_machine \<Rightarrow> uwasm_machine res" where [handler_defs]:
  "Gt_f64_am64_r_r_r inst m =
    bindr (f64_get m (Get_rs inst)) (\<lambda>x.
    bindr (f64_get m (Get_rt inst)) (\<lambda>y.
    f64_set (Get_rd inst) (f64_of_bool (f64_lt y x)) m))"

definition Gt_u_i32_am64_r_r_r :: "am_expand \<Rightarrow> uwasm_machine \<Rightarrow> uwasm_machine res" where [handler_defs]:
  "Gt_u_i32_am64_r_r_r inst m =
    bindr (i32_get m (Get_rs inst)) (\<lambda>x.
    bindr (i32_get m (Get_rt inst)) (\<lambda>y.
    i32_set (Get_rd inst) (of_bool (x > y)) m))"

definition Gt_u_i64_am64_r_r_r :: "am_expand \<Rightarrow> uwasm_machine \<Rightarrow> uwasm_machine res" where [handler_defs]:
  "Gt_u_i64_am64_r_r_r inst m =
    bindr (i64_get m (Get_rs inst)) (\<lambda>x.
    bindr (i64_get m (Get_rt inst)) (\<lambda>y.
    i64_set (Get_rd inst) (of_bool (x > y)) m))"

definition Le_i32_am64_r_r_r :: "am_expand \<Rightarrow> uwasm_machine \<Rightarrow> uwasm_machine res" where [handler_defs]:
  "Le_i32_am64_r_r_r inst m =
    bindr (i32_get m (Get_rs inst)) (\<lambda>x.
    bindr (i32_get m (Get_rt inst)) (\<lambda>y.
    i32_set (Get_rd inst) (of_bool (sint x \<le> sint y)) m))"

definition Le_i64_am64_r_r_r :: "am_expand \<Rightarrow> uwasm_machine \<Rightarrow> uwasm_machine res" where [handler_defs]:
  "Le_i64_am64_r_r_r inst m =
    bindr (i64_get m (Get_rs inst)) (\<lambda>x.
    bindr (i64_get m (Get_rt inst)) (\<lambda>y.
    i64_set (Get_rd inst) (of_bool (sint x \<le> sint y)) m))"

definition Le_f32_am64_r_r_r :: "am_expand \<Rightarrow> uwasm_machine \<Rightarrow> uwasm_machine res" where [handler_defs]:
  "Le_f32_am64_r_r_r inst m =
    bindr (f32_get m (Get_rs inst)) (\<lambda>x.
    bindr (f32_get m (Get_rt inst)) (\<lambda>y.
    i32_set (Get_rd inst) (of_bool (f32_le x y)) m))"

definition Le_f64_am64_r_r_r :: "am_expand \<Rightarrow> uwasm_machine \<Rightarrow> uwasm_machine res" where [handler_defs]:
  "Le_f64_am64_r_r_r inst m =
    bindr (f64_get m (Get_rs inst)) (\<lambda>x.
    bindr (f64_get m (Get_rt inst)) (\<lambda>y.
    f64_set (Get_rd inst) (f64_of_bool (f64_le x y)) m))"

definition Le_u_i32_am64_r_r_r :: "am_expand \<Rightarrow> uwasm_machine \<Rightarrow> uwasm_machine res" where [handler_defs]:
  "Le_u_i32_am64_r_r_r inst m =
    bindr (i32_get m (Get_rs inst)) (\<lambda>x.
    bindr (i32_get m (Get_rt inst)) (\<lambda>y.
    i32_set (Get_rd inst) (of_bool (x \<le> y)) m))"

definition Le_u_i64_am64_r_r_r :: "am_expand \<Rightarrow> uwasm_machine \<Rightarrow> uwasm_machine res" where [handler_defs]:
  "Le_u_i64_am64_r_r_r inst m =
    bindr (i64_get m (Get_rs inst)) (\<lambda>x.
    bindr (i64_get m (Get_rt inst)) (\<lambda>y.
    i64_set (Get_rd inst) (of_bool (x \<le> y)) m))"

definition Ge_i32_am64_r_r_r :: "am_expand \<Rightarrow> uwasm_machine \<Rightarrow> uwasm_machine res" where [handler_defs]:
  "Ge_i32_am64_r_r_r inst m =
    bindr (i32_get m (Get_rs inst)) (\<lambda>x.
    bindr (i32_get m (Get_rt inst)) (\<lambda>y.
    i32_set (Get_rd inst) (of_bool (sint x \<ge> sint y)) m))"

definition Ge_i64_am64_r_r_r :: "am_expand \<Rightarrow> uwasm_machine \<Rightarrow> uwasm_machine res" where [handler_defs]:
  "Ge_i64_am64_r_r_r inst m =
    bindr (i64_get m (Get_rs inst)) (\<lambda>x.
    bindr (i64_get m (Get_rt inst)) (\<lambda>y.
    i64_set (Get_rd inst) (of_bool (sint x \<ge> sint y)) m))"

definition Ge_f32_am64_r_r_r :: "am_expand \<Rightarrow> uwasm_machine \<Rightarrow> uwasm_machine res" where [handler_defs]:
  "Ge_f32_am64_r_r_r inst m =
    bindr (f32_get m (Get_rs inst)) (\<lambda>x.
    bindr (f32_get m (Get_rt inst)) (\<lambda>y.
    f32_set (Get_rd inst) (f32_of_bool (f32_le y x)) m))"

definition Ge_f64_am64_r_r_r :: "am_expand \<Rightarrow> uwasm_machine \<Rightarrow> uwasm_machine res" where [handler_defs]:
  "Ge_f64_am64_r_r_r inst m =
    bindr (f64_get m (Get_rs inst)) (\<lambda>x.
    bindr (f64_get m (Get_rt inst)) (\<lambda>y.
    f64_set (Get_rd inst) (f64_of_bool (f64_le y x)) m))"

definition Ge_u_i32_am64_r_r_r :: "am_expand \<Rightarrow> uwasm_machine \<Rightarrow> uwasm_machine res" where [handler_defs]:
  "Ge_u_i32_am64_r_r_r inst m =
    bindr (i32_get m (Get_rs inst)) (\<lambda>x.
    bindr (i32_get m (Get_rt inst)) (\<lambda>y.
    i32_set (Get_rd inst) (of_bool (x \<ge> y)) m))"

definition Ge_u_i64_am64_r_r_r :: "am_expand \<Rightarrow> uwasm_machine \<Rightarrow> uwasm_machine res" where [handler_defs]:
  "Ge_u_i64_am64_r_r_r inst m =
    bindr (i64_get m (Get_rs inst)) (\<lambda>x.
    bindr (i64_get m (Get_rt inst)) (\<lambda>y.
    i64_set (Get_rd inst) (of_bool (x \<ge> y)) m))"

definition Add_i32_am64_r_r_r :: "am_expand \<Rightarrow> uwasm_machine \<Rightarrow> uwasm_machine res" where [handler_defs]:
  "Add_i32_am64_r_r_r inst m =
    bindr (i32_get m (Get_rs inst)) (\<lambda>x.
    bindr (i32_get m (Get_rt inst)) (\<lambda>y.
    i32_set (Get_rd inst) (x + y) m))"

definition Add_i64_am64_r_r_r :: "am_expand \<Rightarrow> uwasm_machine \<Rightarrow> uwasm_machine res" where [handler_defs]:
  "Add_i64_am64_r_r_r inst m =
    bindr (i64_get m (Get_rs inst)) (\<lambda>x.
    bindr (i64_get m (Get_rt inst)) (\<lambda>y.
    i64_set (Get_rd inst) (x + y) m))"

definition Add_f32_am64_r_r_r :: "host \<Rightarrow> am_expand \<Rightarrow> uwasm_machine \<Rightarrow> uwasm_machine res" where [handler_defs]:
  "Add_f32_am64_r_r_r H inst m =
    bindr (f32_get m (Get_rs inst)) (\<lambda>x.
    bindr (f32_get m (Get_rt inst)) (\<lambda>y.
    f32_set (Get_rd inst) (f32_add (h_fpu H) x y) m))"

definition Add_f64_am64_r_r_r :: "host \<Rightarrow> am_expand \<Rightarrow> uwasm_machine \<Rightarrow> uwasm_machine res" where [handler_defs]:
  "Add_f64_am64_r_r_r H inst m =
    bindr (f64_get m (Get_rs inst)) (\<lambda>x.
    bindr (f64_get m (Get_rt inst)) (\<lambda>y.
    f64_set (Get_rd inst) (f64_add (h_fpu H) x y) m))"

definition Sub_i32_am64_r_r_r :: "am_expand \<Rightarrow> uwasm_machine \<Rightarrow> uwasm_machine res" where [handler_defs]:
  "Sub_i32_am64_r_r_r inst m =
    bindr (i32_get m (Get_rs inst)) (\<lambda>x.
    bindr (i32_get m (Get_rt inst)) (\<lambda>y.
    i32_set (Get_rd inst) (x - y) m))"

definition Sub_i64_am64_r_r_r :: "am_expand \<Rightarrow> uwasm_machine \<Rightarrow> uwasm_machine res" where [handler_defs]:
  "Sub_i64_am64_r_r_r inst m =
    bindr (i64_get m (Get_rs inst)) (\<lambda>x.
    bindr (i64_get m (Get_rt inst)) (\<lambda>y.
    i64_set (Get_rd inst) (x - y) m))"

definition Sub_f32_am64_r_r_r :: "host \<Rightarrow> am_expand \<Rightarrow> uwasm_machine \<Rightarrow> uwasm_machine res" where [handler_defs]:
  "Sub_f32_am64_r_r_r H inst m =
    bindr (f32_get m (Get_rs inst)) (\<lambda>x.
    bindr (f32_get m (Get_rt inst)) (\<lambda>y.
    f32_set (Get_rd inst) (f32_sub (h_fpu H) x y) m))"

definition Sub_f64_am64_r_r_r :: "host \<Rightarrow> am_expand \<Rightarrow> uwasm_machine \<Rightarrow> uwasm_machine res" where [handler_defs]:
  "Sub_f64_am64_r_r_r H inst m =
    bindr (f64_get m (Get_rs inst)) (\<lambda>x.
    bindr (f64_get m (Get_rt inst)) (\<lambda>y.
    f64_set (Get_rd inst) (f64_sub (h_fpu H) x y) m))"

definition Mul_i32_am64_r_r_r :: "am_expand \<Rightarrow> uwasm_machine \<Rightarrow> uwasm_machine res" where [handler_defs]:
  "Mul_i32_am64_r_r_r inst m =
    bindr (i32_get m (Get_rs inst)) (\<lambda>x.
    bindr (i32_get m (Get_rt inst)) (\<lambda>y.
    i32_set (Get_rd inst) (x * y) m))"

definition Mul_i64_am64_r_r_r :: "am_expand \<Rightarrow> uwasm_machine \<Rightarrow> uwasm_machine res" where [handler_defs]:
  "Mul_i64_am64_r_r_r inst m =
    bindr (i64_get m (Get_rs inst)) (\<lambda>x.
    bindr (i64_get m (Get_rt inst)) (\<lambda>y.
    i64_set (Get_rd inst) (x * y) m))"

definition Mul_f32_am64_r_r_r :: "host \<Rightarrow> am_expand \<Rightarrow> uwasm_machine \<Rightarrow> uwasm_machine res" where [handler_defs]:
  "Mul_f32_am64_r_r_r H inst m =
    bindr (f32_get m (Get_rs inst)) (\<lambda>x.
    bindr (f32_get m (Get_rt inst)) (\<lambda>y.
    f32_set (Get_rd inst) (f32_mul (h_fpu H) x y) m))"

definition Mul_f64_am64_r_r_r :: "host \<Rightarrow> am_expand \<Rightarrow> uwasm_machine \<Rightarrow> uwasm_machine res" where [handler_defs]:
  "Mul_f64_am64_r_r_r H inst m =
    bindr (f64_get m (Get_rs inst)) (\<lambda>x.
    bindr (f64_get m (Get_rt inst)) (\<lambda>y.
    f64_set (Get_rd inst) (f64_mul (h_fpu H) x y) m))"

definition Div_i32_am64_r_r_r :: "am_expand \<Rightarrow> uwasm_machine \<Rightarrow> uwasm_machine res" where [handler_defs]:
  "Div_i32_am64_r_r_r inst m =
    bindr (i32_get m (Get_rs inst)) (\<lambda>x.
    bindr (i32_get m (Get_rt inst)) (\<lambda>y.
    bindr (div_s x y) (\<lambda>v.
    i32_set (Get_rd inst) v m)))"

definition Div_i64_am64_r_r_r :: "am_expand \<Rightarrow> uwasm_machine \<Rightarrow> uwasm_machine res" where [handler_defs]:
  "Div_i64_am64_r_r_r inst m =
    bindr (i64_get m (Get_rs inst)) (\<lambda>x.
    bindr (i64_get m (Get_rt inst)) (\<lambda>y.
    bindr (div_s x y) (\<lambda>v.
    i64_set (Get_rd inst) v m)))"

definition Div_f32_am64_r_r_r :: "host \<Rightarrow> am_expand \<Rightarrow> uwasm_machine \<Rightarrow> uwasm_machine res" where [handler_defs]:
  "Div_f32_am64_r_r_r H inst m =
    bindr (f32_get m (Get_rs inst)) (\<lambda>x.
    bindr (f32_get m (Get_rt inst)) (\<lambda>y.
    f32_set (Get_rd inst) (f32_div (h_fpu H) x y) m))"

definition Div_f64_am64_r_r_r :: "host \<Rightarrow> am_expand \<Rightarrow> uwasm_machine \<Rightarrow> uwasm_machine res" where [handler_defs]:
  "Div_f64_am64_r_r_r H inst m =
    bindr (f64_get m (Get_rs inst)) (\<lambda>x.
    bindr (f64_get m (Get_rt inst)) (\<lambda>y.
    f64_set (Get_rd inst) (f64_div (h_fpu H) x y) m))"

definition Div_u_i32_am64_r_r_r :: "am_expand \<Rightarrow> uwasm_machine \<Rightarrow> uwasm_machine res" where [handler_defs]:
  "Div_u_i32_am64_r_r_r inst m =
    bindr (i32_get m (Get_rs inst)) (\<lambda>x.
    bindr (i32_get m (Get_rt inst)) (\<lambda>y.
    bindr (div_s x y) (\<lambda>v.
    i32_set (Get_rd inst) v m)))"

definition Div_u_i64_am64_r_r_r :: "am_expand \<Rightarrow> uwasm_machine \<Rightarrow> uwasm_machine res" where [handler_defs]:
  "Div_u_i64_am64_r_r_r inst m =
    bindr (i64_get m (Get_rs inst)) (\<lambda>x.
    bindr (i64_get m (Get_rt inst)) (\<lambda>y.
    bindr (div_s x y) (\<lambda>v.
    i64_set (Get_rd inst) v m)))"

definition Rem_i32_am64_r_r_r :: "am_expand \<Rightarrow> uwasm_machine \<Rightarrow> uwasm_machine res" where [handler_defs]:
  "Rem_i32_am64_r_r_r inst m =
    bindr (i32_get m (Get_rs inst)) (\<lambda>x.
    bindr (i32_get m (Get_rt inst)) (\<lambda>y.
    bindr (rem_s x y) (\<lambda>v.
    i32_set (Get_rd inst) v m)))"

definition Rem_i64_am64_r_r_r :: "am_expand \<Rightarrow> uwasm_machine \<Rightarrow> uwasm_machine res" where [handler_defs]:
  "Rem_i64_am64_r_r_r inst m =
    bindr (i64_get m (Get_rs inst)) (\<lambda>x.
    bindr (i64_get m (Get_rt inst)) (\<lambda>y.
    bindr (rem_s x y) (\<lambda>v.
    i64_set (Get_rd inst) v m)))"

definition Rem_u_i32_am64_r_r_r :: "am_expand \<Rightarrow> uwasm_machine \<Rightarrow> uwasm_machine res" where [handler_defs]:
  "Rem_u_i32_am64_r_r_r inst m =
    bindr (i32_get m (Get_rs inst)) (\<lambda>x.
    bindr (i32_get m (Get_rt inst)) (\<lambda>y.
    bindr (rem_s x y) (\<lambda>v.
    i32_set (Get_rd inst) v m)))"

definition Rem_u_i64_am64_r_r_r :: "am_expand \<Rightarrow> uwasm_machine \<Rightarrow> uwasm_machine res" where [handler_defs]:
  "Rem_u_i64_am64_r_r_r inst m =
    bindr (i64_get m (Get_rs inst)) (\<lambda>x.
    bindr (i64_get m (Get_rt inst)) (\<lambda>y.
    bindr (rem_s x y) (\<lambda>v.
    i64_set (Get_rd inst) v m)))"

definition And_i32_am64_r_r_r :: "am_expand \<Rightarrow> uwasm_machine \<Rightarrow> uwasm_machine res" where [handler_defs]:
  "And_i32_am64_r_r_r inst m =
    bindr (i32_get m (Get_rs inst)) (\<lambda>x.
    bindr (i32_get m (Get_rt inst)) (\<lambda>y.
    i32_set (Get_rd inst) (x AND y) m))"

definition And_i64_am64_r_r_r :: "am_expand \<Rightarrow> uwasm_machine \<Rightarrow> uwasm_machine res" where [handler_defs]:
  "And_i64_am64_r_r_r inst m =
    bindr (i64_get m (Get_rs inst)) (\<lambda>x.
    bindr (i64_get m (Get_rt inst)) (\<lambda>y.
    i64_set (Get_rd inst) (x AND y) m))"

definition Or_i32_am64_r_r_r :: "am_expand \<Rightarrow> uwasm_machine \<Rightarrow> uwasm_machine res" where [handler_defs]:
  "Or_i32_am64_r_r_r inst m =
    bindr (i32_get m (Get_rs inst)) (\<lambda>x.
    bindr (i32_get m (Get_rt inst)) (\<lambda>y.
    i32_set (Get_rd inst) (x OR y) m))"

definition Or_i64_am64_r_r_r :: "am_expand \<Rightarrow> uwasm_machine \<Rightarrow> uwasm_machine res" where [handler_defs]:
  "Or_i64_am64_r_r_r inst m =
    bindr (i64_get m (Get_rs inst)) (\<lambda>x.
    bindr (i64_get m (Get_rt inst)) (\<lambda>y.
    i64_set (Get_rd inst) (x OR y) m))"

definition Xor_i32_am64_r_r_r :: "am_expand \<Rightarrow> uwasm_machine \<Rightarrow> uwasm_machine res" where [handler_defs]:
  "Xor_i32_am64_r_r_r inst m =
    bindr (i32_get m (Get_rs inst)) (\<lambda>x.
    bindr (i32_get m (Get_rt inst)) (\<lambda>y.
    i32_set (Get_rd inst) (x XOR y) m))"

definition Xor_i64_am64_r_r_r :: "am_expand \<Rightarrow> uwasm_machine \<Rightarrow> uwasm_machine res" where [handler_defs]:
  "Xor_i64_am64_r_r_r inst m =
    bindr (i64_get m (Get_rs inst)) (\<lambda>x.
    bindr (i64_get m (Get_rt inst)) (\<lambda>y.
    i64_set (Get_rd inst) (x XOR y) m))"

definition Shl_i32_am64_r_r_r :: "am_expand \<Rightarrow> uwasm_machine \<Rightarrow> uwasm_machine res" where [handler_defs]:
  "Shl_i32_am64_r_r_r inst m =
    bindr (i32_get m (Get_rs inst)) (\<lambda>x.
    bindr (i32_get m (Get_rt inst)) (\<lambda>y.
    bindr (shl x y) (\<lambda>v.
    i32_set (Get_rd inst) v m)))"

definition Shl_i64_am64_r_r_r :: "am_expand \<Rightarrow> uwasm_machine \<Rightarrow> uwasm_machine res" where [handler_defs]:
  "Shl_i64_am64_r_r_r inst m =
    bindr (i64_get m (Get_rs inst)) (\<lambda>x.
    bindr (i32_get m (Get_rt inst)) (\<lambda>y.
    bindr (shl x y) (\<lambda>v.
    i64_set (Get_rd inst) v m)))"

definition Shr_i32_am64_r_r_r :: "am_expand \<Rightarrow> uwasm_machine \<Rightarrow> uwasm_machine res" where [handler_defs]:
  "Shr_i32_am64_r_r_r inst m =
    bindr (i32_get m (Get_rs inst)) (\<lambda>x.
    bindr (i32_get m (Get_rt inst)) (\<lambda>y.
    bindr (shr_s x y) (\<lambda>v.
    i32_set (Get_rd inst) v m)))"

definition Shr_i64_am64_r_r_r :: "am_expand \<Rightarrow> uwasm_machine \<Rightarrow> uwasm_machine res" where [handler_defs]:
  "Shr_i64_am64_r_r_r inst m =
    bindr (i64_get m (Get_rs inst)) (\<lambda>x.
    bindr (i32_get m (Get_rt inst)) (\<lambda>y.
    bindr (shr_s x y) (\<lambda>v.
    i64_set (Get_rd inst) v m)))"

definition Shr_u_i32_am64_r_r_r :: "am_expand \<Rightarrow> uwasm_machine \<Rightarrow> uwasm_machine res" where [handler_defs]:
  "Shr_u_i32_am64_r_r_r inst m =
    bindr (i32_get m (Get_rs inst)) (\<lambda>x.
    bindr (i32_get m (Get_rt inst)) (\<lambda>y.
    bindr (shr_u x y) (\<lambda>v.
    i32_set (Get_rd inst) v m)))"

definition Shr_u_i64_am64_r_r_r :: "am_expand \<Rightarrow> uwasm_machine \<Rightarrow> uwasm_machine res" where [handler_defs]:
  "Shr_u_i64_am64_r_r_r inst m =
    bindr (i64_get m (Get_rs inst)) (\<lambda>x.
    bindr (i32_get m (Get_rt inst)) (\<lambda>y.
    bindr (shr_u x y) (\<lambda>v.
    i64_set (Get_rd inst) v m)))"

definition Min_f32_am64_r_r_r :: "host \<Rightarrow> am_expand \<Rightarrow> uwasm_machine \<Rightarrow> uwasm_machine res" where [handler_defs]:
  "Min_f32_am64_r_r_r H inst m =
    bindr (f32_get m (Get_rs inst)) (\<lambda>x.
    bindr (i32_get m (Get_rs inst)) (\<lambda>y.
    f32_set (Get_rd inst)
      (f64_to_f32 (h_fpu H) (f64_fmin (h_fpu H) (f32_to_f64 (h_fpu H) x) (f64_of_int (h_fpu H) (sint y)))) m))"

definition Min_f64_am64_r_r_r :: "host \<Rightarrow> am_expand \<Rightarrow> uwasm_machine \<Rightarrow> uwasm_machine res" where [handler_defs]:
  "Min_f64_am64_r_r_r H inst m =
    bindr (f64_get m (Get_rs inst)) (\<lambda>x.
    bindr (i32_get m (Get_rs inst)) (\<lambda>y.
    f64_set (Get_rd inst) (f64_fmin (h_fpu H) x (f64_of_int (h_fpu H) (sint y))) m))"

definition Max_f32_am64_r_r_r :: "host \<Rightarrow> am_expand \<Rightarrow> uwasm_machine \<Rightarrow> uwasm_machine res" where [handler_defs]:
  "Max_f32_am64_r_r_r H inst m =
    bindr (f32_get m (Get_rs inst)) (\<lambda>x.
    bindr (i32_get m (Get_rs inst)) (\<lambda>y.
    f32_set (Get_rd inst)
      (f64_to_f32 (h_fpu H) (f64_fmax (h_fpu H) (f32_to_f64 (h_fpu H) x) (f64_of_int (h_fpu H) (sint y)))) m))"

definition Max_f64_am64_r_r_r :: "host \<Rightarrow> am_expand \<Rightarrow> uwasm_machine \<Rightarrow> uwasm_machine res" where [handler_defs]:
  "Max_f64_am64_r_r_r H inst m =
    bindr (f64_get m (Get_rs inst)) (\<lambda>x.
    bindr (i32_get m (Get_rs inst)) (\<lambda>y.
    f64_set (Get_rd inst) (f64_fmax (h_fpu H) x (f64_of_int (h_fpu H) (sint y))) m))"

definition Llda_i32_am64_r_ofs :: "am_expand \<Rightarrow> uwasm_machine \<Rightarrow> uwasm_machine res" where [handler_defs]:
  "Llda_i32_am64_r_ofs inst m =
    Llda_i32_am32_r_ofs inst m"

definition Llda_i64_am64_r_ofs :: "am_expand \<Rightarrow> uwasm_machine \<Rightarrow> uwasm_machine res" where [handler_defs]:
  "Llda_i64_am64_r_ofs inst m =
    Llda_i32_am64_r_ofs inst m"

definition Builtin_i32_am64_r_r_imm :: "host \<Rightarrow> am_expand \<Rightarrow> uwasm_machine \<Rightarrow> uwasm_machine res" where [handler_defs]:
  "Builtin_i32_am64_r_r_imm H inst m =
    (let builtin_code = ucast (Get_imm inst) :: u16 in
    if builtin_code = UBT_I32WRAPI64 then
      bindr (i64_get m (Get_rs inst)) (\<lambda>x. i32_set (Get_rd inst) (ucast x) m)
    else if builtin_code = UBT_I32TRUNCF64U then
      bindr (f64_get m (Get_rs inst)) (\<lambda>x.
      bindr (to_u32 (f64_trunc (h_fpu H) x)) (\<lambda>v. i32_set (Get_rd inst) v m))
    else if builtin_code = UBT_I32TRUNCF64S then
      bindr (f64_get m (Get_rs inst)) (\<lambda>x.
      bindr (to_i32 (f64_trunc (h_fpu H) x)) (\<lambda>v. i32_set (Get_rd inst) v m))
    else if builtin_code = UBT_I32REINTEPRETF32 then
      bindr (f32_get m (Get_rs inst)) (\<lambda>n. i32_set (Get_rd inst) n m)
    else Inl Assertion)"

definition Builtin_i64_am64_r_r_imm :: "am_expand \<Rightarrow> uwasm_machine \<Rightarrow> uwasm_machine res" where [handler_defs]:
  "Builtin_i64_am64_r_r_imm inst m =
    (let builtin_code = ucast (Get_imm inst) :: u16 in
    if builtin_code = UBT_I64EXTEND32S then
      bindr (i32_get m (Get_rs inst)) (\<lambda>x. i64_set (Get_rd inst) (scast x) m)
    else if builtin_code = UBT_I64EXTEND32U then
      bindr (i32_get m (Get_rs inst)) (\<lambda>x. i64_set (Get_rd inst) (ucast x) m)
    else if builtin_code = UBT_I64REINTEPRETF64 then
      bindr (f64_get m (Get_rs inst)) (\<lambda>n. i64_set (Get_rd inst) n m)
    else Inl Assertion)"

definition Builtin_f32_am64_r_r_imm :: "am_expand \<Rightarrow> uwasm_machine \<Rightarrow> uwasm_machine res" where [handler_defs]:
  "Builtin_f32_am64_r_r_imm inst m =
    (let builtin_code = ucast (Get_imm inst) :: u16 in
    if builtin_code = UBT_F32REINTEPRETI32 then
      bindr (i32_get m (Get_rs inst)) (\<lambda>n. f32_set (Get_rd inst) n m)
    else Inl Assertion)"

definition Builtin_f64_am64_r_r_imm :: "host \<Rightarrow> am_expand \<Rightarrow> uwasm_machine \<Rightarrow> uwasm_machine res" where [handler_defs]:
  "Builtin_f64_am64_r_r_imm H inst m =
    (let builtin_code = ucast (Get_imm inst) :: u16 in
    if builtin_code = UBT_F64CVTI32S then
      bindr (i32_get m (Get_rs inst)) (\<lambda>x. f64_set (Get_rd inst) (f64_of_int (h_fpu H) (sint x)) m)
    else if builtin_code = UBT_F64CVTI32U then
      bindr (i32_get m (Get_rs inst)) (\<lambda>x. f64_set (Get_rd inst) (f64_of_int (h_fpu H) (uint x)) m)
    else if builtin_code = UBT_F64REINTEPRETI64 then
      bindr (i64_get m (Get_rs inst)) (\<lambda>n. f64_set (Get_rd inst) n m)
    else if builtin_code = UBT_F64ABS then
      bindr (f64_get m (Get_rs inst)) (\<lambda>n. f64_set (Get_rd inst) (f64_abs n) m)
    else Inl Assertion)"

definition Memorysize_am32_r :: "am_expand \<Rightarrow> uwasm_machine \<Rightarrow> uwasm_machine res" where [handler_defs]:
  "Memorysize_am32_r inst m =
    Is_True (mem_size m mod MEM_PAGE_SIZE = 0)
      (i32_set (Get_rd inst) (mem_size m div MEM_PAGE_SIZE) m)"

definition Memorygrow_am32_r_r :: "host \<Rightarrow> am_expand \<Rightarrow> uwasm_machine \<Rightarrow> uwasm_machine res" where [handler_defs]:
  "Memorygrow_am32_r_r H inst m =
    Is_True (mem_size m mod MEM_PAGE_SIZE = 0) (
    bindr (i32_get m (Get_rs inst)) (\<lambda>pages_cnt.
    Is_True (pages_cnt < UINT32_MAX div MEM_PAGE_SIZE) (
    let pages_cnt = pages_cnt + mem_size m div MEM_PAGE_SIZE in
    Is_True (pages_cnt < UINT32_MAX div MEM_PAGE_SIZE) (
    bindr (Grow_memory H (pages_cnt * MEM_PAGE_SIZE) m) (\<lambda>(result, m).
    i32_set (Get_rd inst) result m)))))"

definition Select_i32_am64_r_r_ofs :: "am_expand \<Rightarrow> uwasm_machine \<Rightarrow> uwasm_machine res" where [handler_defs]:
  "Select_i32_am64_r_r_ofs inst m =
    Inl Assertion"

definition Select_i64_am64_r_r_ofs :: "am_expand \<Rightarrow> uwasm_machine \<Rightarrow> uwasm_machine res" where [handler_defs]:
  "Select_i64_am64_r_r_ofs inst m =
    Inl Assertion"

definition Select_f32_am64_r_r_ofs :: "am_expand \<Rightarrow> uwasm_machine \<Rightarrow> uwasm_machine res" where [handler_defs]:
  "Select_f32_am64_r_r_ofs inst m =
    Inl Assertion"

definition Select_f64_am64_r_r_ofs :: "am_expand \<Rightarrow> uwasm_machine \<Rightarrow> uwasm_machine res" where [handler_defs]:
  "Select_f64_am64_r_r_ofs inst m =
    Inl Assertion"

end
