(* ===== verification/Exec_Debug.thy ===== *)
theory Exec_Debug
  imports Machine
begin

text \<open>
  The debugger's state (\<^verbatim>\<open>src/interpreter/exec_debug.h\<close>, \<^verbatim>\<open>src/interpreter/exec_debug.cxx\<close>): breakpoints, watchpoints and the frame being
  inspected.  What is printed is left out; the lookups that printing makes, which can fail, are kept.
\<close>

section \<open>State\<close>

record uwasm_bp =
  bp_id :: u32
  bp_func_id :: u32
  bp_pc :: u32
  bp_stack_tos :: u32
  bp_inst_pc :: "nat option"

record uwasm_wp =
  wp_id :: u32
  wp_ofst :: u32
  wp_addr :: address

text \<open>\<open>db_machine\<close> says whether \<^verbatim>\<open>Init\<close> has set the machine.\<close>

record uwasm_debug =
  db_breakpoints :: "uwasm_bp list"
  db_breakpoints_cache :: "nat option list"
  db_watchpoints :: "uwasm_wp list"
  db_watchpoints_cache :: "u32 list"
  db_machine :: bool
  db_cur_pc :: "nat option"
  db_frame :: "exec_context option"
  db_frame_id :: u32
  db_bp_count :: u32
  db_wp_count :: u32

definition UWASM_DEBUG :: uwasm_debug where
  "UWASM_DEBUG = \<lparr>db_breakpoints = [], db_breakpoints_cache = [], db_watchpoints = [], db_watchpoints_cache = [], db_machine = False,
    db_cur_pc = None, db_frame = None, db_frame_id = 0, db_bp_count = 0, db_wp_count = 0\<rparr>"

text \<open>\<^verbatim>\<open>UWASM_DEBUG::Init\<close>.\<close>

definition dbg_Init :: "uwasm_debug \<Rightarrow> uwasm_debug" where
  "dbg_Init d = d\<lparr>db_machine := True\<rparr>"

definition Add_breakpoint :: "u32 \<Rightarrow> u32 \<Rightarrow> nat option \<Rightarrow> u32 \<Rightarrow> uwasm_debug \<Rightarrow> uwasm_debug res" where
  "Add_breakpoint func_id ubh_pc inst_pc stack_tos d =
    Is_True (db_machine d) (Inr (d\<lparr>
      db_breakpoints := db_breakpoints d @
        [\<lparr>bp_id = db_bp_count d, bp_func_id = func_id, bp_pc = ubh_pc, bp_stack_tos = stack_tos, bp_inst_pc = inst_pc\<rparr>],
      db_breakpoints_cache := List.insert inst_pc (db_breakpoints_cache d), db_bp_count := db_bp_count d + 1\<rparr>))"

definition Add_watchpoint :: "u32 \<Rightarrow> address \<Rightarrow> uwasm_debug \<Rightarrow> uwasm_debug res" where
  "Add_watchpoint ofst memofst d =
    Is_True (db_machine d) (Inr (d\<lparr>
      db_watchpoints := db_watchpoints d @ [\<lparr>wp_id = db_wp_count d, wp_ofst = ofst, wp_addr = memofst\<rparr>],
      db_watchpoints_cache := List.insert ofst (db_watchpoints_cache d), db_wp_count := db_wp_count d + 1\<rparr>))"

definition Is_ofst_watched :: "u32 \<Rightarrow> uwasm_debug \<Rightarrow> bool" where
  "Is_ofst_watched ofst d = (ofst \<in> set (db_watchpoints_cache d))"

definition Is_inst_breakable :: "nat option \<Rightarrow> uwasm_debug \<Rightarrow> bool" where
  "Is_inst_breakable instr d = (instr \<in> set (db_breakpoints_cache d))"

definition Is_valid_breakpoint :: "nat option \<Rightarrow> uwasm_debug \<Rightarrow> bool" where
  "Is_valid_breakpoint exp d = True"

section \<open>Frames\<close>

text \<open>
  The lookups of \<^verbatim>\<open>Print_one_frame\<close>.  It prints the frame the debugger has selected: its parameter \<^verbatim>\<open>ctx\<close> is not used.
\<close>

definition Print_one_frame :: "uwasm_machine \<Rightarrow> uwasm_debug \<Rightarrow> (u32 \<times> pc_info) res" where
  "Print_one_frame m d =
    (case db_frame d of None \<Rightarrow> Inl Out_of_block
     | Some frame \<Rightarrow>
       bindr (case x_pc frame of None \<Rightarrow> Inl Assertion | Some exp \<Rightarrow> Map_to_ubh_pc (module m) exp) (\<lambda>info.
       bindr (Get_func (module m) (unat (x_func_idx frame))) (\<lambda>func. Inr (x_func_idx frame, info))))"

text \<open>\<^verbatim>\<open>TopIdx\<close> and \<^verbatim>\<open>Capacity\<close> are unsigned; the empty stack has the top index -1.\<close>

definition TopIdx :: "uwasm_machine \<Rightarrow> u32" where
  "TopIdx m = word_of_int (cs_top (ctx_stack m))"

definition saved_context :: "uwasm_machine \<Rightarrow> int \<Rightarrow> exec_context res" where
  "saved_context m target =
    (if 0 \<le> target \<and> target < int (cs_size (ctx_stack m)) then Inr (cs_vec (ctx_stack m) (nat target)) else Inl Out_of_range)"

definition Change_current_frame :: "uwasm_machine \<Rightarrow> u32 \<Rightarrow> uwasm_debug \<Rightarrow> uwasm_debug res" where
  "Change_current_frame m fr d =
    Is_True (db_machine d) (
    if fr = 0
    then let d = d\<lparr>db_frame := Some (current m), db_frame_id := 0\<rparr> in bindr (Print_one_frame m d) (\<lambda>_. Inr d)
    else if TopIdx m < fr
    then Is_True (fr < word_of_int (cs_capacity (ctx_stack m))) (Inr d)
    else let target = sint (TopIdx m - fr) in
      Is_True (0 \<le> target \<and> word_of_int target \<le> TopIdx m) (
      bindr (saved_context m target) (\<lambda>frame.
      let d = d\<lparr>db_frame := Some frame, db_frame_id := fr\<rparr> in bindr (Print_one_frame m d) (\<lambda>_. Inr d))))"

text \<open>The lines of the backtrace.\<close>

definition Print_callstack :: "uwasm_machine \<Rightarrow> uwasm_debug \<Rightarrow> (u32 \<times> pc_info) list res" where
  "Print_callstack m d =
    bindr (Print_one_frame m d) (\<lambda>line0.
    bindr (mapr (\<lambda>i. let target = sint (TopIdx m - of_nat i) in
        Is_True (0 \<le> target \<and> word_of_int target \<le> TopIdx m) (
        bindr (saved_context m target) (\<lambda>ctx. Print_one_frame m d))) [1..<unat (TopIdx m) + 1]) (\<lambda>lines.
    Inr (line0 # lines)))"

definition On_breakpoint :: "uwasm_machine \<Rightarrow> nat option \<Rightarrow> uwasm_debug \<Rightarrow> (uwasm_debug \<times> uwasm_bp option) res" where
  "On_breakpoint m exp d =
    (if \<not> Is_inst_breakable exp d then Inr (d, None)
     else let cur_bps = (if \<exists>b \<in> set (db_breakpoints d). bp_inst_pc b = exp
            then length (takeWhile (\<lambda>b. bp_inst_pc b \<noteq> exp) (db_breakpoints d)) else 0) in
       bindr (Change_current_frame m 0 d) (\<lambda>d.
       let d = d\<lparr>db_cur_pc := exp\<rparr> in
       bindr (vec_at (db_breakpoints d) cur_bps) (\<lambda>bp. Inr (d, Some bp))))"

definition Load_file_and_module :: "uwasm_debug \<Rightarrow> uwasm_debug" where
  "Load_file_and_module d = d\<lparr>db_frame := None, db_frame_id := 0, db_cur_pc := None\<rparr>"

text \<open>The condition under which the loops of the interpreter stop at an instruction.\<close>

definition stops_at :: "nat option \<Rightarrow> uwasm_debug \<Rightarrow> bool" where
  "stops_at inst d \<longleftrightarrow> db_bp_count d \<noteq> 0 \<and> Is_inst_breakable inst d \<and> Is_valid_breakpoint inst d"

lemma stops_at_cong [simp]:
  "stops_at i (dbg_Init d) = stops_at i d" "stops_at i (d\<lparr>db_frame := f, db_frame_id := n\<rparr>) = stops_at i d"
  "stops_at i (d\<lparr>db_cur_pc := p\<rparr>) = stops_at i d"
  by (simp_all add: stops_at_def dbg_Init_def Is_inst_breakable_def Is_valid_breakpoint_def)

lemma dbg_Init_idem: "db_machine d \<Longrightarrow> dbg_Init d = d"
  by (simp add: dbg_Init_def)

text \<open>What the debugger records at a breakpoint, and that recording it again changes nothing.\<close>

lemma On_breakpoint_stopped:
  assumes "On_breakpoint m i d = Inr (d', bp)" and "stops_at i d" and "db_machine d"
  shows "d' = d\<lparr>db_frame := Some (current m), db_frame_id := 0, db_cur_pc := i\<rparr>" and "On_breakpoint m i d' = Inr (d', bp)"
proof -
  have b: "Is_inst_breakable i d" using assms(2) by (simp add: stops_at_def)
  obtain r where pr: "Print_one_frame m (d\<lparr>db_frame := Some (current m), db_frame_id := 0\<rparr>) = Inr r"
    and d': "d' = d\<lparr>db_frame := Some (current m), db_frame_id := 0, db_cur_pc := i\<rparr>"
    using assms b by (auto simp: On_breakpoint_def Change_current_frame_def Is_True_def Let_def split: if_splits)
  show "d' = d\<lparr>db_frame := Some (current m), db_frame_id := 0, db_cur_pc := i\<rparr>" by (rule d')
  have "Print_one_frame m (d'\<lparr>db_frame := Some (current m), db_frame_id := 0\<rparr>) = Inr r"
    using pr by (simp add: d' Print_one_frame_def)
  then show "On_breakpoint m i d' = Inr (d', bp)"
    using assms b d' by (auto simp: On_breakpoint_def Change_current_frame_def Is_True_def Let_def Is_inst_breakable_def split: if_splits)
qed

end
