(* ===== verification/Exec.thy ===== *)
theory Exec
  imports Exec_Ops_64 Exec_Debug
begin

text \<open>
  The instruction dispatch \<^verbatim>\<open>src/interpreter/exec_unit_op.def\<close> and the interpreter loops
  \<^verbatim>\<open>Exec_start\<close> and \<^verbatim>\<open>Control_start\<close> of \<^verbatim>\<open>src/interpreter/exec_unit.cxx\<close>, without tracing and
  profiling.  One iteration without the test for breakpoints is a function \<open>exec_step\<close>, iterated as a relation and with
  fuel; the loops add the test and the debugger's state.  The lemmas relate them.
\<close>

section \<open>Dispatch\<close>

text \<open>
  What the \<^verbatim>\<open>switch\<close> does for an opcode: leave the loop, run a handler and go on with the
  next iteration (\<^verbatim>\<open>continue\<close>), run a handler and advance the program counter (\<^verbatim>\<open>break\<close>),
  or fail in the default case.
\<close>

type_synonym handler = "host \<Rightarrow> nat \<Rightarrow> am_expand \<Rightarrow> uwasm_machine \<Rightarrow> uwasm_machine res"

datatype action = Exec_end | Cont handler | Brk handler | Unimpl

definition op :: "(am_expand \<Rightarrow> uwasm_machine \<Rightarrow> uwasm_machine res) \<Rightarrow> handler" where
  "op f = (\<lambda>H p inst m. f inst m)"

definition op_h :: "(host \<Rightarrow> am_expand \<Rightarrow> uwasm_machine \<Rightarrow> uwasm_machine res) \<Rightarrow> handler" where
  "op_h f = (\<lambda>H p inst m. f H inst m)"

definition op_p :: "(nat \<Rightarrow> am_expand \<Rightarrow> uwasm_machine \<Rightarrow> uwasm_machine res) \<Rightarrow> handler" where
  "op_p f = (\<lambda>H p inst m. f p inst m)"

definition op_rows_00 :: "action list list" where
  "op_rows_00 =
    [replicate 4 (Brk (op Nop_am32)),
     replicate 4 (Brk (op Unreach_am32)),
     replicate 4 (Brk (op Return_am32)),
     replicate 4 (Cont (op_h Call_am32_ofs)),
     replicate 4 (Cont (op Jmp_am32_ofs)),
     replicate 4 (Cont Call_indirect_am32_r),
     replicate 4 (Cont (op_p Jmp_indirect_am32_r)),
     replicate 4 (Brk (op Memorysize_am32_r)),
     replicate 4 (Brk (op_h Memorygrow_am32_r_r)),
     [Brk (op Add_i32_am32_r_imm), Brk (op Add_i64_am32_r_imm), Unimpl, Unimpl],
     [Cont (op Jez_i32_am32_r_ofs), Cont (op Jez_i64_am32_r_ofs), Cont (op Jez_f32_am32_r_ofs), Cont (op Jez_f64_am32_r_ofs)],
     [Cont (op Jnz_i32_am32_r_ofs), Cont (op Jnz_i64_am32_r_ofs), Cont (op Jnz_f32_am32_r_ofs), Cont (op Jnz_f64_am32_r_ofs)],
     [Cont (op Jlz_i32_am32_r_ofs), Cont (op Jlz_i64_am32_r_ofs), Cont (op Jlz_f32_am32_r_ofs), Cont (op Jlz_f64_am32_r_ofs)],
     [Cont (op Jlez_i32_am32_r_ofs), Cont (op Jlez_i64_am32_r_ofs), Cont (op Jlez_f32_am32_r_ofs), Cont (op Jlez_f64_am32_r_ofs)],
     [Cont (op Jgz_i32_am32_r_ofs), Cont (op Jgz_i64_am32_r_ofs), Cont (op Jgz_f32_am32_r_ofs), Cont (op Jgz_f64_am32_r_ofs)],
     [Cont (op Jgez_i32_am32_r_ofs), Cont (op Jgez_i64_am32_r_ofs), Cont (op Jgez_f32_am32_r_ofs), Cont (op Jgez_f64_am32_r_ofs)],
     [Brk (op Llda_i32_am32_r_ofs), Brk (op Llda_i64_am32_r_ofs), Unimpl, Unimpl],
     [Brk (op Glda_i32_am32_r_ofs), Brk (op Glda_i64_am32_r_ofs), Unimpl, Unimpl],
     [Brk (op Mov_i32_am32_r_r), Brk (op Mov_i64_am32_r_r), Brk (op Mov_f32_am32_r_r), Brk (op Mov_f64_am32_r_r)],
     [Brk (op Add_i32_am32_r_r), Brk (op Add_i64_am32_r_r), Brk (op_h Add_f32_am32_r_r), Brk (op_h Add_f64_am32_r_r)],
     [Brk (op Const_i32_am32_r_imm), Brk (op Const_i64_am32_r_imm), Unimpl, Unimpl],
     [Brk (op Add_i32_am32s_r_r_imm), Brk (op Add_i64_am32s_r_r_imm), Unimpl, Unimpl],
     [Cont (op Jeq_i32_am32s_r_r_ofs), Cont (op Jeq_i64_am32s_r_r_ofs), Cont (op Jeq_f32_am32s_r_r_ofs), Cont (op Jeq_f64_am32s_r_r_ofs)],
     [Cont (op Jne_i32_am32s_r_r_ofs), Cont (op Jne_i64_am32s_r_r_ofs), Cont (op Jne_f32_am32s_r_r_ofs), Cont (op Jne_f64_am32s_r_r_ofs)],
     [Cont (op Jlt_i32_am32s_r_r_ofs), Cont (op Jlt_i64_am32s_r_r_ofs), Cont (op Jlt_f32_am32s_r_r_ofs), Cont (op Jlt_f64_am32s_r_r_ofs)],
     [Cont (op Jle_i32_am32s_r_r_ofs), Cont (op Jle_i64_am32s_r_r_ofs), Cont (op Jle_f32_am32s_r_r_ofs), Cont (op Jle_f64_am32s_r_r_ofs)],
     [Cont (op Jgt_i32_am32s_r_r_ofs), Cont (op Jgt_i64_am32s_r_r_ofs), Cont (op Jgt_f32_am32s_r_r_ofs), Cont (op Jgt_f64_am32s_r_r_ofs)],
     [Cont (op Jge_i32_am32s_r_r_ofs), Cont (op Jge_i64_am32s_r_r_ofs), Cont (op Jge_f32_am32s_r_r_ofs), Cont (op Jge_f64_am32s_r_r_ofs)],
     [Cont (op Jlt_u_i32_am32s_r_r_ofs), Cont (op Jlt_u_i64_am32s_r_r_ofs), Unimpl, Unimpl],
     [Cont (op Jle_u_i32_am32s_r_r_ofs), Cont (op Jle_u_i64_am32s_r_r_ofs), Unimpl, Unimpl],
     [Cont (op Jgt_u_i32_am32s_r_r_ofs), Cont (op Jgt_u_i64_am32s_r_r_ofs), Unimpl, Unimpl],
     [Cont (op Jge_u_i32_am32s_r_r_ofs), Cont (op Jge_u_i64_am32s_r_r_ofs), Unimpl, Unimpl]]"

definition op_rows_20 :: "action list list" where
  "op_rows_20 =
    [[Brk (op Load_i32_am32s_r_r_imm), Brk (op Load_i64_am32s_r_r_imm), Brk (op Load_f32_am32s_r_r_imm), Brk (op Load_f64_am32s_r_r_imm)],
     [Brk (op Load8_i32_am32s_r_r_imm), Brk (op Load8_i64_am32s_r_r_imm), Unimpl, Unimpl],
     [Brk (op Load8_u_i32_am32s_r_r_imm), Brk (op Load8_u_i64_am32s_r_r_imm), Unimpl, Unimpl],
     [Brk (op Load16_i32_am32s_r_r_imm), Brk (op Load16_i64_am32s_r_r_imm), Unimpl, Unimpl],
     [Brk (op Load16_u_i32_am32s_r_r_imm), Brk (op Load16_u_i64_am32s_r_r_imm), Unimpl, Unimpl],
     [Unimpl, Brk (op Load32_i64_am32s_r_r_imm), Unimpl, Unimpl],
     [Unimpl, Brk (op Load32_u_i64_am32s_r_r_imm), Unimpl, Unimpl],
     [Brk (op Store_i32_am32s_r_r_imm), Brk (op Store_i64_am32s_r_r_imm), Brk (op Store_f32_am32s_r_r_imm), Brk (op Store_f64_am32s_r_r_imm)],
     [Brk (op Store8_i32_am32s_r_r_imm), Brk (op Store8_i64_am32s_r_r_imm), Unimpl, Unimpl],
     [Brk (op Store16_i32_am32s_r_r_imm), Brk (op Store16_i64_am32s_r_r_imm), Unimpl, Unimpl],
     [Unimpl, Brk (op Store32_i64_am32s_r_r_imm), Unimpl, Unimpl],
     [Brk (op Lload_i32_am32_r_imm), Brk (op Lload_i64_am32_r_imm), Brk (op Lload_f32_am32_r_imm), Brk (op Lload_f64_am32_r_imm)],
     [Brk (op Lload8_i32_am32_r_imm), Brk (op Lload8_i64_am32_r_imm), Unimpl, Unimpl],
     [Brk (op Lload8_u_i32_am32_r_imm), Brk (op Lload8_u_i64_am32_r_imm), Unimpl, Unimpl],
     [Brk (op Lload16_i32_am32_r_imm), Brk (op Lload16_i64_am32_r_imm), Unimpl, Unimpl],
     [Brk (op Lload16_u_i32_am32_r_imm), Brk (op Lload16_u_i64_am32_r_imm), Unimpl, Unimpl],
     [Unimpl, Brk (op Lload32_i64_am32_r_imm), Unimpl, Unimpl],
     [Unimpl, Brk (op Lload32_u_i64_am32_r_imm), Unimpl, Unimpl],
     [Brk (op Lstore_i32_am32_r_imm), Brk (op Lstore_i64_am32_r_imm), Brk (op Lstore_f32_am32_r_imm), Brk (op Lstore_f64_am32_r_imm)],
     [Brk (op Lstore8_i32_am32_r_imm), Brk (op Lstore8_i64_am32_r_imm), Unimpl, Unimpl],
     [Brk (op Lstore16_i32_am32_r_imm), Brk (op Lstore16_i64_am32_r_imm), Unimpl, Unimpl],
     [Unimpl, Brk (op Lstore32_i64_am32_r_imm), Unimpl, Unimpl]]"

definition op_rows_36 :: "action list list" where
  "op_rows_36 =
    [[Brk (op Add_i32_am32s_r_r_r), Brk (op Add_i64_am32s_r_r_r), Brk (op_h Add_f32_am32s_r_r_r), Brk (op_h Add_f64_am32s_r_r_r)],
     [Brk (op Sub_i32_am32s_r_r_r), Brk (op Sub_i64_am32s_r_r_r), Brk (op_h Sub_f32_am32s_r_r_r), Brk (op_h Sub_f64_am32s_r_r_r)],
     [Brk (op Rotl_i32_am32s_r_r_r), Brk (op Rotl_i64_am32s_r_r_r), Unimpl, Unimpl],
     [Brk (op Rotr_i32_am32s_r_r_r), Brk (op Rotr_i64_am32s_r_r_r), Unimpl, Unimpl],
     [Unimpl, Brk (op Conv_i32_i64_am32_r_r), Brk (op_h Conv_i32_f32_am32_r_r), Brk (op_h Conv_i32_f64_am32_r_r)],
     [Unimpl, Brk (op Conv_i32_u_i64_am32_r_r), Unimpl, Unimpl],
     [Brk (op Conv_i64_i32_am32_r_r), Unimpl, Brk (op_h Conv_i64_f32_am32_r_r), Brk (op_h Conv_i64_f64_am32_r_r)],
     [Brk (op_h Conv_f32_i32_am32_r_r), Brk (op_h Conv_f32_i64_am32_r_r), Unimpl, Brk (op_h Conv_f32_f64_am32_r_r)],
     [Brk (op_h Conv_f64_i32_am32_r_r), Brk (op_h Conv_f64_i64_am32_r_r), Brk (op_h Conv_f64_f32_am32_r_r), Unimpl],
     [Brk (op Eqz_i32_am32_r_r), Brk (op Eqz_i64_am32_r_r), Brk (op Eqz_f32_am32_r_r), Brk (op Eqz_f64_am32_r_r)],
     [Unimpl, Unimpl, Brk (op_h Ceil_f32_am32_r_r), Brk (op_h Ceil_f64_am32_r_r)],
     [Unimpl, Unimpl, Brk (op_h Floor_f32_am32_r_r), Brk (op_h Floor_f64_am32_r_r)],
     [Unimpl, Unimpl, Brk (op_h Sqrt_f32_am32_r_r), Brk (op_h Sqrt_f64_am32_r_r)],
     [Unimpl, Unimpl, Brk (op_h Neg_f32_am32_r_r), Brk (op_h Neg_f64_am32_r_r)],
     [Brk (op Reintr_f32_i32_am32_r_r), Unimpl, Unimpl, Unimpl],
     [Unimpl, Brk (op Reintr_f64_i64_am32_r_r), Unimpl, Unimpl],
     [Unimpl, Unimpl, Brk (op Reintr_i32_f32_am32_r_r), Unimpl],
     [Unimpl, Unimpl, Unimpl, Brk (op Reintr_i64_f64_am32_r_r)],
     replicate 4 Exec_end]"

definition op_rows_49 :: "action list list" where
  "op_rows_49 = replicate 55 (replicate 4 Unimpl)"

definition op_rows_80 :: "action list list" where
  "op_rows_80 =
    [[Brk (op Const_l_i32_am64_r_imm), Brk (op Const_l_i64_am64_r_imm), Brk (op Const_l_f32_am64_r_imm), Brk (op Const_l_f64_am64_r_imm)],
     [Unimpl, Brk (op Const_l_high_i64_am64_r_imm), Unimpl, Brk (op Const_l_high_f64_am64_r_imm)],
     [Brk (op Ctz_i32_am64_r_ofs), Brk (op Ctz_i64_am64_r_ofs), Unimpl, Unimpl],
     [Brk (op Popcnt_i32_am64_r_ofs), Brk (op Popcnt_i64_am64_r_ofs), Unimpl, Unimpl],
     [Brk (op Add_i32_am64_r_r_imm), Brk (op Add_i64_am64_r_r_imm), Unimpl, Unimpl],
     [Cont (op Jeq_i32_am64_r_r_ofs), Cont (op Jeq_i64_am64_r_r_ofs), Cont (op Jeq_f32_am64_r_r_ofs), Cont (op Jeq_f64_am64_r_r_ofs)],
     [Cont (op Jne_i32_am64_r_r_ofs), Cont (op Jne_i64_am64_r_r_ofs), Cont (op Jne_f32_am64_r_r_ofs), Cont (op Jne_f64_am64_r_r_ofs)],
     [Cont (op Jlt_i32_am64_r_r_ofs), Cont (op Jlt_i64_am64_r_r_ofs), Cont (op Jlt_f32_am64_r_r_ofs), Cont (op Jlt_f64_am64_r_r_ofs)],
     [Cont (op Jle_i32_am64_r_r_ofs), Cont (op Jle_i64_am64_r_r_ofs), Cont (op Jle_f32_am64_r_r_ofs), Cont (op Jle_f64_am64_r_r_ofs)],
     [Cont (op Jgt_i32_am64_r_r_ofs), Cont (op Jgt_i64_am64_r_r_ofs), Cont (op Jgt_f32_am64_r_r_ofs), Cont (op Jgt_f64_am64_r_r_ofs)],
     [Cont (op Jge_i32_am64_r_r_ofs), Cont (op Jge_i64_am64_r_r_ofs), Cont (op Jge_f32_am64_r_r_ofs), Cont (op Jge_f64_am64_r_r_ofs)],
     [Cont (op Jlt_u_i32_am64_r_r_ofs), Cont (op Jlt_u_i64_am64_r_r_ofs), Unimpl, Unimpl],
     [Cont (op Jle_u_i32_am64_r_r_ofs), Cont (op Jle_u_i64_am64_r_r_ofs), Unimpl, Unimpl],
     [Cont (op Jgt_u_i32_am64_r_r_ofs), Cont (op Jgt_u_i64_am64_r_r_ofs), Unimpl, Unimpl],
     [Cont (op Jge_u_i32_am64_r_r_ofs), Cont (op Jge_u_i64_am64_r_r_ofs), Unimpl, Unimpl],
     [Brk (op Load_i32_am64_r_r_imm), Brk (op Load_i64_am64_r_r_imm), Brk (op Load_f32_am64_r_r_imm), Brk (op Load_f64_am64_r_r_imm)],
     [Brk (op Load8_i32_am64_r_r_imm), Brk (op Load8_i64_am64_r_r_imm), Unimpl, Unimpl],
     [Brk (op Load8_u_i32_am64_r_r_imm), Brk (op Load8_u_i64_am64_r_r_imm), Unimpl, Unimpl],
     [Brk (op Load16_i32_am64_r_r_imm), Brk (op Load16_i64_am64_r_r_imm), Unimpl, Unimpl],
     [Brk (op Load16_u_i32_am64_r_r_imm), Brk (op Load16_u_i64_am64_r_r_imm), Unimpl, Unimpl],
     [Unimpl, Brk (op Load32_i64_am64_r_r_imm), Unimpl, Unimpl],
     [Unimpl, Brk (op Load32_u_i64_am64_r_r_imm), Unimpl, Unimpl],
     [Brk (op Store_i32_am64_r_r_imm), Brk (op Store_i64_am64_r_r_imm), Brk (op Store_f32_am64_r_r_imm), Brk (op Store_f64_am64_r_r_imm)],
     [Brk (op Store8_i32_am64_r_r_imm), Brk (op Store8_i64_am64_r_r_imm), Unimpl, Unimpl],
     [Brk (op Store16_i32_am64_r_r_imm), Brk (op Store16_i64_am64_r_r_imm), Unimpl, Unimpl],
     [Unimpl, Brk (op Store32_i64_am64_r_r_imm), Unimpl, Unimpl]]"

definition op_rows_9a :: "action list list" where
  "op_rows_9a =
    [[Brk (op Select_i32_am64_r_r_ofs), Brk (op Select_i64_am64_r_r_ofs), Brk (op Select_f32_am64_r_r_ofs), Brk (op Select_f64_am64_r_r_ofs)],
     [Brk (op Lload_i32_am64_r_imm), Brk (op Lload_i64_am64_r_imm), Brk (op Lload_f32_am64_r_imm), Brk (op Lload_f64_am64_r_imm)],
     [Brk (op Lload8_i32_am64_r_imm), Brk (op Lload8_i64_am64_r_imm), Unimpl, Unimpl],
     [Brk (op Lload8_u_i32_am64_r_imm), Brk (op Lload8_u_i64_am64_r_imm), Unimpl, Unimpl],
     [Brk (op Lload16_i32_am64_r_imm), Brk (op Lload16_i64_am64_r_imm), Unimpl, Unimpl],
     [Brk (op Lload16_u_i32_am64_r_imm), Brk (op Lload16_u_i64_am64_r_imm), Unimpl, Unimpl],
     [Unimpl, Brk (op Lload32_i64_am64_r_imm), Unimpl, Unimpl],
     [Unimpl, Brk (op Lload32_u_i64_am64_r_imm), Unimpl, Unimpl],
     [Brk (op Lstore_i32_am64_r_imm), Brk (op Lstore_i64_am64_r_imm), Brk (op Lstore_f32_am64_r_imm), Brk (op Lstore_f64_am64_r_imm)],
     [Brk (op Lstore8_i32_am64_r_imm), Brk (op Lstore8_i64_am64_r_imm), Unimpl, Unimpl],
     [Brk (op Lstore16_i32_am64_r_imm), Brk (op Lstore16_i64_am64_r_imm), Unimpl, Unimpl],
     [Unimpl, Brk (op Lstore32_i64_am64_r_imm), Unimpl, Unimpl],
     [Brk (op Eq_i32_am64_r_r_r), Brk (op Eq_i64_am64_r_r_r), Brk (op Eq_f32_am64_r_r_r), Brk (op Eq_f64_am64_r_r_r)],
     [Brk (op Ne_i32_am64_r_r_r), Brk (op Ne_i64_am64_r_r_r), Brk (op Ne_f32_am64_r_r_r), Brk (op Ne_f64_am64_r_r_r)],
     [Brk (op Lt_i32_am64_r_r_r), Brk (op Lt_i64_am64_r_r_r), Brk (op Lt_f32_am64_r_r_r), Brk (op Lt_f64_am64_r_r_r)],
     [Brk (op Lt_u_i32_am64_r_r_r), Brk (op Lt_u_i64_am64_r_r_r), Unimpl, Unimpl],
     [Brk (op Gt_i32_am64_r_r_r), Brk (op Gt_i64_am64_r_r_r), Brk (op Gt_f32_am64_r_r_r), Brk (op Gt_f64_am64_r_r_r)],
     [Brk (op Gt_u_i32_am64_r_r_r), Brk (op Gt_u_i64_am64_r_r_r), Unimpl, Unimpl],
     [Brk (op Le_i32_am64_r_r_r), Brk (op Le_i64_am64_r_r_r), Brk (op Le_f32_am64_r_r_r), Brk (op Le_f64_am64_r_r_r)],
     [Brk (op Le_u_i32_am64_r_r_r), Brk (op Le_u_i64_am64_r_r_r), Unimpl, Unimpl],
     [Brk (op Ge_i32_am64_r_r_r), Brk (op Ge_i64_am64_r_r_r), Brk (op Ge_f32_am64_r_r_r), Brk (op Ge_f64_am64_r_r_r)],
     [Brk (op Ge_u_i32_am64_r_r_r), Brk (op Ge_u_i64_am64_r_r_r), Unimpl, Unimpl]]"

definition op_rows_b0 :: "action list list" where
  "op_rows_b0 =
    [[Brk (op Add_i32_am64_r_r_r), Brk (op Add_i64_am64_r_r_r), Brk (op_h Add_f32_am64_r_r_r), Brk (op_h Add_f64_am64_r_r_r)],
     [Brk (op Sub_i32_am64_r_r_r), Brk (op Sub_i64_am64_r_r_r), Brk (op_h Sub_f32_am64_r_r_r), Brk (op_h Sub_f64_am64_r_r_r)],
     [Brk (op Mul_i32_am64_r_r_r), Brk (op Mul_i64_am64_r_r_r), Brk (op_h Mul_f32_am64_r_r_r), Brk (op_h Mul_f64_am64_r_r_r)],
     [Brk (op Div_i32_am64_r_r_r), Brk (op Div_i64_am64_r_r_r), Brk (op_h Div_f32_am64_r_r_r), Brk (op_h Div_f64_am64_r_r_r)],
     [Brk (op Div_u_i32_am64_r_r_r), Brk (op Div_u_i64_am64_r_r_r), Unimpl, Unimpl],
     [Brk (op Rem_i32_am64_r_r_r), Brk (op Rem_i64_am64_r_r_r), Unimpl, Unimpl],
     [Brk (op Rem_u_i32_am64_r_r_r), Brk (op Rem_u_i64_am64_r_r_r), Unimpl, Unimpl],
     [Brk (op And_i32_am64_r_r_r), Brk (op And_i64_am64_r_r_r), Unimpl, Unimpl],
     [Brk (op Or_i32_am64_r_r_r), Brk (op Or_i64_am64_r_r_r), Unimpl, Unimpl],
     [Brk (op Xor_i32_am64_r_r_r), Brk (op Xor_i64_am64_r_r_r), Unimpl, Unimpl],
     [Brk (op Shl_i32_am64_r_r_r), Brk (op Shl_i64_am64_r_r_r), Unimpl, Unimpl],
     [Brk (op Shr_i32_am64_r_r_r), Brk (op Shr_i64_am64_r_r_r), Unimpl, Unimpl],
     [Brk (op Shr_u_i32_am64_r_r_r), Brk (op Shr_u_i64_am64_r_r_r), Unimpl, Unimpl],
     [Unimpl, Unimpl, Brk (op_h Min_f32_am64_r_r_r), Brk (op_h Min_f64_am64_r_r_r)],
     [Unimpl, Unimpl, Brk (op_h Max_f32_am64_r_r_r), Brk (op_h Max_f64_am64_r_r_r)],
     [Brk (op Llda_i32_am64_r_ofs), Brk (op Llda_i64_am64_r_ofs), Unimpl, Unimpl],
     [Brk (op_h Builtin_i32_am64_r_r_imm), Brk (op Builtin_i64_am64_r_r_imm), Brk (op Builtin_f32_am64_r_r_imm), Brk (op_h Builtin_f64_am64_r_r_imm)],
     [Brk (op Globalget_i32_am64_r_ofs), Brk (op Globalget_i64_am64_r_ofs), Brk (op Globalget_f32_am64_r_ofs), Brk (op Globalget_f64_am64_r_ofs)],
     [Brk (op Globalset_i32_am64_r_ofs), Brk (op Globalset_i64_am64_r_ofs), Brk (op Globalset_f32_am64_r_ofs), Brk (op Globalset_f64_am64_r_ofs)]]"

text \<open>Rows are opcodes, columns value types; the row number is the opcode.\<close>

definition op_rows :: "action list list" where
  "op_rows = op_rows_00 @ op_rows_20 @ op_rows_36 @ op_rows_49 @ op_rows_80 @ op_rows_9a @ op_rows_b0"

lemmas op_row_defs = op_rows_00_def op_rows_20_def op_rows_36_def op_rows_49_def op_rows_80_def op_rows_9a_def op_rows_b0_def

definition op_action :: "u32 \<Rightarrow> action" where
  "op_action opcode_l =
    (if unat opcode_l < 4 * length op_rows
     then op_rows ! (unat opcode_l div 4) ! (unat opcode_l mod 4) else Unimpl)"

section \<open>The interpreter loop\<close>

datatype status = Running uwasm_machine | Finished uwasm_machine

text \<open>One iteration of the loop.\<close>

definition exec_step :: "host \<Rightarrow> uwasm_machine \<Rightarrow> status res" where
  "exec_step H m = (case x_pc (current m) of
      None \<Rightarrow> Inl Out_of_block
    | Some p \<Rightarrow> bindr (arr_at (m_expanded_table (module m)) p) (\<lambda>inst.
        case op_action (Get_opcode_l inst) of
          Exec_end \<Rightarrow> Inr (Finished m)
        | Cont h \<Rightarrow> bindr (h H p inst m) (\<lambda>m. Inr (Running m))
        | Brk h \<Rightarrow> bindr (h H p inst m) (\<lambda>m. Inr (Running (Inc_pc m)))
        | Unimpl \<Rightarrow> Inl Assertion))"

text \<open>
  \<^verbatim>\<open>Exec_start\<close>: the test for a breakpoint comes before the instruction, and the loop returns from the
  function there.  At the end the return value is read for the profile.
\<close>

partial_function (option) exec_loop :: "host \<Rightarrow> uwasm_debug \<Rightarrow> uwasm_machine \<Rightarrow> (uwasm_machine \<times> uwasm_debug) res option" where
  "exec_loop H d m =
    (if stops_at (x_pc (current m)) d
     then Some (bindr (On_breakpoint m (x_pc (current m)) d) (\<lambda>(d, bp). Inr (m, d)))
     else (case exec_step H m of
        Inl e \<Rightarrow> Some (Inl e)
      | Inr (Finished m') \<Rightarrow> Some (bindr (Get_ret_val m') (\<lambda>ret. Inr (m', d)))
      | Inr (Running m') \<Rightarrow> exec_loop H d m'))"

definition Exec_start :: "host \<Rightarrow> uwasm_machine \<Rightarrow> uwasm_debug \<Rightarrow> (uwasm_machine \<times> uwasm_debug) res option" where
  "Exec_start H m d = exec_loop H (dbg_Init d) m"

text \<open>
  \<^verbatim>\<open>Control_start\<close>: at most \<open>n\<close> iterations.  The test for a breakpoint comes after an instruction that
  leaves the switch with \<^verbatim>\<open>break\<close>, and before its program counter is advanced.
\<close>

primrec control_loop :: "host \<Rightarrow> uwasm_debug \<Rightarrow> nat \<Rightarrow> uwasm_machine \<Rightarrow> (uwasm_machine \<times> uwasm_debug) res" where
  "control_loop H d 0 m = Inr (m, d)"
| "control_loop H d (Suc n) m = (case x_pc (current m) of
      None \<Rightarrow> Inl Out_of_block
    | Some p \<Rightarrow> bindr (arr_at (m_expanded_table (module m)) p) (\<lambda>inst.
        case op_action (Get_opcode_l inst) of
          Exec_end \<Rightarrow> Inr (m, d)
        | Cont h \<Rightarrow> bindr (h H p inst m) (control_loop H d n)
        | Brk h \<Rightarrow> bindr (h H p inst m) (\<lambda>m.
            if stops_at (Some p) d then bindr (On_breakpoint m (Some p) d) (\<lambda>(d, bp). Inr (m, d))
            else control_loop H d n (Inc_pc m))
        | Unimpl \<Rightarrow> Inl Assertion))"

definition Control_start :: "host \<Rightarrow> u64 \<Rightarrow> uwasm_machine \<Rightarrow> uwasm_debug \<Rightarrow> (uwasm_machine \<times> uwasm_debug) res" where
  "Control_start H instr_count m d = control_loop H (dbg_Init d) (unat instr_count) m"

text \<open>\<open>n\<close> iterations without breakpoints, fewer when the program ends.\<close>

primrec exec_iter :: "host \<Rightarrow> nat \<Rightarrow> uwasm_machine \<Rightarrow> uwasm_machine res" where
  "exec_iter H 0 m = Inr m"
| "exec_iter H (Suc n) m = bindr (exec_step H m) (\<lambda>s. case s of
      Finished m' \<Rightarrow> Inr m'
    | Running m' \<Rightarrow> exec_iter H n m')"

text \<open>The loop with a bound on the number of iterations; \<open>None\<close> when the bound is reached.\<close>

primrec exec_fuel :: "nat \<Rightarrow> host \<Rightarrow> uwasm_machine \<Rightarrow> uwasm_machine res option" where
  "exec_fuel 0 H m = None"
| "exec_fuel (Suc n) H m = (case exec_step H m of
      Inl e \<Rightarrow> Some (Inl e)
    | Inr (Finished m') \<Rightarrow> Some (Inr m')
    | Inr (Running m') \<Rightarrow> exec_fuel n H m')"

inductive exec1 :: "host \<Rightarrow> uwasm_machine \<Rightarrow> uwasm_machine \<Rightarrow> bool" for H where
  step: "exec_step H m = Inr (Running m') \<Longrightarrow> exec1 H m m'"

inductive_cases exec1_E: "exec1 H m m'"
inductive_simps exec1_iff: "exec1 H m m'"

inductive reaches :: "host \<Rightarrow> uwasm_machine \<Rightarrow> uwasm_machine \<Rightarrow> bool" for H where
  refl: "reaches H m m"
| step: "exec1 H m m' \<Longrightarrow> reaches H m' m'' \<Longrightarrow> reaches H m m''"

section \<open>The loop and its bounded form\<close>

text \<open>Literal bounds unfold one step at a time.\<close>

lemma exec_fuel_numeral [simp]:
  "exec_fuel (numeral k) H m = (case exec_step H m of
      Inl e \<Rightarrow> Some (Inl e)
    | Inr (Finished m') \<Rightarrow> Some (Inr m')
    | Inr (Running m') \<Rightarrow> exec_fuel (pred_numeral k) H m')"
  by (simp add: numeral_eq_Suc)

lemma exec_iter_numeral [simp]:
  "exec_iter H (numeral k) m = bindr (exec_step H m) (\<lambda>s. case s of
      Finished m' \<Rightarrow> Inr m'
    | Running m' \<Rightarrow> exec_iter H (pred_numeral k) m')"
  by (simp add: numeral_eq_Suc)

lemma exec_fuel_mono: "exec_fuel n H m = Some r \<Longrightarrow> n \<le> k \<Longrightarrow> exec_fuel k H m = Some r"
proof (induction n arbitrary: m k)
  case (Suc n)
  then obtain j where "k = Suc j" "n \<le> j" by (cases k) auto
  with Suc show ?case by (auto split: sum.splits status.splits)
qed simp

lemma exec_loop_fuel:
  "db_bp_count d = 0 \<Longrightarrow> exec_fuel n H m = Some (Inr m') \<Longrightarrow> Get_ret_val m' = Inr v \<Longrightarrow> exec_loop H d m = Some (Inr (m', d))"
proof (induction n arbitrary: m)
  case (Suc n)
  then show ?case
    by (subst exec_loop.simps) (auto simp: stops_at_def split: sum.splits status.splits)
qed simp

text \<open>Without breakpoints the loop ends when enough fuel ends it.\<close>

lemma Exec_start_fuel:
  assumes "exec_fuel n H m = Some (Inr m')" and "Get_ret_val m' = Inr v" and "db_bp_count d = 0"
  shows "Exec_start H m d = Some (Inr (m', dbg_Init d))"
  unfolding Exec_start_def by (rule exec_loop_fuel [OF _ assms(1,2)]) (simp add: dbg_Init_def assms(3))

text \<open>Steps that do not start at a breakpoint.\<close>

inductive runs_free :: "host \<Rightarrow> uwasm_debug \<Rightarrow> uwasm_machine \<Rightarrow> uwasm_machine \<Rightarrow> bool" for H d where
  refl: "runs_free H d m m"
| step: "\<not> stops_at (x_pc (current m)) d \<Longrightarrow> exec1 H m m1 \<Longrightarrow> runs_free H d m1 m' \<Longrightarrow> runs_free H d m m'"

lemma runs_free_Init: "runs_free H (dbg_Init d) m m' = runs_free H d m m'"
proof
  show "runs_free H d m m'" if "runs_free H (dbg_Init d) m m'"
    using that by (induction rule: runs_free.induct) (auto intro: runs_free.intros)
  show "runs_free H (dbg_Init d) m m'" if "runs_free H d m m'"
    using that by (induction rule: runs_free.induct) (auto intro: runs_free.intros)
qed

text \<open>How a run of the loop ends in \<open>m'\<close>.\<close>

definition loop_end :: "host \<Rightarrow> uwasm_debug \<Rightarrow> uwasm_machine \<Rightarrow> uwasm_debug \<Rightarrow> bool" where
  "loop_end H d m' d' \<longleftrightarrow>
    (if stops_at (x_pc (current m')) d then \<exists>bp. On_breakpoint m' (x_pc (current m')) d = Inr (d', bp)
     else exec_step H m' = Inr (Finished m') \<and> (\<exists>v. Get_ret_val m' = Inr v) \<and> d' = d)"

lemma exec_step_Finished: "exec_step H m = Inr (Finished m') \<Longrightarrow> m' = m"
  by (auto simp: exec_step_def split: option.splits action.splits)

lemma exec_loop_ends:
  assumes "exec_loop H d m = Some r"
  shows "\<forall>m' d'. r = Inr (m', d') \<longrightarrow> runs_free H d m m' \<and> loop_end H d m' d'"
proof (rule exec_loop.raw_induct [OF _ assms], intro allI impI)
  fix F H d m r m' d'
  assume IH: "\<And>H d m r. F H d m = Some r \<Longrightarrow> \<forall>m' d'. r = Inr (m', d') \<longrightarrow> runs_free H d m m' \<and> loop_end H d m' d'"
    and step: "(if stops_at (x_pc (current m)) d
      then Some (bindr (On_breakpoint m (x_pc (current m)) d) (\<lambda>(d, bp). Inr (m, d)))
      else case exec_step H m of Inl e \<Rightarrow> Some (Inl e) | Inr (Running m') \<Rightarrow> F H d m'
        | Inr (Finished m') \<Rightarrow> Some (bindr (Get_ret_val m') (\<lambda>ret. Inr (m', d)))) = Some r"
    and r: "r = Inr (m', d')"
  show "runs_free H d m m' \<and> loop_end H d m' d'"
  proof (cases "stops_at (x_pc (current m)) d")
    case True
    then show ?thesis using step r by (auto simp: loop_end_def intro: runs_free.refl)
  next
    case False
    show ?thesis
    proof (cases "\<exists>m1. exec_step H m = Inr (Running m1)")
      case True
      then obtain m1 where m1: "exec_step H m = Inr (Running m1)" by blast
      then have "runs_free H d m1 m' \<and> loop_end H d m' d'" using step False r IH [of H d m1 r] by simp
      then show ?thesis using runs_free.step [OF False exec1.step [OF m1]] by blast
    next
      case other: False
      then obtain m1 where m1: "exec_step H m = Inr (Finished m1)"
        using step False r by (auto split: sum.splits status.splits)
      then have "m1 = m" by (rule exec_step_Finished)
      then show ?thesis using step False r m1 by (auto simp: loop_end_def intro: runs_free.refl)
    qed
  qed
qed

lemma exec_loop_stops:
  "runs_free H d m m' \<Longrightarrow> loop_end H d m' d' \<Longrightarrow> exec_loop H d m = Some (Inr (m', d'))"
proof (induction rule: runs_free.induct)
  case (refl m)
  then show ?case by (subst exec_loop.simps) (auto simp: loop_end_def split: if_splits)
next
  case (step m m1 m')
  from step.hyps(2) have "exec_step H m = Inr (Running m1)" by (rule exec1_E)
  then show ?case using step by (subst exec_loop.simps) simp
qed

lemma exec_loop_iff: "exec_loop H d m = Some (Inr (m', d')) \<longleftrightarrow> runs_free H d m m' \<and> loop_end H d m' d'"
  using exec_loop_ends exec_loop_stops by blast

lemma exec_iter_reaches:
  "exec_fuel n H m = None \<Longrightarrow> \<exists>m'. exec_iter H n m = Inr m' \<and> reaches H m m'"
proof (induction n arbitrary: m)
  case 0
  show ?case by (auto intro: reaches.refl)
next
  case (Suc n)
  then obtain m1 where m1: "exec_step H m = Inr (Running m1)" "exec_fuel n H m1 = None"
    by (auto split: sum.splits status.splits)
  with Suc.IH [of m1] obtain m' where "exec_iter H n m1 = Inr m'" "reaches H m1 m'" by blast
  with m1 show ?case by (auto intro: reaches.step exec1.step)
qed


text \<open>The state after \<open>n\<close> iterations.\<close>

definition state_after :: "host \<Rightarrow> nat \<Rightarrow> uwasm_machine \<Rightarrow> uwasm_machine" where
  "state_after H n m = projr (exec_iter H n m)"

lemma state_after_Suc:
  "exec_step H m = Inr (Running m') \<Longrightarrow> state_after H (Suc n) m = state_after H n m'"
  by (simp add: state_after_def)

lemma state_after_step:
  "exec_fuel (Suc n) H m = None \<Longrightarrow> exec1 H (state_after H n m) (state_after H (Suc n) m)"
proof (induction n arbitrary: m)
  case 0
  then show ?case by (auto simp: state_after_def intro: exec1.step split: sum.splits status.splits)
next
  case (Suc n)
  then obtain m1 where "exec_step H m = Inr (Running m1)" "exec_fuel (Suc n) H m1 = None"
    by (auto split: sum.splits status.splits)
  with Suc.IH [of m1] show ?case by (simp add: state_after_Suc del: exec_fuel.simps)
qed

lemma state_after_reaches: "exec_fuel n H m = None \<Longrightarrow> reaches H m (state_after H n m)"
  using exec_iter_reaches [of n H m] by (auto simp: state_after_def)


lemma exec_fuel_None: "exec_fuel k H m = None \<Longrightarrow> n \<le> k \<Longrightarrow> exec_fuel n H m = None"
  using exec_fuel_mono [of n H m _ k] by (cases "exec_fuel n H m") auto

end
