(* ===== verification/Frame.thy ===== *)
theory Frame
  imports Exec
begin

text \<open>
  The frame discipline of the interpreter.  Handlers other than calls and returns leave the
  frame alone: the saved contexts, the frame pointers, the registers below the frame pointers
  and the current context except its program counter.  Calls and returns keep the frame pointers of the register files equal to
  the ones recorded in the current context.  Together: every step preserves the machine
  invariant.
\<close>

section \<open>What a handler may change\<close>

definition reg_frame_eq :: "'v register \<Rightarrow> 'v register \<Rightarrow> bool" where
  "reg_frame_eq r r' \<longleftrightarrow>
    r_fp r' = r_fp r \<and> r_cur r' = r_cur r \<and> r_cur_mem_size r' = r_cur_mem_size r \<and>
    (\<forall>i < r_cur r. r_cells r' i = r_cells r i)"

definition frame_eq :: "uwasm_machine \<Rightarrow> uwasm_machine \<Rightarrow> bool" where
  "frame_eq m m' \<longleftrightarrow>
    reg_frame_eq (reg_i32 m) (reg_i32 m') \<and> reg_frame_eq (reg_i64 m) (reg_i64 m') \<and>
    reg_frame_eq (reg_f32 m) (reg_f32 m') \<and> reg_frame_eq (reg_f64 m) (reg_f64 m') \<and>
    ctx_stack m' = ctx_stack m \<and> sta_p m' = sta_p m \<and>
    (module m')\<lparr>m_expanded_table := []\<rparr> = (module m)\<lparr>m_expanded_table := []\<rparr> \<and>
    (current m')\<lparr>x_pc := None\<rparr> = (current m)\<lparr>x_pc := None\<rparr>"

definition pres :: "(uwasm_machine \<Rightarrow> uwasm_machine res) \<Rightarrow> bool" where
  "pres f \<longleftrightarrow> (\<forall>m m'. f m = Inr m' \<longrightarrow> frame_eq m m')"

named_theorems pres_intros \<open>composition rules for frame preservation\<close>

lemma reg_frame_eq_refl [simp]: "reg_frame_eq r r"
  by (simp add: reg_frame_eq_def)

lemma frame_eq_refl [simp]: "frame_eq m m"
  by (simp add: frame_eq_def)

lemma frame_eq_trans:
  assumes "frame_eq a b" and "frame_eq b c"
  shows "frame_eq a c"
  using assms by (simp add: frame_eq_def reg_frame_eq_def)

lemma pres_eq: "(\<And>m. f m = g m) \<Longrightarrow> pres g \<Longrightarrow> pres f"
  by (simp add: pres_def)

lemma pres_bind_val [pres_intros]:
  "(\<And>x. pres (\<lambda>m. f x m)) \<Longrightarrow> pres (\<lambda>m. bindr (g m) (\<lambda>x. f x m))"
  by (auto simp: pres_def)

lemma pres_if [pres_intros]: "pres f \<Longrightarrow> pres g \<Longrightarrow> pres (\<lambda>m. if c m then f m else g m)"
  by (simp add: pres_def)

lemma pres_Is_True [pres_intros]: "pres f \<Longrightarrow> pres (\<lambda>m. Is_True (c m) (f m))"
  by (simp add: pres_def)

lemma pres_Inl [pres_intros]: "pres (\<lambda>m. Inl e)"
  by (simp add: pres_def)

lemma pres_Inr [pres_intros]: "pres (\<lambda>m. Inr m)"
  by (simp add: pres_def)

lemma reg_set_frame: "reg_set r i v = Inr r' \<Longrightarrow> reg_frame_eq r r'"
  by (auto simp: reg_set_def reg_frame_eq_def split: if_splits)

lemma pres_set [pres_intros]:
  "pres (\<lambda>m. i32_set (a m) (b m) m)"
  "pres (\<lambda>m. i64_set (a m) (c m) m)"
  "pres (\<lambda>m. f32_set (a m) (b m) m)"
  "pres (\<lambda>m. f64_set (a m) (c m) m)"
  by (auto simp: pres_def i32_set_def i64_set_def f32_set_def f64_set_def frame_eq_def
      dest!: reg_set_frame)

lemma pres_mem [pres_intros]: "pres (\<lambda>m. Inr (m\<lparr>mem := x\<rparr>))"
  by (auto simp: pres_def frame_eq_def)

lemma pres_Inc_pc [pres_intros]: "pres (\<lambda>m. Inr (Inc_pc m))"
  by (auto simp: pres_def frame_eq_def Inc_pc_def)

lemma pres_Set_pc [pres_intros]: "pres (\<lambda>m. Inr (Set_pc (a m) m))"
  by (auto simp: pres_def frame_eq_def Set_pc_def)

lemma pres_global_set [pres_intros]: "pres (\<lambda>m. global_set (a m) (b m) m)"
  by (auto simp: pres_def frame_eq_def global_set_def)

lemma pres_Jmp [pres_intros]: "pres (\<lambda>m. Jmp_am32_ofs inst m)"
  by (rule pres_eq, rule Jmp_am32_ofs_def, intro pres_intros)

lemma pres_seq:
  "pres f \<Longrightarrow> (\<And>x. pres (g x)) \<Longrightarrow> pres (\<lambda>m. bindr (f m) (\<lambda>m'. g x m'))"
  by (fastforce simp: pres_def intro: frame_eq_trans)

lemma pres_set_inst_ofs: "pres (set_inst_ofs p v)"
  by (auto simp: pres_def frame_eq_def set_inst_ofs_def)

lemma Grow_memory_frame: "Grow_memory H n m = Inr (r, m') \<Longrightarrow> frame_eq m m'"
  by (auto simp: Grow_memory_def frame_eq_def split: if_splits realloc_result.splits)

lemma pres_let [pres_intros]: "(\<And>x. pres (\<lambda>m. f x m)) \<Longrightarrow> pres (\<lambda>m. let x = g m in f x m)"
  by (auto simp: pres_def Let_def)

lemma pres_grow: "pres (\<lambda>m. bindr (Grow_memory H n m) (\<lambda>(r, m'). i32_set i r m'))"
proof -
  have "frame_eq m m'" if "Grow_memory H n m = Inr (r, m1)" "i32_set i r m1 = Inr m'" for r m m1 m'
    using Grow_memory_frame [OF that(1)] pres_set(1) [of "\<lambda>m. i" "\<lambda>m. r"] that(2)
    unfolding pres_def by (blast intro: frame_eq_trans)
  then show ?thesis by (auto simp: pres_def)
qed

lemma pres_Memorygrow: "pres (Memorygrow_am32_r_r H inst)"
  by (rule pres_eq, rule Memorygrow_am32_r_r_def)
    (rule pres_Is_True pres_grow pres_bind_val pres_let)+

lemma pres_Jmp_indirect: "pres (Jmp_indirect_am32_r p inst)"
proof -
  have "pres (\<lambda>m. bindr (set_inst_ofs p x m) (\<lambda>m. Jmp_am32_ofs (Set_ofs x inst) m))" for x
    using pres_set_inst_ofs pres_Jmp by (fastforce simp: pres_def intro: frame_eq_trans)
  then show ?thesis by (rule pres_eq [OF Jmp_indirect_am32_r_def pres_bind_val])
qed

section \<open>Every entry of the dispatch table\<close>

text \<open>
  An action is well-behaved when its handler leaves the frame alone, or is one of the three
  transfers that change it: return (followed by an increment), call and indirect call.
\<close>

definition action_ok :: "action \<Rightarrow> bool" where
  "action_ok a = (case a of
      Exec_end \<Rightarrow> True
    | Unimpl \<Rightarrow> True
    | Brk h \<Rightarrow> (\<forall>H p inst. pres (h H p inst)) \<or> h = op Return_am32
    | Cont h \<Rightarrow> (\<forall>H p inst. pres (h H p inst)) \<or> h = op_h Call_am32_ofs \<or> h = Call_indirect_am32_r)"

named_theorems action_intros \<open>well-behaved entries of the dispatch table\<close>

lemma action_ok_special [action_intros]:
  "action_ok Exec_end" "action_ok Unimpl" "action_ok (Brk (op Return_am32))"
  "action_ok (Cont (op_h Call_am32_ofs))" "action_ok (Cont Call_indirect_am32_r)"
  "action_ok (Cont (op_p Jmp_indirect_am32_r))" "action_ok (Brk (op_h Memorygrow_am32_r_r))"
  by (simp_all add: action_ok_def op_p_def op_h_def pres_Jmp_indirect pres_Memorygrow)

lemma action_ok_plain [action_intros]:
  "(\<And>inst. pres (f inst)) \<Longrightarrow> action_ok (Brk (op f))"
  "(\<And>inst. pres (f inst)) \<Longrightarrow> action_ok (Cont (op f))"
  "(\<And>H inst. pres (g H inst)) \<Longrightarrow> action_ok (Brk (op_h g))"
  by (simp_all add: action_ok_def op_def op_h_def)

lemma list_all_action:
  "list_all action_ok []"
  "action_ok a \<Longrightarrow> list_all action_ok as \<Longrightarrow> list_all action_ok (a # as)"
  "action_ok a \<Longrightarrow> list_all action_ok (replicate n a)"
  "list_all (list_all action_ok) []"
  "list_all action_ok r \<Longrightarrow> list_all (list_all action_ok) rs \<Longrightarrow> list_all (list_all action_ok) (r # rs)"
  "list_all action_ok r \<Longrightarrow> list_all (list_all action_ok) (replicate n r)"
  by (simp_all add: list_all_iff)

lemma op_rows_00_ok: "list_all (list_all action_ok) op_rows_00"
  unfolding op_rows_00_def
  by (intro list_all_action action_intros; (rule pres_eq, rule handler_defs)+; intro pres_intros)

lemma op_rows_20_ok: "list_all (list_all action_ok) op_rows_20"
  unfolding op_rows_20_def
  by (intro list_all_action action_intros; (rule pres_eq, rule handler_defs)+; intro pres_intros)

lemma op_rows_36_ok: "list_all (list_all action_ok) op_rows_36"
  unfolding op_rows_36_def
  by (intro list_all_action action_intros; (rule pres_eq, rule handler_defs)+; intro pres_intros)

lemma op_rows_80_ok: "list_all (list_all action_ok) op_rows_80"
  unfolding op_rows_80_def
  by (intro list_all_action action_intros; (rule pres_eq, rule handler_defs)+; intro pres_intros)

lemma op_rows_9a_ok: "list_all (list_all action_ok) op_rows_9a"
  unfolding op_rows_9a_def
  by (intro list_all_action action_intros; (rule pres_eq, rule handler_defs)+; intro pres_intros)

lemma op_rows_b0_ok: "list_all (list_all action_ok) op_rows_b0"
  unfolding op_rows_b0_def
  by (intro list_all_action action_intros; (rule pres_eq, rule handler_defs)+; intro pres_intros)

lemma op_rows_49_ok: "list_all (list_all action_ok) op_rows_49"
  unfolding op_rows_49_def by (intro list_all_action action_intros)

lemma op_rows_ok: "list_all (list_all action_ok) op_rows"
  by (simp add: op_rows_def op_rows_00_ok op_rows_20_ok op_rows_36_ok op_rows_49_ok op_rows_80_ok
      op_rows_9a_ok op_rows_b0_ok)

lemma list_all_replicate: "list_all P (replicate n x) \<longleftrightarrow> n = 0 \<or> P x"
  by (auto simp: list_all_iff)

lemma op_rows_shape: "length op_rows = 195" "list_all (\<lambda>r. length r = 4) op_rows"
  by (simp_all add: op_rows_def op_row_defs list_all_replicate)

lemma op_rows_nth:
  "op_rows ! i =
    (if i < 0x20 then op_rows_00 ! i
     else if i < 0x36 then op_rows_20 ! (i - 0x20)
     else if i < 0x49 then op_rows_36 ! (i - 0x36)
     else if i < 0x80 then op_rows_49 ! (i - 0x49)
     else if i < 0x9a then op_rows_80 ! (i - 0x80)
     else if i < 0xb0 then op_rows_9a ! (i - 0x9a)
     else op_rows_b0 ! (i - 0xb0))"
proof -
  have "length op_rows_00 = 0x20" "length op_rows_20 = 0x36 - 0x20" "length op_rows_36 = 0x49 - 0x36"
    "length op_rows_49 = 0x80 - 0x49" "length op_rows_80 = 0x9a - 0x80" "length op_rows_9a = 0xb0 - 0x9a"
    by (simp_all add: op_row_defs)
  then show ?thesis unfolding op_rows_def by (auto simp: nth_append)
qed

text \<open>Rewrite rules that look an opcode up in the dispatch table.\<close>

lemmas op_lookup = op_action_def op_rows_shape op_rows_nth op_row_defs

lemma op_action_ok: "action_ok (op_action opcode_l)"
proof (cases "unat opcode_l < 4 * length op_rows")
  case True
  let ?row = "op_rows ! (unat opcode_l div 4)"
  have row: "?row \<in> set op_rows" using True by (intro nth_mem) simp
  then have "length ?row = 4" using op_rows_shape by (auto simp: list_all_iff)
  then have "?row ! (unat opcode_l mod 4) \<in> set ?row" by (intro nth_mem) simp
  with row op_rows_ok True show ?thesis by (auto simp: op_action_def list_all_iff)
qed (simp add: op_action_def action_ok_def)

section \<open>The machine invariant\<close>

text \<open>
  A callee's context and its caller's: frame pointers grow by at most a 16-bit amount, and
  when the caller's shift word says that only 32-bit integer registers move, the other frame
  pointers are the same in both.
\<close>

definition fp_step :: "u32 \<Rightarrow> u32 \<Rightarrow> bool" where
  "fp_step callee caller \<longleftrightarrow> unat caller \<le> unat callee \<and> unat callee \<le> unat caller + 65535"

definition link :: "u64 list \<Rightarrow> exec_context \<Rightarrow> exec_context \<Rightarrow> bool" where
  "link shs callee caller \<longleftrightarrow>
    fp_step (x_fp_i32 callee) (x_fp_i32 caller) \<and> fp_step (x_fp_i64 callee) (x_fp_i64 caller) \<and>
    fp_step (x_fp_f32 callee) (x_fp_f32 caller) \<and> fp_step (x_fp_f64 callee) (x_fp_f64 caller) \<and>
    (unat (x_func_idx caller) < length shs \<and> shs ! unat (x_func_idx caller) \<le> 0xffff \<longrightarrow>
      x_fp_i64 callee = x_fp_i64 caller \<and> x_fp_f32 callee = x_fp_f32 caller \<and>
      x_fp_f64 callee = x_fp_f64 caller)"

definition same_fps :: "exec_context \<Rightarrow> exec_context \<Rightarrow> bool" where
  "same_fps c d \<longleftrightarrow> x_fp_i32 c = x_fp_i32 d \<and> x_fp_i64 c = x_fp_i64 d \<and>
    x_fp_f32 c = x_fp_f32 d \<and> x_fp_f64 c = x_fp_f64 d"

definition fps_agree :: "uwasm_machine \<Rightarrow> bool" where
  "fps_agree m \<longleftrightarrow>
    r_fp (reg_i32 m) = x_fp_i32 (current m) \<and> r_fp (reg_i64 m) = x_fp_i64 (current m) \<and>
    r_fp (reg_f32 m) = x_fp_f32 (current m) \<and> r_fp (reg_f64 m) = x_fp_f64 (current m)"

definition regs_inv :: "uwasm_machine \<Rightarrow> bool" where
  "regs_inv m \<longleftrightarrow>
    reg_inv (reg_i32 m) \<and> reg_inv (reg_i64 m) \<and> reg_inv (reg_f32 m) \<and> reg_inv (reg_f64 m)"

definition frames :: "uwasm_machine \<Rightarrow> exec_context list" where
  "frames m = current m # cs_abs (ctx_stack m)"

text \<open>The frame chain: linked contexts over an entry frame at register zero.\<close>

definition chain :: "u64 list \<Rightarrow> exec_context list \<Rightarrow> bool" where
  "chain shs cs \<longleftrightarrow> successively (link shs) cs \<and> same_fps (last cs) EXEC_CONTEXT"

definition minv :: "uwasm_machine \<Rightarrow> bool" where
  "minv m \<longleftrightarrow> regs_inv m \<and> fps_agree m \<and>
    cs_inv (ctx_stack m) \<and> cs_size (ctx_stack m) = DEFAULT_STACK_SIZE \<and>
    chain (m_fp_shs_tab (module m)) (frames m)"

lemmas minv_defs = minv_def regs_inv_def fps_agree_def frames_def

text \<open>All register cells, and the cells below the current frame.\<close>

definition cells :: "uwasm_machine \<Rightarrow> (nat \<Rightarrow> u32) \<times> (nat \<Rightarrow> u64) \<times> (nat \<Rightarrow> u32) \<times> (nat \<Rightarrow> u64)" where
  "cells m = (r_cells (reg_i32 m), r_cells (reg_i64 m), r_cells (reg_f32 m), r_cells (reg_f64 m))"

definition cells_kept :: "exec_context \<Rightarrow> uwasm_machine \<Rightarrow> uwasm_machine \<Rightarrow> bool" where
  "cells_kept c m m' \<longleftrightarrow>
    (\<forall>i < unat (x_fp_i32 c). r_cells (reg_i32 m') i = r_cells (reg_i32 m) i) \<and>
    (\<forall>i < unat (x_fp_i64 c). r_cells (reg_i64 m') i = r_cells (reg_i64 m) i) \<and>
    (\<forall>i < unat (x_fp_f32 c). r_cells (reg_f32 m') i = r_cells (reg_f32 m) i) \<and>
    (\<forall>i < unat (x_fp_f64 c). r_cells (reg_f64 m') i = r_cells (reg_f64 m) i)"

text \<open>The register blocks never shrink.\<close>

definition sizes :: "uwasm_machine \<Rightarrow> u32 \<times> u32 \<times> u32 \<times> u32" where
  "sizes m = (r_cur_mem_size (reg_i32 m), r_cur_mem_size (reg_i64 m),
    r_cur_mem_size (reg_f32 m), r_cur_mem_size (reg_f64 m))"

definition sizes_le :: "uwasm_machine \<Rightarrow> uwasm_machine \<Rightarrow> bool" where
  "sizes_le m m' = (case (sizes m, sizes m') of ((a, b, c, d), (a', b', c', d')) \<Rightarrow>
    a \<le> a' \<and> b \<le> b' \<and> c \<le> c' \<and> d \<le> d')"

text \<open>A system or native call leaves the frame as it finds it.\<close>

definition sys_ok :: "host \<Rightarrow> bool" where
  "sys_ok H \<longleftrightarrow> (\<forall>idx m m'. h_sys_call H idx m = Inr m' \<longrightarrow> frame_eq m m')"

subsection \<open>Handlers that keep the frame\<close>

lemma frame_eq_context:
  assumes "frame_eq m m'"
  shows "x_fp_i32 (current m') = x_fp_i32 (current m)" "x_fp_i64 (current m') = x_fp_i64 (current m)"
    "x_fp_f32 (current m') = x_fp_f32 (current m)" "x_fp_f64 (current m') = x_fp_f64 (current m)"
    "x_func_idx (current m') = x_func_idx (current m)" "x_sp (current m') = x_sp (current m)"
    "x_label_tab (current m') = x_label_tab (current m)"
proof -
  have e: "(current m')\<lparr>x_pc := None\<rparr> = (current m)\<lparr>x_pc := None\<rparr>"
    using assms by (simp add: frame_eq_def)
  show "x_fp_i32 (current m') = x_fp_i32 (current m)" "x_fp_i64 (current m') = x_fp_i64 (current m)"
    "x_fp_f32 (current m') = x_fp_f32 (current m)" "x_fp_f64 (current m') = x_fp_f64 (current m)"
    "x_func_idx (current m') = x_func_idx (current m)" "x_sp (current m') = x_sp (current m)"
    "x_label_tab (current m') = x_label_tab (current m)"
    using arg_cong [OF e, of x_fp_i32] arg_cong [OF e, of x_fp_i64] arg_cong [OF e, of x_fp_f32]
      arg_cong [OF e, of x_fp_f64] arg_cong [OF e, of x_func_idx] arg_cong [OF e, of x_sp]
      arg_cong [OF e, of x_label_tab] by simp_all
qed

lemma frame_eq_module:
  assumes "frame_eq m m'"
  shows "m_fp_shs_tab (module m') = m_fp_shs_tab (module m)"
proof -
  have "(module m')\<lparr>m_expanded_table := []\<rparr> = (module m)\<lparr>m_expanded_table := []\<rparr>"
    using assms by (simp add: frame_eq_def)
  from arg_cong [OF this, of m_fp_shs_tab] show ?thesis by simp
qed

lemma chain_head: "same_fps c' c \<Longrightarrow> chain shs (c # cs) \<Longrightarrow> chain shs (c' # cs)"
  by (cases cs) (auto simp: chain_def link_def same_fps_def)

lemma chain_Cons: "chain shs (c # d # cs) \<longleftrightarrow> link shs c d \<and> chain shs (d # cs)"
  by (auto simp: chain_def)

text \<open>Frame pointers are bounded by the depth of the stack, so they never wrap around.\<close>

lemma chain_bound:
  "chain shs (c # cs) \<Longrightarrow>
    unat (x_fp_i32 c) \<le> 65535 * length cs \<and> unat (x_fp_i64 c) \<le> 65535 * length cs \<and>
    unat (x_fp_f32 c) \<le> 65535 * length cs \<and> unat (x_fp_f64 c) \<le> 65535 * length cs"
proof (induction cs arbitrary: c)
  case Nil
  then show ?case by (simp add: chain_def same_fps_def EXEC_CONTEXT_def)
next
  case (Cons d cs)
  from Cons.IH [of d] Cons.prems show ?case by (auto simp: chain_Cons link_def fp_step_def)
qed

lemma cs_abs_length: "cs_inv s \<Longrightarrow> length (cs_abs s) \<le> cs_size s"
  by (auto simp: cs_abs_def cs_inv_def)

lemma frame_eq_same_fps: "frame_eq m m' \<Longrightarrow> same_fps (current m') (current m)"
  by (simp add: same_fps_def frame_eq_context)

lemma minv_frame_eq:
  assumes "minv m" and "frame_eq m m'"
  shows "minv m'"
proof -
  note c = frame_eq_context [OF assms(2)] and t = frame_eq_module [OF assms(2)]
  have "ctx_stack m' = ctx_stack m" and r: "regs_inv m'" "fps_agree m'"
    using assms c by (auto simp: minv_defs frame_eq_def reg_frame_eq_def reg_inv_def)
  then show ?thesis using assms(1) c t by (auto simp: minv_def frames_def same_fps_def intro: chain_head)
qed

lemma cells_update [simp]:
  "cells (m\<lparr>current := c\<rparr>) = cells m" "cells (m\<lparr>ctx_stack := s\<rparr>) = cells m"
  "cells (m\<lparr>module := u\<rparr>) = cells m" "cells (Inc_pc m) = cells m"
  by (simp_all add: cells_def Inc_pc_def)

lemma sizes_update [simp]:
  "sizes (m\<lparr>current := c\<rparr>) = sizes m" "sizes (m\<lparr>ctx_stack := s\<rparr>) = sizes m"
  "sizes (m\<lparr>module := u\<rparr>) = sizes m" "sizes (Inc_pc m) = sizes m"
  by (simp_all add: sizes_def Inc_pc_def)

lemma sizes_le_refl [simp]: "sizes_le m m"
  by (simp add: sizes_le_def sizes_def)

lemma sizes_le_eq: "sizes m' = sizes m \<Longrightarrow> sizes_le m m'"
  by (simp add: sizes_le_def sizes_def)

lemma sizes_le_trans: "sizes_le a b \<Longrightarrow> sizes_le b c \<Longrightarrow> sizes_le a c"
  by (auto simp: sizes_le_def sizes_def)

lemma frame_eq_sizes: "frame_eq m m' \<Longrightarrow> sizes m' = sizes m"
  by (simp add: frame_eq_def reg_frame_eq_def sizes_def)

lemma cells_kept_frame_eq: "minv m \<Longrightarrow> frame_eq m m' \<Longrightarrow> cells_kept (current m) m m'"
  by (auto simp: minv_defs cells_kept_def frame_eq_def reg_frame_eq_def reg_inv_def)

lemma cells_kept_eq: "cells m' = cells m \<Longrightarrow> cells_kept c m m'"
  by (simp add: cells_def cells_kept_def)

lemma cells_kept_trans: "cells_kept c a b \<Longrightarrow> cells_kept c b d \<Longrightarrow> cells_kept c a d"
  by (simp add: cells_kept_def)

lemma cells_kept_below:
  "cells_kept c a b \<Longrightarrow> link shs c d \<Longrightarrow> cells_kept d a b"
  by (auto simp: cells_kept_def link_def fp_step_def)

lemma cells_kept_same_fps: "same_fps c d \<Longrightarrow> cells_kept c a b = cells_kept d a b"
  by (simp add: cells_kept_def same_fps_def)

subsection \<open>Calls and returns\<close>

lemmas inc_fp_defs = inc_fp_i32_def inc_fp_i64_def inc_fp_f32_def inc_fp_f64_def

lemma shift_frames_same [simp]:
  "ctx_stack (shift_frames shs m) = ctx_stack m" "module (shift_frames shs m) = module m"
  "sta_p (shift_frames shs m) = sta_p m" "mem (shift_frames shs m) = mem m"
  "x_func_idx (current (shift_frames shs m)) = x_func_idx (current m)"
  "x_sp (current (shift_frames shs m)) = x_sp (current m)"
  "x_pc (current (shift_frames shs m)) = x_pc (current m)"
  "cells (shift_frames shs m) = cells m" "sizes (shift_frames shs m) = sizes m"
  by (simp_all add: shift_frames_def inc_fp_defs Let_def cells_def sizes_def Increment_def)

lemma shift_frames_inv:
  "regs_inv m \<Longrightarrow> regs_inv (shift_frames shs m)"
  "fps_agree m \<Longrightarrow> fps_agree (shift_frames shs m)"
  by (simp_all add: shift_frames_def inc_fp_defs Let_def regs_inv_def fps_agree_def reg.inv_incr)

lemma unpack16_less: "unat (unpack16 i w) \<le> 65535"
proof -
  have "unpack16 i w = take_bit 16 (unpack16 i w)"
    by (rule bit_word_eqI) (auto simp: unpack16_def bit_simps)
  then have "unat (unpack16 i w) = take_bit 16 (unat (unpack16 i w))"
    by (metis unsigned_take_bit_eq)
  moreover have "take_bit 16 (unat (unpack16 i w)) < 2 ^ 16" by (rule take_bit_nat_less_exp)
  ultimately show ?thesis by simp
qed

lemma unpack16_small:
  assumes "shs \<le> 0xffff"
  shows "unpack16 0 shs = ucast shs" and "0 < i \<Longrightarrow> unpack16 i shs = 0"
proof -
  have "unat shs < 2 ^ 16" using assms by (simp add: word_le_nat_alt)
  then have t: "take_bit 16 shs = shs" by (rule take_bit_unat_less)
  have "unpack16 0 (take_bit 16 shs) = ucast (take_bit 16 shs)"
    by (rule bit_word_eqI) (auto simp: unpack16_def bit_simps)
  then show "unpack16 0 shs = ucast shs" by (simp add: t)
  have "0 < i \<Longrightarrow> unpack16 i (take_bit 16 shs) = 0"
    by (rule bit_word_eqI) (auto simp: unpack16_def bit_simps)
  then show "0 < i \<Longrightarrow> unpack16 i shs = 0" by (simp add: t)
qed

text \<open>Every frame pointer moves by the caller's number of local registers of that kind.\<close>

lemma shift_frames_exact:
  assumes "fps_agree m"
  shows "x_fp_i32 (current (shift_frames shs m)) = x_fp_i32 (current m) + unpack16 0 shs"
    and "x_fp_i64 (current (shift_frames shs m)) = x_fp_i64 (current m) + unpack16 1 shs"
    and "x_fp_f32 (current (shift_frames shs m)) = x_fp_f32 (current m) + unpack16 2 shs"
    and "x_fp_f64 (current (shift_frames shs m)) = x_fp_f64 (current m) + unpack16 3 shs"
  using assms unpack16_small [of shs]
  by (auto simp: shift_frames_def inc_fp_defs Let_def fps_agree_def reg.fp_incr not_less)

lemma fp_step_add: "unat a \<le> 2 ^ 27 \<Longrightarrow> unat n \<le> 65535 \<Longrightarrow> fp_step (a + n) a"
  by (simp add: fp_step_def unat_word_ariths)

lemma shift_frames_i32_only:
  "shs \<le> 0xffff \<Longrightarrow> x_fp_i64 (current (shift_frames shs m)) = x_fp_i64 (current m) \<and>
    x_fp_f32 (current (shift_frames shs m)) = x_fp_f32 (current m) \<and>
    x_fp_f64 (current (shift_frames shs m)) = x_fp_f64 (current m)"
  by (drule leD) (simp add: shift_frames_def inc_fp_defs Let_def)

lemma alloc_frames_same [simp]:
  "ctx_stack (alloc_frames n m) = ctx_stack m" "module (alloc_frames n m) = module m"
  "current (alloc_frames n m) = current m" "sta_p (alloc_frames n m) = sta_p m"
  "mem (alloc_frames n m) = mem m" "cells (alloc_frames n m) = cells m"
  by (simp_all add: alloc_frames_def cells_def alloc_nonzero_def Alloc_def Let_def)

lemma alloc_frames_inv:
  "regs_inv m \<Longrightarrow> regs_inv (alloc_frames n m)"
  "fps_agree m \<Longrightarrow> fps_agree (alloc_frames n m)"
  by (simp_all add: alloc_frames_def alloc_nonzero_def regs_inv_def fps_agree_def reg.inv_alloc reg.fp_alloc)

lemma Allocate_stack_same:
  assumes "Allocate_stack f m = Inr m'"
  shows "\<exists>sp. m' = m\<lparr>current := (current m)\<lparr>x_sp := sp\<rparr>\<rparr>"
proof -
  have "m' = m \<or> (\<exists>sp. m' = m\<lparr>current := (current m)\<lparr>x_sp := sp\<rparr>\<rparr>)"
    using assms by (auto simp: Allocate_stack_def Let_def split: if_splits)
  moreover have "m = m\<lparr>current := (current m)\<lparr>x_sp := x_sp (current m)\<rparr>\<rparr>" by simp
  ultimately show ?thesis by metis
qed

lemma minv_fp_bound:
  assumes "minv m"
  shows "unat (x_fp_i32 (current m)) \<le> 2 ^ 27" "unat (x_fp_i64 (current m)) \<le> 2 ^ 27"
    "unat (x_fp_f32 (current m)) \<le> 2 ^ 27" "unat (x_fp_f64 (current m)) \<le> 2 ^ 27"
proof -
  have "chain (m_fp_shs_tab (module m)) (current m # cs_abs (ctx_stack m))"
    and "length (cs_abs (ctx_stack m)) \<le> 1024"
    using assms cs_abs_length [of "ctx_stack m"] by (auto simp: minv_def frames_def DEFAULT_STACK_SIZE_def)
  from chain_bound [OF this(1)] this(2)
  show "unat (x_fp_i32 (current m)) \<le> 2 ^ 27" "unat (x_fp_i64 (current m)) \<le> 2 ^ 27"
    "unat (x_fp_f32 (current m)) \<le> 2 ^ 27" "unat (x_fp_f64 (current m)) \<le> 2 ^ 27"
    by simp_all
qed

lemma Push_size:
  "cs_inv s \<Longrightarrow> Push c s = Inr s' \<Longrightarrow> cs_size s' = cs_size s"
  by (auto simp: Push_def cs_inv_def Let_def split: if_splits)

lemma Pop_size: "Pop s = Inr s' \<Longrightarrow> cs_size s' = cs_size s"
  by (auto simp: Pop_def)

text \<open>After the push and the frame shift the invariant holds with the caller on the stack.\<close>

lemma minv_push_shift:
  fixes idx :: u32
  assumes "minv m" and "Push (current m) (ctx_stack m) = Inr s"
    and "Get_fp_shs_num m (x_func_idx (current m)) = Inr shs"
  defines "m1 \<equiv> shift_frames shs (m\<lparr>ctx_stack := s, current := (current m)\<lparr>x_func_idx := idx\<rparr>\<rparr>)"
  shows "minv m1" and "cs_abs (ctx_stack m1) = current m # cs_abs (ctx_stack m)"
proof -
  let ?m0 = "m\<lparr>ctx_stack := s, current := (current m)\<lparr>x_func_idx := idx\<rparr>\<rparr>"
  have inv: "cs_inv (ctx_stack m)" "regs_inv ?m0" "fps_agree ?m0"
    using assms(1) by (simp_all add: minv_defs)
  note push = cstk.push_Inr [OF inv(1) assms(2)]
  show abs: "cs_abs (ctx_stack m1) = current m # cs_abs (ctx_stack m)"
    by (simp add: m1_def push)
  have shs: "shs = m_fp_shs_tab (module m) ! unat (x_func_idx (current m))"
    using assms(3) by (simp add: Get_fp_shs_num_def)
  have "link (m_fp_shs_tab (module m)) (current m1) (current m)"
    using shift_frames_i32_only [of shs ?m0] shs
      fp_step_add [OF minv_fp_bound(1) [OF assms(1)] unpack16_less]
      fp_step_add [OF minv_fp_bound(2) [OF assms(1)] unpack16_less]
      fp_step_add [OF minv_fp_bound(3) [OF assms(1)] unpack16_less]
      fp_step_add [OF minv_fp_bound(4) [OF assms(1)] unpack16_less]
    unfolding link_def m1_def shift_frames_exact [OF inv(3)] by simp
  with abs push(1) Push_size [OF inv(1) assms(2)] shift_frames_inv [of ?m0 shs] inv assms(1)
  show "minv m1" by (simp add: minv_def frames_def m1_def chain_Cons)
qed

lemma Func_epilogue_minv:
  assumes "minv m" and "Func_epilogue m = Inr m'"
  shows "minv m'" and "frames m' = cs_abs (ctx_stack m)" and "module m' = module m"
    and "mem m' = mem m" and "cells m' = cells m" and "sizes m' = sizes m"
proof -
  from assms(2) obtain c s shs where top: "Top (ctx_stack m) = Inr c" and pop: "Pop (ctx_stack m) = Inr s"
    and shs: "Get_fp_shs_num (m\<lparr>current := c, ctx_stack := s\<rparr>) (x_func_idx c) = Inr shs"
    and m': "m' = (let m1 = m\<lparr>current := c, ctx_stack := s, reg_i32 := Set_fp (x_fp_i32 c) (reg_i32 m)\<rparr>
      in if shs > 0xffff
         then m1\<lparr>reg_i64 := Set_fp (x_fp_i64 c) (reg_i64 m), reg_f32 := Set_fp (x_fp_f32 c) (reg_f32 m),
                 reg_f64 := Set_fp (x_fp_f64 c) (reg_f64 m)\<rparr> else m1)"
    by (auto simp: Func_epilogue_def Let_def split: if_splits)
  have inv: "cs_inv (ctx_stack m)" using assms(1) by (simp add: minv_def)
  note p = cstk.pop_Inr [OF inv pop]
  have abs: "cs_abs (ctx_stack m) = c # cs_abs s"
    using cstk.top_ok [OF inv p(3)] top p(2,3) by (cases "cs_abs (ctx_stack m)") auto
  then have linked: "link (m_fp_shs_tab (module m)) (current m) c"
    "chain (m_fp_shs_tab (module m)) (c # cs_abs s)"
    using assms(1) by (simp_all add: minv_def frames_def chain_Cons)
  have idx: "unat (x_func_idx c) < length (m_fp_shs_tab (module m))"
    "shs = m_fp_shs_tab (module m) ! unat (x_func_idx c)"
    using shs by (simp_all add: Get_fp_shs_num_def)
  show "frames m' = cs_abs (ctx_stack m)" "module m' = module m" "mem m' = mem m" "cells m' = cells m"
      "sizes m' = sizes m"
    by (simp_all add: m' Let_def frames_def abs cells_def sizes_def Set_fp_def)
  have "regs_inv m'" "fps_agree m'"
    using assms(1) linked(1) idx
    by (auto simp: m' Let_def minv_defs link_def not_less reg.inv_set_fp reg.fp_set_fp)
  then show "minv m'"
    using p(1) linked(2) Pop_size [OF pop] assms(1) by (simp add: minv_def frames_def m' Let_def)
qed

lemma minv_context:
  assumes "minv m"
    and "x_fp_i32 c = x_fp_i32 (current m)" "x_fp_i64 c = x_fp_i64 (current m)"
    "x_fp_f32 c = x_fp_f32 (current m)" "x_fp_f64 c = x_fp_f64 (current m)"
  shows "minv (m\<lparr>current := c\<rparr>)"
  using assms chain_head [of c "current m"] by (simp add: minv_defs same_fps_def)

lemma minv_Inc_pc: "minv m \<Longrightarrow> minv (Inc_pc m)"
  unfolding Inc_pc_def by (rule minv_context) simp_all

lemma minv_alloc_frames: "minv m \<Longrightarrow> minv (alloc_frames n m)"
  using alloc_frames_inv [of m n] by (simp add: minv_def frames_def)

lemma alloc_frames_sizes:
  assumes "minv m"
  shows "sizes_le m (alloc_frames n m)"
proof -
  have fp: "unat (r_fp (reg_i32 m)) \<le> 2 ^ 27" "unat (r_fp (reg_i64 m)) \<le> 2 ^ 27"
    "unat (r_fp (reg_f32 m)) \<le> 2 ^ 27" "unat (r_fp (reg_f64 m)) \<le> 2 ^ 27"
    using minv_fp_bound [OF assms] assms by (simp_all add: minv_defs)
  have "unat (ucast n :: u32) \<le> 65535" if "\<not> n > 0xffff"
    using unpack16_less [of 0 n] unpack16_small(1) [of n] that by (simp add: not_less)
  then show ?thesis
    using Alloc_small(1) [OF fp(1) unpack16_less] Alloc_small(1) [OF fp(2) unpack16_less]
      Alloc_small(1) [OF fp(3) unpack16_less] Alloc_small(1) [OF fp(4) unpack16_less]
      Alloc_small(1) [OF fp(1)]
    by (auto simp: sizes_le_def sizes_def alloc_frames_def alloc_nonzero_def word_le_nat_alt)
qed

text \<open>A call keeps the invariant and either leaves the caller's frame current or stacks it.\<close>

text \<open>A new frame on top of the old ones: the frame pointers move past the caller's locals.\<close>

definition caller_shs :: "uwasm_machine \<Rightarrow> u64" where
  "caller_shs m = m_fp_shs_tab (module m) ! unat (x_func_idx (current m))"

definition past_locals :: "uwasm_machine \<Rightarrow> exec_context \<Rightarrow> bool" where
  "past_locals m c \<longleftrightarrow>
    x_fp_i32 c = x_fp_i32 (current m) + unpack16 0 (caller_shs m) \<and>
    x_fp_i64 c = x_fp_i64 (current m) + unpack16 1 (caller_shs m) \<and>
    x_fp_f32 c = x_fp_f32 (current m) + unpack16 2 (caller_shs m) \<and>
    x_fp_f64 c = x_fp_f64 (current m) + unpack16 3 (caller_shs m)"

definition pushed :: "uwasm_machine \<Rightarrow> uwasm_machine \<Rightarrow> bool" where
  "pushed m m' \<longleftrightarrow> tl (frames m') = frames m \<and> cells m' = cells m \<and> past_locals m (current m')"

lemma call_native_minv:
  assumes "minv m" and "sys_ok H" and "call_native H idx m = Inr m'"
  shows "minv m'" and "tl (frames m') = tl (cs_abs (ctx_stack m))"
    and "\<exists>c. cs_abs (ctx_stack m) = c # tl (cs_abs (ctx_stack m)) \<and>
      current m' = c\<lparr>x_pc := map_option Suc (x_pc c)\<rparr>"
    and "cells_kept (current m) m m'" and "sizes m' = sizes m"
proof -
  from assms(3) obtain m2 m3 where sys: "h_sys_call H idx m = Inr m2"
    and epi: "Func_epilogue m2 = Inr m3" and m': "m' = Inc_pc m3"
    by (auto simp: call_native_def)
  have fe: "frame_eq m m2" using assms(2) sys by (auto simp: sys_ok_def)
  then have "minv m2" "ctx_stack m2 = ctx_stack m"
    using assms(1) minv_frame_eq by (auto simp: frame_eq_def)
  then have m3: "minv m3" "frames m3 = cs_abs (ctx_stack m)"
    using Func_epilogue_minv [OF _ epi] by simp_all
  then show "minv m'" using minv_Inc_pc m' by simp
  show "sizes m' = sizes m"
    using Func_epilogue_minv(6) [OF \<open>minv m2\<close> epi] frame_eq_sizes [OF fe] by (simp add: m')
  have "cells m' = cells m2"
    using Func_epilogue_minv(5) [OF \<open>minv m2\<close> epi] by (simp add: m')
  then show "cells_kept (current m) m m'"
    using cells_kept_frame_eq [OF assms(1) fe] by (auto intro: cells_kept_trans cells_kept_eq)
  show "tl (frames m') = tl (cs_abs (ctx_stack m))"
    using m3(2) by (simp add: m' frames_def Inc_pc_def flip: m3(2))
  show "\<exists>c. cs_abs (ctx_stack m) = c # tl (cs_abs (ctx_stack m)) \<and>
      current m' = c\<lparr>x_pc := map_option Suc (x_pc c)\<rparr>"
    by (simp add: m' frames_def Inc_pc_def flip: m3(2))
qed

lemma enter_callee_minv:
  assumes "minv m" and "enter_callee idx m = Inr m'"
  shows "minv m'" and "ctx_stack m' = ctx_stack m" and "module m' = module m" and "mem m' = mem m"
    and "cells m' = cells m" and "same_fps (current m') (current m)" and "sizes_le m m'"
proof -
  from assms(2) obtain lab_tab base m3 n where
    alloc: "Allocate_stack idx (Set_pc base (m\<lparr>current := (current m)\<lparr>x_label_tab := lab_tab\<rparr>\<rparr>)) = Inr m3"
    and m': "m' = alloc_frames n m3"
    by (auto simp: enter_callee_def Let_def)
  from Allocate_stack_same [OF alloc] obtain sp where
    m3: "m3 = m\<lparr>current := (current m)\<lparr>x_label_tab := lab_tab, x_pc := base, x_sp := sp\<rparr>\<rparr>"
    by (auto simp: Set_pc_def)
  have "minv m3" unfolding m3 by (rule minv_context [OF assms(1)]) simp_all
  then show "minv m'" "ctx_stack m' = ctx_stack m" "module m' = module m" "mem m' = mem m"
      "cells m' = cells m" "same_fps (current m') (current m)"
    using minv_alloc_frames by (simp_all add: m' m3 same_fps_def)
  have "sizes_le m m3" by (rule sizes_le_eq) (simp add: m3)
  then show "sizes_le m m'"
    using alloc_frames_sizes [OF \<open>minv m3\<close>, of n] sizes_le_trans m' by blast
qed

text \<open>Whether a call goes to the runtime instead of a function of the module.\<close>

definition native_callee :: "uwasm_machine \<Rightarrow> u32 \<Rightarrow> bool" where
  "native_callee m idx = (case Get_func (module m) (unat idx) of
    Inr callee \<Rightarrow> Is_set_flag F_EXTERN callee \<or> Is_set_flag F_NATIVE callee | Inl e \<Rightarrow> False)"

lemma Func_prologue_cases:
  assumes "minv m" and "Func_prologue H idx m = Inr m'"
  obtains m1 where "minv m1" and "cs_abs (ctx_stack m1) = frames m" and "cells m1 = cells m"
    and "past_locals m (current m1)" and "sizes m1 = sizes m"
    and "(if native_callee m idx then call_native H idx m1 else enter_callee idx m1) = Inr m'"
proof -
  from assms(2) obtain s shs where push: "Push (current m) (ctx_stack m) = Inr s"
    and "Get_fp_shs_num (m\<lparr>ctx_stack := s, current := (current m)\<lparr>x_func_idx := idx\<rparr>\<rparr>)
          (x_func_idx (current m)) = Inr shs"
    and rest: "(if native_callee m idx
       then call_native H idx (shift_frames shs (m\<lparr>ctx_stack := s, current := (current m)\<lparr>x_func_idx := idx\<rparr>\<rparr>))
       else enter_callee idx (shift_frames shs (m\<lparr>ctx_stack := s, current := (current m)\<lparr>x_func_idx := idx\<rparr>\<rparr>))) = Inr m'"
    by (auto simp: Func_prologue_def Let_def native_callee_def)
  then have shs: "Get_fp_shs_num m (x_func_idx (current m)) = Inr shs"
    by (simp add: Get_fp_shs_num_def)
  have "fps_agree (m\<lparr>ctx_stack := s, current := (current m)\<lparr>x_func_idx := idx\<rparr>\<rparr>)"
    using assms(1) by (simp add: minv_defs)
  note exact = shift_frames_exact [OF this, of shs]
  have "caller_shs m = shs" using shs by (simp add: Get_fp_shs_num_def caller_shs_def)
  with exact have "past_locals m (current
      (shift_frames shs (m\<lparr>ctx_stack := s, current := (current m)\<lparr>x_func_idx := idx\<rparr>\<rparr>)))"
    by (simp add: past_locals_def)
  with minv_push_shift [OF assms(1) push shs, of idx] rest show ?thesis
    by (intro that) (auto simp: frames_def)
qed

lemma Func_prologue_minv:
  assumes "minv m" and "sys_ok H" and "Func_prologue H idx m = Inr m'"
  shows "minv m'"
    and "pushed m m' \<or>
      tl (frames m') = tl (frames m) \<and> current m' = (current m)\<lparr>x_pc := map_option Suc (x_pc (current m))\<rparr>"
    and "cells_kept (current m) m m'" and "sizes_le m m'"
proof -
  from Func_prologue_cases [OF assms(1,3)] obtain m1 where m1: "minv m1"
    "cs_abs (ctx_stack m1) = frames m" "cells m1 = cells m" "past_locals m (current m1)"
    "sizes m1 = sizes m"
    and "(if native_callee m idx then call_native H idx m1 else enter_callee idx m1) = Inr m'" .
  then have "call_native H idx m1 = Inr m' \<or> enter_callee idx m1 = Inr m'" by (simp split: if_split_asm)
  then show "minv m'" using call_native_minv [OF m1(1) assms(2)] enter_callee_minv [OF m1(1)] by blast
  show "pushed m m' \<or>
      tl (frames m') = tl (frames m) \<and> current m' = (current m)\<lparr>x_pc := map_option Suc (x_pc (current m))\<rparr>"
    using \<open>call_native H idx m1 = Inr m' \<or> enter_callee idx m1 = Inr m'\<close>
  proof
    assume "call_native H idx m1 = Inr m'"
    from call_native_minv [OF m1(1) assms(2) this] m1(2) show ?thesis by (auto simp: frames_def)
  next
    assume "enter_callee idx m1 = Inr m'"
    from enter_callee_minv [OF m1(1) this] m1 have "pushed m m'"
      by (simp add: frames_def pushed_def past_locals_def same_fps_def)
    then show ?thesis ..
  qed
  have "sizes_le m1 m'"
    using \<open>call_native H idx m1 = Inr m' \<or> enter_callee idx m1 = Inr m'\<close>
      call_native_minv(5) [OF m1(1) assms(2)] enter_callee_minv(7) [OF m1(1)] sizes_le_eq by blast
  then show "sizes_le m m'" using m1(5) by (simp add: sizes_le_def)
  have "link (m_fp_shs_tab (module m1)) (current m1) (current m)"
    using m1(1,2) by (simp add: minv_def frames_def chain_Cons)
  moreover have "cells_kept (current m1) m1 m'"
    using \<open>call_native H idx m1 = Inr m' \<or> enter_callee idx m1 = Inr m'\<close>
      call_native_minv(4) [OF m1(1) assms(2)] enter_callee_minv(5) [OF m1(1)] cells_kept_eq by blast
  ultimately show "cells_kept (current m) m m'"
    using cells_kept_below cells_kept_eq [OF m1(3)] cells_kept_trans by blast
qed

section \<open>Steps\<close>

text \<open>
  What one step does to the stack of contexts: it changes only the current one, stacks it
  under a new one, or drops it and advances the caller.
\<close>

definition frame_move :: "uwasm_machine \<Rightarrow> uwasm_machine \<Rightarrow> bool" where
  "frame_move m m' \<longleftrightarrow>
    tl (frames m') = tl (frames m) \<and> same_fps (current m') (current m) \<or> pushed m m' \<or>
    (\<exists>c. tl (frames m) = c # tl (frames m') \<and> current m' = c\<lparr>x_pc := map_option Suc (x_pc c)\<rparr>)"

text \<open>The invariant, the movement on the stack and the registers of the frames below.\<close>

definition step_ok :: "uwasm_machine \<Rightarrow> uwasm_machine \<Rightarrow> bool" where
  "step_ok m m' \<longleftrightarrow>
    minv m' \<and> frame_move m m' \<and> cells_kept (current m) m m' \<and> sizes_le m m'"

lemma frame_eq_step_ok: "minv m \<Longrightarrow> frame_eq m m' \<Longrightarrow> step_ok m m'"
  using minv_frame_eq cells_kept_frame_eq frame_eq_same_fps sizes_le_eq [OF frame_eq_sizes]
  by (auto simp: step_ok_def frame_move_def frames_def frame_eq_def)

lemma Call_step_ok:
  assumes "minv m" and "sys_ok H" and "Call_am32_ofs H inst m = Inr m'"
  shows "step_ok m m'"
proof -
  have c: "Func_prologue H (Get_ofs inst) m = Inr m'" using assms(3) by (simp add: Call_am32_ofs_def)
  from Func_prologue_minv [OF assms(1,2) c] show ?thesis
    by (auto simp: step_ok_def frame_move_def same_fps_def)
qed

lemma Call_indirect_step_ok:
  assumes "minv m" and "sys_ok H" and "Call_indirect_am32_r H p inst m = Inr m'"
  shows "step_ok m m'"
proof -
  from assms(3) obtain x m1 where set: "set_inst_ofs p x m = Inr m1"
    and call: "Call_am32_ofs H (Set_ofs x inst) m1 = Inr m'"
    by (auto simp: Call_indirect_am32_r_def)
  have "minv m1" using set pres_set_inst_ofs assms(1) minv_frame_eq by (auto simp: pres_def)
  moreover have "frames m1 = frames m" "current m1 = current m" "cells m1 = cells m"
      "caller_shs m1 = caller_shs m" "sizes m1 = sizes m"
    using set by (auto simp: set_inst_ofs_def frames_def caller_shs_def)
  moreover from this(3) have "cells_kept c m1 m' \<Longrightarrow> cells_kept c m m'" for c
    by (rule cells_kept_trans [OF cells_kept_eq])
  ultimately show ?thesis
    using Call_step_ok [OF _ assms(2) call] by (simp add: step_ok_def frame_move_def pushed_def past_locals_def sizes_le_def)
qed

lemma Return_step_ok:
  assumes "minv m" and "Return_am32 inst m = Inr m'"
  shows "step_ok m (Inc_pc m')"
proof -
  have e: "Func_epilogue m = Inr m'" using assms(2) by (simp add: Return_am32_def)
  note r = Func_epilogue_minv [OF assms(1) e]
  have "tl (frames m) = frames m'" using r(2) by (simp add: frames_def)
  moreover have "cells (Inc_pc m') = cells m" using r(5) by simp
  ultimately show ?thesis
    using minv_Inc_pc [OF r(1)] cells_kept_eq sizes_le_eq [of "Inc_pc m'" m] r(6)
    by (auto simp: step_ok_def frame_move_def frames_def Inc_pc_def)
qed

lemma frame_eq_Inc_pc: "frame_eq m m' \<Longrightarrow> frame_eq m (Inc_pc m')"
  by (simp add: frame_eq_def Inc_pc_def)

lemma exec_step_ok:
  assumes "minv m" and "sys_ok H" and "exec_step H m = Inr (Running m')"
  shows "step_ok m m'"
proof -
  from assms(3) obtain p inst where
    run: "(case op_action (Get_opcode_l inst) of
          Exec_end \<Rightarrow> Inr (Finished m)
        | Cont h \<Rightarrow> bindr (h H p inst m) (\<lambda>m. Inr (Running m))
        | Brk h \<Rightarrow> bindr (h H p inst m) (\<lambda>m. Inr (Running (Inc_pc m)))
        | Unimpl \<Rightarrow> Inl Assertion) = Inr (Running m')"
    by (auto simp: exec_step_def split: option.splits)
  have ok: "action_ok (op_action (Get_opcode_l inst))" by (rule op_action_ok)
  note keeps = frame_eq_step_ok [OF assms(1)]
  show ?thesis
  proof (cases "op_action (Get_opcode_l inst)")
    case (Cont h)
    with run have h: "h H p inst m = Inr m'" by auto
    from ok Cont consider "pres (h H p inst)" | "h = op_h Call_am32_ofs" | "h = Call_indirect_am32_r"
      by (auto simp: action_ok_def)
    then show ?thesis
      using h keeps Call_step_ok [OF assms(1,2)] Call_indirect_step_ok [OF assms(1,2)]
      by cases (auto simp: pres_def op_h_def)
  next
    case (Brk h)
    with run obtain m2 where h: "h H p inst m = Inr m2" and m': "m' = Inc_pc m2" by auto
    from ok Brk consider "pres (h H p inst)" | "h = op Return_am32"
      by (auto simp: action_ok_def)
    then show ?thesis
    proof cases
      case 1
      with h have "frame_eq m m'" using frame_eq_Inc_pc by (auto simp: pres_def m')
      then show ?thesis by (rule keeps)
    next
      case 2
      with h Return_step_ok [OF assms(1)] show ?thesis by (auto simp: m' op_def)
    qed
  qed (use run in auto)
qed

lemma exec1_step_ok: "exec1 H m m' \<Longrightarrow> minv m \<Longrightarrow> sys_ok H \<Longrightarrow> step_ok m m'"
  using exec_step_ok by (auto elim: exec1_E)

lemma reaches_minv: "reaches H m m' \<Longrightarrow> minv m \<Longrightarrow> sys_ok H \<Longrightarrow> minv m'"
proof (induction rule: reaches.induct)
  case (step m m' m'')
  then show ?case using exec1_step_ok by (auto simp: step_ok_def)
qed

text \<open>Executions during which the stack of contexts never gets shorter than \<open>k\<close>.\<close>

inductive reaches_above :: "host \<Rightarrow> nat \<Rightarrow> uwasm_machine \<Rightarrow> uwasm_machine \<Rightarrow> bool" for H k where
  above_refl: "k \<le> length (frames m) \<Longrightarrow> reaches_above H k m m"
| above_step: "k \<le> length (frames m) \<Longrightarrow> exec1 H m m' \<Longrightarrow> reaches_above H k m' m'' \<Longrightarrow>
    reaches_above H k m m''"

text \<open>The bottom \<open>k\<close> contexts.\<close>

definition bottom :: "nat \<Rightarrow> 'a list \<Rightarrow> 'a list" where
  "bottom k xs = drop (length xs - k) xs"

lemma bottom_Cons: "k \<le> length xs \<Longrightarrow> bottom k (x # xs) = bottom k xs"
  by (simp add: bottom_def Suc_diff_le)

lemma bottom_all: "bottom (length xs) xs = xs"
  by (simp add: bottom_def)

text \<open>The frame at height \<open>Suc k\<close>.\<close>

definition frame_at :: "nat \<Rightarrow> uwasm_machine \<Rightarrow> exec_context" where
  "frame_at k m = hd (bottom (Suc k) (frames m))"

lemma bottom_frames_Cons:
  "k \<le> length (tl (frames m)) \<Longrightarrow> bottom k (frames m) = bottom k (tl (frames m))"
  by (simp add: frames_def bottom_Cons)

lemma frame_at_lower: "Suc k \<le> length (tl (frames m)) \<Longrightarrow> frame_at k m = hd (bottom (Suc k) (tl (frames m)))"
  by (simp add: frame_at_def bottom_frames_Cons)

lemma frame_at_top: "length (tl (frames m)) = k \<Longrightarrow> frame_at k m = current m"
  by (simp add: frame_at_def frames_def bottom_def)

lemma frame_move_bottom:
  assumes "frame_move m m'" and "Suc k \<le> length (frames m)" and "Suc k \<le> length (frames m')"
  shows "bottom k (frames m') = bottom k (frames m)" and "same_fps (frame_at k m') (frame_at k m)"
proof -
  have l: "k \<le> length (tl (frames m))" "k \<le> length (tl (frames m'))"
    using assms(2,3) by (simp_all add: frames_def)
  note b = bottom_frames_Cons [OF l(1)] bottom_frames_Cons [OF l(2)]
  from assms(1) consider "tl (frames m') = tl (frames m)" "same_fps (current m') (current m)"
    | "tl (frames m') = frames m"
    | c where "tl (frames m) = c # tl (frames m')" "current m' = c\<lparr>x_pc := map_option Suc (x_pc c)\<rparr>"
    by (auto simp: frame_move_def pushed_def)
  then have "bottom k (frames m') = bottom k (frames m) \<and> same_fps (frame_at k m') (frame_at k m)"
  proof cases
    case 1
    then show ?thesis
      using b l frame_at_top [of m k] frame_at_top [of m' k] frame_at_lower [of k m] frame_at_lower [of k m']
      by (cases "length (tl (frames m)) = k") (auto simp: same_fps_def)
  next
    case 2
    then show ?thesis using b assms(2) frame_at_lower [of k m'] by (simp add: same_fps_def frame_at_def)
  next
    case 3
    then have "frame_at k m = hd (bottom (Suc k) (c # tl (frames m')))"
      using l frame_at_lower [of k m] by simp
    moreover have "hd (bottom (Suc k) (c # tl (frames m'))) = c \<and> frame_at k m' = current m'"
      if "length (tl (frames m')) = k"
      using that frame_at_top [of m' k] by (simp add: bottom_def)
    moreover have "hd (bottom (Suc k) (c # tl (frames m'))) = frame_at k m'"
      if "length (tl (frames m')) \<noteq> k"
      using that l frame_at_lower [of k m'] by (simp add: bottom_Cons)
    ultimately have "same_fps (frame_at k m') (frame_at k m)"
      using 3 by (cases "length (tl (frames m')) = k") (auto simp: same_fps_def)
    then show ?thesis using 3 b l by (simp add: bottom_Cons)
  qed
  then show "bottom k (frames m') = bottom k (frames m)" "same_fps (frame_at k m') (frame_at k m)"
    by auto
qed

lemma cells_kept_lower:
  "chain shs (c # cs) \<Longrightarrow> d \<in> set (c # cs) \<Longrightarrow> cells_kept c a b \<Longrightarrow> cells_kept d a b"
proof (induction cs arbitrary: c)
  case (Cons e cs)
  then have "cells_kept e a b" using cells_kept_below [of c a b shs e] by (simp add: chain_Cons)
  with Cons show ?case by (auto simp: chain_Cons)
qed simp

lemma cells_kept_frame_at:
  assumes "minv m" and "Suc k \<le> length (frames m)" and "cells_kept (current m) a b"
  shows "cells_kept (frame_at k m) a b"
proof -
  have "bottom (Suc k) (frames m) \<noteq> []" using assms(2) by (simp add: bottom_def)
  then have "frame_at k m \<in> set (frames m)"
    unfolding frame_at_def bottom_def by (meson hd_in_set in_set_dropD)
  moreover have "chain (m_fp_shs_tab (module m)) (frames m)" using assms(1) by (simp add: minv_def)
  ultimately show ?thesis using cells_kept_lower assms(3) unfolding frames_def by blast
qed

lemma reaches_above_length: "reaches_above H k m m' \<Longrightarrow> k \<le> length (frames m)"
  by (cases rule: reaches_above.cases) auto

text \<open>
  While the stack stays above height \<open>k\<close>, the contexts below, the frame pointers at height
  \<open>Suc k\<close> and all registers below them stay as they are.
\<close>

lemma reaches_above_ok:
  "reaches_above H (Suc k) m m' \<Longrightarrow> minv m \<Longrightarrow> sys_ok H \<Longrightarrow>
    minv m' \<and> Suc k \<le> length (frames m') \<and> bottom k (frames m') = bottom k (frames m) \<and>
    same_fps (frame_at k m') (frame_at k m) \<and> cells_kept (frame_at k m) m m' \<and> sizes_le m m'"
proof (induction rule: reaches_above.induct)
  case (above_refl m)
  then show ?case by (simp add: same_fps_def cells_kept_def)
next
  case (above_step m m1 m2)
  then have m1: "minv m1" "frame_move m m1" "cells_kept (current m) m m1" "sizes_le m m1"
    using exec1_step_ok by (auto simp: step_ok_def)
  have l: "Suc k \<le> length (frames m1)" by (rule reaches_above_length) (rule above_step.hyps(3))
  note mv = frame_move_bottom [OF m1(2) above_step.hyps(1) l]
  have "cells_kept (frame_at k m) m m1"
    using cells_kept_frame_at [OF above_step.prems(1) above_step.hyps(1) m1(3)] .
  moreover have "cells_kept (frame_at k m) m1 m2"
    using above_step.IH [OF m1(1) above_step.prems(2)] cells_kept_same_fps [OF mv(2)] by simp
  ultimately show ?case
    using above_step.IH [OF m1(1) above_step.prems(2)] mv cells_kept_trans sizes_le_trans [OF m1(4)]
    by (auto simp: same_fps_def)
qed

lemma frame_move_push:
  "frame_move m m' \<Longrightarrow> length (frames m') = Suc (length (frames m)) \<Longrightarrow> pushed m m'"
  by (auto simp: frame_move_def frames_def)

lemma frame_move_pop:
  assumes "frame_move m m'" and "length (frames m) = Suc (length (frames m'))"
  obtains c where "tl (frames m) = c # tl (frames m')" "current m' = c\<lparr>x_pc := map_option Suc (x_pc c)\<rparr>"
  using assms by (auto simp: frame_move_def frames_def pushed_def)

lemma tl_frames_bottom: "tl (frames m) = bottom (length (tl (frames m))) (frames m)"
  by (simp add: frames_def bottom_def)

text \<open>From a call to the return that matches it.\<close>

lemma call_to_return:
  assumes "minv m" and "sys_ok H"
    and "exec1 H m m1" and "length (frames m1) = Suc (length (frames m))"
    and "reaches_above H (Suc (length (frames m))) m1 m2"
    and "exec1 H m2 m3" and "length (frames m3) = length (frames m)"
  shows "frames m3 = (current m)\<lparr>x_pc := map_option Suc (x_pc (current m))\<rparr> # tl (frames m)"
    and "cells_kept (current m1) m m3" and "minv m3" and "past_locals m (current m1)"
    and "sizes_le m m3"
proof -
  let ?k = "length (frames m)"
  have m1: "minv m1" "frame_move m m1" "cells_kept (current m) m m1" "sizes_le m m1"
    using exec1_step_ok [OF assms(3,1,2)] by (auto simp: step_ok_def)
  have pushed: "pushed m m1" by (rule frame_move_push [OF m1(2) assms(4)])
  then have push: "tl (frames m1) = frames m" and "cells m1 = cells m"
    and "past_locals m (current m1)" by (simp_all add: pushed_def)
  have at1: "frame_at ?k m1 = current m1" by (rule frame_at_top) (simp add: push)
  note m2 = reaches_above_ok [OF assms(5) m1(1) assms(2)]
  have m3: "step_ok m2 m3" using exec1_step_ok [OF assms(6) _ assms(2)] m2 by blast
  have len2: "length (frames m2) = Suc (length (frames m3))"
    using m3 m2 assms(7) by (auto simp: step_ok_def frame_move_def frames_def pushed_def)
  from frame_move_pop [OF _ len2] m3 obtain c where
    pop: "tl (frames m2) = c # tl (frames m3)" "current m3 = c\<lparr>x_pc := map_option Suc (x_pc c)\<rparr>"
    by (auto simp: step_ok_def)
  have "tl (frames m2) = bottom ?k (frames m2)"
    using tl_frames_bottom [of m2] len2 assms(7) by simp
  also have "\<dots> = tl (frames m1)" using m2 tl_frames_bottom [of m1] push by simp
  finally have "frames m = c # tl (frames m3)" using push pop by simp
  then show "frames m3 = (current m)\<lparr>x_pc := map_option Suc (x_pc (current m))\<rparr> # tl (frames m)"
    using pop(2) by (simp add: frames_def)
  show "sizes_le m m3" using m1(4) m2 m3 sizes_le_trans unfolding step_ok_def by blast
  show "minv m3" "past_locals m (current m1)"
    using m3 \<open>past_locals m (current m1)\<close> by (simp_all add: step_ok_def)
  have at2: "frame_at ?k m2 = current m2" by (rule frame_at_top) (use len2 assms(7) in simp)
  have "cells_kept (current m1) m2 m3"
    using m3 m2 at1 at2 cells_kept_same_fps by (auto simp: step_ok_def)
  moreover have "cells_kept (current m1) m1 m2" using m2 at1 by simp
  ultimately show "cells_kept (current m1) m m3"
    using cells_kept_trans cells_kept_eq [OF \<open>cells m1 = cells m\<close>] by blast
qed

section \<open>Starting a machine\<close>

text \<open>A machine as its constructor leaves it: empty context stack, all frame pointers at zero.\<close>

definition fresh :: "uwasm_machine \<Rightarrow> bool" where
  "fresh m \<longleftrightarrow> regs_inv m \<and> fps_agree m \<and> ctx_stack m = CONTEXT_STACK \<and>
    same_fps (current m) EXEC_CONTEXT"

lemma alloc_nonzero_simps [simp]:
  "r_fp (alloc_nonzero n r) = r_fp r" "reg_inv r \<Longrightarrow> reg_inv (alloc_nonzero n r)"
  by (simp_all add: alloc_nonzero_def reg.fp_alloc reg.inv_alloc)

lemma minv_alloc_nonzero:
  assumes "minv m"
  shows "minv (m\<lparr>reg_i32 := alloc_nonzero a (reg_i32 m), reg_i64 := alloc_nonzero b (reg_i64 m),
    reg_f32 := alloc_nonzero c (reg_f32 m), reg_f64 := alloc_nonzero d (reg_f64 m)\<rparr>)"
  using assms by (simp add: minv_defs)

lemma Allocate_stack_minv:
  assumes "minv m" and "Allocate_stack f m = Inr m'"
  shows "minv m'"
proof -
  from Allocate_stack_same [OF assms(2)] obtain sp where m': "m' = m\<lparr>current := (current m)\<lparr>x_sp := sp\<rparr>\<rparr>"
    by blast
  show ?thesis unfolding m' by (rule minv_context [OF assms(1)]) simp_all
qed

lemma Init_env_minv:
  assumes "fresh m" and "Init_env f m = Inr m'"
  shows "minv m'"
proof -
  define m0 where "m0 = m\<lparr>current := (current m)\<lparr>x_func_idx := f, x_pc := Some (m_end_pc (module m))\<rparr>\<rparr>"
  from assms(2) obtain s m1 n where push: "Push (current m0) (ctx_stack m0) = Inr s"
    and set: "Set_func_idx f (m0\<lparr>ctx_stack := s\<rparr>) = Inr m1"
    and alloc: "Allocate_stack f (let m2 = m1\<lparr>current := (current m1)\<lparr>x_sp := sta_p m1\<rparr>\<rparr> in
      m2\<lparr>reg_i32 := alloc_nonzero (unpack16 0 n) (reg_i32 m2), reg_i64 := alloc_nonzero (unpack16 1 n) (reg_i64 m2),
         reg_f32 := alloc_nonzero (unpack16 2 n) (reg_f32 m2), reg_f64 := alloc_nonzero (unpack16 3 n) (reg_f64 m2)\<rparr>)
      = Inr m'"
    by (auto simp: Init_env_def Let_def m0_def)
  have m0: "cs_inv (ctx_stack m0)" "cs_abs (ctx_stack m0) = []" "cs_size (ctx_stack m0) = DEFAULT_STACK_SIZE"
    using assms(1) CONTEXT_STACK_inv by (simp_all add: m0_def fresh_def CONTEXT_STACK_def)
  note p = cstk.push_Inr [OF m0(1) push] Push_size [OF m0(1) push]
  from set obtain lt b where m1: "m1 = m0\<lparr>ctx_stack := s, current := (current m0)\<lparr>x_func_idx := f,
      x_label_tab := lt, x_pc := b\<rparr>\<rparr>"
    by (auto simp: Set_func_idx_def)
  have "minv m1"
    using assms(1) p m0 unfolding m1
    by (simp add: minv_defs fresh_def m0_def chain_def link_def same_fps_def fp_step_def)
  then have "minv (m1\<lparr>current := (current m1)\<lparr>x_sp := sta_p m1\<rparr>\<rparr>)"
    by (rule minv_context) simp_all
  then show ?thesis
    by (rule Allocate_stack_minv [OF _ alloc [unfolded Let_def], OF minv_alloc_nonzero])
qed

end
