(* ===== verification/Example.thy ===== *)
theory Example
  imports Frame
begin

text \<open>
  A concrete module and machine, used to show that the hypotheses of the properties can be
  met.  Function 0 (two local and one outgoing 32-bit integer registers) loads constants and
  calls function 1, which overwrites its own registers and returns.
\<close>

definition ex_fpu :: fpu where
  "ex_fpu = \<lparr>f32_add = (\<lambda>a b. a), f32_sub = (\<lambda>a b. a), f32_mul = (\<lambda>a b. a), f32_div = (\<lambda>a b. a),
    f32_ceil = (\<lambda>a. a), f32_floor = (\<lambda>a. a), f32_of_int = (\<lambda>i. word_of_int i),
    f32_trunc = (\<lambda>a. None), f32_to_f64 = (\<lambda>a. ucast a),
    f64_add = (\<lambda>a b. a), f64_sub = (\<lambda>a b. a), f64_mul = (\<lambda>a b. a), f64_div = (\<lambda>a b. a),
    f64_ceil = (\<lambda>a. a), f64_floor = (\<lambda>a. a), f64_sqrt = (\<lambda>a. a), f64_fmin = (\<lambda>a b. a),
    f64_fmax = (\<lambda>a b. a), f64_of_int = (\<lambda>i. word_of_int i), f64_trunc = (\<lambda>a. None),
    f64_to_f32 = (\<lambda>a. ucast a)\<rparr>"

definition ex_host :: host where
  "ex_host = \<lparr>h_fpu = ex_fpu, h_realloc = (\<lambda>n. Realloc_in_place), h_sys_call = (\<lambda>i m. Inr m)\<rparr>"

definition am :: "u32 \<Rightarrow> u32 \<Rightarrow> u32 \<Rightarrow> u32 \<Rightarrow> am_expand" where
  "am opc a b c = \<lparr>e_opcode = opc, e_expand1 = a, e_expand2 = b, e_expand3 = c\<rparr>"

text \<open>Function 0: \<^verbatim>\<open>const R1 20; const R0 5; call 1; return\<close>; function 1: \<^verbatim>\<open>const R0 7; return\<close>.\<close>

definition ex_table :: "am_expand list" where
  "ex_table = [am 80 1 0 20, am 80 0 0 5, am 12 0 0 1, am 8 0 0 0, am 80 0 0 7, am 8 0 0 0,
     am 0 0 0 0, am 288 0 0 0]"

definition ex_code :: ubh_code where
  "ex_code = UBH_CODE (2, 0, 0, 0) (1, 0, 0, 0) 16"

definition ex_module :: u_module where
  "ex_module = \<lparr>m_shdr_tab = [\<lparr>sh_u = 0x00000001, sh_idx = 0\<rparr>, \<lparr>sh_u = 0x00020003, sh_idx = 0\<rparr>],
    m_sec_map = [S_TYPE \<mapsto> 0, S_FUNC \<mapsto> 1], m_type_sec = [],
    m_func_sec = [UBH_FUNC 0 0 0 0, UBH_FUNC 0 0 0 1], m_code_sec = [ex_code, ex_code],
    m_glbl_sec = [], m_nn_str = [], m_data_sec = [], m_reloc_sec = [],
    m_param_num_tab = [], m_ret_num_tab = [], m_param_tab = [], m_ret_tab = [],
    m_reg_num_tab = [3, 3], m_fp_shs_tab = [2, 2], m_expanded_table = ex_table,
    m_expanded_func_base = [Some 0, Some 4], m_lab_tab = [Some [], Some []], m_end_pc = 6,
    m_expanded_pc_map = [], m_origin_pc_map = [], m_pc_to_exp_map = [], m_exp_to_pc_map = [],
    m_import_sec = [], m_imp_nat_sec = [], m_export_sec = [], m_exp_glbl_sec = [], m_module_name = [],
    m_glbl_name = [], m_nat_sec = []\<rparr>"

definition ex_memory :: memory where
  "ex_memory = \<lparr>mb_bytes = (\<lambda>i. 0), mb_len = 65536, mb_live = True\<rparr>"

definition ex_fresh :: uwasm_machine where
  "ex_fresh = \<lparr>reg_i32 = REGISTER (\<lambda>i. 0), reg_i64 = REGISTER (\<lambda>i. 0), reg_f32 = REGISTER (\<lambda>i. 0),
     reg_f64 = REGISTER (\<lambda>i. 0), ctx_stack = CONTEXT_STACK, module = ex_module,
     mem = ex_memory, sta_p = Some 65536, mem_size = 65536, global_start = [0],
     current = EXEC_CONTEXT\<rparr>"

text \<open>The machine after \<^verbatim>\<open>Init_env\<close> on function 0.\<close>

definition ex_start :: uwasm_machine where
  "ex_start = (case Init_env 0 ex_fresh of Inr m \<Rightarrow> m | Inl e \<Rightarrow> ex_fresh)"

lemma sys_ok_ex_host: "sys_ok ex_host"
  by (simp add: sys_ok_def ex_host_def)

lemma op_action_ex:
  "op_action 8 = Brk (op Return_am32)" "op_action 12 = Cont (op_h Call_am32_ofs)"
  "op_action 80 = Brk (op Const_i32_am32_r_imm)" "op_action 288 = Exec_end"
  by (simp_all add: op_lookup)

lemmas ex_defs = ex_fresh_def ex_module_def ex_code_def ex_memory_def UBH_CODE_def UBH_FUNC_def
  REGISTER_def CONTEXT_STACK_def EXEC_CONTEXT_def INITIAL_REG_SIZE_def DEFAULT_STACK_SIZE_def

lemmas frame_ops = Init_env_def Push_def Set_func_idx_def Get_label_tab_def arr_at_def
  Get_expanded_func_base_def Get_reg_num_def alloc_nonzero_def Alloc_def Allocate_stack_def
  Get_func_def Get_code_idx_def Is_set_flag_def func_flag_defs Get_code_def unpack16_def

lemma ex_start: "Init_env 0 ex_fresh = Inr ex_start"
  by (simp add: ex_start_def ex_defs frame_ops)


section \<open>The run of the example\<close>

lemmas step_ops = exec_step_def ex_table_def am_def Get_opcode_l_def op_action_ex op_def op_h_def
  Const_i32_am32_r_imm_def i32_set_def reg_set_def Get_rd_def Get_imm_def Inc_pc_def
  Call_am32_ofs_def Func_prologue_def Get_ofs_def Get_fp_shs_num_def shift_frames_def inc_fp_i32_def
  Increment_def enter_callee_def Set_pc_def alloc_frames_def Return_am32_def Func_epilogue_def
  Top_def Pop_def Set_fp_def

lemmas run_ops = ex_start_def ex_defs frame_ops step_ops

lemma ex_fresh_ok: "fresh ex_fresh"
  by (simp add: fresh_def ex_fresh_def REGISTER_inv regs_inv_def fps_agree_def same_fps_def
      REGISTER_def EXEC_CONTEXT_def reg_inv_def)

lemma ex_running: "exec_fuel 5 ex_host ex_start = None"
  by (simp add: run_ops)

lemma ex_finishes: "\<exists>m. exec_fuel 10 ex_host ex_start = Some (Inr m) \<and>
    Get_ret_val m = Inr 5 \<and> i32_get m 1 = Inr 20 \<and> i32_get m 2 = Inr 7"
  by (simp add: run_ops Get_ret_val_def i32_get_def reg_get_def)

lemma ex_step: "n < 5 \<Longrightarrow> exec1 ex_host (state_after ex_host n ex_start) (state_after ex_host (Suc n) ex_start)"
  by (rule state_after_step, rule exec_fuel_None [OF ex_running]) simp

lemma ex_reaches: "n \<le> 5 \<Longrightarrow> reaches ex_host ex_start (state_after ex_host n ex_start)"
  by (rule state_after_reaches, rule exec_fuel_None [OF ex_running]) simp

text \<open>The call is the third instruction executed, the return the fifth.\<close>

lemma ex_depth:
  "length (frames (state_after ex_host 2 ex_start)) = 2"
  "length (frames (state_after ex_host 3 ex_start)) = 3"
  "length (frames (state_after ex_host 4 ex_start)) = 3"
  "length (frames (state_after ex_host 5 ex_start)) = 2"
  by (simp_all add: state_after_def frames_def cs_abs_def run_ops)

end
