(* ===== verification/Call_Props.thy ===== *)
theory Call_Props
  imports Example
begin

text \<open>
  What the frame discipline gives the program: the machine invariant in every reachable
  state, local registers that survive calls, frames whose registers are accessible, a bounded
  context stack, and the relation between the two entry points of the interpreter.
\<close>

section \<open>Registers across a call\<close>

lemma local_kept:
  assumes "reg_inv r" "reg_inv r'" "r_fp r' = r_fp r" "r_cur_mem_size r \<le> r_cur_mem_size r'"
    and "\<forall>i < unat (r_fp r + n). r_cells r' i = r_cells r i"
    and "unat (r_fp r) \<le> 2 ^ 27" "unat n \<le> 65535" "i < n" "reg_get r i = Inr v"
  shows "reg_get r' i = Inr v"
proof -
  have "unat (r_fp r + n) = unat (r_fp r) + unat n"
    using assms(6,7) by (simp add: unat_word_ariths)
  moreover have "unat i < unat n" using assms(8) by (simp add: word_less_nat_alt)
  moreover have "unat (r_cur_mem_size r) \<le> unat (r_cur_mem_size r')"
    using assms(4) by (simp add: word_le_nat_alt)
  ultimately show ?thesis
    using assms(1-3,5,9) by (auto simp: reg_get_def reg_inv_def split: if_splits)
qed

definition locals_kept :: "uwasm_machine \<Rightarrow> uwasm_machine \<Rightarrow> bool" where
  "locals_kept m m' \<longleftrightarrow>
    (\<forall>i v. i < unpack16 0 (caller_shs m) \<longrightarrow> i32_get m i = Inr v \<longrightarrow> i32_get m' i = Inr v) \<and>
    (\<forall>i v. i < unpack16 1 (caller_shs m) \<longrightarrow> i64_get m i = Inr v \<longrightarrow> i64_get m' i = Inr v) \<and>
    (\<forall>i v. i < unpack16 2 (caller_shs m) \<longrightarrow> f32_get m i = Inr v \<longrightarrow> f32_get m' i = Inr v) \<and>
    (\<forall>i v. i < unpack16 3 (caller_shs m) \<longrightarrow> f64_get m i = Inr v \<longrightarrow> f64_get m' i = Inr v)"

lemma cells_kept_locals:
  assumes "minv m" "minv m'" "same_fps (current m') (current m)" "sizes_le m m'"
    and "past_locals m c" "cells_kept c m m'"
  shows "locals_kept m m'"
proof -
  note fps = assms(1-3) [unfolded minv_defs same_fps_def]
  note kept = assms(5,6) [unfolded past_locals_def cells_kept_def]
  note sz = assms(4) [unfolded sizes_le_def sizes_def, simplified]
  have "reg_get (reg_i32 m') i = Inr v" if "i < unpack16 0 (caller_shs m)" "reg_get (reg_i32 m) i = Inr v" for i v
    by (rule local_kept [OF _ _ _ _ _ _ _ that])
      (use fps kept sz minv_fp_bound [OF assms(1)] unpack16_less in simp_all)
  moreover have "reg_get (reg_i64 m') i = Inr v" if "i < unpack16 1 (caller_shs m)" "reg_get (reg_i64 m) i = Inr v" for i v
    by (rule local_kept [OF _ _ _ _ _ _ _ that])
      (use fps kept sz minv_fp_bound [OF assms(1)] unpack16_less in simp_all)
  moreover have "reg_get (reg_f32 m') i = Inr v" if "i < unpack16 2 (caller_shs m)" "reg_get (reg_f32 m) i = Inr v" for i v
    by (rule local_kept [OF _ _ _ _ _ _ _ that])
      (use fps kept sz minv_fp_bound [OF assms(1)] unpack16_less in simp_all)
  moreover have "reg_get (reg_f64 m') i = Inr v" if "i < unpack16 3 (caller_shs m)" "reg_get (reg_f64 m) i = Inr v" for i v
    by (rule local_kept [OF _ _ _ _ _ _ _ that])
      (use fps kept sz minv_fp_bound [OF assms(1)] unpack16_less in simp_all)
  ultimately show ?thesis
    by (auto simp: locals_kept_def i32_get_def i64_get_def f32_get_def f64_get_def)
qed


text \<open>C4: in every state the interpreter reaches from \<^verbatim>\<open>Init_env\<close> on a fresh machine, the frame pointers of
  the four register files are the ones in the current context, the saved contexts form a chain down
  to an entry frame at register zero, at most 1024 contexts are saved, and no frame pointer exceeds
  1024 times 65535, so the 32-bit frame pointer arithmetic never wraps.\<close>

theorem reachable_invariant:
  assumes "fresh m0" and "sys_ok H" and "Init_env f m0 = Inr m1" and "reaches H m1 m"
  shows "fps_agree m \<and> chain (m_fp_shs_tab (module m)) (frames m) \<and> length (frames m) \<le> 1025 \<and>
    unat (r_fp (reg_i32 m)) \<le> 2 ^ 27 \<and> unat (r_fp (reg_i64 m)) \<le> 2 ^ 27 \<and>
    unat (r_fp (reg_f32 m)) \<le> 2 ^ 27 \<and> unat (r_fp (reg_f64 m)) \<le> 2 ^ 27"
proof -
  have inv: "minv m" by (rule reaches_minv [OF assms(4) Init_env_minv [OF assms(1,3)] assms(2)])
  then have "length (frames m) \<le> 1025"
    using cs_abs_length [of "ctx_stack m"] by (simp add: minv_defs DEFAULT_STACK_SIZE_def)
  with inv minv_fp_bound [OF inv] show ?thesis by (simp add: minv_def fps_agree_def)
qed

lemma reachable_invariant_witness:
  "fps_agree (state_after ex_host 4 ex_start) \<and> length (frames (state_after ex_host 4 ex_start)) \<le> 1025"
  using reachable_invariant [OF ex_fresh_ok sys_ok_ex_host ex_start ex_reaches [of 4]] by simp

text \<open>C1: a call that returns.  When an instruction of a reachable state enters a function, the machine
  runs without leaving it and then leaves it, execution continues at the instruction after the call
  in the caller's own context, with the same contexts below, and every local register of the caller,
  in each of the four files, still has its value.\<close>

theorem call_preserves_locals:
  assumes "fresh m0" and "sys_ok H" and "Init_env f m0 = Inr m_init" and "reaches H m_init m"
    and "exec1 H m m1" and "length (frames m1) = Suc (length (frames m))"
    and "reaches_above H (Suc (length (frames m))) m1 m2"
    and "exec1 H m2 m3" and "length (frames m3) = length (frames m)"
  shows "current m3 = (current m)\<lparr>x_pc := map_option Suc (x_pc (current m))\<rparr> \<and>
    cs_abs (ctx_stack m3) = cs_abs (ctx_stack m) \<and> locals_kept m m3"
proof -
  have inv: "minv m" by (rule reaches_minv [OF assms(4) Init_env_minv [OF assms(1,3)] assms(2)])
  note ret = call_to_return [OF inv assms(2,5-9)]
  then have frame: "current m3 = (current m)\<lparr>x_pc := map_option Suc (x_pc (current m))\<rparr>"
    "cs_abs (ctx_stack m3) = cs_abs (ctx_stack m)" by (simp_all add: frames_def)
  then have "same_fps (current m3) (current m)" by (simp add: same_fps_def)
  from frame cells_kept_locals [OF inv ret(3) this ret(5,4,2)] show ?thesis by simp
qed

lemma ex_call:
  "exec1 ex_host (state_after ex_host 2 ex_start) (state_after ex_host 3 ex_start)"
  "reaches_above ex_host (Suc (length (frames (state_after ex_host 2 ex_start))))
    (state_after ex_host 3 ex_start) (state_after ex_host 4 ex_start)"
  "exec1 ex_host (state_after ex_host 4 ex_start) (state_after ex_host 5 ex_start)"
proof -
  note steps = ex_step [of 2, simplified] ex_step [of 3, simplified] ex_step [of 4, simplified]
  show "exec1 ex_host (state_after ex_host 2 ex_start) (state_after ex_host 3 ex_start)"
    "exec1 ex_host (state_after ex_host 4 ex_start) (state_after ex_host 5 ex_start)"
    by (fact steps)+
  show "reaches_above ex_host (Suc (length (frames (state_after ex_host 2 ex_start))))
      (state_after ex_host 3 ex_start) (state_after ex_host 4 ex_start)"
    by (rule above_step [OF _ steps(2) above_refl]) (simp_all add: ex_depth)
qed

lemma call_preserves_locals_witness:
  "locals_kept (state_after ex_host 2 ex_start) (state_after ex_host 5 ex_start)"
  using call_preserves_locals [OF ex_fresh_ok sys_ok_ex_host ex_start ex_reaches [of 2]
      ex_call(1) _ ex_call(2,3)] by (simp add: ex_depth)

section \<open>The registers of a frame\<close>

lemma reg_holds_get:
  assumes "reg_inv r" and "reg_holds r (unat n)" and "i < n"
  shows "\<exists>v. reg_get r i = Inr v"
  by (rule reg.get_total [OF assms(1,2)]) (use assms(3) in \<open>simp add: word_less_nat_alt\<close>)

lemma alloc_nonzero_holds:
  assumes "unat (r_fp r) \<le> 2 ^ 27" and "unat n \<le> 65535" and "reg_inv r" and "i < n"
  shows "\<exists>v. reg_get (alloc_nonzero n r) i = Inr v"
proof (rule reg_holds_get [OF _ _ assms(4)])
  show "reg_inv (alloc_nonzero n r)" using assms(3) by simp
  show "reg_holds (alloc_nonzero n r) (unat n)"
    using Alloc_small(2) [OF assms(1,2)] assms(4) by (auto simp: alloc_nonzero_def)
qed

lemma Alloc_holds:
  assumes "unat (r_fp r) \<le> 2 ^ 27" and "unat n \<le> 65535" and "reg_inv r" and "i < n"
  shows "\<exists>v. reg_get (Alloc n r) i = Inr v"
  by (rule reg_holds_get [OF reg.inv_alloc [OF assms(3)] Alloc_small(2) [OF assms(1,2)] assms(4)])

definition frame_accessible :: "uwasm_machine \<Rightarrow> u64 \<Rightarrow> bool" where
  "frame_accessible m n \<longleftrightarrow>
    (\<forall>i < unpack16 0 n. \<exists>v. i32_get m i = Inr v) \<and> (\<forall>i < unpack16 1 n. \<exists>v. i64_get m i = Inr v) \<and>
    (\<forall>i < unpack16 2 n. \<exists>v. f32_get m i = Inr v) \<and> (\<forall>i < unpack16 3 n. \<exists>v. f64_get m i = Inr v)"

lemma alloc_frames_accessible:
  assumes "minv m"
  shows "frame_accessible (alloc_frames n m) n"
proof -
  note b = minv_fp_bound [OF assms] assms [unfolded minv_defs]
  show ?thesis
  proof (cases "n > 0xffff")
    case True
    with b unpack16_less [of _ n] show ?thesis
      by (auto simp: frame_accessible_def alloc_frames_def i32_get_def i64_get_def f32_get_def
          f64_get_def intro!: Alloc_holds alloc_nonzero_holds)
  next
    case False
    then have "unpack16 1 n = 0" "unpack16 2 n = 0" "unpack16 3 n = 0" "unpack16 0 n = ucast n"
      using unpack16_small [of n] by simp_all
    with False b unpack16_less [of 0 n] show ?thesis
      by (auto simp: frame_accessible_def alloc_frames_def i32_get_def intro!: Alloc_holds)
  qed
qed

lemma enter_callee_accessible:
  assumes "minv m" and "enter_callee idx m = Inr m'"
  shows "\<exists>n. Get_reg_num m' idx = Inr n \<and> frame_accessible m' n"
proof -
  from assms(2) obtain lab_tab base m3 n where
    alloc: "Allocate_stack idx (Set_pc base (m\<lparr>current := (current m)\<lparr>x_label_tab := lab_tab\<rparr>\<rparr>)) = Inr m3"
    and n: "Get_reg_num m3 idx = Inr n" and m': "m' = alloc_frames n m3"
    by (auto simp: enter_callee_def Let_def)
  have "minv (Set_pc base (m\<lparr>current := (current m)\<lparr>x_label_tab := lab_tab\<rparr>\<rparr>))"
    unfolding Set_pc_def by simp (rule minv_context [OF assms(1)], simp_all)
  then have "minv m3" by (rule Allocate_stack_minv [OF _ alloc])
  from alloc_frames_accessible [OF this, of n] n m' show ?thesis
    by (auto simp: Get_reg_num_def)
qed

text \<open>C10: every register a function declares is inside its register file when the function starts: after a
  call into a function of the module, all the registers below the callee's register counts can be
  read, in each of the four files, however deep the call is.\<close>

theorem callee_registers_accessible:
  assumes "fresh m0" and "sys_ok H" and "Init_env f m0 = Inr m_init" and "reaches H m_init m"
    and "Get_func (module m) (unat callee) = Inr fn"
    and "\<not> Is_set_flag F_EXTERN fn" and "\<not> Is_set_flag F_NATIVE fn"
    and "Func_prologue H callee m = Inr m'"
  shows "\<exists>n. Get_reg_num m' callee = Inr n \<and> frame_accessible m' n"
proof -
  have inv: "minv m" by (rule reaches_minv [OF assms(4) Init_env_minv [OF assms(1,3)] assms(2)])
  from assms(5-8) obtain s shs where push: "Push (current m) (ctx_stack m) = Inr s"
    and "Get_fp_shs_num (m\<lparr>ctx_stack := s, current := (current m)\<lparr>x_func_idx := callee\<rparr>\<rparr>)
          (x_func_idx (current m)) = Inr shs"
    and enter: "enter_callee callee
        (shift_frames shs (m\<lparr>ctx_stack := s, current := (current m)\<lparr>x_func_idx := callee\<rparr>\<rparr>)) = Inr m'"
    by (auto simp: Func_prologue_def Let_def)
  then have "Get_fp_shs_num m (x_func_idx (current m)) = Inr shs" by (simp add: Get_fp_shs_num_def)
  from minv_push_shift [OF inv push this, of callee] show ?thesis
    by (blast intro: enter_callee_accessible [OF _ enter])
qed

lemma callee_registers_accessible_witness:
  "\<exists>m' n. Func_prologue ex_host 1 ex_start = Inr m' \<and> Get_reg_num m' 1 = Inr n \<and>
    n = 3 \<and> frame_accessible m' n"
proof -
  have "Get_func (module ex_start) (unat (1 :: u32)) = Inr (UBH_FUNC 0 0 0 1)"
    "\<not> Is_set_flag F_EXTERN (UBH_FUNC 0 0 0 1)" "\<not> Is_set_flag F_NATIVE (UBH_FUNC 0 0 0 1)"
    by (simp_all add: run_ops)
  note hyps = this
  obtain m' where m': "Func_prologue ex_host 1 ex_start = Inr m'" "Get_reg_num m' 1 = Inr 3"
    by (simp add: run_ops)
  from callee_registers_accessible [OF ex_fresh_ok sys_ok_ex_host ex_start reaches.refl hyps m'(1)] m'
  show ?thesis by simp
qed

text \<open>C15: a call with 1024 contexts saved fails: the vector of contexts never grows, and the push writes
  past its end.\<close>

theorem call_depth_limit:
  assumes "minv m" and "length (frames m) = 1025" and "Get_func (module m) (unat callee) = Inr fn"
  shows "Func_prologue H callee m = Inl Out_of_block"
proof -
  have "cs_inv (ctx_stack m)" "cs_size (ctx_stack m) = 1024" "length (cs_abs (ctx_stack m)) = 1024"
    using assms(1,2) by (simp_all add: minv_defs DEFAULT_STACK_SIZE_def)
  then have "cs_room (ctx_stack m) = 0" by (auto simp: cs_abs_def cs_room_def cs_inv_def)
  with cstk.push_full \<open>cs_inv (ctx_stack m)\<close> assms(3) show ?thesis
    by (simp add: Func_prologue_def)
qed

text \<open>A machine with all its context slots in use.\<close>

definition ex_full :: uwasm_machine where
  "ex_full = ex_fresh\<lparr>ctx_stack := CONTEXT_STACK\<lparr>cs_top := 1023, cs_vec := (\<lambda>i. EXEC_CONTEXT)\<rparr>\<rparr>"

lemma cs_abs_const: "cs_vec s = (\<lambda>i. c) \<Longrightarrow> cs_abs s = replicate (nat (cs_top s + 1)) c"
  by (simp add: cs_abs_def map_replicate_const)

lemma ex_full_frames: "frames ex_full = replicate (Suc (nat (1023 + 1))) EXEC_CONTEXT"
  unfolding frames_def ex_full_def replicate_Suc
  by (subst cs_abs_const [where c = EXEC_CONTEXT]) (simp_all add: ex_fresh_def)

lemma call_depth_limit_witness:
  "Func_prologue ex_host 1 ex_full = Inl Out_of_block"
proof (rule call_depth_limit)
  have "successively (link shs) (replicate n EXEC_CONTEXT)" for shs n
    by (induction n) (auto simp: successively_Cons link_def fp_step_def)
  then show "minv ex_full"
    using ex_fresh_ok by (simp add: minv_def ex_full_frames chain_def same_fps_def)
      (simp add: ex_full_def fresh_def cs_inv_def ex_fresh_def CONTEXT_STACK_def DEFAULT_STACK_SIZE_def
        regs_inv_def fps_agree_def EXEC_CONTEXT_def)
  show "length (frames ex_full) = 1025" by (simp add: ex_full_frames)
  show "Get_func (module ex_full) (unat (1 :: u32)) = Inr (UBH_FUNC 0 0 0 1)"
    by (simp add: ex_full_def run_ops)
qed

section \<open>The interpreter loop\<close>

text \<open>C11: an instruction that is not a call, an indirect call or a return leaves the frame as it was: the saved
  contexts, the four frame pointers, every register below the frame, the sizes of the register files and
  the current context except its program counter; the module changes at most in the instruction table.\<close>

theorem instruction_keeps_frame:
  assumes "exec_step H m = Inr (Running m')"
    and "x_pc (current m) = Some p" and "arr_at (m_expanded_table (module m)) p = Inr inst"
    and "op_action (Get_opcode_l inst) \<notin> {Brk (op Return_am32), Cont (op_h Call_am32_ofs), Cont Call_indirect_am32_r}"
  shows "frame_eq m m'"
proof -
  have "action_ok (op_action (Get_opcode_l inst))" by (rule op_action_ok)
  with assms show ?thesis
    by (auto simp: exec_step_def action_ok_def pres_def split: action.splits intro: frame_eq_Inc_pc)
qed

lemma instruction_keeps_frame_witness:
  "frame_eq ex_start (state_after ex_host 1 ex_start)"
proof (rule instruction_keeps_frame [where p = 0 and inst = "am 80 1 0 20"])
  show "exec_step ex_host ex_start = Inr (Running (state_after ex_host 1 ex_start))"
    using ex_step [of 0] by (simp add: exec1_iff state_after_def)
  show "x_pc (current ex_start) = Some 0"
    "arr_at (m_expanded_table (module ex_start)) 0 = Inr (am 80 1 0 20)" by (simp_all add: run_ops)
  show "op_action (Get_opcode_l (am 80 1 0 20)) \<notin>
      {Brk (op Return_am32), Cont (op_h Call_am32_ofs), Cont Call_indirect_am32_r}"
  proof -
    have "Const_i32_am32_r_imm \<noteq> Return_am32"
    proof
      assume "Const_i32_am32_r_imm = Return_am32"
      then have "Const_i32_am32_r_imm (am 80 0 0 0) ex_fresh = Return_am32 (am 80 0 0 0) ex_fresh" by simp
      then show False by (simp add: run_ops)
    qed
    then show ?thesis by (auto simp: Get_opcode_l_def am_def op_action_ex op_def fun_eq_iff)
  qed
qed

end
