(* ===== verification/Expand_Props.thy ===== *)
theory Expand_Props
  imports U_Module
begin

text \<open>
  Expanding the code of a module.  A table of instructions built by \<^verbatim>\<open>Add_inst\<close> decodes to the
  instructions it was built from; \<^verbatim>\<open>Expand_code\<close> on a module whose functions were built that way
  lays the decoded instructions out function after function, with function entries and labels
  pointing at the decoded counterparts of the words they named.
\<close>

section \<open>Instruction tables\<close>

text \<open>\<open>program_at tab p is\<close>: from word \<open>p\<close> on the table holds the instructions \<open>is\<close>.\<close>

fun program_at :: "u32 list \<Rightarrow> nat \<Rightarrow> uinst list \<Rightarrow> bool" where
  "program_at tab p [] = True"
| "program_at tab p (i # is) \<longleftrightarrow>
    (\<forall>e. \<exists>ip. iter_deref tab p = Inr ip \<and> expand_inst ip e = Inr (inst_expanded i e)) \<and>
    iter_next tab p = Inr (p + inst_words i) \<and> program_at tab (p + inst_words i) is"

definition prog_words :: "uinst list \<Rightarrow> nat" where
  "prog_words is = sum_list (map inst_words is)"

text \<open>Word offset of the \<open>k\<close>-th instruction.\<close>

definition inst_off :: "uinst list \<Rightarrow> nat \<Rightarrow> nat" where
  "inst_off is k = prog_words (take k is)"

lemma inst_words_pos: "0 < inst_words i"
  by (cases i) (simp add: inst_words_def)

lemma prog_words_simps [simp]:
  "prog_words [] = 0" "prog_words (i # is) = inst_words i + prog_words is"
  "prog_words (is @ js) = prog_words is + prog_words js"
  by (simp_all add: prog_words_def)

lemma inst_off_simps [simp]:
  "inst_off is 0 = 0" "inst_off (i # is) (Suc k) = inst_words i + inst_off is k"
  by (simp_all add: inst_off_def)

lemma length_le_prog_words: "length is \<le> prog_words is"
proof (induction "is")
  case (Cons i "is")
  then show ?case using inst_words_pos [of i] by simp
qed simp

lemma inst_off_less: "k < length is \<Longrightarrow> inst_off is k < prog_words is"
proof (induction "is" arbitrary: k)
  case (Cons i "is")
  then show ?case using inst_words_pos [of i] by (cases k) auto
qed simp

lemma add_insts_program:
  assumes "list_all inst_ok is"
  shows "\<exists>ws. foldr_res Add_inst_of is tab = Inr (tab @ ws) \<and> length ws = prog_words is \<and>
    (\<forall>rest. program_at (tab @ ws @ rest) (length tab) is)"
  using assms
proof (induction "is" arbitrary: tab)
  case (Cons i "is")
  have "\<exists>ws. Add_inst_of i tab = Inr (tab @ ws) \<and> length ws = inst_words i \<and>
    (\<forall>rest. (\<forall>e. \<exists>ip. iter_deref (tab @ ws @ rest) (length tab) = Inr ip \<and> expand_inst ip e = Inr (inst_expanded i e)) \<and>
      iter_next (tab @ ws @ rest) (length tab) = Inr (length tab + inst_words i))"
  proof -
    have "inst_ok i" using Cons.prems by simp
    then obtain ws where ws: "Add_inst_of i tab = Inr (tab @ ws)" using Add_inst_decodes by blast
    with Add_inst_decodes [OF \<open>inst_ok i\<close>, of tab] show ?thesis by (intro exI [of _ ws]) fastforce
  qed
  then obtain ws where ws: "Add_inst_of i tab = Inr (tab @ ws)" "length ws = inst_words i"
    "\<And>rest. (\<forall>e. \<exists>ip. iter_deref (tab @ ws @ rest) (length tab) = Inr ip \<and> expand_inst ip e = Inr (inst_expanded i e)) \<and>
      iter_next (tab @ ws @ rest) (length tab) = Inr (length tab + inst_words i)" by blast
  from Cons.IH [of "tab @ ws"] Cons.prems obtain ws' where
    ws': "foldr_res Add_inst_of is (tab @ ws) = Inr (tab @ ws @ ws')" "length ws' = prog_words is"
    "\<And>rest. program_at (tab @ ws @ ws' @ rest) (length tab + length ws) is" by auto
  show ?case
    using ws ws' by (intro exI [of _ "ws @ ws'"]) auto
qed simp

section \<open>The instruction loop\<close>

text \<open>What the loop over one function does to the arrays, from expanded index \<open>n\<close> and word \<open>w\<close>.\<close>

definition expands :: "uinst list \<Rightarrow> nat \<Rightarrow> nat \<Rightarrow> expand_state \<Rightarrow> expand_state \<Rightarrow> bool" where
  "expands is n w st st' \<longleftrightarrow>
    x_num st' = n + length is \<and>
    length (x_table st') = length (x_table st) \<and> length (x_origin st') = length (x_origin st) \<and>
    length (x_expanded st') = length (x_expanded st) \<and>
    (\<forall>k < length is. x_table st' ! (n + k) = inst_expanded (is ! k) (x_table st ! (n + k)) \<and>
      x_origin st' ! (w + inst_off is k) = of_nat (n + k) \<and>
      x_expanded st' ! (n + k) = of_nat (w + inst_off is k)) \<and>
    (\<forall>j. j < n \<or> n + length is \<le> j \<longrightarrow> x_table st' ! j = x_table st ! j \<and> x_expanded st' ! j = x_expanded st ! j) \<and>
    (\<forall>j. j < w \<or> w + prog_words is \<le> j \<longrightarrow> x_origin st' ! j = x_origin st ! j)"

definition room :: "uinst list \<Rightarrow> nat \<Rightarrow> nat \<Rightarrow> expand_state \<Rightarrow> bool" where
  "room is n w st \<longleftrightarrow> n + length is \<le> length (x_table st) \<and> n + length is \<le> length (x_expanded st) \<and>
    w + prog_words is \<le> length (x_origin st)"

lemma expand_step_ok:
  assumes "x_num st = n" and "room (i # is) n (base + p) st"
    and "\<exists>ip. iter_deref tab p = Inr ip \<and> expand_inst ip (x_table st ! n) = Inr (inst_expanded i (x_table st ! n))"
  shows "\<exists>st1. expand_step tab base f p st = Inr st1 \<and> x_num st1 = Suc n \<and>
    x_table st1 = (x_table st)[n := inst_expanded i (x_table st ! n)] \<and>
    x_origin st1 = (x_origin st)[base + p := of_nat n] \<and>
    x_expanded st1 = (x_expanded st)[n := of_nat (base + p)]"
proof -
  have "n < length (x_table st)" "n < length (x_expanded st)" "base + p < length (x_origin st)"
    using assms(2) inst_words_pos [of i] by (auto simp: room_def)
  with assms(1,3) show ?thesis by (auto simp: expand_step_def arr_at_def arr_upd_def)
qed

lemma expands_Cons:
  assumes "room (i # is) n w st"
    and "x_num st1 = Suc n" "x_table st1 = (x_table st)[n := inst_expanded i (x_table st ! n)]"
    and "x_origin st1 = (x_origin st)[w := of_nat n]" "x_expanded st1 = (x_expanded st)[n := of_nat w]"
    and "expands is (Suc n) (w + inst_words i) st1 st'"
  shows "expands (i # is) n w st st'"
proof -
  note b = assms(1) [unfolded room_def] inst_words_pos [of i]
  note E = assms(6) [unfolded expands_def]
  have "x_table st' ! (n + k) = inst_expanded ((i # is) ! k) (x_table st ! (n + k)) \<and>
      x_origin st' ! (w + inst_off (i # is) k) = of_nat (n + k) \<and>
      x_expanded st' ! (n + k) = of_nat (w + inst_off (i # is) k)" if "k < length (i # is)" for k
  proof (cases k)
    case 0
    with E assms(3-5) b show ?thesis by simp
  next
    case (Suc l)
    with that E have "l < length is" by simp
    with E Suc assms(3-5) show ?thesis by (force simp: add.assoc)
  qed
  moreover have "x_table st' ! j = x_table st ! j \<and> x_expanded st' ! j = x_expanded st ! j"
    if "j < n \<or> n + length (i # is) \<le> j" for j
    using that E assms(3,5) by force
  moreover have "x_origin st' ! j = x_origin st ! j" if "j < w \<or> w + prog_words (i # is) \<le> j" for j
    using that E assms(4) b by force
  ultimately show ?thesis using E assms(2-5) unfolding expands_def by simp
qed

lemma expand_loop_ok:
  assumes "program_at tab p is" and "x_num st = n" and "code_sz = p + prog_words is"
    and "room is n (base + p) st"
  shows "\<exists>st'. expand_loop tab code_sz base f p st = Inr st' \<and> expands is n (base + p) st st'"
  using assms
proof (induction "is" arbitrary: p st n)
  case Nil
  then show ?case by (simp add: expand_loop.simps expands_def)
next
  case (Cons i "is")
  from Cons.prems(1) have dec: "\<And>e. \<exists>ip. iter_deref tab p = Inr ip \<and> expand_inst ip e = Inr (inst_expanded i e)"
    and nxt: "iter_next tab p = Inr (p + inst_words i)" and prog: "program_at tab (p + inst_words i) is"
    by auto
  obtain st1 where st1: "expand_step tab base f p st = Inr st1" "x_num st1 = Suc n"
    "x_table st1 = (x_table st)[n := inst_expanded i (x_table st ! n)]"
    "x_origin st1 = (x_origin st)[base + p := of_nat n]"
    "x_expanded st1 = (x_expanded st)[n := of_nat (base + p)]"
    using expand_step_ok [OF Cons.prems(2,4) dec] by blast
  have "room is (Suc n) (base + (p + inst_words i)) st1"
    using Cons.prems(4) st1 by (simp add: room_def)
  from Cons.IH [OF prog st1(2) _ this] Cons.prems(3) obtain st' where
    st': "expand_loop tab code_sz base f (p + inst_words i) st1 = Inr st'"
    "expands is (Suc n) (base + p + inst_words i) st1 st'" by (auto simp: add.assoc)
  have "p \<noteq> code_sz" using Cons.prems(3) inst_words_pos [of i] by simp
  then have "expand_loop tab code_sz base f p st = Inr st'"
    using st1(1) st'(1) nxt by (simp add: expand_loop.simps [of tab code_sz base f p st])
  with expands_Cons [OF Cons.prems(4) st1(2-5) st'(2)] show ?case by blast
qed

section \<open>The functions of a module\<close>

text \<open>
  \<open>code_holds code is ls\<close>: the code entry holds the instructions \<open>is\<close>, and its \<open>j\<close>-th label is the
  instruction with index \<open>ls ! j\<close>.
\<close>

definition code_holds :: "ubh_code \<Rightarrow> uinst list \<Rightarrow> nat list \<Rightarrow> bool" where
  "code_holds code is ls \<longleftrightarrow>
    program_at (c_inst_tab code) 0 is \<and> unat (c_code_size code) = prog_words is \<and>
    unat (c_label_num code) = length ls \<and> length (c_label_tab code) = length ls \<and>
    (\<forall>j < length ls. ls ! j < length is \<and> c_label_tab code ! j = of_nat (inst_off is (ls ! j)))"

text \<open>Functions below \<open>n\<close>: external ones have no instructions, the others hold \<open>prog i\<close> with labels \<open>labs i\<close>.\<close>

definition module_holds :: "u_module \<Rightarrow> nat \<Rightarrow> (nat \<Rightarrow> uinst list) \<Rightarrow> (nat \<Rightarrow> nat list) \<Rightarrow> bool" where
  "module_holds m n prog labs \<longleftrightarrow> (\<forall>i < n. \<exists>func. Get_func m i = Inr func \<and>
    (if Is_set_flag F_EXTERN func then prog i = []
     else prog i \<noteq> [] \<and> (\<exists>ci code. Get_code_idx func = Inr ci \<and> Get_code m ci = Inr code \<and>
       code_holds code (prog i) (labs i))))"

definition start :: "(nat \<Rightarrow> uinst list) \<Rightarrow> nat \<Rightarrow> nat" where
  "start prog i = (\<Sum>j<i. length (prog j))"

definition wbase :: "(nat \<Rightarrow> uinst list) \<Rightarrow> nat \<Rightarrow> nat" where
  "wbase prog i = (\<Sum>j<i. prog_words (prog j))"

lemma start_simps [simp]: "start prog 0 = 0" "start prog (Suc i) = start prog i + length (prog i)"
  by (simp_all add: start_def)

lemma wbase_simps [simp]: "wbase prog 0 = 0" "wbase prog (Suc i) = wbase prog i + prog_words (prog i)"
  by (simp_all add: wbase_def)

lemma start_mono: "i \<le> j \<Longrightarrow> start prog i \<le> start prog j"
  unfolding start_def by (rule sum_mono2) auto

lemma wbase_mono: "i \<le> j \<Longrightarrow> wbase prog i \<le> wbase prog j"
  unfolding wbase_def by (rule sum_mono2) auto

lemma start_le_wbase: "start prog i \<le> wbase prog i"
  unfolding start_def wbase_def by (rule sum_mono) (rule length_le_prog_words)

lemma start_before: "j < i \<Longrightarrow> k < length (prog j) \<Longrightarrow> start prog j + k < start prog i"
  using start_mono [of "Suc j" i prog] by simp

lemma wbase_before: "j < i \<Longrightarrow> k < length (prog j) \<Longrightarrow> wbase prog j + inst_off (prog j) k < wbase prog i"
  using wbase_mono [of "Suc j" i prog] inst_off_less [of k "prog j"] by simp

lemma module_holds_cases:
  assumes "module_holds m n prog labs" and "i < n"
  obtains (extern) func where "Get_func m i = Inr func" and "Is_set_flag F_EXTERN func" and "prog i = []"
  | (code) func ci code where "Get_func m i = Inr func" and "\<not> Is_set_flag F_EXTERN func" and "prog i \<noteq> []"
    and "Get_code_idx func = Inr ci" and "Get_code m ci = Inr code" and "code_holds code (prog i) (labs i)"
proof -
  from assms obtain func where f: "Get_func m i = Inr func"
    "if Is_set_flag F_EXTERN func then prog i = []
     else prog i \<noteq> [] \<and> (\<exists>ci code. Get_code_idx func = Inr ci \<and> Get_code m ci = Inr code \<and>
       code_holds code (prog i) (labs i))"
    unfolding module_holds_def by blast
  show thesis
  proof (cases "Is_set_flag F_EXTERN func")
    case True
    with f show ?thesis by (intro extern) simp_all
  next
    case False
    with f obtain ci code where "Get_code_idx func = Inr ci" "Get_code m ci = Inr code"
      "code_holds code (prog i) (labs i)" "prog i \<noteq> []" by auto
    with f(1) False show ?thesis by (intro code)
  qed
qed

text \<open>The first pass adds up the sizes.\<close>

lemma func_code_size_sum:
  assumes "module_holds m n prog labs" and "k \<le> n"
  shows "foldr_res (func_code_size m) [0..<k] 0 = Inr (wbase prog k)"
  using assms(2)
proof (induction k)
  case (Suc k)
  then have "k < n" by simp
  with assms(1) have "func_code_size m k (wbase prog k) = Inr (wbase prog (Suc k))"
    by (cases rule: module_holds_cases) (simp_all add: func_code_size_def code_holds_def)
  with Suc show ?case by (simp add: foldr_res_append)
qed simp

text \<open>The arrays after the functions below \<open>i\<close>; \<open>T\<close> is the initial instruction array.\<close>

definition func_expanded :: "am_expand list \<Rightarrow> (nat \<Rightarrow> uinst list) \<Rightarrow> (nat \<Rightarrow> nat list) \<Rightarrow> nat \<Rightarrow>
    am_expand list \<Rightarrow> nat option list \<Rightarrow> nat list option list \<Rightarrow> bool" where
  "func_expanded T prog labs j table func_base lab_tab \<longleftrightarrow>
    func_base ! j = Some (start prog j) \<and> lab_tab ! j = Some (map ((+) (start prog j)) (labs j)) \<and>
    (\<forall>k < length (prog j). table ! (start prog j + k) = inst_expanded (prog j ! k) (T ! (start prog j + k)))"

definition expand_inv :: "nat \<Rightarrow> am_expand list \<Rightarrow> (nat \<Rightarrow> uinst list) \<Rightarrow> (nat \<Rightarrow> nat list) \<Rightarrow> nat \<Rightarrow>
    expand_out \<Rightarrow> bool" where
  "expand_inv n T prog labs i o1 \<longleftrightarrow>
    o_base o1 = wbase prog i \<and> x_num (o_st o1) = start prog i \<and>
    length (x_table (o_st o1)) = wbase prog n + 2 \<and> length T = wbase prog n + 2 \<and>
    length (x_origin (o_st o1)) = wbase prog n \<and> length (x_expanded (o_st o1)) = wbase prog n \<and>
    length (o_func_base o1) = n \<and> length (o_lab_tab o1) = n \<and>
    (\<forall>j \<ge> start prog i. x_table (o_st o1) ! j = T ! j) \<and>
    (\<forall>j < i. prog j \<noteq> [] \<longrightarrow>
      func_expanded T prog labs j (x_table (o_st o1)) (o_func_base o1) (o_lab_tab o1))"

lemma expand_func_extern:
  assumes "expand_inv n T prog labs i o1" and "Get_func m i = Inr func"
    and "Is_set_flag F_EXTERN func" and "prog i = []"
  shows "expand_func m i o1 = Inr o1" and "expand_inv n T prog labs (Suc i) o1"
  using assms by (auto simp: expand_func_def expand_inv_def less_Suc_eq)

lemma labels_expand:
  assumes "code_holds code is ls" and "expands is n w st st'" and "w + prog_words is \<le> length (x_origin st)"
    and "w + prog_words is < 2 ^ 32" and "n + length is < 2 ^ 32"
  shows "mapr (\<lambda>j. bindr (arr_at (c_label_tab code) j) (\<lambda>l.
      bindr (arr_at (x_origin st') (unat (of_nat w + l :: u32))) (\<lambda>x. Inr (unat x))))
    [0..<unat (c_label_num code)] = Inr (map ((+) n) ls)"
proof -
  have "bindr (arr_at (c_label_tab code) j) (\<lambda>l.
      bindr (arr_at (x_origin st') (unat (of_nat w + l :: u32))) (\<lambda>x. Inr (unat x))) = Inr (n + ls ! j)"
    if "j < length ls" for j
  proof -
    have j: "ls ! j < length is" "c_label_tab code ! j = of_nat (inst_off is (ls ! j))"
      "j < length (c_label_tab code)"
      using assms(1) that by (auto simp: code_holds_def)
    note off = inst_off_less [OF j(1)]
    have "unat (of_nat w + c_label_tab code ! j :: u32) = w + inst_off is (ls ! j)"
      using j(2) off assms(4) by (simp add: unat_of_nat_u32 flip: of_nat_add)
    moreover have "x_origin st' ! (w + inst_off is (ls ! j)) = of_nat (n + ls ! j)"
      "length (x_origin st') = length (x_origin st)"
      using assms(2) j(1) by (auto simp: expands_def)
    ultimately show ?thesis
      using j off assms(3,5) by (simp add: arr_at_def unat_of_nat_u32 flip: of_nat_add)
  qed
  moreover have len: "unat (c_label_num code) = length ls" using assms(1) by (simp add: code_holds_def)
  ultimately have "mapr (\<lambda>j. bindr (arr_at (c_label_tab code) j) (\<lambda>l.
      bindr (arr_at (x_origin st') (unat (of_nat w + l :: u32))) (\<lambda>x. Inr (unat x))))
    [0..<unat (c_label_num code)] = Inr (map (\<lambda>j. n + ls ! j) [0..<length ls])"
    unfolding len by (intro mapr_total) simp
  also have "map (\<lambda>j. n + ls ! j) [0..<length ls] = map ((+) n) ls"
    by (rule nth_equalityI) simp_all
  finally show ?thesis .
qed


lemma expand_func_code:
  assumes inv: "expand_inv n T prog labs i o1" and "i < n" and "wbase prog n < 2 ^ 32"
    and code: "Get_func m i = Inr func" "\<not> Is_set_flag F_EXTERN func" "prog i \<noteq> []"
      "Get_code_idx func = Inr ci" "Get_code m ci = Inr code" "code_holds code (prog i) (labs i)"
  shows "\<exists>o2. expand_func m i o1 = Inr o2 \<and> expand_inv n T prog labs (Suc i) o2"
proof -
  let ?w = "wbase prog i" and ?n = "start prog i" and ?st = "o_st o1"
  have fit: "?w + prog_words (prog i) \<le> wbase prog n" "?n + length (prog i) \<le> wbase prog n"
    using wbase_mono [of "Suc i" n prog] start_mono [of "Suc i" n prog] start_le_wbase [of prog n] \<open>i < n\<close>
    by simp_all
  note I = inv [unfolded expand_inv_def]
  have "room (prog i) ?n (?w + 0) ?st" using I fit by (simp add: room_def)
  with expand_loop_ok [of "c_inst_tab code" 0 "prog i" ?st ?n "unat (c_code_size code)" ?w i] I code(6)
  obtain st where st: "expand_loop (c_inst_tab code) (unat (c_code_size code)) ?w i 0 ?st = Inr st"
    "expands (prog i) ?n ?w ?st st" by (auto simp: code_holds_def)
  note labs = labels_expand [OF code(6) st(2)]
  have pos: "0 < length (prog i)" using code(3) by simp
  have "x_origin st ! (?w + inst_off (prog i) 0) = of_nat (?n + 0)"
    "length (x_origin st) = length (x_origin ?st)"
    using st(2) pos unfolding expands_def by blast+
  moreover have "?w < length (x_origin ?st)"
    using fit(1) pos length_le_prog_words [of "prog i"] I by linarith
  ultimately have base: "arr_at (x_origin st) ?w = Inr (of_nat ?n)" by simp
  let ?o2 = "o1\<lparr>o_st := st, o_base := ?w + unat (c_code_size code),
      o_func_base := (o_func_base o1)[i := Some ?n],
      o_lab_tab := (o_lab_tab o1)[i := Some (map ((+) ?n) (labs i))]\<rparr>"
  have "unat (of_nat ?n :: u32) = ?n" using fit(2) assms(3) by (intro unat_of_nat_u32) simp
  then have "expand_func m i o1 = Inr ?o2"
    using code st(1) labs base I fit assms(2,3)
    by (simp add: expand_func_def Let_def arr_upd_def)
  moreover have "expand_inv n T prog labs (Suc i) ?o2"
  proof -
    have "func_expanded T prog labs j (x_table st) (o_func_base ?o2) (o_lab_tab ?o2)"
      if "j < Suc i" "prog j \<noteq> []" for j
    proof (cases "j = i")
      case True
      with st(2) I \<open>i < n\<close> show ?thesis by (simp add: func_expanded_def expands_def)
    next
      case False
      with that have "j < i" by simp
      with st(2) I that start_before [OF \<open>j < i\<close>, of _ prog] \<open>i < n\<close> show ?thesis
        by (simp add: func_expanded_def expands_def)
    qed
    with st(2) I code(6) show ?thesis by (auto simp: expand_inv_def expands_def code_holds_def)
  qed
  ultimately show ?thesis by blast
qed

lemma expand_funcs:
  assumes "module_holds m n prog labs" and "wbase prog n < 2 ^ 32" and "expand_inv n T prog labs 0 o0"
    and "k \<le> n"
  shows "\<exists>o1. foldr_res (expand_func m) [0..<k] o0 = Inr o1 \<and> expand_inv n T prog labs k o1"
  using assms(4)
proof (induction k)
  case (Suc k)
  then obtain o1 where o1: "foldr_res (expand_func m) [0..<k] o0 = Inr o1" "expand_inv n T prog labs k o1"
    by auto
  from Suc.prems have "k < n" by simp
  with assms(1) have "\<exists>o2. expand_func m k o1 = Inr o2 \<and> expand_inv n T prog labs (Suc k) o2"
  proof (cases rule: module_holds_cases)
    case (extern func)
    from expand_func_extern [OF o1(2) this] show ?thesis by blast
  next
    case (code func ci code)
    from expand_func_code [OF o1(2) \<open>k < n\<close> assms(2) this] show ?thesis .
  qed
  with o1(1) show ?case by (auto simp: foldr_res_append)
qed (use assms(3) in simp)

lemma Expand_code_ok:
  assumes "sec_elem_num m S_FUNC = Inr n" and "module_holds m n prog labs" and "wbase prog n < 2 ^ 32"
  shows "\<exists>m'. Expand_code ind m = Inr m' \<and>
    (\<forall>j < n. prog j \<noteq> [] \<longrightarrow> func_expanded (map (junk_am ind) [0..<wbase prog n + 2]) prog labs j
      (m_expanded_table m') (m_expanded_func_base m') (m_lab_tab m')) \<and>
    m_end_pc m' = start prog n \<and> Suc (start prog n) < length (m_expanded_table m') \<and>
    Get_opcode_l (m_expanded_table m' ! Suc (start prog n)) = push_bit VALTY_SZ OPC_BREAK"
proof -
  let ?T = "map (junk_am ind) [0..<wbase prog n + 2]"
  define o0 where "o0 = \<lparr>o_st = \<lparr>x_num = 0, x_table = ?T, x_origin = map (junk_u32 ind) [0..<wbase prog n],
        x_expanded = map (junk_u32 ind) [0..<wbase prog n], x_exp_to_pc = m_exp_to_pc_map m\<rparr>,
      o_base = 0, o_func_base = replicate n None, o_lab_tab = replicate n None\<rparr>"
  have "expand_inv n ?T prog labs 0 o0" by (simp add: expand_inv_def o0_def)
  from expand_funcs [OF assms(2,3) this order_refl] obtain o1 where
    o1: "foldr_res (expand_func m) [0..<n] o0 = Inr o1" "expand_inv n ?T prog labs n o1" by blast
  note I = o1(2) [unfolded expand_inv_def]
  have room: "Suc (start prog n) < length (x_table (o_st o1))"
    using I start_le_wbase [of prog n] by simp
  let ?e = "Set_opcode (push_bit VALTY_SZ OPC_BREAK) (x_table (o_st o1) ! Suc (start prog n))"
  let ?m = "m\<lparr>m_expanded_table := (x_table (o_st o1))[Suc (start prog n) := ?e],
      m_expanded_func_base := o_func_base o1, m_lab_tab := o_lab_tab o1, m_end_pc := start prog n,
      m_expanded_pc_map := x_expanded (o_st o1), m_origin_pc_map := x_origin (o_st o1),
      m_exp_to_pc_map := x_exp_to_pc (o_st o1)\<rparr>"
  have num: "x_num (o_st o1) = start prog n" using I by simp
  have "Expand_code ind m = Inr ?m"
    unfolding Expand_code_def assms(1) func_code_size_sum [OF assms(2) order_refl] bindr_simps Let_def
      o0_def [symmetric] o1(1)
    using num room by (simp add: arr_at_def)
  moreover have "func_expanded ?T prog labs j (m_expanded_table ?m) (m_expanded_func_base ?m) (m_lab_tab ?m)"
    if "j < n" "prog j \<noteq> []" for j
  proof -
    have "func_expanded ?T prog labs j (x_table (o_st o1)) (o_func_base o1) (o_lab_tab o1)"
      using I that by blast
    moreover have "Suc (start prog n) \<noteq> start prog j + k" if "k < length (prog j)" for k
      using start_before [of j n k prog] \<open>j < n\<close> that by simp
    ultimately show ?thesis unfolding func_expanded_def by simp
  qed
  moreover have "Get_opcode_l (m_expanded_table ?m ! Suc (start prog n)) = push_bit VALTY_SZ OPC_BREAK"
    using room by (simp add: Get_opcode_l_def Set_opcode_def)
  ultimately show ?thesis using room by auto
qed


section \<open>From the encoder to the expanded table\<close>

text \<open>A code entry as the encoder fills it: instructions appended one by one, labels at word offsets.\<close>

definition code_encodes :: "ubh_code \<Rightarrow> uinst list \<Rightarrow> nat list \<Rightarrow> bool" where
  "code_encodes code is ls \<longleftrightarrow>
    foldr_res Add_inst_of is [] = Inr (c_inst_tab code) \<and>
    unat (c_code_size code) = length (c_inst_tab code) \<and>
    unat (c_label_num code) = length ls \<and> length (c_label_tab code) = length ls \<and>
    (\<forall>j < length ls. ls ! j < length is \<and> c_label_tab code ! j = of_nat (inst_off is (ls ! j)))"

definition module_encodes :: "u_module \<Rightarrow> nat \<Rightarrow> (nat \<Rightarrow> uinst list) \<Rightarrow> (nat \<Rightarrow> nat list) \<Rightarrow> bool" where
  "module_encodes m n prog labs \<longleftrightarrow> (\<forall>i < n. \<exists>func. Get_func m i = Inr func \<and>
    (if Is_set_flag F_EXTERN func then prog i = []
     else prog i \<noteq> [] \<and> (\<exists>ci code. Get_code_idx func = Inr ci \<and> Get_code m ci = Inr code \<and>
       code_encodes code (prog i) (labs i))))"

lemma code_encodes_holds:
  assumes "code_encodes code is ls" and "list_all inst_ok is"
  shows "code_holds code is ls"
proof -
  from add_insts_program [OF assms(2), of "[]"] obtain ws where
    "foldr_res Add_inst_of is [] = Inr ws" "length ws = prog_words is" "\<And>rest. program_at (ws @ rest) 0 is"
    by auto
  with assms(1) \<open>\<And>rest. program_at (ws @ rest) 0 is\<close> [of "[]"] show ?thesis
    by (auto simp: code_encodes_def code_holds_def)
qed

text \<open>C3: a module assembled by the encoder expands to the instructions it was assembled from.  With the
  functions' code tables built by \<^verbatim>\<open>Add_inst\<close> from representable instructions, \<^verbatim>\<open>Expand_code\<close>
  succeeds; the decoded instruction \<open>k\<close> of function \<open>j\<close>, with all its operands, is at index \<open>k\<close> after the
  function's entry in the expanded table; every label of the function points at the decoded form of the
  instruction it named; and the instruction after \<^verbatim>\<open>_end_pc\<close> is \<^verbatim>\<open>BREAK\<close>.\<close>

theorem Expand_code_roundtrip:
  assumes "sec_elem_num m S_FUNC = Inr n" and "module_encodes m n prog labs"
    and "\<And>i. list_all inst_ok (prog i)" and "wbase prog n < 2 ^ 32"
  shows "\<exists>m'. Expand_code ind m = Inr m' \<and>
    (\<forall>j < n. prog j \<noteq> [] \<longrightarrow>
      m_expanded_func_base m' ! j = Some (start prog j) \<and>
      m_lab_tab m' ! j = Some (map ((+) (start prog j)) (labs j)) \<and>
      (\<forall>k < length (prog j).
        m_expanded_table m' ! (start prog j + k) = inst_expanded (prog j ! k) (junk_am ind (start prog j + k)))) \<and>
    m_end_pc m' = start prog n \<and>
    Get_opcode_l (m_expanded_table m' ! (start prog n + 1)) = push_bit VALTY_SZ OPC_BREAK"
proof -
  have "module_holds m n prog labs"
    using assms(2) code_encodes_holds [OF _ assms(3)]
    unfolding module_encodes_def module_holds_def by (smt (verit))
  from Expand_code_ok [OF assms(1) this assms(4), of ind] obtain m' where
    m': "Expand_code ind m = Inr m'" "m_end_pc m' = start prog n"
    "Get_opcode_l (m_expanded_table m' ! Suc (start prog n)) = push_bit VALTY_SZ OPC_BREAK"
    and fe: "\<And>j. j < n \<Longrightarrow> prog j \<noteq> [] \<Longrightarrow>
      func_expanded (map (junk_am ind) [0..<wbase prog n + 2]) prog labs j
      (m_expanded_table m') (m_expanded_func_base m') (m_lab_tab m')" by blast
  have "map (junk_am ind) [0..<wbase prog n + 2] ! (start prog j + k) = junk_am ind (start prog j + k)"
    if "j < n" "k < length (prog j)" for j k
    using start_before [of j n k prog] that start_le_wbase [of prog n] by (simp add: nth_append)
  with fe m' show ?thesis unfolding func_expanded_def by (intro exI [of _ m']) simp
qed

text \<open>A module with one function: \<^verbatim>\<open>L0: const R0 5; jmp L0\<close>.\<close>

definition ex_prog :: "uinst list" where
  "ex_prog = [(0x14, I32, TY_AM32_R_IMM, [0, 5]), (0x04, I32, TY_AM32_OFS, [0])]"

definition ex_enc_code :: ubh_code where
  "ex_enc_code = (UBH_CODE (1, 0, 0, 0) (0, 0, 0, 0) 0)\<lparr>c_label_num := 1, c_code_size := 2,
    c_inst_tab := (case foldr_res Add_inst_of ex_prog [] of Inr t \<Rightarrow> t | Inl e \<Rightarrow> []), c_label_tab := [0]\<rparr>"

definition ex_enc_module :: u_module where
  "ex_enc_module = \<lparr>m_shdr_tab = [\<lparr>sh_u = 0x00010003, sh_idx = 0\<rparr>], m_sec_map = [S_FUNC \<mapsto> 0], m_type_sec = [],
    m_func_sec = [UBH_FUNC 0 0 0 0], m_code_sec = [ex_enc_code],
    m_glbl_sec = [], m_nn_str = [], m_data_sec = [], m_reloc_sec = [],
    m_param_num_tab = [], m_ret_num_tab = [], m_param_tab = [], m_ret_tab = [],
    m_reg_num_tab = [], m_fp_shs_tab = [], m_expanded_table = [],
    m_expanded_func_base = [], m_lab_tab = [], m_end_pc = 0,
    m_expanded_pc_map = [], m_origin_pc_map = [], m_pc_to_exp_map = [], m_exp_to_pc_map = [],
    m_import_sec = [], m_imp_nat_sec = [], m_export_sec = [], m_exp_glbl_sec = [], m_module_name = [],
    m_glbl_name = [], m_nat_sec = []\<rparr>"


definition ex_ind :: indet where
  "ex_ind = \<lparr>junk_am = (\<lambda>i. \<lparr>e_opcode = 7, e_expand1 = 7, e_expand2 = 7, e_expand3 = 7\<rparr>), junk_u32 = (\<lambda>i. 7)\<rparr>"

lemma ex_prog_ok: "list_all inst_ok ex_prog"
  by (simp add: ex_prog_def inst_ok_def content_fits_iff unsigned_fits_def signed_fits_def
      UWINST_TY_AM_def u_opcode_list_def)

lemma ex_prog_words: "prog_words ex_prog = 2" "length ex_prog = 2" "ex_prog \<noteq> []"
  by (simp_all add: ex_prog_def inst_words_def Is_32bit_am_def)

lemma ex_enc_code: "code_encodes ex_enc_code ex_prog [0]"
proof -
  from add_insts_program [OF ex_prog_ok, of "[]"] obtain ws where
    "foldr_res Add_inst_of ex_prog [] = Inr ws" "length ws = 2" by (auto simp: ex_prog_words)
  then show ?thesis by (simp add: code_encodes_def ex_enc_code_def ex_prog_words)
qed

lemma ex_enc_funcs: "sec_elem_num ex_enc_module S_FUNC = Inr 1"
  by code_simp

lemma ex_enc_holds: "module_encodes ex_enc_module 1 (\<lambda>i. ex_prog) (\<lambda>i. [0])"
  using ex_enc_code
  by (simp add: module_encodes_def ex_enc_module_def Get_func_def Get_code_idx_def Get_code_def arr_at_def
      UBH_FUNC_def Is_set_flag_def func_flag_defs ex_prog_words)

lemma Expand_code_roundtrip_witness:
  "\<exists>m'. Expand_code ex_ind ex_enc_module = Inr m' \<and> m_lab_tab m' ! 0 = Some [0] \<and>
    m_expanded_table m' ! 1 = inst_expanded (0x04, I32, TY_AM32_OFS, [0]) (junk_am ex_ind 1) \<and>
    m_end_pc m' = 2"
  using Expand_code_roundtrip [OF ex_enc_funcs ex_enc_holds ex_prog_ok, of ex_ind]
  by (auto simp: ex_prog_words wbase_def start_def) (auto simp: ex_prog_def)

end
