(* ===== verification/U_Str_Tab.thy ===== *)
theory U_Str_Tab
  imports Prelude
begin

text \<open>
  The string table of \<^verbatim>\<open>src/utilities/u_str_tab.h\<close> and \<^verbatim>\<open>u_str_tab.cxx\<close>: byte strings stored one
  after the other in a raw buffer, an entry vector of offsets and lengths, and a cache from
  contents to entry indices.  The cache is a \<^verbatim>\<open>std::map\<close> ordered by \<^verbatim>\<open>COMPARATOR\<close>, which is a strict
  linear order on byte strings (shown below), so the map is modelled by a partial function on
  contents.  Its keys are pointers into the raw buffer; \<^verbatim>\<open>Add\<close> rebuilds it when the buffer moved,
  which is the argument \<open>moved\<close> here.
\<close>

section \<open>The order of the cache\<close>

text \<open>The loop runs over all positions and keeps the comparison of the last one that differs.\<close>

primrec cmp_loop :: "(u8 \<times> u8) list \<Rightarrow> bool \<Rightarrow> bool" where
  "cmp_loop [] comp_r = comp_r"
| "cmp_loop (p # ps) comp_r = cmp_loop ps (if fst p \<noteq> snd p then sint (fst p) < sint (snd p) else comp_r)"

definition COMPARATOR :: "u8 list \<Rightarrow> u8 list \<Rightarrow> bool" where
  "COMPARATOR p1 p2 =
    (let comp_r = length p1 < length p2 in
     if length p1 = length p2 then cmp_loop (zip p1 p2) comp_r else comp_r)"

section \<open>State and operations\<close>

record u_str_tab =
  st_entry_vec :: "(u32 \<times> u32) list"
  st_raw_buf :: "u8 list"
  st_cache :: "u8 list \<Rightarrow> u32 option"

definition U_STR_TAB :: u_str_tab where
  "U_STR_TAB = \<lparr>st_entry_vec = [], st_raw_buf = [], st_cache = (\<lambda>b. None)\<rparr>"

definition Contains :: "u8 list \<Rightarrow> u_str_tab \<Rightarrow> bool" where
  "Contains buf t = (st_cache t buf \<noteq> None)"

definition Get_idx :: "u8 list \<Rightarrow> u_str_tab \<Rightarrow> u32" where
  "Get_idx buf t = (case st_cache t buf of Some i \<Rightarrow> i | None \<Rightarrow> 0)"

text \<open>The bytes an entry stands for.\<close>

definition entry_bytes :: "u8 list \<Rightarrow> u32 \<times> u32 \<Rightarrow> u8 list" where
  "entry_bytes raw p = take (unat (snd p)) (drop (unat (fst p)) raw)"

text \<open>\<^verbatim>\<open>_cache.insert\<close> of all entries into a cleared map: the first entry with given contents wins.\<close>

definition rebuild_cache :: "u8 list \<Rightarrow> (u32 \<times> u32) list \<Rightarrow> u8 list \<Rightarrow> u32 option" where
  "rebuild_cache raw vec =
    fold (\<lambda>i c. case c (entry_bytes raw (vec ! i)) of
        None \<Rightarrow> c(entry_bytes raw (vec ! i) \<mapsto> of_nat i)
      | Some j \<Rightarrow> c) [0..<length vec] (\<lambda>b. None)"

definition Add :: "bool \<Rightarrow> u8 list \<Rightarrow> u_str_tab \<Rightarrow> u32 \<times> u_str_tab" where
  "Add moved buf t =
    (let vec = st_entry_vec t @ [(of_nat (length (st_raw_buf t)), of_nat (length buf))];
         entry_idx = of_nat (length vec - 1);
         raw = st_raw_buf t @ buf;
         cache = (if st_raw_buf t = [] \<or> \<not> moved then (st_cache t)(buf \<mapsto> entry_idx)
                  else rebuild_cache raw vec)
     in (entry_idx, \<lparr>st_entry_vec = vec, st_raw_buf = raw, st_cache = cache\<rparr>))"

definition Get_off :: "u32 \<Rightarrow> u_str_tab \<Rightarrow> u32 res" where
  "Get_off idx t = Is_True (unat idx < length (st_entry_vec t)) (Inr (fst (st_entry_vec t ! unat idx)))"

definition Request :: "bool \<Rightarrow> u8 list \<Rightarrow> u_str_tab \<Rightarrow> u32 \<times> u_str_tab" where
  "Request moved buf t = (case st_cache t buf of Some i \<Rightarrow> (i, t) | None \<Rightarrow> Add moved buf t)"

definition Pad :: "bool \<Rightarrow> nat \<Rightarrow> u_str_tab \<Rightarrow> u_str_tab" where
  "Pad moved align t =
    (if length (st_raw_buf t) mod align \<noteq> 0
     then snd (Add moved (replicate (align - length (st_raw_buf t) mod align) 0) t)
     else t)"

section \<open>COMPARATOR is a strict linear order\<close>

lemma cmp_loop_append: "cmp_loop (ps @ [p]) b = (if fst p \<noteq> snd p then sint (fst p) < sint (snd p) else cmp_loop ps b)"
  by (induction ps arbitrary: b) auto

lemma COMPARATOR_snoc:
  "length xs = length ys \<Longrightarrow> COMPARATOR (xs @ [x]) (ys @ [y]) \<longleftrightarrow>
    (if x \<noteq> y then sint x < sint y else COMPARATOR xs ys)"
  by (simp add: COMPARATOR_def cmp_loop_append)

lemma COMPARATOR_length: "length xs \<noteq> length ys \<Longrightarrow> COMPARATOR xs ys \<longleftrightarrow> length xs < length ys"
  by (simp add: COMPARATOR_def)

lemma COMPARATOR_Nil [simp]: "COMPARATOR [] ys \<longleftrightarrow> ys \<noteq> []" "\<not> COMPARATOR xs []"
  by (auto simp: COMPARATOR_def)

lemma COMPARATOR_irrefl: "\<not> COMPARATOR xs xs"
  by (induction xs rule: rev_induct) (simp_all add: COMPARATOR_snoc)

lemma COMPARATOR_total_same: "length xs = length ys \<Longrightarrow> xs \<noteq> ys \<Longrightarrow> COMPARATOR xs ys \<or> COMPARATOR ys xs"
proof (induction xs arbitrary: ys rule: rev_induct)
  case (snoc x xs)
  then obtain zs y where ys: "ys = zs @ [y]" "length zs = length xs"
    by (cases ys rule: rev_cases) auto
  have "x \<noteq> y \<Longrightarrow> sint x < sint y \<or> sint y < sint x" by (metis linorder_neq_iff signed_word_eqI)
  with snoc.prems snoc.IH [of zs] ys show ?case by (auto simp: COMPARATOR_snoc)
qed simp

lemma COMPARATOR_trans_same:
  "length xs = length ys \<Longrightarrow> length ys = length zs \<Longrightarrow> COMPARATOR xs ys \<Longrightarrow> COMPARATOR ys zs \<Longrightarrow> COMPARATOR xs zs"
proof (induction xs arbitrary: ys zs rule: rev_induct)
  case (snoc x xs)
  from snoc.prems(1) obtain ys' y where ys: "ys = ys' @ [y]" "length ys' = length xs"
    by (cases ys rule: rev_cases) simp_all
  from snoc.prems(1,2) obtain zs' z where zs: "zs = zs' @ [z]" "length zs' = length xs"
    by (cases zs rule: rev_cases) simp_all
  show ?case using ys zs snoc.prems(3,4) snoc.IH [of ys' zs']
    by (auto simp: COMPARATOR_snoc split: if_splits)
qed simp


lemma COMPARATOR_trans: "COMPARATOR xs ys \<Longrightarrow> COMPARATOR ys zs \<Longrightarrow> COMPARATOR xs zs"
  using COMPARATOR_trans_same [of xs ys zs] COMPARATOR_length [of xs ys] COMPARATOR_length [of ys zs]
    COMPARATOR_length [of xs zs]
  by (cases "length xs = length ys"; cases "length ys = length zs") auto

text \<open>C14: \<^verbatim>\<open>COMPARATOR\<close> is a strict linear order on byte strings: irreflexive, transitive, and two strings that
  it orders neither way are equal.  So the string cache identifies exactly the strings with the same
  contents.\<close>

theorem COMPARATOR_strict_linear:
  "\<not> COMPARATOR a a \<and> (COMPARATOR a b \<and> COMPARATOR b c \<longrightarrow> COMPARATOR a c) \<and>
    (\<not> COMPARATOR a b \<and> \<not> COMPARATOR b a \<longleftrightarrow> a = b)"
proof -
  have "a = b" if "\<not> COMPARATOR a b" "\<not> COMPARATOR b a"
  proof (cases "length a = length b")
    case True
    with COMPARATOR_total_same [OF True] that show ?thesis by blast
  next
    case False
    with that COMPARATOR_length [of a b] COMPARATOR_length [of b a] show ?thesis by simp
  qed
  then show ?thesis using COMPARATOR_irrefl COMPARATOR_trans by blast
qed

lemma COMPARATOR_strict_linear_witness:
  "COMPARATOR [2, 1] [1, 2] \<and> COMPARATOR [1, 2] [0, 3] \<and> COMPARATOR [2, 1] [0, 3]"
proof -
  have "COMPARATOR [2, 1] [1, 2]" "COMPARATOR [1, 2] [0, 3]" by (simp_all add: COMPARATOR_def)
  with COMPARATOR_strict_linear [of "[2, 1]" "[1, 2]" "[0, 3]"] show ?thesis by blast
qed

section \<open>The table keeps what was requested\<close>

text \<open>
  Entries lie inside the buffer; the cache maps contents to an entry with these contents and
  knows the contents of every entry.
\<close>

definition tab_entry :: "u_str_tab \<Rightarrow> nat \<Rightarrow> u8 list" where
  "tab_entry t i = entry_bytes (st_raw_buf t) (st_entry_vec t ! i)"

definition str_tab_ok :: "u_str_tab \<Rightarrow> bool" where
  "str_tab_ok t \<longleftrightarrow>
    length (st_raw_buf t) < 2 ^ 32 \<and> length (st_entry_vec t) < 2 ^ 32 \<and>
    (\<forall>p \<in> set (st_entry_vec t). unat (fst p) + unat (snd p) \<le> length (st_raw_buf t)) \<and>
    (\<forall>b i. st_cache t b = Some i \<longrightarrow> unat i < length (st_entry_vec t) \<and> tab_entry t (unat i) = b) \<and>
    (\<forall>i < length (st_entry_vec t). st_cache t (tab_entry t i) \<noteq> None)"

lemma str_tab_ok_empty: "str_tab_ok U_STR_TAB"
  by (simp add: str_tab_ok_def U_STR_TAB_def)

text \<open>The rebuilt cache, entry by entry.\<close>

lemma rebuild_cache_upto:
  fixes raw :: "u8 list"
  assumes "n \<le> length vec" and "length vec < 2 ^ 32"
  defines "c \<equiv> fold (\<lambda>i c. case c (entry_bytes raw (vec ! i)) of
        None \<Rightarrow> c(entry_bytes raw (vec ! i) \<mapsto> of_nat i)
      | Some j \<Rightarrow> c) [0..<n] (\<lambda>b. None)"
  shows "(\<forall>b i. c b = Some i \<longrightarrow> unat (i :: u32) < n \<and> entry_bytes raw (vec ! unat i) = b) \<and>
    (\<forall>i < n. c (entry_bytes raw (vec ! i)) \<noteq> None)"
  using assms(1) unfolding c_def
proof (induction n)
  case (Suc n)
  then show ?case using assms(2) unat_of_nat_u32 [of n]
    by (auto simp: less_Suc_eq split: option.splits)
qed simp

lemma entry_bytes_append:
  "unat (fst p) + unat (snd p) \<le> length raw \<Longrightarrow> entry_bytes (raw @ buf) p = entry_bytes raw p"
  by (simp add: entry_bytes_def)

lemma entry_bytes_last:
  "length raw < 2 ^ 32 \<Longrightarrow> length buf < 2 ^ 32 \<Longrightarrow>
    entry_bytes (raw @ buf) (of_nat (length raw), of_nat (length buf)) = buf"
  by (simp add: entry_bytes_def unat_of_nat_u32)


definition has_room :: "u8 list \<Rightarrow> u_str_tab \<Rightarrow> bool" where
  "has_room buf t \<longleftrightarrow> length (st_raw_buf t) + length buf < 2 ^ 32 \<and> Suc (length (st_entry_vec t)) < 2 ^ 32"

lemma Add_entries:
  assumes "str_tab_ok t" and "has_room buf t"
  shows "unat (fst (Add moved buf t)) = length (st_entry_vec t)"
    and "length (st_entry_vec (snd (Add moved buf t))) = Suc (length (st_entry_vec t))"
    and "tab_entry (snd (Add moved buf t)) (length (st_entry_vec t)) = buf"
    and "i < length (st_entry_vec t) \<Longrightarrow> st_entry_vec (snd (Add moved buf t)) ! i = st_entry_vec t ! i"
    and "i < length (st_entry_vec t) \<Longrightarrow> tab_entry (snd (Add moved buf t)) i = tab_entry t i"
  using assms
  by (auto simp: Add_def Let_def tab_entry_def has_room_def unat_of_nat_u32 nth_append
      entry_bytes_last str_tab_ok_def intro!: entry_bytes_append)

lemma Add_bounds:
  assumes "str_tab_ok t" and "has_room buf t"
  shows "\<forall>p \<in> set (st_entry_vec (snd (Add moved buf t))).
    unat (fst p) + unat (snd p) \<le> length (st_raw_buf (snd (Add moved buf t)))"
  using assms by (fastforce simp: Add_def Let_def has_room_def str_tab_ok_def unat_of_nat_u32)

lemma Add_cache:
  fixes moved :: bool
  assumes "str_tab_ok t" and "has_room buf t"
  defines "t' \<equiv> snd (Add moved buf t)"
  shows "(\<forall>b i. st_cache t' b = Some i \<longrightarrow> unat i < length (st_entry_vec t') \<and> tab_entry t' (unat i) = b) \<and>
    (\<forall>i < length (st_entry_vec t'). st_cache t' (tab_entry t' i) \<noteq> None)"
proof (cases "st_raw_buf t = [] \<or> \<not> moved")
  case True
  then have cache: "st_cache t' = (st_cache t)(buf \<mapsto> fst (Add moved buf t))"
    by (auto simp: t'_def Add_def Let_def)
  note E = Add_entries [OF assms(1,2), where moved = moved, folded t'_def]
  have "unat i < length (st_entry_vec t') \<and> tab_entry t' (unat i) = b" if "st_cache t' b = Some i" for b i
  proof (cases "b = buf")
    case True
    with that E show ?thesis by (auto simp: cache)
  next
    case False
    with that assms(1) have "unat i < length (st_entry_vec t)" "tab_entry t (unat i) = b"
      by (auto simp: cache str_tab_ok_def)
    with E show ?thesis by simp
  qed
  moreover have "st_cache t' (tab_entry t' i) \<noteq> None" if "i < length (st_entry_vec t')" for i
    using that assms(1) E unfolding cache str_tab_ok_def by (auto simp: less_Suc_eq)
  ultimately show ?thesis by blast
next
  case False
  then have cache: "st_cache t' = rebuild_cache (st_raw_buf t') (st_entry_vec t')"
    by (simp add: t'_def Add_def Let_def)
  have "length (st_entry_vec t') < 2 ^ 32"
    using Add_entries(2) [OF assms(1,2)] assms(2) by (simp add: t'_def has_room_def)
  from rebuild_cache_upto [OF order_refl this, of "st_raw_buf t'"] show ?thesis
    by (simp add: cache rebuild_cache_def tab_entry_def)
qed

lemma Add_ok: "str_tab_ok t \<Longrightarrow> has_room buf t \<Longrightarrow> str_tab_ok (snd (Add moved buf t))"
  unfolding str_tab_ok_def [of "snd (Add moved buf t)"]
  using Add_cache [of t buf moved] Add_bounds [of t buf moved] Add_entries(2) [of t buf moved]
  by (simp add: has_room_def) (simp add: Add_def Let_def)

text \<open>In a table without duplicates, adding a new string has the same effect whether the buffer moved or not.\<close>

definition no_dups :: "u_str_tab \<Rightarrow> bool" where
  "no_dups t \<longleftrightarrow> (\<forall>i < length (st_entry_vec t). \<forall>j < length (st_entry_vec t). tab_entry t i = tab_entry t j \<longrightarrow> i = j)"

lemma Add_no_dups:
  assumes "str_tab_ok t" and "has_room buf t" and "no_dups t" and "st_cache t buf = None"
  shows "no_dups (snd (Add moved buf t))"
proof -
  have "tab_entry t i \<noteq> buf" if "i < length (st_entry_vec t)" for i
    using assms(1,4) that by (auto simp: str_tab_ok_def)
  then show ?thesis
    using assms(3) Add_entries [OF assms(1,2), where moved = moved]
    by (auto simp: no_dups_def less_Suc_eq)
qed

lemma no_dups_cache:
  assumes "str_tab_ok t" and "no_dups t" and "i < length (st_entry_vec t)"
  shows "st_cache t (tab_entry t i) = Some (of_nat i)"
proof -
  obtain k where k: "st_cache t (tab_entry t i) = Some k" using assms(1,3) by (auto simp: str_tab_ok_def)
  then have "unat k < length (st_entry_vec t)" "tab_entry t (unat k) = tab_entry t i"
    using assms(1) unfolding str_tab_ok_def by blast+
  with assms(2,3) have "unat k = i" by (auto simp: no_dups_def)
  with k show ?thesis by auto
qed

lemma Add_cache_new:
  assumes "str_tab_ok t" and "has_room buf t" and "no_dups t" and "st_cache t buf = None"
  shows "st_cache (snd (Add moved buf t)) = (st_cache t)(buf \<mapsto> of_nat (length (st_entry_vec t)))"
proof
  fix b
  let ?t = "snd (Add moved buf t)"
  note E = Add_entries [OF assms(1,2), where moved = moved]
  note ok = Add_ok [OF assms(1,2), of moved] and nd = Add_no_dups [OF assms, of moved]
  show "st_cache ?t b = ((st_cache t)(buf \<mapsto> of_nat (length (st_entry_vec t)))) b"
  proof (cases "st_cache ?t b")
    case None
    then have "tab_entry t i \<noteq> b" if "i < length (st_entry_vec t)" for i
      using ok E that unfolding str_tab_ok_def by (metis less_SucI)
    moreover have "b \<noteq> buf" using None ok E unfolding str_tab_ok_def by (metis lessI)
    moreover have "st_cache t b = None"
      using calculation(1) assms(1) unfolding str_tab_ok_def by (metis not_None_eq)
    ultimately show ?thesis using None by simp
  next
    case (Some k)
    then have k: "unat k < Suc (length (st_entry_vec t))" "tab_entry ?t (unat k) = b"
      using ok E(2) unfolding str_tab_ok_def by metis+
    show ?thesis
    proof (cases "unat k < length (st_entry_vec t)")
      case True
      with no_dups_cache [OF assms(1,3) True] k(2) E(5) [OF True] assms(4) Some show ?thesis by auto
    next
      case False
      with k(1) have n: "unat k = length (st_entry_vec t)" by simp
      have "k = of_nat (unat k)" by simp
      then have "k = of_nat (length (st_entry_vec t))" unfolding n .
      moreover have "b = buf" using k(2) E(3) unfolding n by simp
      ultimately show ?thesis using Some by simp
    qed
  qed
qed

lemma Request_cases:
  assumes "str_tab_ok t" and "has_room buf t"
  obtains (found) i where "Request moved buf t = (i, t)" and "st_cache t buf = Some i"
  | (added) "Request moved buf t = Add moved buf t" and "st_cache t buf = None"
  by (cases "st_cache t buf") (auto simp: Request_def)

lemma Request_entry:
  assumes "str_tab_ok t" and "has_room buf t" and "Request moved buf t = (i, t')"
  shows "str_tab_ok t'" and "unat i < length (st_entry_vec t')" and "tab_entry t' (unat i) = buf"
    and "j < length (st_entry_vec t) \<Longrightarrow> st_entry_vec t' ! j = st_entry_vec t ! j \<and> tab_entry t' j = tab_entry t j"
proof -
  have "str_tab_ok t' \<and> unat i < length (st_entry_vec t') \<and> tab_entry t' (unat i) = buf \<and>
    (\<forall>j < length (st_entry_vec t). st_entry_vec t' ! j = st_entry_vec t ! j \<and> tab_entry t' j = tab_entry t j)"
    using assms(1,2)
  proof (cases rule: Request_cases [where moved = moved])
    case (found k)
    with assms show ?thesis by (auto simp: str_tab_ok_def)
  next
    case added
    with assms(3) have "i = fst (Add moved buf t)" "t' = snd (Add moved buf t)" by simp_all
    with Add_ok [OF assms(1,2)] Add_entries [OF assms(1,2), where moved = moved] show ?thesis by simp
  qed
  then show "str_tab_ok t'" "unat i < length (st_entry_vec t')" "tab_entry t' (unat i) = buf"
    "j < length (st_entry_vec t) \<Longrightarrow> st_entry_vec t' ! j = st_entry_vec t ! j \<and> tab_entry t' j = tab_entry t j"
    by blast+
qed

text \<open>C13: requesting a string gives the index of an entry with exactly these bytes, keeps every entry that was
  there at its index, offset and contents, and requesting it again gives the same index and changes
  nothing; whether or not the buffer moved when it grew.\<close>

theorem Request_stores:
  assumes "str_tab_ok t" and "has_room buf t" and "Request moved buf t = (i, t')"
  shows "str_tab_ok t' \<and> unat i < length (st_entry_vec t') \<and> tab_entry t' (unat i) = buf \<and>
    (\<forall>j < length (st_entry_vec t).
      st_entry_vec t' ! j = st_entry_vec t ! j \<and> tab_entry t' j = tab_entry t j) \<and>
    Request moved' buf t' = (i, t')"
proof -
  note keep = Request_entry [OF assms]
  obtain k where k: "st_cache t' buf = Some k" using keep by (auto simp: str_tab_ok_def)
  moreover have "k = i"
    using assms(1,2)
  proof (cases rule: Request_cases [where moved = moved])
    case (found k')
    with assms(3) k show ?thesis by simp
  next
    case added
    with assms(3) have t': "t' = snd (Add moved buf t)" "i = fst (Add moved buf t)" by simp_all
    have "unat k = length (st_entry_vec t)"
    proof (rule ccontr)
      assume "unat k \<noteq> length (st_entry_vec t)"
      moreover have "unat k < length (st_entry_vec t')" "tab_entry t' (unat k) = buf"
        using keep k unfolding str_tab_ok_def by blast+
      ultimately have less: "unat k < length (st_entry_vec t)" "tab_entry t (unat k) = buf"
        using Add_entries(2,5) [OF assms(1,2), where moved = moved] by (simp_all add: t')
      with assms(1) added(2) show False unfolding str_tab_ok_def by blast
    qed
    with Add_entries(1) [OF assms(1,2), where moved = moved] t' show ?thesis by (simp add: word_unat_eq_iff)
  qed
  ultimately show ?thesis using keep by (simp add: Request_def)
qed

lemma Request_stores_witness:
  "tab_entry (snd (Request True [109, 0] U_STR_TAB)) 0 = [109, 0]"
proof -
  obtain i t' where r: "Request True [109, 0] U_STR_TAB = (i, t')" by force
  then have "i = 0" by (simp add: Request_def U_STR_TAB_def Add_def Let_def)
  with r Request_stores [OF str_tab_ok_empty _ r] show ?thesis by (simp add: has_room_def U_STR_TAB_def)
qed

end
