(* ===== verification/U_Inst_Encoder.thy ===== *)
theory U_Inst_Encoder
  imports Expand_Props U_Str_Tab
begin

text \<open>
  Code bodies and the code section (\<^verbatim>\<open>src/encoder/u_inst_encoder.h\<close>, \<^verbatim>\<open>u_inst_encoder.cxx\<close>, the label
  operations of \<^verbatim>\<open>U_ENCODER\<close>, and \<^verbatim>\<open>U_MODULE::Set_code_sec\<close> on the loading side).  A body collects
  instruction words and labels; finishing it computes the offsets of its tables in the section;
  the section is written entry after entry and read back by the loader.  The section is a list of
  32-bit words: every part of an entry is a whole number of words.
\<close>

section \<open>Code bodies\<close>

definition UNINIT_LABEL_IDX :: u32 where "UNINIT_LABEL_IDX = -1"

record u_code_body =
  cb_ubh_code :: ubh_code
  cb_inst_tab_off :: u64
  cb_label_tab_off :: u64
  cb_inst_tab :: "u32 list"
  cb_lab_tab :: "u32 list"
  cb_lab_name_tab :: u_str_tab

definition U_CODE_BODY :: "u32 \<times> u32 \<times> u32 \<times> u32 \<Rightarrow> u32 \<times> u32 \<times> u32 \<times> u32 \<Rightarrow> u32 \<Rightarrow> u_code_body" where
  "U_CODE_BODY local_regs io_regs stack_size =
    \<lparr>cb_ubh_code = UBH_CODE local_regs io_regs stack_size, cb_inst_tab_off = 0, cb_label_tab_off = 0,
     cb_inst_tab = [], cb_lab_tab = [], cb_lab_name_tab = U_STR_TAB\<rparr>"

text \<open>A C string with its terminating null byte.\<close>

definition c_str :: "u8 list \<Rightarrow> u8 list" where "c_str s = s @ [0]"

definition Request_label :: "bool \<Rightarrow> u8 list \<Rightarrow> u_code_body \<Rightarrow> (u32 \<times> u_code_body) res" where
  "Request_label moved label_name cb =
    (if Contains (c_str label_name) (cb_lab_name_tab cb)
     then Inr (Get_idx (c_str label_name) (cb_lab_name_tab cb), cb)
     else let (label_name_idx, tab) = Add moved (c_str label_name) (cb_lab_name_tab cb);
              lab_tab = cb_lab_tab cb @ [UNINIT_LABEL_IDX]
          in Is_True (length (st_entry_vec tab) = length lab_tab)
               (Inr (label_name_idx, cb\<lparr>cb_lab_tab := lab_tab, cb_lab_name_tab := tab\<rparr>)))"

definition Set_label :: "u32 \<Rightarrow> u_code_body \<Rightarrow> u_code_body res" where
  "Set_label label_idx cb =
    Is_True (unat label_idx < length (cb_lab_tab cb))
      (Inr (cb\<lparr>cb_lab_tab := (cb_lab_tab cb)[unat label_idx := of_nat (length (cb_inst_tab cb))]\<rparr>))"

definition Add_label :: "bool \<Rightarrow> u8 list \<Rightarrow> u_code_body \<Rightarrow> (u32 \<times> u_code_body) res" where
  "Add_label moved label_name cb =
    bindr (Request_label moved label_name cb) (\<lambda>(label_idx, cb).
    bindr (Set_label label_idx cb) (\<lambda>cb. Inr (label_idx, cb)))"

definition body_Add_inst :: "uinst \<Rightarrow> u_code_body \<Rightarrow> u_code_body res" where
  "body_Add_inst i cb = bindr (Add_inst_of i (cb_inst_tab cb)) (\<lambda>tab. Inr (cb\<lparr>cb_inst_tab := tab\<rparr>))"

definition SIZEOF_UBH_CODE :: nat where "SIZEOF_UBH_CODE = 40"

definition body_Finish :: "u32 \<Rightarrow> u_code_body \<Rightarrow> u_code_body res" where
  "body_Finish entry_off cb =
    Is_True (list_all (\<lambda>l. l \<noteq> UNINIT_LABEL_IDX) (cb_lab_tab cb)) (
    let off = ucast entry_off :: u64;
        code = Set_code_size (of_nat (length (cb_inst_tab cb)))
                 (Set_label_num (of_nat (length (cb_lab_tab cb))) (cb_ubh_code cb));
        inst_off = off + of_nat SIZEOF_UBH_CODE;
        label_off = inst_off + 4 * of_nat (length (cb_inst_tab cb))
    in Inr (cb\<lparr>cb_ubh_code := code, cb_inst_tab_off := inst_off, cb_label_tab_off := label_off\<rparr>))"

definition Entry_size :: "u_code_body \<Rightarrow> nat" where
  "Entry_size cb = SIZEOF_UBH_CODE + 4 * (length (cb_inst_tab cb) + length (cb_lab_tab cb))"

section \<open>The code section\<close>

text \<open>\<^verbatim>\<open>U_INST_ENCODER::Finish\<close>: every body is finished with its offset in the section.\<close>

primrec finish_bodies :: "u32 \<Rightarrow> u_code_body list \<Rightarrow> u_code_body list res" where
  "finish_bodies entry_off [] = Inr []"
| "finish_bodies entry_off (cb # cbs) =
    bindr (body_Finish entry_off cb) (\<lambda>cb'.
    bindr (finish_bodies (entry_off + of_nat (Entry_size cb')) cbs) (\<lambda>cbs'. Inr (cb' # cbs')))"

definition inst_encoder_Finish :: "u_code_body list \<Rightarrow> u_code_body list res" where
  "inst_encoder_Finish cbs = finish_bodies 0 cbs"

definition Code_sec_size :: "u_code_body list \<Rightarrow> nat" where
  "Code_sec_size cbs = sum_list (map Entry_size cbs)"

text \<open>The bit-fields of \<^verbatim>\<open>UBH_CODE\<close>, word by word.\<close>

definition C0_i32 :: bitfield where "C0_i32 = (0, 10)"
definition C0_i64 :: bitfield where "C0_i64 = (10, 10)"
definition C0_f32 :: bitfield where "C0_f32 = (20, 10)"
definition C1_f64 :: bitfield where "C1_f64 = (0, 10)"
definition C1_stack :: bitfield where "C1_stack = (10, 22)"
definition C2_i32 :: bitfield where "C2_i32 = (0, 8)"
definition C2_i64 :: bitfield where "C2_i64 = (8, 8)"
definition C2_f32 :: bitfield where "C2_f32 = (16, 8)"
definition C2_f64 :: bitfield where "C2_f64 = (24, 8)"
definition C3_label_num :: bitfield where "C3_label_num = (0, 12)"
definition C3_code_size :: bitfield where "C3_code_size = (12, 20)"

lemmas code_fields = C0_i32_def C0_i64_def C0_f32_def C1_f64_def C1_stack_def C2_i32_def C2_i64_def
  C2_f32_def C2_f64_def C3_label_num_def C3_code_size_def

definition code_words :: "u_code_body \<Rightarrow> u32 list" where
  "code_words cb = (let c = cb_ubh_code cb in
    [wr_all [C0_i32, C0_i64, C0_f32] [c_local c ! 0, c_local c ! 1, c_local c ! 2] 0,
     wr_all [C1_f64, C1_stack] [c_local c ! 3, c_stack_size c] 0,
     wr_all [C2_i32, C2_i64, C2_f32, C2_f64] [c_io c ! 0, c_io c ! 1, c_io c ! 2, c_io c ! 3] 0,
     wr_all [C3_label_num, C3_code_size] [c_label_num c, c_code_size c] 0,
     0, 0,
     ucast (cb_inst_tab_off cb), ucast (drop_bit 32 (cb_inst_tab_off cb)),
     ucast (cb_label_tab_off cb), ucast (drop_bit 32 (cb_label_tab_off cb))])"

definition Write_to_buf :: "u_code_body list \<Rightarrow> u32 list" where
  "Write_to_buf cbs = concat (map (\<lambda>cb. code_words cb @ cb_inst_tab cb @ cb_lab_tab cb) cbs)"

section \<open>Loading the code section\<close>

text \<open>
  An entry at a word position; its table pointers give the rest of the section from their offsets
  on.  Table offsets are multiples of four, as the encoder writes them.
\<close>

definition word64 :: "u32 \<Rightarrow> u32 \<Rightarrow> u64" where
  "word64 lo hi = ucast lo OR push_bit 32 (ucast hi)"

definition read_code :: "u32 list \<Rightarrow> nat \<Rightarrow> ubh_code res" where
  "read_code sec p =
    (if p + 10 \<le> length sec
     then Inr \<lparr>c_local = [rd C0_i32 (sec ! p), rd C0_i64 (sec ! p), rd C0_f32 (sec ! p), rd C1_f64 (sec ! (p + 1))],
        c_io = [rd C2_i32 (sec ! (p + 2)), rd C2_i64 (sec ! (p + 2)), rd C2_f32 (sec ! (p + 2)), rd C2_f64 (sec ! (p + 2))],
        c_stack_size = rd C1_stack (sec ! (p + 1)),
        c_label_num = rd C3_label_num (sec ! (p + 3)), c_code_size = rd C3_code_size (sec ! (p + 3)),
        c_inst_tab = drop (unat (word64 (sec ! (p + 6)) (sec ! (p + 7))) div 4) sec,
        c_label_tab = drop (unat (word64 (sec ! (p + 8)) (sec ! (p + 9))) div 4) sec\<rparr>
     else Inl Out_of_block)"

primrec Set_code_sec :: "u32 list \<Rightarrow> nat \<Rightarrow> nat \<Rightarrow> ubh_code list res" where
  "Set_code_sec sec p 0 = Inr []"
| "Set_code_sec sec p (Suc n) =
    bindr (read_code sec p) (\<lambda>code.
    bindr (Set_code_sec sec (p + 10 + unat (c_code_size code) + unat (c_label_num code)) n) (\<lambda>codes.
    Inr (code # codes)))"


section \<open>The loader reads what the encoder wrote\<close>

interpretation code_w0: bitfield_struct "[C0_i32, C0_i64, C0_f32]" "TYPE(32)"
  by unfold_locales (simp_all add: code_fields in_word_def apart_def)

interpretation code_w1: bitfield_struct "[C1_f64, C1_stack]" "TYPE(32)"
  by unfold_locales (simp_all add: code_fields in_word_def apart_def)

interpretation code_w2: bitfield_struct "[C2_i32, C2_i64, C2_f32, C2_f64]" "TYPE(32)"
  by unfold_locales (simp_all add: code_fields in_word_def apart_def)

interpretation code_w3: bitfield_struct "[C3_label_num, C3_code_size]" "TYPE(32)"
  by unfold_locales (simp_all add: code_fields in_word_def apart_def)

lemma code_field_widths:
  "snd C0_i32 = 10" "snd C0_i64 = 10" "snd C0_f32 = 10" "snd C1_f64 = 10" "snd C1_stack = 22"
  "snd C2_i32 = 8" "snd C2_i64 = 8" "snd C2_f32 = 8" "snd C2_f64 = 8" "snd C3_label_num = 12" "snd C3_code_size = 20"
  by (simp_all add: code_fields)

lemma code_reads:
  fixes a b c d :: u32
  shows "rd C0_i32 (wr_all [C0_i32, C0_i64, C0_f32] [a, b, c] 0) = take_bit 10 a"
    "rd C0_i64 (wr_all [C0_i32, C0_i64, C0_f32] [a, b, c] 0) = take_bit 10 b"
    "rd C0_f32 (wr_all [C0_i32, C0_i64, C0_f32] [a, b, c] 0) = take_bit 10 c"
    "rd C1_f64 (wr_all [C1_f64, C1_stack] [a, b] 0) = take_bit 10 a"
    "rd C1_stack (wr_all [C1_f64, C1_stack] [a, b] 0) = take_bit 22 b"
    "rd C2_i32 (wr_all [C2_i32, C2_i64, C2_f32, C2_f64] [a, b, c, d] 0) = take_bit 8 a"
    "rd C2_i64 (wr_all [C2_i32, C2_i64, C2_f32, C2_f64] [a, b, c, d] 0) = take_bit 8 b"
    "rd C2_f32 (wr_all [C2_i32, C2_i64, C2_f32, C2_f64] [a, b, c, d] 0) = take_bit 8 c"
    "rd C2_f64 (wr_all [C2_i32, C2_i64, C2_f32, C2_f64] [a, b, c, d] 0) = take_bit 8 d"
    "rd C3_label_num (wr_all [C3_label_num, C3_code_size] [a, b] 0) = take_bit 12 a"
    "rd C3_code_size (wr_all [C3_label_num, C3_code_size] [a, b] 0) = take_bit 20 b"
  using code_w0.rd_member [of 0 "[a, b, c]" 0] code_w0.rd_member [of 1 "[a, b, c]" 0]
    code_w0.rd_member [of 2 "[a, b, c]" 0] code_w1.rd_member [of 0 "[a, b]" 0]
    code_w1.rd_member [of 1 "[a, b]" 0] code_w2.rd_member [of 0 "[a, b, c, d]" 0]
    code_w2.rd_member [of 1 "[a, b, c, d]" 0] code_w2.rd_member [of 2 "[a, b, c, d]" 0]
    code_w2.rd_member [of 3 "[a, b, c, d]" 0] code_w3.rd_member [of 0 "[a, b]" 0]
    code_w3.rd_member [of 1 "[a, b]" 0]
  by (simp_all add: code_field_widths del: wr_all.simps)

lemma word64_split: "word64 (ucast w) (ucast (drop_bit 32 w)) = w"
  by (simp add: word64_def two_words)

text \<open>Register counts and stack size within the widths of their fields.\<close>

definition code_fits :: "ubh_code \<Rightarrow> bool" where
  "code_fits c \<longleftrightarrow> (\<exists>l0 l1 l2 l3 i0 i1 i2 i3. c_local c = [l0, l1, l2, l3] \<and> c_io c = [i0, i1, i2, i3] \<and>
    list_all (\<lambda>x. take_bit 10 x = x) [l0, l1, l2, l3] \<and> list_all (\<lambda>x. take_bit 8 x = x) [i0, i1, i2, i3]) \<and>
    take_bit 22 (c_stack_size c) = c_stack_size c"

lemma UBH_CODE_fits: "code_fits (UBH_CODE l io s)"
  by (cases l; cases io) (auto simp: UBH_CODE_def code_fits_def)

text \<open>What the loader must find for a body.\<close>

definition code_loaded :: "u_code_body \<Rightarrow> ubh_code \<Rightarrow> bool" where
  "code_loaded cb c \<longleftrightarrow>
    c_local c = c_local (cb_ubh_code cb) \<and> c_io c = c_io (cb_ubh_code cb) \<and>
    c_stack_size c = c_stack_size (cb_ubh_code cb) \<and>
    unat (c_code_size c) = length (cb_inst_tab cb) \<and> unat (c_label_num c) = length (cb_lab_tab cb) \<and>
    take (length (cb_inst_tab cb)) (c_inst_tab c) = cb_inst_tab cb \<and>
    take (length (cb_lab_tab cb)) (c_label_tab c) = cb_lab_tab cb"

definition body_small :: "u_code_body \<Rightarrow> bool" where
  "body_small cb \<longleftrightarrow> code_fits (cb_ubh_code cb) \<and> length (cb_inst_tab cb) < 2 ^ 20 \<and> length (cb_lab_tab cb) < 2 ^ 12"

lemma length_code_words [simp]: "length (code_words cb) = 10"
  by (simp add: code_words_def Let_def)

lemma take_bit_of_nat_small: "n < 2 ^ k \<Longrightarrow> k < 32 \<Longrightarrow> unat (take_bit k (of_nat n :: u32)) = n"
proof -
  assume *: "n < 2 ^ k" "k < 32"
  then have "n < 2 ^ 32" by (meson order_less_trans power_strict_increasing_iff one_less_numeral_iff semiring_norm(76))
  with * show ?thesis by (simp add: unsigned_take_bit_eq unat_of_nat_u32 take_bit_nat_eq_self)
qed


lemma body_Finish_small:
  assumes "body_Finish off cb = Inr cb'" and "body_small cb"
  shows "cb_inst_tab cb' = cb_inst_tab cb" "cb_lab_tab cb' = cb_lab_tab cb" "code_fits (cb_ubh_code cb')"
    "c_local (cb_ubh_code cb') = c_local (cb_ubh_code cb)" "c_io (cb_ubh_code cb') = c_io (cb_ubh_code cb)"
    "c_stack_size (cb_ubh_code cb') = c_stack_size (cb_ubh_code cb)"
    "unat (take_bit 20 (c_code_size (cb_ubh_code cb'))) = length (cb_inst_tab cb)"
    "unat (take_bit 12 (c_label_num (cb_ubh_code cb'))) = length (cb_lab_tab cb)"
    "cb_inst_tab_off cb' = ucast off + 40"
    "cb_label_tab_off cb' = ucast off + 40 + 4 * of_nat (length (cb_inst_tab cb))"
  using assms take_bit_of_nat_small [of "length (cb_inst_tab cb)" 20] take_bit_of_nat_small [of "length (cb_lab_tab cb)" 12]
  by (auto simp: body_Finish_def Let_def body_small_def code_fits_def Set_code_size_def Set_label_num_def
      SIZEOF_UBH_CODE_def)

lemma off_div:
  fixes off :: u32
  assumes "unat off = 4 * n" and "4 * (n + k) + 40 < 2 ^ 32"
  shows "unat (ucast off + 40 :: u64) div 4 = n + 10"
    and "unat (ucast off + 40 + 4 * of_nat k :: u64) div 4 = n + 10 + k"
proof -
  have "(ucast off + 40 :: u64) = of_nat (4 * n + 40)" "(ucast off + 40 + 4 * of_nat k :: u64) = of_nat (4 * n + 40 + 4 * k)"
    using assms(1) by (simp_all add: word_unat_eq_iff unat_word_ariths unat_of_nat flip: assms(1))
  moreover have "unat (of_nat (4 * n + 40) :: u64) = 4 * n + 40" "unat (of_nat (4 * n + 40 + 4 * k) :: u64) = 4 * n + 40 + 4 * k"
    by (rule unat_of_nat_u64; use assms(2) in simp)+
  ultimately show "unat (ucast off + 40 :: u64) div 4 = n + 10"
    "unat (ucast off + 40 + 4 * of_nat k :: u64) div 4 = n + 10 + k" by simp_all
qed

lemma code_words_nth:
  "code_words cb = [w0, w1, w2, w3, w4, w5, w6, w7, w8, w9] \<Longrightarrow>
    sec = pre @ code_words cb @ rest \<Longrightarrow> n = length pre \<Longrightarrow>
    sec ! n = w0 \<and> sec ! (n + 1) = w1 \<and> sec ! (n + 2) = w2 \<and> sec ! (n + 3) = w3 \<and>
    sec ! (n + 6) = w6 \<and> sec ! (n + 7) = w7 \<and> sec ! (n + 8) = w8 \<and> sec ! (n + 9) = w9"
  by (simp add: nth_append)

lemma read_code_loaded:
  fixes rest :: "u32 list"
  assumes fin: "body_Finish off cb = Inr cb'" and small: "body_small cb"
    and off: "unat off = 4 * length pre" "4 * (length pre + length (cb_inst_tab cb)) + 40 < 2 ^ 32"
  defines "sec \<equiv> pre @ (code_words cb' @ cb_inst_tab cb' @ cb_lab_tab cb') @ rest"
  shows "\<exists>c. read_code sec (length pre) = Inr c \<and> code_loaded cb c"
proof -
  note F = body_Finish_small [OF fin small]
  obtain w0 w1 w2 w3 w4 w5 w6 w7 w8 w9 where w: "code_words cb' = [w0, w1, w2, w3, w4, w5, w6, w7, w8, w9]"
    by (simp add: code_words_def Let_def)
  have ws: "w0 = wr_all [C0_i32, C0_i64, C0_f32] [c_local (cb_ubh_code cb') ! 0, c_local (cb_ubh_code cb') ! 1,
        c_local (cb_ubh_code cb') ! 2] 0"
    "w1 = wr_all [C1_f64, C1_stack] [c_local (cb_ubh_code cb') ! 3, c_stack_size (cb_ubh_code cb')] 0"
    "w2 = wr_all [C2_i32, C2_i64, C2_f32, C2_f64] [c_io (cb_ubh_code cb') ! 0, c_io (cb_ubh_code cb') ! 1,
        c_io (cb_ubh_code cb') ! 2, c_io (cb_ubh_code cb') ! 3] 0"
    "w3 = wr_all [C3_label_num, C3_code_size] [c_label_num (cb_ubh_code cb'), c_code_size (cb_ubh_code cb')] 0"
    "w6 = ucast (cb_inst_tab_off cb')" "w7 = ucast (drop_bit 32 (cb_inst_tab_off cb'))"
    "w8 = ucast (cb_label_tab_off cb')" "w9 = ucast (drop_bit 32 (cb_label_tab_off cb'))"
    using w by (simp_all add: code_words_def Let_def del: wr_all.simps)
  have at: "sec ! length pre = w0 \<and> sec ! (length pre + 1) = w1 \<and> sec ! (length pre + 2) = w2 \<and> sec ! (length pre + 3) = w3 \<and>
    sec ! (length pre + 6) = w6 \<and> sec ! (length pre + 7) = w7 \<and> sec ! (length pre + 8) = w8 \<and> sec ! (length pre + 9) = w9"
    by (rule code_words_nth [OF w]) (simp_all add: sec_def)
  have offs: "unat (word64 w6 w7) div 4 = length pre + 10"
    "unat (word64 w8 w9) div 4 = length pre + 10 + length (cb_inst_tab cb)"
    using off_div [OF off] F(9,10) ws by (simp_all add: word64_split)
  have tabs: "take (length (cb_inst_tab cb)) (drop (length pre + 10) sec) = cb_inst_tab cb"
    "take (length (cb_lab_tab cb)) (drop (length pre + 10 + length (cb_inst_tab cb)) sec) = cb_lab_tab cb"
    using F(1,2) by (simp_all add: sec_def)
  from small obtain l0 l1 l2 l3 i0 i1 i2 i3 where c: "c_local (cb_ubh_code cb) = [l0, l1, l2, l3]"
    "c_io (cb_ubh_code cb) = [i0, i1, i2, i3]" "list_all (\<lambda>x. take_bit 10 x = x) [l0, l1, l2, l3]"
    "list_all (\<lambda>x. take_bit 8 x = x) [i0, i1, i2, i3]" "take_bit 22 (c_stack_size (cb_ubh_code cb)) = c_stack_size (cb_ubh_code cb)"
    by (auto simp: code_fits_def body_small_def)
  have "length pre + 10 \<le> length sec" by (simp add: sec_def)
  then show ?thesis
    using at offs tabs F(4-8) c ws
    by (simp add: read_code_def code_loaded_def code_reads del: wr_all.simps)
qed


lemma code_section_from:
  assumes "finish_bodies off cbs = Inr cbs'" and "list_all body_small cbs"
    and "unat off = 4 * length pre" and "4 * length pre + Code_sec_size cbs < 2 ^ 32"
  shows "\<exists>codes. Set_code_sec (pre @ Write_to_buf cbs' @ rest) (length pre) (length cbs') = Inr codes \<and>
    list_all2 code_loaded cbs codes"
  using assms
proof (induction cbs arbitrary: off cbs' pre)
  case Nil
  then show ?case by simp
next
  case (Cons cb cbs)
  from Cons.prems(1) obtain cb' ds where fin: "body_Finish off cb = Inr cb'"
    "finish_bodies (off + of_nat (Entry_size cb')) cbs = Inr ds" and cbs': "cbs' = cb' # ds" by auto
  have small: "body_small cb" using Cons.prems(2) by simp
  note F = body_Finish_small [OF fin(1) small]
  have size: "Entry_size cb' = Entry_size cb" using F(1,2) by (simp add: Entry_size_def)
  have bytes: "4 * length pre + Entry_size cb + Code_sec_size cbs < 2 ^ 32"
    using Cons.prems(4) by (simp add: Code_sec_size_def)
  let ?e = "code_words cb' @ cb_inst_tab cb' @ cb_lab_tab cb'"
  let ?sec = "pre @ ?e @ Write_to_buf ds @ rest"
  have sec: "pre @ Write_to_buf cbs' @ rest = ?sec" by (simp add: cbs' Write_to_buf_def)
  obtain c where c: "read_code ?sec (length pre) = Inr c" "code_loaded cb c"
    using read_code_loaded [OF fin(1) small Cons.prems(3), of "Write_to_buf ds @ rest"] bytes
    by (auto simp: Entry_size_def SIZEOF_UBH_CODE_def)
  have pre: "length (pre @ ?e) = length pre + 10 + unat (c_code_size c) + unat (c_label_num c)"
    using c(2) F(1,2) by (simp add: code_loaded_def)
  have "unat (off + of_nat (Entry_size cb')) = 4 * length (pre @ ?e)"
    using bytes Cons.prems(3) F(1,2) size
    by (simp add: unat_word_ariths unat_of_nat Entry_size_def SIZEOF_UBH_CODE_def)
  moreover have "4 * length (pre @ ?e) + Code_sec_size cbs < 2 ^ 32"
    using bytes F(1,2) by (simp add: Entry_size_def SIZEOF_UBH_CODE_def)
  moreover have "list_all body_small cbs" using Cons.prems(2) by simp
  ultimately obtain codes where
    "Set_code_sec ((pre @ ?e) @ Write_to_buf ds @ rest) (length (pre @ ?e)) (length ds) = Inr codes"
    "list_all2 code_loaded cbs codes" using Cons.IH [OF fin(2), of "pre @ ?e"] by blast
  with c sec pre have "Set_code_sec (pre @ Write_to_buf cbs' @ rest) (length pre) (length cbs') = Inr (c # codes)"
    by (simp add: cbs' add.assoc)
  with c(2) \<open>list_all2 code_loaded cbs codes\<close> show ?case by auto
qed

text \<open>C6: the code section survives being written and loaded: when the bodies finish (every requested label was
  placed) and fit the 20-bit code size, the 12-bit label count and a section below 4 GB, the loader finds
  for every body, in order, its register counts, stack size, instruction words and label table.\<close>

theorem code_section_roundtrip:
  assumes "inst_encoder_Finish cbs = Inr cbs'" and "list_all body_small cbs" and "Code_sec_size cbs < 2 ^ 32"
  shows "\<exists>codes. Set_code_sec (Write_to_buf cbs') 0 (length cbs') = Inr codes \<and> list_all2 code_loaded cbs codes"
  using code_section_from [of 0 cbs cbs' "[]" "[]"] assms by (simp add: inst_encoder_Finish_def)

section \<open>Labels\<close>

text \<open>What a client of the encoder does to a body: append an instruction, place a label, ask for one.\<close>

datatype item = Inst uinst | Place "u8 list" | Ask "u8 list"

definition do_item :: "bool \<times> item \<Rightarrow> u_code_body \<Rightarrow> u_code_body res" where
  "do_item mi cb = (case snd mi of
      Inst i \<Rightarrow> body_Add_inst i cb
    | Place name \<Rightarrow> bindr (Add_label (fst mi) name cb) (\<lambda>r. Inr (snd r))
    | Ask name \<Rightarrow> bindr (Request_label (fst mi) name cb) (\<lambda>r. Inr (snd r)))"

fun insts_of :: "item list \<Rightarrow> uinst list" where
  "insts_of [] = []"
| "insts_of (Inst i # its) = i # insts_of its"
| "insts_of (Place name # its) = insts_of its"
| "insts_of (Ask name # its) = insts_of its"

text \<open>The number of instructions before the last placement of a label.\<close>

fun label_pos :: "u8 list \<Rightarrow> nat \<Rightarrow> nat option \<Rightarrow> item list \<Rightarrow> nat option" where
  "label_pos name n p [] = p"
| "label_pos name n p (Inst i # its) = label_pos name (Suc n) p its"
| "label_pos name n p (Place name' # its) = label_pos name n (if name' = name then Some n else p) its"
| "label_pos name n p (Ask name' # its) = label_pos name n p its"

definition mentions :: "u8 list \<Rightarrow> item list \<Rightarrow> bool" where
  "mentions name its \<longleftrightarrow> Place name \<in> set its \<or> Ask name \<in> set its"

definition name_bytes :: "item list \<Rightarrow> nat" where
  "name_bytes its = sum_list (map (\<lambda>it. case it of Inst i \<Rightarrow> 0 | Place name \<Rightarrow> Suc (length name) | Ask name \<Rightarrow> Suc (length name)) its)"

definition label_word :: "item list \<Rightarrow> u8 list \<Rightarrow> u32" where
  "label_word its name = (case label_pos name 0 None its of
      None \<Rightarrow> UNINIT_LABEL_IDX | Some k \<Rightarrow> of_nat (inst_off (insts_of its) k))"

lemma insts_of_append: "insts_of (xs @ ys) = insts_of xs @ insts_of ys"
  by (induction xs rule: insts_of.induct) simp_all

lemma label_pos_append:
  "label_pos name n p (xs @ ys) = label_pos name (n + length (insts_of xs)) (label_pos name n p xs) ys"
  by (induction name n p xs rule: label_pos.induct) simp_all

lemma label_pos_le: "label_pos name n p its = Some k \<Longrightarrow> (p = Some k \<or> k \<le> n + length (insts_of its))"
  by (induction name n p its rule: label_pos.induct) (fastforce split: if_splits)+

lemma label_pos_none: "Place name \<notin> set its \<Longrightarrow> label_pos name n p its = p"
  by (induction name n p its rule: label_pos.induct) auto

lemma inst_off_le: "inst_off is k \<le> prog_words is"
proof -
  have "prog_words (take k is @ drop k is) = prog_words (take k is) + prog_words (drop k is)"
    by (rule prog_words_simps)
  then show ?thesis by (simp add: inst_off_def)
qed

lemma inst_off_append: "k \<le> length is \<Longrightarrow> inst_off (is @ js) k = inst_off is k"
  by (simp add: inst_off_def)

lemma inst_off_length: "inst_off is (length is) = prog_words is"
  by (simp add: inst_off_def)

lemma label_word_snoc:
  "label_word (its @ [Inst i]) name = label_word its name"
  "label_word (its @ [Ask n]) name = label_word its name"
  "label_word (its @ [Place n]) name =
    (if n = name then of_nat (prog_words (insts_of its)) else label_word its name)"
  using label_pos_le [of name 0 None its]
  by (auto simp: label_word_def label_pos_append insts_of_append inst_off_append inst_off_length
      split: option.splits)

definition body_inv :: "item list \<Rightarrow> u_code_body \<Rightarrow> bool" where
  "body_inv its cb \<longleftrightarrow> (let N = cb_lab_name_tab cb in
    foldr_res Add_inst_of (insts_of its) [] = Inr (cb_inst_tab cb) \<and>
    length (cb_inst_tab cb) = prog_words (insts_of its) \<and>
    str_tab_ok N \<and> no_dups N \<and> length (st_entry_vec N) = length (cb_lab_tab cb) \<and>
    length (st_raw_buf N) \<le> name_bytes its \<and> length (cb_lab_tab cb) \<le> length its \<and>
    (\<forall>name. st_cache N (c_str name) \<noteq> None \<longleftrightarrow> mentions name its) \<and>
    (\<forall>j < length (cb_lab_tab cb). \<exists>name. tab_entry N j = c_str name) \<and>
    (\<forall>name i. st_cache N (c_str name) = Some i \<longrightarrow> cb_lab_tab cb ! unat i = label_word its name))"

lemma c_str_inj [simp]: "c_str a = c_str b \<longleftrightarrow> a = b"
  by (simp add: c_str_def)

lemma body_inv_empty: "body_inv [] (U_CODE_BODY l io s)"
  by (simp add: body_inv_def U_CODE_BODY_def str_tab_ok_empty U_STR_TAB_def mentions_def name_bytes_def
      no_dups_def str_tab_ok_def)

lemma body_inv_Inst:
  assumes "body_inv its cb" and "list_all inst_ok (insts_of (its @ [Inst i]))"
  shows "\<exists>cb'. body_Add_inst i cb = Inr cb' \<and> body_inv (its @ [Inst i]) cb'"
proof -
  from add_insts_program [OF assms(2), of "[]"] obtain ws where
    ws: "foldr_res Add_inst_of (insts_of its @ [i]) [] = Inr ws" "length ws = prog_words (insts_of its @ [i])"
    by (auto simp: insts_of_append)
  with assms(1) have "Add_inst_of i (cb_inst_tab cb) = Inr ws"
    by (simp add: foldr_res_append body_inv_def Let_def)
  with assms(1) ws show ?thesis
    by (auto simp: body_Add_inst_def body_inv_def Let_def insts_of_append label_word_snoc mentions_def name_bytes_def)
qed

lemma body_inv_Ask:
  assumes "body_inv its cb" and "name_bytes its + length name + 1 < 2 ^ 32" and "length its + 1 < 2 ^ 32"
  shows "\<exists>i cb'. Request_label moved name cb = Inr (i, cb') \<and> body_inv (its @ [Ask name]) cb' \<and>
    cb_inst_tab cb' = cb_inst_tab cb \<and> st_cache (cb_lab_name_tab cb') (c_str name) = Some i"
proof (cases "st_cache (cb_lab_name_tab cb) (c_str name)")
  case (Some i)
  then have "Request_label moved name cb = Inr (i, cb)"
    by (simp add: Request_label_def Contains_def Get_idx_def)
  moreover have "mentions name its" using assms(1) Some by (auto simp: body_inv_def Let_def)
  then have "body_inv (its @ [Ask name]) cb"
    using assms(1) by (auto simp: body_inv_def Let_def insts_of_append label_word_snoc mentions_def name_bytes_def)
  ultimately show ?thesis using Some by blast
next
  case None
  let ?N = "cb_lab_name_tab cb" and ?b = "c_str name"
  note I = assms(1) [unfolded body_inv_def Let_def]
  have room: "has_room ?b ?N" using I assms(2,3) by (simp add: has_room_def c_str_def)
  have ok: "str_tab_ok ?N" "no_dups ?N" using I by simp_all
  define t where "t = snd (Add moved ?b ?N)"
  note E = Add_entries [OF ok(1) room, where moved = moved, folded t_def]
  have cache: "st_cache t = (st_cache ?N)(?b \<mapsto> of_nat (length (st_entry_vec ?N)))"
    unfolding t_def by (rule Add_cache_new [OF ok(1) room ok(2) None])
  have t: "str_tab_ok t" "no_dups t" "length (st_raw_buf t) = length (st_raw_buf ?N) + length ?b"
    using Add_ok [OF ok(1) room] Add_no_dups [OF ok(1) room ok(2) None]
    by (simp_all add: t_def) (simp add: Add_def Let_def)
  let ?cb = "cb\<lparr>cb_lab_tab := cb_lab_tab cb @ [UNINIT_LABEL_IDX], cb_lab_name_tab := t\<rparr>"
  let ?i = "fst (Add moved ?b ?N)"
  have i: "?i = of_nat (length (st_entry_vec ?N))" by (simp add: Add_def Let_def)
  have "Request_label moved name cb = Inr (?i, ?cb)"
    using None E(2) I by (simp add: Request_label_def Contains_def t_def case_prod_unfold Let_def)
  moreover have "body_inv (its @ [Ask name]) ?cb"
  proof -
    have "\<not> mentions name its" using I None by blast
    then have unplaced: "label_word its name = UNINIT_LABEL_IDX"
      by (simp add: label_word_def label_pos_none mentions_def)
    have len: "unat (of_nat (length (cb_lab_tab cb)) :: u32) = length (cb_lab_tab cb)"
      using I assms(3) by (intro unat_of_nat_u32) simp
    have "cb_lab_tab ?cb ! unat j = label_word its n" if "st_cache t (c_str n) = Some j" for n j
    proof (cases "n = name")
      case True
      with that cache I len unplaced show ?thesis by (auto simp: nth_append)
    next
      case False
      with that cache have "st_cache ?N (c_str n) = Some j" by simp
      with I ok(1) have "cb_lab_tab cb ! unat j = label_word its n" "unat j < length (cb_lab_tab cb)"
        unfolding str_tab_ok_def by metis+
      then show ?thesis by (simp add: nth_append)
    qed
    moreover have "\<exists>n. tab_entry t j = c_str n" if "j < length (cb_lab_tab ?cb)" for j
      using that E(3,5) I by (cases "j = length (cb_lab_tab cb)") auto
    moreover have "st_cache t (c_str n) \<noteq> None \<longleftrightarrow> mentions n (its @ [Ask name])" for n
      using I cache by (auto simp: mentions_def)
    ultimately show ?thesis
      using I t E(2) by (simp add: body_inv_def Let_def insts_of_append label_word_snoc name_bytes_def c_str_def)
  qed
  ultimately show ?thesis using cache i by auto
qed


lemma body_inv_Place:
  assumes "body_inv its cb" and "name_bytes its + length name + 1 < 2 ^ 32" and "length its + 1 < 2 ^ 32"
  shows "\<exists>i cb'. Add_label moved name cb = Inr (i, cb') \<and> body_inv (its @ [Place name]) cb'"
proof -
  from body_inv_Ask [OF assms, of moved] obtain i cb1 where
    cb1: "Request_label moved name cb = Inr (i, cb1)" "body_inv (its @ [Ask name]) cb1"
    "cb_inst_tab cb1 = cb_inst_tab cb" "st_cache (cb_lab_name_tab cb1) (c_str name) = Some i" by blast
  note I = cb1(2) [unfolded body_inv_def Let_def]
  have i: "unat i < length (cb_lab_tab cb1)" "tab_entry (cb_lab_name_tab cb1) (unat i) = c_str name"
    using I cb1(4) unfolding str_tab_ok_def by metis+
  let ?cb = "cb1\<lparr>cb_lab_tab := (cb_lab_tab cb1)[unat i := of_nat (length (cb_inst_tab cb1))]\<rparr>"
  have "Add_label moved name cb = Inr (i, ?cb)"
    using cb1(1) i(1) by (simp add: Add_label_def Set_label_def)
  moreover have "cb_lab_tab ?cb ! unat j = label_word (its @ [Place name]) n"
    if j: "st_cache (cb_lab_name_tab cb1) (c_str n) = Some j" for n j
  proof (cases "n = name")
    case True
    with j cb1(4) i(1) I show ?thesis by (simp add: label_word_snoc insts_of_append)
  next
    case False
    have "tab_entry (cb_lab_name_tab cb1) (unat j) = c_str n" using I j unfolding str_tab_ok_def by metis
    with False i(2) have "unat j \<noteq> unat i" by auto
    with False I j show ?thesis by (simp add: label_word_snoc)
  qed
  moreover have "mentions n (its @ [Place name]) \<longleftrightarrow> mentions n (its @ [Ask name])" for n
    by (auto simp: mentions_def)
  ultimately have "body_inv (its @ [Place name]) ?cb"
    using I by (simp add: body_inv_def Let_def insts_of_append name_bytes_def)
  with \<open>Add_label moved name cb = Inr (i, ?cb)\<close> show ?thesis by blast
qed

definition items_small :: "item list \<Rightarrow> bool" where
  "items_small its \<longleftrightarrow> list_all inst_ok (insts_of its) \<and> name_bytes its < 2 ^ 32 \<and> length its < 2 ^ 32"

lemma body_inv_run:
  assumes "items_small (map snd mis)"
  shows "\<exists>cb. foldr_res do_item mis (U_CODE_BODY l io s) = Inr cb \<and> body_inv (map snd mis) cb"
  using assms
proof (induction mis rule: rev_induct)
  case Nil
  show ?case by (simp add: body_inv_empty)
next
  case (snoc mi mis)
  obtain mv it where mi: "mi = (mv, it)" by force
  note small = snoc.prems [unfolded items_small_def]
  then have "items_small (map snd mis)" by (simp add: items_small_def insts_of_append name_bytes_def)
  with snoc.IH obtain cb where cb: "foldr_res do_item mis (U_CODE_BODY l io s) = Inr cb" "body_inv (map snd mis) cb"
    by blast
  have "\<exists>cb'. do_item mi cb = Inr cb' \<and> body_inv (map snd mis @ [it]) cb'"
  proof (cases it)
    case (Inst i)
    with body_inv_Inst [OF cb(2), of i] small show ?thesis by (simp add: do_item_def mi)
  next
    case (Place name)
    with body_inv_Place [OF cb(2), of name mv] small show ?thesis
      by (auto simp: do_item_def mi name_bytes_def)
  next
    case (Ask name)
    with body_inv_Ask [OF cb(2), of name mv] small show ?thesis
      by (auto simp: do_item_def mi name_bytes_def)
  qed
  with cb(1) show ?case by (auto simp: foldr_res_append mi)
qed

text \<open>C9: label bookkeeping.  Assembling a body from any sequence of instructions, label placements and label
  requests succeeds; every label mentioned has its own index, and its table entry is the word offset of
  the instruction that follows its last placement, or the uninitialised marker when it was never placed;
  \<^verbatim>\<open>Finish\<close> accepts the body exactly when every mentioned label was placed.\<close>

theorem labels_resolve:
  assumes "items_small (map snd mis)" and "prog_words (insts_of (map snd mis)) < 2 ^ 32 - 1"
  shows "\<exists>cb. foldr_res do_item mis (U_CODE_BODY l io s) = Inr cb \<and>
    (\<forall>name. mentions name (map snd mis) \<longrightarrow>
      (\<exists>i. st_cache (cb_lab_name_tab cb) (c_str name) = Some i \<and> unat i < length (cb_lab_tab cb) \<and>
        cb_lab_tab cb ! unat i = (case label_pos name 0 None (map snd mis) of
            None \<Rightarrow> UNINIT_LABEL_IDX | Some k \<Rightarrow> of_nat (inst_off (insts_of (map snd mis)) k)))) \<and>
    ((\<exists>cb'. body_Finish off cb = Inr cb') \<longleftrightarrow>
      (\<forall>name. mentions name (map snd mis) \<longrightarrow> label_pos name 0 None (map snd mis) \<noteq> None))"
proof -
  let ?its = "map snd mis"
  from body_inv_run [OF assms(1)] obtain cb where
    cb: "foldr_res do_item mis (U_CODE_BODY l io s) = Inr cb" "body_inv ?its cb" by blast
  note I = cb(2) [unfolded body_inv_def Let_def]
  have entry: "\<exists>i. st_cache (cb_lab_name_tab cb) (c_str name) = Some i \<and> unat i < length (cb_lab_tab cb) \<and>
      cb_lab_tab cb ! unat i = label_word ?its name" if "mentions name ?its" for name
  proof -
    from that I obtain i where "st_cache (cb_lab_name_tab cb) (c_str name) = Some i" by blast
    with I show ?thesis unfolding str_tab_ok_def by (metis (no_types))
  qed
  have marker: "label_word ?its name = UNINIT_LABEL_IDX \<longleftrightarrow> label_pos name 0 None ?its = None" for name
  proof (cases "label_pos name 0 None ?its")
    case (Some k)
    have "unat (of_nat (inst_off (insts_of ?its) k) :: u32) = inst_off (insts_of ?its) k"
      using inst_off_le [of "insts_of ?its" k] assms(2) by (intro unat_of_nat_u32) simp
    moreover have "unat UNINIT_LABEL_IDX = 2 ^ 32 - 1"
      by (simp add: UNINIT_LABEL_IDX_def unsigned_minus_1_eq_mask mask_eq_exp_minus_1)
    ultimately have "of_nat (inst_off (insts_of ?its) k) \<noteq> UNINIT_LABEL_IDX"
      using inst_off_le [of "insts_of ?its" k] assms(2) by auto
    with Some show ?thesis by (simp add: label_word_def)
  qed (simp add: label_word_def)
  have each: "\<exists>name. mentions name ?its \<and> cb_lab_tab cb ! j = label_word ?its name" if j: "j < length (cb_lab_tab cb)" for j
  proof -
    from I j obtain name where name: "tab_entry (cb_lab_name_tab cb) j = c_str name" by blast
    have "st_cache (cb_lab_name_tab cb) (c_str name) = Some (of_nat j)"
      using no_dups_cache [of "cb_lab_name_tab cb" j] I j name by simp
    moreover have "unat (of_nat j :: u32) = j"
      using I j assms(1) by (intro unat_of_nat_u32) (simp add: items_small_def)
    ultimately show ?thesis using I by (metis option.distinct(1))
  qed
  have "(\<exists>cb'. body_Finish off cb = Inr cb') \<longleftrightarrow> list_all (\<lambda>w. w \<noteq> UNINIT_LABEL_IDX) (cb_lab_tab cb)"
    by (auto simp: body_Finish_def Let_def)
  also have "\<dots> \<longleftrightarrow> (\<forall>name. mentions name ?its \<longrightarrow> label_pos name 0 None ?its \<noteq> None)"
    using entry each marker unfolding list_all_length by metis
  finally show ?thesis using cb(1) entry unfolding label_word_def by (intro exI [of _ cb]) simp
qed


text \<open>\<^verbatim>\<open>jmp L; L: return\<close>, with the label requested before it is placed.\<close>

definition ex_items :: "(bool \<times> item) list" where
  "ex_items = [(False, Ask [76]), (False, Inst (0x04, I32, TY_AM32_OFS, [0])), (True, Place [76]),
    (False, Inst (0x02, I32, TY_AM32, []))]"

lemma ex_items_small: "items_small (map snd ex_items)" "prog_words (insts_of (map snd ex_items)) = 2"
  by (simp_all add: ex_items_def items_small_def inst_ok_def content_fits_iff unsigned_fits_def
      UWINST_TY_AM_def u_opcode_list_def name_bytes_def inst_words_def Is_32bit_am_def)

lemma labels_resolve_witness:
  "\<exists>cb i. foldr_res do_item ex_items (U_CODE_BODY (1, 0, 0, 0) (0, 0, 0, 0) 0) = Inr cb \<and>
    st_cache (cb_lab_name_tab cb) (c_str [76]) = Some i \<and> cb_lab_tab cb ! unat i = 1"
proof -
  have "mentions [76] (map snd ex_items)" "label_pos [76] 0 None (map snd ex_items) = Some 1"
    "inst_off (insts_of (map snd ex_items)) 1 = 1"
    by (simp_all add: ex_items_def mentions_def inst_off_def inst_words_def Is_32bit_am_def)
  with labels_resolve [OF ex_items_small(1), of "(1, 0, 0, 0)" "(0, 0, 0, 0)" 0 0] show ?thesis
    by (fastforce simp: ex_items_small(2))
qed

definition ex_body :: u_code_body where
  "ex_body = (U_CODE_BODY (3, 1, 0, 0) (2, 0, 0, 0) 16)\<lparr>cb_inst_tab := [4, 2], cb_lab_tab := [1]\<rparr>"

lemma code_section_roundtrip_witness:
  "\<exists>cbs' codes. inst_encoder_Finish [ex_body, ex_body] = Inr cbs' \<and>
    Set_code_sec (Write_to_buf cbs') 0 2 = Inr codes \<and> list_all2 code_loaded [ex_body, ex_body] codes"
proof -
  obtain cbs' where fin: "inst_encoder_Finish [ex_body, ex_body] = Inr cbs'" "length cbs' = 2"
    by (auto simp: inst_encoder_Finish_def body_Finish_def Let_def ex_body_def UNINIT_LABEL_IDX_def)
  moreover have "list_all body_small [ex_body, ex_body]"
    using UBH_CODE_fits by (simp add: body_small_def ex_body_def U_CODE_BODY_def)
  ultimately show ?thesis
    using code_section_roundtrip [OF fin(1)] by (simp add: Code_sec_size_def Entry_size_def ex_body_def SIZEOF_UBH_CODE_def)
qed

end
