(* ===== verification/U_Binary.thy ===== *)
theory U_Binary
  imports U_Inst_Encoder
begin

text \<open>
  The binary file: the bytes of the module header, the section headers and the section entries
  (\<^verbatim>\<open>include/ubh/ubh.h\<close>, laid out as GCC does on a little-endian 64-bit target, with the sizes that
  \<^verbatim>\<open>Check_ubh_ds_size\<close> demands), and the loader \<^verbatim>\<open>U_MODULE::Init_module_from_buffer\<close> with
  \<^verbatim>\<open>Set_nat_sec\<close> (\<^verbatim>\<open>src/ubh/u_module.cxx\<close>).  A section pointer with its element count is the
  list of the entries that lie inside the buffer.
\<close>

section \<open>Layout\<close>

definition UBH_MHDR_SIZE :: nat where "UBH_MHDR_SIZE = 12"
definition UBH_SHDR_SIZE :: nat where "UBH_SHDR_SIZE = 8"
definition UBH_TYPE_SIZE :: nat where "UBH_TYPE_SIZE = 4"
definition UBH_IMPORT_SIZE :: nat where "UBH_IMPORT_SIZE = 4"
definition UBH_IMP_NAT_SIZE :: nat where "UBH_IMP_NAT_SIZE = 12"
definition UBH_GLBL_SIZE :: nat where "UBH_GLBL_SIZE = 16"
definition UBH_EXPORT_SIZE :: nat where "UBH_EXPORT_SIZE = 4"
definition UBH_EXP_GLBL_SIZE :: nat where "UBH_EXP_GLBL_SIZE = 8"
definition UBH_FUNC_SIZE :: nat where "UBH_FUNC_SIZE = 8"
definition UBH_NAT_SIZE :: nat where "UBH_NAT_SIZE = 16"

lemmas ubh_sizes =
  UBH_MHDR_SIZE_def UBH_SHDR_SIZE_def UBH_TYPE_SIZE_def UBH_IMPORT_SIZE_def UBH_IMP_NAT_SIZE_def
  UBH_GLBL_SIZE_def UBH_EXPORT_SIZE_def UBH_EXP_GLBL_SIZE_def UBH_FUNC_SIZE_def UBH_NAT_SIZE_def

text \<open>\<^verbatim>\<open>UBH_MAGIC\<close> is \<^verbatim>\<open>"uASM"\<close>.\<close>

definition UBH_MAGIC :: "u8 list" where "UBH_MAGIC = [0x75, 0x41, 0x53, 0x4d]"

definition M_shdr_num :: bitfield where "M_shdr_num = (0, 6)"
definition M_shdr_off :: bitfield where "M_shdr_off = (6, 26)"
definition T_ret_num :: bitfield where "T_ret_num = (0, 2)"
definition T_param_num :: bitfield where "T_param_num = (2, 4)"
definition T_elem :: bitfield where "T_elem = (6, 26)"
definition I_desc_tag :: bitfield where "I_desc_tag = (0, 4)"
definition I_func_idx :: bitfield where "I_func_idx = (4, 28)"
definition N_nat_idx :: bitfield where "N_nat_idx = (0, 8)"
definition N_nat_off :: bitfield where "N_nat_off = (8, 24)"
definition G_mut :: bitfield where "G_mut = (0, 4)"
definition G_ty :: bitfield where "G_ty = (4, 2)"

lemmas entry_fields = M_shdr_num_def M_shdr_off_def T_ret_num_def T_param_num_def T_elem_def I_desc_tag_def
  I_func_idx_def N_nat_idx_def N_nat_off_def G_mut_def G_ty_def

definition mhdr_bytes :: "u32 \<Rightarrow> u32 \<Rightarrow> u8 list" where
  "mhdr_bytes shdr_num shdr_off =
    UBH_MAGIC @ replicate 4 0 @ le_bytes 4 (wr_all [M_shdr_num, M_shdr_off] [shdr_num, shdr_off] 0 :: u32)"

definition shdr_bytes :: "ubh_shdr \<Rightarrow> u8 list" where
  "shdr_bytes s = le_bytes 4 (sh_u s) @ le_bytes 4 (sh_idx s)"

definition shdr_of :: "u8 list \<Rightarrow> ubh_shdr" where
  "shdr_of bs = \<lparr>sh_u = le_word (take 4 bs), sh_idx = le_word (take 4 (drop 4 bs))\<rparr>"

definition type_bytes :: "ubh_type \<Rightarrow> u8 list" where
  "type_bytes t = le_bytes 4 (wr_all [T_ret_num, T_param_num, T_elem] [t_ret_num t, t_param_num t, t_elem t] 0)"

definition type_of_bytes :: "u8 list \<Rightarrow> ubh_type" where
  "type_of_bytes bs = (let w = le_word bs in
    \<lparr>t_ret_num = rd T_ret_num w, t_param_num = rd T_param_num w, t_elem = rd T_elem w\<rparr>)"

definition import_bytes :: "ubh_import \<Rightarrow> u8 list" where
  "import_bytes i = le_bytes 4 (wr_all [I_desc_tag, I_func_idx] [im_desc_tag i, im_func_idx i] 0)"

definition import_of :: "u8 list \<Rightarrow> ubh_import" where
  "import_of bs = (let w = le_word bs in \<lparr>im_desc_tag = rd I_desc_tag w, im_func_idx = rd I_func_idx w\<rparr>)"

definition export_bytes :: "ubh_export \<Rightarrow> u8 list" where
  "export_bytes i = le_bytes 4 (wr_all [I_desc_tag, I_func_idx] [ex_desc_tag i, ex_func_idx i] 0)"

definition export_of :: "u8 list \<Rightarrow> ubh_export" where
  "export_of bs = (let w = le_word bs in \<lparr>ex_desc_tag = rd I_desc_tag w, ex_func_idx = rd I_func_idx w\<rparr>)"

definition imp_nat_bytes :: "ubh_imp_nat \<Rightarrow> u8 list" where
  "imp_nat_bytes i =
    le_bytes 4 (wr_all [I_desc_tag, I_func_idx] [in_desc_tag i, in_func_idx i] 0) @
    le_bytes 4 (in_ntype_off i) @
    le_bytes 4 (wr_all [N_nat_idx, N_nat_off] [in_nat_idx i, in_nat_off i] 0)"

definition imp_nat_of :: "u8 list \<Rightarrow> ubh_imp_nat" where
  "imp_nat_of bs =
    (let w = le_word (take 4 bs); v = le_word (take 4 (drop 8 bs)) in
     \<lparr>in_desc_tag = rd I_desc_tag w, in_func_idx = rd I_func_idx w, in_ntype_off = le_word (take 4 (drop 4 bs)),
      in_nat_idx = rd N_nat_idx v, in_nat_off = rd N_nat_off v\<rparr>)"

definition func_bytes :: "ubh_func \<Rightarrow> u8 list" where
  "func_bytes f = le_bytes 2 (fn_type_idx f) @ le_bytes 2 (fn_name_idx f) @ le_bytes 2 (fn_flags f) @
    le_bytes 2 (fn_code_idx f)"

definition func_of :: "u8 list \<Rightarrow> ubh_func" where
  "func_of bs = \<lparr>fn_type_idx = le_word (take 2 bs), fn_name_idx = le_word (take 2 (drop 2 bs)),
    fn_flags = le_word (take 2 (drop 4 bs)), fn_code_idx = le_word (take 2 (drop 6 bs))\<rparr>"

definition glbl_bytes :: "ubh_glbl \<Rightarrow> u8 list" where
  "glbl_bytes g = le_bytes 4 (wr_all [G_mut, G_ty] [ucast (g_mut g), ucast (g_ty g)] 0 :: u32) @
    le_bytes 4 (g_data_idx g) @ le_bytes 8 (g_init_val g)"

definition glbl_of :: "u8 list \<Rightarrow> ubh_glbl" where
  "glbl_of bs = (let w = le_word (take 4 bs) :: u32 in
    \<lparr>g_mut = ucast (rd G_mut w), g_ty = ucast (rd G_ty w), g_data_idx = le_word (take 4 (drop 4 bs)),
     g_init_val = le_word (take 8 (drop 8 bs))\<rparr>)"

definition exp_glbl_of :: "u8 list \<Rightarrow> ubh_exp_glbl" where
  "exp_glbl_of bs = \<lparr>eg_glbl_name_idx = le_word (take 4 bs), eg_glbl_tab_idx = le_word (take 4 (drop 4 bs))\<rparr>"

section \<open>Sections of a buffer\<close>

text \<open>The entries of a given size that lie inside the bytes at a section pointer.\<close>

primrec entries :: "nat \<Rightarrow> nat \<Rightarrow> (u8 list \<Rightarrow> 'a) \<Rightarrow> u8 list \<Rightarrow> 'a list" where
  "entries 0 sz dec bs = []"
| "entries (Suc n) sz dec bs =
    (if sz \<le> length bs then dec (take sz bs) # entries n sz dec (drop sz bs) else [])"

definition words32 :: "u8 list \<Rightarrow> u32 list" where
  "words32 bs = entries (length bs div 4) 4 le_word bs"

text \<open>\<^verbatim>\<open>Set_nat_sec\<close>: the native entries from byte \<open>p\<close> of the section on.\<close>

primrec Set_nat_sec :: "u8 list \<Rightarrow> nat \<Rightarrow> nat \<Rightarrow> ubh_nat list res" where
  "Set_nat_sec sec p 0 = Inr []"
| "Set_nat_sec sec p (Suc n) =
    (if p + UBH_NAT_SIZE \<le> length sec
     then let byte_num = le_word (take 4 (drop p sec)) :: u32;
              entry = \<lparr>n_byte_num = byte_num, n_checksum = le_word (take 4 (drop (p + 4) sec)),
                       n_buf = drop (unat (le_word (take 8 (drop (p + 8) sec)) :: u64)) sec\<rparr>
          in bindr (Set_nat_sec sec (p + UBH_NAT_SIZE + unat byte_num) n) (\<lambda>es. Inr (entry # es))
     else Inl Out_of_block)"

text \<open>One section header of the loop of \<^verbatim>\<open>Init_module_from_buffer\<close>.\<close>

definition load_section :: "u8 list \<Rightarrow> ubh_shdr \<Rightarrow> u_module \<Rightarrow> u_module res" where
  "load_section buffer sec_header m =
    (if \<not> Have_sec sec_header then Inr m
     else bindr (Get_sec_id_from_header sec_header) (\<lambda>sec_id.
       bindr (Get_elem_num sec_header) (\<lambda>elem_num.
       let sec_pointer = drop (unat (sh_idx sec_header)) buffer; n = unat elem_num in
       case sec_id of
         S_TYPE \<Rightarrow> Inr (m\<lparr>m_type_sec := entries n UBH_TYPE_SIZE type_of_bytes sec_pointer\<rparr>)
       | S_IMPORT \<Rightarrow> Inr (m\<lparr>m_import_sec := entries n UBH_IMPORT_SIZE import_of sec_pointer\<rparr>)
       | S_IMP_NAT \<Rightarrow> Inr (m\<lparr>m_imp_nat_sec := entries n UBH_IMP_NAT_SIZE imp_nat_of sec_pointer\<rparr>)
       | S_FUNC \<Rightarrow> Inr (m\<lparr>m_func_sec := entries n UBH_FUNC_SIZE func_of sec_pointer\<rparr>)
       | S_EXPORT \<Rightarrow> Inr (m\<lparr>m_export_sec := entries n UBH_EXPORT_SIZE export_of sec_pointer\<rparr>)
       | S_EXPORT_GLBL \<Rightarrow> Inr (m\<lparr>m_exp_glbl_sec := entries n UBH_EXP_GLBL_SIZE exp_glbl_of sec_pointer\<rparr>)
       | S_DATA \<Rightarrow> Inr (m\<lparr>m_data_sec := take n sec_pointer\<rparr>)
       | S_RELOC \<Rightarrow> Inr (m\<lparr>m_reloc_sec := entries n 4 le_word sec_pointer\<rparr>)
       | S_GLBL \<Rightarrow> Inr (m\<lparr>m_glbl_sec := entries n UBH_GLBL_SIZE glbl_of sec_pointer\<rparr>)
       | S_CODE \<Rightarrow>
           bindr (sec_elem_num m S_CODE) (\<lambda>code_elem_num.
           bindr (Set_code_sec (words32 sec_pointer) 0 code_elem_num) (\<lambda>codes. Inr (m\<lparr>m_code_sec := codes\<rparr>)))
       | S_MODULE_NAME \<Rightarrow> Inr (m\<lparr>m_module_name := take n sec_pointer\<rparr>)
       | S_GLBL_NAME \<Rightarrow> Inr (m\<lparr>m_glbl_name := take n sec_pointer\<rparr>)
       | S_NN_STR \<Rightarrow> Inr (m\<lparr>m_nn_str := take n sec_pointer\<rparr>)
       | S_NAT \<Rightarrow>
           bindr (sec_elem_num m S_NAT) (\<lambda>nat_elem_num.
           bindr (Set_nat_sec sec_pointer 0 nat_elem_num) (\<lambda>es. Inr (m\<lparr>m_nat_sec := es\<rparr>)))
       | S_COUNT \<Rightarrow> Inl Assertion)))"

text \<open>The header: magic number, number and offset of the section headers.\<close>

definition read_mhdr :: "u8 list \<Rightarrow> (u32 \<times> u32) res" where
  "read_mhdr buffer =
    (if length buffer < UBH_MHDR_SIZE then Inl Out_of_block
     else if take 4 buffer \<noteq> UBH_MAGIC then Inl Exit_failure
     else let w = le_word (take 4 (drop 8 buffer)) :: u32 in Inr (rd M_shdr_num w, rd M_shdr_off w))"

definition read_shdr_tab :: "u8 list \<Rightarrow> u32 \<Rightarrow> u32 \<Rightarrow> ubh_shdr list res" where
  "read_shdr_tab buffer shdr_num shdr_off =
    (if unat shdr_off + unat shdr_num * UBH_SHDR_SIZE \<le> length buffer
     then Inr (entries (unat shdr_num) UBH_SHDR_SIZE shdr_of (drop (unat shdr_off) buffer))
     else Inl Out_of_block)"

text \<open>Everything before the type caches, and the whole of \<^verbatim>\<open>Init_module_from_buffer\<close>.\<close>

definition load_sections :: "u8 list \<Rightarrow> u_module \<Rightarrow> u_module res" where
  "load_sections buffer m =
    bindr (read_mhdr buffer) (\<lambda>(shdr_num, shdr_off).
    bindr (read_shdr_tab buffer shdr_num shdr_off) (\<lambda>shdr_tab.
    bindr (Set_shdr_tab shdr_tab m) (foldr_res (load_section buffer) shdr_tab)))"

definition Init_module_from_buffer :: "u8 list \<Rightarrow> u_module \<Rightarrow> u_module res" where
  "Init_module_from_buffer buffer m = bindr (load_sections buffer m) Decode_type_and_cache"

section \<open>Entries survive their byte form\<close>

text \<open>The contract of an entry format: a fixed size, and decoding gives back every entry whose members fit.\<close>

locale entry_codec =
  fixes enc :: "'a \<Rightarrow> u8 list" and dec :: "u8 list \<Rightarrow> 'a" and fits :: "'a \<Rightarrow> bool" and width :: nat
  assumes length_enc: "length (enc x) = width"
    and dec_enc: "fits x \<Longrightarrow> dec (enc x) = x"
begin

lemma length_encs: "length (concat (map enc xs)) = width * length xs"
  by (induction xs) (simp_all add: length_enc)

lemma entries_encs:
  assumes "list_all fits xs"
  shows "entries (length xs) width dec (concat (map enc xs) @ rest) = xs"
  using assms by (induction xs) (simp_all add: length_enc dec_enc)

lemma entries_short: "length bs < width \<Longrightarrow> entries n width dec bs = []"
  by (cases n) simp_all

end

interpretation mhdr_w: bitfield_struct "[M_shdr_num, M_shdr_off]" "TYPE(32)"
  by unfold_locales (simp_all add: entry_fields in_word_def apart_def)

interpretation type_w: bitfield_struct "[T_ret_num, T_param_num, T_elem]" "TYPE(32)"
  by unfold_locales (simp_all add: entry_fields in_word_def apart_def)

interpretation import_w: bitfield_struct "[I_desc_tag, I_func_idx]" "TYPE(32)"
  by unfold_locales (simp_all add: entry_fields in_word_def apart_def)

interpretation nat_w: bitfield_struct "[N_nat_idx, N_nat_off]" "TYPE(32)"
  by unfold_locales (simp_all add: entry_fields in_word_def apart_def)

interpretation glbl_w: bitfield_struct "[G_mut, G_ty]" "TYPE(32)"
  by unfold_locales (simp_all add: entry_fields in_word_def apart_def)

lemma entry_field_widths:
  "snd M_shdr_num = 6" "snd M_shdr_off = 26" "snd T_ret_num = 2" "snd T_param_num = 4" "snd T_elem = 26"
  "snd I_desc_tag = 4" "snd I_func_idx = 28" "snd N_nat_idx = 8" "snd N_nat_off = 24" "snd G_mut = 4" "snd G_ty = 2"
  by (simp_all add: entry_fields)

lemma entry_reads:
  fixes a b c :: u32
  shows "rd M_shdr_num (wr_all [M_shdr_num, M_shdr_off] [a, b] 0) = take_bit 6 a"
    "rd M_shdr_off (wr_all [M_shdr_num, M_shdr_off] [a, b] 0) = take_bit 26 b"
    "rd T_ret_num (wr_all [T_ret_num, T_param_num, T_elem] [a, b, c] 0) = take_bit 2 a"
    "rd T_param_num (wr_all [T_ret_num, T_param_num, T_elem] [a, b, c] 0) = take_bit 4 b"
    "rd T_elem (wr_all [T_ret_num, T_param_num, T_elem] [a, b, c] 0) = take_bit 26 c"
    "rd I_desc_tag (wr_all [I_desc_tag, I_func_idx] [a, b] 0) = take_bit 4 a"
    "rd I_func_idx (wr_all [I_desc_tag, I_func_idx] [a, b] 0) = take_bit 28 b"
    "rd N_nat_idx (wr_all [N_nat_idx, N_nat_off] [a, b] 0) = take_bit 8 a"
    "rd N_nat_off (wr_all [N_nat_idx, N_nat_off] [a, b] 0) = take_bit 24 b"
    "rd G_mut (wr_all [G_mut, G_ty] [a, b] 0) = take_bit 4 a"
    "rd G_ty (wr_all [G_mut, G_ty] [a, b] 0) = take_bit 2 b"
  using mhdr_w.rd_member [of 0 "[a, b]" 0] mhdr_w.rd_member [of 1 "[a, b]" 0] type_w.rd_member [of 0 "[a, b, c]" 0]
    type_w.rd_member [of 1 "[a, b, c]" 0] type_w.rd_member [of 2 "[a, b, c]" 0] import_w.rd_member [of 0 "[a, b]" 0]
    import_w.rd_member [of 1 "[a, b]" 0] nat_w.rd_member [of 0 "[a, b]" 0] nat_w.rd_member [of 1 "[a, b]" 0]
    glbl_w.rd_member [of 0 "[a, b]" 0] glbl_w.rd_member [of 1 "[a, b]" 0]
  by (simp_all add: entry_field_widths del: wr_all.simps)

lemma le_words [simp]:
  "le_word (le_bytes 4 (w::u32)) = w" "le_word (le_bytes 2 (h::u16)) = h" "le_word (le_bytes 8 (d::u64)) = d"
  by (simp_all add: le_word_bytes_full)

text \<open>Entries whose members fit their bit-fields.\<close>

definition type_fits :: "ubh_type \<Rightarrow> bool" where
  "type_fits t \<longleftrightarrow> take_bit 2 (t_ret_num t) = t_ret_num t \<and> take_bit 4 (t_param_num t) = t_param_num t \<and>
    take_bit 26 (t_elem t) = t_elem t"

definition import_fits :: "ubh_import \<Rightarrow> bool" where
  "import_fits i \<longleftrightarrow> take_bit 4 (im_desc_tag i) = im_desc_tag i \<and> take_bit 28 (im_func_idx i) = im_func_idx i"

definition export_fits :: "ubh_export \<Rightarrow> bool" where
  "export_fits i \<longleftrightarrow> take_bit 4 (ex_desc_tag i) = ex_desc_tag i \<and> take_bit 28 (ex_func_idx i) = ex_func_idx i"

definition imp_nat_fits :: "ubh_imp_nat \<Rightarrow> bool" where
  "imp_nat_fits i \<longleftrightarrow> take_bit 4 (in_desc_tag i) = in_desc_tag i \<and> take_bit 28 (in_func_idx i) = in_func_idx i \<and>
    take_bit 8 (in_nat_idx i) = in_nat_idx i \<and> take_bit 24 (in_nat_off i) = in_nat_off i"

definition glbl_fits :: "ubh_glbl \<Rightarrow> bool" where
  "glbl_fits g \<longleftrightarrow> take_bit 4 (g_mut g) = g_mut g \<and> take_bit 2 (g_ty g) = g_ty g"

lemma ucast_take_ucast: "ucast (take_bit n (ucast (h::u16) :: u32)) = take_bit n h"
  by (rule bit_word_eqI) (auto simp: bit_simps)

interpretation shdr_codec: entry_codec shdr_bytes shdr_of "\<lambda>s. True" UBH_SHDR_SIZE
  by unfold_locales (simp_all add: shdr_bytes_def shdr_of_def ubh_sizes)

interpretation type_codec: entry_codec type_bytes type_of_bytes type_fits UBH_TYPE_SIZE
  by unfold_locales
    (simp_all add: type_bytes_def type_of_bytes_def type_fits_def ubh_sizes Let_def entry_reads del: wr_all.simps)

interpretation import_codec: entry_codec import_bytes import_of import_fits UBH_IMPORT_SIZE
  by unfold_locales
    (simp_all add: import_bytes_def import_of_def import_fits_def ubh_sizes Let_def entry_reads del: wr_all.simps)

interpretation export_codec: entry_codec export_bytes export_of export_fits UBH_EXPORT_SIZE
  by unfold_locales
    (simp_all add: export_bytes_def export_of_def export_fits_def ubh_sizes Let_def entry_reads del: wr_all.simps)

interpretation imp_nat_codec: entry_codec imp_nat_bytes imp_nat_of imp_nat_fits UBH_IMP_NAT_SIZE
  by unfold_locales
    (simp_all add: imp_nat_bytes_def imp_nat_of_def imp_nat_fits_def ubh_sizes Let_def entry_reads del: wr_all.simps)

interpretation func_codec: entry_codec func_bytes func_of "\<lambda>f. True" UBH_FUNC_SIZE
  by unfold_locales (simp_all add: func_bytes_def func_of_def ubh_sizes)

interpretation glbl_codec: entry_codec glbl_bytes glbl_of glbl_fits UBH_GLBL_SIZE
  by unfold_locales
    (simp_all add: glbl_bytes_def glbl_of_def glbl_fits_def ubh_sizes Let_def entry_reads ucast_take_ucast del: wr_all.simps)

interpretation word_codec: entry_codec "le_bytes 4 :: u32 \<Rightarrow> u8 list" "le_word :: u8 list \<Rightarrow> u32" "\<lambda>w. True" 4
  by unfold_locales simp_all

lemma list_all_True [simp]: "list_all (\<lambda>x. True) xs"
  by (induction xs) simp_all

text \<open>The words of a section, whatever follows it.\<close>

lemma entries_append:
  "length xs = n \<Longrightarrow> (\<And>rest. entries n k dec (bs @ rest) = xs) \<Longrightarrow> length bs = k * n \<Longrightarrow>
    entries (n + j) k dec (bs @ rest) = xs @ entries j k dec rest"
proof (induction n arbitrary: xs bs)
  case (Suc n)
  have k: "k \<le> length bs" using Suc.prems(3) by simp
  have xs: "dec (take k bs) # entries n k dec (drop k bs @ rest) = xs" for rest
    using Suc.prems(2) [of rest] k by simp
  then obtain y ys where ys: "xs = y # ys" "y = dec (take k bs)" "\<And>rest. entries n k dec (drop k bs @ rest) = ys"
    by (cases xs) auto
  then have "entries (n + j) k dec (drop k bs @ rest) = ys @ entries j k dec rest"
    by (intro Suc.IH) (use Suc.prems in auto)
  with k ys show ?case by simp
qed simp

lemma words32_append: "words32 (concat (map (le_bytes 4) ws) @ rest) = ws @ words32 rest"
proof -
  have l: "length (concat (map (le_bytes 4) ws)) = 4 * length ws" using word_codec.length_encs .
  have "entries (length ws + length rest div 4) 4 le_word (concat (map (le_bytes 4) ws) @ rest) =
      ws @ entries (length rest div 4) 4 le_word rest"
    by (rule entries_append) (use l word_codec.entries_encs in auto)
  with l show ?thesis by (simp add: words32_def)
qed

lemma read_mhdr_bytes:
  assumes "unat n < 2 ^ 6" and "unat off < 2 ^ 26"
  shows "read_mhdr (mhdr_bytes n off @ rest) = Inr (n, off)"
proof -
  let ?w = "wr_all [M_shdr_num, M_shdr_off] [n, off] 0 :: u32"
  have m: "length UBH_MAGIC = 4" by (simp add: UBH_MAGIC_def)
  have "take 4 (mhdr_bytes n off @ rest) = UBH_MAGIC"
    and "drop 8 (mhdr_bytes n off @ rest) = le_bytes 4 ?w @ rest"
    and "length (mhdr_bytes n off @ rest) \<ge> UBH_MHDR_SIZE"
    using m by (simp_all add: mhdr_bytes_def UBH_MHDR_SIZE_def del: wr_all.simps le_bytes.simps)
  then show ?thesis
    using assms by (simp add: read_mhdr_def Let_def entry_reads take_bit_unat_less del: wr_all.simps)
qed

end
