(* ===== verification/U_Type_Encoder.thy ===== *)
theory U_Type_Encoder
  imports U_Module U_Str_Tab
begin

text \<open>
  The type encoder (\<^verbatim>\<open>src/encoder/u_type_encoder.cxx\<close>, \<^verbatim>\<open>Type_to_number\<close> and \<^verbatim>\<open>U_ENCODER::Add_type\<close> in
  \<^verbatim>\<open>src/encoder/u_encoder.cxx\<close>): function types as two bits per value type, in the type entry itself
  when they fit and in the non-null string table otherwise.  The decoder is \<^verbatim>\<open>Decode_type_and_cache\<close>;
  what one writes the other reads.
\<close>

section \<open>Encoding\<close>

record u_type_encoder =
  te_type_list :: "ubh_type list"
  te_nn_tab :: u_str_tab

text \<open>Two bits of the packed form; the shift count is an unsigned expression and wraps for large indices.\<close>

definition put_valty :: "nat \<Rightarrow> valtype \<Rightarrow> u32 \<Rightarrow> u32 res" where
  "put_valty i v elem =
    (if VALTY_SZ + i \<le> MAX_TYPE_ELEM_NUM
     then Inr (elem OR push_bit (VALTY_SZ * (MAX_TYPE_ELEM_NUM - VALTY_SZ - i)) (of_nat (valtype_num v) AND TYPE_MASK))
     else Inl Shift_undefined)"

definition Type_to_number :: "valtype list \<Rightarrow> valtype list \<Rightarrow> u32 res" where
  "Type_to_number ret_type_list param_type_list =
    (let ret_num = length ret_type_list; param_num = length param_type_list in
     bindr (foldr_res (\<lambda>i. put_valty i (ret_type_list ! i)) [0..<ret_num] 0)
       (foldr_res (\<lambda>i. put_valty (i + ret_num) (param_type_list ! i)) [0..<param_num]))"

text \<open>\<^verbatim>\<open>buf[k] |= (ty & 0x03) << (8 - (off + 1) * 2)\<close> for \<open>off\<close> counted as an unsigned number.\<close>

definition put_valty_byte :: "nat \<Rightarrow> nat \<Rightarrow> valtype \<Rightarrow> u8 list \<Rightarrow> u8 list res" where
  "put_valty_byte k off v buf =
    (if (off + 1) * 2 \<le> 8
     then bindr (arr_at buf k) (\<lambda>b.
          arr_upd buf k (b OR push_bit (8 - (off + 1) * 2) (of_nat (valtype_num v) AND 3)))
     else Inl Shift_undefined)"

definition type_to_buf :: "valtype list \<Rightarrow> valtype list \<Rightarrow> u8 list res" where
  "type_to_buf ret_type_list param_type_list =
    (let ret_num = length ret_type_list; param_num = length param_type_list;
         byte_num = (ret_num + param_num) * 2 div 8 + (if (ret_num + param_num) * 2 mod 8 \<noteq> 0 then 1 else 0);
         buf = le_bytes 2 (of_nat param_num :: u16) @ replicate byte_num 0
     in bindr (foldr_res (\<lambda>i. put_valty_byte 2 i (ret_type_list ! i)) [0..<ret_num] buf)
          (foldr_res (\<lambda>i. put_valty_byte (2 + i div 4) (i mod 4) (param_type_list ! (i - ret_num)))
            [ret_num..<ret_num + param_num]))"

text \<open>The loop that looks for an equal type, and the append when there is none.\<close>

definition type_index :: "ubh_type \<Rightarrow> ubh_type list \<Rightarrow> nat \<times> ubh_type list" where
  "type_index ty tys =
    (case find (\<lambda>i. ubh_type_eq (tys ! i) ty) [0..<length tys] of
      Some i \<Rightarrow> (i, tys)
    | None \<Rightarrow> (length tys, tys @ [ty]))"

definition U_TYPE_ENCODER_Add_type ::
  "bool \<Rightarrow> valtype list \<Rightarrow> valtype list \<Rightarrow> u_type_encoder \<Rightarrow> (nat \<times> u_type_encoder) res" where
  "U_TYPE_ENCODER_Add_type moved ret_type_list param_type_list te =
    (let ret_num = length ret_type_list; param_num = length param_type_list in
     if ret_num + param_num < MAX_TYPE_ELEM_NUM
     then bindr (Type_to_number ret_type_list param_type_list) (\<lambda>elem.
       let (i, tys) = type_index (UBH_TYPE (of_nat ret_num) (of_nat param_num) elem) (te_type_list te) in
       Inr (i, te\<lparr>te_type_list := tys\<rparr>))
     else bindr (type_to_buf ret_type_list param_type_list) (\<lambda>buf.
       let (idx, nn) = Request moved buf (te_nn_tab te) in
       bindr (Get_off idx nn) (\<lambda>off.
       let (i, tys) = type_index (UBH_TYPE (of_nat ret_num) 0xff off) (te_type_list te) in
       Inr (i, \<lparr>te_type_list = tys, te_nn_tab = nn\<rparr>))))"

definition Add_type :: "bool \<Rightarrow> valtype list \<Rightarrow> valtype list \<Rightarrow> u_type_encoder \<Rightarrow> (nat \<times> u_type_encoder) res" where
  "Add_type moved ret_type_list param_type_list te =
    Is_True (length ret_type_list + length param_type_list < 255) (
    Is_True (\<forall>v \<in> set ret_type_list. valtype_num v < 4) (
    Is_True (\<forall>v \<in> set param_type_list. valtype_num v < 4) (
    U_TYPE_ENCODER_Add_type moved ret_type_list param_type_list te)))"

section \<open>The packed form\<close>

abbreviation vt8 :: "valtype \<Rightarrow> u8" where
  "vt8 v \<equiv> of_nat (valtype_num v)"

abbreviation vt32 :: "valtype \<Rightarrow> u32" where
  "vt32 v \<equiv> of_nat (valtype_num v)"

definition known :: "valtype \<Rightarrow> bool" where
  "known v \<longleftrightarrow> valtype_num v < 4"

lemma known_iff: "known v \<longleftrightarrow> v \<noteq> VALTY_UNKNOWN"
  by (cases v) (simp_all add: known_def valtype_num_def)

lemma and_3: "(x :: 'a::len word) AND 3 = take_bit 2 x"
  by (simp add: take_bit_eq_mask mask_eq_exp_minus_1)

lemma take_bit_vt [simp]:
  "known v \<Longrightarrow> take_bit 2 (vt32 v) = vt32 v" "known v \<Longrightarrow> take_bit 2 (vt8 v) = vt8 v"
  by (cases v; simp add: known_def valtype_num_def)+

lemma take_bit_longer:
  fixes x :: "'a::len word"
  assumes "take_bit k x = x" and "k \<le> m"
  shows "take_bit m x = x"
proof -
  have "take_bit m (take_bit k x) = take_bit k x" using assms(2) by (simp add: min_absorb2)
  then show ?thesis using assms(1) by simp
qed

text \<open>Two bits at position \<open>p\<close> after a write of two bits at position \<open>q\<close>.\<close>

lemma read_two_bits:
  fixes x e :: "'a::len word"
  assumes "take_bit 2 x = x" and "p + 2 \<le> LENGTH('a)" and "q + 2 \<le> LENGTH('a)"
    and "q = p \<or> q + 2 \<le> p \<or> p + 2 \<le> q"
  shows "take_bit 2 (drop_bit p (e OR push_bit q x)) = take_bit 2 (drop_bit p e) OR (if p = q then x else 0)"
proof (rule bit_word_eqI)
  fix n
  assume "n < LENGTH('a)"
  have x: "\<not> bit x k" if "2 \<le> k" for k
    using that assms(1) by (metis bit_take_bit_iff leD)
  show "bit (take_bit 2 (drop_bit p (e OR push_bit q x))) n =
      bit (take_bit 2 (drop_bit p e) OR (if p = q then x else 0)) n"
    using assms(2-4) x by (cases "n < 2") (auto simp: bit_simps not_less)
qed

text \<open>\<open>n\<close> value types written from the top: position \<open>j\<close> reads type \<open>j\<close>, the others read zero.\<close>

definition packed :: "valtype list \<Rightarrow> nat \<Rightarrow> u32 \<Rightarrow> bool" where
  "packed vs n elem \<longleftrightarrow> (\<forall>j \<le> 12. take_bit 2 (drop_bit (24 - 2 * j) elem) = (if j < n then vt32 (vs ! j) else 0)) \<and>
    take_bit 26 elem = elem"

lemma two_bit_slots:
  assumes "a \<le> m" and "b \<le> (m::nat)"
  shows "2 * m - 2 * b = 2 * m - 2 * a \<or> 2 * m - 2 * b + 2 \<le> 2 * m - 2 * a \<or>
      2 * m - 2 * a + 2 \<le> 2 * m - 2 * b"
    and "2 * m - 2 * a = 2 * m - 2 * b \<longleftrightarrow> a = b"
proof -
  show "2 * m - 2 * b = 2 * m - 2 * a \<or> 2 * m - 2 * b + 2 \<le> 2 * m - 2 * a \<or>
      2 * m - 2 * a + 2 \<le> 2 * m - 2 * b"
  proof (cases a b rule: linorder_cases)
    case less
    with assms have "2 * m - 2 * b + 2 \<le> 2 * m - 2 * a" by linarith
    then show ?thesis by blast
  next
    case greater
    with assms have "2 * m - 2 * a + 2 \<le> 2 * m - 2 * b" by linarith
    then show ?thesis by blast
  qed simp
qed (use assms in auto)

lemma put_valty_packed:
  assumes "packed vs n elem" and "n \<le> 12" and "known v" and "v = vs ! n"
  shows "\<exists>e. put_valty n v elem = Inr e \<and> packed vs (Suc n) e"
proof -
  let ?e = "elem OR push_bit (24 - 2 * n) (vt32 v)"
  have "put_valty n v elem = Inr ?e"
    using assms(2,3) by (simp add: put_valty_def type_const_defs and_3 diff_mult_distrib2)
  moreover have "take_bit 2 (drop_bit (24 - 2 * j) ?e) = (if j < Suc n then vt32 (vs ! j) else 0)"
    if "j \<le> 12" for j
  proof -
    have "24 - 2 * n = 24 - 2 * j \<or> 24 - 2 * n + 2 \<le> 24 - 2 * j \<or> 24 - 2 * j + 2 \<le> 24 - 2 * n"
      "24 - 2 * j = 24 - 2 * n \<longleftrightarrow> j = n"
      using two_bit_slots [of j 12 n] that assms(2) by simp_all
    with read_two_bits [of "vt32 v" "24 - 2 * j" "24 - 2 * n" elem] assms that show ?thesis
      by (auto simp: packed_def)
  qed
  moreover have "take_bit 26 ?e = ?e"
  proof -
    have "take_bit 26 (push_bit (24 - 2 * n) (vt32 v)) = push_bit (24 - 2 * n) (take_bit (26 - (24 - 2 * n)) (vt32 v))"
      by (simp add: take_bit_push_bit)
    also have "take_bit (26 - (24 - 2 * n)) (vt32 v) = vt32 v"
    proof -
      have "2 \<le> 26 - (24 - 2 * n)" using assms(2) by simp
      then show ?thesis by (rule take_bit_longer [OF take_bit_vt(1) [OF assms(3)]])
    qed
    finally show ?thesis using assms(1) by (simp add: packed_def take_bit_or)
  qed
  ultimately show ?thesis by (auto simp: packed_def)
qed

lemma put_valtys_packed:
  assumes "k + n \<le> 13" and "\<forall>v \<in> set vs. known v" and "k + n \<le> length vs" and "packed vs k elem"
  shows "\<exists>e. foldr_res (\<lambda>i. put_valty (i + k) (vs ! (i + k))) [0..<n] elem = Inr e \<and> packed vs (k + n) e"
  using assms(1,3)
proof (induction n)
  case (Suc n)
  then obtain e where e: "foldr_res (\<lambda>i. put_valty (i + k) (vs ! (i + k))) [0..<n] elem = Inr e" "packed vs (k + n) e"
    by auto
  have "known (vs ! (k + n))" using assms(2) Suc.prems by simp
  from put_valty_packed [OF e(2) _ this refl] Suc.prems e(1) show ?case
    by (auto simp: foldr_res_append add.commute)
qed (use assms(4) in simp)

lemma Type_to_number_packed:
  assumes "length rets + length params \<le> 13" and "\<forall>v \<in> set (rets @ params). known v"
  shows "\<exists>e. Type_to_number rets params = Inr e \<and> packed (rets @ params) (length rets + length params) e"
proof -
  let ?vs = "rets @ params"
  have nth: "rets ! i = ?vs ! i" if "i < length rets" for i using that by (simp add: nth_append)
  have zero: "packed ?vs 0 0" by (simp add: packed_def)
  obtain e1 where e1: "foldr_res (\<lambda>i. put_valty i (?vs ! i)) [0..<length rets] 0 = Inr e1" "packed ?vs (length rets) e1"
    using put_valtys_packed [of 0 "length rets" ?vs 0] assms zero by auto
  obtain e where e: "foldr_res (\<lambda>i. put_valty (i + length rets) (?vs ! (i + length rets))) [0..<length params] e1 = Inr e"
    "packed ?vs (length rets + length params) e"
    using put_valtys_packed [of "length rets" "length params" ?vs e1] assms e1(2) by auto
  have "foldr_res (\<lambda>i. put_valty i (rets ! i)) [0..<length rets] 0 = Inr e1"
    using e1(1) by (subst foldr_res_cong [where g = "\<lambda>i. put_valty i (?vs ! i)"]) (simp_all add: nth_append)
  moreover have "foldr_res (\<lambda>i. put_valty (i + length rets) (params ! i)) [0..<length params] e1 = Inr e"
    using e(1) by (subst foldr_res_cong [where g = "\<lambda>i. put_valty (i + length rets) (?vs ! (i + length rets))"])
      (simp_all add: nth_append)
  ultimately show ?thesis using e(2) by (simp add: Type_to_number_def Let_def)
qed


section \<open>The byte form\<close>

text \<open>Value types from byte 2 on, four to a byte; the first two bytes are \<open>hd2\<close>.\<close>

definition bytes_packed :: "u8 list \<Rightarrow> valtype list \<Rightarrow> nat \<Rightarrow> u8 list \<Rightarrow> bool" where
  "bytes_packed hd2 vs n buf \<longleftrightarrow> length buf = 2 + (length vs + 3) div 4 \<and> take 2 buf = hd2 \<and>
    (\<forall>j < length vs. take_bit 2 (drop_bit (6 - 2 * (j mod 4)) (buf ! (2 + j div 4))) =
      (if j < n then vt8 (vs ! j) else 0))"

lemma put_valty_byte_packed:
  assumes "bytes_packed hd2 vs n buf" and "n < length vs" and "known (vs ! n)"
  shows "\<exists>b. put_valty_byte (2 + n div 4) (n mod 4) (vs ! n) buf = Inr b \<and> bytes_packed hd2 vs (Suc n) b"
proof -
  let ?k = "2 + n div 4"
  let ?b = "buf[?k := buf ! ?k OR push_bit (6 - 2 * (n mod 4)) (vt8 (vs ! n))]"
  have k: "?k < length buf" using assms(1,2) by (auto simp: bytes_packed_def)
  have "(n mod 4 + 1) * 2 \<le> 8" "8 - (n mod 4 + 1) * 2 = 6 - 2 * (n mod 4)"
    using mod_less_divisor [of 4 n] by simp_all
  with k assms(3) have "put_valty_byte ?k (n mod 4) (vs ! n) buf = Inr ?b"
    by (simp add: put_valty_byte_def and_3 arr_at_def arr_upd_def)
  moreover have "take_bit 2 (drop_bit (6 - 2 * (j mod 4)) (?b ! (2 + j div 4))) =
      (if j < Suc n then vt8 (vs ! j) else 0)" if "j < length vs" for j
  proof (cases "j div 4 = n div 4")
    case False
    with assms(1) that show ?thesis by (auto simp: bytes_packed_def less_Suc_eq)
  next
    case True
    have ne: "6 - 2 * (n mod 4) = 6 - 2 * (j mod 4) \<or> 6 - 2 * (n mod 4) + 2 \<le> 6 - 2 * (j mod 4) \<or>
        6 - 2 * (j mod 4) + 2 \<le> 6 - 2 * (n mod 4)"
      and eq: "6 - 2 * (j mod 4) = 6 - 2 * (n mod 4) \<longleftrightarrow> j = n"
      using two_bit_slots [of "j mod 4" 3 "n mod 4"] mod_less_divisor [of 4 j] mod_less_divisor [of 4 n]
        div_mult_mod_eq [of j 4] div_mult_mod_eq [of n 4] True by auto
    have "take_bit 2 (drop_bit (6 - 2 * (j mod 4)) (?b ! (2 + j div 4))) =
        take_bit 2 (drop_bit (6 - 2 * (j mod 4)) (buf ! (2 + j div 4))) OR (if j = n then vt8 (vs ! n) else 0)"
      using read_two_bits [of "vt8 (vs ! n)" "6 - 2 * (j mod 4)" "6 - 2 * (n mod 4)" "buf ! ?k"] assms(3) k True ne eq
      by simp
    with assms(1) that show ?thesis by (auto simp: bytes_packed_def less_Suc_eq)
  qed
  moreover have "take 2 ?b = take 2 buf" by simp
  ultimately show ?thesis using assms(1) unfolding bytes_packed_def by (intro exI [of _ ?b]) simp
qed

lemma put_bytes_packed:
  assumes "k + n \<le> length vs" and "\<forall>v \<in> set vs. known v" and "bytes_packed hd2 vs k buf"
  shows "\<exists>b. foldr_res (\<lambda>i. put_valty_byte (2 + i div 4) (i mod 4) (vs ! i)) [k..<k + n] buf = Inr b \<and>
    bytes_packed hd2 vs (k + n) b"
  using assms(1)
proof (induction n)
  case (Suc n)
  then obtain b where b: "foldr_res (\<lambda>i. put_valty_byte (2 + i div 4) (i mod 4) (vs ! i)) [k..<k + n] buf = Inr b"
    "bytes_packed hd2 vs (k + n) b" by auto
  have "known (vs ! (k + n))" using assms(2) Suc.prems by simp
  from put_valty_byte_packed [OF b(2) _ this] Suc.prems b(1) show ?case
    by (auto simp: foldr_res_append)
qed (use assms(3) in simp)

lemma byte_count: "(n * 2 div 8 + (if n * 2 mod 8 \<noteq> 0 then 1 else 0)) = (n + 3) div (4 :: nat)"
  by presburger

lemma type_to_buf_packed:
  assumes "length rets \<le> 4" and "\<forall>v \<in> set (rets @ params). known v"
  shows "\<exists>b. type_to_buf rets params = Inr b \<and>
    bytes_packed (le_bytes 2 (of_nat (length params) :: u16)) (rets @ params) (length (rets @ params)) b"
proof -
  let ?vs = "rets @ params" and ?h = "le_bytes 2 (of_nat (length params) :: u16)"
  let ?buf = "?h @ replicate ((length rets + length params + 3) div 4) 0"
  have h: "length ?h = 2" by (simp add: eval_nat_numeral)
  have zero: "bytes_packed ?h ?vs 0 ?buf" using h by (auto simp: bytes_packed_def nth_append)
  obtain b1 where b1: "foldr_res (\<lambda>i. put_valty_byte (2 + i div 4) (i mod 4) (?vs ! i)) [0..<length rets] ?buf = Inr b1"
    "bytes_packed ?h ?vs (length rets) b1"
    using put_bytes_packed [of 0 "length rets" ?vs ?h ?buf] assms(2) zero by auto
  obtain b where b: "foldr_res (\<lambda>i. put_valty_byte (2 + i div 4) (i mod 4) (?vs ! i))
      [length rets..<length rets + length params] b1 = Inr b" "bytes_packed ?h ?vs (length ?vs) b"
    using put_bytes_packed [of "length rets" "length params" ?vs ?h b1] assms(2) b1(2) by auto
  have "foldr_res (\<lambda>i. put_valty_byte 2 i (rets ! i)) [0..<length rets] ?buf = Inr b1"
    using b1(1) assms(1) by (subst foldr_res_cong
      [where g = "\<lambda>i. put_valty_byte (2 + i div 4) (i mod 4) (?vs ! i)"]) (simp_all add: nth_append)
  moreover have "foldr_res (\<lambda>i. put_valty_byte (2 + i div 4) (i mod 4) (params ! (i - length rets)))
      [length rets..<length rets + length params] b1 = Inr b"
    using b(1) by (subst foldr_res_cong
      [where g = "\<lambda>i. put_valty_byte (2 + i div 4) (i mod 4) (?vs ! i)"]) (simp_all add: nth_append)
  ultimately show ?thesis using b(2) unfolding type_to_buf_def Let_def byte_count by simp
qed

text \<open>With five results or more the unsigned shift count of the fifth wraps around.\<close>

lemma type_to_buf_undefined:
  assumes "4 < length rets"
  shows "type_to_buf rets params = Inl Shift_undefined"
proof -
  let ?f = "\<lambda>i. put_valty_byte 2 i (rets ! i)"
  have four: "\<exists>b. foldr_res ?f [0..<4] buf = Inr b" if "2 < length buf" for buf
    using that by (simp add: upt_rec put_valty_byte_def arr_at_def arr_upd_def)
  have "[0..<length rets] = [0..<4] @ 4 # [5..<length rets]"
    using assms upt_add_eq_append [of 0 4 "length rets - 4"] upt_conv_Cons [of 4 "length rets"] by simp
  then have "foldr_res ?f [0..<length rets] buf = Inl Shift_undefined" if "2 < length buf" for buf
    using four [OF that] by (auto simp: foldr_res_append put_valty_byte_def)
  moreover have "length (le_bytes 2 (of_nat (length params) :: u16)) = 2" by (simp add: eval_nat_numeral)
  moreover have "0 < (length rets + length params + 3) div 4" using assms by simp
  ultimately show ?thesis unfolding type_to_buf_def Let_def byte_count by simp
qed


section \<open>Decoding\<close>

definition cache_shape :: "nat \<Rightarrow> u8 list list \<times> u32 list \<Rightarrow> bool" where
  "cache_shape i t \<longleftrightarrow> i < length (fst t) \<and> length (snd t) = length (fst t) * VALTY_COUNT"

text \<open>The cache of type \<open>i\<close> after the value types \<open>xs\<close>: they are appended and counted, nothing else changes.\<close>

definition cached :: "nat \<Rightarrow> u8 list \<Rightarrow> u8 list list \<times> u32 list \<Rightarrow> u8 list list \<times> u32 list \<Rightarrow> bool" where
  "cached i xs t t' \<longleftrightarrow> fst t' = (fst t)[i := fst t ! i @ xs] \<and> length (snd t') = length (snd t) \<and>
    (\<forall>c < 4. snd t' ! (i * VALTY_COUNT + c) = snd t ! (i * VALTY_COUNT + c) + of_nat (count_list (map unat xs) c)) \<and>
    (\<forall>q. q div VALTY_COUNT \<noteq> i \<longrightarrow> snd t' ! q = snd t ! q)"

lemma cached_Nil: "cached i [] t t"
  by (simp add: cached_def)

lemma cache_valty_ok:
  assumes "cache_shape i t" and "unat x < 4"
  shows "\<exists>t'. cache_valty i x t = Inr t' \<and> cached i [x] t t'"
proof -
  have b: "i < length (fst t)" "i * 4 + unat x < length (snd t)" "length (snd t) = length (fst t) * 4"
    using assms by (auto simp: cache_shape_def VALTY_COUNT_def)
  have "(i * 4 + unat x) div 4 = i" using assms(2) by simp
  with b show ?thesis
    by (auto simp: cache_valty_def cached_def arr_at_def arr_upd_def VALTY_COUNT_def nth_list_update)
qed

lemma cached_trans:
  assumes "cached i xs a b" and "cached i ys b c" and "cache_shape i a"
  shows "cached i (xs @ ys) a c"
  using assms by (simp add: cached_def cache_shape_def)

lemma cached_shape: "cached i xs a b \<Longrightarrow> cache_shape i a \<Longrightarrow> cache_shape i b"
  by (simp add: cached_def cache_shape_def)

lemma decode_valtys_ok:
  assumes "\<forall>j \<in> set js. read j = Inr (v j) \<and> unat (v j) < 4" and "cache_shape i t"
  shows "\<exists>t'. decode_valtys i read js t = Inr t' \<and> cached i (map v js) t t'"
  using assms
proof (induction js arbitrary: t)
  case Nil
  then show ?case by (simp add: decode_valtys_def cached_Nil)
next
  case (Cons j js)
  have j: "read j = Inr (v j)" "unat (v j) < 4" using Cons.prems(1) by auto
  from cache_valty_ok [OF Cons.prems(2) j(2)] obtain t1 where
    t1: "cache_valty i (v j) t = Inr t1" "cached i [v j] t t1" by blast
  from Cons.IH [OF _ cached_shape [OF t1(2) Cons.prems(2)]] Cons.prems(1) obtain t' where
    t': "decode_valtys i read js t1 = Inr t'" "cached i (map v js) t1 t'" by auto
  from cached_trans [OF t1(2) t'(2) Cons.prems(2)] have "cached i (map v (j # js)) t t'" by simp
  moreover from j(1) t1(1) t'(1) have "decode_valtys i read (j # js) t = Inr t'"
    by (simp add: decode_valtys_def)
  ultimately show ?case by blast
qed

text \<open>Reading one value type back.\<close>

lemma vt8_less: "known v \<Longrightarrow> unat (vt8 v) < 4"
  by (cases v) (simp_all add: known_def valtype_num_def)

lemma ucast_vt: "known v \<Longrightarrow> ucast (vt32 v) = vt8 v"
  by (cases v) (simp_all add: known_def valtype_num_def)

lemma valty_local_packed:
  assumes "packed vs (length vs) elem" and "j < length vs" and "length vs \<le> 13" and "known (vs ! j)"
  shows "valty_local elem j = Inr (vt8 (vs ! j))"
proof -
  have j: "j \<le> 12" "26 - (j + 1) * 2 = 24 - 2 * j" using assms(2,3) by simp_all
  then have "take_bit 2 (drop_bit (24 - 2 * j) elem) = vt32 (vs ! j)"
    using assms(1,2) by (auto simp: packed_def)
  with j assms(4) show ?thesis
    by (simp add: valty_local_def type_const_defs and_3 ucast_vt)
qed

lemma valty_byte_packed:
  assumes "bytes_packed h vs (length vs) buf" and "j < length vs"
  shows "valty_byte (buf ! (2 + j div 4)) (j mod 4) = Inr (vt8 (vs ! j))"
proof -
  have "(j mod 4 + 1) * 2 \<le> 8" "8 - (j mod 4 + 1) * 2 = 6 - 2 * (j mod 4)"
    using mod_less_divisor [of 4 j] by simp_all
  moreover have "(ucast TYPE_MASK :: u8) = 3" by (simp add: type_const_defs)
  ultimately show ?thesis using assms
    by (simp add: valty_byte_def CHAR_BIT_def and_3 bytes_packed_def)
qed


section \<open>The decoder reads what the encoder wrote\<close>

text \<open>The caches of type \<open>i\<close> after decoding it: its return and parameter types.\<close>

definition decodes_to :: "u_module \<Rightarrow> nat \<Rightarrow> valtype list \<Rightarrow> valtype list \<Rightarrow> bool" where
  "decodes_to m i rets params \<longleftrightarrow> (\<forall>t. cache_shape i (fst t) \<and> cache_shape i (snd t) \<longrightarrow>
    (\<exists>t'. decode_type m i t = Inr t' \<and> cached i (map vt8 rets) (fst t) (fst t') \<and>
      cached i (map vt8 params) (snd t) (snd t')))"

lemma UBH_TYPE_ret:
  assumes "r < 256"
  shows "unat (t_ret_num (UBH_TYPE (of_nat r) p e)) = r mod 4"
proof -
  have "unat (of_nat r :: u16) = r" using assms by (simp add: unat_of_nat take_bit_nat_eq_self)
  then have "unat (t_ret_num (UBH_TYPE (of_nat r) p e)) = take_bit 2 r"
    using assms by (simp add: UBH_TYPE_def type_const_defs unsigned_take_bit_eq unsigned_ucast_eq take_bit_nat_eq_self)
  then show ?thesis by (simp add: take_bit_eq_mod)
qed

lemma map_vt_upt:
  "map (\<lambda>j. vt8 ((rets @ params @ extra) ! j)) [0..<length rets] = map vt8 rets"
  "map (\<lambda>j. vt8 ((rets @ params @ extra) ! j)) [length rets..<length rets + length params] = map vt8 params"
  by (rule nth_equalityI; simp add: nth_append)+

lemma decode_type_local:
  assumes "Get_type m i = Inr (UBH_TYPE (of_nat n) (of_nat (length params)) elem)" and "n < 256" "n mod 4 = length rets"
    and "packed (rets @ params @ extra) (length (rets @ params @ extra)) elem"
    and "length (rets @ params @ extra) \<le> 13" "\<forall>v \<in> set (rets @ params @ extra). known v"
  shows "decodes_to m i rets params"
proof -
  let ?vs = "rets @ params @ extra" and ?ty = "UBH_TYPE (of_nat n) (of_nat (length params)) elem"
  have p: "length params \<le> 13" using assms(5) by simp
  then have "unat (t_param_num ?ty) = length params"
    by (simp add: UBH_TYPE_def type_const_defs take_bit_unat_less unat_of_nat unsigned_ucast_eq take_bit_nat_eq_self)
  then have ty: "unat (t_param_num ?ty) = length params" "Is_stored_local ?ty" "t_elem ?ty = elem"
    using p assms(4) by (auto simp: Is_stored_local_def UBH_TYPE_def type_const_defs packed_def)
  have rd: "valty_local elem j = Inr (vt8 (?vs ! j)) \<and> unat (vt8 (?vs ! j)) < 4" if "j < length ?vs" for j
    using valty_local_packed [OF assms(4) that assms(5)] vt8_less assms(6) nth_mem [OF that] by simp
  have "\<exists>t'. decode_type m i t = Inr t' \<and> cached i (map vt8 rets) (fst t) (fst t') \<and>
      cached i (map vt8 params) (snd t) (snd t')" if sh: "cache_shape i (fst t)" "cache_shape i (snd t)" for t
  proof -
    obtain r where "decode_valtys i (valty_local elem) [0..<length rets] (fst t) = Inr r"
      "cached i (map vt8 rets) (fst t) r"
      using decode_valtys_ok [of "[0..<length rets]" "valty_local elem" "\<lambda>j. vt8 (?vs ! j)", OF _ sh(1)] rd
      by (auto simp: map_vt_upt)
    moreover obtain q where "decode_valtys i (valty_local elem) [length rets..<length rets + length params] (snd t) = Inr q"
      "cached i (map vt8 params) (snd t) q"
      using decode_valtys_ok [of "[length rets..<length rets + length params]" "valty_local elem"
          "\<lambda>j. vt8 (?vs ! j)", OF _ sh(2)] rd by (auto simp: map_vt_upt)
    ultimately show ?thesis
      using ty UBH_TYPE_ret [OF assms(2)] assms(1,3) by (simp add: decode_type_def Let_def)
  qed
  then show ?thesis by (simp add: decodes_to_def)
qed


text \<open>\<open>buf\<close> is at offset \<open>off\<close> of the string table.\<close>

definition stored_at :: "u8 list \<Rightarrow> nat \<Rightarrow> u8 list \<Rightarrow> bool" where
  "stored_at raw off buf \<longleftrightarrow> (\<forall>k < length buf. off + k < length raw \<and> raw ! (off + k) = buf ! k)"

lemma entry_stored:
  assumes "entry_bytes raw p = buf" and "unat (fst p) + unat (snd p) \<le> length raw"
  shows "stored_at (raw @ pad) (unat (fst p)) buf"
  using assms by (auto simp: stored_at_def entry_bytes_def nth_append)

lemma nn_read16_stored:
  assumes "stored_at raw off (le_bytes 2 w @ rest)"
  shows "nn_read16 raw off = Inr (w :: u16)"
proof -
  have e: "le_bytes 2 w = [ucast w, ucast (drop_bit 8 w)]" by (simp add: eval_nat_numeral)
  have "raw ! (off + 0) = ucast w" "off + 0 < length raw"
    "raw ! (off + 1) = ucast (drop_bit 8 w)" "off + 1 < length raw"
    using assms unfolding stored_at_def e by force+
  moreover have "ucast (ucast w :: u8) OR push_bit 8 (ucast (ucast (drop_bit 8 w) :: u8)) = w"
    by (rule bit_word_eqI) (auto simp: bit_simps)
  ultimately show ?thesis by (simp add: nn_read16_def arr_at_def)
qed

lemma decode_type_bytes:
  assumes "Get_type m i = Inr (UBH_TYPE (of_nat n) 0xff off)" and "n < 256" "n mod 4 = length rets"
    and "stored_at (m_nn_str m) (unat off) buf" and "unat off < 2 ^ 26"
    and "bytes_packed (le_bytes 2 (of_nat (length params) :: u16)) (rets @ params @ extra) (length (rets @ params @ extra)) buf"
    and "length params < 255" "\<forall>v \<in> set (rets @ params @ extra). known v"
  shows "decodes_to m i rets params"
proof -
  let ?vs = "rets @ params @ extra" and ?ty = "UBH_TYPE (of_nat n) 0xff off"
  have ty: "\<not> Is_stored_local ?ty" "t_elem ?ty = off"
    using assms(5) by (simp_all add: Is_stored_local_def UBH_TYPE_def type_const_defs take_bit_unat_less)
  have "stored_at (m_nn_str m) (unat off) (le_bytes 2 (of_nat (length params) :: u16) @ drop 2 buf)"
    using assms(4,6) by (metis append_take_drop_id bytes_packed_def)
  note num = nn_read16_stored [OF this]
  have cnt: "unat (ucast (of_nat (length params) :: u16) :: u8) = length params"
    using assms(7) by (simp add: unsigned_ucast_eq unat_of_nat take_bit_nat_eq_self)
  have rd: "bindr (arr_at (m_nn_str m) (unat off + 2 + j div 4)) (\<lambda>elem. valty_byte elem (j mod 4)) =
      Inr (vt8 (?vs ! j)) \<and> unat (vt8 (?vs ! j)) < 4" if "j < length ?vs" for j
  proof -
    have "2 + j div 4 < length buf" using assms(6) that by (auto simp: bytes_packed_def)
    with assms(4) have "arr_at (m_nn_str m) (unat off + 2 + j div 4) = Inr (buf ! (2 + j div 4))"
      by (auto simp: stored_at_def add.assoc)
    with valty_byte_packed [OF assms(6) that] vt8_less assms(8) nth_mem [OF that] show ?thesis by simp
  qed
  have rd0: "bindr (arr_at (m_nn_str m) (unat off + 2)) (\<lambda>elem. valty_byte elem j) =
      Inr (vt8 (?vs ! j)) \<and> unat (vt8 (?vs ! j)) < 4" if "j < length rets" for j
    using rd [of j] that assms(3) mod_less_divisor [of 4 n] by simp
  have "\<exists>t'. decode_type m i t = Inr t' \<and> cached i (map vt8 rets) (fst t) (fst t') \<and>
      cached i (map vt8 params) (snd t) (snd t')" if sh: "cache_shape i (fst t)" "cache_shape i (snd t)" for t
  proof -
    have r0: "\<forall>j \<in> set [0..<length rets].
        bindr (arr_at (m_nn_str m) (unat off + 2)) (\<lambda>elem. valty_byte elem j) =
        Inr (vt8 (?vs ! j)) \<and> unat (vt8 (?vs ! j)) < 4" using rd0 by simp
    have r1: "\<forall>j \<in> set [length rets..<length rets + length params].
        bindr (arr_at (m_nn_str m) (unat off + 2 + j div 4)) (\<lambda>elem. valty_byte elem (j mod 4)) =
        Inr (vt8 (?vs ! j)) \<and> unat (vt8 (?vs ! j)) < 4" by (intro ballI rd) simp
    from decode_valtys_ok [OF r0 sh(1)] decode_valtys_ok [OF r1 sh(2)] obtain r q where
      "decode_valtys i (\<lambda>j. bindr (arr_at (m_nn_str m) (unat off + 2)) (\<lambda>elem. valty_byte elem j))
        [0..<length rets] (fst t) = Inr r" "cached i (map vt8 rets) (fst t) r"
      "decode_valtys i (\<lambda>j. bindr (arr_at (m_nn_str m) (unat off + 2 + j div 4)) (\<lambda>elem. valty_byte elem (j mod 4)))
        [length rets..<length rets + length params] (snd t) = Inr q" "cached i (map vt8 params) (snd t) q"
      unfolding map_vt_upt by blast
    then show ?thesis
      using ty UBH_TYPE_ret [OF assms(2)] assms(1,3) num cnt by (simp add: decode_type_def Let_def)
  qed
  then show ?thesis by (simp add: decodes_to_def)
qed

lemma type_index_ok:
  assumes "type_index ty tys = (i, tys')"
  shows "i < length tys'" and "tys' ! i = ty"
proof -
  have eq: "ubh_type_eq a b \<longleftrightarrow> a = b" for a b :: ubh_type by (auto simp: ubh_type_eq_def)
  show "i < length tys'" "tys' ! i = ty"
    using assms by (auto simp: type_index_def eq find_Some_iff split: option.splits)
qed

text \<open>The types the decoder gives for a type entry: the number of results is kept in two bits, and the parameters follow the results.\<close>

definition decoded_types :: "valtype list \<Rightarrow> valtype list \<Rightarrow> valtype list \<times> valtype list" where
  "decoded_types rets params =
    (let r = length rets mod 4; vs = rets @ params in (take r vs, take (length params) (drop r vs)))"

lemma decoded_types_all: "length rets \<le> 3 \<Longrightarrow> decoded_types rets params = (rets, params)"
  by (simp add: decoded_types_def)

lemma decoded_types_split:
  assumes "decoded_types rets params = (rs, ps)"
  shows "\<exists>extra. rets @ params = rs @ ps @ extra" and "length rs = length rets mod 4" and "length ps = length params"
proof -
  let ?r = "length rets mod 4" and ?vs = "rets @ params"
  have r: "?r \<le> length rets" by simp
  have eq: "rs = take ?r ?vs" "ps = take (length params) (drop ?r ?vs)" using assms by (simp_all add: decoded_types_def Let_def)
  have "?vs = rs @ ps @ drop (length params) (drop ?r ?vs)" unfolding eq by (simp del: drop_drop drop_append take_append)
  then show "\<exists>extra. ?vs = rs @ ps @ extra" by blast
  show "length rs = ?r" "length ps = length params" unfolding eq using r by simp_all
qed

lemma Add_type_local:
  assumes "length rets + length params < 14" and known: "\<forall>v \<in> set (rets @ params). known v" and dec: "decoded_types rets params = (rs, ps)"
  shows "\<exists>i tys. Add_type moved rets params te = Inr (i, te\<lparr>te_type_list := tys\<rparr>) \<and>
    (\<forall>m extra. m_type_sec m = tys @ extra \<longrightarrow> decodes_to m i rs ps)"
proof -
  obtain extra where vs: "rets @ params = rs @ ps @ extra" using decoded_types_split(1) [OF dec] by blast
  note lens = decoded_types_split(2,3) [OF dec]
  from Type_to_number_packed [OF _ known] assms(1) obtain elem where
    e: "Type_to_number rets params = Inr elem" "packed (rets @ params) (length (rets @ params)) elem" by auto
  obtain i tys where ti: "type_index (UBH_TYPE (of_nat (length rets)) (of_nat (length params)) elem)
      (te_type_list te) = (i, tys)" by force
  have "Add_type moved rets params te = Inr (i, te\<lparr>te_type_list := tys\<rparr>)"
    using assms(1) known e(1) ti
    by (auto simp: Add_type_def U_TYPE_ENCODER_Add_type_def Let_def type_const_defs known_def)
  moreover have "decodes_to m i rs ps" if "m_type_sec m = tys @ later" for m later
  proof (rule decode_type_local [of m i "length rets" ps elem rs extra])
    show "Get_type m i = Inr (UBH_TYPE (of_nat (length rets)) (of_nat (length ps)) elem)"
      using type_index_ok [OF ti] that lens(2) by (simp add: Get_type_def nth_append)
    show "packed (rs @ ps @ extra) (length (rs @ ps @ extra)) elem" using e(2) unfolding vs .
    show "length (rs @ ps @ extra) \<le> 13" unfolding vs [symmetric] using assms(1) by simp
    show "\<forall>v \<in> set (rs @ ps @ extra). known v" using known unfolding vs .
  qed (use assms(1) lens in simp_all)
  ultimately show ?thesis by blast
qed

lemma Add_type_bytes:
  assumes "\<not> length rets + length params < 14" and "length rets \<le> 4" and bound: "length rets + length params < 255"
    and known: "\<forall>v \<in> set (rets @ params). known v" and dec: "decoded_types rets params = (rs, ps)"
    and ok: "str_tab_ok (te_nn_tab te)" and room: "length (st_raw_buf (te_nn_tab te)) + 66 < 2 ^ 26"
      "Suc (length (st_entry_vec (te_nn_tab te))) < 2 ^ 32"
  shows "\<exists>i tys nn. Add_type moved rets params te = Inr (i, \<lparr>te_type_list = tys, te_nn_tab = nn\<rparr>) \<and> str_tab_ok nn \<and>
    (\<forall>m extra pad. m_type_sec m = tys @ extra \<and> m_nn_str m = st_raw_buf nn @ pad \<longrightarrow> decodes_to m i rs ps)"
proof -
  obtain extra where vs: "rets @ params = rs @ ps @ extra" using decoded_types_split(1) [OF dec] by blast
  note lens = decoded_types_split(2,3) [OF dec]
  from type_to_buf_packed [OF assms(2) known] obtain buf where
    b: "type_to_buf rets params = Inr buf"
    "bytes_packed (le_bytes 2 (of_nat (length params) :: u16)) (rets @ params) (length (rets @ params)) buf" by blast
  have len: "length buf \<le> 66" using b(2) bound by (simp add: bytes_packed_def)
  obtain idx nn where rq: "Request moved buf (te_nn_tab te) = (idx, nn)" by force
  have "has_room buf (te_nn_tab te)" using room len by (simp add: has_room_def)
  note nn = Request_entry [OF ok this rq]
  let ?p = "st_entry_vec nn ! unat idx"
  have in_buf: "unat (fst ?p) + unat (snd ?p) \<le> length (st_raw_buf nn)" using nn by (auto simp: str_tab_ok_def)
  have "length (st_raw_buf nn) \<le> length (st_raw_buf (te_nn_tab te)) + length buf"
    using rq by (auto simp: Request_def Add_def Let_def split: option.splits)
  with in_buf len room(1) have off: "unat (fst ?p) < 2 ^ 26" by simp
  obtain i tys where ti: "type_index (UBH_TYPE (of_nat (length rets)) 0xff (fst ?p)) (te_type_list te) = (i, tys)"
    by force
  have "Add_type moved rets params te = Inr (i, \<lparr>te_type_list = tys, te_nn_tab = nn\<rparr>)"
    using assms(1) bound known b(1) rq ti nn
    by (auto simp: Add_type_def U_TYPE_ENCODER_Add_type_def Let_def type_const_defs known_def Get_off_def)
  moreover have "decodes_to m i rs ps"
    if "m_type_sec m = tys @ later" "m_nn_str m = st_raw_buf nn @ pad" for m later pad
  proof (rule decode_type_bytes [of m i "length rets" "fst ?p" rs buf ps extra])
    show "Get_type m i = Inr (UBH_TYPE (of_nat (length rets)) 0xff (fst ?p))"
      using type_index_ok [OF ti] that by (simp add: Get_type_def nth_append)
    show "stored_at (m_nn_str m) (unat (fst ?p)) buf"
      unfolding that(2) using nn in_buf by (intro entry_stored) (simp_all add: tab_entry_def)
    show "bytes_packed (le_bytes 2 (of_nat (length ps) :: u16)) (rs @ ps @ extra) (length (rs @ ps @ extra)) buf"
      using b(2) unfolding vs lens(2) .
    show "\<forall>v \<in> set (rs @ ps @ extra). known v" using known unfolding vs .
  qed (use bound off lens in simp_all)
  ultimately show ?thesis using nn(1) by blast
qed

text \<open>C5: a function type added to the encoder, when it has at most three results, is decoded to the same lists of return and parameter
  types, in order, whether it is packed into its entry or written to the string table, and whatever types and strings are added
  after it.  The encoder accepts more results without an assertion, but the entry keeps their number in two bits: the decoder
  then takes the first \<open>length rets mod 4\<close> of all the types for results and the following ones for the parameters.  With more
  than four results in the string-table form the shift count of the encoder wraps around and the shift is undefined.  The types are fewer than 255 and
  known, and the string table is below 64 MB.\<close>

theorem Add_type_decodes:
  assumes "length rets + length params < 255" and "\<forall>v \<in> set (rets @ params). v \<noteq> VALTY_UNKNOWN"
    and "str_tab_ok (te_nn_tab te)" and "length (st_raw_buf (te_nn_tab te)) + 66 < 2 ^ 26"
    and "Suc (length (st_entry_vec (te_nn_tab te))) < 2 ^ 32"
  shows "if 14 \<le> length rets + length params \<and> 4 < length rets then Add_type moved rets params te = Inl Shift_undefined
    else \<exists>i te'. Add_type moved rets params te = Inr (i, te') \<and>
      (\<forall>m tys pad. m_type_sec m = te_type_list te' @ tys \<and> m_nn_str m = st_raw_buf (te_nn_tab te') @ pad \<longrightarrow>
        (length rets \<le> 3 \<longrightarrow> decodes_to m i rets params) \<and>
        (case decoded_types rets params of (rs, ps) \<Rightarrow> decodes_to m i rs ps))"
proof -
  have known: "\<forall>v \<in> set (rets @ params). known v" using assms(2) by (auto simp: known_iff)
  obtain rs ps where dec: "decoded_types rets params = (rs, ps)" by fastforce
  consider "length rets + length params < 14" | "\<not> length rets + length params < 14" "length rets \<le> 4"
    | "\<not> length rets + length params < 14" "4 < length rets" by linarith
  then show ?thesis
  proof cases
    case 1
    from Add_type_local [OF this known dec, of moved te] obtain i tys where
      "Add_type moved rets params te = Inr (i, te\<lparr>te_type_list := tys\<rparr>)" "\<And>m extra. m_type_sec m = tys @ extra \<Longrightarrow> decodes_to m i rs ps"
      by blast
    then show ?thesis using 1 dec decoded_types_all [of rets params] by auto
  next
    case 2
    from Add_type_bytes [OF this assms(1) known dec assms(3-5), of moved] obtain i tys nn where
      "Add_type moved rets params te = Inr (i, \<lparr>te_type_list = tys, te_nn_tab = nn\<rparr>)"
      "\<And>m extra pad. m_type_sec m = tys @ extra \<Longrightarrow> m_nn_str m = st_raw_buf nn @ pad \<Longrightarrow> decodes_to m i rs ps"
      by blast
    then show ?thesis using 2 dec decoded_types_all [of rets params] by auto
  next
    case 3
    then have "Add_type moved rets params te = Inl Shift_undefined"
      using assms(1) known type_to_buf_undefined [OF 3(2), of params]
      by (auto simp: Add_type_def U_TYPE_ENCODER_Add_type_def Let_def type_const_defs known_def)
    then show ?thesis using 3 by simp
  qed
qed

definition ex_types :: u_type_encoder where
  "ex_types = \<lparr>te_type_list = [], te_nn_tab = U_STR_TAB\<rparr>"

text \<open>A type with one result, and one with four results, of which the decoder makes one without results.\<close>

lemma Add_type_decodes_witness:
  "(\<exists>i te'. Add_type True [I64] [I32, F64] ex_types = Inr (i, te') \<and>
     (\<forall>m tys pad. m_type_sec m = te_type_list te' @ tys \<and> m_nn_str m = st_raw_buf (te_nn_tab te') @ pad \<longrightarrow>
       decodes_to m i [I64] [I32, F64])) \<and>
   (\<exists>i te'. Add_type True [I32, I64, F32, F64] [F64] ex_types = Inr (i, te') \<and>
     (\<forall>m tys pad. m_type_sec m = te_type_list te' @ tys \<and> m_nn_str m = st_raw_buf (te_nn_tab te') @ pad \<longrightarrow>
       decodes_to m i [] [I32]))"
proof -
  have ok: "str_tab_ok (te_nn_tab ex_types)" "length (st_raw_buf (te_nn_tab ex_types)) + 66 < 2 ^ 26"
    "Suc (length (st_entry_vec (te_nn_tab ex_types))) < 2 ^ 32"
    by (simp_all add: ex_types_def U_STR_TAB_def str_tab_ok_def)
  show ?thesis
    using Add_type_decodes [OF _ _ ok, of "[I64]" "[I32, F64]" True] Add_type_decodes [OF _ _ ok, of "[I32, I64, F32, F64]" "[F64]" True]
    by (simp add: decoded_types_def)
qed

end
