(* ===== verification/U_Encoder.thy ===== *)
theory U_Encoder
  imports U_Binary U_Type_Encoder
begin

text \<open>
  The encoder \<^verbatim>\<open>U_ENCODER\<close> (\<^verbatim>\<open>include/encoder/u_encoder.h\<close>, \<^verbatim>\<open>src/encoder/u_encoder.cxx\<close>): tables of
  functions, imports, exports and globals, the string tables, the code bodies, and the writer that
  lays all of them out as one binary file.  The non-null string table is shared with the type encoder
  and is kept there.  \<open>moved\<close> says whether the buffer of the string table concerned moves when it grows.
\<close>

section \<open>State\<close>

record u_encoder =
  ue_cur_func_idx :: u32
  ue_import_tab :: "ubh_import list"
  ue_imp_nat_tab :: "ubh_imp_nat list"
  ue_export_tab :: "ubh_export list"
  ue_type :: u_type_encoder
  ue_func_tab :: "ubh_func list"
  ue_glbl_tab :: "ubh_glbl list"
  ue_bodies :: "u_code_body list"
  ue_const_data :: "u8 list"
  ue_reloc_data :: "u32 list"
  ue_module_str :: u_str_tab
  ue_global_name :: u_str_tab

abbreviation ue_nn_tab :: "u_encoder \<Rightarrow> u_str_tab" where
  "ue_nn_tab e \<equiv> te_nn_tab (ue_type e)"

definition U_ENCODER :: u_encoder where
  "U_ENCODER =
    (let tab = snd (Add False [0] U_STR_TAB) in
     \<lparr>ue_cur_func_idx = - 1, ue_import_tab = [], ue_imp_nat_tab = [], ue_export_tab = [],
      ue_type = \<lparr>te_type_list = [], te_nn_tab = tab\<rparr>, ue_func_tab = [], ue_glbl_tab = [], ue_bodies = [],
      ue_const_data = [], ue_reloc_data = [], ue_module_str = tab, ue_global_name = tab\<rparr>)"

section \<open>Data, relocations and globals\<close>

text \<open>\<^verbatim>\<open>memcpy\<close> reads \<open>data_size\<close> bytes from the caller's buffer.\<close>

definition Set_data_section :: "u64 \<Rightarrow> u8 list \<Rightarrow> u_encoder \<Rightarrow> u_encoder res" where
  "Set_data_section data_size data_value e =
    Is_True (data_size < 0xffffffff) (
    if unat data_size \<le> length data_value
    then Inr (e\<lparr>ue_const_data := take (unat data_size) data_value\<rparr>) else Inl Out_of_block)"

definition Set_reloc_section :: "u64 \<Rightarrow> u32 list \<Rightarrow> u_encoder \<Rightarrow> u_encoder res" where
  "Set_reloc_section reloc_size reloc_value e =
    (if unat reloc_size \<le> length reloc_value
     then Inr (e\<lparr>ue_reloc_data := take (unat reloc_size) reloc_value\<rparr>) else Inl Out_of_block)"

definition Add_global_name :: "bool \<Rightarrow> u8 list \<Rightarrow> u_encoder \<Rightarrow> u32 \<times> u_encoder" where
  "Add_global_name moved sym_name e =
    (let (glbl_idx, tab) = Request moved (c_str sym_name) (ue_global_name e) in
     (glbl_idx, e\<lparr>ue_global_name := tab\<rparr>))"

definition empty_glbl :: ubh_glbl where
  "empty_glbl = \<lparr>g_mut = 0, g_ty = 0, g_data_idx = 0, g_init_val = 0\<rparr>"

definition Add_global :: "bool \<Rightarrow> bool \<Rightarrow> u32 \<Rightarrow> u64 \<Rightarrow> u8 list \<Rightarrow> u_encoder \<Rightarrow> (nat \<times> u_encoder) res" where
  "Add_global moved mut valty uint64_val sym_name e =
    Is_True (\<not> Contains (c_str sym_name) (ue_global_name e)) (
    let (glbl_name_idx, tab) = Add moved (c_str sym_name) (ue_global_name e);
        glbl = Set_mutable mut (Set_glbl_ty valty (Set_init_val uint64_val (Set_data_idx 0 empty_glbl)));
        glbl_tab = ue_glbl_tab e @ [glbl]
    in Inr (length glbl_tab - 1, e\<lparr>ue_global_name := tab, ue_glbl_tab := glbl_tab\<rparr>))"

definition Add_global32 :: "bool \<Rightarrow> bool \<Rightarrow> u32 \<Rightarrow> u8 list \<Rightarrow> u_encoder \<Rightarrow> (nat \<times> u_encoder) res" where
  "Add_global32 moved mut uint32_val sym_name e =
    Is_True (\<not> Contains (c_str sym_name) (ue_global_name e)) (
    let (glbl_name_idx, tab) = Add moved (c_str sym_name) (ue_global_name e);
        glbl = Set_mutable mut (Set_init_val (ucast uint32_val) (Set_data_idx uint32_val empty_glbl));
        glbl_tab = ue_glbl_tab e @ [glbl]
    in Inr (length glbl_tab - 1, e\<lparr>ue_global_name := tab, ue_glbl_tab := glbl_tab\<rparr>))"

section \<open>Functions\<close>

definition Allocate_code_body ::
  "u32 \<times> u32 \<times> u32 \<times> u32 \<Rightarrow> u32 \<times> u32 \<times> u32 \<times> u32 \<Rightarrow> u32 \<Rightarrow> u_code_body list \<Rightarrow> nat \<times> u_code_body list" where
  "Allocate_code_body local_regs io_regs stack_size bodies =
    (let bodies = bodies @ [U_CODE_BODY local_regs io_regs stack_size] in (length bodies - 1, bodies))"

definition Start_func ::
  "u32 \<Rightarrow> u32 \<times> u32 \<times> u32 \<times> u32 \<Rightarrow> u32 \<times> u32 \<times> u32 \<times> u32 \<Rightarrow> u32 \<Rightarrow> u_encoder \<Rightarrow> (nat \<times> u_encoder) res" where
  "Start_func func_idx local_regs io_regs stack_size e =
    (let (code_idx, bodies) = Allocate_code_body local_regs io_regs stack_size (ue_bodies e) in
     bindr (vec_at (ue_func_tab e) (unat func_idx)) (\<lambda>func.
     Inr (code_idx, e\<lparr>ue_cur_func_idx := func_idx, ue_bodies := bodies,
       ue_func_tab := (ue_func_tab e)[unat func_idx := Set_code_idx (of_nat code_idx) func]\<rparr>)))"

text \<open>
  \<^verbatim>\<open>Inner_request_func\<close>: the index of the function and whether its name was known.  The search for a
  known name compares the name offset kept in the function table with the index of the string entry.
\<close>

definition Inner_request_func ::
  "bool \<Rightarrow> u8 list \<Rightarrow> u32 \<Rightarrow> u32 \<Rightarrow> u_encoder \<Rightarrow> (nat \<times> bool \<times> u_encoder) res" where
  "Inner_request_func moved func_name type_idx flags e =
    (if Contains (c_str func_name) (ue_module_str e)
     then let func_name_idx = Get_idx (c_str func_name) (ue_module_str e) in
       case find (\<lambda>i. ucast (fn_name_idx (ue_func_tab e ! i)) = func_name_idx) [0..<length (ue_func_tab e)] of
         Some i \<Rightarrow> Inr (i, True, e)
       | None \<Rightarrow> Inl Assertion
     else let (entry_idx, tab) = Add moved (c_str func_name) (ue_module_str e) in
       bindr (Get_off entry_idx tab) (\<lambda>name_idx.
       let func_tab = ue_func_tab e @ [UBH_FUNC (ucast type_idx) (ucast name_idx) (ucast flags) 0] in
       Inr (length func_tab - 1, False, e\<lparr>ue_module_str := tab, ue_func_tab := func_tab\<rparr>)))"

definition Add_to_import_tab :: "nat \<Rightarrow> u_encoder \<Rightarrow> u_encoder" where
  "Add_to_import_tab func_idx e = e\<lparr>ue_import_tab := ue_import_tab e @ [UBH_IMPORT K_FUNC (of_nat func_idx)]\<rparr>"

definition Add_to_export_tab :: "nat \<Rightarrow> u_encoder \<Rightarrow> u_encoder" where
  "Add_to_export_tab func_idx e = e\<lparr>ue_export_tab := ue_export_tab e @ [UBH_EXPORT K_FUNC (of_nat func_idx)]\<rparr>"

definition Request_func :: "bool \<Rightarrow> u8 list \<Rightarrow> u32 \<Rightarrow> u32 \<Rightarrow> u_encoder \<Rightarrow> (nat \<times> u_encoder) res" where
  "Request_func moved func_name type_idx flags e =
    bindr (Inner_request_func moved func_name type_idx flags e) (\<lambda>(func_idx, exist, e).
    Is_True (flags AND ucast F_NATIVE = 0) (
    if exist then Inr (func_idx, e)
    else let e = (if flags AND ucast F_EXTERN \<noteq> 0 then Add_to_import_tab (length (ue_func_tab e) - 1) e else e);
             e = (if flags AND ucast F_EXPORT \<noteq> 0 then Add_to_export_tab (length (ue_func_tab e) - 1) e else e)
         in Inr (func_idx, e)))"

text \<open>Native parameter types (\<^verbatim>\<open>NTYPE\<close>), by number.\<close>

datatype ntype = NTYPE_V | NTYPE_U1 | NTYPE_I1 | NTYPE_U2 | NTYPE_I2 | NTYPE_U4 | NTYPE_I4 | NTYPE_U8
  | NTYPE_I8 | NTYPE_F4 | NTYPE_F8 | NTYPE_PTR | NTYPE_NUM

definition ntype_num :: "ntype \<Rightarrow> u8" where
  "ntype_num t = (case t of NTYPE_V \<Rightarrow> 0 | NTYPE_U1 \<Rightarrow> 1 | NTYPE_I1 \<Rightarrow> 2 | NTYPE_U2 \<Rightarrow> 3 | NTYPE_I2 \<Rightarrow> 4
    | NTYPE_U4 \<Rightarrow> 5 | NTYPE_I4 \<Rightarrow> 6 | NTYPE_U8 \<Rightarrow> 7 | NTYPE_I8 \<Rightarrow> 8 | NTYPE_F4 \<Rightarrow> 9 | NTYPE_F8 \<Rightarrow> 10
    | NTYPE_PTR \<Rightarrow> 11 | NTYPE_NUM \<Rightarrow> 12)"

definition Encode_and_save_ntype :: "bool \<Rightarrow> ntype \<Rightarrow> ntype list \<Rightarrow> u_encoder \<Rightarrow> (u32 \<times> u_encoder) res" where
  "Encode_and_save_ntype moved ret_ntype param_ntype_vec e =
    Is_True (ntype_num ret_ntype < ntype_num NTYPE_NUM) (
    let ntype_arr = (if ret_ntype \<noteq> NTYPE_V then [ntype_num ret_ntype] else []) @ map ntype_num param_ntype_vec;
        (nn_entry_idx, tab) = Request moved ntype_arr (ue_nn_tab e)
    in bindr (Get_off nn_entry_idx tab) (\<lambda>off. Inr (off, e\<lparr>ue_type := (ue_type e)\<lparr>te_nn_tab := tab\<rparr>\<rparr>)))"

definition Add_to_import_native_tab :: "u32 \<Rightarrow> nat \<Rightarrow> u32 \<Rightarrow> u_encoder \<Rightarrow> u_encoder" where
  "Add_to_import_native_tab junk func_idx ntype_off e =
    e\<lparr>ue_imp_nat_tab := ue_imp_nat_tab e @ [UBH_IMP_NAT junk K_FUNC (of_nat func_idx) ntype_off]\<rparr>"

definition Request_native_func ::
  "bool \<Rightarrow> bool \<Rightarrow> u32 \<Rightarrow> u8 list \<Rightarrow> u32 \<Rightarrow> ntype \<Rightarrow> ntype list \<Rightarrow> u_encoder \<Rightarrow> (nat \<times> u_encoder) res" where
  "Request_native_func moved moved_nn junk func_name type_idx ret_ntype param_ntype_vec e =
    bindr (Inner_request_func moved func_name type_idx (ucast (F_EXTERN OR F_NATIVE)) e) (\<lambda>(func_idx, exist, e).
    if exist then Inr (func_idx, e)
    else bindr (Encode_and_save_ntype moved_nn ret_ntype param_ntype_vec e) (\<lambda>(ntype_off, e).
         Inr (func_idx, Add_to_import_native_tab junk (length (ue_func_tab e) - 1) ntype_off e)))"

section \<open>The current code body\<close>

definition Cur_code_body :: "u_encoder \<Rightarrow> u_code_body res" where
  "Cur_code_body e = Is_True (0 < length (ue_bodies e)) (Inr (last (ue_bodies e)))"

text \<open>An operation on the current body, through the reference \<^verbatim>\<open>Cur_code_body\<close> returns.\<close>

definition on_cur_body :: "(u_code_body \<Rightarrow> ('a \<times> u_code_body) res) \<Rightarrow> u_encoder \<Rightarrow> ('a \<times> u_encoder) res" where
  "on_cur_body f e = bindr (Cur_code_body e) (\<lambda>cb. bindr (f cb) (\<lambda>(r, cb).
    Inr (r, e\<lparr>ue_bodies := butlast (ue_bodies e) @ [cb]\<rparr>)))"

definition enc_Add_inst :: "uinst \<Rightarrow> u_encoder \<Rightarrow> (u32 \<times> u_encoder) res" where
  "enc_Add_inst i = on_cur_body (\<lambda>cb. bindr (body_Add_inst i cb) (\<lambda>cb. Inr (0, cb)))"

definition enc_Request_label :: "bool \<Rightarrow> u8 list \<Rightarrow> u_encoder \<Rightarrow> (u32 \<times> u_encoder) res" where
  "enc_Request_label moved label_name = on_cur_body (Request_label moved label_name)"

definition enc_Add_label :: "bool \<Rightarrow> u8 list \<Rightarrow> u_encoder \<Rightarrow> (u32 \<times> u_encoder) res" where
  "enc_Add_label moved label_name = on_cur_body (Add_label moved label_name)"

definition enc_Add_type :: "bool \<Rightarrow> valtype list \<Rightarrow> valtype list \<Rightarrow> u_encoder \<Rightarrow> (nat \<times> u_encoder) res" where
  "enc_Add_type moved ret_type_list param_type_list e =
    bindr (Add_type moved ret_type_list param_type_list (ue_type e)) (\<lambda>(type_idx, te).
    Inr (type_idx, e\<lparr>ue_type := te\<rparr>))"

text \<open>\<^verbatim>\<open>Get_inst_encoder\<close>: the index of the body of a function that is not imported.\<close>

definition Get_inst_encoder :: "u32 \<Rightarrow> u_encoder \<Rightarrow> nat res" where
  "Get_inst_encoder func_idx e =
    (let num_import_funcs =
       length (takeWhile (\<lambda>f. fn_flags f AND F_NATIVE \<noteq> 0 \<or> fn_flags f AND F_IMPORT_WASM \<noteq> 0) (ue_func_tab e))
     in Is_True (num_import_funcs \<le> unat func_idx) (
        Is_True (unat func_idx - num_import_funcs < length (ue_bodies e)) (
        Inr (unat func_idx - num_import_funcs))))"

section \<open>Writing the file\<close>

definition STR_TAB_ALIGN :: nat where "STR_TAB_ALIGN = 16"

text \<open>\<^verbatim>\<open>START_FUNC_NAME\<close> is \<^verbatim>\<open>"main"\<close>.\<close>

definition START_FUNC_NAME :: "u8 list" where "START_FUNC_NAME = [0x6d, 0x61, 0x69, 0x6e]"

text \<open>\<open>moved\<close> gives the fate of the three string-table buffers.\<close>

definition Finish :: "bool \<times> bool \<times> bool \<Rightarrow> u_encoder \<Rightarrow> u_encoder res" where
  "Finish moved e =
    bindr (inst_encoder_Finish (ue_bodies e)) (\<lambda>bodies.
    Inr (e\<lparr>ue_bodies := bodies,
           ue_module_str := Pad (fst moved) STR_TAB_ALIGN (ue_module_str e),
           ue_global_name := Pad (fst (snd moved)) STR_TAB_ALIGN (ue_global_name e),
           ue_type := (ue_type e)\<lparr>te_nn_tab := Pad (snd (snd moved)) STR_TAB_ALIGN (ue_nn_tab e)\<rparr>\<rparr>))"

record sec_info =
  si_sec_id :: section_id
  si_shdr_tag :: u32
  si_sec_kind :: int
  si_elem_size :: nat

definition SEC_INFO_ARR :: "sec_info list" where
  "SEC_INFO_ARR =
    [\<lparr>si_sec_id = S_TYPE, si_shdr_tag = SEC_TYPE, si_sec_kind = - 1, si_elem_size = UBH_TYPE_SIZE\<rparr>,
     \<lparr>si_sec_id = S_EXPORT, si_shdr_tag = SEC_EXPORT, si_sec_kind = 0, si_elem_size = UBH_EXPORT_SIZE\<rparr>,
     \<lparr>si_sec_id = S_IMPORT, si_shdr_tag = SEC_IMPORT, si_sec_kind = 0, si_elem_size = UBH_IMPORT_SIZE\<rparr>,
     \<lparr>si_sec_id = S_IMP_NAT, si_shdr_tag = SEC_IMPORT, si_sec_kind = 1, si_elem_size = UBH_IMP_NAT_SIZE\<rparr>,
     \<lparr>si_sec_id = S_FUNC, si_shdr_tag = SEC_FUNC, si_sec_kind = - 1, si_elem_size = UBH_FUNC_SIZE\<rparr>,
     \<lparr>si_sec_id = S_CODE, si_shdr_tag = SEC_CODE, si_sec_kind = - 1, si_elem_size = 0\<rparr>,
     \<lparr>si_sec_id = S_DATA, si_shdr_tag = SEC_MEM, si_sec_kind = 0, si_elem_size = 1\<rparr>,
     \<lparr>si_sec_id = S_GLBL, si_shdr_tag = SEC_GLBL, si_sec_kind = - 1, si_elem_size = UBH_GLBL_SIZE\<rparr>,
     \<lparr>si_sec_id = S_NN_STR, si_shdr_tag = SEC_TAB, si_sec_kind = 2, si_elem_size = 1\<rparr>,
     \<lparr>si_sec_id = S_MODULE_NAME, si_shdr_tag = SEC_TAB, si_sec_kind = 0, si_elem_size = 1\<rparr>,
     \<lparr>si_sec_id = S_GLBL_NAME, si_shdr_tag = SEC_TAB, si_sec_kind = 1, si_elem_size = 1\<rparr>,
     \<lparr>si_sec_id = S_RELOC, si_shdr_tag = SEC_MEM, si_sec_kind = 1, si_elem_size = 4\<rparr>]"

text \<open>The element counts of \<^verbatim>\<open>Collect_write_info\<close> (no branch for the other sections).\<close>

definition sec_count :: "u_encoder \<Rightarrow> section_id \<Rightarrow> nat" where
  "sec_count e sec_id = (case sec_id of
      S_TYPE \<Rightarrow> length (te_type_list (ue_type e))
    | S_IMPORT \<Rightarrow> length (ue_import_tab e)
    | S_IMP_NAT \<Rightarrow> length (ue_imp_nat_tab e)
    | S_FUNC \<Rightarrow> length (ue_func_tab e)
    | S_DATA \<Rightarrow> length (ue_const_data e)
    | S_GLBL \<Rightarrow> length (ue_glbl_tab e)
    | S_EXPORT \<Rightarrow> length (ue_export_tab e)
    | S_CODE \<Rightarrow> length (ue_bodies e)
    | S_NN_STR \<Rightarrow> length (st_raw_buf (ue_nn_tab e))
    | S_MODULE_NAME \<Rightarrow> length (st_raw_buf (ue_module_str e))
    | S_GLBL_NAME \<Rightarrow> length (st_raw_buf (ue_global_name e))
    | S_RELOC \<Rightarrow> length (ue_reloc_data e)
    | _ \<Rightarrow> 0)"

definition sec_size :: "u_encoder \<Rightarrow> sec_info \<Rightarrow> u32 \<Rightarrow> u32" where
  "sec_size e info elem_num =
    (if si_sec_id info \<noteq> S_CODE then elem_num * of_nat (si_elem_size info)
     else of_nat (Code_sec_size (ue_bodies e)))"

record write_info =
  wi_secs :: "(section_id \<times> u32) list"
  wi_shdrs :: "ubh_shdr list"
  wi_size :: u32

text \<open>One entry of \<^verbatim>\<open>SEC_INFO_ARR\<close>: a section without elements is left out.\<close>

definition collect_sec :: "u_encoder \<Rightarrow> sec_info \<Rightarrow> write_info \<Rightarrow> write_info res" where
  "collect_sec e info wi =
    (let elem_num = of_nat (sec_count e (si_sec_id info)) :: u32 in
     if elem_num = 0 then Inr wi
     else bindr (UBH_SHDR (ucast (si_shdr_tag info)) (ucast elem_num) (wi_size wi)) (\<lambda>shdr.
       bindr (if si_sec_kind info \<noteq> - 1 then Set_kind (of_int (si_sec_kind info)) shdr else Inr shdr) (\<lambda>shdr.
       let size = sec_size e info elem_num in
       Inr \<lparr>wi_secs = wi_secs wi @ [(si_sec_id info, size)], wi_shdrs = wi_shdrs wi @ [shdr],
            wi_size = wi_size wi + size\<rparr>)))"

text \<open>\<^verbatim>\<open>strcmp(p, s) == 0\<close> for the bytes at \<open>p\<close> and a literal \<open>s\<close>.\<close>

fun strcmp_eq :: "u8 list \<Rightarrow> u8 list \<Rightarrow> bool res" where
  "strcmp_eq [] s = Inl Out_of_block"
| "strcmp_eq (b # bs) [] = Inr (b = 0)"
| "strcmp_eq (b # bs) (c # cs) = (if b \<noteq> c then Inr False else strcmp_eq bs cs)"

text \<open>The loop that looks for the start function, from function \<open>i\<close> on.\<close>

fun find_start :: "u8 list \<Rightarrow> nat \<Rightarrow> ubh_func list \<Rightarrow> nat option res" where
  "find_start names i [] = Inr None"
| "find_start names i (f # fs) =
    bindr (vec_at names (unat (fn_name_idx f))) (\<lambda>c.
    bindr (strcmp_eq (drop (unat (fn_name_idx f)) names) START_FUNC_NAME) (\<lambda>eq.
    if eq then Inr (Some i) else find_start names (i + 1) fs))"

definition Collect_write_info :: "u_encoder \<Rightarrow> write_info res" where
  "Collect_write_info e =
    bindr (foldr_res (collect_sec e) SEC_INFO_ARR \<lparr>wi_secs = [], wi_shdrs = [], wi_size = of_nat UBH_MHDR_SIZE\<rparr>) (\<lambda>wi.
    bindr (find_start (st_raw_buf (ue_module_str e)) 0 (ue_func_tab e)) (\<lambda>start.
    bindr (case start of
             None \<Rightarrow> Inr (wi_shdrs wi)
           | Some i \<Rightarrow> bindr (UBH_SHDR (ucast SEC_START) 0 (of_nat i)) (\<lambda>s. Inr (wi_shdrs wi @ [s]))) (\<lambda>shdrs.
    Inr (wi\<lparr>wi_shdrs := shdrs, wi_size := wi_size wi + of_nat (UBH_SHDR_SIZE * length shdrs)\<rparr>))))"

text \<open>The bytes of the tables of the encoder.\<close>

definition sec_bytes :: "u_encoder \<Rightarrow> section_id \<Rightarrow> u8 list" where
  "sec_bytes e sec_id = (case sec_id of
      S_TYPE \<Rightarrow> concat (map type_bytes (te_type_list (ue_type e)))
    | S_IMPORT \<Rightarrow> concat (map import_bytes (ue_import_tab e))
    | S_IMP_NAT \<Rightarrow> concat (map imp_nat_bytes (ue_imp_nat_tab e))
    | S_EXPORT \<Rightarrow> concat (map export_bytes (ue_export_tab e))
    | S_FUNC \<Rightarrow> concat (map func_bytes (ue_func_tab e))
    | S_DATA \<Rightarrow> ue_const_data e
    | S_RELOC \<Rightarrow> concat (map (le_bytes 4) (ue_reloc_data e))
    | S_GLBL \<Rightarrow> concat (map glbl_bytes (ue_glbl_tab e))
    | S_MODULE_NAME \<Rightarrow> st_raw_buf (ue_module_str e)
    | S_GLBL_NAME \<Rightarrow> st_raw_buf (ue_global_name e)
    | S_NN_STR \<Rightarrow> st_raw_buf (ue_nn_tab e)
    | S_CODE \<Rightarrow> concat (map (le_bytes 4) (Write_to_buf (ue_bodies e)))
    | _ \<Rightarrow> [])"

text \<open>One section of \<^verbatim>\<open>Write_section\<close>: the copy, and the write pointer moved by the section size.\<close>

definition write_sec :: "u_encoder \<Rightarrow> section_id \<times> u32 \<Rightarrow> nat \<times> u8 list \<Rightarrow> (nat \<times> u8 list) res" where
  "write_sec e sec t =
    (let (sec_id, size) = sec; (p, buf) = t; src = sec_bytes e sec_id in
     if sec_id = S_CODE
     then bindr (arr_copy buf p src) (\<lambda>buf. Inr (p + unat size, buf))
     else if unat size \<le> length src
     then bindr (arr_copy buf p (take (unat size) src)) (\<lambda>buf. Inr (p + unat size, buf))
     else Inl Out_of_block)"

definition Write_section :: "u_encoder \<Rightarrow> (section_id \<times> u32) list \<Rightarrow> nat \<Rightarrow> u8 list \<Rightarrow> u8 list res" where
  "Write_section e secs p buf = bindr (foldr_res (write_sec e) secs (p, buf)) (\<lambda>t. Inr (snd t))"

definition Write_mhdr :: "u32 \<Rightarrow> u32 \<Rightarrow> u8 list \<Rightarrow> u8 list res" where
  "Write_mhdr shdr_num shdr_off buf = arr_copy buf 0 (mhdr_bytes shdr_num shdr_off)"

definition Write_shdr :: "ubh_shdr list \<Rightarrow> nat \<Rightarrow> u8 list \<Rightarrow> u8 list res" where
  "Write_shdr shdrs p buf = arr_copy buf p (concat (map shdr_bytes shdrs))"

text \<open>\<^verbatim>\<open>Write_to_file\<close>: the contents of the file, which is created with \<open>total_size\<close> zero bytes.\<close>

definition Write_to_file :: "bool \<times> bool \<times> bool \<Rightarrow> u_encoder \<Rightarrow> u8 list res" where
  "Write_to_file moved e =
    bindr (Finish moved e) (\<lambda>e.
    bindr (Collect_write_info e) (\<lambda>wi.
    let total_size = wi_size wi; shdr_num = length (wi_shdrs wi);
        shdr_off = total_size - of_nat (shdr_num * UBH_SHDR_SIZE)
    in bindr (Write_mhdr (of_nat shdr_num) shdr_off (replicate (unat total_size) 0)) (\<lambda>buf.
       bindr (Write_section e (wi_secs wi) UBH_MHDR_SIZE buf) (\<lambda>buf.
       Write_shdr (wi_shdrs wi) (unat shdr_off) buf))))"

end
