(* ===== verification/Type_Cache.thy ===== *)
theory Type_Cache
  imports U_Type_Encoder
begin

text \<open>
  The caches \<^verbatim>\<open>Decode_type_and_cache\<close> builds for a whole module: the types of all signatures the encoder
  added, and the register counts of all functions.
\<close>

section \<open>Signatures added to the encoder\<close>

text \<open>
  The type encoder after a sequence of \<^verbatim>\<open>Add_type\<close> and of other requests to its string table, with the signature of
  each entry of its type list.
\<close>

inductive types_added :: "(valtype list \<times> valtype list) list \<Rightarrow> u_type_encoder \<Rightarrow> bool" where
  start: "te_type_list te = [] \<Longrightarrow> str_tab_ok (te_nn_tab te) \<Longrightarrow> types_added [] te"
| type: "types_added sigs te \<Longrightarrow> length rets \<le> 3 \<Longrightarrow> length rets + length params < 255 \<Longrightarrow>
    \<forall>v \<in> set (rets @ params). v \<noteq> VALTY_UNKNOWN \<Longrightarrow> length (st_raw_buf (te_nn_tab te)) + 66 < 2 ^ 26 \<Longrightarrow>
    Suc (length (st_entry_vec (te_nn_tab te))) < 2 ^ 32 \<Longrightarrow> Add_type moved rets params te = Inr (i, te') \<Longrightarrow>
    types_added (if i < length sigs then sigs else sigs @ [(rets, params)]) te'"
| str: "types_added sigs te \<Longrightarrow> has_room buf (te_nn_tab te) \<Longrightarrow> Request moved buf (te_nn_tab te) = (i, nn) \<Longrightarrow>
    types_added sigs (te\<lparr>te_nn_tab := nn\<rparr>)"

text \<open>Every entry of the type list decodes to its signature, whatever follows in the type section and the string table.\<close>

definition types_decode :: "(valtype list \<times> valtype list) list \<Rightarrow> u_type_encoder \<Rightarrow> bool" where
  "types_decode sigs te \<longleftrightarrow> length (te_type_list te) = length sigs \<and>
    (\<forall>i < length sigs. \<forall>m tys pad. m_type_sec m = te_type_list te @ tys \<and> m_nn_str m = st_raw_buf (te_nn_tab te) @ pad \<longrightarrow>
      decodes_to m i (fst (sigs ! i)) (snd (sigs ! i)))"

lemma types_decode_mono:
  assumes "types_decode sigs te" and "te_type_list te' = te_type_list te @ tys" and "st_raw_buf (te_nn_tab te') = st_raw_buf (te_nn_tab te) @ ys"
    and "i < length sigs" and "m_type_sec m = te_type_list te' @ later" and "m_nn_str m = st_raw_buf (te_nn_tab te') @ pad"
  shows "decodes_to m i (fst (sigs ! i)) (snd (sigs ! i))"
  using assms unfolding types_decode_def by (metis append.assoc)

lemma Request_extends: "\<exists>ys. st_raw_buf (snd (Request moved buf t)) = st_raw_buf t @ ys"
  by (simp add: Request_def Add_def Let_def split: option.splits)

lemma type_index_extends:
  "snd (type_index ty tys) = tys \<and> fst (type_index ty tys) < length tys \<or>
    snd (type_index ty tys) = tys @ [ty] \<and> fst (type_index ty tys) = length tys"
  by (auto simp: type_index_def find_Some_iff split: option.splits)

lemma Add_type_extends:
  assumes "Add_type moved rets params te = Inr (i, te')"
  shows "te_type_list te' = te_type_list te \<and> i < length (te_type_list te) \<or>
      (\<exists>ty. te_type_list te' = te_type_list te @ [ty]) \<and> i = length (te_type_list te)"
    and "\<exists>ys. st_raw_buf (te_nn_tab te') = st_raw_buf (te_nn_tab te) @ ys"
proof -
  have "U_TYPE_ENCODER_Add_type moved rets params te = Inr (i, te')" using assms by (simp add: Add_type_def Is_True_def split: if_splits)
  then obtain ty nn where te': "i = fst (type_index ty (te_type_list te))" "te_type_list te' = snd (type_index ty (te_type_list te))"
    and nn: "te_nn_tab te' = te_nn_tab te \<or> (\<exists>buf. te_nn_tab te' = snd (Request moved buf (te_nn_tab te)))"
    by (fastforce simp: U_TYPE_ENCODER_Add_type_def Let_def case_prod_unfold split: if_splits)
  show "te_type_list te' = te_type_list te \<and> i < length (te_type_list te) \<or>
      (\<exists>ty. te_type_list te' = te_type_list te @ [ty]) \<and> i = length (te_type_list te)"
    using te' type_index_extends [of ty "te_type_list te"] by auto
  show "\<exists>ys. st_raw_buf (te_nn_tab te') = st_raw_buf (te_nn_tab te) @ ys" using nn Request_extends [of moved _ "te_nn_tab te"] by auto
qed

lemma Add_type_ok:
  assumes "length rets \<le> 3" and "length rets + length params < 255" and "\<forall>v \<in> set (rets @ params). v \<noteq> VALTY_UNKNOWN"
    and ok: "str_tab_ok (te_nn_tab te)" and room: "length (st_raw_buf (te_nn_tab te)) + 66 < 2 ^ 26"
      "Suc (length (st_entry_vec (te_nn_tab te))) < 2 ^ 32"
    and add: "Add_type moved rets params te = Inr (i, te')"
  shows "str_tab_ok (te_nn_tab te')"
    and "m_type_sec m = te_type_list te' @ tys \<Longrightarrow> m_nn_str m = st_raw_buf (te_nn_tab te') @ pad \<Longrightarrow> decodes_to m i rets params"
proof -
  have known: "\<forall>v \<in> set (rets @ params). known v" using assms(3) by (auto simp: known_iff)
  note dec = decoded_types_all [OF assms(1), of params]
  have "str_tab_ok (te_nn_tab te') \<and> (\<forall>m tys pad. m_type_sec m = te_type_list te' @ tys \<and>
      m_nn_str m = st_raw_buf (te_nn_tab te') @ pad \<longrightarrow> decodes_to m i rets params)"
  proof (cases "length rets + length params < 14")
    case True
    with Add_type_local [OF True known dec, of moved te] add ok show ?thesis by auto
  next
    case False
    with Add_type_bytes [OF False _ assms(2) known dec ok room, of moved] add assms(1) show ?thesis by auto
  qed
  then show "str_tab_ok (te_nn_tab te')"
    "m_type_sec m = te_type_list te' @ tys \<Longrightarrow> m_nn_str m = st_raw_buf (te_nn_tab te') @ pad \<Longrightarrow> decodes_to m i rets params"
    by blast+
qed

lemma types_decode_snoc:
  assumes "types_decode sigs te" and "te_type_list te' = te_type_list te @ [ty]" and "st_raw_buf (te_nn_tab te') = st_raw_buf (te_nn_tab te) @ ys"
    and "\<And>m tys pad. m_type_sec m = te_type_list te' @ tys \<Longrightarrow> m_nn_str m = st_raw_buf (te_nn_tab te') @ pad \<Longrightarrow>
      decodes_to m (length sigs) rets params"
  shows "types_decode (sigs @ [(rets, params)]) te'"
proof -
  have "decodes_to m i (fst ((sigs @ [(rets, params)]) ! i)) (snd ((sigs @ [(rets, params)]) ! i))"
    if "i < Suc (length sigs)" "m_type_sec m = te_type_list te' @ tys" "m_nn_str m = st_raw_buf (te_nn_tab te') @ pad" for i m tys pad
    using that assms(4) [OF that(2,3)] types_decode_mono [OF assms(1-3) _ that(2,3), of i]
    by (cases "i = length sigs") (simp_all add: nth_append)
  then show ?thesis using assms(1,2) by (simp add: types_decode_def)
qed

lemma types_added_decode: "types_added sigs te \<Longrightarrow> str_tab_ok (te_nn_tab te) \<and> types_decode sigs te"
proof (induction rule: types_added.induct)
  case (start te)
  then show ?case by (simp add: types_decode_def)
next
  case (type sigs te rets params moved i te')
  then have IH: "str_tab_ok (te_nn_tab te)" "types_decode sigs te" by simp_all
  note new = Add_type_ok [OF type.hyps(2-4) IH(1) type.hyps(5-7)]
  have len: "length (te_type_list te) = length sigs" using IH(2) by (simp add: types_decode_def)
  obtain ys where ys: "st_raw_buf (te_nn_tab te') = st_raw_buf (te_nn_tab te) @ ys" using Add_type_extends(2) [OF type.hyps(7)] by blast
  consider "te_type_list te' = te_type_list te" "i < length sigs" | ty where "te_type_list te' = te_type_list te @ [ty]" "i = length sigs"
    using Add_type_extends(1) [OF type.hyps(7)] len by metis
  then show ?case
  proof cases
    case 1
    then show ?thesis using new(1) len types_decode_mono [OF IH(2) _ ys, of "[]"] by (simp add: types_decode_def)
  next
    case 2
    from types_decode_snoc [OF IH(2) 2(1) ys, of rets params] new(2) 2(2) have "types_decode (sigs @ [(rets, params)]) te'" by blast
    then show ?thesis using new(1) 2(2) by simp
  qed
next
  case (str sigs te buf moved i nn)
  obtain ys where "st_raw_buf nn = st_raw_buf (te_nn_tab te) @ ys" using Request_extends [of moved buf "te_nn_tab te"] str.hyps(3) by auto
  then have "decodes_to m i (fst (sigs ! i)) (snd (sigs ! i))"
    if "i < length sigs" "m_type_sec m = te_type_list te @ tys" "m_nn_str m = st_raw_buf nn @ pad" for i m tys pad
    using types_decode_mono [of sigs te "te\<lparr>te_nn_tab := nn\<rparr>" "[]" ys i m tys pad] str.IH that by simp
  then show ?case using str.IH Request_entry(1) [OF _ str.hyps(2,3)] by (simp add: types_decode_def)
qed

section \<open>The caches of the types\<close>

text \<open>The cache after the first \<open>k\<close> of \<open>n\<close> types, whose value types are \<open>xss\<close>.\<close>

definition cache_done :: "nat \<Rightarrow> (nat \<Rightarrow> u8 list) \<Rightarrow> nat \<Rightarrow> u8 list list \<times> u32 list \<Rightarrow> bool" where
  "cache_done n xss k t \<longleftrightarrow> fst t = map (\<lambda>i. if i < k then xss i else []) [0..<n] \<and> length (snd t) = n * VALTY_COUNT \<and>
    (\<forall>i < n. \<forall>c < 4. snd t ! (i * VALTY_COUNT + c) = (if i < k then of_nat (count_list (map unat (xss i)) c) else 0))"

lemma cache_done_0: "cache_done n xss 0 (replicate n [], replicate (n * VALTY_COUNT) 0)"
proof -
  have "i * 4 + c < n * 4" if "i < n" "c < 4" for i c :: nat using that by linarith
  then show ?thesis by (auto simp: cache_done_def VALTY_COUNT_def map_replicate_const)
qed

lemma cache_done_shape: "cache_done n xss k t \<Longrightarrow> i < n \<Longrightarrow> cache_shape i t"
  by (simp add: cache_done_def cache_shape_def)

lemma cache_done_Suc:
  assumes "cache_done n xss k t" and "k < n" and "cached k (xss k) t t'"
  shows "cache_done n xss (Suc k) t'"
proof -
  have "fst t' = map (\<lambda>i. if i < Suc k then xss i else []) [0..<n]"
    by (rule nth_equalityI) (use assms in \<open>auto simp: cached_def cache_done_def nth_list_update less_Suc_eq\<close>)
  moreover have "snd t' ! (i * VALTY_COUNT + c) = (if i < Suc k then of_nat (count_list (map unat (xss i)) c) else 0)"
    if "i < n" "c < 4" for i c
  proof (cases "i = k")
    case True
    then show ?thesis using assms that by (simp add: cached_def cache_done_def)
  next
    case False
    have "(i * VALTY_COUNT + c) div VALTY_COUNT = i" using that(2) by (simp add: VALTY_COUNT_def)
    with False have "snd t' ! (i * VALTY_COUNT + c) = snd t ! (i * VALTY_COUNT + c)" using assms(3) by (simp add: cached_def)
    then show ?thesis using assms(1) that False by (simp add: cache_done_def)
  qed
  ultimately show ?thesis using assms(1,3) by (simp add: cache_done_def cached_def)
qed

lemma decode_types_ok:
  assumes "\<forall>i < n. decodes_to m i (fst (sigs ! i)) (snd (sigs ! i))" and "k \<le> n"
  defines "init \<equiv> (replicate n [], replicate (n * VALTY_COUNT) 0)"
  shows "\<exists>t. foldr_res (decode_type m) [0..<k] (init, init) = Inr t \<and>
    cache_done n (\<lambda>i. map vt8 (fst (sigs ! i))) k (fst t) \<and> cache_done n (\<lambda>i. map vt8 (snd (sigs ! i))) k (snd t)"
  using assms(2)
proof (induction k)
  case 0
  then show ?case using cache_done_0 by (simp add: init_def)
next
  case (Suc k)
  then obtain t where t: "foldr_res (decode_type m) [0..<k] (init, init) = Inr t"
    "cache_done n (\<lambda>i. map vt8 (fst (sigs ! i))) k (fst t)" "cache_done n (\<lambda>i. map vt8 (snd (sigs ! i))) k (snd t)" by auto
  have k: "k < n" using Suc.prems by simp
  obtain t' where t': "decode_type m k t = Inr t'" "cached k (map vt8 (fst (sigs ! k))) (fst t) (fst t')"
    "cached k (map vt8 (snd (sigs ! k))) (snd t) (snd t')"
    using assms(1) k cache_done_shape [OF t(2) k] cache_done_shape [OF t(3) k] unfolding decodes_to_def by meson
  then show ?case using t(1) cache_done_Suc [OF t(2) k t'(2)] cache_done_Suc [OF t(3) k t'(3)] by (simp add: foldr_res_append)
qed

section \<open>The caches of the register counts\<close>

text \<open>What the second loop stores for function \<open>f\<close>: local and in-out registers together, and the local ones alone.\<close>

definition reg_counts :: "ubh_code list \<Rightarrow> ubh_func \<Rightarrow> u64" where
  "reg_counts codes f = (if Is_set_flag F_EXTERN f then 0 else
    (let code = codes ! unat (fn_code_idx f); l = c_local code; io = c_io code in
     pack16 (l ! 0 + io ! 0) (l ! 1 + io ! 1) (l ! 2 + io ! 2) (l ! 3 + io ! 3)))"

definition local_counts :: "ubh_code list \<Rightarrow> ubh_func \<Rightarrow> u64" where
  "local_counts codes f = (if Is_set_flag F_EXTERN f then 0 else
    (let l = c_local (codes ! unat (fn_code_idx f)) in pack16 (l ! 0) (l ! 1) (l ! 2) (l ! 3)))"

definition code_present :: "nat \<Rightarrow> ubh_func \<Rightarrow> bool" where
  "code_present n f \<longleftrightarrow> Is_set_flag F_EXTERN f \<or> unat (fn_code_idx f) < n"

lemma cache_reg_num_ok:
  assumes "i < length (m_func_sec m)" and "code_present (length (m_code_sec m)) (m_func_sec m ! i)" and "i < length (fst t)" "i < length (snd t)"
    and "fst t ! i = 0" "snd t ! i = 0"
  shows "cache_reg_num m i t = Inr ((fst t)[i := reg_counts (m_code_sec m) (m_func_sec m ! i)],
    (snd t)[i := local_counts (m_code_sec m) (m_func_sec m ! i)])"
proof (cases "Is_set_flag F_EXTERN (m_func_sec m ! i)")
  case True
  then show ?thesis using assms list_update_id [of "fst t" i] list_update_id [of "snd t" i]
    by (simp add: cache_reg_num_def Get_func_def arr_at_def reg_counts_def local_counts_def prod_eq_iff)
next
  case False
  then show ?thesis using assms
    by (simp add: cache_reg_num_def Get_func_def Get_code_def Get_code_idx_def arr_at_def arr_upd_def reg_counts_def local_counts_def
        code_present_def Let_def)
qed

text \<open>A loop that sets element \<open>i\<close> in iteration \<open>i\<close>.\<close>

lemma update_prefix:
  "k < n \<Longrightarrow> (map (\<lambda>i. if i < k then f i else d) [0..<n])[k := f k] = map (\<lambda>i. if i < Suc k then f i else d) [0..<n]"
  by (rule nth_equalityI) (auto simp: nth_list_update less_Suc_eq)

lemma prefix_all: "map (\<lambda>i. if i < length xs then f (xs ! i) else d) [0..<length xs] = map f xs"
  by (rule nth_equalityI) simp_all

lemma cache_regs_ok:
  assumes "\<forall>i < n. i < length (m_func_sec m) \<and> code_present (length (m_code_sec m)) (m_func_sec m ! i)" and "k \<le> n"
  shows "foldr_res (cache_reg_num m) [0..<k] (replicate n 0, replicate n 0) =
    Inr (map (\<lambda>i. if i < k then reg_counts (m_code_sec m) (m_func_sec m ! i) else 0) [0..<n],
      map (\<lambda>i. if i < k then local_counts (m_code_sec m) (m_func_sec m ! i) else 0) [0..<n])"
  using assms(2)
proof (induction k)
  case 0
  then show ?case by (simp add: map_replicate_const)
next
  case (Suc k)
  then have k: "k < n" by simp
  note upd = update_prefix [OF k, of "\<lambda>i. reg_counts (m_code_sec m) (m_func_sec m ! i)"]
    update_prefix [OF k, of "\<lambda>i. local_counts (m_code_sec m) (m_func_sec m ! i)"]
  show ?case using Suc.IH k assms(1) by (simp add: foldr_res_append cache_reg_num_ok upd)
qed

section \<open>The whole of the caches\<close>

definition caches_ok :: "(valtype list \<times> valtype list) list \<Rightarrow> u_module \<Rightarrow> bool" where
  "caches_ok sigs m \<longleftrightarrow>
    m_ret_tab m = map (\<lambda>s. map vt8 (fst s)) sigs \<and> m_param_tab m = map (\<lambda>s. map vt8 (snd s)) sigs \<and>
    (\<forall>i < length sigs. \<forall>c < 4.
      m_ret_num_tab m ! (i * VALTY_COUNT + c) = of_nat (count_list (map (unat \<circ> vt8) (fst (sigs ! i))) c) \<and>
      m_param_num_tab m ! (i * VALTY_COUNT + c) = of_nat (count_list (map (unat \<circ> vt8) (snd (sigs ! i))) c)) \<and>
    m_reg_num_tab m = map (reg_counts (m_code_sec m)) (m_func_sec m) \<and>
    m_fp_shs_tab m = map (local_counts (m_code_sec m)) (m_func_sec m)"

lemma Decode_type_and_cache_ok:
  assumes "types_decode sigs te" and "m_type_sec m = te_type_list te" and "m_nn_str m = st_raw_buf (te_nn_tab te) @ pad"
    and num: "sec_elem_num m S_TYPE = Inr (length sigs)" "sec_elem_num m S_FUNC = Inr (length (m_func_sec m))"
    and code: "\<forall>f \<in> set (m_func_sec m). code_present (length (m_code_sec m)) f"
  shows "\<exists>rt rn pt pn reg shs. Decode_type_and_cache m = Inr (m\<lparr>m_ret_tab := rt, m_ret_num_tab := rn, m_param_tab := pt, m_param_num_tab := pn,
      m_reg_num_tab := reg, m_fp_shs_tab := shs\<rparr>) \<and>
    caches_ok sigs (m\<lparr>m_ret_tab := rt, m_ret_num_tab := rn, m_param_tab := pt, m_param_num_tab := pn, m_reg_num_tab := reg, m_fp_shs_tab := shs\<rparr>)"
proof -
  let ?n = "length sigs" and ?k = "length (m_func_sec m)"
  have "\<forall>i < ?n. decodes_to m i (fst (sigs ! i)) (snd (sigs ! i))"
    using assms(1-3) unfolding types_decode_def by (metis append_Nil2)
  from decode_types_ok [OF this order.refl] obtain t where
    t: "foldr_res (decode_type m) [0..<?n] ((replicate ?n [], replicate (?n * VALTY_COUNT) 0), (replicate ?n [], replicate (?n * VALTY_COUNT) 0)) = Inr t"
    "cache_done ?n (\<lambda>i. map vt8 (fst (sigs ! i))) ?n (fst t)" "cache_done ?n (\<lambda>i. map vt8 (snd (sigs ! i))) ?n (snd t)" by blast
  have regs: "foldr_res (cache_reg_num m) [0..<?k] (replicate ?k 0, replicate ?k 0) =
      Inr (map (reg_counts (m_code_sec m)) (m_func_sec m), map (local_counts (m_code_sec m)) (m_func_sec m))"
    using cache_regs_ok [of ?k m ?k] code prefix_all [of "m_func_sec m" "reg_counts (m_code_sec m)" 0]
      prefix_all [of "m_func_sec m" "local_counts (m_code_sec m)" 0] by simp
  have eq: "Decode_type_and_cache m = Inr (m\<lparr>m_ret_tab := fst (fst t), m_ret_num_tab := snd (fst t), m_param_tab := fst (snd t),
      m_param_num_tab := snd (snd t), m_reg_num_tab := map (reg_counts (m_code_sec m)) (m_func_sec m),
      m_fp_shs_tab := map (local_counts (m_code_sec m)) (m_func_sec m)\<rparr>)"
    using t(1) regs num by (simp add: Decode_type_and_cache_def)
  have tabs: "fst (fst t) = map (\<lambda>s. map vt8 (fst s)) sigs" "fst (snd t) = map (\<lambda>s. map vt8 (snd s)) sigs"
    using t(2,3) prefix_all [of sigs "\<lambda>s. map vt8 (fst s)" "[]"] prefix_all [of sigs "\<lambda>s. map vt8 (snd s)" "[]"] by (simp_all add: cache_done_def)
  have nums: "\<forall>i < ?n. \<forall>c < 4.
      snd (fst t) ! (i * VALTY_COUNT + c) = of_nat (count_list (map (unat \<circ> vt8) (fst (sigs ! i))) c) \<and>
      snd (snd t) ! (i * VALTY_COUNT + c) = of_nat (count_list (map (unat \<circ> vt8) (snd (sigs ! i))) c)"
    using t(2,3) by (simp add: cache_done_def)
  show ?thesis by (intro exI conjI, rule eq) (use tabs nums in \<open>simp add: caches_ok_def\<close>)
qed

end
