(* ===== verification/File_Props.thy ===== *)
theory File_Props
  imports U_Encoder Type_Cache
begin

text \<open>
  The loader reads what the encoder wrote, on the bytes of the file: section headers, offsets and
  sizes, and the contents of every section.
\<close>

section \<open>Sizes\<close>

lemma length_Write_to_buf: "4 * length (Write_to_buf cbs) = Code_sec_size cbs"
  by (induction cbs) (simp_all add: Write_to_buf_def Code_sec_size_def Entry_size_def SIZEOF_UBH_CODE_def)

definition sec_len :: "u_encoder \<Rightarrow> sec_info \<Rightarrow> nat" where
  "sec_len e info = length (sec_bytes e (si_sec_id info))"

lemma sec_len_count:
  assumes "info \<in> set SEC_INFO_ARR" and "si_sec_id info \<noteq> S_CODE"
  shows "sec_len e info = sec_count e (si_sec_id info) * si_elem_size info"
proof -
  have "list_all (\<lambda>info. si_sec_id info \<noteq> S_CODE \<longrightarrow>
      sec_len e info = sec_count e (si_sec_id info) * si_elem_size info) SEC_INFO_ARR"
    by (simp add: SEC_INFO_ARR_def sec_len_def sec_bytes_def sec_count_def type_codec.length_encs import_codec.length_encs
        export_codec.length_encs imp_nat_codec.length_encs func_codec.length_encs glbl_codec.length_encs
        word_codec.length_encs)
  with assms show ?thesis by (simp add: list_all_iff)
qed

lemma sec_len_code: "si_sec_id info = S_CODE \<Longrightarrow> sec_len e info = Code_sec_size (ue_bodies e)"
  using word_codec.length_encs [of "Write_to_buf (ue_bodies e)"]
  by (simp add: sec_len_def sec_bytes_def length_Write_to_buf)

lemma sec_len_absent:
  "info \<in> set SEC_INFO_ARR \<Longrightarrow> sec_count e (si_sec_id info) = 0 \<Longrightarrow> sec_len e info = 0"
  using sec_len_count [of info e] sec_len_code [of info e]
  by (cases "si_sec_id info = S_CODE") (simp_all add: sec_count_def Code_sec_size_def)

lemma sec_size_len:
  assumes "info \<in> set SEC_INFO_ARR" and "sec_len e info < 2 ^ 32"
  shows "sec_size e info (of_nat (sec_count e (si_sec_id info))) = of_nat (sec_len e info)"
  using sec_len_count [OF assms(1), of e] sec_len_code [of info e] by (auto simp: sec_size_def)

section \<open>Section headers\<close>

definition shdr_for :: "u_encoder \<Rightarrow> sec_info \<Rightarrow> nat \<Rightarrow> ubh_shdr \<Rightarrow> bool" where
  "shdr_for e info off s \<longleftrightarrow> Have_sec s \<and> Get_sec_id_from_header s = Inr (si_sec_id info) \<and>
    Get_elem_num s = Inr (of_nat (sec_count e (si_sec_id info))) \<and> sh_idx s = of_nat off"

text \<open>What the constructor and \<^verbatim>\<open>Set_kind\<close> make of an entry of \<^verbatim>\<open>SEC_INFO_ARR\<close> is recognised by the loader.\<close>

definition new_shdr :: "sec_info \<Rightarrow> u32 \<Rightarrow> u32 \<Rightarrow> ubh_shdr res" where
  "new_shdr info n off = bindr (UBH_SHDR (ucast (si_shdr_tag info)) (ucast n) off)
    (\<lambda>s. if si_sec_kind info \<noteq> - 1 then Set_kind (of_int (si_sec_kind info)) s else Inr s)"

lemma new_shdr_ok:
  fixes n :: u32
  assumes "info \<in> set SEC_INFO_ARR" and "unat n < 2 ^ 16"
  shows "\<exists>s. new_shdr info n off = Inr s \<and> Have_sec s \<and> Get_sec_id_from_header s = Inr (si_sec_id info) \<and>
    Get_elem_num s = Inr n \<and> sh_idx s = off"
proof -
  have n: "take_bit 16 n = n" "take_bit 24 n = n" using assms(2) by (simp_all add: take_bit_unat_less)
  have "ucast (ucast n :: u16) = take_bit 16 n" by (rule bit_word_eqI) (auto simp: bit_simps)
  with n(1) have u: "ucast (ucast n :: u16) = n" by simp
  have "list_all (\<lambda>info. \<exists>s. new_shdr info n off = Inr s \<and> Have_sec s \<and> Get_sec_id_from_header s = Inr (si_sec_id info) \<and>
      Get_elem_num s = Inr n \<and> sh_idx s = off) SEC_INFO_ARR"
    by (simp add: SEC_INFO_ARR_def new_shdr_def UBH_SHDR_def Set_sec_tag_def Set_elem_num_def Set_kind_def
        Select_struct_def Get_sec_tag_def Have_sec_def Get_sec_id_from_header_def Get_elem_num_def Get_kind_def
        Let_def sec_tag_defs n u field_simps_bits in_word_def apart_def shdr_field_defs)
  with assms(1) show ?thesis by (simp add: list_all_iff)
qed

text \<open>The headers of consecutive sections, the first at offset \<open>off\<close>.\<close>

fun headers_ok :: "u_encoder \<Rightarrow> sec_info list \<Rightarrow> nat \<Rightarrow> ubh_shdr list \<Rightarrow> bool" where
  "headers_ok e [] off [] = True"
| "headers_ok e (i # is) off (s # ss) = (shdr_for e i off s \<and> headers_ok e is (off + sec_len e i) ss)"
| "headers_ok e is off ss = False"

definition present :: "u_encoder \<Rightarrow> sec_info list \<Rightarrow> sec_info list" where
  "present e = filter (\<lambda>i. sec_count e (si_sec_id i) \<noteq> 0)"

definition total_len :: "u_encoder \<Rightarrow> sec_info list \<Rightarrow> nat" where
  "total_len e is = sum_list (map (sec_len e) is)"

lemma total_len_simps [simp]: "total_len e [] = 0" "total_len e (i # is) = sec_len e i + total_len e is"
  by (simp_all add: total_len_def)

lemma present_simps [simp]:
  "present e [] = []"
  "present e (i # is) = (if sec_count e (si_sec_id i) \<noteq> 0 then i # present e is else present e is)"
  by (simp_all add: present_def)

lemma collect_sec_eq:
  "collect_sec e info wi =
    (let n = of_nat (sec_count e (si_sec_id info)) in
     if n = 0 then Inr wi
     else bindr (new_shdr info n (wi_size wi)) (\<lambda>s.
       Inr \<lparr>wi_secs = wi_secs wi @ [(si_sec_id info, sec_size e info n)], wi_shdrs = wi_shdrs wi @ [s],
            wi_size = wi_size wi + sec_size e info n\<rparr>))"
  by (simp add: collect_sec_def new_shdr_def Let_def bindr_assoc)

lemma collect_sections:
  assumes "set is \<subseteq> set SEC_INFO_ARR" and "\<forall>i \<in> set is. sec_count e (si_sec_id i) < 2 ^ 16"
    and "off + total_len e is < 2 ^ 32"
  shows "\<exists>ss. foldr_res (collect_sec e) is \<lparr>wi_secs = secs, wi_shdrs = shdrs, wi_size = of_nat off\<rparr> =
      Inr \<lparr>wi_secs = secs @ map (\<lambda>i. (si_sec_id i, of_nat (sec_len e i))) (present e is), wi_shdrs = shdrs @ ss,
           wi_size = of_nat (off + total_len e is)\<rparr> \<and>
    headers_ok e (present e is) off ss"
  using assms
proof (induction "is" arbitrary: secs shdrs off)
  case (Cons i js)
  let ?n = "sec_count e (si_sec_id i)"
  have i: "i \<in> set SEC_INFO_ARR" "?n < 2 ^ 16" using Cons.prems(1,2) by simp_all
  then have n: "unat (of_nat ?n :: u32) = ?n" by (simp add: unat_of_nat_u32)
  have prems: "set js \<subseteq> set SEC_INFO_ARR" "\<forall>i \<in> set js. sec_count e (si_sec_id i) < 2 ^ 16"
    "off + sec_len e i + total_len e js < 2 ^ 32" using Cons.prems by simp_all
  show ?case
  proof (cases "?n = 0")
    case True
    with sec_len_absent [OF i(1)] Cons.IH [OF prems(1,2), of off secs shdrs] prems(3) show ?thesis
      by (simp add: collect_sec_eq Let_def)
  next
    case False
    have nz: "of_nat ?n \<noteq> (0::u32)" using False n by (metis unsigned_0)
    obtain s where s: "new_shdr i (of_nat ?n) (of_nat off) = Inr s" "shdr_for e i off s"
      using new_shdr_ok [OF i(1), of "of_nat ?n" "of_nat off"] i(2) n by (auto simp: shdr_for_def)
    have "sec_size e i (of_nat ?n) = of_nat (sec_len e i)"
      by (rule sec_size_len [OF i(1)]) (use prems(3) in simp)
    with s(1) nz have "collect_sec e i \<lparr>wi_secs = secs, wi_shdrs = shdrs, wi_size = of_nat off\<rparr> =
        Inr \<lparr>wi_secs = secs @ [(si_sec_id i, of_nat (sec_len e i))], wi_shdrs = shdrs @ [s],
             wi_size = of_nat (off + sec_len e i)\<rparr>"
      by (simp add: collect_sec_eq Let_def)
    moreover obtain ss where "foldr_res (collect_sec e) js
        \<lparr>wi_secs = secs @ [(si_sec_id i, of_nat (sec_len e i))], wi_shdrs = shdrs @ [s], wi_size = of_nat (off + sec_len e i)\<rparr> =
      Inr \<lparr>wi_secs = (secs @ [(si_sec_id i, of_nat (sec_len e i))]) @ map (\<lambda>i. (si_sec_id i, of_nat (sec_len e i))) (present e js),
           wi_shdrs = (shdrs @ [s]) @ ss, wi_size = of_nat (off + sec_len e i + total_len e js)\<rparr>"
      "headers_ok e (present e js) (off + sec_len e i) ss"
      using Cons.IH [OF prems] by blast
    ultimately show ?thesis using s(2) False by (intro exI [of _ "s # ss"]) (simp add: add.assoc)
  qed
qed simp

section \<open>The contents of the file\<close>

definition sections_bytes :: "u_encoder \<Rightarrow> sec_info list \<Rightarrow> u8 list" where
  "sections_bytes e is = concat (map (\<lambda>i. sec_bytes e (si_sec_id i)) is)"

lemma length_sections_bytes: "length (sections_bytes e is) = total_len e is"
  by (induction "is") (simp_all add: sections_bytes_def sec_len_def)

lemma total_len_present: "set is \<subseteq> set SEC_INFO_ARR \<Longrightarrow> total_len e (present e is) = total_len e is"
  by (induction "is") (simp_all add: sec_len_absent)

lemma write_sections:
  assumes "length zs = total_len e is" and "\<forall>i \<in> set is. sec_len e i < 2 ^ 32"
  shows "foldr_res (write_sec e) (map (\<lambda>i. (si_sec_id i, of_nat (sec_len e i))) is) (length pre, pre @ zs @ post) =
    Inr (length pre + total_len e is, pre @ sections_bytes e is @ post)"
  using assms
proof (induction "is" arbitrary: pre zs)
  case (Cons i js)
  let ?src = "sec_bytes e (si_sec_id i)" and ?n = "sec_len e i"
  have n: "unat (of_nat ?n :: u32) = ?n" "length ?src = ?n" using Cons.prems(2) by (simp_all add: unat_of_nat_u32 sec_len_def)
  have "write_sec e (si_sec_id i, of_nat ?n) (length pre, pre @ zs @ post) =
      Inr (length (pre @ ?src), (pre @ ?src) @ drop ?n zs @ post)"
    using Cons.prems(1) n
    by (cases "si_sec_id i = S_CODE") (simp_all add: write_sec_def Let_def arr_copy_def)
  moreover have "foldr_res (write_sec e) (map (\<lambda>i. (si_sec_id i, of_nat (sec_len e i))) js)
      (length (pre @ ?src), (pre @ ?src) @ drop ?n zs @ post) =
    Inr (length (pre @ ?src) + total_len e js, (pre @ ?src) @ sections_bytes e js @ post)"
    by (rule Cons.IH) (use Cons.prems in auto)
  ultimately show ?case using n by (simp add: sections_bytes_def)
qed (simp add: sections_bytes_def)

text \<open>The file is the header, the sections and the section headers, one after the other.\<close>

definition file_ok :: "u_encoder \<Rightarrow> bool" where
  "file_ok e \<longleftrightarrow> (\<forall>i \<in> set SEC_INFO_ARR. sec_count e (si_sec_id i) < 2 ^ 16) \<and>
    12 + total_len e SEC_INFO_ARR + 8 * 13 < 2 ^ 26"

lemma headers_ok_length: "headers_ok e is off ss \<Longrightarrow> length ss = length is"
  by (induction e "is" off ss rule: headers_ok.induct) simp_all

lemma length_present: "length (present e SEC_INFO_ARR) \<le> 12"
  using length_filter_le [of "\<lambda>i. sec_count e (si_sec_id i) \<noteq> 0" SEC_INFO_ARR]
  by (simp add: present_def SEC_INFO_ARR_def)

definition start_shdr :: "u_encoder \<Rightarrow> ubh_shdr list \<Rightarrow> bool" where
  "start_shdr e ss \<longleftrightarrow> ss = [] \<and> find_start (st_raw_buf (ue_module_str e)) 0 (ue_func_tab e) = Inr None \<or>
    (\<exists>i s. ss = [s] \<and> find_start (st_raw_buf (ue_module_str e)) 0 (ue_func_tab e) = Inr (Some i) \<and>
      \<not> Have_sec s \<and> sh_idx s = of_nat i)"

lemma start_header: "\<exists>s. UBH_SHDR (ucast SEC_START) 0 n = Inr s \<and> \<not> Have_sec s \<and> sh_idx s = n"
  by (simp add: UBH_SHDR_def Set_sec_tag_def Set_elem_num_def Select_struct_def Get_sec_tag_def Have_sec_def
      Let_def sec_tag_defs field_simps_bits in_word_def apart_def shdr_field_defs)

lemma Collect_write_info_ok:
  assumes "file_ok e" and start: "find_start (st_raw_buf (ue_module_str e)) 0 (ue_func_tab e) = Inr start_fn"
  shows "\<exists>ss st. Collect_write_info e = Inr \<lparr>wi_secs = map (\<lambda>i. (si_sec_id i, of_nat (sec_len e i))) (present e SEC_INFO_ARR),
      wi_shdrs = ss @ st, wi_size = of_nat (12 + total_len e SEC_INFO_ARR + 8 * length (ss @ st))\<rparr> \<and>
    headers_ok e (present e SEC_INFO_ARR) 12 ss \<and> start_shdr e st"
proof -
  have bounds: "\<forall>i \<in> set SEC_INFO_ARR. sec_count e (si_sec_id i) < 2 ^ 16" "12 + total_len e SEC_INFO_ARR < 2 ^ 32"
    using assms(1) by (auto simp: file_ok_def)
  obtain ss where ss: "foldr_res (collect_sec e) SEC_INFO_ARR \<lparr>wi_secs = [], wi_shdrs = [], wi_size = of_nat 12\<rparr> =
      Inr \<lparr>wi_secs = map (\<lambda>i. (si_sec_id i, of_nat (sec_len e i))) (present e SEC_INFO_ARR), wi_shdrs = ss,
           wi_size = of_nat (12 + total_len e SEC_INFO_ARR)\<rparr>" "headers_ok e (present e SEC_INFO_ARR) 12 ss"
    using collect_sections [OF subset_refl bounds, of "[]" "[]"] by (auto simp del: of_nat_add of_nat_numeral)
  show ?thesis
  proof (cases start_fn)
    case None
    with ss start show ?thesis unfolding Collect_write_info_def UBH_MHDR_SIZE_def
      by (intro exI [of _ ss] exI [of _ "[]"]) (auto simp: start_shdr_def ubh_sizes)
  next
    case (Some i)
    obtain s where "UBH_SHDR (ucast SEC_START) 0 (of_nat i) = Inr s" "\<not> Have_sec s" "sh_idx s = of_nat i"
      using start_header by blast
    with ss start Some show ?thesis unfolding Collect_write_info_def UBH_MHDR_SIZE_def
      by (intro exI [of _ ss] exI [of _ "[s]"]) (auto simp: start_shdr_def ubh_sizes)
  qed
qed

lemma length_mhdr_bytes: "length (mhdr_bytes n off) = 12"
  by (simp add: mhdr_bytes_def UBH_MAGIC_def del: wr_all.simps)

lemma Write_to_file_contents:
  assumes fin: "Finish moved e = Inr e'" and ok: "file_ok e'"
    and start: "find_start (st_raw_buf (ue_module_str e')) 0 (ue_func_tab e') = Inr start_fn"
  shows "\<exists>ss st. Write_to_file moved e =
      Inr (mhdr_bytes (of_nat (length (ss @ st))) (of_nat (12 + total_len e' SEC_INFO_ARR)) @
        sections_bytes e' (present e' SEC_INFO_ARR) @ concat (map shdr_bytes (ss @ st))) \<and>
    headers_ok e' (present e' SEC_INFO_ARR) 12 ss \<and> start_shdr e' st"
proof -
  let ?is = "present e' SEC_INFO_ARR" and ?t = "total_len e' SEC_INFO_ARR"
  from Collect_write_info_ok [OF ok start] obtain ss st wi where c: "Collect_write_info e' = Inr wi" and
    wi: "wi = \<lparr>wi_secs = map (\<lambda>i. (si_sec_id i, of_nat (sec_len e' i))) ?is, wi_shdrs = ss @ st,
      wi_size = of_nat (12 + ?t + 8 * length (ss @ st))\<rparr>" and ss: "headers_ok e' ?is 12 ss" and st: "start_shdr e' st"
    by blast
  let ?k = "length (ss @ st)"
  have k: "?k \<le> 13"
    using headers_ok_length [OF ss] length_present [of e'] st by (auto simp: start_shdr_def)
  have small: "12 + ?t + 8 * ?k < 2 ^ 32" using ok k by (simp add: file_ok_def)
  have size: "unat (wi_size wi) = 12 + ?t + 8 * ?k" using small by (simp add: wi unat_of_nat_u32 del: of_nat_add of_nat_mult)
  have "wi_size wi - of_nat (?k * 8) = (of_nat (12 + ?t) :: u32)" by (simp add: wi mult.commute)
  then have off: "wi_size wi - of_nat (?k * UBH_SHDR_SIZE) = of_nat (12 + ?t)" by (simp add: ubh_sizes)
  have uoff: "unat (of_nat (12 + ?t) :: u32) = 12 + ?t" using small by (intro unat_of_nat_u32) simp
  define h where "h = mhdr_bytes (of_nat ?k) (of_nat (12 + ?t))"
  have h: "length h = 12" by (simp add: h_def length_mhdr_bytes)
  have m: "Write_mhdr (of_nat ?k) (of_nat (12 + ?t)) (replicate (12 + ?t + 8 * ?k) 0) =
      Inr (h @ replicate ?t 0 @ replicate (8 * ?k) 0)"
    unfolding Write_mhdr_def h_def [symmetric] using h by (simp add: arr_copy_def flip: replicate_add)
  have sub: "set SEC_INFO_ARR \<subseteq> set SEC_INFO_ARR" by simp
  have each: "sec_len e' i \<le> total_len e' js" if "i \<in> set js" for i js
    using that by (auto simp: total_len_def intro!: member_le_sum_list)
  have "Write_section e' (wi_secs wi) 12 (h @ replicate ?t 0 @ replicate (8 * ?k) 0) =
      Inr (h @ sections_bytes e' ?is @ replicate (8 * ?k) 0)"
    using write_sections [of "replicate ?t 0" e' ?is h "replicate (8 * ?k) 0"] total_len_present [OF sub, of e'] h
      each [of _ ?is] small by (fastforce simp: Write_section_def wi)
  moreover have "Write_shdr (ss @ st) (12 + ?t) (h @ sections_bytes e' ?is @ replicate (8 * ?k) 0) =
      Inr (h @ sections_bytes e' ?is @ concat (map shdr_bytes (ss @ st)))"
    using h length_sections_bytes [of e' ?is] total_len_present [OF sub, of e']
      shdr_codec.length_encs [of "ss @ st"]
    by (simp add: Write_shdr_def arr_copy_def ubh_sizes del: map_append concat_append)
  ultimately have "Write_to_file moved e = Inr (h @ sections_bytes e' ?is @ concat (map shdr_bytes (ss @ st)))"
    using fin c m size off uoff
    by (simp add: Write_to_file_def Let_def wi UBH_MHDR_SIZE_def del: of_nat_add of_nat_mult)
  with ss st show ?thesis unfolding h_def by blast
qed

section \<open>Loading\<close>

lemma headers_ok_nth:
  "headers_ok e is off ss \<Longrightarrow> j < length ss \<Longrightarrow> shdr_for e (is ! j) (off + total_len e (take j is)) (ss ! j)"
proof (induction e "is" off ss arbitrary: j rule: headers_ok.induct)
  case (2 e i js off s ss)
  then show ?case by (cases j) (simp_all add: add.assoc)
qed simp_all

text \<open>\<^verbatim>\<open>Set_shdr_tab\<close> finds every section at the index of its header.\<close>

definition map_ok :: "sec_info list \<Rightarrow> u_module \<Rightarrow> (section_id \<Rightarrow> nat option) \<Rightarrow> bool" where
  "map_ok is m sm \<longleftrightarrow> (\<forall>j < length is. sm (si_sec_id (is ! j)) = Some j) \<and>
    (\<forall>sid. sid \<notin> si_sec_id ` set is \<longrightarrow> sm sid = m_sec_map m sid)"

lemma Set_shdr_tab_ok:
  assumes ok: "headers_ok e is off ss" and dist: "distinct (map si_sec_id is)" and st: "list_all (\<lambda>s. \<not> Have_sec s) st"
  shows "\<exists>sm. Set_shdr_tab (ss @ st) m = Inr (m\<lparr>m_shdr_tab := ss @ st, m_sec_map := sm\<rparr>) \<and> map_ok is m sm"
proof -
  let ?f = "\<lambda>i m. bindr (arr_at (ss @ st) i) (\<lambda>sec_header. if \<not> Have_sec sec_header then Inr m
    else bindr (Get_sec_id_from_header sec_header) (\<lambda>sec_id. Inr (m\<lparr>m_sec_map := (m_sec_map m)(sec_id \<mapsto> i)\<rparr>)))"
  let ?m = "\<lambda>sm. m\<lparr>m_shdr_tab := ss @ st, m_sec_map := sm\<rparr>"
  have len: "length ss = length is" using ok by (rule headers_ok_length)
  have "\<exists>sm. foldr_res ?f [0..<n] (?m (m_sec_map m)) = Inr (?m sm) \<and> map_ok (take n is) m sm" if "n \<le> length ss" for n
    using that
  proof (induction n)
    case 0
    show ?case by (intro exI [of _ "m_sec_map m"]) (simp add: map_ok_def)
  next
    case (Suc n)
    then obtain sm where sm: "foldr_res ?f [0..<n] (?m (m_sec_map m)) = Inr (?m sm)" "map_ok (take n is) m sm" by auto
    have h: "Have_sec (ss ! n)" "Get_sec_id_from_header (ss ! n) = Inr (si_sec_id (is ! n))"
      using headers_ok_nth [OF ok] Suc.prems by (auto simp: shdr_for_def)
    have "si_sec_id (is ! j) \<noteq> si_sec_id (is ! n)" if "j < n" for j
      using that dist Suc.prems len by (auto simp: distinct_conv_nth)
    then have "map_ok (take (Suc n) is) m (sm(si_sec_id (is ! n) \<mapsto> n))"
      using sm(2) Suc.prems len by (auto simp: map_ok_def less_Suc_eq take_Suc_conv_app_nth nth_append)
    moreover have "?f n (?m sm) = Inr (?m (sm(si_sec_id (is ! n) \<mapsto> n)))"
      using h Suc.prems by (simp add: arr_at_def nth_append)
    then have "foldr_res ?f [0..<Suc n] (?m (m_sec_map m)) = Inr (?m (sm(si_sec_id (is ! n) \<mapsto> n)))"
      using sm(1) foldr_res_append [of ?f "[0..<n]" "[n]" "?m (m_sec_map m)"] by simp
    ultimately show ?case by blast
  qed
  from this [of "length ss"] obtain sm where sm: "foldr_res ?f [0..<length ss] (?m (m_sec_map m)) = Inr (?m sm)" "map_ok is m sm"
    using len by auto
  have "foldr_res ?f js x = Inr x" if "\<forall>j \<in> set js. length ss \<le> j \<and> j < length (ss @ st)" for js x
    using that st by (induction js) (auto simp: arr_at_def nth_append list_all_length)
  from this [of "[length ss..<length (ss @ st)]" "?m sm"] sm
  have "foldr_res ?f [0..<length (ss @ st)] (?m (m_sec_map m)) = Inr (?m sm)"
    using foldr_res_append [of ?f "[0..<length ss]" "[length ss..<length (ss @ st)]" "?m (m_sec_map m)"]
    by (simp flip: upt_add_eq_append)
  with sm(2) show ?thesis by (auto simp: Set_shdr_tab_def)
qed

text \<open>The section of a loaded module holds the table of the encoder; bodies are compared before they are finished.\<close>

definition sec_loaded :: "u_code_body list \<Rightarrow> u_encoder \<Rightarrow> u_module \<Rightarrow> section_id \<Rightarrow> bool" where
  "sec_loaded cbs e m sid = (case sid of
      S_TYPE \<Rightarrow> m_type_sec m = te_type_list (ue_type e)
    | S_IMPORT \<Rightarrow> m_import_sec m = ue_import_tab e
    | S_IMP_NAT \<Rightarrow> m_imp_nat_sec m = ue_imp_nat_tab e
    | S_EXPORT \<Rightarrow> m_export_sec m = ue_export_tab e
    | S_FUNC \<Rightarrow> m_func_sec m = ue_func_tab e
    | S_DATA \<Rightarrow> m_data_sec m = ue_const_data e
    | S_RELOC \<Rightarrow> m_reloc_sec m = ue_reloc_data e
    | S_GLBL \<Rightarrow> m_glbl_sec m = ue_glbl_tab e
    | S_MODULE_NAME \<Rightarrow> m_module_name m = st_raw_buf (ue_module_str e)
    | S_GLBL_NAME \<Rightarrow> m_glbl_name m = st_raw_buf (ue_global_name e)
    | S_NN_STR \<Rightarrow> m_nn_str m = st_raw_buf (ue_nn_tab e)
    | S_CODE \<Rightarrow> list_all2 code_loaded cbs (m_code_sec m)
    | _ \<Rightarrow> True)"

definition tables_fit :: "u_encoder \<Rightarrow> bool" where
  "tables_fit e \<longleftrightarrow> list_all type_fits (te_type_list (ue_type e)) \<and> list_all import_fits (ue_import_tab e) \<and>
    list_all imp_nat_fits (ue_imp_nat_tab e) \<and> list_all export_fits (ue_export_tab e) \<and> list_all glbl_fits (ue_glbl_tab e)"

lemma load_section_ok:
  assumes "i \<in> set SEC_INFO_ARR" and sh: "shdr_for e i off s" and "off < 2 ^ 32" and n: "sec_count e (si_sec_id i) < 2 ^ 16"
    and "drop off buf = sec_bytes e (si_sec_id i) @ rest" and "tables_fit e"
    and code: "si_sec_id i = S_CODE \<Longrightarrow> sec_elem_num m S_CODE = Inr (length (ue_bodies e)) \<and>
      (\<exists>codes. Set_code_sec (Write_to_buf (ue_bodies e) @ words32 rest) 0 (length (ue_bodies e)) = Inr codes \<and>
        list_all2 code_loaded cbs codes)"
  shows "\<exists>m'. load_section buf s m = Inr m' \<and> m_shdr_tab m' = m_shdr_tab m \<and> m_sec_map m' = m_sec_map m \<and>
    sec_loaded cbs e m' (si_sec_id i) \<and> (\<forall>sid. sid \<noteq> si_sec_id i \<longrightarrow> sec_loaded cbs e m' sid = sec_loaded cbs e m sid)"
proof -
  have off: "unat (of_nat off :: u32) = off" using assms(3) by (rule unat_of_nat_u32)
  have un: "unat (of_nat (sec_count e (si_sec_id i)) :: u32) = sec_count e (si_sec_id i)"
    using n by (simp add: unat_of_nat_u32)
  from code obtain codes where code': "si_sec_id i = S_CODE \<longrightarrow> sec_elem_num m S_CODE = Inr (length (ue_bodies e)) \<and>
      Set_code_sec (Write_to_buf (ue_bodies e) @ words32 rest) 0 (length (ue_bodies e)) = Inr codes \<and>
      list_all2 code_loaded cbs codes" by blast
  have "list_all (\<lambda>i. (shdr_for e i off s \<and> drop off buf = sec_bytes e (si_sec_id i) @ rest \<and>
      unat (of_nat (sec_count e (si_sec_id i)) :: u32) = sec_count e (si_sec_id i) \<and>
      (si_sec_id i = S_CODE \<longrightarrow> sec_elem_num m S_CODE = Inr (length (ue_bodies e)) \<and>
        Set_code_sec (Write_to_buf (ue_bodies e) @ words32 rest) 0 (length (ue_bodies e)) = Inr codes \<and>
        list_all2 code_loaded cbs codes)) \<longrightarrow>
    (\<exists>m'. load_section buf s m = Inr m' \<and> m_shdr_tab m' = m_shdr_tab m \<and> m_sec_map m' = m_sec_map m \<and>
      sec_loaded cbs e m' (si_sec_id i) \<and> (\<forall>sid. sid \<noteq> si_sec_id i \<longrightarrow> sec_loaded cbs e m' sid = sec_loaded cbs e m sid)))
    SEC_INFO_ARR"
    using off assms(6)
    by (simp add: SEC_INFO_ARR_def shdr_for_def load_section_def Let_def sec_bytes_def sec_count_def tables_fit_def
        sec_loaded_def type_codec.entries_encs import_codec.entries_encs export_codec.entries_encs
        imp_nat_codec.entries_encs func_codec.entries_encs glbl_codec.entries_encs word_codec.entries_encs
        words32_append split: section_id.split)
  with assms(1,5) sh un code' show ?thesis by (simp add: list_all_iff)
qed

lemma sec_elem_num_cong:
  "m_shdr_tab m' = m_shdr_tab m \<Longrightarrow> m_sec_map m' = m_sec_map m \<Longrightarrow> sec_elem_num m' sid = sec_elem_num m sid"
  by (simp add: sec_elem_num_def Get_shdr_by_sec_id_def Get_shdr_idx_def)

lemma load_all:
  assumes "headers_ok e is off ss" and "set is \<subseteq> set SEC_INFO_ARR" and "distinct (map si_sec_id is)"
    and "drop off buf = sections_bytes e is @ rest" and "off + total_len e is < 2 ^ 32"
    and n: "\<forall>i \<in> set SEC_INFO_ARR. sec_count e (si_sec_id i) < 2 ^ 16" and fit: "tables_fit e"
    and "S_CODE \<in> si_sec_id ` set is \<Longrightarrow> sec_elem_num m S_CODE = Inr (length (ue_bodies e))"
    and bodies: "inst_encoder_Finish cbs = Inr (ue_bodies e)" "list_all body_small cbs" "Code_sec_size cbs < 2 ^ 32"
  shows "\<exists>m'. foldr_res (load_section buf) ss m = Inr m' \<and> m_shdr_tab m' = m_shdr_tab m \<and> m_sec_map m' = m_sec_map m \<and>
    (\<forall>i \<in> set is. sec_loaded cbs e m' (si_sec_id i)) \<and>
    (\<forall>sid. sid \<notin> si_sec_id ` set is \<longrightarrow> sec_loaded cbs e m' sid = sec_loaded cbs e m sid)"
  using assms(1-5,8)
proof (induction "is" arbitrary: off ss m)
  case Nil
  then show ?case by (cases ss) simp_all
next
  case (Cons i js)
  from Cons.prems(1) obtain s ss' where ss: "ss = s # ss'" and h: "shdr_for e i off s" "headers_ok e js (off + sec_len e i) ss'"
    by (cases ss) simp_all
  let ?rest = "sections_bytes e js @ rest"
  have i: "i \<in> set SEC_INFO_ARR" "off < 2 ^ 32" using Cons.prems(2,5) by simp_all
  have buf: "drop off buf = sec_bytes e (si_sec_id i) @ ?rest" using Cons.prems(4) by (simp add: sections_bytes_def)
  have code: "\<exists>codes. Set_code_sec (Write_to_buf (ue_bodies e) @ words32 ?rest) 0 (length (ue_bodies e)) = Inr codes \<and>
      list_all2 code_loaded cbs codes"
    using code_section_from [of 0 cbs "ue_bodies e" "[]" "words32 ?rest"] bodies by (simp add: inst_encoder_Finish_def)
  have "sec_count e (si_sec_id i) < 2 ^ 16" using n i(1) by blast
  from load_section_ok [OF i(1) h(1) i(2) this buf fit, of m cbs] code Cons.prems(6) obtain m1 where
    m1: "load_section buf s m = Inr m1" "m_shdr_tab m1 = m_shdr_tab m" "m_sec_map m1 = m_sec_map m"
      "sec_loaded cbs e m1 (si_sec_id i)" "\<forall>sid. sid \<noteq> si_sec_id i \<longrightarrow> sec_loaded cbs e m1 sid = sec_loaded cbs e m sid"
    by auto
  have js: "set js \<subseteq> set SEC_INFO_ARR" "distinct (map si_sec_id js)" "si_sec_id i \<notin> si_sec_id ` set js"
    using Cons.prems(2,3) by simp_all
  have d: "drop (off + sec_len e i) buf = sections_bytes e js @ rest"
    using buf drop_drop [of "sec_len e i" off buf] by (simp add: sec_len_def add.commute)
  have "off + sec_len e i + total_len e js < 2 ^ 32" using Cons.prems(5) by simp
  from Cons.IH [OF h(2) js(1,2) d this, of m1] sec_elem_num_cong [OF m1(2,3), of S_CODE] Cons.prems(6) obtain m2 where
    "foldr_res (load_section buf) ss' m1 = Inr m2" "m_shdr_tab m2 = m_shdr_tab m1" "m_sec_map m2 = m_sec_map m1"
    "\<forall>i \<in> set js. sec_loaded cbs e m2 (si_sec_id i)"
    "\<forall>sid. sid \<notin> si_sec_id ` set js \<longrightarrow> sec_loaded cbs e m2 sid = sec_loaded cbs e m1 sid" by auto
  with m1 js(3) ss show ?case by auto
qed

section \<open>The round trip\<close>

text \<open>A loaded module holds what the encoder had, with the string tables padded with zeros to a multiple of 16 bytes and the bodies finished.\<close>

definition padded :: "u8 list \<Rightarrow> u8 list" where
  "padded bs = bs @ replicate (if length bs mod STR_TAB_ALIGN = 0 then 0 else STR_TAB_ALIGN - length bs mod STR_TAB_ALIGN) 0"

definition loads_as :: "u_encoder \<Rightarrow> u_module \<Rightarrow> bool" where
  "loads_as e m \<longleftrightarrow>
    m_type_sec m = te_type_list (ue_type e) \<and> m_func_sec m = ue_func_tab e \<and> m_import_sec m = ue_import_tab e \<and>
    m_imp_nat_sec m = ue_imp_nat_tab e \<and> m_export_sec m = ue_export_tab e \<and> m_glbl_sec m = ue_glbl_tab e \<and>
    m_data_sec m = ue_const_data e \<and> m_reloc_sec m = ue_reloc_data e \<and>
    m_nn_str m = padded (st_raw_buf (ue_nn_tab e)) \<and>
    m_module_name m = padded (st_raw_buf (ue_module_str e)) \<and>
    m_glbl_name m = padded (st_raw_buf (ue_global_name e)) \<and>
    list_all2 code_loaded (ue_bodies e) (m_code_sec m)"

lemma Pad_raw: "st_raw_buf (Pad moved STR_TAB_ALIGN t) = padded (st_raw_buf t)"
  by (simp add: Pad_def Add_def Let_def padded_def)

lemma Finish_fields:
  assumes "Finish moved e = Inr e'"
  shows "te_type_list (ue_type e') = te_type_list (ue_type e)" "ue_func_tab e' = ue_func_tab e"
    "ue_import_tab e' = ue_import_tab e" "ue_imp_nat_tab e' = ue_imp_nat_tab e" "ue_export_tab e' = ue_export_tab e"
    "ue_glbl_tab e' = ue_glbl_tab e" "ue_const_data e' = ue_const_data e" "ue_reloc_data e' = ue_reloc_data e"
    "inst_encoder_Finish (ue_bodies e) = Inr (ue_bodies e')"
    "st_raw_buf (ue_nn_tab e') = padded (st_raw_buf (ue_nn_tab e))"
    "st_raw_buf (ue_module_str e') = padded (st_raw_buf (ue_module_str e))"
    "st_raw_buf (ue_global_name e') = padded (st_raw_buf (ue_global_name e))"
  using assms Pad_raw by (auto simp: Finish_def)

lemma Finish_tabs:
  assumes "Finish moved e = Inr e'"
  shows "ue_module_str e' = Pad (fst moved) STR_TAB_ALIGN (ue_module_str e)"
    "ue_global_name e' = Pad (fst (snd moved)) STR_TAB_ALIGN (ue_global_name e)"
    "ue_nn_tab e' = Pad (snd (snd moved)) STR_TAB_ALIGN (ue_nn_tab e)"
  using assms by (auto simp: Finish_def)

lemma finish_bodies_size: "finish_bodies off cbs = Inr cbs' \<Longrightarrow> Code_sec_size cbs' = Code_sec_size cbs"
  by (induction cbs arbitrary: off cbs')
    (auto simp: Code_sec_size_def Entry_size_def body_Finish_def Let_def)

lemma absent_loaded:
  assumes "i \<in> set SEC_INFO_ARR" and "sec_count e (si_sec_id i) = 0" and "length cbs = length (ue_bodies e)"
  shows "sec_loaded cbs e (U_MODULE\<lparr>m_shdr_tab := hs, m_sec_map := sm\<rparr>) (si_sec_id i)"
proof -
  have "list_all (\<lambda>i. sec_count e (si_sec_id i) = 0 \<longrightarrow>
      sec_loaded cbs e (U_MODULE\<lparr>m_shdr_tab := hs, m_sec_map := sm\<rparr>) (si_sec_id i)) SEC_INFO_ARR"
    using assms(3) by (auto simp: SEC_INFO_ARR_def sec_count_def sec_loaded_def U_MODULE_def)
  with assms(1,2) show ?thesis by (simp add: list_all_iff)
qed

lemma finish_bodies_length: "finish_bodies off cbs = Inr cbs' \<Longrightarrow> length cbs' = length cbs"
  by (induction cbs arbitrary: off cbs') auto

lemma present_distinct: "distinct (map si_sec_id (present e SEC_INFO_ARR))"
proof -
  have "distinct (map si_sec_id SEC_INFO_ARR)" by (simp add: SEC_INFO_ARR_def)
  then show ?thesis unfolding present_def by (rule distinct_map_filter)
qed

lemma map_ok_elem_num:
  assumes "headers_ok e is off ss" and "map_ok is m sm" and "m_shdr_tab m' = ss @ st" and "m_sec_map m' = sm"
    and "j < length is" and "sec_count e (si_sec_id (is ! j)) < 2 ^ 16"
  shows "sec_elem_num m' (si_sec_id (is ! j)) = Inr (sec_count e (si_sec_id (is ! j)))"
proof -
  have j: "j < length ss" using assms(1,5) by (simp add: headers_ok_length)
  have "shdr_for e (is ! j) (off + total_len e (take j is)) (ss ! j)" by (rule headers_ok_nth [OF assms(1) j])
  then have "Get_elem_num (ss ! j) = Inr (of_nat (sec_count e (si_sec_id (is ! j))))" by (simp add: shdr_for_def)
  with assms(2-6) j show ?thesis
    by (simp add: sec_elem_num_def Get_shdr_by_sec_id_def Get_shdr_idx_def map_ok_def arr_at_def nth_append unat_of_nat_u32)
qed

lemma read_headers:
  assumes "length h = 12 + n" and "unat k = length hs" and "unat off = 12 + n"
  shows "read_shdr_tab (h @ concat (map shdr_bytes hs)) k off = Inr hs"
  using assms shdr_codec.length_encs [of hs] shdr_codec.entries_encs [of hs "[]"]
  by (simp add: read_shdr_tab_def ubh_sizes)

text \<open>The headers of a written file are found, and then the sections are loaded one after the other.\<close>

definition file_bytes :: "u_encoder \<Rightarrow> ubh_shdr list \<Rightarrow> u8 list" where
  "file_bytes e hs = mhdr_bytes (of_nat (length hs)) (of_nat (12 + total_len e SEC_INFO_ARR)) @
    sections_bytes e (present e SEC_INFO_ARR) @ concat (map shdr_bytes hs)"

lemma total_present: "total_len e (present e SEC_INFO_ARR) = total_len e SEC_INFO_ARR"
  by (rule total_len_present) simp

lemma headers_loaded:
  assumes ok: "file_ok e" and ss: "headers_ok e (present e SEC_INFO_ARR) 12 ss" and st: "start_shdr e st"
  shows "\<exists>sm. load_sections (file_bytes e (ss @ st)) U_MODULE =
      foldr_res (load_section (file_bytes e (ss @ st))) ss (U_MODULE\<lparr>m_shdr_tab := ss @ st, m_sec_map := sm\<rparr>) \<and>
    map_ok (present e SEC_INFO_ARR) U_MODULE sm"
proof -
  let ?is = "present e SEC_INFO_ARR" and ?t = "total_len e SEC_INFO_ARR" and ?k = "length (ss @ st)"
  let ?h = "mhdr_bytes (of_nat ?k) (of_nat (12 + ?t))" and ?file = "file_bytes e (ss @ st)"
  have k: "?k \<le> 13" using headers_ok_length [OF ss] length_present [of e] st by (auto simp: start_shdr_def)
  have bound: "12 + ?t < 2 ^ 26" using ok by (simp add: file_ok_def)
  have uk: "unat (of_nat ?k :: u32) = ?k" using k by (intro unat_of_nat_u32) simp
  have ut: "unat (of_nat (12 + ?t) :: u32) = 12 + ?t" using bound by (intro unat_of_nat_u32) simp
  have hd: "read_mhdr ?file = Inr (of_nat ?k, of_nat (12 + ?t))"
    unfolding file_bytes_def by (rule read_mhdr_bytes) (use uk ut k bound in simp_all)
  have tab: "read_shdr_tab ?file (of_nat ?k) (of_nat (12 + ?t)) = Inr (ss @ st)"
    using read_headers [of "?h @ sections_bytes e ?is" ?t "of_nat ?k" "ss @ st" "of_nat (12 + ?t)"] uk ut total_present [of e]
    by (simp add: file_bytes_def length_mhdr_bytes length_sections_bytes)
  have nosec: "list_all (\<lambda>s. \<not> Have_sec s) st" using st by (auto simp: start_shdr_def)
  obtain sm where sm: "Set_shdr_tab (ss @ st) U_MODULE = Inr (U_MODULE\<lparr>m_shdr_tab := ss @ st, m_sec_map := sm\<rparr>)"
    "map_ok ?is U_MODULE sm" using Set_shdr_tab_ok [OF ss present_distinct nosec] by blast
  have "foldr_res (load_section buf) xs m = Inr m" if "list_all (\<lambda>s. \<not> Have_sec s) xs" for xs buf m
    using that by (induction xs) (simp_all add: load_section_def)
  from this [OF nosec] have "foldr_res (load_section ?file) (ss @ st) m = foldr_res (load_section ?file) ss m" for m
    by (cases "foldr_res (load_section ?file) ss m") (simp_all add: foldr_res_append)
  with hd tab sm show ?thesis by (auto simp: load_sections_def)
qed

lemma load_written:
  assumes fin: "Finish moved e = Inr e'" and ok: "file_ok e'" and fit: "tables_fit e'"
    and small: "list_all body_small (ue_bodies e)"
    and start: "find_start (st_raw_buf (ue_module_str e')) 0 (ue_func_tab e') = Inr start_fn"
  shows "\<exists>file m. Write_to_file moved e = Inr file \<and> load_sections file U_MODULE = Inr m \<and>
    (\<forall>i \<in> set SEC_INFO_ARR. sec_loaded (ue_bodies e) e' m (si_sec_id i)) \<and>
    (\<forall>i \<in> set SEC_INFO_ARR. sec_count e' (si_sec_id i) \<noteq> 0 \<longrightarrow>
      sec_elem_num m (si_sec_id i) = Inr (sec_count e' (si_sec_id i))) \<and>
    (\<forall>i \<in> set SEC_INFO_ARR. sec_count e' (si_sec_id i) = 0 \<longrightarrow> \<not> Contains_section m (si_sec_id i))"
proof -
  let ?is = "present e' SEC_INFO_ARR"
  have sub: "set ?is \<subseteq> set SEC_INFO_ARR" by (auto simp: present_def)
  obtain ss st where w: "Write_to_file moved e = Inr (file_bytes e' (ss @ st))"
    and ss: "headers_ok e' ?is 12 ss" and st: "start_shdr e' st"
    using Write_to_file_contents [OF fin ok start] unfolding file_bytes_def by blast
  obtain sm where ld: "load_sections (file_bytes e' (ss @ st)) U_MODULE =
      foldr_res (load_section (file_bytes e' (ss @ st))) ss (U_MODULE\<lparr>m_shdr_tab := ss @ st, m_sec_map := sm\<rparr>)"
    and sm: "map_ok ?is U_MODULE sm" using headers_loaded [OF ok ss st] by blast
  let ?m = "U_MODULE\<lparr>m_shdr_tab := ss @ st, m_sec_map := sm\<rparr>"
  have counts: "\<forall>i \<in> set SEC_INFO_ARR. sec_count e' (si_sec_id i) < 2 ^ 16" using ok by (simp add: file_ok_def)
  have elem: "sec_elem_num m (si_sec_id i) = Inr (sec_count e' (si_sec_id i))"
    if "i \<in> set ?is" "m_shdr_tab m = ss @ st" "m_sec_map m = sm" for i m
  proof -
    from that(1) obtain j where j: "j < length ?is" "i = ?is ! j" by (metis in_set_conv_nth)
    with that(1) counts sub have "sec_count e' (si_sec_id (?is ! j)) < 2 ^ 16" by blast
    from map_ok_elem_num [OF ss sm that(2,3) j(1) this] j(2) show ?thesis by simp
  qed
  have code: "sec_elem_num ?m S_CODE = Inr (length (ue_bodies e'))" if "S_CODE \<in> si_sec_id ` set ?is"
  proof -
    from that obtain i where i: "i \<in> set ?is" "si_sec_id i = S_CODE" by auto
    from elem [OF i(1), of ?m] i(2) show ?thesis by (simp add: sec_count_def)
  qed
  have drop: "drop 12 (file_bytes e' (ss @ st)) = sections_bytes e' ?is @ concat (map shdr_bytes (ss @ st))"
    by (simp add: file_bytes_def length_mhdr_bytes del: map_append concat_append)
  have bodies: "inst_encoder_Finish (ue_bodies e) = Inr (ue_bodies e')" using Finish_fields [OF fin] by blast
  then have same: "length (ue_bodies e) = length (ue_bodies e')" "Code_sec_size (ue_bodies e') = Code_sec_size (ue_bodies e)"
    using finish_bodies_length finish_bodies_size by (auto simp: inst_encoder_Finish_def)
  have bound: "12 + total_len e' SEC_INFO_ARR < 2 ^ 26" using ok by (simp add: file_ok_def)
  have "Code_sec_size (ue_bodies e) \<le> total_len e' SEC_INFO_ARR"
    using same(2) sec_len_code [of _ e'] by (auto simp: SEC_INFO_ARR_def total_len_def)
  with bound have "Code_sec_size (ue_bodies e) < 2 ^ 32" "12 + total_len e' ?is < 2 ^ 32"
    using total_present [of e'] by simp_all
  then obtain m where m: "foldr_res (load_section (file_bytes e' (ss @ st))) ss ?m = Inr m" "m_shdr_tab m = ss @ st"
    "m_sec_map m = sm" "\<forall>i \<in> set ?is. sec_loaded (ue_bodies e) e' m (si_sec_id i)"
    "\<forall>sid. sid \<notin> si_sec_id ` set ?is \<longrightarrow> sec_loaded (ue_bodies e) e' m sid = sec_loaded (ue_bodies e) e' ?m sid"
    using load_all [OF ss sub present_distinct drop _ counts fit code bodies small] by auto
  have "sec_loaded (ue_bodies e) e' m (si_sec_id i)" if i: "i \<in> set SEC_INFO_ARR" for i
  proof (cases "sec_count e' (si_sec_id i) = 0")
    case True
    then have "si_sec_id i \<notin> si_sec_id ` set ?is" by (auto simp: present_def)
    with m(5) absent_loaded [OF i True same(1)] show ?thesis by simp
  next
    case False
    with i m(4) show ?thesis by (auto simp: present_def)
  qed
  moreover have "sec_elem_num m (si_sec_id i) = Inr (sec_count e' (si_sec_id i))"
    if "i \<in> set SEC_INFO_ARR" "sec_count e' (si_sec_id i) \<noteq> 0" for i
    using that m(2,3) by (intro elem) (auto simp: present_def)
  moreover have "\<not> Contains_section m (si_sec_id i)" if "sec_count e' (si_sec_id i) = 0" for i
  proof -
    have "si_sec_id i \<notin> si_sec_id ` set ?is" using that by (auto simp: present_def)
    with sm m(3) show ?thesis by (simp add: map_ok_def Contains_section_def U_MODULE_def)
  qed
  ultimately show ?thesis using w ld m(1) by auto
qed

subsection \<open>Decoding the types of a loaded module\<close>

lemma no_section: "\<not> Contains_section m sid \<Longrightarrow> sec_elem_num m sid = Inl Assertion"
  by (simp add: Contains_section_def sec_elem_num_def Get_shdr_by_sec_id_def Get_shdr_idx_def)

lemma Decode_fails:
  assumes "\<not> Contains_section m S_TYPE \<or> \<not> Contains_section m S_FUNC" and "Contains_section m S_TYPE \<longrightarrow> sec_elem_num m S_TYPE = Inr n"
  shows "Decode_type_and_cache m = Inl Assertion"
  using assms by (cases "Contains_section m S_TYPE") (simp_all add: Decode_type_and_cache_def no_section)

lemma Decode_loaded:
  assumes "types_added sigs (ue_type e)" and "loads_as e m" and "list_all (code_present (length (ue_bodies e))) (ue_func_tab e)"
    and "sec_elem_num m S_TYPE = Inr (length (te_type_list (ue_type e)))" "sec_elem_num m S_FUNC = Inr (length (ue_func_tab e))"
  shows "\<exists>m'. Decode_type_and_cache m = Inr m' \<and> loads_as e m' \<and> caches_ok sigs m' \<and> (\<forall>sid. sec_elem_num m' sid = sec_elem_num m sid)"
proof -
  have dec: "types_decode sigs (ue_type e)" using types_added_decode [OF assms(1)] by simp
  have ty: "m_type_sec m = te_type_list (ue_type e)" "m_func_sec m = ue_func_tab e" "length (ue_bodies e) = length (m_code_sec m)"
    using assms(2) by (auto simp: loads_as_def dest: list_all2_lengthD)
  obtain pad where "m_nn_str m = st_raw_buf (ue_nn_tab e) @ pad" using assms(2) by (auto simp: loads_as_def padded_def)
  from Decode_type_and_cache_ok [OF dec ty(1) this] assms(3-5) ty dec obtain rt rn pt pn reg shs where
    d: "Decode_type_and_cache m = Inr (m\<lparr>m_ret_tab := rt, m_ret_num_tab := rn, m_param_tab := pt, m_param_num_tab := pn,
      m_reg_num_tab := reg, m_fp_shs_tab := shs\<rparr>)"
    "caches_ok sigs (m\<lparr>m_ret_tab := rt, m_ret_num_tab := rn, m_param_tab := pt, m_param_num_tab := pn, m_reg_num_tab := reg, m_fp_shs_tab := shs\<rparr>)"
    by (auto simp: types_decode_def list_all_iff)
  show ?thesis
    by (intro exI conjI, rule d(1))
      (use d(2) assms(2) in \<open>simp_all add: loads_as_def sec_elem_num_def Get_shdr_by_sec_id_def Get_shdr_idx_def\<close>)
qed

text \<open>C16: a module written to a file is loaded as it was encoded.  Suppose every label was placed (the encoder finishes),
  function names lie in the name table, the counts fit the 16 bits the header constructor takes, the tables fit their
  bit-fields, the file stays below the 64 MB the header offset can address, the types were added by \<^verbatim>\<open>Add_type\<close> with
  at most three results each, and every function with code has a code body.  Then writing succeeds, and if the module has at least one type
  and one function, \<^verbatim>\<open>Init_module_from_buffer\<close> on the file succeeds: the loaded module has exactly the types, functions,
  imports, exports, globals, data and relocations of the encoder, its string tables padded with zeros to a multiple of 16
  bytes, its code bodies, the element count of every section that is not empty, and caches with the result and parameter types of every
  signature and the register counts of every function.  Without a type or without a function \<^verbatim>\<open>Init_module_from_buffer\<close> fails
  an assertion on the file the encoder wrote.\<close>

theorem file_roundtrip:
  assumes "Finish moved e = Inr e'" and "file_ok e'" and "tables_fit e'" and "list_all body_small (ue_bodies e)"
    and "find_start (st_raw_buf (ue_module_str e')) 0 (ue_func_tab e') = Inr start_fn"
    and "types_added sigs (ue_type e)" and "list_all (code_present (length (ue_bodies e))) (ue_func_tab e)"
  shows "\<exists>file. Write_to_file moved e = Inr file \<and>
    (if sigs = [] \<or> ue_func_tab e = [] then Init_module_from_buffer file U_MODULE = Inl Assertion
     else \<exists>m. Init_module_from_buffer file U_MODULE = Inr m \<and> loads_as e m \<and> caches_ok sigs m \<and>
       (\<forall>i \<in> set SEC_INFO_ARR. sec_count e' (si_sec_id i) \<noteq> 0 \<longrightarrow>
         sec_elem_num m (si_sec_id i) = Inr (sec_count e' (si_sec_id i))))"
proof -
  obtain bytes m where f: "Write_to_file moved e = Inr bytes" "load_sections bytes U_MODULE = Inr m"
    "\<forall>i \<in> set SEC_INFO_ARR. sec_loaded (ue_bodies e) e' m (si_sec_id i)"
    "\<forall>i \<in> set SEC_INFO_ARR. sec_count e' (si_sec_id i) \<noteq> 0 \<longrightarrow>
      sec_elem_num m (si_sec_id i) = Inr (sec_count e' (si_sec_id i))"
    "\<forall>i \<in> set SEC_INFO_ARR. sec_count e' (si_sec_id i) = 0 \<longrightarrow> \<not> Contains_section m (si_sec_id i)"
    using load_written [OF assms(1-5)] by blast
  note same = Finish_fields [OF assms(1)]
  from f(3) same have loads: "loads_as e m" by (simp add: SEC_INFO_ARR_def sec_loaded_def loads_as_def)
  have sigs: "length (te_type_list (ue_type e)) = length sigs" using types_added_decode [OF assms(6)] by (simp add: types_decode_def)
  have num: "sigs \<noteq> [] \<Longrightarrow> sec_elem_num m S_TYPE = Inr (length sigs)" "ue_func_tab e \<noteq> [] \<Longrightarrow> sec_elem_num m S_FUNC = Inr (length (ue_func_tab e))"
    using f(4) sigs by (simp_all add: SEC_INFO_ARR_def sec_count_def same)
  have absent: "sigs = [] \<Longrightarrow> \<not> Contains_section m S_TYPE" "ue_func_tab e = [] \<Longrightarrow> \<not> Contains_section m S_FUNC"
    using f(5) sigs by (simp_all add: SEC_INFO_ARR_def sec_count_def same)
  show ?thesis
  proof (cases "sigs = [] \<or> ue_func_tab e = []")
    case True
    then have "Init_module_from_buffer bytes U_MODULE = Inl Assertion"
      using Decode_fails [of m "length sigs"] absent num f(2) by (auto simp: Init_module_from_buffer_def)
    with f(1) True show ?thesis by auto
  next
    case False
    then obtain m' where "Decode_type_and_cache m = Inr m'" "loads_as e m'" "caches_ok sigs m'" "\<forall>sid. sec_elem_num m' sid = sec_elem_num m sid"
      using Decode_loaded [OF assms(6) loads assms(7)] num sigs by auto
    with f(1,2,4) False show ?thesis by (auto simp: Init_module_from_buffer_def)
  qed
qed

text \<open>A module with one function \<^verbatim>\<open>main\<close> of type \<^verbatim>\<open>(i32) -> i32\<close>, one global, four bytes of data.\<close>

definition ex_str_tab :: "u8 list \<Rightarrow> u_str_tab" where
  "ex_str_tab name = snd (Add True (c_str name) (snd (Add False [0] U_STR_TAB)))"

definition ex_file_body :: u_code_body where
  "ex_file_body = (U_CODE_BODY (8, 8, 8, 8) (2, 0, 0, 0) 16)\<lparr>cb_inst_tab := [0x14, 0x01234567, 0x04], cb_lab_tab := [0]\<rparr>"

definition ex_encoder :: u_encoder where
  "ex_encoder = U_ENCODER\<lparr>ue_type := \<lparr>te_type_list = [UBH_TYPE 1 1 0], te_nn_tab = ex_str_tab [1, 2]\<rparr>,
    ue_func_tab := [UBH_FUNC 0 1 F_EXPORT 0], ue_export_tab := [UBH_EXPORT K_FUNC 0],
    ue_glbl_tab := [Set_mutable True (Set_init_val (2 ^ 40) empty_glbl)], ue_bodies := [ex_file_body],
    ue_const_data := [1, 2, 3, 4], ue_module_str := ex_str_tab START_FUNC_NAME, ue_global_name := ex_str_tab [0x67]\<rparr>"

definition ex_finished :: u_encoder where
  "ex_finished = (case Finish (False, True, False) ex_encoder of Inr e \<Rightarrow> e | Inl err \<Rightarrow> U_ENCODER)"

lemma raw_buf_Add: "st_raw_buf (snd (Add moved buf t)) = st_raw_buf t @ buf"
  by (simp add: Add_def Let_def)

lemma raw_buf_Pad:
  "st_raw_buf (Pad moved align t) = st_raw_buf t @ (if length (st_raw_buf t) mod align = 0 then []
    else replicate (align - length (st_raw_buf t) mod align) 0)"
  by (simp add: Pad_def raw_buf_Add)

lemma ex_raw: "st_raw_buf (ex_str_tab name) = 0 # name @ [0]"
  by (simp add: ex_str_tab_def raw_buf_Add U_STR_TAB_def c_str_def)

lemma ex_Finish: "Finish (False, True, False) ex_encoder = Inr ex_finished"
proof -
  have "\<exists>e. Finish (False, True, False) ex_encoder = Inr e"
    by (simp add: Finish_def ex_encoder_def ex_file_body_def inst_encoder_Finish_def body_Finish_def
        U_CODE_BODY_def Let_def UNINIT_LABEL_IDX_def)
  then show ?thesis by (auto simp: ex_finished_def)
qed

lemmas ex_fields = Finish_fields [OF ex_Finish]

lemma ex_raw_bufs:
  "st_raw_buf (ue_module_str ex_finished) = 0 # START_FUNC_NAME @ 0 # replicate 10 0"
  "st_raw_buf (ue_global_name ex_finished) = 0 # 0x67 # 0 # replicate 13 0"
  "st_raw_buf (ue_nn_tab ex_finished) = 0 # 1 # 2 # 0 # replicate 12 0"
  unfolding Finish_tabs [OF ex_Finish]
  by (simp_all add: raw_buf_Pad ex_encoder_def ex_raw STR_TAB_ALIGN_def START_FUNC_NAME_def)

lemma ex_counts:
  "sec_count ex_finished S_FUNC = 1" "Code_sec_size (ue_bodies ex_finished) = 56"
  using finish_bodies_size [of 0 "ue_bodies ex_encoder" "ue_bodies ex_finished"] ex_fields(9)
  by (simp_all add: sec_count_def ex_fields ex_encoder_def inst_encoder_Finish_def Code_sec_size_def
      Entry_size_def SIZEOF_UBH_CODE_def ex_file_body_def)

lemma ex_bodies: "length (ue_bodies ex_finished) = 1"
  using finish_bodies_length [of 0 "ue_bodies ex_encoder" "ue_bodies ex_finished"] ex_fields(9)
  by (simp add: inst_encoder_Finish_def ex_encoder_def)

lemma ex_file_ok: "file_ok ex_finished"
  by (simp add: file_ok_def SEC_INFO_ARR_def sec_count_def sec_len_def sec_bytes_def ex_fields ex_bodies
      ex_raw_bufs length_Write_to_buf ex_counts [unfolded sec_count_def] ex_encoder_def U_ENCODER_def Let_def
      type_codec.length_encs export_codec.length_encs func_codec.length_encs glbl_codec.length_encs
      word_codec.length_encs type_codec.length_enc export_codec.length_enc func_codec.length_enc
      glbl_codec.length_enc ubh_sizes START_FUNC_NAME_def padded_def ex_raw STR_TAB_ALIGN_def)

lemma ex_tables_fit: "tables_fit ex_finished"
  by (simp add: tables_fit_def ex_fields ex_encoder_def U_ENCODER_def Let_def type_fits_def export_fits_def
      glbl_fits_def UBH_TYPE_def UBH_EXPORT_def empty_glbl_def Set_mutable_def Set_init_val_def K_FUNC_def)

lemma ex_start_func: "find_start (st_raw_buf (ue_module_str ex_finished)) 0 (ue_func_tab ex_finished) = Inr (Some 0)"
  by (simp add: ex_raw_bufs ex_fields ex_encoder_def UBH_FUNC_def START_FUNC_NAME_def)

lemma ex_body_small: "list_all body_small (ue_bodies ex_encoder)"
  using UBH_CODE_fits [of "(8, 8, 8, 8)" "(2, 0, 0, 0)" 16]
  by (simp add: ex_encoder_def ex_file_body_def body_small_def U_CODE_BODY_def)

text \<open>The type of the example is the one \<^verbatim>\<open>Add_type\<close> adds for \<^verbatim>\<open>(i32) -> i32\<close>.\<close>

lemma ex_types_added: "types_added [([I32], [I32])] (ue_type ex_encoder)"
proof -
  let ?te = "\<lparr>te_type_list = [], te_nn_tab = ex_str_tab [1, 2]\<rparr>"
  have "has_room [0] U_STR_TAB" by (simp add: has_room_def U_STR_TAB_def)
  then have one: "str_tab_ok (snd (Add False [0] U_STR_TAB))" by (rule Add_ok [OF str_tab_ok_empty])
  have "has_room (c_str [1, 2]) (snd (Add False [0] U_STR_TAB))" by (simp add: has_room_def Add_def U_STR_TAB_def Let_def c_str_def)
  with one have "str_tab_ok (ex_str_tab [1, 2])" unfolding ex_str_tab_def by (rule Add_ok)
  then have "types_added [] ?te" by (auto intro: types_added.start)
  moreover have "Suc (length (st_entry_vec (ex_str_tab [1, 2]))) < 2 ^ 32" by (simp add: ex_str_tab_def Add_def U_STR_TAB_def Let_def c_str_def)
  moreover have "Add_type False [I32] [I32] ?te = Inr (0, ue_type ex_encoder)"
    by (simp add: Add_type_def U_TYPE_ENCODER_Add_type_def Type_to_number_def put_valty_def type_index_def type_const_defs valtype_num_def
        ex_encoder_def Let_def)
  ultimately show ?thesis using types_added.type [of "[]" ?te "[I32]" "[I32]" False 0 "ue_type ex_encoder"] by (simp add: ex_raw)
qed

theorem file_roundtrip_witness:
  "\<exists>file m. Write_to_file (False, True, False) ex_encoder = Inr file \<and> Init_module_from_buffer file U_MODULE = Inr m \<and>
    m_data_sec m = [1, 2, 3, 4] \<and> m_func_sec m = [UBH_FUNC 0 1 F_EXPORT 0] \<and> sec_elem_num m S_FUNC = Inr 1 \<and> m_ret_tab m = [[0]]"
proof -
  have code: "list_all (code_present (length (ue_bodies ex_encoder))) (ue_func_tab ex_encoder)"
    by (simp add: ex_encoder_def code_present_def UBH_FUNC_def)
  have "ue_func_tab ex_encoder \<noteq> []" by (simp add: ex_encoder_def)
  then obtain f m where m: "Write_to_file (False, True, False) ex_encoder = Inr f" "Init_module_from_buffer f U_MODULE = Inr m"
    "loads_as ex_encoder m" "caches_ok [([I32], [I32])] m" and counts: "\<forall>i \<in> set SEC_INFO_ARR. sec_count ex_finished (si_sec_id i) \<noteq> 0 \<longrightarrow>
      sec_elem_num m (si_sec_id i) = Inr (sec_count ex_finished (si_sec_id i))"
    using file_roundtrip [OF ex_Finish ex_file_ok ex_tables_fit ex_body_small ex_start_func ex_types_added code] by auto
  from counts have "sec_elem_num m S_FUNC = Inr 1" by (simp add: SEC_INFO_ARR_def ex_counts)
  moreover from m(3,4) have "m_data_sec m = [1, 2, 3, 4]" "m_func_sec m = [UBH_FUNC 0 1 F_EXPORT 0]" "m_ret_tab m = [[0]]"
    by (simp_all add: loads_as_def ex_encoder_def caches_ok_def valtype_num_def)
  ultimately show ?thesis using m(1,2) by blast
qed

end
