(* ===== verification/U_Leb128.thy ===== *)
theory U_Leb128
  imports Prelude
begin

text \<open>
  The LEB128 codecs of \<^verbatim>\<open>src/wasm/u_leb128.h\<close>: the encoders to a stream or a buffer, with their
  padding, and the decoders with their optional end pointer and error message.  A buffer is a list of
  bytes and a pointer an index into it.  The padding loops write at most \<^verbatim>\<open>PadTo\<close> bytes.
\<close>

section \<open>Encoders\<close>

text \<open>The loop of the unsigned encoders: the bytes written and the final count.\<close>

lemma unat_drop_7: "drop_bit 7 (v::u64) \<noteq> 0 \<Longrightarrow> unat (drop_bit 7 v) < unat v"
  by (cases "v = 0") (auto simp: drop_bit_eq_div unat_div unat_gt_0)

function uleb_loop :: "u64 \<Rightarrow> nat \<Rightarrow> nat \<Rightarrow> u8 list \<times> nat" where
  "uleb_loop Value Count PadTo =
    (let Byte = ucast Value AND 0x7f;
         Value = drop_bit 7 Value;
         Count = Count + 1;
         Byte = (if Value \<noteq> 0 \<or> Count < PadTo then Byte OR 0x80 else Byte)
     in if Value \<noteq> 0
        then let (bs, c) = uleb_loop Value Count PadTo in (Byte # bs, c)
        else ([Byte], Count))"
  by pat_completeness auto
termination
  by (relation "measure (\<lambda>(v, c, p). unat v)") (auto intro: unat_drop_7)

declare uleb_loop.simps [simp del]

text \<open>All bytes of an unsigned encoding: the loop, then the padding.\<close>

definition uleb_bytes :: "u64 \<Rightarrow> u32 \<Rightarrow> u8 list" where
  "uleb_bytes Value PadTo =
    (let (bs, Count) = uleb_loop Value 0 (unat PadTo) in
     if Count < unat PadTo then bs @ replicate (unat PadTo - 1 - Count) 0x80 @ [0] else bs)"

text \<open>The loop of the signed encoders; the last component is the shifted value left over.\<close>

definition sleb_more :: "u64 \<Rightarrow> u8 \<Rightarrow> bool" where
  "sleb_more Value Byte =
    (\<not> ((Value = 0 \<and> (Byte AND 0x40) = 0) \<or> (Value = -1 \<and> (Byte AND 0x40) \<noteq> 0)))"

lemma sint_drop_7:
  assumes "sleb_more (signed_drop_bit 7 v) (ucast v AND 0x7f)"
  shows "nat \<bar>sint (signed_drop_bit 7 v)\<bar> < nat \<bar>sint (v::u64)\<bar>"
proof -
  have "(ucast (- 1 :: u64) :: u8) = - 1" by (rule bit_word_eqI) (simp add: bit_simps)
  then have "v \<noteq> 0" "v \<noteq> - 1" using assms by (auto simp: sleb_more_def)
  then have "sint v \<noteq> 0" "sint v \<noteq> - 1" by (metis signed_0 signed_minus_1 signed_word_eqI)+
  moreover have "sint (signed_drop_bit 7 v) = sint v div 128"
    by (simp add: sint_signed_drop_bit_eq drop_bit_eq_div)
  moreover have "\<bar>x div 128\<bar> < \<bar>x\<bar>" if "x \<noteq> 0" "x \<noteq> - 1" for x :: int
  proof -
    have "128 * (x div 128) \<le> x" "x < 128 * (x div 128) + 128" by simp_all
    with that show ?thesis by linarith
  qed
  ultimately show ?thesis by auto
qed

function sleb_loop :: "u64 \<Rightarrow> nat \<Rightarrow> nat \<Rightarrow> u8 list \<times> nat \<times> u64" where
  "sleb_loop Value Count PadTo =
    (let Byte = ucast Value AND 0x7f;
         Value = signed_drop_bit 7 Value;
         More = sleb_more Value Byte;
         Count = Count + 1;
         Byte = (if More \<or> Count < PadTo then Byte OR 0x80 else Byte)
     in if More
        then let (bs, c, v) = sleb_loop Value Count PadTo in (Byte # bs, c, v)
        else ([Byte], Count, Value))"
  by pat_completeness auto
termination
  by (relation "measure (\<lambda>(v, c, p). nat \<bar>sint v\<bar>)") (auto dest: sint_drop_7)

declare sleb_loop.simps [simp del]

definition sleb_bytes :: "u64 \<Rightarrow> u32 \<Rightarrow> u8 list" where
  "sleb_bytes Value PadTo =
    (let (bs, Count, Value) = sleb_loop Value 0 (unat PadTo) in
     if Count < unat PadTo
     then let PadValue = (if sint Value < 0 then 0x7f else 0) in
       bs @ replicate (unat PadTo - 1 - Count) (PadValue OR 0x80) @ [PadValue]
     else bs)"

text \<open>To a stream: the stream extended and the returned length.\<close>

definition encodeULEB128 :: "u64 \<Rightarrow> u8 list \<Rightarrow> u32 \<Rightarrow> nat \<times> u8 list" where
  "encodeULEB128 Value OS PadTo = (let bs = uleb_bytes Value PadTo in (length bs, OS @ bs))"

definition encodeSLEB128 :: "u64 \<Rightarrow> u8 list \<Rightarrow> u32 \<Rightarrow> nat \<times> u8 list" where
  "encodeSLEB128 Value OS PadTo = (let bs = sleb_bytes Value PadTo in (length bs, OS @ bs))"

text \<open>To a buffer, from the position \<open>p\<close> on.\<close>

definition encodeULEB128_buf :: "u64 \<Rightarrow> u8 list \<Rightarrow> nat \<Rightarrow> u32 \<Rightarrow> (nat \<times> u8 list) res" where
  "encodeULEB128_buf Value buf p PadTo =
    (let bs = uleb_bytes Value PadTo in bindr (arr_copy buf p bs) (\<lambda>buf. Inr (length bs, buf)))"

definition encodeSLEB128_buf :: "u64 \<Rightarrow> u8 list \<Rightarrow> nat \<Rightarrow> u32 \<Rightarrow> (nat \<times> u8 list) res" where
  "encodeSLEB128_buf Value buf p PadTo =
    (let bs = sleb_bytes Value PadTo in bindr (arr_copy buf p bs) (\<lambda>buf. Inr (length bs, buf)))"

section \<open>Decoders\<close>

datatype leb_error = Extends_past_end | Too_big

text \<open>
  The result is the value, the number of bytes passed and the error message.  A shift by 64 or more
  places is undefined: it is reached with a zero slice (unsigned) or with a slice that extends the
  sign (signed).
\<close>

type_synonym leb_result = "u64 \<times> nat \<times> leb_error option"

function uleb_dec :: "u8 list \<Rightarrow> nat option \<Rightarrow> nat \<Rightarrow> nat \<Rightarrow> u64 \<Rightarrow> nat \<Rightarrow> leb_result res" where
  "uleb_dec buf end orig_p p Value Shift =
    (if end = Some p then Inr (0, p - orig_p, Some Extends_past_end)
     else bindr (arr_at buf p) (\<lambda>Byte.
       let Slice = ucast (Byte AND 0x7f) :: u64 in
       if 64 \<le> Shift \<and> Slice \<noteq> 0 then Inr (0, p - orig_p, Some Too_big)
       else if 64 \<le> Shift then Inl Shift_undefined
       else if drop_bit Shift (push_bit Shift Slice) \<noteq> Slice then Inr (0, p - orig_p, Some Too_big)
       else let Value = Value + push_bit Shift Slice in
         if Byte \<ge> 128 then uleb_dec buf end orig_p (p + 1) Value (Shift + 7)
         else Inr (Value, p + 1 - orig_p, None)))"
  by pat_completeness auto
termination
  by (relation "measure (\<lambda>(buf, end, orig_p, p, v, s). length buf - p)") auto

declare uleb_dec.simps [simp del]

definition decodeULEB128 :: "u8 list \<Rightarrow> nat \<Rightarrow> nat option \<Rightarrow> leb_result res" where
  "decodeULEB128 buf p end = uleb_dec buf end p p 0 0"

function sleb_dec :: "u8 list \<Rightarrow> nat option \<Rightarrow> nat \<Rightarrow> nat \<Rightarrow> u64 \<Rightarrow> nat \<Rightarrow> leb_result res" where
  "sleb_dec buf end orig_p p Value Shift =
    (if end = Some p then Inr (0, p - orig_p, Some Extends_past_end)
     else bindr (arr_at buf p) (\<lambda>Byte.
       let Slice = ucast (Byte AND 0x7f) :: u64 in
       if 64 \<le> Shift \<and> Slice \<noteq> (if sint Value < 0 then 0x7f else 0) \<or>
          Shift = 63 \<and> Slice \<noteq> 0 \<and> Slice \<noteq> 0x7f
       then Inr (0, p - orig_p, Some Too_big)
       else if 64 \<le> Shift then Inl Shift_undefined
       else let Value = Value OR push_bit Shift Slice; Shift = Shift + 7 in
         if Byte \<ge> 128 then sleb_dec buf end orig_p (p + 1) Value Shift
         else Inr (if Shift < 64 \<and> (Byte AND 0x40) \<noteq> 0 then Value OR push_bit Shift (- 1) else Value,
                   p + 1 - orig_p, None)))"
  by pat_completeness auto
termination
  by (relation "measure (\<lambda>(buf, end, orig_p, p, v, s). length buf - p)") auto

declare sleb_dec.simps [simp del]

definition decodeSLEB128 :: "u8 list \<Rightarrow> nat \<Rightarrow> nat option \<Rightarrow> leb_result res" where
  "decodeSLEB128 buf p end = sleb_dec buf end p p 0 0"

section \<open>Round trips\<close>

text \<open>A slice read back: seven bits and the continuation bit.\<close>

lemma leb_masks:
  "bit (0x7f::u8) n \<longleftrightarrow> n < 7" "bit (0x80::u8) n \<longleftrightarrow> n = 7" "bit (0x40::u8) n \<longleftrightarrow> n = 6"
proof -
  have m: "(0x7f::u8) = mask 7" "(0x80::u8) = 2 ^ 7" "(0x40::u8) = 2 ^ 6" by (simp_all add: mask_eq_exp_minus_1)
  show "bit (0x7f::u8) n \<longleftrightarrow> n < 7" "bit (0x80::u8) n \<longleftrightarrow> n = 7" "bit (0x40::u8) n \<longleftrightarrow> n = 6"
    unfolding m bit_mask_iff bit_exp_iff possible_bit_word by auto
qed

lemma leb_continues: "(128::u8) \<le> b \<longleftrightarrow> bit b 7"
proof -
  have less: "unat b < 256" using unsigned_less [of b] by simp
  have "bit b 7 \<longleftrightarrow> bit (unat b) 7" by (simp add: bit_unsigned_iff)
  also have "\<dots> \<longleftrightarrow> odd (unat b div 128)" by (simp add: bit_iff_odd)
  also have "\<dots> \<longleftrightarrow> 128 \<le> unat b"
  proof (cases "128 \<le> unat b")
    case True
    then have "unat b div 128 = 1" using less by (intro div_nat_eqI) simp_all
    then show ?thesis using True by simp
  qed simp
  finally show ?thesis by (simp add: word_le_nat_alt)
qed

lemma leb_byte:
  fixes v :: u64
  shows "ucast ((ucast v AND 0x7f :: u8) AND 0x7f) = take_bit 7 v"
    "ucast (((ucast v AND 0x7f) OR 0x80 :: u8) AND 0x7f) = take_bit 7 v"
    "\<not> (128::u8) \<le> ucast v AND 0x7f" "(128::u8) \<le> (ucast v AND 0x7f) OR 0x80"
    "((ucast v AND 0x7f) AND 0x40 :: u8) \<noteq> 0 \<longleftrightarrow> bit v 6"
proof -
  show "ucast ((ucast v AND 0x7f :: u8) AND 0x7f) = take_bit 7 v"
    "ucast (((ucast v AND 0x7f) OR 0x80 :: u8) AND 0x7f) = take_bit 7 v"
    by (rule bit_word_eqI, simp only: bit_and_iff bit_or_iff bit_ucast_iff bit_take_bit_iff leb_masks, auto)+
  show "((ucast v AND 0x7f) AND 0x40 :: u8) \<noteq> 0 \<longleftrightarrow> bit v 6"
    by (simp only: bit_eq_iff [where ?'a = u8] bit_and_iff bit_ucast_iff leb_masks) auto
qed (simp_all only: leb_continues bit_and_iff bit_or_iff bit_ucast_iff leb_masks, auto)

lemma take_bit_slice:
  fixes V :: u64
  shows "take_bit s V + push_bit s (take_bit 7 (drop_bit s V)) = take_bit (s + 7) V"
    "drop_bit s (push_bit s (take_bit 7 (drop_bit s V))) = take_bit 7 (drop_bit s V)"
    "take_bit s V OR push_bit s (take_bit 7 (signed_drop_bit s V)) = take_bit (s + 7) V"
proof -
  have "take_bit s V AND push_bit s (take_bit 7 (drop_bit s V)) = 0"
    by (rule bit_word_eqI) (auto simp: bit_simps)
  then have "take_bit s V + push_bit s (take_bit 7 (drop_bit s V)) = take_bit s V OR push_bit s (take_bit 7 (drop_bit s V))"
    by (simp add: disjunctive_add_eq_or)
  also have "\<dots> = take_bit (s + 7) V" by (rule bit_word_eqI) (auto simp: bit_simps)
  finally show "take_bit s V + push_bit s (take_bit 7 (drop_bit s V)) = take_bit (s + 7) V" .
  show "drop_bit s (push_bit s (take_bit 7 (drop_bit s V))) = take_bit 7 (drop_bit s V)"
    by (rule bit_word_eqI) (auto simp: bit_simps dest: bit_imp_le_length)
  show "take_bit s V OR push_bit s (take_bit 7 (signed_drop_bit s V)) = take_bit (s + 7) V"
    by (rule bit_word_eqI) (auto simp: bit_simps)
qed

lemma uleb_loop_last:
  "drop_bit 7 v = 0 \<Longrightarrow> uleb_loop v c pad = ([if c + 1 < pad then (ucast v AND 0x7f) OR 0x80 else ucast v AND 0x7f], c + 1)"
  by (subst uleb_loop.simps) (simp add: Let_def)

lemma uleb_loop_more:
  "drop_bit 7 v \<noteq> 0 \<Longrightarrow> uleb_loop v c pad =
    (((ucast v AND 0x7f) OR 0x80) # fst (uleb_loop (drop_bit 7 v) (c + 1) pad), snd (uleb_loop (drop_bit 7 v) (c + 1) pad))"
  by (subst uleb_loop.simps) (simp add: Let_def split: prod.splits)

lemma uleb_dec_step:
  assumes "s < 64" and "end \<noteq> Some p" and "p < length buf" and "ucast (buf ! p AND 0x7f) = take_bit 7 (drop_bit s V)"
  shows "uleb_dec buf end orig p (take_bit s V) s =
    (if 128 \<le> buf ! p then uleb_dec buf end orig (p + 1) (take_bit (s + 7) V) (s + 7)
     else Inr (take_bit (s + 7) V, p + 1 - orig, None))"
  using assms by (subst uleb_dec.simps) (simp add: arr_at_def Let_def take_bit_slice)

lemma take_bit_all: "drop_bit n (V::u64) = 0 \<Longrightarrow> take_bit n V = V"
  by (metis bits_ident add_0 push_bit_of_0)

lemma drop_bit_u64_zero: "64 \<le> n \<Longrightarrow> drop_bit n (V::u64) = 0"
  by (rule bit_word_eqI) (simp add: bit_simps)

lemma uleb_dec_loop:
  assumes "uleb_loop v c pad = (bs, c')" and "v = drop_bit s V" and "s = 0 \<or> v \<noteq> 0"
    and "p = length pre" and "\<forall>e. end = Some e \<longrightarrow> length pre + length bs \<le> e"
  shows "c' = c + length bs \<and> uleb_dec (pre @ bs @ post) end orig p (take_bit s V) s =
    (if c' < pad then uleb_dec (pre @ bs @ post) end orig (p + length bs) V (s + 7 * length bs)
     else Inr (V, p + length bs - orig, None))"
  using assms
proof (induction "unat v" arbitrary: v c bs c' s pre p rule: less_induct)
  case less
  let ?b = "ucast v AND 0x7f :: u8" and ?v = "drop_bit 7 v"
  have s: "s < 64" using less.prems(2,3) drop_bit_u64_zero [of s V] by (cases "s < 64") auto
  have v': "?v = drop_bit (s + 7) V" using less.prems(2) by (simp add: add.commute)
  have e: "end \<noteq> Some p"
    using less.prems(1,4,5) by (cases "?v = 0") (auto simp: uleb_loop_last uleb_loop_more)
  show ?case
  proof (cases "?v = 0")
    case True
    let ?B = "if c + 1 < pad then ?b OR 0x80 else ?b"
    have bs: "bs = [?B]" "c' = c + 1" using less.prems(1) True by (auto simp: uleb_loop_last)
    have V: "take_bit (s + 7) V = V" using True v' by (simp add: take_bit_all)
    have "ucast (?B AND 0x7f) = take_bit 7 (drop_bit s V)" "128 \<le> ?B \<longleftrightarrow> c + 1 < pad"
      using leb_byte [of v] less.prems(2) by simp_all
    with uleb_dec_step [of s "end" p "pre @ bs @ post" V orig] s e less.prems(4) bs V show ?thesis
      by (simp split: if_splits)
  next
    case False
    obtain bs1 c1 where r: "uleb_loop ?v (c + 1) pad = (bs1, c1)" by fastforce
    with less.prems(1) False have bs: "bs = (?b OR 0x80) # bs1" "c' = c1" by (simp_all add: uleb_loop_more)
    from False have "unat ?v < unat v" by (rule unat_drop_7)
    note IH = less.hyps [OF this r v' disjI2 [OF False], of "p + 1" "pre @ [?b OR 0x80]"]
    have "uleb_dec (pre @ bs @ post) end orig p (take_bit s V) s =
        uleb_dec (pre @ bs @ post) end orig (p + 1) (take_bit (s + 7) V) (s + 7)"
      using uleb_dec_step [of s "end" p "pre @ bs @ post" V orig] leb_byte [of v] s e less.prems(2,4) bs
      by simp
    with IH less.prems(4,5) bs show ?thesis by (simp add: ac_simps split: if_splits)
  qed
qed

lemma take_bit_more:
  assumes "take_bit s (V::u64) = V"
  shows "take_bit (s + 7) V = V" "drop_bit s V = 0"
proof -
  have "drop_bit s (take_bit s V) = 0" "take_bit (s + 7) (take_bit s V) = take_bit s V"
    by (simp_all add: drop_bit_take_bit)
  with assms show "take_bit (s + 7) V = V" "drop_bit s V = 0" by simp_all
qed

lemma uleb_dec_pad:
  assumes "s + 7 * n < 64" and "p = length pre" and "\<forall>e. end = Some e \<longrightarrow> p + n + 1 \<le> e"
    and "take_bit s V = V"
  shows "uleb_dec (pre @ replicate n 0x80 @ 0 # post) end orig p V s = Inr (V, p + n + 1 - orig, None)"
  using assms
proof (induction n arbitrary: s pre p)
  case 0
  then have "end \<noteq> Some p" by auto
  with uleb_dec_step [of s "end" p "pre @ 0 # post" V orig] 0 take_bit_more [OF 0(4)] show ?case
    by simp
next
  case (Suc n)
  then have e: "end \<noteq> Some p" by auto
  have "uleb_dec ((pre @ [0x80]) @ replicate n 0x80 @ 0 # post) end orig (p + 1) V (s + 7) = Inr (V, p + 1 + n + 1 - orig, None)"
    by (rule Suc.IH) (use Suc.prems take_bit_more [OF Suc.prems(4)] in auto)
  with uleb_dec_step [of s "end" p "pre @ replicate (Suc n) 0x80 @ 0 # post" V orig] Suc.prems e
    take_bit_more [OF Suc.prems(4)] show ?case
    by simp
qed

lemma uleb_loop_short: "uleb_loop v c pad = (bs, c') \<Longrightarrow> v = drop_bit (7 * c) V \<Longrightarrow> c' < pad \<Longrightarrow> drop_bit (7 * c') V = 0"
proof (induction "unat v" arbitrary: v c bs c' rule: less_induct)
  case less
  have v': "drop_bit 7 v = drop_bit (7 * (c + 1)) V" using less.prems(2) by (simp add: add.commute)
  show ?case
  proof (cases "drop_bit 7 v = 0")
    case True
    with less.prems(1) v' show ?thesis by (auto simp: uleb_loop_last)
  next
    case False
    then have "unat (drop_bit 7 v) < unat v" by (rule unat_drop_7)
    from less.hyps [OF this _ v'] less.prems(1,3) False show ?thesis by (auto simp: uleb_loop_more prod_eq_iff)
  qed
qed

lemma uleb_dec_overlong:
  assumes "64 \<le> s + 7 * n" and "p = length pre" and "\<forall>e. end = Some e \<longrightarrow> p + n + 1 \<le> e"
    and "take_bit s V = V"
  shows "uleb_dec (pre @ replicate n 0x80 @ 0 # post) end orig p V s = Inl Shift_undefined"
  using assms
proof (induction n arbitrary: s pre p)
  case 0
  then have "end \<noteq> Some p" by auto
  with 0 show ?case by (subst uleb_dec.simps) (simp add: arr_at_def Let_def)
next
  case (Suc n)
  then have e: "end \<noteq> Some p" by auto
  show ?case
  proof (cases "s < 64")
    case False
    with Suc.prems e show ?thesis by (subst uleb_dec.simps) (simp add: arr_at_def Let_def)
  next
    case True
    have "uleb_dec ((pre @ [0x80]) @ replicate n 0x80 @ 0 # post) end orig (p + 1) V (s + 7) = Inl Shift_undefined"
      by (rule Suc.IH) (use Suc.prems take_bit_more [OF Suc.prems(4)] in auto)
    with uleb_dec_step [of s "end" p "pre @ replicate (Suc n) 0x80 @ 0 # post" V orig] Suc.prems(2,3,4) e True
      take_bit_more [OF Suc.prems(4)] show ?thesis
      by simp
  qed
qed

lemma uleb_bytes_split:
  obtains (exact) bs c where "uleb_loop V 0 (unat PadTo) = (bs, c)" "\<not> c < unat PadTo" "uleb_bytes V PadTo = bs"
  | (padded) bs c n where "uleb_loop V 0 (unat PadTo) = (bs, c)" "c < unat PadTo" "n = unat PadTo - 1 - c"
    "uleb_bytes V PadTo = bs @ replicate n 0x80 @ [0]"
  by (cases "uleb_loop V 0 (unat PadTo)"; cases "snd (uleb_loop V 0 (unat PadTo)) < unat PadTo")
    (auto simp: uleb_bytes_def)

text \<open>The decoder on a padded encoding, up to the padding.\<close>

lemma uleb_dec_padded:
  assumes l: "uleb_loop V 0 pad = (bs, c)" and "c < pad"
    and "\<forall>e. end = Some e \<longrightarrow> length pre + length bs \<le> e"
  shows "c = length bs" "take_bit (7 * length bs) V = V"
    "uleb_dec (pre @ bs @ rest) end (length pre) (length pre) 0 0 =
      uleb_dec (pre @ bs @ rest) end (length pre) (length pre + length bs) V (7 * length bs)"
proof -
  show c: "c = length bs" and "uleb_dec (pre @ bs @ rest) end (length pre) (length pre) 0 0 =
      uleb_dec (pre @ bs @ rest) end (length pre) (length pre + length bs) V (7 * length bs)"
    using uleb_dec_loop [OF l, of 0 V "length pre" pre "end" rest "length pre"] assms(2,3) by simp_all
  have "drop_bit (7 * c) V = 0" using uleb_loop_short [OF l, of V] assms(2) by simp
  with c show "take_bit (7 * length bs) V = V" by (simp add: take_bit_all)
qed

lemma decode_encode_uleb:
  assumes "PadTo \<le> 10" and "\<forall>e. end = Some e \<longrightarrow> length pre + fst (encodeULEB128 V [] PadTo) \<le> e"
  shows "decodeULEB128 (pre @ snd (encodeULEB128 V [] PadTo) @ post) (length pre) end =
    Inr (V, fst (encodeULEB128 V [] PadTo), None)"
proof (cases rule: uleb_bytes_split [of V PadTo])
  case (exact bs c)
  with assms(2) uleb_dec_loop [OF exact(1), of 0 V "length pre" pre "end" post "length pre"] show ?thesis
    by (simp add: decodeULEB128_def encodeULEB128_def Let_def)
next
  case (padded bs c n)
  have e: "\<forall>e. end = Some e \<longrightarrow> length pre + length bs + n + 1 \<le> e"
    using assms(2) by (auto simp: encodeULEB128_def Let_def padded)
  then have e1: "\<forall>e. end = Some e \<longrightarrow> length pre + length bs \<le> e" by fastforce
  note D = uleb_dec_padded(1,2) [OF padded(1,2) e1] uleb_dec_padded(3) [OF padded(1,2) e1, of "replicate n 0x80 @ 0 # post"]
  have "unat PadTo \<le> 10" using assms(1) by (simp add: word_le_nat_alt)
  then have "7 * length bs + 7 * n < 64" using D(1) padded(2,3) by simp
  then have "uleb_dec ((pre @ bs) @ replicate n 0x80 @ 0 # post) end (length pre) (length pre + length bs) V (7 * length bs) =
      Inr (V, length pre + length bs + n + 1 - length pre, None)"
    by (intro uleb_dec_pad) (use e D(2) in auto)
  with D show ?thesis by (simp add: decodeULEB128_def encodeULEB128_def Let_def padded)
qed

text \<open>C17: an unsigned LEB128 encoding is decoded to the value encoded, and the decoder reports the number of
  bytes written, for every 64-bit value and every padding up to ten bytes, wherever the bytes lie in the buffer and
  whatever end pointer at or behind them is given.\<close>

theorem ULEB128_roundtrip:
  assumes "PadTo \<le> 10" and "\<forall>e. end = Some e \<longrightarrow> length pre + fst (encodeULEB128 V [] PadTo) \<le> e"
  shows "decodeULEB128 (pre @ snd (encodeULEB128 V [] PadTo) @ post) (length pre) end =
    Inr (V, fst (encodeULEB128 V [] PadTo), None)"
  using assms by (rule decode_encode_uleb)

theorem ULEB128_roundtrip_witness:
  "decodeULEB128 ([1] @ snd (encodeULEB128 300 [] 4) @ [2]) 1 (Some 5) = Inr (300, 4, None)"
proof -
  have "encodeULEB128 300 [] 4 = (4, [0xac, 0x82, 0x80, 0])" by code_simp
  then show ?thesis using ULEB128_roundtrip [of 4 "Some 5" "[1]" 300 "[2]"] by simp
qed

lemma uleb_loop_ten:
  "uleb_loop v c pad = (bs, c') \<Longrightarrow> v = drop_bit (7 * c) V \<Longrightarrow> c \<le> 9 \<Longrightarrow> c' \<le> 10"
proof (induction "unat v" arbitrary: v c bs c' rule: less_induct)
  case less
  have v': "drop_bit 7 v = drop_bit (7 * (c + 1)) V" using less.prems(2) by (simp add: add.commute)
  show ?case
  proof (cases "drop_bit 7 v = 0")
    case True
    with less.prems(1,3) show ?thesis by (auto simp: uleb_loop_last)
  next
    case False
    then have "\<not> 64 \<le> 7 * (c + 1)" using v' drop_bit_u64_zero by metis
    then have "c + 1 \<le> 9" by simp
    from False have "unat (drop_bit 7 v) < unat v" by (rule unat_drop_7)
    from less.hyps [OF this _ v' \<open>c + 1 \<le> 9\<close>] less.prems(1) False show ?thesis
      by (auto simp: uleb_loop_more prod_eq_iff)
  qed
qed

text \<open>Padding past ten bytes cannot be decoded: on an encoding padded to eleven bytes or more the decoder
  shifts a slice by seventy places, which C++ leaves undefined (the overflow test evaluates the shift).\<close>

lemma ULEB128_overlong_undefined:
  assumes "10 < PadTo" and "\<forall>e. end = Some e \<longrightarrow> length pre + fst (encodeULEB128 V [] PadTo) \<le> e"
  shows "decodeULEB128 (pre @ snd (encodeULEB128 V [] PadTo) @ post) (length pre) end = Inl Shift_undefined"
proof (cases rule: uleb_bytes_split [of V PadTo])
  case (exact bs c)
  then show ?thesis using uleb_loop_ten [OF exact(1), of V] assms(1) by (simp add: word_less_nat_alt)
next
  case (padded bs c n)
  have e: "\<forall>e. end = Some e \<longrightarrow> length pre + length bs + n + 1 \<le> e"
    using assms(2) by (auto simp: encodeULEB128_def Let_def padded)
  then have e1: "\<forall>e. end = Some e \<longrightarrow> length pre + length bs \<le> e" by fastforce
  note D = uleb_dec_padded(1,2) [OF padded(1,2) e1] uleb_dec_padded(3) [OF padded(1,2) e1, of "replicate n 0x80 @ 0 # post"]
  have "10 < unat PadTo" using assms(1) by (simp add: word_less_nat_alt)
  then have "64 \<le> 7 * length bs + 7 * n" using D(1) padded(2,3) by simp
  then have "uleb_dec ((pre @ bs) @ replicate n 0x80 @ 0 # post) end (length pre) (length pre + length bs) V (7 * length bs) =
      Inl Shift_undefined"
    by (intro uleb_dec_overlong) (use e D(2) in auto)
  with D show ?thesis by (simp add: decodeULEB128_def encodeULEB128_def Let_def padded)
qed


subsection \<open>Signed values\<close>

lemma sleb_loop_last:
  "\<not> sleb_more (signed_drop_bit 7 v) (ucast v AND 0x7f) \<Longrightarrow> sleb_loop v c pad =
    ([if c + 1 < pad then (ucast v AND 0x7f) OR 0x80 else ucast v AND 0x7f], c + 1, signed_drop_bit 7 v)"
  by (subst sleb_loop.simps) (simp add: Let_def)

lemma sleb_loop_more:
  "sleb_more (signed_drop_bit 7 v) (ucast v AND 0x7f) \<Longrightarrow> sleb_loop v c pad =
    (((ucast v AND 0x7f) OR 0x80) # fst (sleb_loop (signed_drop_bit 7 v) (c + 1) pad),
     snd (sleb_loop (signed_drop_bit 7 v) (c + 1) pad))"
  by (subst sleb_loop.simps) (simp add: Let_def split: prod.splits)

lemma sleb_more_iff:
  fixes v :: u64
  shows "sleb_more (signed_drop_bit 7 v) (ucast v AND 0x7f) \<longleftrightarrow>
    \<not> (signed_drop_bit 7 v = 0 \<and> \<not> bit v 6 \<or> signed_drop_bit 7 v = - 1 \<and> bit v 6)"
  using leb_byte(5) [of v] by (auto simp: sleb_more_def)

text \<open>The value of a finished encoding: the collected bits and the sign extension.\<close>

definition sleb_final :: "u64 \<Rightarrow> nat \<Rightarrow> u64 \<Rightarrow> bool \<Rightarrow> u64" where
  "sleb_final V s w sign = (if s < 64 \<and> sign then w OR push_bit s (- 1) else w)"

lemma sleb_final_value:
  assumes "signed_drop_bit s V = (if sign then - 1 else 0)"
  shows "sleb_final V s (take_bit s V) sign = V"
proof (cases "s < 64")
  case True
  have "bit V n \<longleftrightarrow> sign" if "s \<le> n" "n < 64" for n
  proof -
    have "bit (signed_drop_bit s V) (n - s) \<longleftrightarrow> bit V n" using that True by (auto simp: bit_simps)
    with assms that True show ?thesis by (auto split: if_splits)
  qed
  then show ?thesis using True
    by (intro bit_word_eqI) (auto simp: sleb_final_def bit_simps not_less, metis not_less)
qed (auto simp: sleb_final_def take_bit_word_eq_self)

lemma signed_drop_bit_63: "signed_drop_bit 63 (V::u64) = 0 \<or> signed_drop_bit 63 V = - 1"
proof -
  have "signed_drop_bit 63 V = (if bit V 63 then - 1 else 0)"
  proof (rule bit_word_eqI)
    fix n assume "n < LENGTH(64)"
    then show "bit (signed_drop_bit 63 V) n = bit (if bit V 63 then - 1 else 0 :: u64) n"
      by (cases "n = 0") (auto simp: bit_simps)
  qed
  then show ?thesis by auto
qed

lemma sleb_slice_63: "take_bit 7 (signed_drop_bit 63 (V::u64)) = 0 \<or> take_bit 7 (signed_drop_bit 63 V) = 0x7f"
  using signed_drop_bit_63 [of V] by (auto simp: take_bit_minus_one_eq_mask mask_eq_exp_minus_1)

lemma sleb_dec_step:
  assumes "s < 64" and "end \<noteq> Some p" and "p < length buf" and "ucast (buf ! p AND 0x7f) = take_bit 7 (signed_drop_bit s V)"
  shows "sleb_dec buf end orig p (take_bit s V) s =
    (if 128 \<le> buf ! p then sleb_dec buf end orig (p + 1) (take_bit (s + 7) V) (s + 7)
     else Inr (sleb_final V (s + 7) (take_bit (s + 7) V) (buf ! p AND 0x40 \<noteq> 0), p + 1 - orig, None))"
  using assms sleb_slice_63 [of V]
  by (subst sleb_dec.simps) (auto simp: arr_at_def Let_def take_bit_slice sleb_final_def)

lemma sleb_dec_loop:
  assumes "sleb_loop v c pad = (bs, c', v')" and "v = signed_drop_bit (7 * c) V" and "7 * c < 64"
    and "p = length pre" and "\<forall>e. end = Some e \<longrightarrow> length pre + length bs \<le> e"
  shows "c' = c + length bs \<and> v' = signed_drop_bit (7 * c') V \<and> (v' = 0 \<or> v' = - 1) \<and>
    sleb_dec (pre @ bs @ post) end orig p (take_bit (7 * c) V) (7 * c) =
    (if c' < pad then sleb_dec (pre @ bs @ post) end orig (p + length bs) (take_bit (7 * c') V) (7 * c')
     else Inr (V, p + length bs - orig, None))"
  using assms
proof (induction "nat \<bar>sint v\<bar>" arbitrary: v c bs c' v' pre p rule: less_induct)
  case less
  let ?b = "ucast v AND 0x7f :: u8" and ?v = "signed_drop_bit 7 v"
  have v': "?v = signed_drop_bit (7 * (c + 1)) V" using less.prems(2) by (simp add: add.commute)
  have e: "end \<noteq> Some p"
    using less.prems(1,4,5) by (cases "sleb_more ?v ?b") (auto simp: sleb_loop_last sleb_loop_more)
  show ?case
  proof (cases "sleb_more ?v ?b")
    case False
    let ?B = "if c + 1 < pad then ?b OR 0x80 else ?b"
    have bs: "bs = [?B]" "c' = c + 1" "v' = ?v" using less.prems(1) False by (auto simp: sleb_loop_last)
    have sgn: "?v = (if ?b AND 0x40 \<noteq> 0 then - 1 else 0)"
      using False sleb_more_iff [of v] leb_byte(5) [of v] by auto
    have V: "sleb_final V (7 * c + 7) (take_bit (7 * c + 7) V) (?b AND 0x40 \<noteq> 0) = V"
      by (rule sleb_final_value) (use sgn v' in \<open>simp add: ac_simps\<close>)
    have "ucast (?B AND 0x7f) = take_bit 7 (signed_drop_bit (7 * c) V)" "128 \<le> ?B \<longleftrightarrow> c + 1 < pad"
      using leb_byte [of v] less.prems(2) by simp_all
    with sleb_dec_step [of "7 * c" "end" p "pre @ bs @ post" V orig] less.prems(3,4) e bs V v' sgn show ?thesis
      by (simp add: ac_simps split: if_splits)
  next
    case True
    obtain bs1 c1 v1 where r: "sleb_loop ?v (c + 1) pad = (bs1, c1, v1)" by (metis prod.collapse)
    with less.prems(1) True have bs: "bs = (?b OR 0x80) # bs1" "c' = c1" "v' = v1" by (simp_all add: sleb_loop_more)
    have c: "7 * (c + 1) < 64"
    proof (rule ccontr)
      assume "\<not> 7 * (c + 1) < 64"
      with less.prems(3) have "c = 9" by simp
      with less.prems(2) signed_drop_bit_63 [of V] have "v = 0 \<or> v = - 1" by auto
      with True show False by (auto simp: sleb_more_iff)
    qed
    from True have "nat \<bar>sint ?v\<bar> < nat \<bar>sint v\<bar>" by (rule sint_drop_7)
    note IH = less.hyps [OF this r v' c, of "p + 1" "pre @ [?b OR 0x80]"]
    have "sleb_dec (pre @ bs @ post) end orig p (take_bit (7 * c) V) (7 * c) =
        sleb_dec (pre @ bs @ post) end orig (p + 1) (take_bit (7 * (c + 1)) V) (7 * (c + 1))"
      using sleb_dec_step [of "7 * c" "end" p "pre @ bs @ post" V orig] leb_byte [of v] less.prems(2,3,4) e bs
      by (simp add: ac_simps)
    with IH less.prems(4,5) bs show ?thesis by (auto simp: add.commute split: if_splits)
  qed
qed

lemma sleb_dec_pad:
  assumes "s + 7 * n < 64" and "p = length pre" and "\<forall>e. end = Some e \<longrightarrow> p + n + 1 \<le> e"
    and "signed_drop_bit s V = (if sign then - 1 else 0)" and "P = (if sign then 0x7f else 0)"
  shows "sleb_dec (pre @ replicate n (P OR 0x80) @ P # post) end orig p (take_bit s V) s = Inr (V, p + n + 1 - orig, None)"
  using assms
proof (induction n arbitrary: s pre p)
  case 0
  then have e: "end \<noteq> Some p" by auto
  have P: "ucast (P AND 0x7f) = take_bit 7 (signed_drop_bit s V)" "\<not> 128 \<le> P" "P AND 0x40 \<noteq> 0 \<longleftrightarrow> sign"
    using 0(4,5) by (auto simp: take_bit_minus_one_eq_mask mask_eq_exp_minus_1)
  have "signed_drop_bit (s + 7) V = signed_drop_bit 7 (signed_drop_bit s V)" by (simp add: add.commute)
  with 0(4) have "sleb_final V (s + 7) (take_bit (s + 7) V) sign = V" by (intro sleb_final_value) auto
  with sleb_dec_step [of s "end" p "pre @ P # post" V orig] 0(1,2) e P show ?case by simp
next
  case (Suc n)
  then have e: "end \<noteq> Some p" by auto
  have P: "ucast ((P OR 0x80) AND 0x7f) = take_bit 7 (signed_drop_bit s V)" "128 \<le> P OR 0x80"
    using Suc.prems(4,5) by (auto simp: take_bit_minus_one_eq_mask mask_eq_exp_minus_1)
  have "signed_drop_bit (s + 7) V = signed_drop_bit 7 (signed_drop_bit s V)" by (simp add: add.commute)
  with Suc.prems(4) have "signed_drop_bit (s + 7) V = (if sign then - 1 else 0)" by auto
  then have "sleb_dec ((pre @ [P OR 0x80]) @ replicate n (P OR 0x80) @ P # post) end orig (p + 1) (take_bit (s + 7) V) (s + 7) =
      Inr (V, p + 1 + n + 1 - orig, None)"
    by (intro Suc.IH) (use Suc.prems in auto)
  with sleb_dec_step [of s "end" p "pre @ replicate (Suc n) (P OR 0x80) @ P # post" V orig] Suc.prems(1,2) e P
  show ?case by simp
qed

lemma decode_encode_sleb:
  assumes "PadTo \<le> 10" and "\<forall>e. end = Some e \<longrightarrow> length pre + fst (encodeSLEB128 V [] PadTo) \<le> e"
  shows "decodeSLEB128 (pre @ snd (encodeSLEB128 V [] PadTo) @ post) (length pre) end =
    Inr (V, fst (encodeSLEB128 V [] PadTo), None)"
proof -
  obtain bs c v where l: "sleb_loop V 0 (unat PadTo) = (bs, c, v)" by (metis prod.collapse)
  have pad: "unat PadTo \<le> 10" using assms(1) by (simp add: word_le_nat_alt)
  show ?thesis
  proof (cases "c < unat PadTo")
    case False
    then have "sleb_bytes V PadTo = bs" by (simp add: sleb_bytes_def l)
    with assms(2) False sleb_dec_loop [OF l, of V "length pre" pre "end" post "length pre"] show ?thesis
      by (simp add: decodeSLEB128_def encodeSLEB128_def Let_def)
  next
    case True
    define n where "n = unat PadTo - 1 - c"
    define P :: u8 where "P = (if sint v < 0 then 0x7f else 0)"
    have ub: "sleb_bytes V PadTo = bs @ replicate n (P OR 0x80) @ [P]"
      using True by (simp add: sleb_bytes_def l n_def P_def Let_def)
    have e: "\<forall>e. end = Some e \<longrightarrow> length pre + length bs + n + 1 \<le> e"
      using assms(2) by (auto simp: encodeSLEB128_def Let_def ub)
    then have e1: "\<forall>e. end = Some e \<longrightarrow> length pre + length bs \<le> e" by fastforce
    note D = sleb_dec_loop [OF l, of V "length pre" pre "end" "replicate n (P OR 0x80) @ P # post" "length pre"]
    have c: "c = length bs" "signed_drop_bit (7 * c) V = (if sint v < 0 then - 1 else 0)" using D e1 by auto
    have "sleb_dec ((pre @ bs) @ replicate n (P OR 0x80) @ P # post) end (length pre) (length pre + length bs)
        (take_bit (7 * c) V) (7 * c) = Inr (V, length pre + length bs + n + 1 - length pre, None)"
      by (rule sleb_dec_pad [where sign = "sint v < 0"]) (use e c True pad in \<open>auto simp: n_def P_def\<close>)
    with D e1 True show ?thesis by (simp add: decodeSLEB128_def encodeSLEB128_def Let_def ub)
  qed
qed

text \<open>C18: a signed LEB128 encoding is decoded to the value encoded, and the decoder reports the number of bytes
  written, for every 64-bit value (as a two's complement word) and every padding up to ten bytes, wherever the bytes
  lie in the buffer and whatever end pointer at or behind them is given.\<close>

theorem SLEB128_roundtrip:
  assumes "PadTo \<le> 10" and "\<forall>e. end = Some e \<longrightarrow> length pre + fst (encodeSLEB128 V [] PadTo) \<le> e"
  shows "decodeSLEB128 (pre @ snd (encodeSLEB128 V [] PadTo) @ post) (length pre) end =
    Inr (V, fst (encodeSLEB128 V [] PadTo), None)"
  using assms by (rule decode_encode_sleb)

theorem SLEB128_roundtrip_witness:
  "decodeSLEB128 ([1] @ snd (encodeSLEB128 (- 300) [] 4) @ [2]) 1 (Some 5) = Inr (- 300, 4, None)"
proof -
  have "encodeSLEB128 (- 300) [] 4 = (4, [0xd4, 0xfd, 0xff, 0x7f])" by code_simp
  then show ?thesis using SLEB128_roundtrip [of 4 "Some 5" "[1]" "- 300" "[2]"] by simp
qed

end
