(* ===== verification/Wasm_Int.thy ===== *)
theory Wasm_Int
  imports Float_Bits
begin

text \<open>
  The reference semantics of integer operators, as the WebAssembly specification states it: an
  integer of width \<open>N\<close> is a number below \<open>2 ^ N\<close>, its signed reading is \<open>signed_N\<close>, and an operator
  is arithmetic on these numbers, undefined where the specification traps.  The lemmas relate
  the C++ operations of the handlers, on machine words, to it.
\<close>

section \<open>Operators\<close>

datatype ibinop = I_add | I_sub | I_mul | I_div_u | I_div_s | I_rem_u | I_rem_s | I_and | I_or | I_xor
  | I_shl | I_shr_u | I_shr_s

datatype irelop = R_eq | R_ne | R_lt_u | R_lt_s | R_gt_u | R_gt_s | R_le_u | R_le_s | R_ge_u | R_ge_s

definition signed_N :: "nat \<Rightarrow> int \<Rightarrow> int" where
  "signed_N N i = (if i < 2 ^ (N - 1) then i else i - 2 ^ N)"

text \<open>Division that truncates towards zero.\<close>

definition tdiv :: "int \<Rightarrow> int \<Rightarrow> int" where
  "tdiv a b = (if (a < 0) = (b < 0) then \<bar>a\<bar> div \<bar>b\<bar> else - (\<bar>a\<bar> div \<bar>b\<bar>))"

definition wasm_binop :: "nat \<Rightarrow> ibinop \<Rightarrow> int \<Rightarrow> int \<Rightarrow> int option" where
  "wasm_binop N f i j =
    (let a = signed_N N i; b = signed_N N j; k = nat (j mod int N) in
     case f of
       I_add \<Rightarrow> Some ((i + j) mod 2 ^ N)
     | I_sub \<Rightarrow> Some ((i - j) mod 2 ^ N)
     | I_mul \<Rightarrow> Some (i * j mod 2 ^ N)
     | I_div_u \<Rightarrow> if j = 0 then None else Some (i div j)
     | I_div_s \<Rightarrow> if j = 0 \<or> tdiv a b = 2 ^ (N - 1) then None else Some (tdiv a b mod 2 ^ N)
     | I_rem_u \<Rightarrow> if j = 0 then None else Some (i mod j)
     | I_rem_s \<Rightarrow> if j = 0 then None else Some ((a - b * tdiv a b) mod 2 ^ N)
     | I_and \<Rightarrow> Some (and i j)
     | I_or \<Rightarrow> Some (or i j)
     | I_xor \<Rightarrow> Some (xor i j)
     | I_shl \<Rightarrow> Some (i * 2 ^ k mod 2 ^ N)
     | I_shr_u \<Rightarrow> Some (i div 2 ^ k)
     | I_shr_s \<Rightarrow> Some (a div 2 ^ k mod 2 ^ N))"

definition wasm_relop :: "nat \<Rightarrow> irelop \<Rightarrow> int \<Rightarrow> int \<Rightarrow> bool" where
  "wasm_relop N r i j =
    (let a = signed_N N i; b = signed_N N j in
     case r of
       R_eq \<Rightarrow> i = j | R_ne \<Rightarrow> i \<noteq> j
     | R_lt_u \<Rightarrow> i < j | R_lt_s \<Rightarrow> a < b
     | R_gt_u \<Rightarrow> i > j | R_gt_s \<Rightarrow> a > b
     | R_le_u \<Rightarrow> i \<le> j | R_le_s \<Rightarrow> a \<le> b
     | R_ge_u \<Rightarrow> i \<ge> j | R_ge_s \<Rightarrow> a \<ge> b)"

section \<open>Machine words\<close>

lemma signed_N_uint: "signed_N LENGTH('w) (uint (x :: 'w::len word)) = sint x"
proof -
  obtain n where n: "LENGTH('w) = Suc n" using len_gt_0 [where 'a='w] by (cases "LENGTH('w)") auto
  have lt: "0 \<le> uint x" "uint x < 2 * 2 ^ n" using uint_lt2p [of x] by (simp_all add: n)
  have "sint x = (uint x + 2 ^ n) mod (2 * 2 ^ n) - 2 ^ n"
    by (simp add: sint_uint n signed_take_bit_eq_take_bit_shift take_bit_eq_mod)
  moreover have "(uint x + 2 ^ n) mod (2 * 2 ^ n) = (if uint x < 2 ^ n then uint x + 2 ^ n else uint x - 2 ^ n)"
    using lt mod_pos_pos_trivial [of "uint x - 2 ^ n" "2 * 2 ^ n"]
      mod_add_self2 [of "uint x - 2 ^ n" "2 * 2 ^ n"] by (auto simp: add.commute)
  ultimately show ?thesis by (simp add: signed_N_def n)
qed

lemma tdiv_sdiv: "b \<noteq> 0 \<Longrightarrow> tdiv a b = a sdiv b"
  by (auto simp: tdiv_def signed_divide_int_def sgn_if)

lemma tdiv_smod: "b \<noteq> 0 \<Longrightarrow> a - b * tdiv a b = a smod b"
  by (simp add: tdiv_sdiv minus_mult_sdiv_eq_smod)

lemma uint_word_mod: "uint (word_of_int k :: 'w::len word) = k mod 2 ^ LENGTH('w)"
  by (simp add: uint_word_of_int)

lemma uint_zero: "uint (y :: 'w::len word) = 0 \<longleftrightarrow> y = 0"
  by (simp add: unsigned_eq_0_iff)

lemma sint_zero: "sint (y :: 'w::len word) = 0 \<longleftrightarrow> y = 0"
  by (simp add: signed_eq_0_iff)

lemma sdiv_overflow:
  fixes x y :: "'w::len word"
  assumes "y \<noteq> 0"
  shows "tdiv (sint x) (sint y) = 2 ^ (LENGTH('w) - 1) \<longleftrightarrow> sint x = - (2 ^ (LENGTH('w) - 1)) \<and> sint y = - 1"
proof -
  let ?M = "2 ^ (LENGTH('w) - 1) :: int"
  have r: "- ?M \<le> sint x" "sint x < ?M" and M: "0 < ?M"
    using sint_ge [of x] sint_lt [of x] by simp_all
  have y: "sint y \<noteq> 0" using assms by (simp add: sint_zero)
  consider "sint y = 1" | "sint y = - 1" | "2 \<le> \<bar>sint y\<bar>" using y by linarith
  then show ?thesis
  proof cases
    case 3
    then have "\<bar>sint x\<bar> div \<bar>sint y\<bar> \<le> \<bar>sint x\<bar> div 2" by (intro zdiv_mono2) auto
    also have "\<dots> < ?M" using r M by linarith
    finally have "tdiv (sint x) (sint y) < ?M"
      using pos_imp_zdiv_nonneg_iff [of "\<bar>sint y\<bar>" "\<bar>sint x\<bar>"] y M by (simp add: tdiv_def)
    with 3 show ?thesis by auto
  qed (use r in \<open>auto simp: tdiv_def\<close>)
qed

text \<open>The C++ operations on words, where they are defined, compute the reference.\<close>

lemma div_s_wasm:
  fixes x y :: "'w::len word"
  shows "div_ok x y \<Longrightarrow> \<exists>v. div_s x y = Inr v \<and> wasm_binop LENGTH('w) I_div_s (uint x) (uint y) = Some (uint v)"
    and "\<not> div_ok x y \<Longrightarrow> div_s x y = Inl Div_undefined \<and> wasm_binop LENGTH('w) I_div_s (uint x) (uint y) = None"
  using sdiv_overflow [of y x]
  by (auto simp: div_s_def div_ok_def wasm_binop_def signed_N_uint tdiv_sdiv uint_word_mod Let_def
      uint_zero sint_zero)

lemma rem_s_wasm:
  fixes x y :: "'w::len word"
  assumes "div_ok x y"
  shows "\<exists>v. rem_s x y = Inr v \<and> wasm_binop LENGTH('w) I_rem_s (uint x) (uint y) = Some (uint v)"
  using assms
  by (auto simp: rem_s_def div_ok_def wasm_binop_def signed_N_uint tdiv_smod uint_word_mod Let_def
      uint_zero sint_zero)

lemma shift_wasm:
  fixes x :: "'w::len word"
  assumes "unat n < LENGTH('w)"
  shows "\<exists>v. shl x n = Inr v \<and> wasm_binop LENGTH('w) I_shl (uint x) (uint n) = Some (uint v)"
    and "\<exists>v. shr_u x n = Inr v \<and> wasm_binop LENGTH('w) I_shr_u (uint x) (uint n) = Some (uint v)"
    and "\<exists>v. shr_s x n = Inr v \<and> wasm_binop LENGTH('w) I_shr_s (uint x) (uint n) = Some (uint v)"
proof -
  have n: "nat (uint n mod int LENGTH('w)) = unat n"
    unfolding uint_nat zmod_int [symmetric] using assms by (simp del: of_nat_unat)
  show "\<exists>v. shl x n = Inr v \<and> wasm_binop LENGTH('w) I_shl (uint x) (uint n) = Some (uint v)"
    using assms
    by (simp add: shl_def wasm_binop_def Let_def n unsigned_push_bit_eq take_bit_eq_mod)
      (simp add: push_bit_eq_mult)
  show "\<exists>v. shr_u x n = Inr v \<and> wasm_binop LENGTH('w) I_shr_u (uint x) (uint n) = Some (uint v)"
    using assms
    by (simp add: shr_u_def wasm_binop_def Let_def n unsigned_drop_bit_eq)
      (simp add: drop_bit_eq_div take_bit_int_eq_self)
  have "uint (signed_drop_bit (unat n) x) = drop_bit (unat n) (sint x) mod 2 ^ LENGTH('w)"
    using uint_word_mod [where 'w='w, of "sint (signed_drop_bit (unat n) x)"]
    unfolding of_int_sint by (simp add: sint_signed_drop_bit_eq)
  with assms show "\<exists>v. shr_s x n = Inr v \<and> wasm_binop LENGTH('w) I_shr_s (uint x) (uint n) = Some (uint v)"
    by (simp add: shr_s_def wasm_binop_def Let_def n signed_N_uint drop_bit_eq_div)
qed

lemma arith_wasm:
  fixes x y :: "'w::len word"
  shows "wasm_binop LENGTH('w) I_add (uint x) (uint y) = Some (uint (x + y))"
    and "wasm_binop LENGTH('w) I_sub (uint x) (uint y) = Some (uint (x - y))"
    and "wasm_binop LENGTH('w) I_mul (uint x) (uint y) = Some (uint (x * y))"
    and "wasm_binop LENGTH('w) I_and (uint x) (uint y) = Some (uint (x AND y))"
    and "wasm_binop LENGTH('w) I_or (uint x) (uint y) = Some (uint (x OR y))"
    and "wasm_binop LENGTH('w) I_xor (uint x) (uint y) = Some (uint (x XOR y))"
  by (simp_all add: wasm_binop_def Let_def uint_word_ariths uint_and uint_or uint_xor)

lemma relop_wasm:
  fixes x y :: "'w::len word"
  shows "wasm_relop LENGTH('w) R_eq (uint x) (uint y) \<longleftrightarrow> x = y"
    and "wasm_relop LENGTH('w) R_ne (uint x) (uint y) \<longleftrightarrow> x \<noteq> y"
    and "wasm_relop LENGTH('w) R_lt_u (uint x) (uint y) \<longleftrightarrow> x < y"
    and "wasm_relop LENGTH('w) R_gt_u (uint x) (uint y) \<longleftrightarrow> x > y"
    and "wasm_relop LENGTH('w) R_le_u (uint x) (uint y) \<longleftrightarrow> x \<le> y"
    and "wasm_relop LENGTH('w) R_ge_u (uint x) (uint y) \<longleftrightarrow> x \<ge> y"
    and "wasm_relop LENGTH('w) R_lt_s (uint x) (uint y) \<longleftrightarrow> sint x < sint y"
    and "wasm_relop LENGTH('w) R_gt_s (uint x) (uint y) \<longleftrightarrow> sint x > sint y"
    and "wasm_relop LENGTH('w) R_le_s (uint x) (uint y) \<longleftrightarrow> sint x \<le> sint y"
    and "wasm_relop LENGTH('w) R_ge_s (uint x) (uint y) \<longleftrightarrow> sint x \<ge> sint y"
  by (simp_all add: wasm_relop_def Let_def signed_N_uint word_uint_eq_iff word_less_def word_le_def)

end
