(* ===== verification/Alu_Props.thy ===== *)
theory Alu_Props
  imports Wasm_Int Example
begin

text \<open>
  What the integer instructions compute, against the reference of \<open>Wasm_Int\<close>: one interpreter
  step on an arithmetic, comparison or conditional-jump opcode, through the dispatch table, the
  register files and the program counter.
\<close>

section \<open>Integer registers as numbers\<close>

datatype int_ty = T_i32 | T_i64

definition ty_num :: "int_ty \<Rightarrow> u32" where
  "ty_num ty = (case ty of T_i32 \<Rightarrow> 0 | T_i64 \<Rightarrow> 1)"

definition width :: "int_ty \<Rightarrow> nat" where
  "width ty = (case ty of T_i32 \<Rightarrow> 32 | T_i64 \<Rightarrow> 64)"

definition reg_val :: "uwasm_machine \<Rightarrow> int_ty \<Rightarrow> u32 \<Rightarrow> int res" where
  "reg_val m ty i = (case ty of
      T_i32 \<Rightarrow> bindr (i32_get m i) (\<lambda>x. Inr (uint x))
    | T_i64 \<Rightarrow> bindr (i64_get m i) (\<lambda>x. Inr (uint x)))"

text \<open>Everything but the integer registers and the program counter.\<close>

definition rest :: "uwasm_machine \<Rightarrow> uwasm_machine" where
  "rest m = m\<lparr>reg_i32 := REGISTER (\<lambda>i. 0), reg_i64 := REGISTER (\<lambda>i. 0), current := (current m)\<lparr>x_pc := None\<rparr>\<rparr>"

definition writes :: "int_ty \<Rightarrow> u32 \<Rightarrow> int \<Rightarrow> uwasm_machine \<Rightarrow> uwasm_machine \<Rightarrow> bool" where
  "writes ty dst v m m' \<longleftrightarrow>
    (\<forall>t i. reg_val m' t i = (if t = ty \<and> i = dst then Inr v else reg_val m t i)) \<and> rest m' = rest m \<and>
    x_pc (current m') = map_option Suc (x_pc (current m))"

definition fetches :: "uwasm_machine \<Rightarrow> am_expand \<Rightarrow> bool" where
  "fetches m inst \<longleftrightarrow> (\<exists>p. x_pc (current m) = Some p \<and> arr_at (m_expanded_table (module m)) p = Inr inst)"

text \<open>One integer register file of the machine: reading, writing and what a write leaves alone.\<close>

locale int_file =
  fixes get :: "uwasm_machine \<Rightarrow> u32 \<Rightarrow> 'w::len word res"
    and set :: "u32 \<Rightarrow> 'w word \<Rightarrow> uwasm_machine \<Rightarrow> uwasm_machine res"
    and ty :: int_ty
  assumes val: "reg_val m ty i = bindr (get m i) (\<lambda>x. Inr (uint x))"
    and width_ty: "width ty = LENGTH('w)"
    and set_ok: "get m i = Inr z \<Longrightarrow> \<exists>m'. set i v m = Inr m'"
    and get_set: "set i v m = Inr m' \<Longrightarrow> get m' j = (if j = i then Inr v else get m j)"
    and set_other: "set i v m = Inr m' \<Longrightarrow> t \<noteq> ty \<Longrightarrow> reg_val m' t j = reg_val m t j"
    and set_rest: "set i v m = Inr m' \<Longrightarrow> rest m' = rest m \<and> x_pc (current m') = x_pc (current m)"
begin

lemma val_get: "reg_val m ty i = Inr n \<Longrightarrow> \<exists>x. get m i = Inr x \<and> uint x = n"
  by (auto simp: val)

lemma reg_val_Inc_pc: "reg_val (Inc_pc m) t i = reg_val m t i"
  by (simp add: reg_val_def Inc_pc_def i32_get_def i64_get_def split: int_ty.split)

lemma writes_set:
  assumes "get m dst = Inr z"
  shows "\<exists>m'. set dst v m = Inr m' \<and> writes ty dst (uint v) m (Inc_pc m')"
proof -
  obtain m' where m': "set dst v m = Inr m'" using set_ok [OF assms] by blast
  have "reg_val m' t i = (if t = ty \<and> i = dst then Inr (uint v) else reg_val m t i)" for t i
    using get_set [OF m'] set_other [OF m'] by (cases "t = ty") (auto simp: val)
  moreover have "rest (Inc_pc m') = rest m'" by (simp add: rest_def Inc_pc_def)
  moreover have "x_pc (current (Inc_pc m')) = map_option Suc (x_pc (current m'))" by (simp add: Inc_pc_def)
  ultimately have "writes ty dst (uint v) m (Inc_pc m')"
    using set_rest [OF m'] unfolding writes_def reg_val_Inc_pc by auto
  with m' show ?thesis by blast
qed

lemma step_set:
  assumes "get m dst = Inr z" and "if D then \<exists>v. r = Inr v \<and> W = Some (uint v) else r = Inl e"
    and "st = bindr (bindr r (\<lambda>v. set dst v m)) (\<lambda>m. Inr (Running (Inc_pc m)))"
  shows "if D then \<exists>v m'. W = Some v \<and> st = Inr (Running m') \<and> writes ty dst v m m' else st = Inl e"
proof (cases D)
  case True
  with assms(2) obtain v where v: "r = Inr v" "W = Some (uint v)" by auto
  moreover obtain m' where "set dst v m = Inr m'" "writes ty dst (uint v) m (Inc_pc m')"
    using writes_set [OF assms(1)] by blast
  ultimately show ?thesis using True assms(3) by auto
qed (use assms in simp)

end

interpretation file_i32: int_file i32_get i32_set T_i32
  by unfold_locales
    (auto simp: reg_val_def width_def i32_set_def i32_get_def i64_get_def reg_get_def reg_set_def rest_def
      simp flip: word_unat_eq_iff split: int_ty.splits if_splits)

interpretation file_i64: int_file i64_get i64_set T_i64
  by unfold_locales
    (auto simp: reg_val_def width_def i64_set_def i64_get_def i32_get_def reg_get_def reg_set_def rest_def
      simp flip: word_unat_eq_iff split: int_ty.splits if_splits)

section \<open>Arithmetic\<close>

text \<open>
  The opcodes \<^verbatim>\<open>op rd, rs, rt\<close> (short and long form) and their operators.  The unsigned divisions and the
  rotations are not in the list.
\<close>

definition alu_ops :: "(u32 \<times> ibinop) list" where
  "alu_ops = [(0x36, I_add), (0x37, I_sub), (0xb0, I_add), (0xb1, I_sub), (0xb2, I_mul), (0xb3, I_div_s),
    (0xb5, I_rem_s), (0xb7, I_and), (0xb8, I_or), (0xb9, I_xor), (0xba, I_shl), (0xbb, I_shr_s), (0xbc, I_shr_u)]"

definition is_shift :: "ibinop \<Rightarrow> bool" where
  "is_shift f \<longleftrightarrow> f \<in> {I_shl, I_shr_u, I_shr_s}"

text \<open>A shift takes its count from a 32-bit register, whatever it shifts.\<close>

definition rt_ty :: "ibinop \<Rightarrow> int_ty \<Rightarrow> int_ty" where
  "rt_ty f ty = (if is_shift f then T_i32 else ty)"

text \<open>
  Where the C++ expression has a defined value: no division by zero, no quotient that overflows (also for
  the remainder), and a shift count below the width.
\<close>

definition cpp_defined :: "nat \<Rightarrow> ibinop \<Rightarrow> int \<Rightarrow> int \<Rightarrow> bool" where
  "cpp_defined N f i j =
    (if is_shift f then j < int N
     else f \<in> {I_div_s, I_rem_s} \<longrightarrow> j \<noteq> 0 \<and> \<not> (signed_N N i = - (2 ^ (N - 1)) \<and> signed_N N j = - 1))"

definition cpp_arith :: "ibinop \<Rightarrow> 'w::len word \<Rightarrow> 'w word \<Rightarrow> 'w word res" where
  "cpp_arith f x y = (case f of
      I_add \<Rightarrow> Inr (x + y) | I_sub \<Rightarrow> Inr (x - y) | I_mul \<Rightarrow> Inr (x * y) | I_div_s \<Rightarrow> div_s x y
    | I_rem_s \<Rightarrow> rem_s x y | I_and \<Rightarrow> Inr (x AND y) | I_or \<Rightarrow> Inr (x OR y) | I_xor \<Rightarrow> Inr (x XOR y)
    | _ \<Rightarrow> Inl Assertion)"

definition cpp_shift :: "ibinop \<Rightarrow> 'w::len word \<Rightarrow> u32 \<Rightarrow> 'w word res" where
  "cpp_shift f x n = (case f of I_shl \<Rightarrow> shl x n | I_shr_u \<Rightarrow> shr_u x n | I_shr_s \<Rightarrow> shr_s x n | _ \<Rightarrow> Inl Assertion)"

lemma cpp_arith_wasm:
  fixes x y :: "'w::len word"
  assumes "f \<in> snd ` set alu_ops" and "\<not> is_shift f"
  shows "if cpp_defined LENGTH('w) f (uint x) (uint y)
    then \<exists>v. cpp_arith f x y = Inr v \<and> wasm_binop LENGTH('w) f (uint x) (uint y) = Some (uint v)
    else cpp_arith f x y = Inl Div_undefined"
proof -
  have ok: "div_ok x y \<longleftrightarrow> cpp_defined LENGTH('w) g (uint x) (uint y)" if "g \<in> {I_div_s, I_rem_s}" for g
    using that by (auto simp: cpp_defined_def div_ok_def signed_N_uint uint_zero is_shift_def)
  from assms consider "f \<in> {I_add, I_sub, I_mul, I_and, I_or, I_xor}" | "f = I_div_s" | "f = I_rem_s"
    by (auto simp: alu_ops_def is_shift_def)
  then show ?thesis
  proof cases
    case 1
    then show ?thesis by (auto simp: cpp_defined_def is_shift_def cpp_arith_def arith_wasm)
  next
    case 2
    then show ?thesis using div_s_wasm [of x y] ok [of f] by (simp add: cpp_arith_def)
  next
    case 3
    then show ?thesis using rem_s_wasm [of x y] ok [of f] by (simp add: cpp_arith_def rem_s_def)
  qed
qed

lemma cpp_shift_wasm:
  fixes x :: "'w::len word"
  assumes "is_shift f"
  shows "if cpp_defined LENGTH('w) f (uint x) (uint n)
    then \<exists>v. cpp_shift f x n = Inr v \<and> wasm_binop LENGTH('w) f (uint x) (uint n) = Some (uint v)
    else cpp_shift f x n = Inl Shift_undefined"
proof -
  have n: "cpp_defined LENGTH('w) f (uint x) (uint n) \<longleftrightarrow> unat n < LENGTH('w)"
    using assms by (simp add: cpp_defined_def uint_nat del: of_nat_unat)
  from assms show ?thesis unfolding n using shift_wasm [of n x]
    by (auto simp: is_shift_def cpp_shift_def shl_def shr_u_def shr_s_def)
qed

definition alu_handler :: "int_ty \<Rightarrow> ibinop \<Rightarrow> am_expand \<Rightarrow> uwasm_machine \<Rightarrow> uwasm_machine res" where
  "alu_handler ty f inst m = (case ty of
      T_i32 \<Rightarrow> bindr (i32_get m (Get_rs inst)) (\<lambda>x. bindr (i32_get m (Get_rt inst)) (\<lambda>y.
        bindr (if is_shift f then cpp_shift f x y else cpp_arith f x y) (\<lambda>v. i32_set (Get_rd inst) v m)))
    | T_i64 \<Rightarrow> bindr (i64_get m (Get_rs inst)) (\<lambda>x.
        if is_shift f then bindr (i32_get m (Get_rt inst)) (\<lambda>y. bindr (cpp_shift f x y) (\<lambda>v. i64_set (Get_rd inst) v m))
        else bindr (i64_get m (Get_rt inst)) (\<lambda>y. bindr (cpp_arith f x y) (\<lambda>v. i64_set (Get_rd inst) v m))))"

lemma alu_rows:
  "list_all (\<lambda>(opc, f). op_action (4 * opc) = Brk (op (alu_handler T_i32 f)) \<and>
    op_action (4 * opc + 1) = Brk (op (alu_handler T_i64 f))) alu_ops"
  by (simp add: alu_ops_def op_lookup op_def fun_eq_iff alu_handler_def is_shift_def cpp_arith_def cpp_shift_def
      handler_defs)

lemma alu_action:
  "(opc, f) \<in> set alu_ops \<Longrightarrow> op_action (4 * opc + ty_num ty) = Brk (op (alu_handler ty f))"
  using alu_rows by (cases ty) (auto simp: list_all_iff ty_num_def)

lemma step_Brk:
  assumes "fetches m inst" and "op_action (Get_opcode_l inst) = Brk (op h)"
  shows "exec_step H m = bindr (h inst m) (\<lambda>m. Inr (Running (Inc_pc m)))"
  using assms by (auto simp: fetches_def exec_step_def op_def arr_at_def)

lemma step_Cont:
  assumes "fetches m inst" and "op_action (Get_opcode_l inst) = Cont (op h)"
  shows "exec_step H m = bindr (h inst m) (\<lambda>m. Inr (Running m))"
  using assms by (auto simp: fetches_def exec_step_def op_def arr_at_def)

lemma alu_exec:
  assumes fetch: "fetches m inst" and opc: "(opc, f) \<in> set alu_ops" "Get_opcode_l inst = 4 * opc + ty_num ty"
    and i: "reg_val m ty (Get_rs inst) = Inr i" and j: "reg_val m (rt_ty f ty) (Get_rt inst) = Inr j"
    and d: "reg_val m ty (Get_rd inst) = Inr d"
  shows "if cpp_defined (width ty) f i j
    then \<exists>v m'. wasm_binop (width ty) f i j = Some v \<and> exec_step H m = Inr (Running m') \<and> writes ty (Get_rd inst) v m m'
    else \<exists>e \<in> {Div_undefined, Shift_undefined}. exec_step H m = Inl e"
proof -
  have step: "exec_step H m = bindr (alu_handler ty f inst m) (\<lambda>m. Inr (Running (Inc_pc m)))"
    using step_Brk [OF fetch] alu_action [OF opc(1), of ty] opc(2) by simp
  have f: "f \<in> snd ` set alu_ops" using opc(1) by force
  show ?thesis
  proof (cases ty)
    case T_i32
    obtain x where x: "i32_get m (Get_rs inst) = Inr x" "uint x = i" using file_i32.val_get i T_i32 by blast
    obtain y where y: "i32_get m (Get_rt inst) = Inr y" "uint y = j"
      using file_i32.val_get [of m "Get_rt inst" j] j T_i32 by (auto simp: rt_ty_def split: if_splits)
    obtain z where z: "i32_get m (Get_rd inst) = Inr z" using file_i32.val_get d T_i32 by blast
    show ?thesis
    proof (cases "is_shift f")
      case True
      show ?thesis
        using file_i32.step_set [OF z cpp_shift_wasm [OF True, of x y], of "exec_step H m"]
        by (auto simp: step alu_handler_def T_i32 True x y width_def split: if_splits)
    next
      case False
      show ?thesis
        using file_i32.step_set [OF z cpp_arith_wasm [OF f False, of x y], of "exec_step H m"]
        by (auto simp: step alu_handler_def T_i32 False x y width_def split: if_splits)
    qed
  next
    case T_i64
    obtain x where x: "i64_get m (Get_rs inst) = Inr x" "uint x = i" using file_i64.val_get i T_i64 by blast
    obtain z where z: "i64_get m (Get_rd inst) = Inr z" using file_i64.val_get d T_i64 by blast
    show ?thesis
    proof (cases "is_shift f")
      case True
      obtain y where y: "i32_get m (Get_rt inst) = Inr y" "uint y = j"
        using file_i32.val_get [of m "Get_rt inst" j] j True by (auto simp: rt_ty_def)
      show ?thesis
        using file_i64.step_set [OF z cpp_shift_wasm [OF True, of x y], of "exec_step H m"]
        by (auto simp: step alu_handler_def T_i64 True x y width_def split: if_splits)
    next
      case False
      obtain y where y: "i64_get m (Get_rt inst) = Inr y" "uint y = j"
        using file_i64.val_get [of m "Get_rt inst" j] j T_i64 False by (auto simp: rt_ty_def)
      show ?thesis
        using file_i64.step_set [OF z cpp_arith_wasm [OF f False, of x y], of "exec_step H m"]
        by (auto simp: step alu_handler_def T_i64 False x y width_def split: if_splits)
    qed
  qed
qed

text \<open>C19: the integer arithmetic instructions.  When the next instruction is an addition, subtraction, multiplication,
  signed division or remainder, bitwise operation or shift of 32- or 64-bit registers, one step stores the value
  the WebAssembly operator has for the two operands in the destination register, leaves every other integer
  register and the rest of the machine alone and advances the program counter.  Where the C++ expression is
  undefined (division by zero, a quotient that overflows, a shift count not below the width), the step fails.
\<close>

theorem integer_arithmetic:
  assumes fetch: "fetches m inst" and opc: "(opc, f) \<in> set alu_ops" "Get_opcode_l inst = 4 * opc + ty_num ty"
    and i: "reg_val m ty (Get_rs inst) = Inr i" and j: "reg_val m (rt_ty f ty) (Get_rt inst) = Inr j"
    and d: "reg_val m ty (Get_rd inst) = Inr d"
  shows "if cpp_defined (width ty) f i j
    then \<exists>v m'. wasm_binop (width ty) f i j = Some v \<and> exec_step H m = Inr (Running m') \<and> writes ty (Get_rd inst) v m m'
    else \<exists>e \<in> {Div_undefined, Shift_undefined}. exec_step H m = Inl e"
  using assms by (rule alu_exec)

section \<open>Comparisons and conditional jumps\<close>

definition cmp_ops :: "(u32 \<times> irelop) list" where
  "cmp_ops = [(0xa6, R_eq), (0xa7, R_ne), (0xa8, R_lt_s), (0xa9, R_lt_u), (0xaa, R_gt_s), (0xab, R_gt_u),
    (0xac, R_le_s), (0xad, R_le_u), (0xae, R_ge_s), (0xaf, R_ge_u)]"

definition cmp_handler :: "int_ty \<Rightarrow> irelop \<Rightarrow> am_expand \<Rightarrow> uwasm_machine \<Rightarrow> uwasm_machine res" where
  "cmp_handler ty r inst m = (case ty of
      T_i32 \<Rightarrow> bindr (i32_get m (Get_rs inst)) (\<lambda>x. bindr (i32_get m (Get_rt inst)) (\<lambda>y.
        i32_set (Get_rd inst) (of_bool (wasm_relop 32 r (uint x) (uint y))) m))
    | T_i64 \<Rightarrow> bindr (i64_get m (Get_rs inst)) (\<lambda>x. bindr (i64_get m (Get_rt inst)) (\<lambda>y.
        i64_set (Get_rd inst) (of_bool (wasm_relop 64 r (uint x) (uint y))) m)))"

lemmas relop32 = relop_wasm [where 'w=32, simplified] and relop64 = relop_wasm [where 'w=64, simplified]

lemma cmp_rows:
  "list_all (\<lambda>(opc, r). op_action (4 * opc) = Brk (op (cmp_handler T_i32 r)) \<and>
    op_action (4 * opc + 1) = Brk (op (cmp_handler T_i64 r))) cmp_ops"
  by (simp add: cmp_ops_def op_lookup op_def fun_eq_iff cmp_handler_def relop32 relop64 handler_defs)

lemma cmp_action:
  "(opc, r) \<in> set cmp_ops \<Longrightarrow> op_action (4 * opc + ty_num ty) = Brk (op (cmp_handler ty r))"
  using cmp_rows by (cases ty) (auto simp: list_all_iff ty_num_def)

text \<open>The second operand of a jump is a register or zero.\<close>

definition jump_ops :: "(u32 \<times> irelop \<times> bool) list" where
  "jump_ops = [(0x0a, R_eq, True), (0x0b, R_ne, True), (0x0c, R_lt_s, True), (0x0d, R_le_s, True), (0x0e, R_gt_s, True),
    (0x0f, R_ge_s, True), (0x16, R_eq, False), (0x17, R_ne, False), (0x18, R_lt_s, False), (0x19, R_le_s, False),
    (0x1a, R_gt_s, False), (0x1b, R_ge_s, False), (0x1c, R_lt_u, False), (0x1d, R_le_u, False), (0x1e, R_gt_u, False),
    (0x1f, R_ge_u, False), (0x85, R_eq, False), (0x86, R_ne, False), (0x87, R_lt_s, False), (0x88, R_le_s, False),
    (0x89, R_gt_s, False), (0x8a, R_ge_s, False), (0x8b, R_lt_u, False), (0x8c, R_le_u, False), (0x8d, R_gt_u, False),
    (0x8e, R_ge_u, False)]"

definition jump_handler :: "int_ty \<Rightarrow> irelop \<Rightarrow> bool \<Rightarrow> am_expand \<Rightarrow> uwasm_machine \<Rightarrow> uwasm_machine res" where
  "jump_handler ty r zero inst m =
    bindr (reg_val m ty (Get_rd inst)) (\<lambda>i.
    bindr (if zero then Inr 0 else reg_val m ty (Get_rs inst)) (\<lambda>j.
    if wasm_relop (width ty) r i j then Jmp_am32_ofs inst m else Inr (Inc_pc m)))"

lemmas zero_relop = relop32 [of _ 0, unfolded unsigned_0] relop64 [of _ 0, unfolded unsigned_0]

lemma jump_handlers:
  "Jez_i32_am32_r_ofs = jump_handler T_i32 R_eq True"
  "Jez_i64_am32_r_ofs = jump_handler T_i64 R_eq True"
  "Jnz_i32_am32_r_ofs = jump_handler T_i32 R_ne True"
  "Jnz_i64_am32_r_ofs = jump_handler T_i64 R_ne True"
  "Jlz_i32_am32_r_ofs = jump_handler T_i32 R_lt_s True"
  "Jlz_i64_am32_r_ofs = jump_handler T_i64 R_lt_s True"
  "Jlez_i32_am32_r_ofs = jump_handler T_i32 R_le_s True"
  "Jlez_i64_am32_r_ofs = jump_handler T_i64 R_le_s True"
  "Jgz_i32_am32_r_ofs = jump_handler T_i32 R_gt_s True"
  "Jgz_i64_am32_r_ofs = jump_handler T_i64 R_gt_s True"
  "Jgez_i32_am32_r_ofs = jump_handler T_i32 R_ge_s True"
  "Jgez_i64_am32_r_ofs = jump_handler T_i64 R_ge_s True"
  "Jeq_i32_am32s_r_r_ofs = jump_handler T_i32 R_eq False"
  "Jeq_i64_am32s_r_r_ofs = jump_handler T_i64 R_eq False"
  "Jne_i32_am32s_r_r_ofs = jump_handler T_i32 R_ne False"
  "Jne_i64_am32s_r_r_ofs = jump_handler T_i64 R_ne False"
  "Jlt_i32_am32s_r_r_ofs = jump_handler T_i32 R_lt_s False"
  "Jlt_i64_am32s_r_r_ofs = jump_handler T_i64 R_lt_s False"
  "Jle_i32_am32s_r_r_ofs = jump_handler T_i32 R_le_s False"
  "Jle_i64_am32s_r_r_ofs = jump_handler T_i64 R_le_s False"
  "Jgt_i32_am32s_r_r_ofs = jump_handler T_i32 R_gt_s False"
  "Jgt_i64_am32s_r_r_ofs = jump_handler T_i64 R_gt_s False"
  "Jge_i32_am32s_r_r_ofs = jump_handler T_i32 R_ge_s False"
  "Jge_i64_am32s_r_r_ofs = jump_handler T_i64 R_ge_s False"
  "Jlt_u_i32_am32s_r_r_ofs = jump_handler T_i32 R_lt_u False"
  "Jlt_u_i64_am32s_r_r_ofs = jump_handler T_i64 R_lt_u False"
  "Jle_u_i32_am32s_r_r_ofs = jump_handler T_i32 R_le_u False"
  "Jle_u_i64_am32s_r_r_ofs = jump_handler T_i64 R_le_u False"
  "Jgt_u_i32_am32s_r_r_ofs = jump_handler T_i32 R_gt_u False"
  "Jgt_u_i64_am32s_r_r_ofs = jump_handler T_i64 R_gt_u False"
  "Jge_u_i32_am32s_r_r_ofs = jump_handler T_i32 R_ge_u False"
  "Jge_u_i64_am32s_r_r_ofs = jump_handler T_i64 R_ge_u False"
  "Jeq_i32_am64_r_r_ofs = jump_handler T_i32 R_eq False"
  "Jeq_i64_am64_r_r_ofs = jump_handler T_i64 R_eq False"
  "Jne_i32_am64_r_r_ofs = jump_handler T_i32 R_ne False"
  "Jne_i64_am64_r_r_ofs = jump_handler T_i64 R_ne False"
  "Jlt_i32_am64_r_r_ofs = jump_handler T_i32 R_lt_s False"
  "Jlt_i64_am64_r_r_ofs = jump_handler T_i64 R_lt_s False"
  "Jle_i32_am64_r_r_ofs = jump_handler T_i32 R_le_s False"
  "Jle_i64_am64_r_r_ofs = jump_handler T_i64 R_le_s False"
  "Jgt_i32_am64_r_r_ofs = jump_handler T_i32 R_gt_s False"
  "Jgt_i64_am64_r_r_ofs = jump_handler T_i64 R_gt_s False"
  "Jge_i32_am64_r_r_ofs = jump_handler T_i32 R_ge_s False"
  "Jge_i64_am64_r_r_ofs = jump_handler T_i64 R_ge_s False"
  "Jlt_u_i32_am64_r_r_ofs = jump_handler T_i32 R_lt_u False"
  "Jlt_u_i64_am64_r_r_ofs = jump_handler T_i64 R_lt_u False"
  "Jle_u_i32_am64_r_r_ofs = jump_handler T_i32 R_le_u False"
  "Jle_u_i64_am64_r_r_ofs = jump_handler T_i64 R_le_u False"
  "Jgt_u_i32_am64_r_r_ofs = jump_handler T_i32 R_gt_u False"
  "Jgt_u_i64_am64_r_r_ofs = jump_handler T_i64 R_gt_u False"
  "Jge_u_i32_am64_r_r_ofs = jump_handler T_i32 R_ge_u False"
  "Jge_u_i64_am64_r_r_ofs = jump_handler T_i64 R_ge_u False"
  by (simp_all add: fun_eq_iff handler_defs jump_handler_def reg_val_def bindr_assoc width_def relop32 relop64 zero_relop)

lemma jump_rows:
  "list_all (\<lambda>(opc, r, zero). op_action (4 * opc) = Cont (op (jump_handler T_i32 r zero)) \<and>
    op_action (4 * opc + 1) = Cont (op (jump_handler T_i64 r zero))) jump_ops"
  by (simp add: jump_ops_def op_lookup jump_handlers)

lemma jump_action:
  "(opc, r, zero) \<in> set jump_ops \<Longrightarrow> op_action (4 * opc + ty_num ty) = Cont (op (jump_handler ty r zero))"
  using jump_rows by (cases ty) (auto simp: list_all_iff ty_num_def)

lemma cmp_exec:
  assumes fetch: "fetches m inst" and opc: "(opc, r) \<in> set cmp_ops" "Get_opcode_l inst = 4 * opc + ty_num ty"
    and i: "reg_val m ty (Get_rs inst) = Inr i" and j: "reg_val m ty (Get_rt inst) = Inr j"
    and d: "reg_val m ty (Get_rd inst) = Inr d"
  shows "\<exists>m'. exec_step H m = Inr (Running m') \<and> writes ty (Get_rd inst) (of_bool (wasm_relop (width ty) r i j)) m m'"
proof -
  have step: "exec_step H m = bindr (cmp_handler ty r inst m) (\<lambda>m. Inr (Running (Inc_pc m)))"
    using step_Brk [OF fetch] cmp_action [OF opc(1), of ty] opc(2) by simp
  show ?thesis
  proof (cases ty)
    case T_i32
    with i j d obtain x y z where *: "i32_get m (Get_rs inst) = Inr x" "uint x = i" "i32_get m (Get_rt inst) = Inr y"
      "uint y = j" "i32_get m (Get_rd inst) = Inr z" using file_i32.val_get by metis
    show ?thesis
      using file_i32.writes_set [OF *(5), of "of_bool (wasm_relop 32 r i j)"]
      by (auto simp: step cmp_handler_def T_i32 * width_def)
  next
    case T_i64
    with i j d obtain x y z where *: "i64_get m (Get_rs inst) = Inr x" "uint x = i" "i64_get m (Get_rt inst) = Inr y"
      "uint y = j" "i64_get m (Get_rd inst) = Inr z" using file_i64.val_get by metis
    show ?thesis
      using file_i64.writes_set [OF *(5), of "of_bool (wasm_relop 64 r i j)"]
      by (auto simp: step cmp_handler_def T_i64 * width_def)
  qed
qed

text \<open>C23: the integer comparison instructions write 1 or 0 as the WebAssembly relation holds or not, signed and unsigned,
  for both widths, and change nothing else.
\<close>

theorem integer_comparison:
  assumes fetch: "fetches m inst" and opc: "(opc, r) \<in> set cmp_ops" "Get_opcode_l inst = 4 * opc + ty_num ty"
    and i: "reg_val m ty (Get_rs inst) = Inr i" and j: "reg_val m ty (Get_rt inst) = Inr j"
    and d: "reg_val m ty (Get_rd inst) = Inr d"
  shows "\<exists>m'. exec_step H m = Inr (Running m') \<and> writes ty (Get_rd inst) (of_bool (wasm_relop (width ty) r i j)) m m'"
  using assms by (rule cmp_exec)

lemma jump_exec:
  assumes fetch: "fetches m inst" and opc: "(opc, r, zero) \<in> set jump_ops" "Get_opcode_l inst = 4 * opc + ty_num ty"
    and i: "reg_val m ty (Get_rd inst) = Inr i" and j: "if zero then j = 0 else reg_val m ty (Get_rs inst) = Inr j"
  shows "exec_step H m =
    (if wasm_relop (width ty) r i j
     then bindr (Get_label (current m) (Get_ofs inst)) (\<lambda>l. Inr (Running (m\<lparr>current := (current m)\<lparr>x_pc := Some l\<rparr>\<rparr>)))
     else Inr (Running (m\<lparr>current := (current m)\<lparr>x_pc := map_option Suc (x_pc (current m))\<rparr>\<rparr>)))"
proof -
  have "exec_step H m = bindr (jump_handler ty r zero inst m) (\<lambda>m. Inr (Running m))"
    using step_Cont [OF fetch] jump_action [OF opc(1), of ty] opc(2) by simp
  with i j show ?thesis
    by (auto simp: jump_handler_def Jmp_am32_ofs_def Set_pc_def Inc_pc_def bindr_assoc)
qed

text \<open>C20: the conditional jumps, in short and long form and against zero.  One step goes to the label the instruction names
  exactly when the WebAssembly relation holds between its operands, and to the next instruction otherwise; nothing but
  the program counter changes.  A label outside the table of the function makes a taken jump fail.
\<close>

theorem conditional_jump:
  assumes fetch: "fetches m inst" and opc: "(opc, r, zero) \<in> set jump_ops" "Get_opcode_l inst = 4 * opc + ty_num ty"
    and i: "reg_val m ty (Get_rd inst) = Inr i" and j: "if zero then j = 0 else reg_val m ty (Get_rs inst) = Inr j"
  shows "exec_step H m =
    (if wasm_relop (width ty) r i j
     then bindr (Get_label (current m) (Get_ofs inst)) (\<lambda>l. Inr (Running (m\<lparr>current := (current m)\<lparr>x_pc := Some l\<rparr>\<rparr>)))
     else Inr (Running (m\<lparr>current := (current m)\<lparr>x_pc := map_option Suc (x_pc (current m))\<rparr>\<rparr>)))"
  using assms by (rule jump_exec)

section \<open>Unsigned division and rotation\<close>

definition unsigned_ops :: "(u32 \<times> ibinop \<times> ibinop) list" where
  "unsigned_ops = [(0xb4, I_div_u, I_div_s), (0xb6, I_rem_u, I_rem_s)]"

lemma unsigned_rows:
  "list_all (\<lambda>(opc, fu, fs). op_action (4 * opc) = Brk (op (alu_handler T_i32 fs)) \<and>
    op_action (4 * opc + 1) = Brk (op (alu_handler T_i64 fs))) unsigned_ops"
  by (simp add: unsigned_ops_def op_lookup op_def fun_eq_iff alu_handler_def is_shift_def cpp_arith_def handler_defs)

lemma tdiv_nonneg: "0 \<le> i \<Longrightarrow> 0 \<le> j \<Longrightarrow> tdiv i j = i div j"
  by (simp add: tdiv_def)

text \<open>Below the sign bit the signed operators agree with the unsigned ones.\<close>

lemma unsigned_agrees:
  fixes x y :: "'w::len word"
  assumes "(opc, fu, fs) \<in> set unsigned_ops" and "uint x < 2 ^ (LENGTH('w) - 1)" "uint y < 2 ^ (LENGTH('w) - 1)" "y \<noteq> 0"
  shows "cpp_defined LENGTH('w) fs (uint x) (uint y)"
    and "wasm_binop LENGTH('w) fs (uint x) (uint y) = wasm_binop LENGTH('w) fu (uint x) (uint y)"
proof -
  have xy: "0 \<le> uint x" "0 < uint y" "uint x < 2 ^ LENGTH('w)" "uint y < 2 ^ LENGTH('w)"
    using assms(4) uint_zero [of y] uint_lt2p [of x] uint_lt2p [of y] uint_ge_0 [of y] by (auto simp: order_less_le)
  then have q: "uint x div uint y \<le> uint x" "0 \<le> uint x div uint y"
    using zdiv_mono2 [of "uint x" 1 "uint y"] by (simp_all add: pos_imp_zdiv_nonneg_iff)
  have small: "uint x div uint y mod 2 ^ LENGTH('w) = uint x div uint y" "uint x mod uint y mod 2 ^ LENGTH('w) = uint x mod uint y"
    using xy q pos_mod_bound [of "uint y" "uint x"] pos_mod_sign [of "uint y" "uint x"]
    by (intro mod_pos_pos_trivial; linarith)+
  show "cpp_defined LENGTH('w) fs (uint x) (uint y)"
    using assms xy by (auto simp: unsigned_ops_def cpp_defined_def is_shift_def signed_N_def)
  show "wasm_binop LENGTH('w) fs (uint x) (uint y) = wasm_binop LENGTH('w) fu (uint x) (uint y)"
    using assms(1-3) xy q small minus_mult_div_eq_mod [of "uint x" "uint y"]
    by (auto simp: unsigned_ops_def wasm_binop_def Let_def signed_N_def tdiv_nonneg)
qed

text \<open>C25: the unsigned division and remainder instructions compute the signed operators.  Their result is the unsigned one
  when both operands are below the sign bit, and the signed quotient or remainder otherwise.
\<close>

theorem unsigned_division_is_signed:
  assumes fetch: "fetches m inst" and opc: "(opc, fu, fs) \<in> set unsigned_ops" "Get_opcode_l inst = 4 * opc + ty_num ty"
    and i: "reg_val m ty (Get_rs inst) = Inr i" and j: "reg_val m ty (Get_rt inst) = Inr j"
    and d: "reg_val m ty (Get_rd inst) = Inr d" and def: "cpp_defined (width ty) fs i j"
  shows "(\<exists>v m'. wasm_binop (width ty) fs i j = Some v \<and> exec_step H m = Inr (Running m') \<and> writes ty (Get_rd inst) v m m') \<and>
    (i < 2 ^ (width ty - 1) \<and> j < 2 ^ (width ty - 1) \<and> j \<noteq> 0 \<longrightarrow> wasm_binop (width ty) fs i j = wasm_binop (width ty) fu i j)"
proof (rule conjI)
  have step: "exec_step H m = bindr (alu_handler ty fs inst m) (\<lambda>m. Inr (Running (Inc_pc m)))"
    using step_Brk [OF fetch] unsigned_rows opc by (cases ty) (auto simp: list_all_iff ty_num_def)
  have f: "fs \<in> snd ` set alu_ops" "\<not> is_shift fs"
    using opc(1) by (auto simp: unsigned_ops_def alu_ops_def is_shift_def)
  show "\<exists>v m'. wasm_binop (width ty) fs i j = Some v \<and> exec_step H m = Inr (Running m') \<and> writes ty (Get_rd inst) v m m'"
  proof (cases ty)
    case T_i32
    with i j d obtain x y z where *: "i32_get m (Get_rs inst) = Inr x" "uint x = i" "i32_get m (Get_rt inst) = Inr y"
      "uint y = j" "i32_get m (Get_rd inst) = Inr z" using file_i32.val_get by metis
    show ?thesis
      using file_i32.step_set [OF *(5) cpp_arith_wasm [OF f, of x y], of "exec_step H m"] def
      by (simp add: step alu_handler_def T_i32 * width_def f)
  next
    case T_i64
    with i j d obtain x y z where *: "i64_get m (Get_rs inst) = Inr x" "uint x = i" "i64_get m (Get_rt inst) = Inr y"
      "uint y = j" "i64_get m (Get_rd inst) = Inr z" using file_i64.val_get by metis
    show ?thesis
      using file_i64.step_set [OF *(5) cpp_arith_wasm [OF f, of x y], of "exec_step H m"] def
      by (simp add: step alu_handler_def T_i64 * width_def f)
  qed
  show "i < 2 ^ (width ty - 1) \<and> j < 2 ^ (width ty - 1) \<and> j \<noteq> 0 \<longrightarrow>
    wasm_binop (width ty) fs i j = wasm_binop (width ty) fu i j"
  proof (cases ty)
    case T_i32
    with i j obtain x y where "uint (x :: u32) = i" "uint (y :: u32) = j" using file_i32.val_get by metis
    with unsigned_agrees(2) [OF opc(1), of x y] T_i32 show ?thesis by (auto simp: width_def uint_zero)
  next
    case T_i64
    with i j obtain x y where "uint (x :: u64) = i" "uint (y :: u64) = j" using file_i64.val_get by metis
    with unsigned_agrees(2) [OF opc(1), of x y] T_i64 show ?thesis by (auto simp: width_def uint_zero)
  qed
qed

lemma rotate_word:
  fixes w :: "'w::len word"
  assumes k: "0 < k" "k < LENGTH('w)"
  shows "word_rotl k w = push_bit k w OR drop_bit (LENGTH('w) - k) w"
    and "word_rotr k w = drop_bit k w OR push_bit (LENGTH('w) - k) w"
proof -
  have l: "(n + (LENGTH('w) - k)) mod LENGTH('w) = (if n < k then n + (LENGTH('w) - k) else n - k)"
    and r: "(n + k) mod LENGTH('w) = (if n < LENGTH('w) - k then n + k else n - (LENGTH('w) - k))" if "n < LENGTH('w)" for n
    using k that by (auto simp: mod_if)
  have big: "\<not> bit w i" if "LENGTH('w) \<le> i" for i using bit_imp_le_length [of w i] that by auto
  have "bit (word_rotl k w) n = bit (push_bit k w OR drop_bit (LENGTH('w) - k) w) n" if n: "n < LENGTH('w)" for n
    using k n l [OF n] big [of "n + (LENGTH('w) - k)"]
    by (cases "n < k") (simp_all add: bit_word_rotl_iff bit_or_iff bit_push_bit_iff bit_drop_bit_eq add.commute)
  moreover have "bit (word_rotr k w) n = bit (drop_bit k w OR push_bit (LENGTH('w) - k) w) n" if n: "n < LENGTH('w)" for n
    using k n r [OF n] big [of "n + k"]
    by (cases "n < LENGTH('w) - k") (simp_all add: bit_word_rotr_iff bit_or_iff bit_push_bit_iff bit_drop_bit_eq add.commute)
  ultimately show "word_rotl k w = push_bit k w OR drop_bit (LENGTH('w) - k) w"
    "word_rotr k w = drop_bit k w OR push_bit (LENGTH('w) - k) w"
    by (auto intro: bit_word_eqI)
qed

lemma sub_count: "0 < (n :: u32) \<Longrightarrow> n < 32 \<Longrightarrow> unat (32 - n) = 32 - unat n"
  by (simp add: unat_sub_if_size word_size word_less_nat_alt)

lemma wide_count: "(n :: u32) < 32 \<Longrightarrow> 32 \<le> unat (64 - n)"
  by (simp add: unat_sub_if_size word_size word_less_nat_alt)

lemma rot_actions:
  "op_action 0xe0 = Brk (op Rotl_i32_am32s_r_r_r)" "op_action 0xe1 = Brk (op Rotl_i64_am32s_r_r_r)"
  "op_action 0xe4 = Brk (op Rotr_i32_am32s_r_r_r)" "op_action 0xe5 = Brk (op Rotr_i64_am32s_r_r_r)"
  by (simp_all add: op_lookup)

lemma rot_handlers:
  assumes "i32_get m (Get_rt inst) = Inr n" "0 < n" "n < 32"
  shows "Rotl_i32_am32s_r_r_r inst m = i32_set (Get_rd inst) (word_rotl (unat n) n) m"
    and "Rotr_i32_am32s_r_r_r inst m = i32_set (Get_rd inst) (word_rotr (unat n) n) m"
proof -
  have k: "0 < unat n" "unat n < 32" "unat (32 - n) = 32 - unat n"
    using assms(2,3) sub_count by (simp_all add: word_less_nat_alt)
  then show "Rotl_i32_am32s_r_r_r inst m = i32_set (Get_rd inst) (word_rotl (unat n) n) m"
    "Rotr_i32_am32s_r_r_r inst m = i32_set (Get_rd inst) (word_rotr (unat n) n) m"
    by (simp_all add: Rotl_i32_am32s_r_r_r_def Rotr_i32_am32s_r_r_r_def assms(1) shl_def shr_u_def rotate_word)
qed

lemma rot_undefined:
  assumes "i32_get m (Get_rt inst) = Inr n"
  shows "\<not> (0 < n \<and> n < 32) \<Longrightarrow> Rotl_i32_am32s_r_r_r inst m = Inl Shift_undefined"
    and "\<not> (0 < n \<and> n < 32) \<Longrightarrow> Rotr_i32_am32s_r_r_r inst m = Inl Shift_undefined"
    and "Rotl_i64_am32s_r_r_r inst m = Inl Shift_undefined"
    and "Rotr_i64_am32s_r_r_r inst m = Inl Shift_undefined"
  using wide_count [of n] unat_eq_zero [of n]
  by (auto simp: Rotl_i32_am32s_r_r_r_def Rotr_i32_am32s_r_r_r_def Rotl_i64_am32s_r_r_r_def Rotr_i64_am32s_r_r_r_def
      assms shl_def shr_u_def word_less_nat_alt bindr_def split: sum.splits)

text \<open>C26: the rotations do not read the register they rotate.  \<^verbatim>\<open>rotl\<close> and \<^verbatim>\<open>rotr\<close> of 32-bit registers rotate the count by
  itself and have no defined result for the count 0; those of 64-bit registers have no defined result at all.
\<close>

theorem rotation_ignores_operand:
  assumes fetch: "fetches m inst" and opc: "Get_opcode_l inst \<in> {4 * 0x38 + ty_num ty, 4 * 0x39 + ty_num ty}"
    and n: "i32_get m (Get_rt inst) = Inr n" and z: "i32_get m (Get_rd inst) = Inr z"
  shows "if ty = T_i32 \<and> 0 < n \<and> n < 32
    then \<exists>m'. exec_step H m = Inr (Running m') \<and>
      writes T_i32 (Get_rd inst)
        (uint (if Get_opcode_l inst = 4 * 0x38 then word_rotl (unat n) n else word_rotr (unat n) n)) m m'
    else exec_step H m = Inl Shift_undefined"
proof (cases "ty = T_i32 \<and> 0 < n \<and> n < 32")
  case True
  with opc consider "Get_opcode_l inst = 0xe0" | "Get_opcode_l inst = 0xe4" by (auto simp: ty_num_def)
  then show ?thesis
  proof cases
    case 1
    then show ?thesis
      using True step_Brk [OF fetch, of Rotl_i32_am32s_r_r_r] rot_handlers(1) [OF n]
        file_i32.writes_set [OF z, of "word_rotl (unat n) n"] by (auto simp: rot_actions)
  next
    case 2
    then show ?thesis
      using True step_Brk [OF fetch, of Rotr_i32_am32s_r_r_r] rot_handlers(2) [OF n]
        file_i32.writes_set [OF z, of "word_rotr (unat n) n"] by (auto simp: rot_actions)
  qed
next
  case False
  from opc consider "ty = T_i32" "Get_opcode_l inst = 0xe0" | "ty = T_i32" "Get_opcode_l inst = 0xe4"
    | "Get_opcode_l inst = 0xe1" | "Get_opcode_l inst = 0xe5" by (cases ty) (auto simp: ty_num_def)
  then have "exec_step H m = Inl Shift_undefined"
    using False step_Brk [OF fetch] rot_undefined [OF n] by cases (simp_all add: rot_actions)
  with False show ?thesis by simp
qed

section \<open>Examples\<close>

text \<open>A machine about to execute \<open>inst\<close>, with two values in registers 1 and 2 of both integer files.\<close>

definition ex_regs :: "u32 \<Rightarrow> u32 \<Rightarrow> am_expand \<Rightarrow> uwasm_machine" where
  "ex_regs x y inst = ex_fresh\<lparr>reg_i32 := (REGISTER (\<lambda>i. 0))\<lparr>r_cells := (\<lambda>i. 0)(1 := x, 2 := y)\<rparr>,
    reg_i64 := (REGISTER (\<lambda>i. 0))\<lparr>r_cells := (\<lambda>i. 0)(1 := ucast x, 2 := ucast y)\<rparr>,
    module := ex_module\<lparr>m_expanded_table := [inst]\<rparr>,
    current := EXEC_CONTEXT\<lparr>x_pc := Some 0, x_label_tab := Some [7]\<rparr>\<rparr>"

lemma uint_ucast_64: "uint (ucast (x :: u32) :: u64) = uint x"
  using unat_ucast_u64 [of x] by (simp add: uint_nat del: of_nat_unat)

lemma ex_regs_facts:
  "fetches (ex_regs x y inst) inst"
  "reg_val (ex_regs x y inst) t 0 = Inr 0"
  "reg_val (ex_regs x y inst) t 1 = Inr (uint x)"
  "reg_val (ex_regs x y inst) t 2 = Inr (uint y)"
  "x_pc (current (ex_regs x y inst)) = Some 0"
  "Get_label (current (ex_regs x y inst)) 0 = Inr 7"
  by (cases t; simp add: ex_regs_def ex_fresh_def ex_module_def fetches_def arr_at_def reg_val_def i32_get_def i64_get_def
      reg_get_def REGISTER_def INITIAL_REG_SIZE_def Get_label_def uint_ucast_64)+

lemmas inst_simps = am_def Get_opcode_l_def Get_rd_def Get_rs_def Get_rt_def Get_ofs_def ty_num_def width_def

text \<open>\<^verbatim>\<open>sub R0, R1, R2\<close> on 3 and 5, and the division of 3 by 0.\<close>

theorem integer_arithmetic_witness:
  "(\<exists>m'. exec_step ex_host (ex_regs 3 5 (am 0x2c4 0 1 2)) = Inr (Running m') \<and>
      reg_val m' T_i32 0 = Inr (2 ^ 32 - 2) \<and> reg_val m' T_i32 1 = Inr 3) \<and>
   (\<exists>e. exec_step ex_host (ex_regs 3 0 (am 0x2cd 0 1 2)) = Inl e)"
proof -
  let ?m = "ex_regs 3 5 (am 0x2c4 0 1 2)" and ?d = "ex_regs 3 0 (am 0x2cd 0 1 2)"
  have "\<exists>v m'. wasm_binop 32 I_sub 3 5 = Some v \<and> exec_step ex_host ?m = Inr (Running m') \<and> writes T_i32 0 v ?m m'"
    using integer_arithmetic [OF ex_regs_facts(1), of "0xb1" I_sub "am 0x2c4 0 1 2" T_i32 3 5 3 5 0 ex_host]
    by (simp add: inst_simps ex_regs_facts alu_ops_def rt_ty_def is_shift_def cpp_defined_def)
  moreover have "\<exists>e \<in> {Div_undefined, Shift_undefined}. exec_step ex_host ?d = Inl e"
    using integer_arithmetic [OF ex_regs_facts(1), of "0xb3" I_div_s "am 0x2cd 0 1 2" T_i64 3 0 3 0 0 ex_host]
    by (simp add: inst_simps ex_regs_facts alu_ops_def rt_ty_def is_shift_def cpp_defined_def)
  ultimately show ?thesis by (auto simp: writes_def wasm_binop_def ex_regs_facts)
qed

theorem integer_comparison_witness:
  "\<exists>m'. exec_step ex_host (ex_regs 0xffffffff 5 (am 0x2a0 0 1 2)) = Inr (Running m') \<and> reg_val m' T_i32 0 = Inr 1"
proof -
  let ?m = "ex_regs 0xffffffff 5 (am 0x2a0 0 1 2)"
  have "\<exists>m'. exec_step ex_host ?m = Inr (Running m') \<and> writes T_i32 0 (of_bool (wasm_relop 32 R_lt_s 0xffffffff 5)) ?m m'"
    using integer_comparison [OF ex_regs_facts(1), of "0xa8" R_lt_s "am 0x2a0 0 1 2" T_i32 "0xffffffff" 5 "0xffffffff" 5 0 ex_host]
    by (simp add: inst_simps ex_regs_facts cmp_ops_def)
  then show ?thesis by (auto simp: writes_def wasm_relop_def signed_N_def)
qed

text \<open>An unsigned comparison does not jump where the signed one does.\<close>

theorem conditional_jump_witness:
  "(\<exists>m'. exec_step ex_host (ex_regs 0xffffffff 5 (am 0x60 1 2 0)) = Inr (Running m') \<and> x_pc (current m') = Some 7) \<and>
   (\<exists>m'. exec_step ex_host (ex_regs 0xffffffff 5 (am 0x70 1 2 0)) = Inr (Running m') \<and> x_pc (current m') = Some 1)"
proof -
  let ?s = "ex_regs 0xffffffff 5 (am 0x60 1 2 0)" and ?u = "ex_regs 0xffffffff 5 (am 0x70 1 2 0)"
  have rel: "wasm_relop 32 R_lt_s 0xffffffff 5" "\<not> wasm_relop 32 R_lt_u 0xffffffff 5"
    by (simp_all add: wasm_relop_def signed_N_def)
  have "\<exists>m'. exec_step ex_host ?s = Inr (Running m') \<and> x_pc (current m') = Some 7"
    using conditional_jump [OF ex_regs_facts(1), of "0x18" R_lt_s False "am 0x60 1 2 0" T_i32 "0xffffffff" 5 "0xffffffff" 5 ex_host]
      rel by (simp add: inst_simps ex_regs_facts jump_ops_def)
  moreover have "\<exists>m'. exec_step ex_host ?u = Inr (Running m') \<and> x_pc (current m') = Some 1"
    using conditional_jump [OF ex_regs_facts(1), of "0x1c" R_lt_u False "am 0x70 1 2 0" T_i32 "0xffffffff" 5 "0xffffffff" 5 ex_host]
      rel by (simp add: inst_simps ex_regs_facts jump_ops_def)
  ultimately show ?thesis by blast
qed

text \<open>Unsigned division of \<^verbatim>\<open>0xffffffff\<close> by 2 gives 0.\<close>

theorem unsigned_division_is_signed_witness:
  "(\<exists>m'. exec_step ex_host (ex_regs 0xffffffff 2 (am 0x2d0 0 1 2)) = Inr (Running m') \<and> reg_val m' T_i32 0 = Inr 0) \<and>
   wasm_binop 32 I_div_u 0xffffffff 2 = Some 0x7fffffff \<and> wasm_binop 32 I_div_s 7 2 = wasm_binop 32 I_div_u 7 2"
proof -
  let ?m = "ex_regs 0xffffffff 2 (am 0x2d0 0 1 2)"
  have "\<exists>v m'. wasm_binop 32 I_div_s 0xffffffff 2 = Some v \<and> exec_step ex_host ?m = Inr (Running m') \<and> writes T_i32 0 v ?m m'"
    using unsigned_division_is_signed [OF ex_regs_facts(1), of "0xb4" I_div_u I_div_s "am 0x2d0 0 1 2" T_i32 "0xffffffff" 2
        "0xffffffff" 2 0 ex_host]
    by (simp add: inst_simps ex_regs_facts unsigned_ops_def cpp_defined_def is_shift_def signed_N_def)
  moreover have "wasm_binop 32 I_div_s 7 2 = wasm_binop 32 I_div_u 7 2"
    using unsigned_division_is_signed [OF ex_regs_facts(1), of "0xb4" I_div_u I_div_s "am 0x2d0 0 1 2" T_i32 7 2 7 2 0 ex_host]
    by (simp add: inst_simps ex_regs_facts unsigned_ops_def cpp_defined_def is_shift_def signed_N_def)
  ultimately show ?thesis by (auto simp: writes_def wasm_binop_def Let_def signed_N_def tdiv_def)
qed

text \<open>Rotating \<^verbatim>\<open>0x12345678\<close> left by 4 gives 64, whatever the operand.\<close>

theorem rotation_ignores_operand_witness:
  "(\<exists>m'. exec_step ex_host (ex_regs 0x12345678 4 (am 0xe0 0 1 2)) = Inr (Running m') \<and> reg_val m' T_i32 0 = Inr 64) \<and>
   exec_step ex_host (ex_regs 0x12345678 4 (am 0xe1 0 1 2)) = Inl Shift_undefined"
proof -
  have get: "i32_get (ex_regs x y inst) 2 = Inr y" "i32_get (ex_regs x y inst) 0 = Inr 0" for x y inst
    by (simp_all add: ex_regs_def i32_get_def reg_get_def REGISTER_def INITIAL_REG_SIZE_def)
  have "word_rotl 4 4 = (64 :: u32)" by (simp add: rotate_word)
  then show ?thesis
    using rotation_ignores_operand [OF ex_regs_facts(1), of "am 0xe0 0 1 2" T_i32 "0x12345678" 4 4 0 ex_host]
      rotation_ignores_operand [OF ex_regs_facts(1), of "am 0xe1 0 1 2" T_i64 "0x12345678" 4 4 0 ex_host]
    by (auto simp: inst_simps get writes_def)
qed

end
