(* ===== verification/Mem_Props.thy ===== *)
theory Mem_Props
  imports Alu_Props
begin

text \<open>
  What the integer load and store instructions do: the bytes of linear memory and of the stack frame, read and written
  through the dispatch table, as little-endian numbers.
\<close>

section \<open>Bytes as numbers\<close>

primrec le_int :: "u8 list \<Rightarrow> int" where
  "le_int [] = 0"
| "le_int (b # bs) = uint b + 256 * le_int bs"

primrec le_of_int :: "nat \<Rightarrow> int \<Rightarrow> u8 list" where
  "le_of_int 0 i = []"
| "le_of_int (Suc n) i = word_of_int i # le_of_int n (i div 256)"

lemma le_of_int_length [simp]: "length (le_of_int n i) = n"
  by (induction n arbitrary: i) simp_all

lemma le_int_of_int: "le_int (le_of_int n i) = i mod 2 ^ (8 * n)"
proof (induction n arbitrary: i)
  case (Suc n)
  have "i mod (256 * 2 ^ (8 * n)) = i mod 256 + 256 * (i div 256 mod 2 ^ (8 * n))"
    by (simp add: zmod_zmult2_eq)
  with Suc show ?case by (simp add: uint_word_of_int power_add mult.commute)
qed simp

lemma le_word_int: "le_word bs = (word_of_int (le_int bs) :: 'w::len word)"
proof (induction bs)
  case (Cons b bs)
  have "ucast b OR push_bit 8 (le_word bs) = ucast b + push_bit 8 (le_word bs :: 'w word)"
    by (rule disjunctive_add [symmetric]) (auto simp: bit_simps dest: bit_imp_le_length)
  with Cons show ?case by (simp add: push_bit_eq_mult)
qed simp

lemma le_bytes_int: "le_bytes n w = le_of_int n (uint w)"
proof (induction n arbitrary: w)
  case (Suc n)
  have "uint (drop_bit 8 w) = uint w div 256"
    by (simp only: unsigned_drop_bit_eq) (simp add: drop_bit_eq_div take_bit_int_eq_self)
  with Suc show ?case by simp
qed simp

section \<open>Loads and stores\<close>

text \<open>The address of an access: a base register, or the stack pointer, plus the immediate.\<close>

definition effective :: "bool \<Rightarrow> uwasm_machine \<Rightarrow> am_expand \<Rightarrow> address res" where
  "effective stack m inst =
    (if stack then Inr (add_ofs (sint (Get_imm inst)) (x_sp (current m)))
     else bindr (Get_base_addr (Get_rs inst) m) (\<lambda>base. Inr (add_ofs (sint (Get_imm inst)) base)))"

text \<open>The number loaded from \<open>n\<close> bytes.\<close>

definition ext :: "nat \<Rightarrow> bool \<Rightarrow> int \<Rightarrow> int" where
  "ext n sx i = (if sx then signed_N (8 * n) (i mod 2 ^ (8 * n)) else i mod 2 ^ (8 * n))"

definition set_val :: "int_ty \<Rightarrow> u32 \<Rightarrow> int \<Rightarrow> uwasm_machine \<Rightarrow> uwasm_machine res" where
  "set_val ty r i m = (case ty of T_i32 \<Rightarrow> i32_set r (word_of_int i) m | T_i64 \<Rightarrow> i64_set r (word_of_int i) m)"

definition store_handler :: "int_ty \<Rightarrow> nat \<Rightarrow> bool \<Rightarrow> am_expand \<Rightarrow> uwasm_machine \<Rightarrow> uwasm_machine res" where
  "store_handler ty n stack inst m =
    bindr (effective stack m inst) (\<lambda>a.
    bindr (reg_val m ty (Get_rd inst)) (\<lambda>i.
    bindr (mem_write (mem m) a (le_of_int n i)) (\<lambda>x. Inr (m\<lparr>mem := x\<rparr>))))"

definition load_handler :: "int_ty \<Rightarrow> nat \<Rightarrow> bool \<Rightarrow> bool \<Rightarrow> am_expand \<Rightarrow> uwasm_machine \<Rightarrow> uwasm_machine res" where
  "load_handler ty n sx stack inst m =
    bindr (effective stack m inst) (\<lambda>a.
    bindr (mem_read (mem m) a n) (\<lambda>bs.
    set_val ty (Get_rd inst) (ext n sx (le_int bs)) m))"

lemma cast_int:
  "(ucast (word_of_int i :: 'a::len word) :: 'b::len word) = word_of_int (i mod 2 ^ LENGTH('a))"
  "(scast (word_of_int i :: 'a::len word) :: 'b::len word) = word_of_int (signed_N LENGTH('a) (i mod 2 ^ LENGTH('a)))"
  by (simp_all only: ucast_eq scast_eq uint_word_of_int flip: signed_N_uint)

lemma wrap_int:
  "word_of_int (i mod 4294967296) = (word_of_int i :: u32)"
  "word_of_int (i mod 18446744073709551616) = (word_of_int i :: u64)"
  by (simp_all add: word_uint_eq_iff uint_word_of_int)

lemma store_handlers:
  "Store_i32_am32s_r_r_imm = store_handler T_i32 4 False"
  "Store8_i32_am32s_r_r_imm = store_handler T_i32 1 False"
  "Store16_i32_am32s_r_r_imm = store_handler T_i32 2 False"
  "Store_i64_am32s_r_r_imm = store_handler T_i64 8 False"
  "Store8_i64_am32s_r_r_imm = store_handler T_i64 1 False"
  "Store16_i64_am32s_r_r_imm = store_handler T_i64 2 False"
  "Store32_i64_am32s_r_r_imm = store_handler T_i64 4 False"
  "Store_i32_am64_r_r_imm = store_handler T_i32 4 False"
  "Store8_i32_am64_r_r_imm = store_handler T_i32 1 False"
  "Store16_i32_am64_r_r_imm = store_handler T_i32 2 False"
  "Store_i64_am64_r_r_imm = store_handler T_i64 8 False"
  "Store8_i64_am64_r_r_imm = store_handler T_i64 1 False"
  "Store16_i64_am64_r_r_imm = store_handler T_i64 2 False"
  "Store32_i64_am64_r_r_imm = store_handler T_i64 4 False"
  "Lstore_i32_am32_r_imm = store_handler T_i32 4 True"
  "Lstore8_i32_am32_r_imm = store_handler T_i32 1 True"
  "Lstore16_i32_am32_r_imm = store_handler T_i32 2 True"
  "Lstore_i64_am32_r_imm = store_handler T_i64 8 True"
  "Lstore8_i64_am32_r_imm = store_handler T_i64 1 True"
  "Lstore16_i64_am32_r_imm = store_handler T_i64 2 True"
  "Lstore32_i64_am32_r_imm = store_handler T_i64 4 True"
  "Lstore_i32_am64_r_imm = store_handler T_i32 4 True"
  "Lstore8_i32_am64_r_imm = store_handler T_i32 1 True"
  "Lstore16_i32_am64_r_imm = store_handler T_i32 2 True"
  "Lstore_i64_am64_r_imm = store_handler T_i64 8 True"
  "Lstore8_i64_am64_r_imm = store_handler T_i64 1 True"
  "Lstore16_i64_am64_r_imm = store_handler T_i64 2 True"
  "Lstore32_i64_am64_r_imm = store_handler T_i64 4 True"
  by (simp_all add: fun_eq_iff handler_defs store_handler_def effective_def reg_val_def store_defs le_bytes_narrow
      bindr_assoc Let_def flip: le_bytes_int)

lemma load_handlers:
  "Load_i32_am32s_r_r_imm = load_handler T_i32 4 False False"
  "Load8_i32_am32s_r_r_imm = load_handler T_i32 1 True False"
  "Load8_u_i32_am32s_r_r_imm = load_handler T_i32 1 False False"
  "Load16_i32_am32s_r_r_imm = load_handler T_i32 2 True False"
  "Load16_u_i32_am32s_r_r_imm = load_handler T_i32 2 False False"
  "Load_i64_am32s_r_r_imm = load_handler T_i64 8 False False"
  "Load8_i64_am32s_r_r_imm = load_handler T_i64 1 True False"
  "Load8_u_i64_am32s_r_r_imm = load_handler T_i64 1 False False"
  "Load16_i64_am32s_r_r_imm = load_handler T_i64 2 True False"
  "Load16_u_i64_am32s_r_r_imm = load_handler T_i64 2 False False"
  "Load32_i64_am32s_r_r_imm = load_handler T_i64 4 True False"
  "Load32_u_i64_am32s_r_r_imm = load_handler T_i64 4 False False"
  "Load_i32_am64_r_r_imm = load_handler T_i32 4 False False"
  "Load8_i32_am64_r_r_imm = load_handler T_i32 1 True False"
  "Load8_u_i32_am64_r_r_imm = load_handler T_i32 1 False False"
  "Load16_i32_am64_r_r_imm = load_handler T_i32 2 True False"
  "Load16_u_i32_am64_r_r_imm = load_handler T_i32 2 False False"
  "Load_i64_am64_r_r_imm = load_handler T_i64 8 False False"
  "Load8_i64_am64_r_r_imm = load_handler T_i64 1 True False"
  "Load8_u_i64_am64_r_r_imm = load_handler T_i64 1 False False"
  "Load16_i64_am64_r_r_imm = load_handler T_i64 2 True False"
  "Load16_u_i64_am64_r_r_imm = load_handler T_i64 2 False False"
  "Load32_i64_am64_r_r_imm = load_handler T_i64 4 True False"
  "Load32_u_i64_am64_r_r_imm = load_handler T_i64 4 False False"
  "Lload_i32_am32_r_imm = load_handler T_i32 4 False True"
  "Lload8_i32_am32_r_imm = load_handler T_i32 1 True True"
  "Lload8_u_i32_am32_r_imm = load_handler T_i32 1 False True"
  "Lload16_i32_am32_r_imm = load_handler T_i32 2 True True"
  "Lload16_u_i32_am32_r_imm = load_handler T_i32 2 False True"
  "Lload_i64_am32_r_imm = load_handler T_i64 8 False True"
  "Lload8_i64_am32_r_imm = load_handler T_i64 1 True True"
  "Lload8_u_i64_am32_r_imm = load_handler T_i64 1 False True"
  "Lload16_i64_am32_r_imm = load_handler T_i64 2 True True"
  "Lload16_u_i64_am32_r_imm = load_handler T_i64 2 False True"
  "Lload32_i64_am32_r_imm = load_handler T_i64 4 True True"
  "Lload32_u_i64_am32_r_imm = load_handler T_i64 4 False True"
  "Lload_i32_am64_r_imm = load_handler T_i32 4 False True"
  "Lload8_i32_am64_r_imm = load_handler T_i32 1 True True"
  "Lload8_u_i32_am64_r_imm = load_handler T_i32 1 False True"
  "Lload16_i32_am64_r_imm = load_handler T_i32 2 True True"
  "Lload16_u_i32_am64_r_imm = load_handler T_i32 2 False True"
  "Lload_i64_am64_r_imm = load_handler T_i64 8 False True"
  "Lload8_i64_am64_r_imm = load_handler T_i64 1 True True"
  "Lload8_u_i64_am64_r_imm = load_handler T_i64 1 False True"
  "Lload16_i64_am64_r_imm = load_handler T_i64 2 True True"
  "Lload16_u_i64_am64_r_imm = load_handler T_i64 2 False True"
  "Lload32_i64_am64_r_imm = load_handler T_i64 4 True True"
  "Lload32_u_i64_am64_r_imm = load_handler T_i64 4 False True"
  by (simp_all add: fun_eq_iff handler_defs load_handler_def effective_def set_val_def ext_def load_defs le_word_int
      bindr_assoc Let_def cast_int wrap_int)

text \<open>
  A store opcode, a load opcode of the same width, the bytes they move and whether the load extends the sign, for the
  short and long forms on memory and on the stack frame.
\<close>

definition mem_pairs :: "int_ty \<Rightarrow> (u32 \<times> u32 \<times> nat \<times> bool) list" where
  "mem_pairs ty = (case ty of
      T_i32 \<Rightarrow> [(0, 0, 4, False), (1, 1, 1, True), (1, 2, 1, False), (2, 3, 2, True), (2, 4, 2, False)]
    | T_i64 \<Rightarrow> [(0, 0, 8, False), (1, 1, 1, True), (1, 2, 1, False), (2, 3, 2, True), (2, 4, 2, False), (3, 5, 4, True),
        (3, 6, 4, False)])"

definition mem_forms :: "(u32 \<times> u32 \<times> bool) list" where
  "mem_forms = [(0x27, 0x20, False), (0x96, 0x8f, False), (0x32, 0x2b, True), (0xa2, 0x9b, True)]"

lemma mem_rows:
  "list_all (\<lambda>(sb, lb, stack). list_all (\<lambda>ty. list_all (\<lambda>(s, l, n, sx).
      op_action (4 * (sb + s) + ty_num ty) = Brk (op (store_handler ty n stack)) \<and>
      op_action (4 * (lb + l) + ty_num ty) = Brk (op (load_handler ty n sx stack))) (mem_pairs ty)) [T_i32, T_i64]) mem_forms"
  by (simp add: mem_forms_def mem_pairs_def ty_num_def op_lookup store_handlers load_handlers)

lemma mem_action:
  assumes "(sb, lb, stack) \<in> set mem_forms" "(s, l, n, sx) \<in> set (mem_pairs ty)"
  shows "op_action (4 * (sb + s) + ty_num ty) = Brk (op (store_handler ty n stack))"
    and "op_action (4 * (lb + l) + ty_num ty) = Brk (op (load_handler ty n sx stack))"
  using mem_rows assms by (cases ty; fastforce simp: list_all_iff)+

lemma set_val_writes:
  assumes "reg_val m ty dst = Inr d"
  shows "\<exists>m'. set_val ty dst i m = Inr m' \<and> writes ty dst (i mod 2 ^ width ty) m (Inc_pc m')"
proof (cases ty)
  case T_i32
  with assms obtain z where "i32_get m dst = Inr z" using file_i32.val_get by blast
  with file_i32.writes_set [of m dst z "word_of_int i"] T_i32 show ?thesis
    by (simp add: set_val_def width_def uint_word_of_int)
next
  case T_i64
  with assms obtain z where "i64_get m dst = Inr z" using file_i64.val_get by blast
  with file_i64.writes_set [of m dst z "word_of_int i"] T_i64 show ?thesis
    by (simp add: set_val_def width_def uint_word_of_int)
qed

lemma ext_mod: "ext n sx (i mod 2 ^ (8 * n)) = ext n sx i"
  by (simp add: ext_def)

lemma effective_mem: "effective stack (Inc_pc (m\<lparr>mem := x\<rparr>)) inst' = effective stack m inst'"
  by (simp add: effective_def Get_base_addr_def i32_get_def Inc_pc_def cong: if_cong)

lemma effective_cong:
  "Get_rs inst' = Get_rs inst \<Longrightarrow> Get_imm inst' = Get_imm inst \<Longrightarrow> effective stack m inst' = effective stack m inst"
  by (simp add: effective_def)

text \<open>C21: a load reads what a store wrote.  When an integer store and a load of the same width and address follow one another,
  short or long form, on linear memory or on the stack frame, and the bytes lie in the memory block, both steps succeed;
  the loaded register holds the low bytes of the stored value, zero- or sign-extended as the opcode says, no other
  register changes, and every byte outside the stored ones keeps its value.
\<close>

theorem store_load:
  assumes fetch: "fetches m sinst" "arr_at (m_expanded_table (module m)) (Suc (the (x_pc (current m)))) = Inr linst"
    and form: "(sb, lb, stack) \<in> set mem_forms" "(s, l, n, sx) \<in> set (mem_pairs ty)"
    and opc: "Get_opcode_l sinst = 4 * (sb + s) + ty_num ty" "Get_opcode_l linst = 4 * (lb + l) + ty_num ty"
    and same: "Get_rs linst = Get_rs sinst" "Get_imm linst = Get_imm sinst"
    and v: "reg_val m ty (Get_rd sinst) = Inr v" and d: "reg_val m ty (Get_rd linst) = Inr d"
    and a: "effective stack m sinst = Inr a" "mem_ok (mem m) a n"
  shows "\<exists>m1 m2. exec_step H m = Inr (Running m1) \<and> exec_step H m1 = Inr (Running m2) \<and>
    (\<forall>t i. reg_val m2 t i = (if t = ty \<and> i = Get_rd linst then Inr (ext n sx v mod 2 ^ width ty) else reg_val m t i)) \<and>
    (\<forall>b k. disjoint_range a n b k \<longrightarrow> mem_read (mem m2) b k = mem_read (mem m) b k)"
proof -
  obtain x where x: "mem_write (mem m) a (le_of_int n v) = Inr x"
    using a(2) mem_write_ok [of "mem m" a "le_of_int n v"] by auto
  let ?m1 = "Inc_pc (m\<lparr>mem := x\<rparr>)"
  have s1: "exec_step H m = Inr (Running ?m1)"
    using step_Brk [OF fetch(1)] mem_action(1) [OF form] opc(1) by (simp add: store_handler_def a(1) v x)
  have regs: "reg_val ?m1 t i = reg_val m t i" for t i
    by (simp add: reg_val_def i32_get_def i64_get_def Inc_pc_def split: int_ty.split)
  have rd: "mem_read (mem ?m1) a n = Inr (le_of_int n v)"
    using mem_read_write [OF x] by (simp add: Inc_pc_def)
  have f2: "fetches ?m1 linst" using fetch by (auto simp: fetches_def Inc_pc_def)
  have a2: "effective stack ?m1 linst = Inr a"
    using effective_mem effective_cong [OF same] a(1) by simp
  obtain m2 where m2: "set_val ty (Get_rd linst) (ext n sx v) ?m1 = Inr m2"
    "writes ty (Get_rd linst) (ext n sx v mod 2 ^ width ty) ?m1 (Inc_pc m2)"
    using set_val_writes [of ?m1 ty "Get_rd linst" d "ext n sx v"] d regs by auto
  have s2: "exec_step H ?m1 = Inr (Running (Inc_pc m2))"
    using step_Brk [OF f2] mem_action(2) [OF form] opc(2) m2(1)
    by (simp add: load_handler_def a2 rd le_int_of_int ext_mod)
  have "mem (Inc_pc m2) = mem (rest (Inc_pc m2))" "mem ?m1 = mem (rest ?m1)" by (simp_all add: rest_def)
  with m2(2) have "mem (Inc_pc m2) = x" by (simp add: writes_def) (simp add: rest_def Inc_pc_def)
  moreover have "\<forall>b k. disjoint_range a n b k \<longrightarrow> mem_read x b k = mem_read (mem m) b k"
    using mem_write_frame [OF x] by simp
  ultimately show ?thesis using s1 s2 m2(2) regs by (intro exI [of _ ?m1] exI [of _ "Inc_pc m2"]) (simp add: writes_def)
qed

section \<open>Bounds of an access\<close>

lemma uint_abs32: "uint (abs32 x) = \<bar>sint x\<bar>"
proof (cases "sint x < 0")
  case True
  have "- (2 ^ 31) \<le> sint x" using sint_ge [of x] by simp
  then have "(- sint x) mod 2 ^ 32 = - sint x" using True by (intro mod_pos_pos_trivial) auto
  moreover have "uint (- x) = (- sint x) mod 2 ^ 32"
    using uint_word_mod [where 'w=32, of "- sint x"] by simp
  ultimately show ?thesis using True by (simp add: abs32_def)
next
  case False
  then have "uint x = sint x" using signed_N_uint [of x] sint_lt [of x] uint_lt2p [of x] by (auto simp: signed_N_def split: if_splits)
  with False show ?thesis by (simp add: abs32_def)
qed

text \<open>Where the base register points: a positive offset from the start of memory, any other from its end.\<close>

definition base_of :: "int \<Rightarrow> int \<Rightarrow> int" where
  "base_of sz ptr = (if 0 < ptr then ptr else sz + ptr)"

lemma Get_base_addr_eq:
  assumes "i32_get m r = Inr ptr" and "sta_p m = Some (uint (mem_size m))"
  shows "Get_base_addr r m =
    (if \<bar>sint ptr\<bar> < uint (mem_size m) then Inr (Some (base_of (uint (mem_size m)) (sint ptr))) else Inl Assertion)"
  using assms by (simp add: Get_base_addr_def word_less_def uint_abs32 base_of_def add_ofs_def Is_True_def)

text \<open>C22: the only check of a memory access is on the base register.  For a machine whose memory block has the size the machine
  records, a load fails with an assertion exactly when the absolute value of the base register is not below that size;
  otherwise the base lies between 1 and the size, and the access goes outside the block exactly when the immediate and
  the width take it there: nothing checks these.
\<close>

theorem load_bounds:
  assumes fetch: "fetches m inst" and form: "(sb, lb, False) \<in> set mem_forms" "(s, l, n, sx) \<in> set (mem_pairs ty)"
    and opc: "Get_opcode_l inst = 4 * (lb + l) + ty_num ty"
    and ptr: "i32_get m (Get_rs inst) = Inr ptr" and d: "reg_val m ty (Get_rd inst) = Inr d"
    and block: "mb_live (mem m)" "mb_len (mem m) = unat (mem_size m)" "sta_p m = Some (uint (mem_size m))"
  shows "let sz = uint (mem_size m); base = base_of sz (sint ptr); addr = base + sint (Get_imm inst) in
    if sz \<le> \<bar>sint ptr\<bar> then exec_step H m = Inl Assertion
    else 0 < base \<and> base \<le> sz \<and>
      (if 0 \<le> addr \<and> addr + int n \<le> sz then \<exists>m'. exec_step H m = Inr (Running m')
       else exec_step H m = Inl Out_of_block)"
proof -
  let ?sz = "uint (mem_size m)"
  have step: "exec_step H m = bindr (load_handler ty n sx False inst m) (\<lambda>m. Inr (Running (Inc_pc m)))"
    using step_Brk [OF fetch] mem_action(2) [OF form] opc by simp
  note base = Get_base_addr_eq [OF ptr block(3)]
  show ?thesis
  proof (cases "\<bar>sint ptr\<bar> < ?sz")
    case False
    then show ?thesis by (simp add: Let_def step load_handler_def effective_def base)
  next
    case True
    let ?a = "base_of ?sz (sint ptr) + sint (Get_imm inst)"
    have ok: "mem_ok (mem m) (Some ?a) n \<longleftrightarrow> 0 \<le> ?a \<and> ?a + int n \<le> ?sz"
      using block by (simp add: mem_ok_def uint_nat del: of_nat_unat)
    have eff: "effective False m inst = Inr (Some ?a)" using True by (simp add: effective_def base add_ofs_def)
    have "0 < base_of ?sz (sint ptr)" "base_of ?sz (sint ptr) \<le> ?sz" using True by (auto simp: base_of_def)
    moreover have "\<exists>m'. exec_step H m = Inr (Running m')" if "mem_ok (mem m) (Some ?a) n"
      using that set_val_writes [OF d] by (auto simp: step load_handler_def eff mem_read_def)
    moreover have "exec_step H m = Inl Out_of_block" if "\<not> mem_ok (mem m) (Some ?a) n"
      using that by (simp add: step load_handler_def eff mem_read_def)
    ultimately show ?thesis using True ok by (auto simp: Let_def)
  qed
qed

section \<open>Growing memory\<close>

lemma grow_action: "op_action 0x20 = Brk (op_h Memorygrow_am32_r_r)"
  by (simp add: op_lookup)

text \<open>C24: \<^verbatim>\<open>memorygrow\<close>.  When the memory is a whole number of pages and the sum of the old and requested pages is below
  65535, the instruction resizes the block to that many pages.  If the allocator refuses, -1 is written and nothing
  changes; if it grows the block in place, the new size in bytes is written (not the old number of pages), and the old
  bytes are kept; if it moves the block, the same value is written but the machine keeps the old pointer, and no access
  to memory succeeds any more.
\<close>

theorem memory_grow:
  assumes fetch: "fetches m inst" and opc: "Get_opcode_l inst = 0x20"
    and k: "i32_get m (Get_rs inst) = Inr k" and d: "i32_get m (Get_rd inst) = Inr d"
    and pages: "mem_size m = of_nat p * 65536" "p + unat k < 65535"
  defines "sz \<equiv> (p + unat k) * 65536"
  shows "\<exists>m'. exec_step H m = Inr (Running m') \<and> (case h_realloc H sz of
      Realloc_null \<Rightarrow> i32_get m' (Get_rd inst) = Inr (- 1) \<and> mem m' = mem m \<and> mem_size m' = mem_size m
    | Realloc_in_place \<Rightarrow> i32_get m' (Get_rd inst) = Inr (of_nat sz) \<and> mem m' = (mem m)\<lparr>mb_len := sz\<rparr> \<and>
        mem_size m' = of_nat sz
    | Realloc_moved \<Rightarrow> i32_get m' (Get_rd inst) = Inr (of_nat sz) \<and> (\<forall>a n. \<not> mem_ok (mem m') a n))"
proof -
  have sz: "sz < 2 ^ 32" "p * 65536 < 2 ^ 32" using pages(2) by (simp_all add: sz_def)
  have ms: "unat (mem_size m) = p * 65536" using pages(2) by (simp add: pages(1) unat_word_ariths unat_of_nat)
  have old: "mem_size m mod 65536 = 0" "mem_size m div 65536 = of_nat p"
    using pages(2) by (simp_all add: word_unat_eq_iff unat_mod unat_div ms unat_of_nat)
  have max: "UINT32_MAX div MEM_PAGE_SIZE = 65535" by (simp add: UINT32_MAX_def MEM_PAGE_SIZE_def)
  have "unat (k + of_nat p) = p + unat k" using pages(2) by (simp add: unat_word_ariths unat_of_nat)
  then have new: "k < 65535" "k + of_nat p < 65535" and tgt: "(k + of_nat p) * 65536 = of_nat sz"
    using pages(2) by (simp_all add: word_less_nat_alt word_unat_eq_iff unat_word_ariths unat_of_nat sz_def)
  have grown: "unat (of_nat sz :: u32) = sz" using sz by (simp add: unat_of_nat)
  then have cond: "mem_size m \<le> of_nat sz" "(of_nat sz :: u32) mod 65536 = 0" "\<not> (of_nat sz :: u32) < mem_size m"
    using ms by (simp_all add: word_le_nat_alt word_less_nat_alt word_unat_eq_iff unat_mod sz_def)
  have step: "exec_step H m = bindr (Memorygrow_am32_r_r H inst m) (\<lambda>m. Inr (Running (Inc_pc m)))"
    using fetch opc by (auto simp: fetches_def exec_step_def arr_at_def grow_action op_h_def)
  note folded = old [folded MEM_PAGE_SIZE_def] tgt [folded MEM_PAGE_SIZE_def] cond(2) [folded MEM_PAGE_SIZE_def]
  have grow: "Memorygrow_am32_r_r H inst m = bindr (Grow_memory H (of_nat sz) m) (\<lambda>(r, m). i32_set (Get_rd inst) r m)"
    using new by (simp add: Memorygrow_am32_r_r_def folded k max Let_def)
  have set: "\<exists>m''. i32_set (Get_rd inst) v m' = Inr m'' \<and> i32_get (Inc_pc m'') (Get_rd inst) = Inr v \<and>
      mem (Inc_pc m'') = mem m' \<and> mem_size (Inc_pc m'') = mem_size m'" if "reg_i32 m' = reg_i32 m" for v m'
    using d that by (auto simp: i32_set_def i32_get_def reg_set_def reg_get_def Inc_pc_def split: if_splits)
  show ?thesis
  proof (cases "h_realloc H sz")
    case Realloc_null
    with set [of m "- 1"] show ?thesis by (auto simp: step grow Grow_memory_def cond folded grown)
  next
    case Realloc_in_place
    with set [of "m\<lparr>mem := (mem m)\<lparr>mb_len := sz\<rparr>, mem_size := of_nat sz\<rparr>" "of_nat sz"] show ?thesis
      by (auto simp: step grow Grow_memory_def cond folded grown)
  next
    case Realloc_moved
    with set [of "m\<lparr>mem := (mem m)\<lparr>mb_live := False\<rparr>, mem_size := of_nat sz\<rparr>" "of_nat sz"] show ?thesis
      by (auto simp: step grow Grow_memory_def cond folded grown mem_ok_def split: option.splits)
  qed
qed

text \<open>Storing the byte \<^verbatim>\<open>0x80\<close> at address 104 and loading it with its sign.\<close>

definition ex_store_load :: uwasm_machine where
  "ex_store_load = (ex_regs 0x80 100 (am 0xa0 1 2 4))\<lparr>module := ex_module\<lparr>m_expanded_table := [am 0xa0 1 2 4, am 0x84 0 2 4]\<rparr>\<rparr>"

lemma ex_store_load:
  "x_pc (current ex_store_load) = Some 0" "m_expanded_table (module ex_store_load) = [am 0xa0 1 2 4, am 0x84 0 2 4]"
  "i32_get ex_store_load 1 = Inr 0x80" "i32_get ex_store_load 2 = Inr 100" "i32_get ex_store_load 0 = Inr 0"
  "mem_size ex_store_load = 65536" "mem ex_store_load = ex_memory"
  by (simp_all add: ex_store_load_def ex_regs_def ex_fresh_def i32_get_def reg_get_def REGISTER_def INITIAL_REG_SIZE_def)

lemma ex_store_load_vals: "reg_val ex_store_load T_i32 1 = Inr 0x80" "reg_val ex_store_load T_i32 0 = Inr 0"
  by (simp_all add: reg_val_def ex_store_load)

lemma am_members [simp]:
  "Get_opcode_l (am opc a b c) = opc" "Get_rd (am opc a b c) = a" "Get_rs (am opc a b c) = b" "Get_imm (am opc a b c) = c"
  by (simp_all add: am_def Get_opcode_l_def Get_rd_def Get_rs_def Get_imm_def)

theorem store_load_witness:
  "\<exists>m1 m2. exec_step ex_host ex_store_load = Inr (Running m1) \<and> exec_step ex_host m1 = Inr (Running m2) \<and>
    reg_val m2 T_i32 0 = Inr 0xffffff80"
proof -
  have "effective False ex_store_load (am 0xa0 1 2 4) = Inr (Some 104)"
    by (simp add: effective_def Get_base_addr_def ex_store_load abs32_def add_ofs_def)
  moreover have "mem_ok (mem ex_store_load) (Some 104) 1" by (simp add: ex_store_load mem_ok_def ex_memory_def)
  ultimately obtain m1 m2 where "exec_step ex_host ex_store_load = Inr (Running m1)"
    "exec_step ex_host m1 = Inr (Running m2)" "reg_val m2 T_i32 0 = Inr (ext 1 True 0x80 mod 2 ^ 32)"
    using store_load [of ex_store_load "am 0xa0 1 2 4" "am 0x84 0 2 4" "0x27" "0x20" False 1 1 1 True T_i32 "0x80" 0
        "Some 104" ex_host]
    by (auto simp: fetches_def ex_store_load arr_at_def mem_forms_def mem_pairs_def ty_num_def width_def
        ex_store_load_vals)
  then show ?thesis by (simp add: ext_def signed_N_def)
qed

lemma ex_regs_mem:
  "i32_get (ex_regs x y inst) 1 = Inr x" "i32_get (ex_regs x y inst) 2 = Inr y" "i32_get (ex_regs x y inst) 0 = Inr 0"
  "mem (ex_regs x y inst) = ex_memory" "mem_size (ex_regs x y inst) = 65536" "sta_p (ex_regs x y inst) = Some 65536"
  by (simp_all add: ex_regs_def ex_fresh_def i32_get_def reg_get_def REGISTER_def INITIAL_REG_SIZE_def)

text \<open>A 32-bit load at the last byte of memory passes the check and reads outside the block.\<close>

theorem load_bounds_witness:
  "exec_step ex_host (ex_regs 0 65535 (am 0x80 0 2 0)) = Inl Out_of_block"
  using load_bounds [OF ex_regs_facts(1), of "0x27" "0x20" 0 0 4 False T_i32 "am 0x80 0 2 0" 0 65535 65535 0 ex_host]
  by (simp add: mem_forms_def mem_pairs_def ty_num_def ex_regs_mem ex_regs_facts ex_memory_def Let_def base_of_def)

text \<open>Growing one page by one page.\<close>

theorem memory_grow_witness:
  "\<exists>m'. exec_step ex_host (ex_regs 1 2 (am 0x20 0 1 0)) = Inr (Running m') \<and> i32_get m' 0 = Inr 131072 \<and>
    mem_size m' = 131072"
  using memory_grow [OF ex_regs_facts(1), of "am 0x20 0 1 0" 1 2 1 0 1 ex_host]
  by (auto simp: ex_regs_mem ex_host_def)

end
