(* ===== verification/Wasm_Reader.thy ===== *)
theory Wasm_Reader
  imports U_Leb128 U_Inst
begin

text \<open>
  Reading WebAssembly instructions: the instruction table of \<^verbatim>\<open>src/wasm/winst_opcode_list.h\<close> and \<^verbatim>\<open>winst.cxx\<close>, the
  readers of \<^verbatim>\<open>reader.cxx\<close>, the maps from WebAssembly to uwasm opcodes (\<^verbatim>\<open>op_map.h\<close>, \<^verbatim>\<open>op_short_long_map.h\<close>,
  \<^verbatim>\<open>conv_map.cxx\<close>) and from wabt types to value types (\<^verbatim>\<open>type_enum.cxx\<close>).  A code pointer is a position in the
  buffer of the function body; the buffer may be longer than the body.
\<close>

section \<open>The instruction table\<close>

text \<open>One row per line of the list: enumerator, encoding, types of the two immediates, their number.\<close>

definition winst_opcode_list :: "(string \<times> u8 \<times> valtype \<times> valtype \<times> nat) list" where
  "winst_opcode_list =
    [(''Unreachable'', 0x00, I32, I32, 0), (''Nop'', 0x01, I32, I32, 0), (''Block'', 0x02, I32, I32, 1),
     (''Loop'', 0x03, I32, I32, 1), (''If'', 0x04, I32, I32, 1), (''Else'', 0x05, I32, I32, 0),
     (''Try'', 0x06, I32, I32, 0), (''Catch'', 0x07, I32, I32, 0), (''Throw'', 0x08, I32, I32, 0),
     (''Rethrow'', 0x09, I32, I32, 0), (''BrOnExn'', 0x0a, I32, I32, 0), (''End'', 0x0b, I32, I32, 0),
     (''Br'', 0x0c, I32, I32, 1), (''BrIf'', 0x0d, I32, I32, 1), (''BrTable'', 0x0e, I32, I32, 0),
     (''Return'', 0x0f, I32, I32, 0), (''Call'', 0x10, I32, I32, 1), (''CallIndirect'', 0x11, I32, I32, 2),
     (''ReturnCall'', 0x12, I32, I32, 0), (''ReturnCallIndirect'', 0x13, I32, I32, 0),
     (''Drop'', 0x1a, I32, I32, 0), (''Select'', 0x1b, I32, I32, 0), (''SelectT'', 0x1c, I32, I32, 0),
     (''LocalGet'', 0x20, I32, I32, 1), (''LocalSet'', 0x21, I32, I32, 1), (''LocalTee'', 0x22, I32, I32, 1),
     (''GlobalGet'', 0x23, I32, I32, 1), (''GlobalSet'', 0x24, I32, I32, 1), (''I32Load'', 0x28, I32, I32, 2),
     (''I64Load'', 0x29, I32, I32, 2), (''F32Load'', 0x2a, I32, I32, 2), (''F64Load'', 0x2b, I32, I32, 2),
     (''I32Load8S'', 0x2c, I32, I32, 2), (''I32Load8U'', 0x2d, I32, I32, 2),
     (''I32Load16S'', 0x2e, I32, I32, 2), (''I32Load16U'', 0x2f, I32, I32, 2),
     (''I64Load8S'', 0x30, I32, I32, 2), (''I64Load8U'', 0x31, I32, I32, 2),
     (''I64Load16S'', 0x32, I32, I32, 2), (''I64Load16U'', 0x33, I32, I32, 2),
     (''I64Load32S'', 0x34, I32, I32, 2), (''I64Load32U'', 0x35, I32, I32, 2),
     (''I32Store'', 0x36, I32, I32, 2), (''I64Store'', 0x37, I32, I32, 2), (''F32Store'', 0x38, I32, I32, 2),
     (''F64Store'', 0x39, I32, I32, 2), (''I32Store8'', 0x3a, I32, I32, 2),
     (''I32Store16'', 0x3b, I32, I32, 2), (''I64Store8'', 0x3c, I32, I32, 2),
     (''I64Store16'', 0x3d, I32, I32, 2), (''I64Store32'', 0x3e, I32, I32, 2),
     (''MemorySize'', 0x3f, I32, I32, 0), (''MemoryGrow'', 0x40, I32, I32, 1),
     (''I32Const'', 0x41, I32, I32, 1), (''I64Const'', 0x42, I64, I32, 1), (''F32Const'', 0x43, F32, I32, 1),
     (''F64Const'', 0x44, F64, I32, 1), (''I32Eqz'', 0x45, I32, I32, 0), (''I32Eq'', 0x46, I32, I32, 0),
     (''I32Ne'', 0x47, I32, I32, 0), (''I32LtS'', 0x48, I32, I32, 0), (''I32LtU'', 0x49, I32, I32, 0),
     (''I32GtS'', 0x4a, I32, I32, 0), (''I32GtU'', 0x4b, I32, I32, 0), (''I32LeS'', 0x4c, I32, I32, 0),
     (''I32LeU'', 0x4d, I32, I32, 0), (''I32GeS'', 0x4e, I32, I32, 0), (''I32GeU'', 0x4f, I32, I32, 0),
     (''I64Eqz'', 0x50, I32, I32, 0), (''I64Eq'', 0x51, I32, I32, 0), (''I64Ne'', 0x52, I32, I32, 0),
     (''I64LtS'', 0x53, I32, I32, 0), (''I64LtU'', 0x54, I32, I32, 0), (''I64GtS'', 0x55, I32, I32, 0),
     (''I64GtU'', 0x56, I32, I32, 0), (''I64LeS'', 0x57, I32, I32, 0), (''I64LeU'', 0x58, I32, I32, 0),
     (''I64GeS'', 0x59, I32, I32, 0), (''I64GeU'', 0x5a, I32, I32, 0), (''F32Eq'', 0x5b, I32, I32, 0),
     (''F32Ne'', 0x5c, I32, I32, 0), (''F32Lt'', 0x5d, I32, I32, 0), (''F32Gt'', 0x5e, I32, I32, 0),
     (''F32Le'', 0x5f, I32, I32, 0), (''F32Ge'', 0x60, I32, I32, 0), (''F64Eq'', 0x61, I32, I32, 0),
     (''F64Ne'', 0x62, I32, I32, 0), (''F64Lt'', 0x63, I32, I32, 0), (''F64Gt'', 0x64, I32, I32, 0),
     (''F64Le'', 0x65, I32, I32, 0), (''F64Ge'', 0x66, I32, I32, 0), (''I32Clz'', 0x67, I32, I32, 0),
     (''I32Ctz'', 0x68, I32, I32, 0), (''I32Popcnt'', 0x69, I32, I32, 0), (''I32Add'', 0x6a, I32, I32, 0),
     (''I32Sub'', 0x6b, I32, I32, 0), (''I32Mul'', 0x6c, I32, I32, 0), (''I32DivS'', 0x6d, I32, I32, 0),
     (''I32DivU'', 0x6e, I32, I32, 0), (''I32RemS'', 0x6f, I32, I32, 0), (''I32RemU'', 0x70, I32, I32, 0),
     (''I32And'', 0x71, I32, I32, 0), (''I32Or'', 0x72, I32, I32, 0), (''I32Xor'', 0x73, I32, I32, 0),
     (''I32Shl'', 0x74, I32, I32, 0), (''I32ShrS'', 0x75, I32, I32, 0), (''I32ShrU'', 0x76, I32, I32, 0),
     (''I32Rotl'', 0x77, I32, I32, 0), (''I32Rotr'', 0x78, I32, I32, 0), (''I64Clz'', 0x79, I32, I32, 0),
     (''I64Ctz'', 0x7a, I32, I32, 0), (''I64Popcnt'', 0x7b, I32, I32, 0), (''I64Add'', 0x7c, I32, I32, 0),
     (''I64Sub'', 0x7d, I32, I32, 0), (''I64Mul'', 0x7e, I32, I32, 0), (''I64DivS'', 0x7f, I32, I32, 0),
     (''I64DivU'', 0x80, I32, I32, 0), (''I64RemS'', 0x81, I32, I32, 0), (''I64RemU'', 0x82, I32, I32, 0),
     (''I64And'', 0x83, I32, I32, 0), (''I64Or'', 0x84, I32, I32, 0), (''I64Xor'', 0x85, I32, I32, 0),
     (''I64Shl'', 0x86, I32, I32, 0), (''I64ShrS'', 0x87, I32, I32, 0), (''I64ShrU'', 0x88, I32, I32, 0),
     (''I64Rotl'', 0x89, I32, I32, 0), (''I64Rotr'', 0x8a, I32, I32, 0), (''F32Abs'', 0x8b, I32, I32, 0),
     (''F32Neg'', 0x8c, I32, I32, 0), (''F32Ceil'', 0x8d, I32, I32, 0), (''F32Floor'', 0x8e, I32, I32, 0),
     (''F32Trunc'', 0x8f, I32, I32, 0), (''F32Nearest'', 0x90, I32, I32, 0), (''F32Sqrt'', 0x91, I32, I32, 0),
     (''F32Add'', 0x92, I32, I32, 0), (''F32Sub'', 0x93, I32, I32, 0), (''F32Mul'', 0x94, I32, I32, 0),
     (''F32Div'', 0x95, I32, I32, 0), (''F32Min'', 0x96, I32, I32, 0), (''F32Max'', 0x97, I32, I32, 0),
     (''F32Copysign'', 0x98, I32, I32, 0), (''F64Abs'', 0x99, I32, I32, 0), (''F64Neg'', 0x9a, I32, I32, 0),
     (''F64Ceil'', 0x9b, I32, I32, 0), (''F64Floor'', 0x9c, I32, I32, 0), (''F64Trunc'', 0x9d, I32, I32, 0),
     (''F64Nearest'', 0x9e, I32, I32, 0), (''F64Sqrt'', 0x9f, I32, I32, 0), (''F64Add'', 0xa0, I32, I32, 0),
     (''F64Sub'', 0xa1, I32, I32, 0), (''F64Mul'', 0xa2, I32, I32, 0), (''F64Div'', 0xa3, I32, I32, 0),
     (''F64Min'', 0xa4, I32, I32, 0), (''F64Max'', 0xa5, I32, I32, 0), (''F64Copysign'', 0xa6, I32, I32, 0),
     (''I32WrapI64'', 0xa7, I32, I32, 0), (''I32TruncF32S'', 0xa8, I32, I32, 0),
     (''I32TruncF32U'', 0xa9, I32, I32, 0), (''I32TruncF64S'', 0xaa, I32, I32, 0),
     (''I32TruncF64U'', 0xab, I32, I32, 0), (''I64ExtendI32S'', 0xac, I32, I32, 0),
     (''I64ExtendI32U'', 0xad, I32, I32, 0), (''I64TruncF32S'', 0xae, I32, I32, 0),
     (''I64TruncF32U'', 0xaf, I32, I32, 0), (''I64TruncF64S'', 0xb0, I32, I32, 0),
     (''I64TruncF64U'', 0xb1, I32, I32, 0), (''F32ConvertI32S'', 0xb2, I32, I32, 0),
     (''F32ConvertI32U'', 0xb3, I32, I32, 0), (''F32ConvertI64S'', 0xb4, I32, I32, 0),
     (''F32ConvertI64U'', 0xb5, I32, I32, 0), (''F32DemoteF64'', 0xb6, I32, I32, 0),
     (''F64ConvertI32S'', 0xb7, I32, I32, 0), (''F64ConvertI32U'', 0xb8, I32, I32, 0),
     (''F64ConvertI64S'', 0xb9, I32, I32, 0), (''F64ConvertI64U'', 0xba, I32, I32, 0),
     (''F64PromoteF32'', 0xbb, I32, I32, 0), (''I32ReinterpretF32'', 0xbc, I32, I32, 0),
     (''I64ReinterpretF64'', 0xbd, I32, I32, 0), (''F32ReinterpretI32'', 0xbe, I32, I32, 0),
     (''F64ReinterpretI64'', 0xbf, I32, I32, 0)]"

text \<open>The enumeration \<^verbatim>\<open>WINST_OPCODE\<close>.\<close>

definition WINST_OPCODE :: "string \<Rightarrow> u8 option" where
  "WINST_OPCODE e = map_of (map (\<lambda>(name, encode, im1, im2, numopr). (name, encode)) winst_opcode_list) e"

record wasm_inst =
  wi_name :: string
  wi_encode :: u8
  wi_size1 :: valtype
  wi_size2 :: valtype
  wi_numopr :: nat
  wi_pc :: nat

definition WASM_META_INFO :: "wasm_inst list" where
  "WASM_META_INFO = map (\<lambda>(name, encode, im1, im2, numopr).
    \<lparr>wi_name = name, wi_encode = encode, wi_size1 = im1, wi_size2 = im2, wi_numopr = numopr, wi_pc = 0\<rparr>)
    winst_opcode_list"

definition OPCODE_inst :: "u8 \<Rightarrow> wasm_inst res" where
  "OPCODE_inst opcode = (case find (\<lambda>i. wi_encode i = opcode) WASM_META_INFO of
      Some i \<Rightarrow> Inr i | None \<Rightarrow> Inl Assertion)"

section \<open>Reading operands\<close>

definition Read_uint8 :: "u8 list \<Rightarrow> nat \<Rightarrow> u8 res" where
  "Read_uint8 buf pc = arr_at buf pc"

text \<open>
  \<^verbatim>\<open>Read_leb128\<close> collects the slices in 32 bits: a slice shifted by 32 places or more has no defined value, and bits
  shifted out are lost.
\<close>

function read_leb :: "u8 list \<Rightarrow> nat \<Rightarrow> u64 \<Rightarrow> nat \<Rightarrow> u64 res" where
  "read_leb buf pc result offset =
    bindr (arr_at buf pc) (\<lambda>current.
    if 32 \<le> offset then Inl Shift_undefined
    else let result = result + ucast (push_bit offset (ucast (current AND 0x7f)) :: u32) in
      if drop_bit 7 current \<noteq> 0 then read_leb buf (pc + 1) result (offset + 7)
      else Inr result)"
  by pat_completeness auto
termination
  by (relation "measure (\<lambda>(buf, pc, result, offset). length buf - pc)") auto

declare read_leb.simps [simp del]

definition Read_leb128 :: "u8 list \<Rightarrow> nat \<Rightarrow> u64 res" where
  "Read_leb128 buf pc = read_leb buf pc 0 0"

function opr_size_leb :: "u8 list \<Rightarrow> nat \<Rightarrow> u8 \<Rightarrow> u8 res" where
  "opr_size_leb buf pc result =
    bindr (arr_at buf pc) (\<lambda>current.
    if drop_bit 7 current AND 1 \<noteq> 0 then opr_size_leb buf (pc + 1) (result + 1) else Inr result)"
  by pat_completeness auto
termination
  by (relation "measure (\<lambda>(buf, pc, result). length buf - pc)") auto

declare opr_size_leb.simps [simp del]

definition Read_opr_size_leb128 :: "u8 list \<Rightarrow> nat \<Rightarrow> u8 res" where
  "Read_opr_size_leb128 buf pc = opr_size_leb buf pc 1"

definition Read_signed_leb128 :: "u8 list \<Rightarrow> nat \<Rightarrow> u64 res" where
  "Read_signed_leb128 buf pc = bindr (decodeSLEB128 buf pc None) (\<lambda>r. Inr (fst r))"

text \<open>The \<open>n\<close> bytes at a position, as an integer of that size.\<close>

definition read_bytes :: "nat \<Rightarrow> u8 list \<Rightarrow> nat \<Rightarrow> u8 list res" where
  "read_bytes n buf pc = (if pc + n \<le> length buf then Inr (take n (drop pc buf)) else Inl Out_of_block)"

definition Read_const_value :: "u8 list \<Rightarrow> nat \<Rightarrow> valtype \<Rightarrow> u64 res" where
  "Read_const_value buf pc valty = (case valty of
      I32 \<Rightarrow> Read_signed_leb128 buf pc
    | I64 \<Rightarrow> Read_signed_leb128 buf pc
    | F32 \<Rightarrow> bindr (read_bytes 4 buf pc) (\<lambda>bs. Inr (le_word bs))
    | F64 \<Rightarrow> bindr (read_bytes 8 buf pc) (\<lambda>bs. Inr (le_word bs))
    | _ \<Rightarrow> Inl Assertion)"

section \<open>Reading instructions\<close>

definition Read_opr_size_valty :: "u8 list \<Rightarrow> nat \<Rightarrow> valtype \<Rightarrow> nat res" where
  "Read_opr_size_valty buf pc valty = (case valty of
      I32 \<Rightarrow> bindr (Read_opr_size_leb128 buf pc) (\<lambda>n. Inr (unat n))
    | I64 \<Rightarrow> bindr (Read_opr_size_leb128 buf pc) (\<lambda>n. Inr (unat n))
    | F32 \<Rightarrow> Inr 4
    | F64 \<Rightarrow> Inr 8
    | _ \<Rightarrow> Inl Assertion)"

definition W_BrTable :: u8 where "W_BrTable = 0x0e"

text \<open>The entries of a \<^verbatim>\<open>br_table\<close>: the position after them and their total size.\<close>

primrec br_table_sizes :: "nat \<Rightarrow> u8 list \<Rightarrow> nat \<Rightarrow> nat \<Rightarrow> (nat \<times> nat) res" where
  "br_table_sizes 0 buf pc n = Inr (pc, n)"
| "br_table_sizes (Suc k) buf pc n =
    bindr (Read_opr_size_leb128 buf pc) (\<lambda>next_opr_size.
    br_table_sizes k buf (pc + unat next_opr_size) (n + unat next_opr_size))"

definition Read_inst_size :: "wasm_inst \<Rightarrow> u8 list \<Rightarrow> nat \<Rightarrow> nat res" where
  "Read_inst_size inst buf pc =
    (let pc = pc + 1 in
     bindr (if 0 < wi_numopr inst then Read_opr_size_valty buf pc (wi_size1 inst) else Inr 0) (\<lambda>n.
     let pc = (if 0 < wi_numopr inst then pc + n else pc) in
     bindr (if 1 < wi_numopr inst then bindr (Read_opr_size_valty buf pc (wi_size2 inst)) (\<lambda>n2. Inr (n + n2)) else Inr n) (\<lambda>n.
     if wi_encode inst = W_BrTable
     then Is_True (wi_numopr inst = 0) (
       bindr (Read_leb128 buf pc) (\<lambda>vec_size.
       bindr (Read_opr_size_leb128 buf pc) (\<lambda>vec_size_field_len.
       bindr (br_table_sizes (unat (ucast vec_size :: u32)) buf (pc + unat vec_size_field_len) (n + unat vec_size_field_len))
         (\<lambda>(pc, n).
       bindr (Read_opr_size_leb128 buf pc) (\<lambda>next_opr_size.
       Inr (n + unat next_opr_size + 1))))))
     else Inr (n + 1))))"

lemma Read_inst_size_pos: "Read_inst_size inst buf pc = Inr n \<Longrightarrow> 0 < n"
  by (auto simp: Read_inst_size_def Let_def Is_True_def bindr_eq_Inr split: if_splits prod.splits)

definition Save_wasm_pc :: "nat \<Rightarrow> wasm_inst \<Rightarrow> wasm_inst res" where
  "Save_wasm_pc pc inst = Is_True (wi_numopr inst < 3) (Inr (inst\<lparr>wi_pc := pc\<rparr>))"

text \<open>Every instruction is at least one byte long, so reading ends.\<close>

function read_insts :: "u8 list \<Rightarrow> nat \<Rightarrow> nat \<Rightarrow> wasm_inst list res" where
  "read_insts buf end_buf pc =
    (if pc < end_buf
     then bindr (Read_uint8 buf pc) (\<lambda>opcode.
       bindr (OPCODE_inst opcode) (\<lambda>inst.
       bindr (Save_wasm_pc pc inst) (\<lambda>inst.
       bindr (Read_inst_size inst buf pc) (\<lambda>n.
       bindr (read_insts buf end_buf (pc + n)) (\<lambda>insts. Inr (inst # insts))))))
     else Inr [])"
  by pat_completeness auto
termination
  by (relation "measure (\<lambda>(buf, end_buf, pc). end_buf - pc)") (auto dest: Read_inst_size_pos)

declare read_insts.simps [simp del]

definition Read_insts :: "u8 list \<Rightarrow> nat \<Rightarrow> wasm_inst list res" where
  "Read_insts inst_buf buf_len = read_insts inst_buf buf_len 0"

section \<open>Opcode and type maps\<close>

text \<open>WebAssembly opcode, uwasm opcode, value type.\<close>

definition op_map :: "(string \<times> u8 \<times> u32 \<times> valtype) list" where
  "op_map =
    [(''Unreachable'', 0x00, 0x01, I32), (''Nop'', 0x01, 0x00, I32), (''Block'', 0x02, 0x04, I32),
     (''Loop'', 0x03, 0x04, I32), (''If'', 0x04, 0x0a, I32), (''Else'', 0x05, 0x04, I32),
     (''Try'', 0x06, 0x0a, I32), (''Rethrow'', 0x09, 0x0a, I32), (''BrOnExn'', 0x0a, 0x0a, I32),
     (''End'', 0x0b, 0x02, I32), (''Br'', 0x0c, 0x04, I32), (''BrIf'', 0x0d, 0x0b, I32),
     (''BrTable'', 0x0e, 0x01, I32), (''Return'', 0x0f, 0x02, I32), (''Call'', 0x10, 0x03, I32),
     (''CallIndirect'', 0x11, 0x05, I32), (''ReturnCall'', 0x12, 0x02, I32),
     (''ReturnCallIndirect'', 0x13, 0x02, I32), (''Drop'', 0x1a, 0x00, I32), (''Select'', 0x1b, 0x9a, I32),
     (''SelectT'', 0x1c, 0x9a, I32), (''LocalGet'', 0x20, 0x00, I32), (''LocalSet'', 0x21, 0x12, I32),
     (''LocalTee'', 0x22, 0x12, I32), (''GlobalGet'', 0x23, 0xc1, I32), (''GlobalSet'', 0x24, 0xc2, I32),
     (''I32Load'', 0x28, 0x20, I32), (''I64Load'', 0x29, 0x20, I64), (''F32Load'', 0x2a, 0x20, F32),
     (''F64Load'', 0x2b, 0x20, F64), (''I32Load8S'', 0x2c, 0x21, I32), (''I32Load8U'', 0x2d, 0x22, I32),
     (''I32Load16S'', 0x2e, 0x23, I32), (''I32Load16U'', 0x2f, 0x24, I32), (''I64Load8S'', 0x30, 0x21, I64),
     (''I64Load8U'', 0x31, 0x22, I64), (''I64Load16S'', 0x32, 0x23, I64), (''I64Load16U'', 0x33, 0x24, I64),
     (''I64Load32S'', 0x34, 0x25, I64), (''I64Load32U'', 0x35, 0x26, I64), (''I32Store'', 0x36, 0x27, I32),
     (''I64Store'', 0x37, 0x27, I64), (''F32Store'', 0x38, 0x27, F32), (''F64Store'', 0x39, 0x27, F64),
     (''I32Store8'', 0x3a, 0x28, I32), (''I32Store16'', 0x3b, 0x29, I32), (''I64Store8'', 0x3c, 0x28, I64),
     (''I64Store16'', 0x3d, 0x29, I64), (''I64Store32'', 0x3e, 0x2a, I64), (''MemorySize'', 0x3f, 0x07, I32),
     (''MemoryGrow'', 0x40, 0x08, I32), (''I32Const'', 0x41, 0x80, I32), (''I64Const'', 0x42, 0x81, I64),
     (''F32Const'', 0x43, 0x80, F32), (''F64Const'', 0x44, 0x81, F64), (''I32Eqz'', 0x45, 0x3f, I32),
     (''I32Eq'', 0x46, 0xa6, I32), (''I32Ne'', 0x47, 0xa7, I32), (''I32LtS'', 0x48, 0xa8, I32),
     (''I32LtU'', 0x49, 0xa9, I32), (''I32GtS'', 0x4a, 0xaa, I32), (''I32GtU'', 0x4b, 0xab, I32),
     (''I32LeS'', 0x4c, 0xac, I32), (''I32LeU'', 0x4d, 0xad, I32), (''I32GeS'', 0x4e, 0xae, I32),
     (''I32GeU'', 0x4f, 0xaf, I32), (''I64Eqz'', 0x50, 0x3f, I64), (''I64Eq'', 0x51, 0xa6, I64),
     (''I64Ne'', 0x52, 0xa7, I64), (''I64LtS'', 0x53, 0xa8, I64), (''I64LtU'', 0x54, 0xa9, I64),
     (''I64GtS'', 0x55, 0xaa, I64), (''I64GtU'', 0x56, 0xab, I64), (''I64LeS'', 0x57, 0xac, I64),
     (''I64LeU'', 0x58, 0xad, I64), (''I64GeS'', 0x59, 0xae, I64), (''I64GeU'', 0x5a, 0xaf, I64),
     (''F32Eq'', 0x5b, 0xa6, F32), (''F32Ne'', 0x5c, 0xa7, F32), (''F32Lt'', 0x5d, 0xa8, F32),
     (''F32Gt'', 0x5e, 0xaa, F32), (''F32Le'', 0x5f, 0xac, F32), (''F32Ge'', 0x60, 0xae, F32),
     (''F64Eq'', 0x61, 0xa6, F64), (''F64Ne'', 0x62, 0xa7, F64), (''F64Lt'', 0x63, 0xa8, F64),
     (''F64Gt'', 0x64, 0xaa, F64), (''F64Le'', 0x65, 0xac, F64), (''F64Ge'', 0x66, 0xae, F64),
     (''I32Clz'', 0x67, 0xc0, I32), (''I32Ctz'', 0x68, 0xc0, I32), (''I32Popcnt'', 0x69, 0xc0, I32),
     (''I32Add'', 0x6a, 0xb0, I32), (''I32Sub'', 0x6b, 0xb1, I32), (''I32Mul'', 0x6c, 0xb2, I32),
     (''I32DivS'', 0x6d, 0xb3, I32), (''I32DivU'', 0x6e, 0xb4, I32), (''I32RemS'', 0x6f, 0xb5, I32),
     (''I32RemU'', 0x70, 0xb6, I32), (''I32And'', 0x71, 0xb7, I32), (''I32Or'', 0x72, 0xb8, I32),
     (''I32Xor'', 0x73, 0xb9, I32), (''I32Shl'', 0x74, 0xba, I32), (''I32ShrS'', 0x75, 0xbb, I32),
     (''I32ShrU'', 0x76, 0xbc, I32), (''I32Rotl'', 0x77, 0x38, I32), (''I32Rotr'', 0x78, 0x39, I32),
     (''I64Clz'', 0x79, 0xc0, I64), (''I64Ctz'', 0x7a, 0xc0, I64), (''I64Popcnt'', 0x7b, 0xc0, I64),
     (''I64Add'', 0x7c, 0xb0, I64), (''I64Sub'', 0x7d, 0xb1, I64), (''I64Mul'', 0x7e, 0xb2, I64),
     (''I64DivS'', 0x7f, 0xb3, I64), (''I64DivU'', 0x80, 0xb4, I64), (''I64RemS'', 0x81, 0xb5, I64),
     (''I64RemU'', 0x82, 0xb6, I64), (''I64And'', 0x83, 0xb7, I64), (''I64Or'', 0x84, 0xb8, I64),
     (''I64Xor'', 0x85, 0xb9, I64), (''I64Shl'', 0x86, 0xba, I64), (''I64ShrS'', 0x87, 0xbb, I64),
     (''I64ShrU'', 0x88, 0xbc, I64), (''I64Rotl'', 0x89, 0x38, I64), (''I64Rotr'', 0x8a, 0x39, I64),
     (''F32Abs'', 0x8b, 0xc0, F32), (''F32Neg'', 0x8c, 0x43, F32), (''F32Ceil'', 0x8d, 0x40, F32),
     (''F32Floor'', 0x8e, 0x41, F32), (''F32Trunc'', 0x8f, 0xc0, F32), (''F32Nearest'', 0x90, 0xc0, F32),
     (''F32Sqrt'', 0x91, 0x42, F32), (''F32Add'', 0x92, 0xb0, F32), (''F32Sub'', 0x93, 0xb1, F32),
     (''F32Mul'', 0x94, 0xb2, F32), (''F32Div'', 0x95, 0xb3, F32), (''F32Min'', 0x96, 0xbd, F32),
     (''F32Max'', 0x97, 0xb1e, F32), (''F32Copysign'', 0x98, 0xc0, F32), (''F64Abs'', 0x99, 0xc0, F64),
     (''F64Neg'', 0x9a, 0x43, F64), (''F64Ceil'', 0x9b, 0x40, F64), (''F64Floor'', 0x9c, 0x41, F64),
     (''F64Trunc'', 0x9d, 0xc0, F64), (''F64Nearest'', 0x9e, 0xc0, F64), (''F64Sqrt'', 0x9f, 0x42, F64),
     (''F64Add'', 0xa0, 0xb0, F64), (''F64Sub'', 0xa1, 0xb1, F64), (''F64Mul'', 0xa2, 0xb2, F64),
     (''F64Div'', 0xa3, 0xb3, F64), (''F64Min'', 0xa4, 0xbd, F64), (''F64Max'', 0xa5, 0xb1e, F64),
     (''F64Copysign'', 0xa6, 0xc0, F64), (''I32WrapI64'', 0xa7, 0xc0, I32),
     (''I32TruncF32S'', 0xa8, 0xc0, I32), (''I32TruncF32U'', 0xa9, 0xc0, I32),
     (''I32TruncF64S'', 0xaa, 0xc0, I32), (''I32TruncF64U'', 0xab, 0xc0, I32),
     (''I64ExtendI32S'', 0xac, 0xc0, I64), (''I64ExtendI32U'', 0xad, 0xc0, I64),
     (''I64TruncF32S'', 0xae, 0xc0, I64), (''I64TruncF32U'', 0xaf, 0xc0, I64),
     (''I64TruncF64S'', 0xb0, 0xc0, I64), (''I64TruncF64U'', 0xb1, 0xc0, I64),
     (''F32ConvertI32S'', 0xb2, 0xc0, F32), (''F32ConvertI32U'', 0xb3, 0xc0, F32),
     (''F32ConvertI64S'', 0xb4, 0xc0, F32), (''F32ConvertI64U'', 0xb5, 0xc0, F32),
     (''F32DemoteF64'', 0xb6, 0xc0, F32), (''F64ConvertI32S'', 0xb7, 0xc0, F64),
     (''F64ConvertI32U'', 0xb8, 0xc0, F64), (''F64ConvertI64S'', 0xb9, 0xc0, F64),
     (''F64ConvertI64U'', 0xba, 0xc0, F64), (''F64PromoteF32'', 0xbb, 0xc0, F64),
     (''I32ReinterpretF32'', 0xbc, 0xc0, I32), (''I64ReinterpretF64'', 0xbd, 0xc0, I64),
     (''F32ReinterpretI32'', 0xbe, 0xc0, F32), (''F64ReinterpretI64'', 0xbf, 0xc0, F64)]"

text \<open>\<^verbatim>\<open>U_OPC_TY_PAIR\<close>: an opcode and a value type, and the address mode of the opcode.\<close>

record u_opc_ty_pair =
  up_opcode :: u32
  up_valty :: valtype

definition Get_opc_tyam :: "u32 \<Rightarrow> ty_am res" where
  "Get_opc_tyam opc = arr_at UWINST_TY_AM (unat opc)"

definition Get_ty_am :: "u_opc_ty_pair \<Rightarrow> ty_am res" where
  "Get_ty_am u = arr_at UWINST_TY_AM (unat (up_opcode u))"

definition UOPCODE_inst :: "u32 \<Rightarrow> valtype \<Rightarrow> u_opc_ty_pair" where
  "UOPCODE_inst opcode type = \<lparr>up_opcode = opcode, up_valty = type\<rparr>"

definition UOPCODE_from_wasm :: "u8 \<Rightarrow> u_opc_ty_pair res" where
  "UOPCODE_from_wasm opcode = (case find (\<lambda>(name, wasm_op, uop, ty). wasm_op = opcode) op_map of
      Some (name, wasm_op, uop, ty) \<Rightarrow> Inr \<lparr>up_opcode = uop, up_valty = ty\<rparr>
    | None \<Rightarrow> Inl Assertion)"

definition UWASM_OP_SL_MAP :: "(u32 \<times> u32) list" where
  "UWASM_OP_SL_MAP =
    [(0x20, 0x8f), (0x21, 0x90), (0x22, 0x91), (0x23, 0x92), (0x24, 0x93), (0x25, 0x94), (0x26, 0x95),
     (0x27, 0x96), (0x28, 0x97), (0x29, 0x98), (0x2a, 0x99), (0x2b, 0x9b), (0x2c, 0x9c), (0x2d, 0x9d),
     (0x2e, 0x9e), (0x2f, 0x9f), (0x30, 0xa0), (0x31, 0xa1), (0x32, 0xa2), (0x33, 0xa3), (0x34, 0xa4),
     (0x35, 0xa5)]"

definition Conv_to_long_opcode :: "u32 \<Rightarrow> u32 res" where
  "Conv_to_long_opcode short_opcode = (case find (\<lambda>(s, l). s = short_opcode) UWASM_OP_SL_MAP of
      Some (s, l) \<Rightarrow> Inr l | None \<Rightarrow> Inl Assertion)"

definition WINST_OPCODE_BUILTIN :: "(u8 \<times> u32) list" where
  "WINST_OPCODE_BUILTIN =
    [(0x01, 0x00), (0xac, 0x01), (0xad, 0x02), (0xa7, 0x03), (0xb7, 0x04), (0xb8, 0x05), (0xab, 0x06),
     (0xbd, 0x07), (0xbc, 0x08), (0xbf, 0x09), (0xbe, 0x0a), (0x99, 0x0b), (0xaa, 0x0b), (0x00, 0x7f)]"

definition Conv_wasm_opc_to_builtin :: "u8 \<Rightarrow> u32 res" where
  "Conv_wasm_opc_to_builtin opc = (case find (\<lambda>(w, b). w = opc) WINST_OPCODE_BUILTIN of
      Some (w, b) \<Rightarrow> Inr b | None \<Rightarrow> Inl Assertion)"

definition OFFSET_S_MAX :: u64 where "OFFSET_S_MAX = push_bit 8 1 - 1"
definition OFFSET_M_MAX :: u64 where "OFFSET_M_MAX = push_bit 22 1 - 1"
definition OFFSET_L_MAX :: u64 where "OFFSET_L_MAX = push_bit 32 1 - 1"
definition REG_S_MAX :: u64 where "REG_S_MAX = push_bit 8 1 - 1"
definition REG_L_MAX :: u64 where "REG_L_MAX = push_bit 10 1 - 1"

text \<open>The enumerators of \<^verbatim>\<open>WABT_ENUM\<close> that the sources name, as 32-bit values.\<close>

definition WABT_I32 :: u32 where "WABT_I32 = - 0x01"
definition WABT_I64 :: u32 where "WABT_I64 = - 0x02"
definition WABT_F32 :: u32 where "WABT_F32 = - 0x03"
definition WABT_F64 :: u32 where "WABT_F64 = - 0x04"
definition WABT_Void :: u32 where "WABT_Void = - 0x40"

definition wabt_op_tab :: "(u32 \<times> valtype) list" where
  "wabt_op_tab = [(WABT_I32, I32), (WABT_I64, I64), (WABT_F32, F32), (WABT_F64, F64)]"

definition Conv_wabt_ty :: "u32 \<Rightarrow> valtype res" where
  "Conv_wabt_ty wabt_enum = (case find (\<lambda>(w, t). w = wabt_enum) wabt_op_tab of
      Some (w, t) \<Rightarrow> Inr t | None \<Rightarrow> Inl Assertion)"

definition Conv_ty_wabt :: "valtype \<Rightarrow> u32 res" where
  "Conv_ty_wabt valty = (case find (\<lambda>(w, t). t = valty) wabt_op_tab of
      Some (w, t) \<Rightarrow> Inr w | None \<Rightarrow> Inl Assertion)"

end
