(* ===== verification/Reader_Props.thy ===== *)
theory Reader_Props
  imports Wasm_Reader
begin

text \<open>
  What the reader of WebAssembly code computes: its LEB128 reader against the one of \<^verbatim>\<open>u_leb128.h\<close>, and a whole
  function body against the instructions it encodes.
\<close>

section \<open>LEB128 operands\<close>

lemma u32_slice:
  fixes v x :: u64
  assumes "s < 32" and "take_bit s v = v"
  shows "take_bit 32 v + ucast (push_bit s (ucast x) :: u32) = take_bit 32 (v + push_bit s x)"
proof -
  have low: "s \<le> n \<Longrightarrow> \<not> bit v n" for n using assms(2) by (metis bit_take_bit_iff linorder_not_less)
  then have disj: "v AND push_bit s x = 0"
    by (intro bit_word_eqI) (auto simp: bit_simps)
  have "take_bit 32 v AND ucast (push_bit s (ucast x) :: u32) = 0"
    using low by (intro bit_word_eqI) (auto simp: bit_simps)
  then have "take_bit 32 v + ucast (push_bit s (ucast x) :: u32) = take_bit 32 v OR ucast (push_bit s (ucast x) :: u32)"
    by (simp add: disjunctive_add_eq_or)
  also have "\<dots> = take_bit 32 (v OR push_bit s x)"
    by (rule bit_word_eqI) (auto simp: bit_simps)
  also have "v OR push_bit s x = v + push_bit s x" using disj by (simp add: disjunctive_add_eq_or)
  finally show ?thesis .
qed

lemma slice_below:
  fixes v :: u64
  assumes "take_bit s v = v"
  shows "take_bit (s + 7) (v + push_bit s (ucast (b AND 0x7f :: u8))) = v + push_bit s (ucast (b AND 0x7f))"
proof -
  have low: "s \<le> n \<Longrightarrow> \<not> bit v n" for n using assms by (metis bit_take_bit_iff linorder_not_less)
  then have top: "bit v n \<Longrightarrow> n < s + 7" for n by (meson le_add1 linorder_not_less order_trans)
  have "v AND push_bit s (ucast (b AND 0x7f)) = 0" using low by (intro bit_word_eqI) (auto simp: bit_simps)
  then have "v + push_bit s (ucast (b AND 0x7f)) = v OR push_bit s (ucast (b AND 0x7f))" by (simp add: disjunctive_add_eq_or)
  then show ?thesis using top
    by (intro bit_word_eqI, simp only: bit_take_bit_iff bit_or_iff bit_push_bit_iff bit_ucast_iff bit_and_iff leb_masks) (auto simp: not_le)
qed

lemma continues_iff: "drop_bit 7 (b::u8) \<noteq> 0 \<longleftrightarrow> 128 \<le> b" "drop_bit 7 b AND 1 \<noteq> 0 \<longleftrightarrow> 128 \<le> b"
proof -
  have "bit b (7 + n) \<longleftrightarrow> n = 0 \<and> bit b 7" for n using bit_imp_le_length [of b "7 + n"] by (cases n) auto
  then have "drop_bit 7 b = of_bool (bit b 7)"
    by (intro bit_word_eqI) (auto simp: bit_simps)
  then show "drop_bit 7 b \<noteq> 0 \<longleftrightarrow> 128 \<le> b" "drop_bit 7 b AND 1 \<noteq> 0 \<longleftrightarrow> 128 \<le> b"
    by (simp_all add: leb_continues)
qed

lemma ucast_u8: "ucast (ucast (b::u8) :: u64) = (ucast b :: u32)"
  by (rule bit_word_eqI) (auto simp: bit_simps)

lemma read_leb_step:
  assumes "arr_at buf p = Inr b"
  shows "s < 32 \<Longrightarrow> read_leb buf p r s =
      (let r = r + ucast (push_bit s (ucast (b AND 0x7f)) :: u32) in
       if 128 \<le> b then read_leb buf (p + 1) r (s + 7) else Inr r)"
    and "32 \<le> s \<Longrightarrow> read_leb buf p r s = Inl Shift_undefined"
    and "opr_size_leb buf p n = (if 128 \<le> b then opr_size_leb buf (p + 1) (n + 1) else Inr n)"
  using assms continues_iff [of b] by (simp_all add: Let_def read_leb.simps [of buf p] opr_size_leb.simps [of buf p] arr_at_def)

lemma uleb_dec_unfold:
  assumes "uleb_dec buf None orig p v s = Inr (V, n, None)"
  obtains b where "arr_at buf p = Inr b" and "s < 64"
    and "(if 128 \<le> b then uleb_dec buf None orig (p + 1) (v + push_bit s (ucast (b AND 0x7f))) (s + 7)
      else Inr (v + push_bit s (ucast (b AND 0x7f)), p + 1 - orig, None)) = Inr (V, n, None)"
  using assms by (subst (asm) uleb_dec.simps) (auto simp: Let_def split: if_splits)

lemma read_leb_dec:
  assumes "uleb_dec buf None orig p v s = Inr (V, n, None)" and "take_bit s v = v" and "orig \<le> p" and "s = 7 * (p - orig)"
  shows "read_leb buf p (take_bit 32 v) s = (if n \<le> 5 then Inr (take_bit 32 V) else Inl Shift_undefined) \<and>
    opr_size_leb buf p r = Inr (r + of_nat (n + orig - p - 1)) \<and> p < n + orig"
  using assms
proof (induction "length buf - p" arbitrary: p v s r rule: less_induct)
  case less
  obtain b where b: "arr_at buf p = Inr b"
    and dec: "(if 128 \<le> b then uleb_dec buf None orig (p + 1) (v + push_bit s (ucast (b AND 0x7f))) (s + 7)
      else Inr (v + push_bit s (ucast (b AND 0x7f)), p + 1 - orig, None)) = Inr (V, n, None)"
    using uleb_dec_unfold [OF less.prems(1)] by blast
  let ?v = "v + push_bit s (ucast (b AND 0x7f))"
  have add: "take_bit 32 v + ucast (push_bit s (ucast (b AND 0x7f)) :: u32) = take_bit 32 ?v" if "s < 32"
    using u32_slice [OF that less.prems(2), of "ucast (b AND 0x7f)"] by (simp add: ucast_u8)
  show ?case
  proof (cases "128 \<le> b")
    case True
    have "p < length buf" using b by (simp add: arr_at_def split: if_splits)
    then have IH: "read_leb buf (p + 1) (take_bit 32 ?v) (s + 7) = (if n \<le> 5 then Inr (take_bit 32 V) else Inl Shift_undefined) \<and>
        opr_size_leb buf (p + 1) (r + 1) = Inr (r + 1 + of_nat (n + orig - (p + 1) - 1)) \<and> p + 1 < n + orig"
      by (intro less.hyps) (use True dec slice_below [OF less.prems(2), of b] less.prems(3,4) in auto)
    have "n + orig - p - 1 = Suc (n + orig - (p + 1) - 1)" using IH by linarith
    then have cnt: "r + 1 + of_nat (n + orig - (p + 1) - 1) = r + of_nat (n + orig - p - 1)" by simp
    have "5 < n" if "32 \<le> s" using that less.prems(3,4) IH by linarith
    with IH True add cnt read_leb_step [OF b] show ?thesis by (cases "s < 32") (auto simp: Let_def)
  next
    case False
    then have V: "V = ?v" "n = p + 1 - orig" using dec by auto
    then have "n \<le> 5 \<longleftrightarrow> s < 32" using less.prems(3,4) by linarith
    with V False add less.prems(3) read_leb_step [OF b] show ?thesis by (cases "s < 32") (auto simp: Let_def)
  qed
qed

lemma read_agrees:
  assumes "decodeULEB128 buf pc None = Inr (V, n, None)"
  shows "Read_leb128 buf pc = (if n \<le> 5 then Inr (take_bit 32 V) else Inl Shift_undefined) \<and>
    Read_opr_size_leb128 buf pc = Inr (of_nat n)"
proof -
  have "read_leb buf pc (take_bit 32 0) 0 = (if n \<le> 5 then Inr (take_bit 32 V) else Inl Shift_undefined) \<and>
      opr_size_leb buf pc 1 = Inr (1 + of_nat (n + pc - pc - 1)) \<and> pc < n + pc"
    by (rule read_leb_dec) (use assms in \<open>simp_all add: decodeULEB128_def\<close>)
  moreover have "1 + of_nat (n - 1) = (of_nat n :: u8)" if "0 < n" using that by (cases n) auto
  ultimately show ?thesis by (simp add: Read_leb128_def Read_opr_size_leb128_def)
qed

text \<open>C28: \<^verbatim>\<open>Read_leb128\<close> agrees with the decoder of \<^verbatim>\<open>u_leb128.h\<close> on every operand of at most five bytes: the value is that
  of \<^verbatim>\<open>decodeULEB128\<close> without the bits above the 32nd, and \<^verbatim>\<open>Read_opr_size_leb128\<close> is the number of bytes decoded.
  A longer operand makes it shift a 32-bit integer by its width or more, which is undefined.
\<close>

theorem Read_leb128_agrees:
  assumes "decodeULEB128 buf pc None = Inr (V, n, None)"
  shows "Read_leb128 buf pc = (if n \<le> 5 then Inr (take_bit 32 V) else Inl Shift_undefined) \<and>
    Read_opr_size_leb128 buf pc = Inr (of_nat n)"
  using assms by (rule read_agrees)

theorem Read_leb128_agrees_witness:
  "Read_leb128 [0xe5, 0x8e, 0x26] 0 = Inr 624485 \<and> Read_leb128 [0x80, 0x80, 0x80, 0x80, 0x80, 0] 0 = Inl Shift_undefined"
proof -
  have "decodeULEB128 [0xe5, 0x8e, 0x26] 0 None = Inr (624485, 3, None)"
    "decodeULEB128 [0x80, 0x80, 0x80, 0x80, 0x80, 0] 0 None = Inr (0, 6, None)"
    by code_simp+
  then show ?thesis
    using Read_leb128_agrees [of "[0xe5, 0x8e, 0x26]" 0 624485 3] Read_leb128_agrees [of "[0x80, 0x80, 0x80, 0x80, 0x80, 0]" 0 0 6]
    by (simp add: take_bit_eq_mod)
qed

section \<open>Instruction sequences\<close>

text \<open>
  An instruction of a function body: an opcode with its immediates, or a \<^verbatim>\<open>br_table\<close> with its labels and default label.
  Integer immediates are LEB128 strings of any length a byte can count, floating-point ones four or eight bytes.
\<close>

datatype winst = Plain u8 "u8 list list" | Br_table "u32 list" u32

definition leb_string :: "u8 list \<Rightarrow> bool" where
  "leb_string bs \<longleftrightarrow> bs \<noteq> [] \<and> list_all (\<lambda>b. 128 \<le> b) (butlast bs) \<and> \<not> 128 \<le> last bs \<and> length bs < 256"

definition imm_ok :: "valtype \<Rightarrow> u8 list \<Rightarrow> bool" where
  "imm_ok ty bs = (case ty of I32 \<Rightarrow> leb_string bs | I64 \<Rightarrow> leb_string bs | F32 \<Rightarrow> length bs = 4 | F64 \<Rightarrow> length bs = 8
    | VALTY_UNKNOWN \<Rightarrow> False)"

definition row_of :: "u8 \<Rightarrow> wasm_inst" where
  "row_of opc = projr (OPCODE_inst opc)"

definition winst_opcode :: "winst \<Rightarrow> u8" where
  "winst_opcode w = (case w of Plain opc imms \<Rightarrow> opc | Br_table ls d \<Rightarrow> W_BrTable)"

definition winst_bytes :: "winst \<Rightarrow> u8 list" where
  "winst_bytes w = (case w of
      Plain opc imms \<Rightarrow> opc # concat imms
    | Br_table ls d \<Rightarrow> W_BrTable # uleb_bytes (of_nat (length ls)) 0 @ concat (map (\<lambda>l. uleb_bytes (ucast l) 0) (ls @ [d])))"

definition winst_ok :: "winst \<Rightarrow> bool" where
  "winst_ok w = (case w of
      Plain opc imms \<Rightarrow> (\<exists>row. OPCODE_inst opc = Inr row) \<and> opc \<noteq> W_BrTable \<and>
        list_all2 imm_ok (take (wi_numopr (row_of opc)) [wi_size1 (row_of opc), wi_size2 (row_of opc)]) imms
    | Br_table ls d \<Rightarrow> length ls < 2 ^ 32)"

text \<open>The instructions the reader must find, each with the position of its opcode.\<close>

primrec insts_at :: "nat \<Rightarrow> winst list \<Rightarrow> wasm_inst list" where
  "insts_at p [] = []"
| "insts_at p (w # ws) = (row_of (winst_opcode w))\<lparr>wi_pc := p\<rparr> # insts_at (p + length (winst_bytes w)) ws"

lemma opr_size_string:
  "list_all (\<lambda>b. 128 \<le> b) bs \<Longrightarrow> \<not> 128 \<le> b \<Longrightarrow>
    opr_size_leb (pre @ bs @ b # post) (length pre) r = Inr (r + of_nat (length bs))"
proof (induction bs arbitrary: pre r)
  case Nil
  then show ?case by (subst read_leb_step(3) [where b = b]) simp_all
next
  case (Cons a bs)
  have "opr_size_leb ((pre @ [a]) @ bs @ b # post) (length (pre @ [a])) (r + 1) = Inr (r + 1 + of_nat (length bs))"
    by (rule Cons.IH) (use Cons.prems in simp_all)
  with Cons.prems(1) show ?case by (subst read_leb_step(3) [where b = a]) (simp_all add: ac_simps)
qed

lemma Read_opr_size_string:
  assumes "leb_string bs" shows "Read_opr_size_leb128 (pre @ bs @ post) (length pre) = Inr (of_nat (length bs))"
proof -
  have bs: "bs = butlast bs @ [last bs]" using assms by (simp add: leb_string_def)
  have "opr_size_leb (pre @ butlast bs @ last bs # post) (length pre) 1 = Inr (1 + of_nat (length (butlast bs)))"
    by (rule opr_size_string) (use assms in \<open>auto simp: leb_string_def\<close>)
  moreover have "(1 :: u8) + of_nat (length (butlast bs)) = of_nat (length bs)"
    using arg_cong [OF bs, of length] by simp
  ultimately show ?thesis using bs by (metis (no_types, lifting) Read_opr_size_leb128_def append_assoc append_Cons append_Nil)
qed

lemma unat_of_nat_u8: "n < 256 \<Longrightarrow> unat (of_nat n :: u8) = n"
  by (simp add: unat_of_nat)

lemma opr_size_imm:
  "imm_ok ty bs \<Longrightarrow> Read_opr_size_valty (pre @ bs @ post) (length pre) ty = Inr (length bs)"
  by (cases ty) (auto simp: imm_ok_def Read_opr_size_valty_def Read_opr_size_string unat_of_nat_u8 leb_string_def)

lemma ucast_u32_less: "(ucast (l::u32) :: u64) < 2 ^ 32"
  using unsigned_less [of l] by (simp add: word_less_nat_alt unat_ucast_u64)

lemma uleb_loop_count:
  "uleb_loop v c 0 = (bs, c') \<Longrightarrow> v = drop_bit (7 * c) V \<Longrightarrow> drop_bit (7 * k) V = 0 \<Longrightarrow> c < k \<Longrightarrow> c' \<le> k"
proof (induction "unat v" arbitrary: v c bs c' rule: less_induct)
  case less
  show ?case
  proof (cases "drop_bit 7 v = 0")
    case True
    with less.prems show ?thesis by (auto simp: uleb_loop_last)
  next
    case False
    have v': "drop_bit 7 v = drop_bit (7 * (c + 1)) V" using less.prems(2) by (simp add: add.commute)
    obtain bs1 c1 where r: "uleb_loop (drop_bit 7 v) (c + 1) 0 = (bs1, c1)" by fastforce
    have "c + 1 \<noteq> k" using False v' less.prems(3) by auto
    then have "c1 \<le> k" using less.hyps [OF unat_drop_7 [OF False] r v' less.prems(3)] less.prems(4) by simp
    with less.prems(1) False r show ?thesis by (simp add: uleb_loop_more)
  qed
qed

lemma Read_uleb:
  assumes "V < 2 ^ 32"
  shows "Read_leb128 (pre @ uleb_bytes V 0 @ post) (length pre) = Inr V"
    and "Read_opr_size_leb128 (pre @ uleb_bytes V 0 @ post) (length pre) = Inr (of_nat (length (uleb_bytes V 0)))"
    and "length (uleb_bytes V 0) \<le> 5"
proof -
  obtain bs c where l: "uleb_loop V 0 0 = (bs, c)" by fastforce
  have V: "take_bit 32 V = V" using assms by (simp add: word_unat_eq_iff unsigned_take_bit_eq take_bit_nat_eq_self word_less_nat_alt)
  have "drop_bit (7 * 5) (take_bit 32 V) = 0" by (simp add: drop_bit_take_bit)
  then have "drop_bit (7 * 5) V = 0" using V by simp
  then have c: "c \<le> 5" using uleb_loop_count [OF l, of V 5] by simp
  have len: "c = length bs" using uleb_dec_loop [OF l, of 0 V 0 "[]" None "[]" 0] by simp
  have bytes: "uleb_bytes V 0 = bs" by (simp add: uleb_bytes_def l)
  show "length (uleb_bytes V 0) \<le> 5" using c len bytes by simp
  have "decodeULEB128 (pre @ bs @ post) (length pre) None = Inr (V, length bs, None)"
    using decode_encode_uleb [of 0 None pre V post] by (simp add: encodeULEB128_def Let_def bytes)
  with c len show "Read_leb128 (pre @ uleb_bytes V 0 @ post) (length pre) = Inr V"
    "Read_opr_size_leb128 (pre @ uleb_bytes V 0 @ post) (length pre) = Inr (of_nat (length (uleb_bytes V 0)))"
    using read_agrees [of "pre @ bs @ post" "length pre" V "length bs"] V by (simp_all add: bytes)
qed


lemma br_sizes:
  "br_table_sizes (length ls) (pre @ concat (map (\<lambda>l. uleb_bytes (ucast l) 0) (ls :: u32 list)) @ post) (length pre) n =
    Inr (length pre + length (concat (map (\<lambda>l. uleb_bytes (ucast l) 0) ls)),
         n + length (concat (map (\<lambda>l. uleb_bytes (ucast l) 0) ls)))"
proof (induction ls arbitrary: pre n)
  case (Cons l ls)
  have "Read_opr_size_leb128 (pre @ uleb_bytes (ucast l) 0 @ concat (map (\<lambda>l. uleb_bytes (ucast l) 0) ls) @ post) (length pre) =
      Inr (of_nat (length (uleb_bytes (ucast l) 0)))" "length (uleb_bytes (ucast l) 0) \<le> 5"
    by (rule Read_uleb(2,3) [OF ucast_u32_less])+
  with Cons.IH [of "pre @ uleb_bytes (ucast l) 0"] show ?case by (simp add: unat_of_nat_u8 add.assoc)
qed simp


lemma OPCODE_inst_encode: "OPCODE_inst opc = Inr r \<Longrightarrow> wi_encode r = opc"
  by (auto simp: OPCODE_inst_def find_Some_iff split: option.splits)

lemma Read_inst_size_plain:
  assumes "winst_ok (Plain opc imms)"
  shows "Read_inst_size ((row_of opc)\<lparr>wi_pc := p\<rparr>) (pre @ winst_bytes (Plain opc imms) @ post) (length pre) =
    Inr (length (winst_bytes (Plain opc imms)))"
proof -
  let ?r = "row_of opc"
  have enc: "wi_encode ?r = opc" using assms by (auto simp: winst_ok_def row_of_def OPCODE_inst_encode)
  with assms have opc: "wi_encode ?r \<noteq> W_BrTable" by (simp add: winst_ok_def)
  have l: "list_all2 imm_ok (take (wi_numopr ?r) [wi_size1 ?r, wi_size2 ?r]) imms" using assms by (simp add: winst_ok_def)
  consider "wi_numopr ?r = 0" "imms = []"
    | i where "wi_numopr ?r = 1" "imms = [i]" "imm_ok (wi_size1 ?r) i"
    | i j where "2 \<le> wi_numopr ?r" "imms = [i, j]" "imm_ok (wi_size1 ?r) i" "imm_ok (wi_size2 ?r) j"
    using l by (cases "wi_numopr ?r"; cases "wi_numopr ?r - 1") (auto simp: list_all2_Cons1)
  then show ?thesis
  proof cases
    case 1
    then show ?thesis by (simp add: Read_inst_size_def winst_bytes_def opc)
  next
    case 2
    then show ?thesis using opr_size_imm [OF 2(3), of "pre @ [opc]" post]
      by (simp add: Read_inst_size_def winst_bytes_def opc)
  next
    case 3
    then show ?thesis
      using opr_size_imm [OF 3(3), of "pre @ [opc]" "j @ post"] opr_size_imm [OF 3(4), of "pre @ [opc] @ i" post]
      by (simp add: Read_inst_size_def winst_bytes_def opc)
  qed
qed

lemma Read_inst_size_br_table:
  assumes "winst_ok (Br_table ls d)"
  shows "Read_inst_size ((row_of W_BrTable)\<lparr>wi_pc := p\<rparr>) (pre @ winst_bytes (Br_table ls d) @ post) (length pre) =
    Inr (length (winst_bytes (Br_table ls d)))"
proof -
  have row: "wi_encode (row_of W_BrTable) = W_BrTable" "wi_numopr (row_of W_BrTable) = 0"
    by code_simp+
  let ?n = "uleb_bytes (of_nat (length ls)) 0" and ?ls = "concat (map (\<lambda>l. uleb_bytes (ucast l) 0) ls)"
    and ?d = "uleb_bytes (ucast d) 0"
  have len: "length ls < 2 ^ 32" using assms by (simp add: winst_ok_def)
  then have lt: "(of_nat (length ls) :: u64) < 2 ^ 32" by (simp add: word_less_nat_alt unat_of_nat)
  have cnt: "unat (ucast (of_nat (length ls) :: u64) :: u32) = length ls"
    using len by (simp add: unsigned_ucast_eq unat_of_nat take_bit_eq_mod)
  note n = Read_uleb(1,2) [OF lt, of "pre @ [W_BrTable]" "?ls @ ?d @ post"] Read_uleb(3) [OF lt]
  note d = Read_uleb(2) [OF ucast_u32_less [of d], of "pre @ [W_BrTable] @ ?n @ ?ls" post] Read_uleb(3) [OF ucast_u32_less [of d]]
  show ?thesis
    using n d br_sizes [of ls "pre @ [W_BrTable] @ ?n" "?d @ post" "length ?n"]
    by (simp add: Read_inst_size_def Let_def row winst_bytes_def cnt unat_of_nat_u8 add.assoc)
qed


lemma OPCODE_row: "winst_ok w \<Longrightarrow> OPCODE_inst (winst_opcode w) = Inr (row_of (winst_opcode w))"
proof (cases w)
  case (Br_table ls d)
  have "OPCODE_inst W_BrTable = Inr (row_of W_BrTable)" by code_simp
  then show ?thesis by (simp add: Br_table winst_opcode_def)
qed (auto simp: winst_ok_def winst_opcode_def row_of_def)

lemma row_numopr: "OPCODE_inst opc = Inr r \<Longrightarrow> wi_numopr r < 3"
proof -
  have "list_all (\<lambda>r. wi_numopr r < 3) WASM_META_INFO" by code_simp
  then show "OPCODE_inst opc = Inr r \<Longrightarrow> wi_numopr r < 3"
    by (auto simp: OPCODE_inst_def find_Some_iff list_all_iff split: option.splits)
qed

lemma Read_inst_size_ok:
  "winst_ok w \<Longrightarrow> Read_inst_size ((row_of (winst_opcode w))\<lparr>wi_pc := p\<rparr>) (pre @ winst_bytes w @ post) (length pre) =
    Inr (length (winst_bytes w))"
  using Read_inst_size_plain Read_inst_size_br_table by (cases w) (simp_all add: winst_opcode_def)

lemma winst_bytes_hd: "winst_bytes w \<noteq> [] \<and> hd (winst_bytes w) = winst_opcode w"
  by (cases w) (simp_all add: winst_bytes_def winst_opcode_def)

lemma read_insts_at:
  assumes "list_all winst_ok ws"
  shows "read_insts (pre @ concat (map winst_bytes ws) @ post) (length pre + length (concat (map winst_bytes ws))) (length pre) =
    Inr (insts_at (length pre) ws)"
  using assms
proof (induction ws arbitrary: pre)
  case Nil
  then show ?case by (simp add: read_insts.simps)
next
  case (Cons w ws)
  let ?buf = "pre @ concat (map winst_bytes (w # ws)) @ post"
  have w: "winst_ok w" using Cons.prems by simp
  obtain bs where bs: "winst_bytes w = winst_opcode w # bs" using winst_bytes_hd [of w] by (cases "winst_bytes w") auto
  have byte: "Read_uint8 ?buf (length pre) = Inr (winst_opcode w)" by (simp add: Read_uint8_def bs arr_at_def)
  have size: "Read_inst_size ((row_of (winst_opcode w))\<lparr>wi_pc := length pre\<rparr>) ?buf (length pre) = Inr (length (winst_bytes w))"
    using Read_inst_size_ok [OF w, of "length pre" pre "concat (map winst_bytes ws) @ post"] by simp
  have "read_insts ?buf (length (pre @ winst_bytes w) + length (concat (map winst_bytes ws))) (length (pre @ winst_bytes w)) =
      Inr (insts_at (length (pre @ winst_bytes w)) ws)"
    using Cons.IH [of "pre @ winst_bytes w"] Cons.prems by simp
  with byte size show ?case
    using OPCODE_row [OF w] row_numopr [OF OPCODE_row [OF w]] bs
    by (subst read_insts.simps) (simp add: Save_wasm_pc_def Is_True_def add.assoc)
qed

text \<open>C27: reading a function body.  On the bytes of any sequence of instructions of the table, each with immediates of the
  types the table gives, \<^verbatim>\<open>br_table\<close> included, \<^verbatim>\<open>Read_insts\<close> returns exactly these instructions in order, each with
  the position of its opcode, whatever follows in the buffer.
\<close>

theorem Read_insts_roundtrip:
  assumes "list_all winst_ok ws"
  shows "Read_insts (concat (map winst_bytes ws) @ post) (length (concat (map winst_bytes ws))) = Inr (insts_at 0 ws)"
  using read_insts_at [OF assms, of "[]" post] by (simp add: Read_insts_def)

text \<open>\<^verbatim>\<open>local.get 0; br_table 1 0; end\<close>.\<close>

theorem Read_insts_roundtrip_witness:
  "\<exists>insts. Read_insts [0x20, 0, 0x0e, 1, 1, 0, 0x0b, 7] 7 = Inr insts \<and>
    map wi_encode insts = [0x20, 0x0e, 0x0b] \<and> map wi_pc insts = [0, 2, 6]"
proof -
  let ?ws = "[Plain 0x20 [[0]], Br_table [1] 0, Plain 0x0b []]"
  have rows: "OPCODE_inst 0x20 = Inr (row_of 0x20)" "wi_numopr (row_of 0x20) = 1" "wi_size1 (row_of 0x20) = I32"
    "OPCODE_inst 0x0b = Inr (row_of 0x0b)" "wi_numopr (row_of 0x0b) = 0"
    "wi_encode (row_of 0x20) = 0x20" "wi_encode (row_of 0x0e) = 0x0e" "wi_encode (row_of 0x0b) = 0x0b"
    by code_simp+
  have uleb: "uleb_bytes 1 0 = [1]" "uleb_bytes 0 0 = [0]" by code_simp+
  have "list_all winst_ok ?ws" by (simp add: winst_ok_def rows imm_ok_def leb_string_def W_BrTable_def)
  moreover have "concat (map winst_bytes ?ws) = [0x20, 0, 0x0e, 1, 1, 0, 0x0b]"
    by (simp add: winst_bytes_def uleb W_BrTable_def)
  ultimately show ?thesis
    using Read_insts_roundtrip [of ?ws "[7]"] by (simp add: rows winst_opcode_def W_BrTable_def winst_bytes_def uleb eval_nat_numeral)
qed

end
