(* ===== verification/Conv_Regs.thy ===== *)
theory Conv_Regs
  imports Wasm_Reader
begin

text \<open>
  The register side of the converter: the tables of locals (\<^verbatim>\<open>src/wasm/local_table.h\<close>), the register allocator
  \<^verbatim>\<open>REG_ALLOC_HELPER\<close> and the model of the WebAssembly operand stack \<^verbatim>\<open>WASMSTK\<close> (\<^verbatim>\<open>converter.h\<close>, \<^verbatim>\<open>converter.cxx\<close>).
  The top of the operand stack is the head of a list.  Arrays indexed by value type have \<^verbatim>\<open>VALTY_COUNT\<close> elements.
\<close>

section \<open>Tables of locals\<close>

definition CONST_REG_NUM :: u32 where "CONST_REG_NUM = 0"
definition RET_REG_NUM :: u32 where "RET_REG_NUM = 1"

datatype local_kind = LOCAL | GLOBAL | TEMP | FORMAL_PARAM | CALL_PARAM | UNREACHABLE_VALUE | LOCAL_DUMMY

record local_tab_elem =
  lt_kind :: local_kind
  lt_val_type :: valtype
  lt_push_stmt :: u64

record local_map_elem =
  lm_reg_idx :: u32
  lm_ty :: valtype
  lm_map_kind :: local_kind

definition LOCAL_MAP_ELEM :: "u32 \<Rightarrow> valtype \<Rightarrow> local_kind \<Rightarrow> local_map_elem res" where
  "LOCAL_MAP_ELEM reg_idx ty kind =
    Is_True (1 \<le> reg_idx) (Inr \<lparr>lm_reg_idx = reg_idx + RET_REG_NUM + CONST_REG_NUM - 1, lm_ty = ty, lm_map_kind = kind\<rparr>)"

record local_tab =
  lt_content :: "local_tab_elem list"
  lt_max_call_param :: u32

definition LOCAL_TAB :: local_tab where
  "LOCAL_TAB = \<lparr>lt_content = [], lt_max_call_param = 0\<rparr>"

definition lt_size :: "local_tab \<Rightarrow> u32" where
  "lt_size t = of_nat (length (lt_content t))"

definition lt_push_back :: "local_tab_elem \<Rightarrow> local_tab \<Rightarrow> local_tab" where
  "lt_push_back x t = t\<lparr>lt_content := lt_content t @ [x]\<rparr>"

definition lt_Get :: "local_tab \<Rightarrow> u32 \<Rightarrow> local_tab_elem res" where
  "lt_Get t idx = Is_True (unat idx < length (lt_content t)) (vec_at (lt_content t) (unat idx))"

text \<open>The array of one table for each value type: reading and replacing an element.\<close>

definition ty_at :: "'a list \<Rightarrow> valtype \<Rightarrow> 'a res" where
  "ty_at xs ty = arr_at xs (valtype_num ty)"

definition ty_upd :: "'a list \<Rightarrow> valtype \<Rightarrow> 'a \<Rightarrow> 'a list res" where
  "ty_upd xs ty x = arr_upd xs (valtype_num ty) x"

definition Get_wasm_local_ty :: "local_map_elem list \<Rightarrow> u32 \<Rightarrow> local_map_elem res" where
  "Get_wasm_local_ty wasm_local_ty_map idx =
    Is_True (unat idx < length wasm_local_ty_map) (vec_at wasm_local_ty_map (unat idx))"

definition Get_tab_idx_by_reg_idx :: "u32 \<Rightarrow> u32" where
  "Get_tab_idx_by_reg_idx r = r - CONST_REG_NUM - RET_REG_NUM"

section \<open>Labels for debugging\<close>

text \<open>\<^verbatim>\<open>uvm::LABEL_TAB\<close>: positions and names; the converter only adds a placeholder.\<close>

type_synonym label_tab = "(u32 \<times> u8 list) list"

definition LABEL_NOT_NEEDED :: u32 where "LABEL_NOT_NEEDED = 0x7fffffff"

definition lab_Add :: "u32 \<Rightarrow> u8 list \<Rightarrow> label_tab \<Rightarrow> (nat \<times> label_tab) res" where
  "lab_Add pc name t = Is_True (pc \<noteq> LABEL_NOT_NEEDED) (Inr (length t, t @ [(pc, name)]))"

definition lab_Get :: "label_tab \<Rightarrow> nat \<Rightarrow> u32 res" where
  "lab_Get t idx = Is_True (idx < length t) (Inr (fst (t ! idx)))"

definition lab_Set :: "nat \<Rightarrow> u32 \<Rightarrow> label_tab \<Rightarrow> label_tab res" where
  "lab_Set idx pc t = Is_True (idx < length t) (Is_True (pc \<noteq> LABEL_NOT_NEEDED) (Inr (t[idx := (pc, snd (t ! idx))])))"

section \<open>The register allocator\<close>

datatype reg_alloc_state = ALLOC_FREE | ALLOC_TEMP_OCCUPIED | ALLOC_WASM_LOCAL | ALLOC_RETURN_REG

record reg_alloc =
  ra_next :: "u32 list"
  ra_state :: "reg_alloc_state list list"

definition REG_ALLOC_HELPER :: reg_alloc where
  "REG_ALLOC_HELPER = \<lparr>ra_next = replicate VALTY_COUNT 0, ra_state = replicate VALTY_COUNT (replicate 4096 ALLOC_FREE)\<rparr>"

definition Preoccupy_registers :: "valtype \<Rightarrow> u32 \<Rightarrow> u32 \<Rightarrow> reg_alloc \<Rightarrow> reg_alloc res" where
  "Preoccupy_registers valty basic local_count ra =
    bindr (ty_upd (ra_next ra) valty (basic + local_count)) (\<lambda>next.
    bindr (ty_at (ra_state ra) valty) (\<lambda>st.
    bindr (foldr_res (\<lambda>i st. arr_upd st i ALLOC_RETURN_REG) [0..<unat basic] st) (\<lambda>st.
    bindr (foldr_res (\<lambda>i st. arr_upd st (unat (basic + of_nat i)) ALLOC_WASM_LOCAL) [0..<unat local_count] st) (\<lambda>st.
    bindr (ty_upd (ra_state ra) valty st) (\<lambda>sts.
    Inr (ra\<lparr>ra_next := next, ra_state := sts\<rparr>))))))"

definition Get_available_reg :: "valtype \<Rightarrow> reg_alloc \<Rightarrow> (u32 \<times> reg_alloc) res" where
  "Get_available_reg valty ra =
    bindr (ty_at (ra_next ra) valty) (\<lambda>reg_id.
    Is_True (ucast reg_id < REG_L_MAX) (
    bindr (ty_upd (ra_next ra) valty (reg_id + 1)) (\<lambda>next.
    bindr (ty_at (ra_state ra) valty) (\<lambda>st.
    bindr (arr_at st (unat reg_id)) (\<lambda>s.
    Is_True (s = ALLOC_FREE) (
    bindr (arr_upd st (unat reg_id) ALLOC_TEMP_OCCUPIED) (\<lambda>st.
    bindr (ty_upd (ra_state ra) valty st) (\<lambda>sts.
    Inr (reg_id, ra\<lparr>ra_next := next, ra_state := sts\<rparr>)))))))))"

definition Free_register :: "valtype \<Rightarrow> u32 \<Rightarrow> reg_alloc \<Rightarrow> reg_alloc res" where
  "Free_register valty reg_id ra =
    (if 126 \<le> reg_id then Inr ra
     else
    bindr (ty_at (ra_state ra) valty) (\<lambda>st.
    bindr (arr_at st (unat reg_id)) (\<lambda>s.
    Is_True (s = ALLOC_TEMP_OCCUPIED) (
    bindr (arr_upd st (unat reg_id) ALLOC_FREE) (\<lambda>st.
    bindr (ty_upd (ra_state ra) valty st) (\<lambda>sts.
    bindr (ty_at (ra_next ra) valty) (\<lambda>next.
    Is_True (reg_id = next - 1) (
    bindr (ty_upd (ra_next ra) valty (next - 1)) (\<lambda>next.
    Inr (ra\<lparr>ra_next := next, ra_state := sts\<rparr>))))))))))"

section \<open>The operand stack\<close>

record wasm_stack_elem =
  ws_kind :: local_kind
  ws_val_type :: valtype
  ws_idx :: u32
  ws_push_stmt :: u32

definition WASM_STACK_ELEM :: "local_kind \<Rightarrow> valtype \<Rightarrow> u32 \<Rightarrow> u32 \<Rightarrow> wasm_stack_elem" where
  "WASM_STACK_ELEM kind val_type idx ins_cnt =
    \<lparr>ws_kind = kind, ws_val_type = val_type, ws_idx = idx, ws_push_stmt = ins_cnt\<rparr>"

type_synonym wasmstk = "wasm_stack_elem list"

definition stk_top :: "wasmstk \<Rightarrow> wasm_stack_elem res" where
  "stk_top stk = (if stk = [] then Inl Out_of_block else Inr (hd stk))"

definition Check_stack_elem_valty :: "wasm_stack_elem \<Rightarrow> valtype \<Rightarrow> 'a res \<Rightarrow> 'a res" where
  "Check_stack_elem_valty rs desired r = Is_True (ws_val_type rs = desired) r"

text \<open>The part of the converter state the stack operations work on.\<close>

record conv_regs =
  cr_stack :: wasmstk
  cr_alloc :: reg_alloc
  cr_local_tab :: "local_tab list"

definition Pop_wasm_stk :: "valtype \<Rightarrow> 'a conv_regs_scheme \<Rightarrow> (wasm_stack_elem \<times> 'a conv_regs_scheme) res" where
  "Pop_wasm_stk expect c =
    Is_True (0 < length (cr_stack c)) (
    let elem = hd (cr_stack c); c = c\<lparr>cr_stack := tl (cr_stack c)\<rparr> in
    bindr (if ws_kind elem = TEMP
           then bindr (Free_register (ws_val_type elem) (ws_idx elem) (cr_alloc c)) (\<lambda>ra. Inr (c\<lparr>cr_alloc := ra\<rparr>))
           else Inr c) (\<lambda>c.
    if ws_kind elem = UNREACHABLE_VALUE then Inr (WASM_STACK_ELEM UNREACHABLE_VALUE expect 0 (ws_push_stmt elem), c)
    else if ws_val_type elem = VALTY_UNKNOWN then Inr (WASM_STACK_ELEM UNREACHABLE_VALUE expect 0 (ws_push_stmt elem), c)
    else if expect = VALTY_UNKNOWN then Inr (elem, c)
    else Check_stack_elem_valty elem expect (Inr (elem, c))))"

definition Allocate_register :: "u32 \<Rightarrow> valtype \<Rightarrow> 'a conv_regs_scheme \<Rightarrow> (u32 \<times> 'a conv_regs_scheme) res" where
  "Allocate_register pc valtype c =
    bindr (Get_available_reg valtype (cr_alloc c)) (\<lambda>(next, ra).
    bindr (ty_at (cr_local_tab c) valtype) (\<lambda>t.
    if lt_size t + RET_REG_NUM \<le> next
    then let t = lt_push_back \<lparr>lt_kind = TEMP, lt_val_type = valtype, lt_push_stmt = ucast pc\<rparr> t in
      bindr (ty_upd (cr_local_tab c) valtype t) (\<lambda>tabs.
      Is_True (next < lt_size t + RET_REG_NUM) (
      Inr (next, c\<lparr>cr_alloc := ra, cr_local_tab := tabs\<rparr>)))
    else Inr (next, c\<lparr>cr_alloc := ra\<rparr>)))"

definition Push_temp_reg :: "u32 \<Rightarrow> valtype \<Rightarrow> 'a conv_regs_scheme \<Rightarrow> (u32 \<times> 'a conv_regs_scheme) res" where
  "Push_temp_reg ins_cnt valtype c =
    bindr (Get_available_reg valtype (cr_alloc c)) (\<lambda>(next, ra).
    bindr (ty_at (cr_local_tab c) valtype) (\<lambda>t.
    bindr (if lt_size t + RET_REG_NUM \<le> next
      then let t = lt_push_back \<lparr>lt_kind = TEMP, lt_val_type = valtype, lt_push_stmt = ucast ins_cnt\<rparr> t in
        bindr (ty_upd (cr_local_tab c) valtype t) (\<lambda>tabs.
        Is_True (next < lt_size t + RET_REG_NUM) (Inr tabs))
      else Inr (cr_local_tab c)) (\<lambda>tabs.
    let stk = WASM_STACK_ELEM TEMP valtype next ins_cnt # cr_stack c in
    Is_True (next < 128) (
    Inr (next, c\<lparr>cr_stack := stk, cr_alloc := ra, cr_local_tab := tabs\<rparr>)))))"

definition Push_unreachable_value :: "u32 \<Rightarrow> 'a conv_regs_scheme \<Rightarrow> 'a conv_regs_scheme" where
  "Push_unreachable_value pc c = c\<lparr>cr_stack := WASM_STACK_ELEM UNREACHABLE_VALUE I32 0 pc # cr_stack c\<rparr>"

primrec pop_n :: "nat \<Rightarrow> 'a conv_regs_scheme \<Rightarrow> 'a conv_regs_scheme res" where
  "pop_n 0 c = Inr c"
| "pop_n (Suc n) c = bindr (Pop_wasm_stk VALTY_UNKNOWN c) (\<lambda>(elem, c). pop_n n c)"

end
