(* ===== verification/Conv_Alloc.thy ===== *)
theory Conv_Alloc
  imports Conv_Regs
begin

text \<open>
  The discipline of the converter's registers: the temporaries of one type on the operand stack are numbered without gaps
  from the first register after the locals, the allocator's next register is the one above them, and the states it
  records agree with the stack.  Pushing and popping keep this, and never fail an assertion below register 126.
\<close>

section \<open>The invariant\<close>

lemma valtype_num_less: "ty \<noteq> VALTY_UNKNOWN \<Longrightarrow> valtype_num ty < 4"
  by (cases ty) (auto simp: valtype_num_def)

lemma valtype_num_inj: "ty \<noteq> VALTY_UNKNOWN \<Longrightarrow> ty' \<noteq> VALTY_UNKNOWN \<Longrightarrow> valtype_num ty = valtype_num ty' \<longleftrightarrow> ty = ty'"
  by (cases ty; cases ty') (auto simp: valtype_num_def)

text \<open>The registers of the temporaries of a type, the top of the stack first.\<close>

definition temps :: "valtype \<Rightarrow> wasmstk \<Rightarrow> nat list" where
  "temps ty stk = map (unat \<circ> ws_idx) (filter (\<lambda>e. ws_kind e = TEMP \<and> ws_val_type e = ty) stk)"

lemma temps_simps [simp]:
  "temps ty [] = []"
  "temps ty (e # stk) = (if ws_kind e = TEMP \<and> ws_val_type e = ty then unat (ws_idx e) # temps ty stk else temps ty stk)"
  by (simp_all add: temps_def)

text \<open>The register the next temporary of a type gets: \<open>base ty\<close> is the first after the locals of the type.\<close>

definition next_reg :: "(valtype \<Rightarrow> nat) \<Rightarrow> valtype \<Rightarrow> wasmstk \<Rightarrow> nat" where
  "next_reg base ty stk = base ty + length (temps ty stk)"

definition stk_ok :: "(valtype \<Rightarrow> nat) \<Rightarrow> wasmstk \<Rightarrow> bool" where
  "stk_ok base stk \<longleftrightarrow> (\<forall>ty. ty \<noteq> VALTY_UNKNOWN \<longrightarrow> temps ty stk = rev [base ty..<next_reg base ty stk])"

definition alloc_ok :: "nat \<Rightarrow> nat \<Rightarrow> reg_alloc_state list \<Rightarrow> bool" where
  "alloc_ok lo hi st \<longleftrightarrow> length st = 4096 \<and>
    (\<forall>r < 4096. lo \<le> r \<longrightarrow> st ! r = (if r < hi then ALLOC_TEMP_OCCUPIED else ALLOC_FREE))"

definition regs_ok :: "(valtype \<Rightarrow> nat) \<Rightarrow> 'a conv_regs_scheme \<Rightarrow> bool" where
  "regs_ok base c \<longleftrightarrow>
    length (ra_next (cr_alloc c)) = 4 \<and> length (ra_state (cr_alloc c)) = 4 \<and> length (cr_local_tab c) = 4 \<and>
    stk_ok base (cr_stack c) \<and>
    (\<forall>ty. ty \<noteq> VALTY_UNKNOWN \<longrightarrow>
      next_reg base ty (cr_stack c) \<le> 126 \<and>
      ra_next (cr_alloc c) ! valtype_num ty = of_nat (next_reg base ty (cr_stack c)) \<and>
      alloc_ok (base ty) (next_reg base ty (cr_stack c)) (ra_state (cr_alloc c) ! valtype_num ty) \<and>
      next_reg base ty (cr_stack c) \<le> length (lt_content (cr_local_tab c ! valtype_num ty)) + 1 \<and>
      length (lt_content (cr_local_tab c ! valtype_num ty)) \<le> 126)"

lemma stk_ok_push:
  assumes "stk_ok base stk" and "ws_kind e = TEMP" and "ws_val_type e = ty" and "unat (ws_idx e) = next_reg base ty stk"
  shows "stk_ok base (e # stk)"
  using assms by (auto simp: stk_ok_def next_reg_def)

lemma stk_ok_pop:
  assumes "stk_ok base (e # stk)"
  shows "stk_ok base stk"
    and "ws_kind e = TEMP \<Longrightarrow> ws_val_type e = ty \<Longrightarrow> ty \<noteq> VALTY_UNKNOWN \<Longrightarrow> unat (ws_idx e) = next_reg base ty stk"
  using assms by (auto simp: stk_ok_def next_reg_def split: if_splits)

lemma stk_ok_other: "ws_kind e \<noteq> TEMP \<Longrightarrow> stk_ok base (e # stk) = stk_ok base stk"
  by (simp add: stk_ok_def next_reg_def)

lemma next_reg_simps [simp]:
  "next_reg base ty (e # stk) = next_reg base ty stk + (if ws_kind e = TEMP \<and> ws_val_type e = ty then 1 else 0)"
  by (simp add: next_reg_def)

lemma stk_ok_temp:
  assumes "stk_ok base stk" and "e \<in> set stk" and "ws_kind e = TEMP" and "ws_val_type e \<noteq> VALTY_UNKNOWN"
  shows "base (ws_val_type e) \<le> unat (ws_idx e)" and "unat (ws_idx e) < next_reg base (ws_val_type e) stk"
proof -
  have "unat (ws_idx e) \<in> set (temps (ws_val_type e) stk)" using assms(2,3) by (auto simp: temps_def)
  then show "base (ws_val_type e) \<le> unat (ws_idx e)" "unat (ws_idx e) < next_reg base (ws_val_type e) stk"
    using assms(1,4) by (auto simp: stk_ok_def)
qed

text \<open>Two temporaries of one type on the stack have different registers.\<close>

lemma stk_ok_distinct: "stk_ok base stk \<Longrightarrow> ty \<noteq> VALTY_UNKNOWN \<Longrightarrow> distinct (temps ty stk)"
  by (auto simp: stk_ok_def)

section \<open>Popping\<close>

lemma alloc_ok_free:
  assumes "alloc_ok lo (Suc hi) st" and "lo \<le> hi" and "hi < 4096"
  shows "st ! hi = ALLOC_TEMP_OCCUPIED" and "alloc_ok lo hi (st[hi := ALLOC_FREE])" and "length st = 4096"
  using assms by (auto simp: alloc_ok_def nth_list_update less_Suc_eq)

lemma alloc_ok_take:
  assumes "alloc_ok lo hi st" and "lo \<le> hi" and "hi < 4096"
  shows "st ! hi = ALLOC_FREE" and "alloc_ok lo (Suc hi) (st[hi := ALLOC_TEMP_OCCUPIED])" and "length st = 4096"
  using assms by (auto simp: alloc_ok_def nth_list_update less_Suc_eq)

lemma small_word: "n \<le> 4096 \<Longrightarrow> unat (of_nat n :: u32) = n"
  by (simp add: unat_of_nat take_bit_nat_eq_self)

lemma Free_register_ok:
  assumes "regs_ok base c" and stk: "cr_stack c = e # stk" and e: "ws_kind e = TEMP" "ws_val_type e \<noteq> VALTY_UNKNOWN"
  shows "\<exists>ra. Free_register (ws_val_type e) (ws_idx e) (cr_alloc c) = Inr ra \<and>
    regs_ok base (c\<lparr>cr_stack := stk, cr_alloc := ra\<rparr>)"
proof -
  let ?ty = "ws_val_type e" let ?n = "next_reg base ?ty stk" let ?k = "valtype_num ?ty"
  let ?st = "ra_state (cr_alloc c) ! ?k"
  have ok: "length (ra_next (cr_alloc c)) = 4" "length (ra_state (cr_alloc c)) = 4" "?k < 4"
    "stk_ok base (e # stk)" "Suc ?n \<le> 126" "ra_next (cr_alloc c) ! ?k = of_nat (Suc ?n)" "alloc_ok (base ?ty) (Suc ?n) ?st"
    using assms valtype_num_less [OF e(2)] by (auto simp: regs_ok_def)
  have idx: "unat (ws_idx e) = ?n" using stk_ok_pop(2) [OF ok(4) e(1)] e(2) by simp
  then have idx': "ws_idx e = of_nat ?n" by (simp flip: idx)
  note al = alloc_ok_free [OF ok(7)] 
  have lo: "base ?ty \<le> ?n" by (simp add: next_reg_def)
  let ?ra = "(cr_alloc c)\<lparr>ra_next := (ra_next (cr_alloc c))[?k := of_nat ?n], ra_state := (ra_state (cr_alloc c))[?k := ?st[?n := ALLOC_FREE]]\<rparr>"
  have "\<not> 126 \<le> ws_idx e" using idx ok(5) by (simp add: word_le_nat_alt)
  then have "Free_register ?ty (ws_idx e) (cr_alloc c) = Inr ?ra"
    using ok al(1,3) lo
    by (simp add: Free_register_def ty_at_def ty_upd_def arr_at_def arr_upd_def idx idx' small_word)
  moreover have "regs_ok base (c\<lparr>cr_stack := stk, cr_alloc := ?ra\<rparr>)"
    using assms(1) stk e stk_ok_pop(1) [OF ok(4)] al(2) lo ok(3,5)
    by (auto simp: regs_ok_def nth_list_update valtype_num_inj)
  ultimately show ?thesis by blast
qed

text \<open>A value on the stack is in a temporary or in the register of a local.\<close>

definition is_operand :: "wasm_stack_elem \<Rightarrow> bool" where
  "is_operand e \<longleftrightarrow> ws_kind e \<in> {TEMP, LOCAL, FORMAL_PARAM} \<and> ws_val_type e \<noteq> VALTY_UNKNOWN"

lemma Pop_wasm_stk_ok:
  assumes "regs_ok base c" and "cr_stack c = e # stk" and "is_operand e" and "expect \<in> {ws_val_type e, VALTY_UNKNOWN}"
  shows "\<exists>ra. Pop_wasm_stk expect c = Inr (e, c\<lparr>cr_stack := stk, cr_alloc := ra\<rparr>) \<and>
    regs_ok base (c\<lparr>cr_stack := stk, cr_alloc := ra\<rparr>)"
proof (cases "ws_kind e = TEMP")
  case True
  then obtain ra where "Free_register (ws_val_type e) (ws_idx e) (cr_alloc c) = Inr ra"
    "regs_ok base (c\<lparr>cr_stack := stk, cr_alloc := ra\<rparr>)"
    using Free_register_ok [OF assms(1,2)] assms(3) by (auto simp: is_operand_def)
  with assms True show ?thesis
    by (auto simp: Pop_wasm_stk_def Check_stack_elem_valty_def is_operand_def Let_def)
next
  case False
  have "regs_ok base (c\<lparr>cr_stack := stk\<rparr>)"
    using assms(1,2) False by (auto simp: regs_ok_def stk_ok_other)
  with assms False show ?thesis
    by (intro exI [of _ "cr_alloc c"]) (auto simp: Pop_wasm_stk_def Check_stack_elem_valty_def is_operand_def Let_def)
qed

section \<open>Pushing\<close>

text \<open>The tables of locals only grow.\<close>

definition tabs_ext :: "local_tab list \<Rightarrow> local_tab list \<Rightarrow> bool" where
  "tabs_ext tabs tabs' \<longleftrightarrow> length tabs' = length tabs \<and>
    (\<forall>k < length tabs. \<exists>xs. lt_content (tabs' ! k) = lt_content (tabs ! k) @ xs \<and>
      lt_max_call_param (tabs' ! k) = lt_max_call_param (tabs ! k))"

lemma tabs_ext_refl [simp]: "tabs_ext t t"
  by (simp add: tabs_ext_def)

lemma tabs_ext_trans: "tabs_ext a b \<Longrightarrow> tabs_ext b c \<Longrightarrow> tabs_ext a c"
  by (fastforce simp: tabs_ext_def)

lemma tabs_ext_push: "tabs_ext tabs (tabs[k := lt_push_back x (tabs ! k)])"
proof (cases "k < length tabs")
  case True
  then show ?thesis by (auto simp: tabs_ext_def lt_push_back_def nth_list_update)
qed (simp add: list_update_beyond)

abbreviation temp_elem :: "(valtype \<Rightarrow> nat) \<Rightarrow> valtype \<Rightarrow> u32 \<Rightarrow> wasmstk \<Rightarrow> wasm_stack_elem" where
  "temp_elem base ty cnt stk \<equiv> WASM_STACK_ELEM TEMP ty (of_nat (next_reg base ty stk)) cnt"

lemma WASM_STACK_ELEM_simps [simp]:
  "ws_kind (WASM_STACK_ELEM k ty i n) = k" "ws_val_type (WASM_STACK_ELEM k ty i n) = ty"
  "ws_idx (WASM_STACK_ELEM k ty i n) = i"
  by (simp_all add: WASM_STACK_ELEM_def)

lemma Get_available_reg_ok:
  assumes "regs_ok base c" and ty: "ty \<noteq> VALTY_UNKNOWN" and lt: "next_reg base ty (cr_stack c) < 126"
  shows "\<exists>ra. Get_available_reg ty (cr_alloc c) = Inr (of_nat (next_reg base ty (cr_stack c)), ra) \<and>
    length (ra_next ra) = 4 \<and> length (ra_state ra) = 4 \<and>
    (\<forall>t. t \<noteq> VALTY_UNKNOWN \<longrightarrow> (let n = next_reg base t (cr_stack c) + (if t = ty then 1 else 0) in
      ra_next ra ! valtype_num t = of_nat n \<and> alloc_ok (base t) n (ra_state ra ! valtype_num t)))"
proof -
  let ?n = "next_reg base ty (cr_stack c)" and ?k = "valtype_num ty" and ?st = "ra_state (cr_alloc c) ! valtype_num ty"
  have ok: "length (ra_next (cr_alloc c)) = 4" "length (ra_state (cr_alloc c)) = 4" "?k < 4"
    "ra_next (cr_alloc c) ! ?k = of_nat ?n" "alloc_ok (base ty) ?n ?st"
    using assms valtype_num_less [OF ty] by (auto simp: regs_ok_def)
  have lo: "base ty \<le> ?n" by (simp add: next_reg_def)
  note al = alloc_ok_take [OF ok(5) lo]
  have "unat (of_nat ?n :: u32) = ?n" using lt by (simp add: small_word)
  then have max: "ucast (of_nat ?n :: u32) < REG_L_MAX"
    using lt unat_ucast_u64 [of "of_nat ?n"] by (simp add: REG_L_MAX_def word_less_nat_alt)
  let ?ra = "(cr_alloc c)\<lparr>ra_next := (ra_next (cr_alloc c))[?k := of_nat ?n + 1],
    ra_state := (ra_state (cr_alloc c))[?k := ?st[?n := ALLOC_TEMP_OCCUPIED]]\<rparr>"
  have "Get_available_reg ty (cr_alloc c) = Inr (of_nat ?n, ?ra)"
    using ok al lt max by (simp add: Get_available_reg_def ty_at_def ty_upd_def arr_at_def arr_upd_def small_word)
  moreover have "\<forall>t. t \<noteq> VALTY_UNKNOWN \<longrightarrow> (let n = next_reg base t (cr_stack c) + (if t = ty then 1 else 0) in
      ra_next ?ra ! valtype_num t = of_nat n \<and> alloc_ok (base t) n (ra_state ?ra ! valtype_num t))"
    using assms(1) ty al lt ok(3) by (auto simp: regs_ok_def Let_def nth_list_update valtype_num_inj)
  ultimately show ?thesis using ok by auto
qed

lemma Push_temp_reg_ok:
  assumes "regs_ok base c" and ty: "ty \<noteq> VALTY_UNKNOWN" and lt: "next_reg base ty (cr_stack c) < 126"
  shows "\<exists>ra tabs. Push_temp_reg cnt ty c = Inr (of_nat (next_reg base ty (cr_stack c)),
      c\<lparr>cr_stack := temp_elem base ty cnt (cr_stack c) # cr_stack c, cr_alloc := ra, cr_local_tab := tabs\<rparr>) \<and>
    tabs_ext (cr_local_tab c) tabs \<and>
    regs_ok base (c\<lparr>cr_stack := temp_elem base ty cnt (cr_stack c) # cr_stack c, cr_alloc := ra, cr_local_tab := tabs\<rparr>)"
proof -
  let ?n = "next_reg base ty (cr_stack c)" and ?k = "valtype_num ty" let ?t = "cr_local_tab c ! ?k"
  let ?x = "\<lparr>lt_kind = TEMP, lt_val_type = ty, lt_push_stmt = ucast cnt\<rparr>"
  obtain ra where ra: "Get_available_reg ty (cr_alloc c) = Inr (of_nat ?n, ra)"
    "length (ra_next ra) = 4" "length (ra_state ra) = 4"
    "\<forall>t. t \<noteq> VALTY_UNKNOWN \<longrightarrow> (let n = next_reg base t (cr_stack c) + (if t = ty then 1 else 0) in
      ra_next ra ! valtype_num t = of_nat n \<and> alloc_ok (base t) n (ra_state ra ! valtype_num t))"
    using Get_available_reg_ok [OF assms] by blast
  have tab: "length (cr_local_tab c) = 4" "?k < 4" "?n \<le> length (lt_content ?t) + 1" "length (lt_content ?t) \<le> 126"
    using assms(1) ty valtype_num_less [OF ty] by (auto simp: regs_ok_def)
  define tabs where "tabs = (if length (lt_content ?t) + 1 \<le> ?n then (cr_local_tab c)[?k := lt_push_back ?x ?t] else cr_local_tab c)"
  have n: "unat (of_nat ?n :: u32) = ?n" using lt by (simp add: small_word)
  have sz: "unat (lt_size t + RET_REG_NUM) = length (lt_content t) + 1" if "length (lt_content t) \<le> 127" for t
  proof -
    have "lt_size t + RET_REG_NUM = of_nat (length (lt_content t) + 1)" by (simp add: lt_size_def RET_REG_NUM_def)
    then show ?thesis using that by (simp only: small_word)
  qed
  have "Push_temp_reg cnt ty c = Inr (of_nat ?n,
      c\<lparr>cr_stack := temp_elem base ty cnt (cr_stack c) # cr_stack c, cr_alloc := ra, cr_local_tab := tabs\<rparr>)"
    using tab lt n sz [of ?t] sz [of "lt_push_back ?x ?t"]
    by (auto simp: Push_temp_reg_def ra(1) ty_at_def ty_upd_def arr_at_def arr_upd_def word_le_nat_alt word_less_nat_alt
        tabs_def Let_def lt_push_back_def)
  moreover have "tabs_ext (cr_local_tab c) tabs" by (simp add: tabs_def tabs_ext_push)
  moreover have "stk_ok base (temp_elem base ty cnt (cr_stack c) # cr_stack c)"
    using assms(1) n by (intro stk_ok_push) (auto simp: regs_ok_def)
  then have "regs_ok base (c\<lparr>cr_stack := temp_elem base ty cnt (cr_stack c) # cr_stack c, cr_alloc := ra, cr_local_tab := tabs\<rparr>)"
    using assms(1) ra(2-4) lt tab
    by (auto simp: regs_ok_def tabs_def Let_def lt_push_back_def nth_list_update valtype_num_inj split: if_splits)
  ultimately show ?thesis by blast
qed

end
