(* ===== verification/Conv_Stmts.thy ===== *)
theory Conv_Stmts
  imports Conv_Regs U_Encoder
begin

text \<open>
  The statement graph of the converter (\<^verbatim>\<open>WINST_STMT\<close>, \<^verbatim>\<open>WINST_STMT_GRAPH\<close> in \<^verbatim>\<open>src/wasm/converter.h\<close>) and the pass
  that builds it (\<^verbatim>\<open>Build_block_hierarchy\<close> in \<^verbatim>\<open>converter.cxx\<close>): one statement for each instruction, with the
  enclosing block as its parent, and the labels of the blocks requested from the encoder.  \<open>mv\<close> says, for the
  state of the encoder at a call, whether the buffer of the string table that grows is moved.
\<close>

section \<open>Statements\<close>

datatype winst_stmt_kind = DUMMY | WINST_STMT_BLOCK | WINST_STMT_ROOT_BLOCK | WINST_STMT_INSTR

record winst_stmt =
  s_kind :: winst_stmt_kind
  s_id :: u32
  s_opcode :: u8
  s_parent :: u32
  s_children :: "u32 list"
  s_begin_pc :: u32
  s_block_id :: u32
  s_begin_label :: u32
  s_end_label :: u32
  s_else_stmt :: u32
  s_result_cnt :: u32
  s_result_type :: valtype
  s_result_reg :: u32
  s_stack_size :: u32

text \<open>The constructor with \<^verbatim>\<open>Init\<close>.  The parent is set when the statement is added under one; that of the root is never read.\<close>

definition WINST_STMT :: "winst_stmt_kind \<Rightarrow> u32 \<Rightarrow> u32 \<Rightarrow> u8 \<Rightarrow> winst_stmt" where
  "WINST_STMT stmtKind stmtBeginPc block_id opc =
    \<lparr>s_kind = stmtKind, s_id = 0, s_opcode = opc, s_parent = 0, s_children = [], s_begin_pc = stmtBeginPc,
     s_block_id = block_id, s_begin_label = UNINIT_LABEL_IDX, s_end_label = UNINIT_LABEL_IDX, s_else_stmt = 0,
     s_result_cnt = 0, s_result_type = I32, s_result_reg = 0, s_stack_size = 0\<rparr>"

definition Has_else :: "winst_stmt \<Rightarrow> bool" where
  "Has_else s \<longleftrightarrow> s_else_stmt s \<noteq> 0"

record winst_stmt_graph =
  g_stmts :: "winst_stmt list"
  g_ins_to_stmt :: "u32 \<Rightarrow> u32 option"

definition WINST_STMT_GRAPH :: winst_stmt_graph where
  "WINST_STMT_GRAPH = \<lparr>g_stmts = [], g_ins_to_stmt = (\<lambda>i. None)\<rparr>"

definition Stmt_id :: "winst_stmt_graph \<Rightarrow> u32 \<Rightarrow> winst_stmt res" where
  "Stmt_id g i = Is_True (unat i < length (g_stmts g)) (Inr (g_stmts g ! unat i))"

text \<open>An update through the reference \<^verbatim>\<open>Stmt_id\<close> returns.\<close>

definition upd_stmt :: "u32 \<Rightarrow> (winst_stmt \<Rightarrow> winst_stmt) \<Rightarrow> winst_stmt_graph \<Rightarrow> winst_stmt_graph res" where
  "upd_stmt i f g = bindr (Stmt_id g i) (\<lambda>s. Inr (g\<lparr>g_stmts := (g_stmts g)[unat i := f s]\<rparr>))"

definition Get_stmt_id_by_inst :: "winst_stmt_graph \<Rightarrow> u32 \<Rightarrow> u32 res" where
  "Get_stmt_id_by_inst g ins_cnt = (case g_ins_to_stmt g ins_cnt of Some i \<Rightarrow> Inr i | None \<Rightarrow> Inl Assertion)"

definition Stmt_by_inst :: "winst_stmt_graph \<Rightarrow> u32 \<Rightarrow> winst_stmt res" where
  "Stmt_by_inst g ins_cnt = bindr (Get_stmt_id_by_inst g ins_cnt) (\<lambda>i. Stmt_id g i)"

definition Add_stmt :: "winst_stmt \<Rightarrow> u32 \<Rightarrow> winst_stmt_graph \<Rightarrow> u32 \<times> winst_stmt_graph" where
  "Add_stmt item ins_cnt g =
    (let i = of_nat (length (g_stmts g));
         g = g\<lparr>g_stmts := g_stmts g @ [item\<lparr>s_id := i\<rparr>]\<rparr>
     in (i, if s_kind item \<noteq> WINST_STMT_ROOT_BLOCK \<and> g_ins_to_stmt g ins_cnt = None
            then g\<lparr>g_ins_to_stmt := (g_ins_to_stmt g)(ins_cnt \<mapsto> i)\<rparr> else g))"

definition Add_stmt_to_parent :: "winst_stmt \<Rightarrow> u32 \<Rightarrow> u32 \<Rightarrow> winst_stmt_graph \<Rightarrow> (u32 \<times> winst_stmt_graph) res" where
  "Add_stmt_to_parent stmt ins_cnt parent g =
    (let (current, g) = Add_stmt stmt ins_cnt g in
     bindr (upd_stmt current (\<lambda>s. s\<lparr>s_parent := parent\<rparr>) g) (\<lambda>g.
     bindr (upd_stmt parent (\<lambda>s. s\<lparr>s_children := s_children s @ [current]\<rparr>) g) (\<lambda>g.
     Inr (current, g))))"

section \<open>Names of labels\<close>

text \<open>The decimal digits \<^verbatim>\<open>%u\<close> prints.\<close>

fun decimal :: "nat \<Rightarrow> u8 list" where
  "decimal n = (if n < 10 then [of_nat (48 + n)] else decimal (n div 10) @ [of_nat (48 + n mod 10)])"

declare decimal.simps [simp del]

text \<open>The strings \<^verbatim>\<open>.L_begin_\<close>, \<^verbatim>\<open>.L_end_\<close> and \<^verbatim>\<open>.L_select_\<close>.\<close>

definition L_begin :: "u8 list" where "L_begin = map of_char ''.L_begin_''"
definition L_end :: "u8 list" where "L_end = map of_char ''.L_end_''"
definition L_select :: "u8 list" where "L_select = map of_char ''.L_select_''"

definition label_name :: "bool \<Rightarrow> u32 \<Rightarrow> u8 list" where
  "label_name begin pc = (if begin then L_begin else L_end) @ decimal (unat pc)"

definition conv_Add_label :: "(u_encoder \<Rightarrow> bool) \<Rightarrow> bool \<Rightarrow> u32 \<Rightarrow> bool \<Rightarrow> u_encoder \<Rightarrow> (u32 \<times> u_encoder) res" where
  "conv_Add_label mv begin pc add_new_label e =
    (if add_new_label then enc_Add_label (mv e) (label_name begin pc) e
     else enc_Request_label (mv e) (label_name begin pc) e)"

section \<open>The block hierarchy\<close>

definition W_Unreachable :: u8 where "W_Unreachable = 0x00"
definition W_Nop :: u8 where "W_Nop = 0x01"
definition W_Block :: u8 where "W_Block = 0x02"
definition W_Loop :: u8 where "W_Loop = 0x03"
definition W_If :: u8 where "W_If = 0x04"
definition W_Else :: u8 where "W_Else = 0x05"
definition W_End :: u8 where "W_End = 0x0b"

record hier =
  h_enc :: u_encoder
  h_work :: "u32 list"
  h_graph :: winst_stmt_graph

definition Finish_old_block :: "u32 list \<Rightarrow> (u32 \<times> u32 list) res" where
  "Finish_old_block work = Is_True (work \<noteq> []) (Inr (hd work, tl work))"

text \<open>
  The result type of a block: \<open>wasm_ty\<close> is the byte of the block type, 128 more than the wabt type.
\<close>

definition block_result :: "u32 \<Rightarrow> winst_stmt \<Rightarrow> winst_stmt res" where
  "block_result wasm_ty s =
    (let wasm_ty_num = (ucast wasm_ty :: u16) - 0x80 in
     if wasm_ty_num \<noteq> ucast WABT_Void \<and> wasm_ty_num \<noteq> - 0x80
     then bindr (Conv_wabt_ty (scast wasm_ty_num)) (\<lambda>ty. Inr (s\<lparr>s_result_cnt := 1, s_result_type := ty\<rparr>))
     else Inr (s\<lparr>s_result_cnt := 0\<rparr>))"

definition Create_new_block :: "(u_encoder \<Rightarrow> bool) \<Rightarrow> u8 \<Rightarrow> u32 \<Rightarrow> u32 \<Rightarrow> hier \<Rightarrow> (u32 \<times> hier) res" where
  "Create_new_block mv opc wasm_ty ins_cnt h =
    (case h_work h of
      parent # _ \<Rightarrow>
        bindr (Add_stmt_to_parent (WINST_STMT WINST_STMT_BLOCK ins_cnt 0 opc) ins_cnt parent (h_graph h)) (\<lambda>(stmt_id, g).
        bindr (if opc = W_Loop \<or> opc = W_Else
               then bindr (conv_Add_label mv True stmt_id False (h_enc h)) (\<lambda>(l, e).
                 bindr (upd_stmt stmt_id (\<lambda>s. s\<lparr>s_begin_label := l\<rparr>) g) (\<lambda>g. Inr (g, e)))
               else Inr (g, h_enc h)) (\<lambda>(g, e).
        bindr (conv_Add_label mv False stmt_id False e) (\<lambda>(end_label_id, e).
        bindr (upd_stmt stmt_id (\<lambda>s. s\<lparr>s_end_label := end_label_id\<rparr>) g) (\<lambda>g.
        bindr (Stmt_id g stmt_id) (\<lambda>s.
        bindr (block_result wasm_ty s) (\<lambda>s.
        bindr (upd_stmt stmt_id (\<lambda>_. s) g) (\<lambda>g.
        Inr (stmt_id, h\<lparr>h_enc := e, h_graph := g, h_work := stmt_id # h_work h\<rparr>))))))))
    | [] \<Rightarrow>
        let (stmt_id, g) = Add_stmt (WINST_STMT WINST_STMT_ROOT_BLOCK ins_cnt 0 opc) ins_cnt (h_graph h)
        in Inr (stmt_id, h\<lparr>h_graph := g, h_work := [stmt_id]\<rparr>))"

text \<open>A statement for an instruction that opens no block; \<^verbatim>\<open>work.top()\<close> of an empty stack is no access.\<close>

definition add_instr :: "u8 \<Rightarrow> u32 \<Rightarrow> hier \<Rightarrow> hier res" where
  "add_instr opc ins_cnt h =
    (case h_work h of [] \<Rightarrow> Inl Out_of_block
     | tos # _ \<Rightarrow> bindr (Add_stmt_to_parent (WINST_STMT WINST_STMT_INSTR ins_cnt tos opc) ins_cnt tos (h_graph h)) (\<lambda>(i, g).
         Inr (h\<lparr>h_graph := g\<rparr>)))"

definition hier_else :: "(u_encoder \<Rightarrow> bool) \<Rightarrow> u8 \<Rightarrow> u32 \<Rightarrow> hier \<Rightarrow> hier res" where
  "hier_else mv opc ins_cnt h =
    Is_True (h_work h \<noteq> []) (
    bindr (Finish_old_block (h_work h)) (\<lambda>(old_stmt_id, work).
    bindr (Stmt_id (h_graph h) old_stmt_id) (\<lambda>old.
    bindr (Conv_ty_wabt (s_result_type old)) (\<lambda>w.
    bindr (Create_new_block mv opc (0x80 + w) ins_cnt (h\<lparr>h_work := work\<rparr>)) (\<lambda>(else_id, h).
    bindr (Stmt_id (h_graph h) old_stmt_id) (\<lambda>if_stmt.
    bindr (Stmt_id (h_graph h) else_id) (\<lambda>else_stmt.
    bindr (upd_stmt old_stmt_id (\<lambda>s. s\<lparr>s_else_stmt := s_id else_stmt\<rparr>) (h_graph h)) (\<lambda>g.
    bindr (upd_stmt else_id (\<lambda>s. s\<lparr>s_else_stmt := s_id if_stmt, s_result_cnt := s_result_cnt if_stmt,
      s_result_type := s_result_type if_stmt\<rparr>) g) (\<lambda>g.
    Is_True (s_opcode if_stmt = W_If) (
    Inr (h\<lparr>h_graph := g\<rparr>)))))))))))"

definition hier_inst :: "(u_encoder \<Rightarrow> bool) \<Rightarrow> u8 list \<Rightarrow> wasm_inst \<Rightarrow> u32 \<Rightarrow> hier \<Rightarrow> hier res" where
  "hier_inst mv buf inst ins_cnt h =
    (let opc = wi_encode inst in
     if opc = W_If \<or> opc = W_Block \<or> opc = W_Loop
     then bindr (Read_leb128 buf (wi_pc inst + 1)) (\<lambda>valty.
       bindr (Create_new_block mv opc (ucast valty) ins_cnt h) (\<lambda>(stmt_id, h). Inr h))
     else if opc = W_Else then hier_else mv opc ins_cnt h
     else if opc = W_End
     then Is_True (h_work h \<noteq> []) (
       bindr (add_instr opc ins_cnt h) (\<lambda>h.
       bindr (Finish_old_block (h_work h)) (\<lambda>(par_stmt_id, work).
       bindr (Stmt_id (h_graph h) par_stmt_id) (\<lambda>par_stmt.
       Inr (h\<lparr>h_work := work\<rparr>)))))
     else add_instr opc ins_cnt h)"

primrec hier_insts :: "(u_encoder \<Rightarrow> bool) \<Rightarrow> u8 list \<Rightarrow> wasm_inst list \<Rightarrow> u32 \<Rightarrow> hier \<Rightarrow> hier res" where
  "hier_insts mv buf [] ins_cnt h = Inr h"
| "hier_insts mv buf (inst # ins) ins_cnt h =
    bindr (hier_inst mv buf inst ins_cnt h) (\<lambda>h. hier_insts mv buf ins (ins_cnt + 1) h)"

definition BLOCK_INSTR_BEGIN :: u32 where "BLOCK_INSTR_BEGIN = 1"

text \<open>\<^verbatim>\<open>labels.Add(0)\<close> adds the placeholder of the debugging table.\<close>

definition Build_block_hierarchy ::
  "(u_encoder \<Rightarrow> bool) \<Rightarrow> u8 list \<Rightarrow> wasm_inst list \<Rightarrow> label_tab \<Rightarrow> u_encoder \<Rightarrow>
    (winst_stmt_graph \<times> label_tab \<times> u_encoder) res" where
  "Build_block_hierarchy mv buf ins labels e =
    bindr (lab_Add 0 (map of_char ''.anonymous'') labels) (\<lambda>(i, labels).
    bindr (Create_new_block mv W_Unreachable 5 BLOCK_INSTR_BEGIN \<lparr>h_enc = e, h_work = [], h_graph = WINST_STMT_GRAPH\<rparr>) (\<lambda>(root, h).
    bindr (hier_insts mv buf ins BLOCK_INSTR_BEGIN h) (\<lambda>h.
    Inr (h_graph h, labels, h_enc h))))"

section \<open>Branch targets\<close>

primrec parent_levels :: "nat \<Rightarrow> winst_stmt_graph \<Rightarrow> u32 \<Rightarrow> u32 res" where
  "parent_levels 0 g cur = Inr cur"
| "parent_levels (Suc n) g cur =
    bindr (Stmt_id g cur) (\<lambda>s. Is_True (s_parent s \<noteq> 0) (parent_levels n g (s_parent s)))"

definition Get_parent_stmt_for_branch :: "u32 \<Rightarrow> winst_stmt_graph \<Rightarrow> u32 \<Rightarrow> u32 res" where
  "Get_parent_stmt_for_branch ins_cnt g jump_cnt =
    bindr (Get_stmt_id_by_inst g ins_cnt) (\<lambda>current_stmt_id.
    parent_levels (unat (jump_cnt + 1)) g current_stmt_id)"

definition Get_label_id_for_jump :: "u32 \<Rightarrow> u32 \<Rightarrow> winst_stmt_graph \<Rightarrow> u32 res" where
  "Get_label_id_for_jump ins_cnt jump_cnt g =
    bindr (Get_parent_stmt_for_branch ins_cnt g jump_cnt) (\<lambda>target.
    bindr (Stmt_id g target) (\<lambda>s.
    if s_opcode s = W_Loop then Inr (s_begin_label s)
    else if s_opcode s = W_If \<and> Has_else s
    then bindr (Stmt_id g (s_else_stmt s)) (\<lambda>e. Inr (s_begin_label e))
    else Inr (s_end_label s)))"

end
