(* ===== verification/Conv_Insts.thy ===== *)
theory Conv_Insts
  imports Conv_Stmts
begin

text \<open>
  The stack-based pass of the converter (\<^verbatim>\<open>Wasm_to_uwasm\<close> in \<^verbatim>\<open>src/wasm/converter.cxx\<close>), one definition for each
  group of cases of its switch.  A case that ends in \<^verbatim>\<open>break\<close> yields the instruction added after the switch, one
  that ends in \<^verbatim>\<open>continue\<close> yields none.  The wabt module is a parameter: the signatures, local types and global
  types the converter asks it for.
\<close>

section \<open>State\<close>

text \<open>What \<^verbatim>\<open>wabt::Module\<close> knows of functions, function types and globals.\<close>

record wabt_sig =
  sg_params :: "u32 list"
  sg_results :: "u32 list"

record wabt_func =
  wf_name :: "u8 list"
  wf_sig :: wabt_sig
  wf_locals :: "u32 list"

record wabt_module =
  wm_funcs :: "wabt_func list"
  wm_types :: "wabt_sig list"
  wm_globals :: "u32 list"

definition GetFunc :: "wabt_module \<Rightarrow> u32 \<Rightarrow> wabt_func res" where
  "GetFunc md i = arr_at (wm_funcs md) (unat i)"

definition GetFuncType :: "wabt_module \<Rightarrow> u32 \<Rightarrow> wabt_sig res" where
  "GetFuncType md i = arr_at (wm_types md) (unat i)"

definition GetGlobal_type :: "wabt_module \<Rightarrow> u32 \<Rightarrow> u32 res" where
  "GetGlobal_type md i = arr_at (wm_globals md) (unat i)"

record file_context =
  fc_module :: wabt_module
  fc_func_idx :: u32
  fc_last_anon_func_idx :: u32
  fc_stack_check :: bool
  fc_func_name_cache :: "u32 \<Rightarrow> u8 list option"
  fc_glbl_id_map :: "u32 \<Rightarrow> u32 option"

definition ctx_Get_func :: "file_context \<Rightarrow> wabt_func res" where
  "ctx_Get_func ctx = GetFunc (fc_module ctx) (fc_func_idx ctx)"

definition Get_global_uwasm_id :: "u32 \<Rightarrow> file_context \<Rightarrow> u32" where
  "Get_global_uwasm_id wasm_id ctx = (case fc_glbl_id_map ctx wasm_id of Some i \<Rightarrow> i | None \<Rightarrow> 0)"

definition Get_anon_func_name :: "file_context \<Rightarrow> u8 list \<times> file_context" where
  "Get_anon_func_name ctx =
    (of_char CHR ''f'' # decimal (unat (fc_last_anon_func_idx ctx)),
     ctx\<lparr>fc_last_anon_func_idx := fc_last_anon_func_idx ctx + 1\<rparr>)"

record conv = conv_regs +
  cv_enc :: u_encoder
  cv_graph :: winst_stmt_graph
  cv_local_map :: "local_map_elem list"
  cv_call_pcs :: "u32 list"
  cv_icall :: "u32 \<Rightarrow> u32 option"

text \<open>The instruction added after the switch, when the case reaches it.\<close>

type_synonym outcome = "(u_opc_ty_pair \<times> u32 list) option"

section \<open>Adding instructions\<close>

definition U_JMP :: u32 where "U_JMP = 0x04"
definition U_CALL :: u32 where "U_CALL = 0x03"
definition U_CALL_INDIRECT :: u32 where "U_CALL_INDIRECT = 0x05"
definition U_JEZ :: u32 where "U_JEZ = 0x0a"
definition U_JNZ :: u32 where "U_JNZ = 0x0b"
definition U_MOV :: u32 where "U_MOV = 0x12"
definition U_CONST :: u32 where "U_CONST = 0x14"
definition U_CONST_L :: u32 where "U_CONST_L = 0x80"
definition U_CONST_L_HIGH :: u32 where "U_CONST_L_HIGH = 0x81"
definition U_ADD_RRI :: u32 where "U_ADD_RRI = 0x84"
definition U_ADD :: u32 where "U_ADD = 0xb0"

definition add_inst :: "u32 \<Rightarrow> valtype \<Rightarrow> u32 list \<Rightarrow> conv \<Rightarrow> conv res" where
  "add_inst opc valty content c =
    bindr (Get_opc_tyam opc) (\<lambda>am.
    bindr (enc_Add_inst (opc, valty, am, content) (cv_enc c)) (\<lambda>(r, e). Inr (c\<lparr>cv_enc := e\<rparr>)))"

definition Add_mov_inst :: "u32 \<Rightarrow> u32 \<Rightarrow> valtype \<Rightarrow> conv \<Rightarrow> conv res" where
  "Add_mov_inst dst src valty = add_inst U_MOV valty [dst, src]"

definition Add_jump_inst :: "u32 \<Rightarrow> u32 \<Rightarrow> conv \<Rightarrow> conv res" where
  "Add_jump_inst label_idx opc = add_inst opc I32 [label_idx]"

definition Add_cond_jump_inst :: "u32 \<Rightarrow> u32 \<Rightarrow> u32 \<Rightarrow> conv \<Rightarrow> conv res" where
  "Add_cond_jump_inst reg label_idx opc = add_inst opc I32 [reg, label_idx]"

definition Add_addi_inst :: "u32 \<Rightarrow> u32 \<Rightarrow> u32 \<Rightarrow> conv \<Rightarrow> conv res" where
  "Add_addi_inst dst src imm = add_inst U_ADD_RRI I32 [dst, src, imm]"

definition Add_rrr_inst :: "u32 \<Rightarrow> valtype \<Rightarrow> u32 \<Rightarrow> u32 \<Rightarrow> u32 \<Rightarrow> conv \<Rightarrow> conv res" where
  "Add_rrr_inst opc valty dst src1 src2 = add_inst opc valty [dst, src1, src2]"

definition Add_const_inst :: "u32 \<Rightarrow> valtype \<Rightarrow> u32 \<Rightarrow> u32 \<Rightarrow> conv \<Rightarrow> conv res" where
  "Add_const_inst opc valty dst imm = add_inst opc valty [dst, imm]"

definition add_label :: "(u_encoder \<Rightarrow> bool) \<Rightarrow> bool \<Rightarrow> u32 \<Rightarrow> conv \<Rightarrow> (u32 \<times> conv) res" where
  "add_label mv begin pc c =
    bindr (conv_Add_label mv begin pc True (cv_enc c)) (\<lambda>(l, e). Inr (l, c\<lparr>cv_enc := e\<rparr>))"

section \<open>Blocks and branches\<close>

definition set_cur :: "u32 \<Rightarrow> (winst_stmt \<Rightarrow> winst_stmt) \<Rightarrow> conv \<Rightarrow> conv res" where
  "set_cur i f c = bindr (upd_stmt i f (cv_graph c)) (\<lambda>g. Inr (c\<lparr>cv_graph := g\<rparr>))"

text \<open>The result register of a block, when it has a result.\<close>

definition alloc_result :: "u32 \<Rightarrow> winst_stmt \<Rightarrow> conv \<Rightarrow> (u32 option \<times> conv) res" where
  "alloc_result ins_cnt cur c =
    (if 0 < s_result_cnt cur
     then bindr (Allocate_register ins_cnt (s_result_type cur) c) (\<lambda>(reg_id, c).
       bindr (set_cur (s_id cur) (\<lambda>s. s\<lparr>s_result_reg := reg_id\<rparr>) c) (\<lambda>c. Inr (Some reg_id, c)))
     else Inr (None, c))"

definition stk_size :: "conv \<Rightarrow> u32" where
  "stk_size c = of_nat (length (cr_stack c))"

definition conv_block :: "u32 \<Rightarrow> winst_stmt \<Rightarrow> conv \<Rightarrow> (outcome \<times> conv) res" where
  "conv_block ins_cnt cur c =
    bindr (alloc_result ins_cnt cur c) (\<lambda>(reg, c).
    bindr (set_cur (s_id cur) (\<lambda>s. s\<lparr>s_stack_size := stk_size c\<rparr>) c) (\<lambda>c. Inr (None, c)))"

definition conv_loop :: "(u_encoder \<Rightarrow> bool) \<Rightarrow> u32 \<Rightarrow> winst_stmt \<Rightarrow> conv \<Rightarrow> (outcome \<times> conv) res" where
  "conv_loop mv ins_cnt cur c =
    bindr (Get_stmt_id_by_inst (cv_graph c) ins_cnt) (\<lambda>i.
    bindr (add_label mv True i c) (\<lambda>(label_id, c).
    Is_True (s_kind cur = WINST_STMT_BLOCK) (
    Is_True (s_begin_label cur = label_id) (
    conv_block ins_cnt cur c))))"

definition Add_mov_for_break :: "u32 \<Rightarrow> bool \<Rightarrow> conv \<Rightarrow> (u32 \<times> conv) res" where
  "Add_mov_for_break target_blk_stmtid pop_stack c =
    bindr (Stmt_id (cv_graph c) target_blk_stmtid) (\<lambda>target.
    if 0 < s_result_cnt target
    then if cr_stack c = [] then Inr (0, c)
      else bindr (if pop_stack then Pop_wasm_stk (s_result_type target) c
                  else bindr (stk_top (cr_stack c)) (\<lambda>rs. Inr (rs, c))) (\<lambda>(rs, c).
        Check_stack_elem_valty rs (s_result_type target) (
        bindr (add_inst U_MOV (s_result_type target) [s_result_reg target, ws_idx rs] c) (\<lambda>c. Inr (1, c))))
    else Inr (0, c))"

definition conv_else :: "(u_encoder \<Rightarrow> bool) \<Rightarrow> u_opc_ty_pair \<Rightarrow> winst_stmt \<Rightarrow> conv \<Rightarrow> (outcome \<times> conv) res" where
  "conv_else mv u cur c =
    bindr (Add_mov_for_break (s_id cur) False c) (\<lambda>(n, c).
    bindr (add_inst (up_opcode u) (up_valty u) [s_end_label cur] c) (\<lambda>c.
    bindr (add_label mv True (s_id cur) c) (\<lambda>(label_id, c).
    Is_True (s_kind cur = WINST_STMT_BLOCK) (
    Is_True (s_begin_label cur = label_id) (
    Inr (None, c))))))"

definition conv_br :: "u8 list \<Rightarrow> wasm_inst \<Rightarrow> u_opc_ty_pair \<Rightarrow> u32 \<Rightarrow> conv \<Rightarrow> (outcome \<times> conv) res" where
  "conv_br buf inst u ins_cnt c =
    bindr (Read_leb128 buf (wi_pc inst + 1)) (\<lambda>jump_cnt.
    bindr (Get_label_id_for_jump ins_cnt (ucast jump_cnt) (cv_graph c)) (\<lambda>target_label_id.
    Is_True (target_label_id \<noteq> UNINIT_LABEL_IDX) (
    bindr (Get_parent_stmt_for_branch ins_cnt (cv_graph c) (ucast jump_cnt)) (\<lambda>target.
    bindr (Add_mov_for_break target False c) (\<lambda>(n, c).
    Inr (Some (u, [target_label_id]), c))))))"

definition conv_if :: "u_opc_ty_pair \<Rightarrow> u32 \<Rightarrow> winst_stmt \<Rightarrow> conv \<Rightarrow> (outcome \<times> conv) res" where
  "conv_if u ins_cnt cur c =
    bindr (Pop_wasm_stk I32 c) (\<lambda>(cond, c).
    bindr (alloc_result ins_cnt cur c) (\<lambda>(reg, c).
    bindr (case reg of Some reg_id \<Rightarrow>
        if Has_else cur then set_cur (s_else_stmt cur) (\<lambda>s. s\<lparr>s_result_reg := reg_id\<rparr>) c else Inr c
      | None \<Rightarrow> Inr c) (\<lambda>c.
    bindr (if Has_else cur then bindr (Stmt_id (cv_graph c) (s_else_stmt cur)) (\<lambda>e. Inr (s_begin_label e))
           else Inr (s_end_label cur)) (\<lambda>target_label_id.
    Check_stack_elem_valty cond I32 (
    bindr (set_cur (s_id cur) (\<lambda>s. s\<lparr>s_stack_size := stk_size c\<rparr>) c) (\<lambda>c.
    bindr (if Has_else cur then set_cur (s_else_stmt cur) (\<lambda>s. s\<lparr>s_stack_size := stk_size c\<rparr>) c else Inr c) (\<lambda>c.
    Inr (Some (u, [ws_idx cond, target_label_id]), c))))))))"

definition conv_br_if :: "u8 list \<Rightarrow> wasm_inst \<Rightarrow> u_opc_ty_pair \<Rightarrow> u32 \<Rightarrow> conv \<Rightarrow> (outcome \<times> conv) res" where
  "conv_br_if buf inst u ins_cnt c =
    Is_True (cr_stack c \<noteq> []) (
    bindr (Pop_wasm_stk I32 c) (\<lambda>(cond, c).
    bindr (Read_leb128 buf (wi_pc inst + 1)) (\<lambda>br_cnt.
    bindr (Get_label_id_for_jump ins_cnt (ucast br_cnt) (cv_graph c)) (\<lambda>target_label_id.
    bindr (Get_parent_stmt_for_branch ins_cnt (cv_graph c) (ucast br_cnt)) (\<lambda>target.
    bindr (Add_mov_for_break target False c) (\<lambda>(n, c).
    Inr (Some (u, [ws_idx cond, target_label_id]), c)))))))"

text \<open>\<^verbatim>\<open>Read_br_table_lbl_vec\<close>: the labels of the vector and the default label.\<close>

primrec br_labels :: "nat \<Rightarrow> u8 list \<Rightarrow> nat \<Rightarrow> (u32 list \<times> nat) res" where
  "br_labels 0 buf pc = Inr ([], pc)"
| "br_labels (Suc n) buf pc =
    bindr (Read_leb128 buf pc) (\<lambda>l.
    bindr (Read_opr_size_leb128 buf pc) (\<lambda>next_opr_size.
    bindr (br_labels n buf (pc + unat next_opr_size)) (\<lambda>(ls, pc). Inr (ucast l # ls, pc))))"

definition Read_br_table_lbl_vec :: "u8 list \<Rightarrow> nat \<Rightarrow> u32 list res" where
  "Read_br_table_lbl_vec buf pc =
    bindr (Read_leb128 buf pc) (\<lambda>vec_size.
    bindr (Read_opr_size_leb128 buf pc) (\<lambda>vec_size_field_len.
    bindr (br_labels (unat (ucast vec_size :: u32)) buf (pc + unat vec_size_field_len)) (\<lambda>(ls, pc).
    bindr (Read_opr_size_leb128 buf pc) (\<lambda>next_opr_size.
    bindr (Read_leb128 buf pc) (\<lambda>l. Inr (ls @ [ucast l]))))))"

text \<open>The moves before a \<^verbatim>\<open>br_table\<close>, one for each distinct target in ascending order, and its jumps.\<close>

definition br_table_movs :: "u32 \<Rightarrow> u32 list \<Rightarrow> conv \<Rightarrow> conv res" where
  "br_table_movs ins_cnt = foldr_res (\<lambda>l c.
    bindr (Get_parent_stmt_for_branch ins_cnt (cv_graph c) l) (\<lambda>target.
    bindr (Add_mov_for_break target False c) (\<lambda>(n, c). Inr c)))"

fun br_table_jumps :: "u32 \<Rightarrow> u32 \<Rightarrow> u32 list \<Rightarrow> conv \<Rightarrow> conv res" where
  "br_table_jumps ins_cnt rtemp [] c = Inr c"
| "br_table_jumps ins_cnt rtemp [l] c =
    bindr (Get_label_id_for_jump ins_cnt l (cv_graph c)) (\<lambda>target_label_id. Add_jump_inst target_label_id U_JMP c)"
| "br_table_jumps ins_cnt rtemp (l # ls) c =
    bindr (Get_label_id_for_jump ins_cnt l (cv_graph c)) (\<lambda>target_label_id.
    bindr (Add_cond_jump_inst rtemp target_label_id U_JEZ c) (\<lambda>c.
    bindr (Add_addi_inst rtemp rtemp (- 1) c) (\<lambda>c.
    br_table_jumps ins_cnt rtemp ls c)))"

definition conv_br_table :: "u8 list \<Rightarrow> wasm_inst \<Rightarrow> u32 \<Rightarrow> conv \<Rightarrow> (outcome \<times> conv) res" where
  "conv_br_table buf inst ins_cnt c =
    bindr (Push_temp_reg ins_cnt I32 c) (\<lambda>(rtemp_idx, c).
    bindr (Pop_wasm_stk I32 c) (\<lambda>(rtemp, c).
    Is_True (cr_stack c \<noteq> []) (
    bindr (Pop_wasm_stk I32 c) (\<lambda>(idx, c).
    bindr (Read_br_table_lbl_vec buf (wi_pc inst + 1)) (\<lambda>br_labels.
    Is_True (0 < length br_labels) (
    bindr (Add_mov_inst (ws_idx rtemp) (ws_idx idx) I32 c) (\<lambda>c.
    bindr (br_table_movs ins_cnt (remdups (sort br_labels)) c) (\<lambda>c.
    bindr (br_table_jumps ins_cnt (ws_idx rtemp) br_labels c) (\<lambda>c.
    Inr (None, c))))))))))"

section \<open>Variables, selection, constants\<close>

definition conv_drop :: "conv \<Rightarrow> (outcome \<times> conv) res" where
  "conv_drop c = bindr (Pop_wasm_stk VALTY_UNKNOWN c) (\<lambda>(e, c). Inr (None, c))"

definition conv_global_get :: "u8 list \<Rightarrow> file_context \<Rightarrow> wasm_inst \<Rightarrow> u_opc_ty_pair \<Rightarrow> u32 \<Rightarrow> conv \<Rightarrow> (outcome \<times> conv) res" where
  "conv_global_get buf ctx inst u ins_cnt c =
    bindr (Read_leb128 buf (wi_pc inst + 1)) (\<lambda>global_idx.
    bindr (GetGlobal_type (fc_module ctx) (ucast global_idx)) (\<lambda>wasmty.
    bindr (Conv_wabt_ty wasmty) (\<lambda>valty.
    bindr (Push_temp_reg ins_cnt valty c) (\<lambda>(dst, c).
    Inr (Some (u\<lparr>up_valty := valty\<rparr>, [dst, Get_global_uwasm_id (ucast global_idx) ctx]), c)))))"

definition conv_global_set :: "u8 list \<Rightarrow> file_context \<Rightarrow> wasm_inst \<Rightarrow> u_opc_ty_pair \<Rightarrow> conv \<Rightarrow> (outcome \<times> conv) res" where
  "conv_global_set buf ctx inst u c =
    bindr (Read_leb128 buf (wi_pc inst + 1)) (\<lambda>global_idx.
    bindr (GetGlobal_type (fc_module ctx) (ucast global_idx)) (\<lambda>wasmty.
    bindr (Conv_wabt_ty wasmty) (\<lambda>valty.
    bindr (Pop_wasm_stk valty c) (\<lambda>(rs, c).
    Inr (Some (u\<lparr>up_valty := valty\<rparr>, [ws_idx rs, Get_global_uwasm_id (ucast global_idx) ctx]), c)))))"

definition conv_select :: "(u_encoder \<Rightarrow> bool) \<Rightarrow> u32 \<Rightarrow> conv \<Rightarrow> (outcome \<times> conv) res" where
  "conv_select mv ins_cnt c =
    bindr (Push_temp_reg ins_cnt I32 c) (\<lambda>(rtemp_idx, c).
    bindr (Pop_wasm_stk I32 c) (\<lambda>(rtemp, c).
    Is_True (3 \<le> length (cr_stack c)) (
    bindr (Pop_wasm_stk I32 c) (\<lambda>(select_bool, c).
    bindr (Pop_wasm_stk VALTY_UNKNOWN c) (\<lambda>(rs, c).
    let valty = ws_val_type rs in
    bindr (Pop_wasm_stk valty c) (\<lambda>(rt, c).
    bindr (Push_temp_reg ins_cnt valty c) (\<lambda>(dst, c).
    let label_name = L_select @ decimal (unat ins_cnt) in
    bindr (enc_Request_label (mv (cv_enc c)) label_name (cv_enc c)) (\<lambda>(label_idx, e).
    let c = c\<lparr>cv_enc := e\<rparr> in
    bindr (if dst = ws_idx rt
      then bindr (Add_cond_jump_inst (ws_idx select_bool) label_idx U_JNZ c) (Add_mov_inst dst (ws_idx rs) valty)
      else if ws_idx select_bool = dst
      then bindr (Add_mov_inst (ws_idx rtemp) (ws_idx select_bool) I32 c) (\<lambda>c.
        bindr (Add_mov_inst dst (ws_idx rs) valty c) (\<lambda>c.
        bindr (Add_cond_jump_inst (ws_idx rtemp) label_idx U_JEZ c) (Add_mov_inst dst (ws_idx rt) valty)))
      else bindr (Add_mov_inst dst (ws_idx rs) valty c) (\<lambda>c.
        bindr (Add_cond_jump_inst (ws_idx select_bool) label_idx U_JEZ c) (Add_mov_inst dst (ws_idx rt) valty))) (\<lambda>c.
    bindr (enc_Add_label (mv (cv_enc c)) label_name (cv_enc c)) (\<lambda>(result_label_idx, e).
    Is_True (result_label_idx = label_idx) (
    Inr (None, c\<lparr>cv_enc := e\<rparr>))))))))))))"

definition conv_local_get :: "u8 list \<Rightarrow> wasm_inst \<Rightarrow> u32 \<Rightarrow> conv \<Rightarrow> (outcome \<times> conv) res" where
  "conv_local_get buf inst ins_cnt c =
    bindr (Read_leb128 buf (wi_pc inst + 1)) (\<lambda>local_idx.
    bindr (Get_wasm_local_ty (cv_local_map c) (ucast local_idx)) (\<lambda>rs.
    bindr (ty_at (cr_local_tab c) (lm_ty rs)) (\<lambda>t.
    bindr (lt_Get t (Get_tab_idx_by_reg_idx (lm_reg_idx rs))) (\<lambda>tab_elem.
    Inr (None, c\<lparr>cr_stack := WASM_STACK_ELEM (lt_kind tab_elem) (lm_ty rs) (lm_reg_idx rs) ins_cnt # cr_stack c\<rparr>)))))"

definition conv_local_set :: "u8 list \<Rightarrow> wasm_inst \<Rightarrow> u_opc_ty_pair \<Rightarrow> conv \<Rightarrow> (outcome \<times> conv) res" where
  "conv_local_set buf inst u c =
    bindr (Read_leb128 buf (wi_pc inst + 1)) (\<lambda>local_idx.
    bindr (Get_wasm_local_ty (cv_local_map c) (ucast local_idx)) (\<lambda>dst.
    bindr (Pop_wasm_stk (lm_ty dst) c) (\<lambda>(rs, c).
    Inr (Some (u\<lparr>up_valty := ws_val_type rs\<rparr>, [lm_reg_idx dst, ws_idx rs]), c))))"

definition conv_local_tee :: "u8 list \<Rightarrow> wasm_inst \<Rightarrow> u_opc_ty_pair \<Rightarrow> conv \<Rightarrow> (outcome \<times> conv) res" where
  "conv_local_tee buf inst u c =
    bindr (Read_leb128 buf (wi_pc inst + 1)) (\<lambda>local_idx.
    bindr (Get_wasm_local_ty (cv_local_map c) (ucast local_idx)) (\<lambda>dst.
    bindr (stk_top (cr_stack c)) (\<lambda>rs.
    Check_stack_elem_valty rs (lm_ty dst) (
    Inr (Some (u\<lparr>up_valty := ws_val_type rs\<rparr>, [lm_reg_idx dst, ws_idx rs]), c)))))"

definition conv_const64 :: "u8 list \<Rightarrow> wasm_inst \<Rightarrow> u_opc_ty_pair \<Rightarrow> u32 \<Rightarrow> conv \<Rightarrow> (outcome \<times> conv) res" where
  "conv_const64 buf inst u ins_cnt c =
    bindr (Push_temp_reg ins_cnt (up_valty u) c) (\<lambda>(dst, c).
    bindr (Read_const_value buf (wi_pc inst + 1) (up_valty u)) (\<lambda>const_value.
    bindr (add_inst U_CONST_L (up_valty u) [dst, ucast (const_value AND 0xffffffff)] c) (\<lambda>c.
    Inr (Some (u, [dst, ucast (drop_bit 32 const_value)]), c))))"

definition conv_const32 :: "u8 list \<Rightarrow> wasm_inst \<Rightarrow> u_opc_ty_pair \<Rightarrow> u32 \<Rightarrow> conv \<Rightarrow> (outcome \<times> conv) res" where
  "conv_const32 buf inst u ins_cnt c =
    bindr (Push_temp_reg ins_cnt (up_valty u) c) (\<lambda>(dst, c).
    bindr (Read_const_value buf (wi_pc inst + 1) (up_valty u)) (\<lambda>const_value.
    Inr (Some (u, [dst, ucast (const_value AND 0xffffffff)]), c)))"

section \<open>Memory\<close>

text \<open>
  The form of a load or store: short, long, or long with the full offset added to the address in \<open>rtemp_idx\<close> first.
\<close>

definition mem_form :: "u_opc_ty_pair \<Rightarrow> u32 \<Rightarrow> u32 \<Rightarrow> u32 \<Rightarrow> u64 \<Rightarrow> conv \<Rightarrow> (outcome \<times> conv) res" where
  "mem_form u data addr rtemp_idx offset c =
    (if OFFSET_S_MAX < offset \<or> REG_S_MAX < ucast addr \<or> REG_S_MAX < ucast data
     then Is_True (offset \<le> OFFSET_L_MAX) (
       bindr (Conv_to_long_opcode (up_opcode u)) (\<lambda>opc.
       let u = u\<lparr>up_opcode := opc\<rparr> in
       if OFFSET_M_MAX \<le> offset
       then bindr (Add_const_inst U_CONST_L I32 rtemp_idx (ucast offset) c) (\<lambda>c.
         bindr (Add_rrr_inst U_ADD I32 rtemp_idx addr rtemp_idx c) (\<lambda>c.
         Inr (Some (u, [data, rtemp_idx, 0]), c)))
       else Inr (Some (u, [data, addr, ucast offset]), c)))
     else Inr (Some (u, [data, addr, ucast offset]), c))"

definition conv_load :: "u8 list \<Rightarrow> wasm_inst \<Rightarrow> u_opc_ty_pair \<Rightarrow> u32 \<Rightarrow> conv \<Rightarrow> (outcome \<times> conv) res" where
  "conv_load buf inst u ins_cnt c =
    bindr (Read_opr_size_leb128 buf (wi_pc inst + 1)) (\<lambda>align_size.
    let pc = wi_pc inst + 1 + unat align_size in
    bindr (Push_temp_reg ins_cnt I32 c) (\<lambda>(rtemp_idx, c).
    bindr (Pop_wasm_stk I32 c) (\<lambda>(rtemp, c).
    bindr (Pop_wasm_stk I32 c) (\<lambda>(rs, c).
    bindr (Push_temp_reg ins_cnt (up_valty u) c) (\<lambda>(dst, c).
    bindr (Read_leb128 buf pc) (\<lambda>offset.
    Is_True (offset \<le> OFFSET_L_MAX) (
    mem_form u dst (ws_idx rs) rtemp_idx offset c)))))))"

definition conv_store :: "u8 list \<Rightarrow> wasm_inst \<Rightarrow> u_opc_ty_pair \<Rightarrow> u32 \<Rightarrow> conv \<Rightarrow> (outcome \<times> conv) res" where
  "conv_store buf inst u ins_cnt c =
    bindr (Read_opr_size_leb128 buf (wi_pc inst + 1)) (\<lambda>align_size.
    let pc = wi_pc inst + 1 + unat align_size in
    bindr (Push_temp_reg ins_cnt I32 c) (\<lambda>(rtemp_idx, c).
    bindr (Pop_wasm_stk I32 c) (\<lambda>(rtemp, c).
    bindr (Pop_wasm_stk (up_valty u) c) (\<lambda>(data, c).
    bindr (Pop_wasm_stk I32 c) (\<lambda>(rs, c).
    bindr (Read_leb128 buf pc) (\<lambda>offset.
    Is_True (offset < 0x7fffffff) (
    mem_form u (ws_idx data) (ws_idx rs) rtemp_idx offset c)))))))"

definition conv_memory_grow :: "u_opc_ty_pair \<Rightarrow> u32 \<Rightarrow> conv \<Rightarrow> (outcome \<times> conv) res" where
  "conv_memory_grow u ins_cnt c =
    bindr (Pop_wasm_stk I32 c) (\<lambda>(rs, c).
    bindr (Push_temp_reg ins_cnt (up_valty u) c) (\<lambda>(dst, c).
    Inr (Some (u, [dst, ws_idx rs]), c)))"

definition conv_memory_size :: "u_opc_ty_pair \<Rightarrow> u32 \<Rightarrow> conv \<Rightarrow> (outcome \<times> conv) res" where
  "conv_memory_size u ins_cnt c =
    bindr (Push_temp_reg ins_cnt (up_valty u) c) (\<lambda>(dst, c). Inr (Some (u, [dst]), c))"

section \<open>Operators\<close>

definition conv_compare :: "u_opc_ty_pair \<Rightarrow> u32 \<Rightarrow> conv \<Rightarrow> (outcome \<times> conv) res" where
  "conv_compare u ins_cnt c =
    bindr (Pop_wasm_stk VALTY_UNKNOWN c) (\<lambda>(rt, c).
    bindr (Pop_wasm_stk (ws_val_type rt) c) (\<lambda>(rs, c).
    bindr (Push_temp_reg ins_cnt I32 c) (\<lambda>(dst, c).
    Inr (Some (u, [dst, ws_idx rs, ws_idx rt]), c))))"

definition conv_binary :: "u_opc_ty_pair \<Rightarrow> u32 \<Rightarrow> conv \<Rightarrow> (outcome \<times> conv) res" where
  "conv_binary u ins_cnt c =
    bindr (Pop_wasm_stk VALTY_UNKNOWN c) (\<lambda>(rt, c).
    bindr (Pop_wasm_stk (ws_val_type rt) c) (\<lambda>(rs, c).
    Check_stack_elem_valty rs (ws_val_type rt) (
    bindr (Push_temp_reg ins_cnt (up_valty u) c) (\<lambda>(dst, c).
    Inr (Some (u, [dst, ws_idx rs, ws_idx rt]), c)))))"

definition conv_copysign :: "wasm_inst \<Rightarrow> u_opc_ty_pair \<Rightarrow> u32 \<Rightarrow> conv \<Rightarrow> (outcome \<times> conv) res" where
  "conv_copysign inst u ins_cnt c =
    bindr (Pop_wasm_stk (up_valty u) c) (\<lambda>(rt, c).
    bindr (Pop_wasm_stk (up_valty u) c) (\<lambda>(rs, c).
    bindr (Push_temp_reg ins_cnt (up_valty u) c) (\<lambda>(dst, c).
    bindr (Conv_wasm_opc_to_builtin (wi_encode inst)) (\<lambda>b.
    Inr (Some (u, [dst, ws_idx rs, push_bit 16 (ws_idx rt) + b]), c)))))"

definition conv_unary :: "u_opc_ty_pair \<Rightarrow> u32 \<Rightarrow> conv \<Rightarrow> (outcome \<times> conv) res" where
  "conv_unary u ins_cnt c =
    bindr (Pop_wasm_stk (up_valty u) c) (\<lambda>(rs, c).
    bindr (Push_temp_reg ins_cnt (up_valty u) c) (\<lambda>(dst, c).
    Inr (Some (u, [dst, ws_idx rs]), c)))"

definition conv_builtin :: "wasm_inst \<Rightarrow> u_opc_ty_pair \<Rightarrow> u32 \<Rightarrow> conv \<Rightarrow> (outcome \<times> conv) res" where
  "conv_builtin inst u ins_cnt c =
    bindr (Pop_wasm_stk VALTY_UNKNOWN c) (\<lambda>(rs, c).
    bindr (Push_temp_reg ins_cnt (up_valty u) c) (\<lambda>(dst, c).
    bindr (Conv_wasm_opc_to_builtin (wi_encode inst)) (\<lambda>b.
    Inr (Some (u, [dst, ws_idx rs, b]), c))))"

definition conv_eqz :: "u_opc_ty_pair \<Rightarrow> u32 \<Rightarrow> conv \<Rightarrow> (outcome \<times> conv) res" where
  "conv_eqz u ins_cnt c =
    bindr (Pop_wasm_stk (up_valty u) c) (\<lambda>(rs, c).
    bindr (Push_temp_reg ins_cnt I32 c) (\<lambda>(dst, c).
    Inr (Some (u, [dst, ws_idx rs]), c)))"

end
