(* ===== verification/Conv_Comp.thy ===== *)
theory Conv_Comp
  imports Alu_Props Conv_Alloc Conv_Insts
begin

text \<open>
  A reference semantics of straight-line integer code (constants, locals, arithmetic and comparisons on the operand
  stack, as the WebAssembly specification has it), the code the converter's allocation of registers leads to, and that
  this code computes on the registers of the machine what the reference computes on the stack.
\<close>

section \<open>Straight-line integer code\<close>

datatype wop =
    OpNop
  | OpConst int_ty int
  | OpGet nat
  | OpSet nat
  | OpTee nat
  | OpDrop
  | OpBin int_ty ibinop
  | OpRel irelop
  | OpEqz

text \<open>A value with its type; a state is the locals and the operand stack.  \<open>None\<close> is a trap or an ill-typed step.\<close>

type_synonym wval = "int_ty \<times> int"
type_synonym wstate = "wval list \<times> wval list"

fun wstep :: "wop \<Rightarrow> wstate \<Rightarrow> wstate option" where
  "wstep OpNop s = Some s"
| "wstep (OpConst t k) (ls, st) = Some (ls, (t, k mod 2 ^ width t) # st)"
| "wstep (OpGet i) (ls, st) = (if i < length ls then Some (ls, ls ! i # st) else None)"
| "wstep (OpSet i) (ls, x # st) = (if i < length ls \<and> fst (ls ! i) = fst x then Some (ls[i := x], st) else None)"
| "wstep (OpTee i) (ls, x # st) = (if i < length ls \<and> fst (ls ! i) = fst x then Some (ls[i := x], x # st) else None)"
| "wstep OpDrop (ls, x # st) = Some (ls, st)"
| "wstep (OpBin t f) (ls, (t2, j) # (t1, i) # st) =
    (if t1 = t \<and> t2 = t then map_option (\<lambda>v. (ls, (t, v) # st)) (wasm_binop (width t) f i j) else None)"
| "wstep (OpRel r) (ls, (t2, j) # (t1, i) # st) =
    (if t1 = T_i32 \<and> t2 = T_i32 then Some (ls, (T_i32, of_bool (wasm_relop 32 r i j)) # st) else None)"
| "wstep OpEqz (ls, (t, i) # st) = (if t = T_i32 then Some (ls, (T_i32, of_bool (i = 0)) # st) else None)"
| "wstep _ _ = None"

primrec wrun :: "wop list \<Rightarrow> wstate \<Rightarrow> wstate option" where
  "wrun [] s = Some s"
| "wrun (a # ops) s = (case wstep a s of Some s' \<Rightarrow> wrun ops s' | None \<Rightarrow> None)"

text \<open>
  Where the converted code follows the reference: no local is overwritten while its old value is still on the stack
  (\<open>src\<close> records which local a stack value was read from), the operator is one the machine implements, and its C++
  expression is defined on the operands.
\<close>

fun src_step :: "wop \<Rightarrow> nat option list \<Rightarrow> nat option list" where
  "src_step (OpConst t k) src = None # src"
| "src_step (OpGet i) src = Some i # src"
| "src_step (OpSet i) src = tl src"
| "src_step OpDrop src = tl src"
| "src_step (OpBin t f) src = None # tl (tl src)"
| "src_step (OpRel r) src = None # tl (tl src)"
| "src_step OpEqz src = None # tl src"
| "src_step _ src = src"

fun op_safe :: "wop \<Rightarrow> nat option list \<Rightarrow> wstate \<Rightarrow> bool" where
  "op_safe (OpSet i) src s = (Some i \<notin> set (tl src))"
| "op_safe (OpTee i) src s = (Some i \<notin> set (tl src))"
| "op_safe (OpBin t f) src (ls, (t2, j) # (t1, i) # st) =
    (f \<in> snd ` set alu_ops \<and> (is_shift f \<longrightarrow> t = T_i32) \<and> cpp_defined (width t) f i j)"
| "op_safe _ src s = True"

primrec conv_safe :: "wop list \<Rightarrow> nat option list \<Rightarrow> wstate \<Rightarrow> bool" where
  "conv_safe [] src s = True"
| "conv_safe (a # ops) src s =
    (op_safe a src s \<and> (case wstep a s of Some s' \<Rightarrow> conv_safe ops (src_step a src) s' | None \<Rightarrow> True))"

section \<open>The code for an operation\<close>

definition vt :: "int_ty \<Rightarrow> valtype" where
  "vt t = (case t of T_i32 \<Rightarrow> I32 | T_i64 \<Rightarrow> I64)"

definition binop_opc :: "ibinop \<Rightarrow> u32" where
  "binop_opc f = (case f of I_add \<Rightarrow> 0xb0 | I_sub \<Rightarrow> 0xb1 | I_mul \<Rightarrow> 0xb2 | I_div_s \<Rightarrow> 0xb3 | I_div_u \<Rightarrow> 0xb4
    | I_rem_s \<Rightarrow> 0xb5 | I_rem_u \<Rightarrow> 0xb6 | I_and \<Rightarrow> 0xb7 | I_or \<Rightarrow> 0xb8 | I_xor \<Rightarrow> 0xb9 | I_shl \<Rightarrow> 0xba
    | I_shr_s \<Rightarrow> 0xbb | I_shr_u \<Rightarrow> 0xbc)"

definition relop_opc :: "irelop \<Rightarrow> u32" where
  "relop_opc r = (case r of R_eq \<Rightarrow> 0xa6 | R_ne \<Rightarrow> 0xa7 | R_lt_s \<Rightarrow> 0xa8 | R_lt_u \<Rightarrow> 0xa9 | R_gt_s \<Rightarrow> 0xaa
    | R_gt_u \<Rightarrow> 0xab | R_le_s \<Rightarrow> 0xac | R_le_u \<Rightarrow> 0xad | R_ge_s \<Rightarrow> 0xae | R_ge_u \<Rightarrow> 0xaf)"

definition const_code :: "int_ty \<Rightarrow> u64 \<Rightarrow> u32 \<Rightarrow> uinst list" where
  "const_code t w dst =
    (U_CONST_L, vt t, TY_AM64_R_IMM, [dst, ucast (w AND 0xffffffff)]) #
    (if t = T_i32 then [] else [(U_CONST_L_HIGH, vt t, TY_AM64_R_IMM, [dst, ucast (drop_bit 32 w)])])"

definition mov_code :: "valtype \<Rightarrow> u32 \<Rightarrow> u32 \<Rightarrow> uinst" where
  "mov_code ty dst src = (U_MOV, ty, TY_AM32_R_R, [dst, src])"

text \<open>
  The instructions for an operation at position \<open>cnt\<close> with the operand stack \<open>s\<close>, and the stack after it; \<open>lm\<close> is the map
  of locals and \<open>base\<close> the first register of each type after them.
\<close>

fun comp_op :: "(valtype \<Rightarrow> nat) \<Rightarrow> local_map_elem list \<Rightarrow> u32 \<Rightarrow> wop \<Rightarrow> wasmstk \<Rightarrow> uinst list \<times> wasmstk" where
  "comp_op base lm cnt OpNop s = ([], s)"
| "comp_op base lm cnt (OpConst t k) s =
    (const_code t (word_of_int k) (of_nat (next_reg base (vt t) s)), temp_elem base (vt t) cnt s # s)"
| "comp_op base lm cnt (OpGet i) s =
    ([], WASM_STACK_ELEM (lm_map_kind (lm ! i)) (lm_ty (lm ! i)) (lm_reg_idx (lm ! i)) cnt # s)"
| "comp_op base lm cnt (OpSet i) s = ([mov_code (lm_ty (lm ! i)) (lm_reg_idx (lm ! i)) (ws_idx (hd s))], tl s)"
| "comp_op base lm cnt (OpTee i) s = ([mov_code (lm_ty (lm ! i)) (lm_reg_idx (lm ! i)) (ws_idx (hd s))], s)"
| "comp_op base lm cnt OpDrop s = ([], tl s)"
| "comp_op base lm cnt (OpBin t f) s =
    (let s' = tl (tl s) in ([(binop_opc f, vt t, TY_AM64_R_R_R, [of_nat (next_reg base (vt t) s'), ws_idx (s ! 1), ws_idx (hd s)])],
      temp_elem base (vt t) cnt s' # s'))"
| "comp_op base lm cnt (OpRel r) s =
    (let s' = tl (tl s) in ([(relop_opc r, I32, TY_AM64_R_R_R, [of_nat (next_reg base I32 s'), ws_idx (s ! 1), ws_idx (hd s)])],
      temp_elem base I32 cnt s' # s'))"
| "comp_op base lm cnt OpEqz s =
    (let s' = tl s in ([(0x3f, I32, TY_AM32_R_R, [of_nat (next_reg base I32 s'), ws_idx (hd s)])], temp_elem base I32 cnt s' # s'))"

primrec comp :: "(valtype \<Rightarrow> nat) \<Rightarrow> local_map_elem list \<Rightarrow> u32 \<Rightarrow> wop list \<Rightarrow> wasmstk \<Rightarrow> uinst list \<times> wasmstk" where
  "comp base lm cnt [] s = ([], s)"
| "comp base lm cnt (a # ops) s =
    (let (is, s') = comp_op base lm cnt a s; (js, s'') = comp base lm (cnt + 1) ops s' in (is @ js, s''))"

section \<open>Single instructions on the machine\<close>

text \<open>The machine is about to execute the instructions \<open>is\<close>, decoded into its table.\<close>

definition holds_code :: "uwasm_machine \<Rightarrow> uinst list \<Rightarrow> bool" where
  "holds_code m is \<longleftrightarrow> (\<exists>p. x_pc (current m) = Some p \<and>
    (\<forall>k < length is. \<exists>e. arr_at (m_expanded_table (module m)) (p + k) = Inr (inst_expanded (is ! k) e)))"

lemma rest_module: "rest m' = rest m \<Longrightarrow> module m' = module m"
  by (drule arg_cong [of _ _ module]) (simp add: rest_def)

lemma holds_code_Cons:
  assumes "holds_code m (i # is)"
  shows "\<exists>e. fetches m (inst_expanded i e)"
    and "rest m' = rest m \<Longrightarrow> x_pc (current m') = map_option Suc (x_pc (current m)) \<Longrightarrow> holds_code m' is"
proof -
  obtain p where p: "x_pc (current m) = Some p"
    "\<And>k. k < Suc (length is) \<Longrightarrow> \<exists>e. arr_at (m_expanded_table (module m)) (p + k) = Inr (inst_expanded ((i # is) ! k) e)"
    using assms by (auto simp: holds_code_def)
  show "\<exists>e. fetches m (inst_expanded i e)" using p(1) p(2) [of 0] by (auto simp: fetches_def)
  assume m': "rest m' = rest m" "x_pc (current m') = map_option Suc (x_pc (current m))"
  from m'(1) have "module m' = module m" by (rule rest_module)
  moreover have "\<exists>e. arr_at (m_expanded_table (module m)) (Suc p + k) = Inr (inst_expanded (is ! k) e)" if "k < length is" for k
    using p(2) [of "Suc k"] that by auto
  ultimately show "holds_code m' is" using p(1) m'(2) by (auto simp: holds_code_def)
qed

lemma fetched:
  "Get_opcode_l (inst_expanded (p, vt t, TY_AM64_R_R_R, [a, b, c]) e) = 4 * p + ty_num t"
  "Get_opcode_l (inst_expanded (p, vt t, TY_AM32_R_R, [a, b]) e) = 4 * p + ty_num t"
  "Get_opcode_l (inst_expanded (p, vt t, TY_AM64_R_IMM, [a, b]) e) = 4 * p + ty_num t"
  "Get_rd (inst_expanded (p, ty, TY_AM64_R_R_R, [a, b, c]) e) = a"
  "Get_rs (inst_expanded (p, ty, TY_AM64_R_R_R, [a, b, c]) e) = b"
  "Get_rt (inst_expanded (p, ty, TY_AM64_R_R_R, [a, b, c]) e) = c"
  "Get_rd (inst_expanded (p, ty, TY_AM32_R_R, [a, b]) e) = a"
  "Get_rs (inst_expanded (p, ty, TY_AM32_R_R, [a, b]) e) = b"
  "Get_rd (inst_expanded (p, ty, TY_AM64_R_IMM, [a, b]) e) = a"
  "Get_imm (inst_expanded (p, ty, TY_AM64_R_IMM, [a, b]) e) = b"
  "Get_ofs (inst_expanded (p, ty, TY_AM64_R_IMM, [a, b]) e) = b"
  by (simp_all add: inst_expanded_def expanded_def expand_content_def operand_slots_def set_slot_def Get_opcode_l_def Get_rd_def
      Get_rs_def Get_rt_def Get_imm_def Get_ofs_def vt_def ty_num_def valtype_num_def split: int_ty.split)

text \<open>Moves, constants and the test for zero.\<close>

definition mov_handler :: "int_ty \<Rightarrow> am_expand \<Rightarrow> uwasm_machine \<Rightarrow> uwasm_machine res" where
  "mov_handler t = (case t of T_i32 \<Rightarrow> Mov_i32_am32_r_r | T_i64 \<Rightarrow> Mov_i64_am32_r_r)"

definition const_handler :: "int_ty \<Rightarrow> am_expand \<Rightarrow> uwasm_machine \<Rightarrow> uwasm_machine res" where
  "const_handler t = (case t of T_i32 \<Rightarrow> Const_l_i32_am64_r_imm | T_i64 \<Rightarrow> Const_l_i64_am64_r_imm)"

lemma simple_actions:
  "op_action (4 * U_MOV + ty_num t) = Brk (op (mov_handler t))"
  "op_action (4 * U_CONST_L + ty_num t) = Brk (op (const_handler t))"
  "op_action (4 * U_CONST_L_HIGH + ty_num T_i64) = Brk (op Const_l_high_i64_am64_r_imm)"
  "op_action (4 * 0x3f + ty_num T_i32) = Brk (op Eqz_i32_am32_r_r)"
  by (cases t; simp add: U_MOV_def U_CONST_L_def U_CONST_L_HIGH_def ty_num_def mov_handler_def const_handler_def op_lookup)+

lemma mov_exec:
  assumes "fetches m (inst_expanded (mov_code (vt t) dst src) e)"
    and "reg_val m t src = Inr v" and "reg_val m t dst = Inr d"
  shows "\<exists>m'. exec_step H m = Inr (Running m') \<and> writes t dst v m m'"
proof -
  have step: "exec_step H m = bindr (mov_handler t (inst_expanded (mov_code (vt t) dst src) e) m) (\<lambda>m. Inr (Running (Inc_pc m)))"
    using step_Brk [OF assms(1)] simple_actions(1) [of t] by (simp add: mov_code_def fetched)
  show ?thesis
  proof (cases t)
    case T_i32
    with assms(2,3) obtain x y where *: "i32_get m src = Inr x" "uint x = v" "i32_get m dst = Inr y"
      using file_i32.val_get by metis
    show ?thesis using file_i32.writes_set [OF *(3), of x] *
      by (auto simp: step mov_handler_def mov_code_def fetched T_i32 Mov_i32_am32_r_r_def)
  next
    case T_i64
    with assms(2,3) obtain x y where *: "i64_get m src = Inr x" "uint x = v" "i64_get m dst = Inr y"
      using file_i64.val_get by metis
    show ?thesis using file_i64.writes_set [OF *(3), of x] *
      by (auto simp: step mov_handler_def mov_code_def fetched T_i64 Mov_i64_am32_r_r_def)
  qed
qed

lemma low_word: "(w :: u64) AND 0xffffffff = take_bit 32 w"
  by (simp add: take_bit_eq_mask mask_eq_exp_minus_1)

lemma word_parts:
  "((scast (ucast (w AND 0xffffffff) :: u32) :: u64) AND 0xFFFFFFFF) OR push_bit 32 (ucast (ucast (drop_bit 32 w) :: u32)) = (w :: u64)"
  unfolding low_word
proof (rule bit_word_eqI)
  fix n assume "n < LENGTH(64)"
  then show "bit ((take_bit 32 (scast (ucast (take_bit 32 w) :: u32)) OR push_bit 32 (ucast (ucast (drop_bit 32 w) :: u32))) :: u64) n = bit w n"
    by (cases "n < 31"; cases "n = 31") (auto simp: bit_simps min_def)
qed

lemma eqz_exec:
  assumes "fetches m (inst_expanded (0x3f, I32, TY_AM32_R_R, [dst, src]) e)"
    and "reg_val m T_i32 src = Inr v" and "reg_val m T_i32 dst = Inr d"
  shows "\<exists>m'. exec_step H m = Inr (Running m') \<and> writes T_i32 dst (of_bool (v = 0)) m m'"
proof -
  have I32: "I32 = vt T_i32" by (simp add: vt_def)
  have step: "exec_step H m = bindr (Eqz_i32_am32_r_r (inst_expanded (0x3f, I32, TY_AM32_R_R, [dst, src]) e) m) (\<lambda>m. Inr (Running (Inc_pc m)))"
    using step_Brk [OF assms(1)] simple_actions(4) by (simp add: I32 fetched)
  from assms(2,3) obtain x y where *: "i32_get m src = Inr x" "uint x = v" "i32_get m dst = Inr y"
    using file_i32.val_get by metis
  have "uint (of_bool (x = 0) :: u32) = of_bool (v = 0)" using *(2) uint_zero [of x] by (cases "x = 0") auto
  then show ?thesis using file_i32.writes_set [OF *(3), of "of_bool (x = 0)"] *(1)
    by (auto simp: step fetched Eqz_i32_am32_r_r_def)
qed

lemma const_exec:
  assumes "fetches m (inst_expanded (U_CONST_L, vt t, TY_AM64_R_IMM, [dst, w]) e)" and "reg_val m t dst = Inr d"
  shows "\<exists>m'. exec_step H m = Inr (Running m') \<and>
    writes t dst (case t of T_i32 \<Rightarrow> uint w | T_i64 \<Rightarrow> uint (scast w :: u64)) m m'"
proof -
  have step: "exec_step H m = bindr (const_handler t (inst_expanded (U_CONST_L, vt t, TY_AM64_R_IMM, [dst, w]) e) m) (\<lambda>m. Inr (Running (Inc_pc m)))"
    using step_Brk [OF assms(1)] simple_actions(2) [of t] by (simp add: fetched)
  show ?thesis
  proof (cases t)
    case T_i32
    with assms(2) obtain y where *: "i32_get m dst = Inr y" using file_i32.val_get by metis
    show ?thesis using file_i32.writes_set [OF *, of w]
      by (auto simp: step const_handler_def fetched T_i32 Const_l_i32_am64_r_imm_def)
  next
    case T_i64
    with assms(2) obtain y where *: "i64_get m dst = Inr y" using file_i64.val_get by metis
    show ?thesis using file_i64.writes_set [OF *, of "scast w"]
      by (auto simp: step const_handler_def fetched T_i64 Const_l_i64_am64_r_imm_def)
  qed
qed

lemma const_high_exec:
  assumes "fetches m (inst_expanded (U_CONST_L_HIGH, vt T_i64, TY_AM64_R_IMM, [dst, w]) e)" and "reg_val m T_i64 dst = Inr (uint x)"
  shows "\<exists>m'. exec_step H m = Inr (Running m') \<and> writes T_i64 dst (uint ((x :: u64) AND 0xFFFFFFFF OR push_bit 32 (ucast w))) m m'"
proof -
  have step: "exec_step H m = bindr (Const_l_high_i64_am64_r_imm (inst_expanded (U_CONST_L_HIGH, vt T_i64, TY_AM64_R_IMM, [dst, w]) e) m)
      (\<lambda>m. Inr (Running (Inc_pc m)))"
    using step_Brk [OF assms(1)] simple_actions(3) by (simp add: fetched)
  from assms(2) have *: "i64_get m dst = Inr x" using file_i64.val_get [of m dst "uint x"] by (auto simp: word_uint_eq_iff)
  show ?thesis using file_i64.writes_set [OF *, of "x AND 0xFFFFFFFF OR push_bit 32 (ucast w)"] *
    by (auto simp: step fetched Const_l_high_i64_am64_r_imm_def Let_def)
qed

section \<open>The code of an operation\<close>

text \<open>After \<open>n\<close> instructions of straight-line code that write \<open>v\<close> to one register, or to none.\<close>

definition advances :: "nat \<Rightarrow> (int_ty \<times> u32 \<times> int) option \<Rightarrow> uwasm_machine \<Rightarrow> uwasm_machine \<Rightarrow> bool" where
  "advances n w m m' \<longleftrightarrow> rest m' = rest m \<and> x_pc (current m') = map_option ((+) n) (x_pc (current m)) \<and>
    (\<forall>t i. reg_val m' t i = (case w of Some (ty, dst, v) \<Rightarrow> if t = ty \<and> i = dst then Inr v else reg_val m t i
      | None \<Rightarrow> reg_val m t i))"

lemma advances_refl: "advances 0 None m m"
  by (cases "x_pc (current m)") (auto simp: advances_def)

lemma writes_advances: "writes ty dst v m m' \<Longrightarrow> advances (Suc 0) (Some (ty, dst, v)) m m'"
  by (auto simp: writes_def advances_def map_option_case split: option.split)

lemma holds_code_after:
  assumes "holds_code m (is @ js)" and "rest m' = rest m" and "x_pc (current m') = map_option ((+) (length is)) (x_pc (current m))"
  shows "holds_code m' js"
proof -
  obtain p where p: "x_pc (current m) = Some p"
    "\<And>k. k < length is + length js \<Longrightarrow> \<exists>e. arr_at (m_expanded_table (module m)) (p + k) = Inr (inst_expanded ((is @ js) ! k) e)"
    using assms(1) by (auto simp: holds_code_def)
  have "module m' = module m" by (rule rest_module [OF assms(2)])
  moreover have "x_pc (current m') = Some (length is + p)" using assms(3) p(1) by simp
  moreover have "\<exists>e. arr_at (m_expanded_table (module m)) (length is + p + k) = Inr (inst_expanded (js ! k) e)" if "k < length js" for k
    using p(2) [of "length is + k"] that by (simp add: nth_append ac_simps)
  ultimately show ?thesis by (auto simp: holds_code_def)
qed

lemma holds_code_append: "holds_code m (is @ js) \<Longrightarrow> advances (length is) w m m' \<Longrightarrow> holds_code m' js"
  by (rule holds_code_after) (auto simp: advances_def)

lemma holds_code_prefix: "holds_code m (is @ js) \<Longrightarrow> holds_code m is"
  unfolding holds_code_def by (metis length_append nth_append trans_less_add1)

lemma one_step: "exec_step H m = Inr (Running m') \<Longrightarrow> (exec1 H ^^ Suc 0) m m'"
  by (simp add: eq_OO exec1_iff)

lemma const_run:
  assumes "holds_code m (const_code t w dst)" and "reg_val m t dst = Inr d"
  shows "\<exists>m'. (exec1 H ^^ length (const_code t w dst)) m m' \<and>
    advances (length (const_code t w dst)) (Some (t, dst, uint w mod 2 ^ width t)) m m'"
proof -
  let ?lo = "ucast (w AND 0xffffffff) :: u32" and ?hi = "ucast (drop_bit 32 w) :: u32"
  obtain e where "fetches m (inst_expanded (U_CONST_L, vt t, TY_AM64_R_IMM, [dst, ?lo]) e)"
    using holds_code_Cons(1) [OF assms(1) [unfolded const_code_def]] by blast
  then obtain m1 where m1: "exec_step H m = Inr (Running m1)"
    "writes t dst (case t of T_i32 \<Rightarrow> uint ?lo | T_i64 \<Rightarrow> uint (scast ?lo :: u64)) m m1"
    using const_exec assms(2) by blast
  have r1: "rest m1 = rest m" "x_pc (current m1) = map_option Suc (x_pc (current m))" using m1(2) by (auto simp: writes_def)
  show ?thesis
  proof (cases t)
    case T_i32
    have "uint ?lo = take_bit 32 (uint w)"
      unfolding low_word by (simp add: unsigned_ucast_eq unsigned_take_bit_eq)
    then have "uint ?lo = uint w mod 2 ^ 32" by (simp add: take_bit_eq_mod)
    with m1 T_i32 show ?thesis
      by (auto simp: const_code_def width_def simp del: relpowp.simps intro!: exI [of _ m1] exec1.step writes_advances)
  next
    case T_i64
    with assms(1) have hold: "holds_code m [(U_CONST_L, vt t, TY_AM64_R_IMM, [dst, ?lo]), (U_CONST_L_HIGH, vt T_i64, TY_AM64_R_IMM, [dst, ?hi])]"
      by (simp add: const_code_def)
    obtain e' where "fetches m1 (inst_expanded (U_CONST_L_HIGH, vt T_i64, TY_AM64_R_IMM, [dst, ?hi]) e')"
      using holds_code_Cons(1) [OF holds_code_Cons(2) [OF hold r1]] by blast
    moreover have "reg_val m1 T_i64 dst = Inr (uint (scast ?lo :: u64))" using m1(2) T_i64 by (auto simp: writes_def)
    ultimately obtain m2 where m2: "exec_step H m1 = Inr (Running m2)" "writes T_i64 dst (uint w) m1 m2"
      using const_high_exec word_parts by metis
    then have "advances 2 (Some (t, dst, uint w)) m m2"
      using m1(2) T_i64 by (auto simp: writes_def advances_def map_option_case split: option.split)
    moreover have "uint w mod 2 ^ 64 = uint w" using uint_lt2p [of w] by simp
    moreover have "(exec1 H ^^ 2) m m2" using relpowp_trans [OF one_step [OF m1(1)] one_step [OF m2(1)]] by (simp only: numeral_2_eq_2 add_Suc add_0)
    ultimately show ?thesis using T_i64 by (auto simp: const_code_def width_def numeral_2_eq_2 simp del: relpowp.simps)
  qed
qed

section \<open>Values in registers\<close>

definition readable :: "uwasm_machine \<Rightarrow> bool" where
  "readable m \<longleftrightarrow> (\<forall>t i. i < 128 \<longrightarrow> (\<exists>v. reg_val m t i = Inr v))"

definition holds_stack :: "uwasm_machine \<Rightarrow> wasmstk \<Rightarrow> wval list \<Rightarrow> bool" where
  "holds_stack m = list_all2 (\<lambda>e x. ws_val_type e = vt (fst x) \<and> reg_val m (fst x) (ws_idx e) = Inr (snd x))"

definition holds_locals :: "uwasm_machine \<Rightarrow> local_map_elem list \<Rightarrow> wval list \<Rightarrow> bool" where
  "holds_locals m = list_all2 (\<lambda>l x. lm_ty l = vt (fst x) \<and> reg_val m (fst x) (lm_reg_idx l) = Inr (snd x))"

text \<open>The locals have registers of their own below the temporaries.\<close>

definition locals_ok :: "(valtype \<Rightarrow> nat) \<Rightarrow> local_map_elem list \<Rightarrow> bool" where
  "locals_ok base lm \<longleftrightarrow>
    (\<forall>l \<in> set lm. lm_map_kind l \<in> {LOCAL, FORMAL_PARAM} \<and> lm_ty l \<noteq> VALTY_UNKNOWN \<and> unat (lm_reg_idx l) < base (lm_ty l)) \<and>
    distinct (map (\<lambda>l. (lm_ty l, lm_reg_idx l)) lm) \<and> (\<forall>ty. base ty \<le> 126)"

lemma locals_ok_nth:
  assumes "locals_ok base lm" and "i < length lm"
  shows "lm_map_kind (lm ! i) \<in> {LOCAL, FORMAL_PARAM}" "lm_ty (lm ! i) \<noteq> VALTY_UNKNOWN"
    "unat (lm_reg_idx (lm ! i)) < base (lm_ty (lm ! i))" "lm_reg_idx (lm ! i) < 126"
proof -
  show l: "lm_map_kind (lm ! i) \<in> {LOCAL, FORMAL_PARAM}" "lm_ty (lm ! i) \<noteq> VALTY_UNKNOWN"
    "unat (lm_reg_idx (lm ! i)) < base (lm_ty (lm ! i))"
    using assms nth_mem by (simp_all add: locals_ok_def)
  have "base (lm_ty (lm ! i)) \<le> 126" using assms(1) by (simp add: locals_ok_def)
  with l(3) show "lm_reg_idx (lm ! i) < 126" by (simp add: word_less_nat_alt)
qed

lemma locals_ok_inj:
  assumes "locals_ok base lm" and "i < length lm" and "j < length lm" and "lm_ty (lm ! i) = lm_ty (lm ! j)"
    and "lm_reg_idx (lm ! i) = lm_reg_idx (lm ! j)"
  shows "i = j"
  using assms distinct_conv_nth [of "map (\<lambda>l. (lm_ty l, lm_reg_idx l)) lm"] by (auto simp: locals_ok_def)

text \<open>A stack value is a temporary, or was read from the local that \<open>src\<close> names.\<close>

definition from_source :: "local_map_elem list \<Rightarrow> wasm_stack_elem \<Rightarrow> nat option \<Rightarrow> bool" where
  "from_source lm e o' = (case o' of
      None \<Rightarrow> ws_kind e = TEMP \<and> ws_val_type e \<noteq> VALTY_UNKNOWN
    | Some i \<Rightarrow> i < length lm \<and> ws_kind e = lm_map_kind (lm ! i) \<and> ws_val_type e = lm_ty (lm ! i) \<and>
        ws_idx e = lm_reg_idx (lm ! i))"

definition stack_ok :: "(valtype \<Rightarrow> nat) \<Rightarrow> local_map_elem list \<Rightarrow> nat \<Rightarrow> wasmstk \<Rightarrow> nat option list \<Rightarrow> bool" where
  "stack_ok base lm n s src \<longleftrightarrow> stk_ok base s \<and> list_all2 (from_source lm) s src \<and>
    (\<forall>ty. ty \<noteq> VALTY_UNKNOWN \<longrightarrow> next_reg base ty s + n \<le> 126)"

lemma stack_ok_operand:
  assumes "locals_ok base lm" and "stack_ok base lm n s src" and "e \<in> set s"
  shows "is_operand e" and "unat (ws_idx e) < next_reg base (ws_val_type e) s" and "ws_idx e < 126"
proof -
  obtain o' where src: "from_source lm e o'" using assms(2,3) by (auto simp: stack_ok_def list_all2_conv_all_nth in_set_conv_nth)
  show op: "is_operand e"
    using src assms(1) nth_mem by (fastforce simp: is_operand_def from_source_def locals_ok_def split: option.splits)
  show lt: "unat (ws_idx e) < next_reg base (ws_val_type e) s"
  proof (cases o')
    case None
    then show ?thesis using src stk_ok_temp(2) assms(2,3) by (auto simp: stack_ok_def from_source_def)
  next
    case (Some i)
    then have "unat (ws_idx e) < base (ws_val_type e)" using src assms(1) by (auto simp: from_source_def locals_ok_def)
    then show ?thesis by (simp add: next_reg_def)
  qed
  have "next_reg base (ws_val_type e) s \<le> 126" using op assms(2) by (auto simp: stack_ok_def is_operand_def)
  with lt show "ws_idx e < 126" by (simp add: word_less_nat_alt)
qed

lemma stack_ok_tl: "stack_ok base lm n (e # s) (o' # src) \<Longrightarrow> stack_ok base lm n s src"
  using stk_ok_pop(1) by (fastforce simp: stack_ok_def)

lemma stack_ok_temp:
  assumes "stack_ok base lm (Suc n) s src" and "ty \<noteq> VALTY_UNKNOWN"
  shows "stack_ok base lm n (temp_elem base ty cnt s # s) (None # src)"
proof -
  have "next_reg base ty s \<le> 126" using assms by (auto simp: stack_ok_def)
  then have "stk_ok base (temp_elem base ty cnt s # s)"
    using assms by (intro stk_ok_push) (auto simp: stack_ok_def small_word)
  then show ?thesis using assms by (auto simp: stack_ok_def from_source_def)
qed

lemma stack_ok_local:
  assumes "stack_ok base lm n s src" and "locals_ok base lm" and "i < length lm"
  shows "stack_ok base lm n (WASM_STACK_ELEM (lm_map_kind (lm ! i)) (lm_ty (lm ! i)) (lm_reg_idx (lm ! i)) cnt # s) (Some i # src)"
proof -
  have "lm_map_kind (lm ! i) \<noteq> TEMP" using locals_ok_nth(1) [OF assms(2,3)] by auto
  then show ?thesis using assms by (auto simp: stack_ok_def stk_ok_other from_source_def)
qed

lemma stack_ok_mono: "stack_ok base lm (Suc n) s src \<Longrightarrow> stack_ok base lm n s src"
  by (fastforce simp: stack_ok_def)

lemma advances_readable: "advances n w m m' \<Longrightarrow> readable m \<Longrightarrow> readable m'"
  by (auto simp: advances_def readable_def split: option.splits)

lemma vt_inj [simp]: "vt t = vt t' \<longleftrightarrow> t = t'" "vt t \<noteq> VALTY_UNKNOWN"
  by (cases t; cases t'; simp add: vt_def)+

lemma next_reg_le: "stack_ok base lm n s src \<Longrightarrow> next_reg base (vt t) s + n \<le> 126"
  by (simp add: stack_ok_def)

text \<open>Writing the next temporary changes no value on the stack and no local.\<close>

lemma write_temp:
  assumes "advances k (Some (t, of_nat (next_reg base (vt t) s), v)) m m'" and "locals_ok base lm" and "stack_ok base lm n s src"
    and "holds_stack m s st" and "holds_locals m lm ls"
  shows "holds_stack m' (temp_elem base (vt t) cnt s # s) ((t, v) # st)" and "holds_locals m' lm ls"
proof -
  have n: "unat (of_nat (next_reg base (vt t) s) :: u32) = next_reg base (vt t) s"
    using next_reg_le [OF assms(3), of t] by (intro small_word) simp
  have "ws_idx (s ! i) \<noteq> of_nat (next_reg base (vt t) s)" if "i < length s" "ws_val_type (s ! i) = vt t" for i
    using stack_ok_operand(2) [OF assms(2,3), of "s ! i"] that n by auto
  then have "holds_stack m' s st"
    using assms(1,4) unfolding holds_stack_def list_all2_conv_all_nth by (auto simp: advances_def)
  then show "holds_stack m' (temp_elem base (vt t) cnt s # s) ((t, v) # st)"
    using assms(1) by (simp add: holds_stack_def advances_def)
  have "lm_reg_idx (lm ! i) \<noteq> of_nat (next_reg base (vt t) s)" if "i < length lm" "lm_ty (lm ! i) = vt t" for i
    using locals_ok_nth(3) [OF assms(2), of i] that n by (auto simp: next_reg_def)
  then show "holds_locals m' lm ls"
    using assms(1,5) unfolding holds_locals_def list_all2_conv_all_nth by (auto simp: advances_def)
qed

text \<open>Writing a local changes no value on the stack, unless it was read from this local.\<close>

lemma write_local:
  assumes "advances k (Some (t, lm_reg_idx (lm ! i), v)) m m'" and "locals_ok base lm" and "stack_ok base lm n s src"
    and "holds_stack m s st" and "holds_locals m lm ls" and "i < length lm" and "lm_ty (lm ! i) = vt t" and "Some i \<notin> set src"
  shows "holds_stack m' s st" and "holds_locals m' lm (ls[i := (t, v)])"
proof -
  have "ws_idx (s ! j) \<noteq> lm_reg_idx (lm ! i)" if j: "j < length s" "ws_val_type (s ! j) = vt t" for j
  proof -
    have len: "length src = length s" and src: "from_source lm (s ! j) (src ! j)"
      using assms(3) j(1) by (auto simp: stack_ok_def list_all2_conv_all_nth)
    show ?thesis
    proof (cases "src ! j")
      case None
      then have "base (vt t) \<le> unat (ws_idx (s ! j))"
        using stk_ok_temp(1) [of base s "s ! j"] assms(3) j src by (auto simp: stack_ok_def from_source_def)
      then show ?thesis using locals_ok_nth(3) [OF assms(2,6)] assms(7) by auto
    next
      case (Some i')
      with assms(8) j(1) len have "i' \<noteq> i" by (metis nth_mem)
      then show ?thesis using locals_ok_inj [OF assms(2), of i i'] src Some assms(6,7) j(2) by (auto simp: from_source_def)
    qed
  qed
  then show "holds_stack m' s st"
    using assms(1,4) unfolding holds_stack_def list_all2_conv_all_nth by (auto simp: advances_def)
  have "lm_reg_idx (lm ! j) \<noteq> lm_reg_idx (lm ! i)" if "j < length lm" "lm_ty (lm ! j) = vt t" "j \<noteq> i" for j
    using locals_ok_inj [OF assms(2), of i j] that assms(6,7) by auto
  then show "holds_locals m' lm (ls[i := (t, v)])"
    using assms(1,5,6,7) unfolding holds_locals_def list_all2_conv_all_nth
    by (auto simp: advances_def nth_list_update)
qed

section \<open>An operation on the machine\<close>

lemma binop_opc_alu: "f \<in> snd ` set alu_ops \<Longrightarrow> (binop_opc f, f) \<in> set alu_ops"
  by (cases f) (auto simp: alu_ops_def binop_opc_def)

lemma relop_opc_cmp: "(relop_opc r, r) \<in> set cmp_ops"
  by (cases r) (auto simp: cmp_ops_def relop_opc_def)

lemma holds_one: "holds_code m [i] \<Longrightarrow> \<exists>e. fetches m (inst_expanded i e)"
  using holds_code_Cons(1) by blast

text \<open>What the operations leave, from an execution that wrote one register.\<close>

definition after_op :: "host \<Rightarrow> uwasm_machine \<Rightarrow> nat \<Rightarrow> (valtype \<Rightarrow> nat) \<Rightarrow> local_map_elem list \<Rightarrow> nat \<Rightarrow>
    wasmstk \<Rightarrow> nat option list \<Rightarrow> wstate \<Rightarrow> bool" where
  "after_op H m k base lm n s src st \<longleftrightarrow> (\<exists>m' w. (exec1 H ^^ k) m m' \<and> advances k w m m' \<and>
    holds_locals m' lm (fst st) \<and> holds_stack m' s (snd st) \<and> stack_ok base lm n s src)"

lemma after_temp:
  assumes "(exec1 H ^^ k) m m'" and "advances k (Some (t, of_nat (next_reg base (vt t) s), v)) m m'" and "locals_ok base lm"
    and "stack_ok base lm (Suc n) s src" and "holds_stack m s st" and "holds_locals m lm ls"
  shows "after_op H m k base lm n (temp_elem base (vt t) cnt s # s) (None # src) (ls, (t, v) # st)"
  using assms(1,2) write_temp [OF assms(2-6)] stack_ok_temp [OF assms(4)] unfolding after_op_def by auto

lemma after_nothing:
  assumes "holds_locals m lm ls" and "holds_stack m s st" and "stack_ok base lm n s src"
  shows "after_op H m 0 base lm n s src (ls, st)"
  using assms advances_refl [of m] unfolding after_op_def by auto

lemma temp_readable:
  assumes "readable m" and "stack_ok base lm n s src"
  shows "\<exists>d. reg_val m t (of_nat (next_reg base (vt t) s)) = Inr d"
proof -
  have "unat (of_nat (next_reg base (vt t) s) :: u32) = next_reg base (vt t) s" "next_reg base (vt t) s \<le> 126"
    using next_reg_le [OF assms(2), of t] by (simp_all add: small_word)
  then have "(of_nat (next_reg base (vt t) s) :: u32) < 128" by (simp add: word_less_nat_alt)
  with assms(1) show ?thesis by (simp add: readable_def)
qed

lemma mov_run:
  assumes "holds_code m [mov_code (vt t) dst src]" and "reg_val m t src = Inr v" and "reg_val m t dst = Inr d"
  shows "\<exists>m'. (exec1 H ^^ 1) m m' \<and> advances 1 (Some (t, dst, v)) m m'"
proof -
  obtain e where "fetches m (inst_expanded (mov_code (vt t) dst src) e)" using holds_one [OF assms(1)] by blast
  then obtain m' where "exec_step H m = Inr (Running m')" "writes t dst v m m'" using mov_exec assms(2,3) by blast
  then show ?thesis using one_step writes_advances by fastforce
qed

lemma bin_run:
  assumes "holds_code m [(binop_opc f, vt t, TY_AM64_R_R_R, [dst, a, b])]" and "f \<in> snd ` set alu_ops"
    and "is_shift f \<longrightarrow> t = T_i32" and "cpp_defined (width t) f i j"
    and "reg_val m t a = Inr i" and "reg_val m t b = Inr j" and "reg_val m t dst = Inr d"
  shows "\<exists>v m'. wasm_binop (width t) f i j = Some v \<and> (exec1 H ^^ 1) m m' \<and> advances 1 (Some (t, dst, v)) m m'"
proof -
  let ?i = "(binop_opc f, vt t, TY_AM64_R_R_R, [dst, a, b])"
  obtain e where "fetches m (inst_expanded ?i e)" using holds_one [OF assms(1)] by blast
  moreover have "rt_ty f t = t" using assms(3) by (auto simp: rt_ty_def)
  ultimately obtain v m' where "wasm_binop (width t) f i j = Some v" "exec_step H m = Inr (Running m')" "writes t dst v m m'"
    using alu_exec [of m "inst_expanded ?i e" "binop_opc f" f t i j d H] binop_opc_alu [OF assms(2)] assms(4-7)
    by (auto simp: fetched)
  then show ?thesis using one_step writes_advances by fastforce
qed

lemma rel_run:
  assumes "holds_code m [(relop_opc r, I32, TY_AM64_R_R_R, [dst, a, b])]"
    and "reg_val m T_i32 a = Inr i" and "reg_val m T_i32 b = Inr j" and "reg_val m T_i32 dst = Inr d"
  shows "\<exists>m'. (exec1 H ^^ 1) m m' \<and> advances 1 (Some (T_i32, dst, of_bool (wasm_relop 32 r i j))) m m'"
proof -
  let ?i = "(relop_opc r, vt T_i32, TY_AM64_R_R_R, [dst, a, b])"
  obtain e where "fetches m (inst_expanded ?i e)" using holds_one [OF assms(1)] by (auto simp: vt_def)
  then obtain m' where "exec_step H m = Inr (Running m')" "writes T_i32 dst (of_bool (wasm_relop 32 r i j)) m m'"
    using cmp_exec [of m "inst_expanded ?i e" "relop_opc r" r T_i32 i j d H] relop_opc_cmp [of r] assms(2-4)
    by (auto simp: fetched width_def)
  then show ?thesis using one_step writes_advances by fastforce
qed

lemma eqz_run:
  assumes "holds_code m [(0x3f, I32, TY_AM32_R_R, [dst, a])]" and "reg_val m T_i32 a = Inr i" and "reg_val m T_i32 dst = Inr d"
  shows "\<exists>m'. (exec1 H ^^ 1) m m' \<and> advances 1 (Some (T_i32, dst, of_bool (i = 0))) m m'"
proof -
  obtain e where "fetches m (inst_expanded (0x3f, I32, TY_AM32_R_R, [dst, a]) e)" using holds_one [OF assms(1)] by blast
  then obtain m' where "exec_step H m = Inr (Running m')" "writes T_i32 dst (of_bool (i = 0)) m m'"
    using eqz_exec assms(2,3) by blast
  then show ?thesis using one_step writes_advances by fastforce
qed

text \<open>The shape of stack and sources when the reference stack is not empty.\<close>

lemma stack_Cons:
  assumes "holds_stack m s (x # st)" and "stack_ok base lm n s src"
  obtains e s' o' src' where "s = e # s'" "src = o' # src'" "from_source lm e o'" "ws_val_type e = vt (fst x)"
    "reg_val m (fst x) (ws_idx e) = Inr (snd x)" "holds_stack m s' st" "stack_ok base lm n s' src'"
proof -
  obtain e s' where s: "s = e # s'" "ws_val_type e = vt (fst x)" "reg_val m (fst x) (ws_idx e) = Inr (snd x)" "holds_stack m s' st"
    using assms(1) by (auto simp: holds_stack_def list_all2_Cons2)
  obtain o' src' where src: "src = o' # src'" "from_source lm e o'"
    using assms(2) s(1) by (auto simp: stack_ok_def list_all2_Cons1)
  show thesis by (rule that [OF s(1) src s(2-4) stack_ok_tl]) (use assms(2) s(1) src(1) in simp)
qed

lemma stack_Cons_Cons:
  assumes "holds_stack m s ((t, j) # (t, i) # st)" and "stack_ok base lm n s src"
  obtains e2 e1 s0 o2 o1 src0 where "s = e2 # e1 # s0" "src = o2 # o1 # src0" "reg_val m t (ws_idx e2) = Inr j"
    "reg_val m t (ws_idx e1) = Inr i" "holds_stack m s0 st" "stack_ok base lm n s0 src0"
proof -
  obtain e2 s1 o2 src1 where s1: "s = e2 # s1" "src = o2 # src1" "reg_val m t (ws_idx e2) = Inr j"
    "holds_stack m s1 ((t, i) # st)" "stack_ok base lm n s1 src1"
    by (rule stack_Cons [OF assms]) auto
  obtain e1 s0 o1 src0 where "s1 = e1 # s0" "src1 = o1 # src0" "reg_val m t (ws_idx e1) = Inr i"
    "holds_stack m s0 st" "stack_ok base lm n s0 src0"
    by (rule stack_Cons [OF s1(4,5)]) auto
  with s1(1-3) show thesis by (intro that [of e2 e1 s0 o2 o1 src0]) auto
qed

lemma local_readable:
  assumes "holds_locals m lm ls" and "i < length ls"
  shows "i < length lm" and "lm_ty (lm ! i) = vt (fst (ls ! i))" and "reg_val m (fst (ls ! i)) (lm_reg_idx (lm ! i)) = Inr (snd (ls ! i))"
  using assms by (auto simp: holds_locals_def list_all2_conv_all_nth)

lemma comp_op_local:
  assumes ok: "locals_ok base lm" "stack_ok base lm (Suc n) s src" and vals: "holds_stack m s (x # st)" "holds_locals m lm ls"
    and safe: "Some i \<notin> set (tl src)" and i: "i < length ls" "fst (ls ! i) = fst x"
    and code: "holds_code m [mov_code (lm_ty (lm ! i)) (lm_reg_idx (lm ! i)) (ws_idx (hd s))]"
  shows "after_op H m 1 base lm n (tl s) (tl src) (ls[i := x], st)" and "after_op H m 1 base lm n s src (ls[i := x], x # st)"
proof -
  obtain e s' o' src' where s: "s = e # s'" "src = o' # src'" "from_source lm e o'" "ws_val_type e = vt (fst x)"
    "reg_val m (fst x) (ws_idx e) = Inr (snd x)" "holds_stack m s' st" "stack_ok base lm (Suc n) s' src'"
    using stack_Cons [OF vals(1) ok(2)] .
  note l = local_readable [OF vals(2) i(1)]
  obtain m' where m': "(exec1 H ^^ 1) m m'" "advances 1 (Some (fst x, lm_reg_idx (lm ! i), snd x)) m m'"
    using mov_run [of m "fst x" "lm_reg_idx (lm ! i)" "ws_idx e" "snd x" "snd (ls ! i)" H] code s(1,5) l(2,3) i(2) by auto
  have tl_safe: "Some i \<notin> set src'" using safe s(2) by simp
  note w = write_local [OF m'(2) ok(1) s(7,6) vals(2) l(1) _ tl_safe]
  have "reg_val m' (fst x) (ws_idx e) = Inr (snd x)"
    using m'(2) s(5) by (auto simp: advances_def)
  then have "holds_stack m' s (x # st)" using w(1) l(2) i(2) s(1,4) by (simp add: holds_stack_def)
  then show "after_op H m 1 base lm n s src (ls[i := x], x # st)"
    using m' w l(2) i(2) stack_ok_mono [OF ok(2)] unfolding after_op_def by auto
  show "after_op H m 1 base lm n (tl s) (tl src) (ls[i := x], st)"
    using m' w l(2) i(2) stack_ok_mono [OF s(7)] s(1,2) unfolding after_op_def by auto
qed

lemma comp_op_run:
  assumes ok: "locals_ok base lm" "stack_ok base lm (Suc n) s src" and vals: "holds_stack m s st" "holds_locals m lm ls"
    and rd: "readable m" and step: "wstep a (ls, st) = Some st'" and safe: "op_safe a src (ls, st)"
    and comp: "comp_op base lm cnt a s = (is, s')" and code: "holds_code m is"
  shows "after_op H m (length is) base lm n s' (src_step a src) st'"
proof (cases a)
  case OpNop
  then show ?thesis using after_nothing [OF vals(2,1) stack_ok_mono [OF ok(2)]] step comp by auto
next
  case (OpConst t k)
  obtain d where d: "reg_val m t (of_nat (next_reg base (vt t) s)) = Inr d" using temp_readable [OF rd ok(2)] by blast
  have "uint (word_of_int k :: u64) mod 2 ^ width t = k mod 2 ^ width t"
    by (cases t) (simp_all add: width_def uint_word_mod mod_mod_cancel)
  then show ?thesis
    using OpConst step comp code const_run [OF _ d, of "word_of_int k" H] after_temp [OF _ _ ok vals] by fastforce
next
  case (OpGet i)
  with step have i: "i < length ls" "st' = (ls, ls ! i # st)" by (auto split: if_splits)
  note l = local_readable [OF vals(2) i(1)]
  have "holds_stack m s' (ls ! i # st)" using vals(1) l comp OpGet by (auto simp: holds_stack_def)
  then show ?thesis
    using after_nothing [OF vals(2)] stack_ok_local [OF stack_ok_mono [OF ok(2)] ok(1) l(1)] comp OpGet i(2) by fastforce
next
  case (OpSet i)
  with step obtain x st0 where "st = x # st0" "i < length ls" "fst (ls ! i) = fst x" "st' = (ls[i := x], st0)"
    by (cases st) (auto split: if_splits)
  then show ?thesis using comp_op_local(1) [OF ok _ vals(2), of x st0 i H] vals(1) safe comp code OpSet by auto
next
  case (OpTee i)
  with step obtain x st0 where "st = x # st0" "i < length ls" "fst (ls ! i) = fst x" "st' = (ls[i := x], x # st0)"
    by (cases st) (auto split: if_splits)
  then show ?thesis using comp_op_local(2) [OF ok _ vals(2), of x st0 i H] vals(1) safe comp code OpTee by auto
next
  case OpDrop
  with step obtain x st0 where st: "st = x # st0" "st' = (ls, st0)" by (cases st) auto
  obtain e s0 o' src0 where "s = e # s0" "src = o' # src0" "holds_stack m s0 st0" "stack_ok base lm (Suc n) s0 src0"
    by (rule stack_Cons [OF vals(1) [unfolded st(1)] ok(2)])
  then show ?thesis using after_nothing [OF vals(2) _ stack_ok_mono] comp OpDrop st(2) by auto
next
  case (OpBin t f)
  with step obtain i j st0 v where st: "st = (t, j) # (t, i) # st0" "wasm_binop (width t) f i j = Some v" "st' = (ls, (t, v) # st0)"
    by (cases "(OpBin t f, ls, st)" rule: wstep.cases) (auto split: if_splits)
  obtain e2 e1 s0 o2 o1 src0 where s: "s = e2 # e1 # s0" "src = o2 # o1 # src0" "reg_val m t (ws_idx e2) = Inr j"
    "reg_val m t (ws_idx e1) = Inr i" "holds_stack m s0 st0" "stack_ok base lm (Suc n) s0 src0"
    using stack_Cons_Cons [OF vals(1) [unfolded st(1)] ok(2)] .
  obtain d where d: "reg_val m t (of_nat (next_reg base (vt t) s0)) = Inr d" using temp_readable [OF rd s(6)] by blast
  have "\<exists>m'. (exec1 H ^^ 1) m m' \<and> advances 1 (Some (t, of_nat (next_reg base (vt t) s0), v)) m m'"
    using bin_run [OF _ _ _ _ s(4,3) d, of f H] comp code safe OpBin st s(1) by auto
  then show ?thesis using after_temp [OF _ _ ok(1) s(6,5) vals(2)] comp OpBin st(3) s(1,2) by fastforce
next
  case (OpRel r)
  with step obtain i j st0 where st: "st = (T_i32, j) # (T_i32, i) # st0" "st' = (ls, (T_i32, of_bool (wasm_relop 32 r i j)) # st0)"
    by (cases "(OpRel r, ls, st)" rule: wstep.cases) (auto split: if_splits)
  obtain e2 e1 s0 o2 o1 src0 where s: "s = e2 # e1 # s0" "src = o2 # o1 # src0" "reg_val m T_i32 (ws_idx e2) = Inr j"
    "reg_val m T_i32 (ws_idx e1) = Inr i" "holds_stack m s0 st0" "stack_ok base lm (Suc n) s0 src0"
    using stack_Cons_Cons [OF vals(1) [unfolded st(1)] ok(2)] .
  obtain d where d: "reg_val m T_i32 (of_nat (next_reg base (vt T_i32) s0)) = Inr d" using temp_readable [OF rd s(6)] by blast
  have I32: "vt T_i32 = I32" by (simp add: vt_def)
  have "\<exists>m'. (exec1 H ^^ 1) m m' \<and>
      advances 1 (Some (T_i32, of_nat (next_reg base (vt T_i32) s0), of_bool (wasm_relop 32 r i j))) m m'"
    using rel_run [OF _ s(4,3) d, of r H] comp code OpRel s(1) by (auto simp: I32)
  then show ?thesis using after_temp [OF _ _ ok(1) s(6,5) vals(2), where t=T_i32] comp OpRel st(2) s(1,2) by (fastforce simp: I32)
next
  case OpEqz
  with step obtain i st0 where st: "st = (T_i32, i) # st0" "st' = (ls, (T_i32, of_bool (i = 0)) # st0)"
    by (cases "(OpEqz, ls, st)" rule: wstep.cases) (auto split: if_splits)
  obtain e s0 o' src0 where s: "s = e # s0" "src = o' # src0" "reg_val m T_i32 (ws_idx e) = Inr i"
    "holds_stack m s0 st0" "stack_ok base lm (Suc n) s0 src0"
    by (rule stack_Cons [OF vals(1) [unfolded st(1)] ok(2)]) auto
  obtain d where d: "reg_val m T_i32 (of_nat (next_reg base (vt T_i32) s0)) = Inr d" using temp_readable [OF rd s(5)] by blast
  have I32: "vt T_i32 = I32" by (simp add: vt_def)
  have "\<exists>m'. (exec1 H ^^ 1) m m' \<and> advances 1 (Some (T_i32, of_nat (next_reg base (vt T_i32) s0), of_bool (i = 0))) m m'"
    using eqz_run [OF _ s(3) d, of H] comp code OpEqz s(1) by (auto simp: I32)
  then show ?thesis using after_temp [OF _ _ ok(1) s(5,4) vals(2), where t=T_i32] comp OpEqz st(2) s(1,2) by (fastforce simp: I32)
qed

section \<open>Sequences of operations\<close>

definition ran :: "host \<Rightarrow> nat \<Rightarrow> uwasm_machine \<Rightarrow> uwasm_machine \<Rightarrow> bool" where
  "ran H k m m' \<longleftrightarrow> (exec1 H ^^ k) m m' \<and> rest m' = rest m \<and> x_pc (current m') = map_option ((+) k) (x_pc (current m))"

lemma ran_trans: "ran H k m m' \<Longrightarrow> ran H l m' m'' \<Longrightarrow> ran H (k + l) m m''"
  by (auto simp: ran_def map_option_case split: option.splits dest: relpowp_trans)

lemma advances_ran: "(exec1 H ^^ k) m m' \<Longrightarrow> advances k w m m' \<Longrightarrow> ran H k m m'"
  by (simp add: ran_def advances_def)

lemma ran_refl: "ran H 0 m m"
  by (cases "x_pc (current m)") (auto simp: ran_def)

lemma comp_run:
  assumes "locals_ok base lm" and "stack_ok base lm (length ops + n) s src" and "holds_stack m s st" and "holds_locals m lm ls"
    and "readable m" and "wrun ops (ls, st) = Some (ls', st')" and "conv_safe ops src (ls, st)"
    and "comp base lm cnt ops s = (is, s')" and "holds_code m is"
  shows "\<exists>m'. ran H (length is) m m' \<and> readable m' \<and> holds_locals m' lm ls' \<and> holds_stack m' s' st'"
  using assms
proof (induction ops arbitrary: s src m st ls cnt "is")
  case Nil
  then show ?case using ran_refl [of H m] by auto
next
  case (Cons a ops)
  obtain is1 s1 is2 where c: "comp_op base lm cnt a s = (is1, s1)" "comp base lm (cnt + 1) ops s1 = (is2, s')" "is = is1 @ is2"
    using Cons.prems(8) by (auto split: prod.splits)
  obtain ls1 st1 where st1: "wstep a (ls, st) = Some (ls1, st1)" "wrun ops (ls1, st1) = Some (ls', st')"
    using Cons.prems(6) by (auto split: option.splits)
  have safe: "op_safe a src (ls, st)" "conv_safe ops (src_step a src) (ls1, st1)" using Cons.prems(7) st1(1) by auto
  have ok: "stack_ok base lm (Suc (length ops + n)) s src" using Cons.prems(2) by simp
  obtain m1 w where m1: "(exec1 H ^^ length is1) m m1" "advances (length is1) w m m1" "holds_locals m1 lm ls1"
    "holds_stack m1 s1 st1" "stack_ok base lm (length ops + n) s1 (src_step a src)"
    using comp_op_run [OF Cons.prems(1) ok Cons.prems(3-5) st1(1) safe(1) c(1), of H] holds_code_prefix Cons.prems(9) c(3)
    by (auto simp: after_op_def)
  have code: "holds_code m1 is2" using holds_code_append Cons.prems(9) m1(2) c(3) by blast
  have rd: "readable m1" using advances_readable m1(2) Cons.prems(5) by blast
  obtain m' where m': "ran H (length is2) m1 m'" "readable m'" "holds_locals m' lm ls'" "holds_stack m' s' st'"
    using Cons.IH [OF Cons.prems(1) m1(5,4,3) rd st1(2) safe(2) c(2) code] by blast
  then show ?case using ran_trans [OF advances_ran [OF m1(1,2)] m'(1)] c(3) by auto
qed

end
