(* ===== verification/Converter.thy ===== *)
theory Converter
  imports Conv_Insts
begin

text \<open>
  The rest of \<^verbatim>\<open>src/wasm/converter.cxx\<close>: calls, returns and the ends of blocks, the switch over the instructions of a
  function, the entry of a function (\<^verbatim>\<open>Create_ubh_code\<close>), the moves around calls that are completed once the number of
  registers is known, and \<^verbatim>\<open>Wasm_to_uwasm\<close> itself.  The map from WebAssembly to uwasm positions that is kept for
  printing is left out.
\<close>

section \<open>Calls\<close>

definition Get_inst_size :: "u32 \<Rightarrow> conv \<Rightarrow> u32 res" where
  "Get_inst_size func_id c =
    bindr (Get_inst_encoder func_id (cv_enc c)) (\<lambda>k. Inr (of_nat (length (cb_inst_tab (ue_bodies (cv_enc c) ! k)))))"

definition Conv_func_idx :: "u32 \<Rightarrow> u32" where "Conv_func_idx wasm_func_idx = wasm_func_idx"

definition Conv_type_idx :: "(u_encoder \<Rightarrow> bool) \<Rightarrow> u32 \<Rightarrow> wabt_module \<Rightarrow> u_encoder \<Rightarrow> (nat \<times> u_encoder) res" where
  "Conv_type_idx mv wasm_type_idx md e =
    bindr (GetFuncType md wasm_type_idx) (\<lambda>funcType.
    bindr (mapr Conv_wabt_ty (sg_params funcType)) (\<lambda>parm_list.
    bindr (mapr Conv_wabt_ty (sg_results funcType)) (\<lambda>ret_list.
    enc_Add_type (mv e) ret_list parm_list e)))"

text \<open>The arguments of a call are popped last first, against the parameter types in reverse order.\<close>

primrec pop_params :: "u32 list \<Rightarrow> conv \<Rightarrow> (wasm_stack_elem list \<times> conv) res" where
  "pop_params [] c = Inr ([], c)"
| "pop_params (w # ws) c =
    bindr (Pop_wasm_stk VALTY_UNKNOWN c) (\<lambda>(rs, c).
    bindr (Conv_wabt_ty w) (\<lambda>expected.
    Is_True (expected = ws_val_type rs) (
    bindr (pop_params ws c) (\<lambda>(rss, c). Inr (rs # rss, c)))))"

text \<open>The moves to the parameter registers, whose numbers are filled in later, and the parameters counted by type.\<close>

primrec param_movs :: "(u32 \<times> wasm_stack_elem) list \<Rightarrow> u32 list \<Rightarrow> conv \<Rightarrow> (u32 list \<times> conv) res" where
  "param_movs [] cnt c = Inr (cnt, c)"
| "param_movs (p # ps) cnt c =
    (let (w, rs) = p in
     bindr (ty_at cnt (ws_val_type rs)) (\<lambda>n.
     bindr (ty_upd cnt (ws_val_type rs) (n + 1)) (\<lambda>cnt.
     bindr (add_inst U_MOV (ws_val_type rs) [0, ws_idx rs] c) (\<lambda>c.
     bindr (Conv_wabt_ty w) (\<lambda>ty.
     Is_True (ty = ws_val_type rs) (
     param_movs ps cnt c))))))"

definition set_max_call_params :: "u32 list \<Rightarrow> conv \<Rightarrow> conv" where
  "set_max_call_params cnt c =
    c\<lparr>cr_local_tab := map2 (\<lambda>t n. if lt_max_call_param t < n then t\<lparr>lt_max_call_param := n\<rparr> else t) (cr_local_tab c) cnt\<rparr>"

text \<open>The moves of the results to fresh registers, whose sources are filled in later.\<close>

primrec ret_movs :: "u32 \<Rightarrow> u32 list \<Rightarrow> conv \<Rightarrow> conv res" where
  "ret_movs ins_cnt [] c = Inr c"
| "ret_movs ins_cnt (w # ws) c =
    bindr (Conv_wabt_ty w) (\<lambda>ty.
    bindr (Push_temp_reg ins_cnt ty c) (\<lambda>(tmp, c).
    bindr (add_inst U_MOV ty [tmp, 0] c) (\<lambda>c.
    ret_movs ins_cnt ws c)))"

definition W_Call :: u8 where "W_Call = 0x10"
definition W_CallIndirect :: u8 where "W_CallIndirect = 0x11"
definition W_Return :: u8 where "W_Return = 0x0f"

definition conv_call ::
  "(u_encoder \<Rightarrow> bool) \<Rightarrow> u8 list \<Rightarrow> file_context \<Rightarrow> u32 \<Rightarrow> wasm_inst \<Rightarrow> u_opc_ty_pair \<Rightarrow> u32 \<Rightarrow> conv \<Rightarrow> (outcome \<times> conv) res" where
  "conv_call mv buf ctx func_id inst u ins_cnt c =
    bindr (Read_leb128 buf (wi_pc inst + 1)) (\<lambda>idx.
    bindr (if wi_encode inst = W_Call then bindr (GetFunc (fc_module ctx) (ucast idx)) (\<lambda>f. Inr (wf_sig f))
           else GetFuncType (fc_module ctx) (ucast idx)) (\<lambda>callee.
    bindr (if wi_encode inst = W_CallIndirect then Pop_wasm_stk I32 c
           else Inr (WASM_STACK_ELEM TEMP I64 0 ins_cnt, c)) (\<lambda>(callee_idx_elem, c).
    bindr (pop_params (rev (sg_params callee)) c) (\<lambda>(rss, c).
    bindr (param_movs (zip (sg_params callee) (rev rss)) [0, 0, 0, 0] c) (\<lambda>(cnt, c).
    let c = set_max_call_params cnt c in
    bindr (Get_inst_size func_id c) (\<lambda>call_pc.
    let c = c\<lparr>cv_call_pcs := cv_call_pcs c @ [call_pc]\<rparr> in
    bindr (if wi_encode inst = W_Call
      then add_inst (up_opcode u) (up_valty u) [Conv_func_idx (ucast idx)] c
      else Is_True (ws_val_type callee_idx_elem = I32) (
        bindr (Conv_type_idx mv (ucast idx) (fc_module ctx) (cv_enc c)) (\<lambda>(type_idx, e).
        let c = c\<lparr>cv_enc := e,
          cv_icall := if cv_icall c call_pc = None then (cv_icall c)(call_pc \<mapsto> ucast idx) else cv_icall c\<rparr> in
        add_inst (up_opcode u) (up_valty u) [ws_idx callee_idx_elem] c))) (\<lambda>c.
    Is_True (length (sg_results callee) < 2) (
    bindr (ret_movs ins_cnt (sg_results callee) c) (\<lambda>c.
    Inr (None, c))))))))))"

section \<open>Returns and ends\<close>

text \<open>Results moved to the return registers, the first result first.\<close>

primrec return_movs :: "u32 \<Rightarrow> valtype list \<Rightarrow> conv \<Rightarrow> conv res" where
  "return_movs i [] c = Inr c"
| "return_movs i (ty # tys) c =
    bindr (Pop_wasm_stk ty c) (\<lambda>(rs, c).
    bindr (add_inst U_MOV (ws_val_type rs) [i + CONST_REG_NUM, ws_idx rs] c) (\<lambda>c.
    return_movs (i + 1) tys c))"

primrec conv_return_movs :: "u32 \<Rightarrow> u32 list \<Rightarrow> conv \<Rightarrow> conv res" where
  "conv_return_movs i [] c = Inr c"
| "conv_return_movs i (w # ws) c =
    bindr (Conv_wabt_ty w) (\<lambda>ty.
    bindr (return_movs i [ty] c) (\<lambda>c.
    conv_return_movs (i + 1) ws c))"

definition conv_return :: "file_context \<Rightarrow> u_opc_ty_pair \<Rightarrow> conv \<Rightarrow> (outcome \<times> conv) res" where
  "conv_return ctx u c =
    bindr (ctx_Get_func ctx) (\<lambda>f.
    Is_True (length (sg_results (wf_sig f)) < 3) (
    bindr (conv_return_movs 0 (sg_results (wf_sig f)) c) (\<lambda>c.
    Inr (Some (u, []), c))))"

definition Pop_redundant_values :: "winst_stmt \<Rightarrow> conv \<Rightarrow> conv res" where
  "Pop_redundant_values stmt c =
    (let stack_size = stk_size c; original_size = s_stack_size stmt in
     Is_True (original_size \<le> stack_size) (
     if s_opcode stmt = W_Block \<or> s_opcode stmt = W_Loop
     then if original_size < stack_size then pop_n (unat (stack_size - original_size)) c else Inr c
     else if s_opcode stmt = W_If \<and> Has_else stmt then Inr c
     else if s_opcode stmt = W_If \<or> s_opcode stmt = W_Else
     then if original_size < stack_size then pop_n (unat (stack_size - original_size)) c else Inr c
     else Inl Assertion))"

definition Push_result_to_stack :: "winst_stmt \<Rightarrow> conv \<Rightarrow> conv res" where
  "Push_result_to_stack stmt c =
    Is_True (s_kind stmt = WINST_STMT_BLOCK) (
    if 0 < s_result_cnt stmt
    then Is_True (s_result_reg stmt \<noteq> 0) (
      Inr (c\<lparr>cr_stack := WASM_STACK_ELEM TEMP (s_result_type stmt) (s_result_reg stmt) (s_begin_pc stmt) # cr_stack c\<rparr>))
    else Inr c)"

definition Add_end_of_block_label :: "(u_encoder \<Rightarrow> bool) \<Rightarrow> winst_stmt \<Rightarrow> conv \<Rightarrow> conv res" where
  "Add_end_of_block_label mv parent_stmt c =
    bindr (add_label mv False (s_id parent_stmt) c) (\<lambda>(end_label_id, c).
    Is_True (end_label_id = s_end_label parent_stmt) (
    if s_opcode parent_stmt = W_Else
    then bindr (add_label mv False (s_else_stmt parent_stmt) c) (\<lambda>(end_if_label_id, c).
      bindr (Stmt_id (cv_graph c) (s_else_stmt parent_stmt)) (\<lambda>if_stmt.
      Is_True (end_if_label_id = s_end_label if_stmt) (Inr c)))
    else Inr c))"

text \<open>The move of a block's result to its register; a loop gets none.\<close>

definition block_end_mov :: "winst_stmt \<Rightarrow> conv \<Rightarrow> conv res" where
  "block_end_mov parent_stmt c =
    (if 0 < s_result_cnt parent_stmt \<and>
        (s_opcode parent_stmt = W_Block \<or> s_opcode parent_stmt = W_Else \<or> s_opcode parent_stmt = W_If)
     then bindr (if s_opcode parent_stmt = W_If \<and> Has_else parent_stmt
                 then bindr (stk_top (cr_stack c)) (\<lambda>rs. Inr (rs, c))
                 else Pop_wasm_stk (s_result_type parent_stmt) c) (\<lambda>(rs, c).
       Is_True (ws_val_type rs = s_result_type parent_stmt) (
       Is_True (s_result_reg parent_stmt \<noteq> 0) (
       add_inst U_MOV (s_result_type parent_stmt) [s_result_reg parent_stmt, ws_idx rs] c)))
     else Inr c)"

definition conv_end_block :: "(u_encoder \<Rightarrow> bool) \<Rightarrow> u_opc_ty_pair \<Rightarrow> winst_stmt \<Rightarrow> conv \<Rightarrow> (outcome \<times> conv) res" where
  "conv_end_block mv u parent_stmt c =
    (if cr_stack c \<noteq> [] \<and> ws_kind (hd (cr_stack c)) = UNREACHABLE_VALUE
     then bindr (Pop_redundant_values parent_stmt (c\<lparr>cr_stack := tl (cr_stack c)\<rparr>)) (\<lambda>c.
       bindr (Push_result_to_stack parent_stmt c) (\<lambda>c.
       bindr (Add_end_of_block_label mv parent_stmt c) (\<lambda>c.
       Inr (Some (u, []), c))))
     else bindr (block_end_mov parent_stmt c) (\<lambda>c.
       bindr (Add_end_of_block_label mv parent_stmt c) (\<lambda>c.
       bindr (Pop_redundant_values parent_stmt c) (\<lambda>c.
       bindr (Push_result_to_stack parent_stmt c) (\<lambda>c.
       Inr (None, c))))))"

definition conv_end_func :: "file_context \<Rightarrow> u_opc_ty_pair \<Rightarrow> u32 \<Rightarrow> conv \<Rightarrow> (outcome \<times> conv) res" where
  "conv_end_func ctx u ins_cnt c =
    bindr (ctx_Get_func ctx) (\<lambda>f.
    let res_num = length (sg_results (wf_sig f)) in
    Is_True (res_num < 3) (
    if res_num = 0 then Inr (Some (u, []), c)
    else if cr_stack c \<noteq> [] \<and> list_ex (\<lambda>x. ws_kind x = UNREACHABLE_VALUE) (cr_stack c)
    then Inr (None, c\<lparr>cr_stack := dropWhile (\<lambda>x. ws_kind x \<noteq> UNREACHABLE_VALUE) (cr_stack c)\<rparr>)
    else if cr_stack c \<noteq> [] \<and> length (cr_stack c) = res_num
    then bindr (return_movs 0 (replicate res_num VALTY_UNKNOWN) c) (\<lambda>c. Inr (Some (u, []), c))
    else bindr (Stmt_by_inst (cv_graph c) (ins_cnt - 1)) (\<lambda>prev.
      if s_opcode prev = W_Return then Inr (None, c)
      else Is_True (\<not> fc_stack_check ctx) (Inr (Some (u, []), c)))))"

definition conv_end ::
  "(u_encoder \<Rightarrow> bool) \<Rightarrow> file_context \<Rightarrow> u_opc_ty_pair \<Rightarrow> u32 \<Rightarrow> winst_stmt \<Rightarrow> conv \<Rightarrow> (outcome \<times> conv) res" where
  "conv_end mv ctx u ins_cnt cur c =
    bindr (Stmt_id (cv_graph c) (s_parent cur)) (\<lambda>parent_stmt.
    if s_kind parent_stmt \<noteq> WINST_STMT_ROOT_BLOCK then conv_end_block mv u parent_stmt c
    else conv_end_func ctx u ins_cnt c)"

section \<open>The switch\<close>

definition W_Br :: u8 where "W_Br = 0x0c"
definition W_BrIf :: u8 where "W_BrIf = 0x0d"
definition W_BrOnExn :: u8 where "W_BrOnExn = 0x0a"
definition W_Drop :: u8 where "W_Drop = 0x1a"
definition W_Select :: u8 where "W_Select = 0x1b"
definition W_LocalGet :: u8 where "W_LocalGet = 0x20"
definition W_LocalSet :: u8 where "W_LocalSet = 0x21"
definition W_LocalTee :: u8 where "W_LocalTee = 0x22"
definition W_GlobalGet :: u8 where "W_GlobalGet = 0x23"
definition W_GlobalSet :: u8 where "W_GlobalSet = 0x24"
definition W_MemorySize :: u8 where "W_MemorySize = 0x3f"
definition W_MemoryGrow :: u8 where "W_MemoryGrow = 0x40"

text \<open>The groups of case labels, in the order of the encodings.\<close>

definition load_cases :: "u8 list" where
  "load_cases = [0x28, 0x29, 0x2a, 0x2b, 0x2c, 0x2d, 0x2e, 0x2f, 0x30, 0x31, 0x32, 0x33, 0x34, 0x35]"

definition store_cases :: "u8 list" where
  "store_cases = [0x36, 0x37, 0x38, 0x39, 0x3a, 0x3b, 0x3c, 0x3d, 0x3e]"

definition const64_cases :: "u8 list" where "const64_cases = [0x42, 0x44]"
definition const32_cases :: "u8 list" where "const32_cases = [0x41, 0x43]"
definition eqz_cases :: "u8 list" where "eqz_cases = [0x45, 0x50]"

definition compare_cases :: "u8 list" where
  "compare_cases = [0x46, 0x47, 0x48, 0x49, 0x4a, 0x4b, 0x4c, 0x4d, 0x4e, 0x4f, 0x51, 0x52, 0x53, 0x54, 0x55, 0x56,
    0x57, 0x58, 0x59, 0x5a, 0x5b, 0x5c, 0x5d, 0x5e, 0x5f, 0x60, 0x61, 0x62, 0x63, 0x64, 0x65, 0x66]"

definition binary_cases :: "u8 list" where
  "binary_cases = [0x6a, 0x6b, 0x6c, 0x6d, 0x6e, 0x6f, 0x70, 0x71, 0x72, 0x73, 0x74, 0x75, 0x76, 0x77, 0x78, 0x7c, 0x7d,
    0x7e, 0x7f, 0x80, 0x81, 0x82, 0x83, 0x84, 0x85, 0x86, 0x87, 0x88, 0x89, 0x8a, 0x92, 0x93, 0x94, 0x95, 0xa0, 0xa1,
    0xa2, 0xa3]"

definition copysign_cases :: "u8 list" where "copysign_cases = [0x98, 0xa6]"
definition unary_cases :: "u8 list" where "unary_cases = [0x8c, 0x8d, 0x8e, 0x91, 0x9a, 0x9b, 0x9c, 0x9f]"

definition builtin_cases :: "u8 list" where
  "builtin_cases = [0x67, 0x68, 0x69, 0x79, 0x7a, 0x7b, 0x8b, 0x8f, 0x90, 0x99, 0x9d, 0x9e, 0xa7, 0xa8, 0xa9, 0xaa, 0xab,
    0xac, 0xad, 0xae, 0xaf, 0xb0, 0xb1, 0xb2, 0xb3, 0xb4, 0xb5, 0xb6, 0xb7, 0xb8, 0xb9, 0xba, 0xbb, 0xbc, 0xbd, 0xbe, 0xbf]"

definition conv_switch ::
  "(u_encoder \<Rightarrow> bool) \<Rightarrow> u8 list \<Rightarrow> file_context \<Rightarrow> u32 \<Rightarrow> wasm_inst \<Rightarrow> u_opc_ty_pair \<Rightarrow> u32 \<Rightarrow> winst_stmt \<Rightarrow> conv \<Rightarrow>
    (outcome \<times> conv) res" where
  "conv_switch mv buf ctx func_id inst u ins_cnt cur c =
    (let opc = wi_encode inst in
     if opc = W_Block then conv_block ins_cnt cur c
     else if opc = W_Loop then conv_loop mv ins_cnt cur c
     else if opc = W_Else then conv_else mv u cur c
     else if opc = W_Br then conv_br buf inst u ins_cnt c
     else if opc = W_If then conv_if u ins_cnt cur c
     else if opc = W_BrOnExn then Inl Assertion
     else if opc = W_BrIf then conv_br_if buf inst u ins_cnt c
     else if opc = W_BrTable then conv_br_table buf inst ins_cnt c
     else if opc = W_Drop then conv_drop c
     else if opc = W_GlobalGet then conv_global_get buf ctx inst u ins_cnt c
     else if opc = W_GlobalSet then conv_global_set buf ctx inst u c
     else if opc = W_Unreachable then Inr (None, Push_unreachable_value ins_cnt c)
     else if opc = W_Select then conv_select mv ins_cnt c
     else if opc = W_Nop then Inr (None, c)
     else if opc = W_LocalGet then conv_local_get buf inst ins_cnt c
     else if opc = W_LocalSet then conv_local_set buf inst u c
     else if opc = W_LocalTee then conv_local_tee buf inst u c
     else if opc \<in> set load_cases then conv_load buf inst u ins_cnt c
     else if opc \<in> set store_cases then conv_store buf inst u ins_cnt c
     else if opc \<in> set const64_cases then conv_const64 buf inst u ins_cnt c
     else if opc \<in> set const32_cases then conv_const32 buf inst u ins_cnt c
     else if opc = W_MemoryGrow then conv_memory_grow u ins_cnt c
     else if opc = W_MemorySize then conv_memory_size u ins_cnt c
     else if opc \<in> set compare_cases then conv_compare u ins_cnt c
     else if opc \<in> set binary_cases then conv_binary u ins_cnt c
     else if opc \<in> set copysign_cases then conv_copysign inst u ins_cnt c
     else if opc \<in> set unary_cases then conv_unary u ins_cnt c
     else if opc \<in> set builtin_cases then conv_builtin inst u ins_cnt c
     else if opc \<in> set eqz_cases then conv_eqz u ins_cnt c
     else if opc = W_Call \<or> opc = W_CallIndirect then conv_call mv buf ctx func_id inst u ins_cnt c
     else if opc = W_Return then conv_return ctx u c
     else if opc = W_End then conv_end mv ctx u ins_cnt cur c
     else Inl Assertion)"

definition conv_inst ::
  "(u_encoder \<Rightarrow> bool) \<Rightarrow> u8 list \<Rightarrow> file_context \<Rightarrow> u32 \<Rightarrow> wasm_inst \<Rightarrow> u32 \<Rightarrow> conv \<Rightarrow> conv res" where
  "conv_inst mv buf ctx func_id inst ins_cnt c =
    bindr (UOPCODE_from_wasm (wi_encode inst)) (\<lambda>u.
    bindr (Stmt_by_inst (cv_graph c) ins_cnt) (\<lambda>cur.
    bindr (Get_ty_am u) (\<lambda>am.
    bindr (Get_inst_size func_id c) (\<lambda>uwasm_pc.
    bindr (conv_switch mv buf ctx func_id inst u ins_cnt cur c) (\<lambda>(r, c).
    case r of None \<Rightarrow> Inr c
    | Some (u, content) \<Rightarrow> add_inst (up_opcode u) (up_valty u) content c)))))"

primrec conv_insts ::
  "(u_encoder \<Rightarrow> bool) \<Rightarrow> u8 list \<Rightarrow> file_context \<Rightarrow> u32 \<Rightarrow> wasm_inst list \<Rightarrow> u32 \<Rightarrow> conv \<Rightarrow> conv res" where
  "conv_insts mv buf ctx func_id [] ins_cnt c = Inr c"
| "conv_insts mv buf ctx func_id (inst # insts) ins_cnt c =
    bindr (conv_inst mv buf ctx func_id inst ins_cnt c) (\<lambda>c.
    conv_insts mv buf ctx func_id insts (ins_cnt + 1) c)"

section \<open>Functions\<close>

text \<open>Parameters and locals: an entry of the table of their type, and of the map of locals.\<close>

primrec add_locals :: "local_kind \<Rightarrow> u32 list \<Rightarrow> conv_regs \<times> local_map_elem list \<Rightarrow> (conv_regs \<times> local_map_elem list) res" where
  "add_locals kind [] s = Inr s"
| "add_locals kind (w # ws) s =
    (let (r, lmap) = s in
     bindr (Conv_wabt_ty w) (\<lambda>ty.
     bindr (ty_at (cr_local_tab r) ty) (\<lambda>t.
     let t = lt_push_back \<lparr>lt_kind = kind, lt_val_type = ty, lt_push_stmt = 0\<rparr> t in
     bindr (ty_upd (cr_local_tab r) ty t) (\<lambda>tabs.
     bindr (LOCAL_MAP_ELEM (lt_size t) ty kind) (\<lambda>m.
     add_locals kind ws (r\<lparr>cr_local_tab := tabs\<rparr>, lmap @ [m]))))))"

definition preoccupy_all :: "conv_regs \<Rightarrow> conv_regs res" where
  "preoccupy_all r = foldr_res (\<lambda>ty r.
    bindr (ty_at (cr_local_tab r) ty) (\<lambda>t.
    bindr (Preoccupy_registers ty RET_REG_NUM (lt_size t) (cr_alloc r)) (\<lambda>ra.
    Inr (r\<lparr>cr_alloc := ra\<rparr>)))) [I32, I64, F32, F64] r"

text \<open>A string up to its first null byte.\<close>

definition cstring :: "u8 list \<Rightarrow> u8 list" where "cstring s = takeWhile (\<lambda>b. b \<noteq> 0) s"

definition func_name :: "file_context \<Rightarrow> wabt_func \<Rightarrow> u8 list \<times> file_context" where
  "func_name ctx f = (case fc_func_name_cache ctx (fc_func_idx ctx) of
      Some n \<Rightarrow> (n, ctx)
    | None \<Rightarrow> if wf_name f = [] then Get_anon_func_name ctx else (wf_name f, ctx))"

text \<open>Four register counts in the order of the value types.\<close>

definition quad :: "u32 list \<Rightarrow> u32 \<times> u32 \<times> u32 \<times> u32" where
  "quad xs = (xs ! 0, xs ! 1, xs ! 2, xs ! 3)"

definition Create_ubh_code ::
  "(u_encoder \<Rightarrow> bool) \<Rightarrow> u_encoder \<Rightarrow> file_context \<Rightarrow> (u32 \<times> conv_regs \<times> local_map_elem list \<times> u_encoder \<times> file_context) res" where
  "Create_ubh_code mv e ctx =
    bindr (ctx_Get_func ctx) (\<lambda>f.
    bindr (add_locals FORMAL_PARAM (sg_params (wf_sig f))
      (\<lparr>cr_stack = [], cr_alloc = REG_ALLOC_HELPER, cr_local_tab = replicate VALTY_COUNT LOCAL_TAB\<rparr>, [])) (\<lambda>(r, lmap).
    bindr (add_locals LOCAL (wf_locals f) (r, lmap)) (\<lambda>(r, lmap).
    bindr (preoccupy_all r) (\<lambda>r.
    bindr (mapr Conv_wabt_ty (sg_params (wf_sig f))) (\<lambda>parm_list.
    bindr (mapr Conv_wabt_ty (sg_results (wf_sig f))) (\<lambda>ret_list.
    bindr (enc_Add_type (mv e) ret_list parm_list e) (\<lambda>(type_idx, e).
    let (cur_func_name, ctx) = func_name ctx f in
    bindr (Request_func (mv e) (cstring cur_func_name) (of_nat type_idx) 0 e) (\<lambda>(func_idx, e).
    bindr (Start_func (of_nat func_idx) (quad (map (\<lambda>t. lt_size t + RET_REG_NUM) (cr_local_tab r))) (0, 0, 0, 0) 0 e) (\<lambda>(code_idx, e).
    Inr (of_nat func_idx, r, lmap, e, ctx))))))))))"

text \<open>Locals start at zero.\<close>

primrec init_locals :: "local_map_elem list \<Rightarrow> conv \<Rightarrow> conv res" where
  "init_locals [] c = Inr c"
| "init_locals (l # ls) c =
    Is_True (lm_map_kind l = LOCAL) (
    bindr (case lm_ty l of
        I32 \<Rightarrow> Add_const_inst U_CONST I32 (lm_reg_idx l) 0 c
      | I64 \<Rightarrow> Add_const_inst U_CONST I64 (lm_reg_idx l) 0 c
      | F32 \<Rightarrow> Add_const_inst U_CONST_L F32 (lm_reg_idx l) 0 c
      | F64 \<Rightarrow> bindr (Add_const_inst U_CONST_L F64 (lm_reg_idx l) 0 c) (Add_const_inst U_CONST_L_HIGH F64 (lm_reg_idx l) 0)
      | VALTY_UNKNOWN \<Rightarrow> Inr c) (\<lambda>c.
    init_locals ls c))"

subsection \<open>Completing the moves around calls\<close>

definition Is_mov :: "u32 \<Rightarrow> 'a res \<Rightarrow> 'a res" where
  "Is_mov w r = Is_True (rd f_opcode w = U_MOV) (
    bindr (arr_at UWINST_TY_AM (unat (rd f_opcode w))) (\<lambda>am. Is_True (am = TY_AM32_R_R) r))"

text \<open>The \<open>n\<close> moves before a call at \<open>pc\<close>: the register of each parameter, counted by type.\<close>

primrec fix_params :: "nat \<Rightarrow> u32 \<Rightarrow> u32 list \<Rightarrow> u32 list \<Rightarrow> u32 list \<Rightarrow> u32 list res" where
  "fix_params 0 mov_pc totals used tab = Inr tab"
| "fix_params (Suc n) mov_pc totals used tab =
    bindr (vec_at tab (unat mov_pc)) (\<lambda>w.
    Is_mov w (
    let ty = unat (rd f_ty w); mov_target = totals ! ty + RET_REG_NUM + used ! ty in
    fix_params n (mov_pc + 1) totals (used[ty := used ! ty + 1]) (tab[unat mov_pc := wr R_R_r1 mov_target w])))"

definition fix_ret :: "u32 \<Rightarrow> u32 list \<Rightarrow> u32 list \<Rightarrow> u32 list res" where
  "fix_ret pc totals tab =
    bindr (vec_at tab (unat (pc + 1))) (\<lambda>w.
    Is_mov w (
    Inr (tab[unat (pc + 1) := wr R_R_r2 (totals ! unat (rd f_ty w)) w])))"

definition fix_call :: "file_context \<Rightarrow> u32 list \<Rightarrow> (u32 \<Rightarrow> u32 option) \<Rightarrow> u32 \<Rightarrow> u32 list \<Rightarrow> u32 list res" where
  "fix_call ctx totals icall pc tab =
    bindr (vec_at tab (unat pc)) (\<lambda>w.
    Is_True (rd f_opcode w = U_CALL \<or> rd f_opcode w = U_CALL_INDIRECT) (
    bindr (if rd f_opcode w = U_CALL
      then bindr (GetFunc (fc_module ctx) (rd OFS_ofs w)) (\<lambda>f. Inr (wf_sig f))
      else bindr (case icall pc of Some t \<Rightarrow> Inr t | None \<Rightarrow> Inl Out_of_range) (GetFuncType (fc_module ctx))) (\<lambda>sig.
    let param_sz = length (sg_params sig) in
    bindr (fix_params param_sz (pc - of_nat param_sz) totals [0, 0, 0, 0] tab) (\<lambda>tab.
    Is_True (length (sg_results sig) \<le> 1) (
    if length (sg_results sig) = 1 then fix_ret pc totals tab else Inr tab)))))"

definition on_body :: "nat \<Rightarrow> (u_code_body \<Rightarrow> u_code_body) \<Rightarrow> u_encoder \<Rightarrow> u_encoder" where
  "on_body k f e = e\<lparr>ue_bodies := (ue_bodies e)[k := f (ue_bodies e ! k)]\<rparr>"

definition fix_calls :: "file_context \<Rightarrow> u32 \<Rightarrow> conv \<Rightarrow> conv res" where
  "fix_calls ctx func_id c = foldr_res (\<lambda>pc c.
    bindr (Get_inst_encoder func_id (cv_enc c)) (\<lambda>k.
    bindr (fix_call ctx (map (\<lambda>t. RET_REG_NUM + lt_size t) (cr_local_tab c)) (cv_icall c) pc
      (cb_inst_tab (ue_bodies (cv_enc c) ! k))) (\<lambda>tab.
    Inr (c\<lparr>cv_enc := on_body k (\<lambda>cb. cb\<lparr>cb_inst_tab := tab\<rparr>) (cv_enc c)\<rparr>)))) (cv_call_pcs c) c"

text \<open>The register counts of the code body, in the widths of their fields.\<close>

definition Update_ubh_code :: "u32 \<times> u32 \<times> u32 \<times> u32 \<Rightarrow> u32 \<times> u32 \<times> u32 \<times> u32 \<Rightarrow> u32 \<Rightarrow> ubh_code \<Rightarrow> ubh_code" where
  "Update_ubh_code local_regs io_regs stack_size code =
    code\<lparr>c_local := c_local (UBH_CODE local_regs io_regs stack_size),
         c_io := c_io (UBH_CODE local_regs io_regs stack_size),
         c_stack_size := c_stack_size (UBH_CODE local_regs io_regs stack_size)\<rparr>"

definition update_code :: "u32 \<Rightarrow> conv \<Rightarrow> conv res" where
  "update_code func_id c =
    bindr (Get_inst_encoder func_id (cv_enc c)) (\<lambda>k.
    let locals_size = quad (map (\<lambda>t. lt_size t + RET_REG_NUM) (cr_local_tab c));
        io_size = quad (map (\<lambda>t. lt_max_call_param t + RET_REG_NUM * 2) (cr_local_tab c))
    in Inr (c\<lparr>cv_enc := on_body k (\<lambda>cb. cb\<lparr>cb_ubh_code := Update_ubh_code locals_size io_size 0 (cb_ubh_code cb)\<rparr>) (cv_enc c)\<rparr>))"

definition Wasm_to_uwasm ::
  "(u_encoder \<Rightarrow> bool) \<Rightarrow> u8 list \<Rightarrow> wasm_inst list \<Rightarrow> u_encoder \<Rightarrow> file_context \<Rightarrow> (u_encoder \<times> file_context) res" where
  "Wasm_to_uwasm mv inst_buf instr e ctx =
    bindr (Create_ubh_code mv e ctx) (\<lambda>(func_id, r, lmap, e, ctx).
    bindr (Build_block_hierarchy mv inst_buf instr [] e) (\<lambda>(graph, labels, e).
    bindr (ctx_Get_func ctx) (\<lambda>f.
    let c = \<lparr>cr_stack = cr_stack r, cr_alloc = cr_alloc r, cr_local_tab = cr_local_tab r, cv_enc = e, cv_graph = graph,
             cv_local_map = lmap, cv_call_pcs = [], cv_icall = (\<lambda>i. None)\<rparr> in
    bindr (init_locals (drop (length (sg_params (wf_sig f))) lmap) c) (\<lambda>c.
    bindr (conv_insts mv inst_buf ctx func_id instr BLOCK_INSTR_BEGIN c) (\<lambda>c.
    bindr (fix_calls ctx func_id c) (\<lambda>c.
    bindr (update_code func_id c) (\<lambda>c.
    Inr (cv_enc c, ctx))))))))"

end
