(* ===== verification/Conv_Refine.thy ===== *)
theory Conv_Refine
  imports Conv_Comp Converter Reader_Props
begin

text \<open>
  The converter on straight-line integer code: its stack-based pass over well-typed operations succeeds and appends
  exactly the instructions of \<open>comp\<close> to the code of the function.
\<close>

section \<open>Well-typed operations\<close>

fun tstep :: "int_ty list \<Rightarrow> wop \<Rightarrow> int_ty list \<Rightarrow> int_ty list option" where
  "tstep lts OpNop ts = Some ts"
| "tstep lts (OpConst t k) ts = Some (t # ts)"
| "tstep lts (OpGet i) ts = (if i < length lts then Some (lts ! i # ts) else None)"
| "tstep lts (OpSet i) (t # ts) = (if i < length lts \<and> lts ! i = t then Some ts else None)"
| "tstep lts (OpTee i) (t # ts) = (if i < length lts \<and> lts ! i = t then Some (t # ts) else None)"
| "tstep lts OpDrop (t # ts) = Some ts"
| "tstep lts (OpBin t f) (t2 # t1 # ts) = (if t1 = t \<and> t2 = t then Some (t # ts) else None)"
| "tstep lts (OpRel r) (t2 # t1 # ts) = (if t1 = T_i32 \<and> t2 = T_i32 then Some (T_i32 # ts) else None)"
| "tstep lts OpEqz (t # ts) = (if t = T_i32 then Some (T_i32 # ts) else None)"
| "tstep _ _ _ = None"

primrec trun :: "int_ty list \<Rightarrow> wop list \<Rightarrow> int_ty list \<Rightarrow> int_ty list option" where
  "trun lts [] ts = Some ts"
| "trun lts (a # ops) ts = (case tstep lts a ts of Some ts' \<Rightarrow> trun lts ops ts' | None \<Rightarrow> None)"

text \<open>A step of the reference keeps the types of the locals and is well-typed.\<close>

lemma wstep_tstep:
  assumes "wstep a (ls, st) = Some (ls', st')"
  shows "map fst ls' = map fst ls" and "tstep (map fst ls) a (map fst st) = Some (map fst st')"
  using assms
  by (cases "(a, ls, st)" rule: wstep.cases; force split: if_splits simp: map_update list_update_same_conv intro: list_update_id)+

section \<open>The encoding of operations\<close>

definition binop_num :: "ibinop \<Rightarrow> u8" where
  "binop_num f = (case f of I_add \<Rightarrow> 0 | I_sub \<Rightarrow> 1 | I_mul \<Rightarrow> 2 | I_div_s \<Rightarrow> 3 | I_div_u \<Rightarrow> 4 | I_rem_s \<Rightarrow> 5 | I_rem_u \<Rightarrow> 6
    | I_and \<Rightarrow> 7 | I_or \<Rightarrow> 8 | I_xor \<Rightarrow> 9 | I_shl \<Rightarrow> 10 | I_shr_s \<Rightarrow> 11 | I_shr_u \<Rightarrow> 12)"

definition relop_num :: "irelop \<Rightarrow> u8" where
  "relop_num r = (case r of R_eq \<Rightarrow> 0 | R_ne \<Rightarrow> 1 | R_lt_s \<Rightarrow> 2 | R_lt_u \<Rightarrow> 3 | R_gt_s \<Rightarrow> 4 | R_gt_u \<Rightarrow> 5 | R_le_s \<Rightarrow> 6
    | R_le_u \<Rightarrow> 7 | R_ge_s \<Rightarrow> 8 | R_ge_u \<Rightarrow> 9)"

definition op_code :: "wop \<Rightarrow> u8" where
  "op_code a = (case a of
      OpNop \<Rightarrow> 0x01 | OpConst t k \<Rightarrow> (case t of T_i32 \<Rightarrow> 0x41 | T_i64 \<Rightarrow> 0x42)
    | OpGet i \<Rightarrow> 0x20 | OpSet i \<Rightarrow> 0x21 | OpTee i \<Rightarrow> 0x22 | OpDrop \<Rightarrow> 0x1a
    | OpBin t f \<Rightarrow> (case t of T_i32 \<Rightarrow> 0x6a | T_i64 \<Rightarrow> 0x7c) + binop_num f
    | OpRel r \<Rightarrow> 0x46 + relop_num r | OpEqz \<Rightarrow> 0x45)"

text \<open>The instruction \<open>inst\<close> of the buffer is the operation, its immediate read back by the reader.\<close>

definition encodes_op :: "u8 list \<Rightarrow> wop \<Rightarrow> wasm_inst \<Rightarrow> bool" where
  "encodes_op buf a inst \<longleftrightarrow> wi_encode inst = op_code a \<and> (case a of
      OpConst t k \<Rightarrow> Read_const_value buf (wi_pc inst + 1) (vt t) = Inr (word_of_int k)
    | OpGet i \<Rightarrow> i < 2 ^ 32 \<and> Read_leb128 buf (wi_pc inst + 1) = Inr (of_nat i)
    | OpSet i \<Rightarrow> i < 2 ^ 32 \<and> Read_leb128 buf (wi_pc inst + 1) = Inr (of_nat i)
    | OpTee i \<Rightarrow> i < 2 ^ 32 \<and> Read_leb128 buf (wi_pc inst + 1) = Inr (of_nat i)
    | _ \<Rightarrow> True)"

definition op_pair :: "wop \<Rightarrow> u_opc_ty_pair" where
  "op_pair a = (case a of
      OpNop \<Rightarrow> UOPCODE_inst 0 I32
    | OpConst t k \<Rightarrow> (case t of T_i32 \<Rightarrow> UOPCODE_inst U_CONST_L I32 | T_i64 \<Rightarrow> UOPCODE_inst U_CONST_L_HIGH I64)
    | OpGet i \<Rightarrow> UOPCODE_inst 0 I32 | OpSet i \<Rightarrow> UOPCODE_inst U_MOV I32 | OpTee i \<Rightarrow> UOPCODE_inst U_MOV I32
    | OpDrop \<Rightarrow> UOPCODE_inst 0 I32
    | OpBin t f \<Rightarrow> UOPCODE_inst (binop_opc f) (vt t) | OpRel r \<Rightarrow> UOPCODE_inst (relop_opc r) I32
    | OpEqz \<Rightarrow> UOPCODE_inst 0x3f I32)"

lemma op_map_ascending: "list_all (\<lambda>(r, r'). fst (snd r) < fst (snd r')) (zip op_map (tl op_map))"
  by code_simp

lemma op_map_keys: "distinct (map (\<lambda>r. fst (snd r)) op_map)"
proof -
  let ?ks = "map (\<lambda>r. fst (snd r)) op_map"
  have "?ks ! i < ?ks ! Suc i" if i: "Suc i < length ?ks" for i
  proof -
    have "zip op_map (tl op_map) ! i \<in> set (zip op_map (tl op_map))" using i by (intro nth_mem) simp
    then show ?thesis using op_map_ascending i by (force simp: list_all_iff nth_tl)
  qed
  then have "sorted_wrt (<) ?ks" by (simp add: sorted_wrt_iff_nth_Suc_transp transp_on_less)
  then show ?thesis by (simp add: strict_sorted_iff)
qed

text \<open>A row of the map is what its opcode is looked up to.\<close>

lemma UOPCODE_row:
  assumes "(n, w, u, ty) \<in> set op_map"
  shows "UOPCODE_from_wasm w = Inr (UOPCODE_inst u ty)"
proof -
  obtain r where r: "find (\<lambda>(name, wasm_op, uop, ty). wasm_op = w) op_map = Some r"
    using assms by (cases "find (\<lambda>(name, wasm_op, uop, ty). wasm_op = w) op_map") (auto simp: find_None_iff)
  then have "r \<in> set op_map" "fst (snd r) = w" by (auto simp: find_Some_iff in_set_conv_nth)
  then have "r = (n, w, u, ty)" using op_map_keys assms by (force simp: distinct_map inj_on_def)
  with r show ?thesis by (simp add: UOPCODE_from_wasm_def UOPCODE_inst_def)
qed

lemma op_rows_of_map:
  "take 1 (drop 1 op_map) = [(''Nop'', 0x01, 0x00, I32)]"
  "take 1 (drop 18 op_map) = [(''Drop'', 0x1a, 0x00, I32)]"
  "take 3 (drop 21 op_map) = [(''LocalGet'', 0x20, 0x00, I32), (''LocalSet'', 0x21, 0x12, I32), (''LocalTee'', 0x22, 0x12, I32)]"
  "take 2 (drop 51 op_map) = [(''I32Const'', 0x41, 0x80, I32), (''I64Const'', 0x42, 0x81, I64)]"
  "take 11 (drop 55 op_map) = [(''I32Eqz'', 0x45, 0x3f, I32), (''I32Eq'', 0x46, 0xa6, I32), (''I32Ne'', 0x47, 0xa7, I32), (''I32LtS'', 0x48, 0xa8, I32), (''I32LtU'', 0x49, 0xa9, I32), (''I32GtS'', 0x4a, 0xaa, I32), (''I32GtU'', 0x4b, 0xab, I32), (''I32LeS'', 0x4c, 0xac, I32), (''I32LeU'', 0x4d, 0xad, I32), (''I32GeS'', 0x4e, 0xae, I32), (''I32GeU'', 0x4f, 0xaf, I32)]"
  "take 13 (drop 92 op_map) = [(''I32Add'', 0x6a, 0xb0, I32), (''I32Sub'', 0x6b, 0xb1, I32), (''I32Mul'', 0x6c, 0xb2, I32), (''I32DivS'', 0x6d, 0xb3, I32), (''I32DivU'', 0x6e, 0xb4, I32), (''I32RemS'', 0x6f, 0xb5, I32), (''I32RemU'', 0x70, 0xb6, I32), (''I32And'', 0x71, 0xb7, I32), (''I32Or'', 0x72, 0xb8, I32), (''I32Xor'', 0x73, 0xb9, I32), (''I32Shl'', 0x74, 0xba, I32), (''I32ShrS'', 0x75, 0xbb, I32), (''I32ShrU'', 0x76, 0xbc, I32)]"
  "take 13 (drop 110 op_map) = [(''I64Add'', 0x7c, 0xb0, I64), (''I64Sub'', 0x7d, 0xb1, I64), (''I64Mul'', 0x7e, 0xb2, I64), (''I64DivS'', 0x7f, 0xb3, I64), (''I64DivU'', 0x80, 0xb4, I64), (''I64RemS'', 0x81, 0xb5, I64), (''I64RemU'', 0x82, 0xb6, I64), (''I64And'', 0x83, 0xb7, I64), (''I64Or'', 0x84, 0xb8, I64), (''I64Xor'', 0x85, 0xb9, I64), (''I64Shl'', 0x86, 0xba, I64), (''I64ShrS'', 0x87, 0xbb, I64), (''I64ShrU'', 0x88, 0xbc, I64)]"
  by code_simp+

lemma op_map_slice: "take k (drop i op_map) = rows \<Longrightarrow> list_all (\<lambda>(n, w, u, ty). UOPCODE_from_wasm w = Inr (UOPCODE_inst u ty)) rows"
  using UOPCODE_row by (fastforce simp: list_all_iff dest: in_set_takeD in_set_dropD)

lemmas op_slices = op_rows_of_map [THEN op_map_slice, unfolded list.pred_inject prod.case]

lemma op_pair_from_wasm: "UOPCODE_from_wasm (op_code a) = Inr (op_pair a)"
proof -
  have bin: "UOPCODE_from_wasm (op_code (OpBin t f)) = Inr (op_pair (OpBin t f))" for t f
    using op_slices(6,7) by (cases t; cases f) (simp_all add: op_code_def op_pair_def binop_num_def binop_opc_def vt_def)
  have rel: "UOPCODE_from_wasm (op_code (OpRel r)) = Inr (op_pair (OpRel r))" for r
    using op_slices(5) by (cases r) (simp_all add: op_code_def op_pair_def relop_num_def relop_opc_def)
  show ?thesis using op_slices(1-5)
    by (cases a) (simp_all add: bin rel, simp_all add: op_code_def op_pair_def U_MOV_def U_CONST_L_def U_CONST_L_HIGH_def split: int_ty.split)
qed

text \<open>The address modes of the instructions.\<close>

lemma modes:
  "list_all (\<lambda>p. UWINST_TY_AM ! p = TY_AM64_R_R_R) [0xa6..<0xbd]"
  "UWINST_TY_AM ! 0x3f = TY_AM32_R_R" "UWINST_TY_AM ! 0x12 = TY_AM32_R_R"
  "UWINST_TY_AM ! 0x80 = TY_AM64_R_IMM" "UWINST_TY_AM ! 0x81 = TY_AM64_R_IMM" "length UWINST_TY_AM = 195"
  by code_simp+

lemma binop_mode: "Get_opc_tyam (binop_opc f) = Inr TY_AM64_R_R_R"
  using modes(1,6) by (cases f) (simp_all add: list_all_iff binop_opc_def Get_opc_tyam_def arr_at_def)

lemma relop_mode: "Get_opc_tyam (relop_opc r) = Inr TY_AM64_R_R_R"
  using modes(1,6) by (cases r) (simp_all add: list_all_iff relop_opc_def Get_opc_tyam_def arr_at_def)

lemma other_modes:
  "Get_opc_tyam U_MOV = Inr TY_AM32_R_R" "Get_opc_tyam 0x3f = Inr TY_AM32_R_R"
  "Get_opc_tyam U_CONST_L = Inr TY_AM64_R_IMM" "Get_opc_tyam U_CONST_L_HIGH = Inr TY_AM64_R_IMM"
  by (simp_all add: Get_opc_tyam_def arr_at_def modes U_MOV_def U_CONST_L_def U_CONST_L_HIGH_def)

lemma op_pair_am: "\<exists>am. Get_ty_am (op_pair a) = Inr am"
proof -
  have "Get_ty_am u = Get_opc_tyam (up_opcode u)" for u by (simp add: Get_ty_am_def Get_opc_tyam_def)
  then show ?thesis
    by (cases a) (auto simp: op_pair_def UOPCODE_inst_def binop_mode relop_mode other_modes split: int_ty.split,
        simp_all add: Get_opc_tyam_def arr_at_def modes)
qed

lemmas wasm_opcodes = W_Block_def W_Loop_def W_Else_def W_Br_def W_If_def W_BrOnExn_def W_BrIf_def W_BrTable_def W_Drop_def
  W_GlobalGet_def W_GlobalSet_def W_Unreachable_def W_Select_def W_Nop_def W_LocalGet_def W_LocalSet_def W_LocalTee_def
  load_cases_def store_cases_def const64_cases_def const32_cases_def W_MemoryGrow_def W_MemorySize_def compare_cases_def
  binary_cases_def copysign_cases_def unary_cases_def builtin_cases_def eqz_cases_def W_Call_def W_CallIndirect_def
  W_Return_def W_End_def

text \<open>The case of the switch an operation goes to.\<close>

lemma switch_op:
  assumes "wi_encode inst = op_code a"
  shows "conv_switch mv buf ctx fid inst u cnt cur c = (case a of
      OpNop \<Rightarrow> Inr (None, c)
    | OpConst t k \<Rightarrow> (case t of T_i32 \<Rightarrow> conv_const32 buf inst u cnt c | T_i64 \<Rightarrow> conv_const64 buf inst u cnt c)
    | OpGet i \<Rightarrow> conv_local_get buf inst cnt c
    | OpSet i \<Rightarrow> conv_local_set buf inst u c
    | OpTee i \<Rightarrow> conv_local_tee buf inst u c
    | OpDrop \<Rightarrow> conv_drop c
    | OpBin t f \<Rightarrow> conv_binary u cnt c
    | OpRel r \<Rightarrow> conv_compare u cnt c
    | OpEqz \<Rightarrow> conv_eqz u cnt c)"
proof -
  have bin: "op_code (OpBin t f) \<in> set binary_cases" for t f
    by (cases t; cases f; simp add: op_code_def binop_num_def binary_cases_def)
  have rel: "op_code (OpRel r) \<in> set compare_cases" for r
    by (cases r; simp add: op_code_def relop_num_def compare_cases_def)
  have to_binary: "conv_switch mv buf ctx fid inst u cnt cur c = conv_binary u cnt c" if "wi_encode inst \<in> set binary_cases"
    using that by (auto simp: conv_switch_def wasm_opcodes)
  have to_compare: "conv_switch mv buf ctx fid inst u cnt cur c = conv_compare u cnt c" if "wi_encode inst \<in> set compare_cases"
    using that by (auto simp: conv_switch_def wasm_opcodes)
  show ?thesis
  proof (cases a)
    case (OpBin t f)
    then show ?thesis using to_binary bin assms by simp
  next
    case (OpRel r)
    then show ?thesis using to_compare rel assms by simp
  qed (simp_all add: assms conv_switch_def op_code_def wasm_opcodes split: int_ty.split)
qed

section \<open>Emitting instructions\<close>

text \<open>The instructions \<open>is\<close> are appended to the code of the current function, nothing else changes.\<close>

definition emits :: "uinst list \<Rightarrow> u_encoder \<Rightarrow> u_encoder \<Rightarrow> bool" where
  "emits is e e' \<longleftrightarrow> ue_bodies e \<noteq> [] \<and> list_all inst_ok is \<and>
    (\<exists>tab. foldr_res Add_inst_of is (cb_inst_tab (last (ue_bodies e))) = Inr tab \<and>
      e' = e\<lparr>ue_bodies := butlast (ue_bodies e) @ [(last (ue_bodies e))\<lparr>cb_inst_tab := tab\<rparr>]\<rparr>)"

lemma emits_Nil: "ue_bodies e \<noteq> [] \<Longrightarrow> emits [] e e"
  by (simp add: emits_def)

lemma emits_trans: "emits is e e' \<Longrightarrow> emits js e' e'' \<Longrightarrow> emits (is @ js) e e''"
  by (auto simp: emits_def foldr_res_append)

lemma emits_bodies: "emits is e e' \<Longrightarrow> ue_bodies e' \<noteq> [] \<and> length (ue_bodies e') = length (ue_bodies e) \<and> ue_func_tab e' = ue_func_tab e"
  by (auto simp: emits_def)

lemma emits_Get_inst_encoder: "emits is e e' \<Longrightarrow> Get_inst_encoder fid e' = Get_inst_encoder fid e"
  using emits_bodies [of "is" e e'] by (simp add: Get_inst_encoder_def)

lemma add_inst_ok:
  assumes "Get_opc_tyam opc = Inr mode" and "inst_ok (opc, ty, mode, cs)" and "ue_bodies (cv_enc c) \<noteq> []"
  shows "\<exists>e. add_inst opc ty cs c = Inr (c\<lparr>cv_enc := e\<rparr>) \<and> emits [(opc, ty, mode, cs)] (cv_enc c) e"
proof -
  obtain ws where "Add_inst_of (opc, ty, mode, cs) (cb_inst_tab (last (ue_bodies (cv_enc c)))) =
      Inr (cb_inst_tab (last (ue_bodies (cv_enc c))) @ ws)"
    using Add_inst_decodes [OF assms(2)] by blast
  with assms show ?thesis
    by (simp add: add_inst_def enc_Add_inst_def on_cur_body_def Cur_code_body_def body_Add_inst_def emits_def)
qed

section \<open>One operation\<close>

text \<open>The table of a local's type has an entry of the local's kind for it.\<close>

definition tab_kinds :: "local_tab list \<Rightarrow> local_map_elem list \<Rightarrow> bool" where
  "tab_kinds tabs lm \<longleftrightarrow> length tabs = 4 \<and> (\<forall>l \<in> set lm. 1 \<le> unat (lm_reg_idx l) \<and>
    unat (lm_reg_idx l) - 1 < length (lt_content (tabs ! valtype_num (lm_ty l))) \<and>
    lt_kind (lt_content (tabs ! valtype_num (lm_ty l)) ! (unat (lm_reg_idx l) - 1)) = lm_map_kind l)"

lemma tab_kinds_ext:
  assumes "tabs_ext tabs tabs'" and "tab_kinds tabs lm" and "locals_ok base lm"
  shows "tab_kinds tabs' lm"
proof -
  have "valtype_num (lm_ty l) < length tabs" if "l \<in> set lm" for l
    using that assms(2,3) valtype_num_less by (auto simp: tab_kinds_def locals_ok_def)
  then show ?thesis using assms(1,2) by (fastforce simp: tab_kinds_def tabs_ext_def nth_append)
qed

definition conv_ok :: "u32 \<Rightarrow> (valtype \<Rightarrow> nat) \<Rightarrow> local_map_elem list \<Rightarrow> nat \<Rightarrow> nat option list \<Rightarrow> int_ty list \<Rightarrow> conv \<Rightarrow> bool" where
  "conv_ok fid base lm n src ts c \<longleftrightarrow> regs_ok base c \<and> locals_ok base lm \<and> stack_ok base lm n (cr_stack c) src \<and>
    list_all2 (\<lambda>e t. ws_val_type e = vt t) (cr_stack c) ts \<and> cv_local_map c = lm \<and> tab_kinds (cr_local_tab c) lm \<and>
    ue_bodies (cv_enc c) \<noteq> [] \<and> (\<exists>k. Get_inst_encoder fid (cv_enc c) = Inr k)"

text \<open>What stays the same in the rest of the state.\<close>

definition same_rest :: "conv \<Rightarrow> conv \<Rightarrow> bool" where
  "same_rest c c' \<longleftrightarrow> cv_graph c' = cv_graph c \<and> cv_local_map c' = cv_local_map c \<and> cv_call_pcs c' = cv_call_pcs c \<and>
    cv_icall c' = cv_icall c \<and> tabs_ext (cr_local_tab c) (cr_local_tab c')"

lemma same_rest_trans: "same_rest a b \<Longrightarrow> same_rest b c \<Longrightarrow> same_rest a c"
  by (auto simp: same_rest_def intro: tabs_ext_trans)

lemma pop_ok:
  assumes "regs_ok base c" and "cr_stack c = e # s" and "is_operand e" and "expect \<in> {ws_val_type e, VALTY_UNKNOWN}"
  shows "\<exists>c'. Pop_wasm_stk expect c = Inr (e, c') \<and> regs_ok base c' \<and> cr_stack c' = s \<and> same_rest c c' \<and>
    cr_local_tab c' = cr_local_tab c \<and> cv_enc c' = cv_enc c"
  using Pop_wasm_stk_ok [OF assms] by (auto simp: same_rest_def)

lemma push_ok:
  assumes "regs_ok base c" and "ty \<noteq> VALTY_UNKNOWN" and "next_reg base ty (cr_stack c) < 126"
  shows "\<exists>c'. Push_temp_reg cnt ty c = Inr (of_nat (next_reg base ty (cr_stack c)), c') \<and> regs_ok base c' \<and>
    cr_stack c' = temp_elem base ty cnt (cr_stack c) # cr_stack c \<and> same_rest c c' \<and> cv_enc c' = cv_enc c"
  using Push_temp_reg_ok [OF assms, of cnt] by (auto simp: same_rest_def)

lemma regs_ok_cong: "cr_stack c' = cr_stack c \<Longrightarrow> cr_alloc c' = cr_alloc c \<Longrightarrow> cr_local_tab c' = cr_local_tab c \<Longrightarrow>
    regs_ok base c' = regs_ok base c"
  by (simp add: regs_ok_def)

text \<open>Operands on the stack of the converter.\<close>

lemma conv_ok_Cons:
  assumes "conv_ok fid base lm n src (t # ts) c"
  obtains e s o' src' where "cr_stack c = e # s" "src = o' # src'" "is_operand e" "ws_val_type e = vt t" "ws_idx e < 126"
    "stack_ok base lm n s src'" "list_all2 (\<lambda>e t. ws_val_type e = vt t) s ts"
proof -
  obtain e s where s: "cr_stack c = e # s" "ws_val_type e = vt t" "list_all2 (\<lambda>e t. ws_val_type e = vt t) s ts"
    using assms by (auto simp: conv_ok_def list_all2_Cons2)
  have ok: "locals_ok base lm" "stack_ok base lm n (e # s) src" using assms s(1) by (auto simp: conv_ok_def)
  obtain o' src' where src: "src = o' # src'" using ok(2) by (auto simp: stack_ok_def list_all2_Cons1)
  have "is_operand e" "ws_idx e < 126" using stack_ok_operand(1,3) [OF ok, of e] by simp_all
  then show thesis by (intro that [OF s(1) src _ s(2) _ _ s(3)]) (use ok(2) src in \<open>auto intro: stack_ok_tl\<close>)
qed

lemma conv_ok_intro:
  assumes "conv_ok fid base lm m src ts c" and "regs_ok base c'" and "stack_ok base lm n (cr_stack c') src'"
    and "list_all2 (\<lambda>e t. ws_val_type e = vt t) (cr_stack c') ts'" and "same_rest c c'" and "emits is (cv_enc c) (cv_enc c')"
  shows "conv_ok fid base lm n src' ts' c'"
  using assms tab_kinds_ext emits_bodies emits_Get_inst_encoder [of "is" "cv_enc c" "cv_enc c'" fid]
  by (fastforce simp: conv_ok_def same_rest_def)

lemma conv_inst_switch:
  assumes "conv_ok fid base lm m src ts c" and "wi_encode inst = op_code a" and "Stmt_by_inst (cv_graph c) cnt = Inr cur"
  shows "conv_inst mv buf ctx fid inst cnt c = bindr (conv_switch mv buf ctx fid inst (op_pair a) cnt cur c) (\<lambda>(r, c).
    case r of None \<Rightarrow> Inr c | Some (u, content) \<Rightarrow> add_inst (up_opcode u) (up_valty u) content c)"
proof -
  obtain k where "Get_inst_encoder fid (cv_enc c) = Inr k" using assms(1) by (auto simp: conv_ok_def)
  moreover obtain mode where "Get_ty_am (op_pair a) = Inr mode" using op_pair_am by blast
  ultimately show ?thesis by (simp add: conv_inst_def assms(2,3) op_pair_from_wasm Get_inst_size_def)
qed

text \<open>The result of an operation: the instructions, the stack and the rest of the state after it.\<close>

definition conv_result :: "u32 \<Rightarrow> (valtype \<Rightarrow> nat) \<Rightarrow> local_map_elem list \<Rightarrow> nat \<Rightarrow> nat option list \<Rightarrow> int_ty list \<Rightarrow> conv \<Rightarrow>
    uinst list \<Rightarrow> wasmstk \<Rightarrow> conv res \<Rightarrow> bool" where
  "conv_result fid base lm n src ts c is s r \<longleftrightarrow> (\<exists>c'. r = Inr c' \<and> cr_stack c' = s \<and> conv_ok fid base lm n src ts c' \<and>
    same_rest c c' \<and> emits is (cv_enc c) (cv_enc c'))"

lemma result_none:
  assumes "conv_ok fid base lm m src0 ts0 c" and "regs_ok base c1" and "cr_stack c1 = s" and "stack_ok base lm n s src"
    and "list_all2 (\<lambda>e t. ws_val_type e = vt t) s ts" and "same_rest c c1" and "cv_enc c1 = cv_enc c"
  shows "conv_result fid base lm n src ts c [] s (Inr c1)"
proof -
  have "emits [] (cv_enc c) (cv_enc c1)" using emits_Nil assms(1,7) by (simp add: conv_ok_def)
  then show ?thesis using conv_ok_intro [OF assms(1,2), of n src ts] assms(3-7) by (auto simp: conv_result_def)
qed

lemma result_some:
  assumes "conv_ok fid base lm m src0 ts0 c" and "regs_ok base c1" and "cr_stack c1 = s" and "stack_ok base lm n s src"
    and "list_all2 (\<lambda>e t. ws_val_type e = vt t) s ts" and "same_rest c c1" and "emits is (cv_enc c) (cv_enc c1)"
    and "Get_opc_tyam opc = Inr mode" and "inst_ok (opc, ty, mode, cs)"
  shows "conv_result fid base lm n src ts c (is @ [(opc, ty, mode, cs)]) s (add_inst opc ty cs c1)"
proof -
  have "ue_bodies (cv_enc c1) \<noteq> []" using emits_bodies assms(7) by blast
  then obtain e where e: "add_inst opc ty cs c1 = Inr (c1\<lparr>cv_enc := e\<rparr>)" "emits [(opc, ty, mode, cs)] (cv_enc c1) e"
    using add_inst_ok [OF assms(8,9)] by blast
  let ?c = "c1\<lparr>cv_enc := e\<rparr>"
  have "emits (is @ [(opc, ty, mode, cs)]) (cv_enc c) (cv_enc ?c)" using emits_trans [OF assms(7) e(2)] by simp
  moreover have "same_rest c ?c" "regs_ok base ?c" using assms(2,6) by (auto simp: same_rest_def regs_ok_def)
  ultimately show ?thesis
    using conv_ok_intro [OF assms(1), of ?c n src ts] assms(3-5) e(1) by (auto simp: conv_result_def)
qed

lemma small_fits: "r < 128 \<Longrightarrow> unsigned_fits 10 r"
  by (simp add: unsigned_fits_def word_less_nat_alt)

lemma next_fits: "stack_ok base lm n s src \<Longrightarrow> ty \<noteq> VALTY_UNKNOWN \<Longrightarrow> unsigned_fits 10 (of_nat (next_reg base ty s))"
proof -
  assume "stack_ok base lm n s src" "ty \<noteq> VALTY_UNKNOWN"
  then have "next_reg base ty s + n \<le> 126" by (simp add: stack_ok_def)
  then show ?thesis by (simp add: unsigned_fits_def small_word)
qed

lemma inst_ok_simps:
  "inst_ok (p, ty, TY_AM64_R_R_R, [a, b, d]) \<longleftrightarrow> unat p < 195 \<and> UWINST_TY_AM ! unat p = TY_AM64_R_R_R \<and> ty \<noteq> VALTY_UNKNOWN \<and>
    unsigned_fits 10 a \<and> unsigned_fits 10 b \<and> unsigned_fits 10 d"
  "inst_ok (p, ty, TY_AM32_R_R, [a, b]) \<longleftrightarrow> unat p < 195 \<and> UWINST_TY_AM ! unat p = TY_AM32_R_R \<and> ty \<noteq> VALTY_UNKNOWN \<and>
    unsigned_fits 10 a \<and> unsigned_fits 10 b"
  "inst_ok (p, ty, TY_AM64_R_IMM, [a, b]) \<longleftrightarrow> unat p < 195 \<and> UWINST_TY_AM ! unat p = TY_AM64_R_IMM \<and> ty \<noteq> VALTY_UNKNOWN \<and>
    unsigned_fits 10 a"
  by (auto simp: inst_ok_def content_fits_iff)

lemma mode_index: "Get_opc_tyam p = Inr mode \<Longrightarrow> unat p < 195 \<and> UWINST_TY_AM ! unat p = mode"
  by (simp add: Get_opc_tyam_def arr_at_def split: if_splits)

lemma op_insts_ok:
  assumes "unsigned_fits 10 a" and "unsigned_fits 10 b" and "unsigned_fits 10 d" and "ty \<noteq> VALTY_UNKNOWN"
  shows "inst_ok (binop_opc f, ty, TY_AM64_R_R_R, [a, b, d])" "inst_ok (relop_opc r, ty, TY_AM64_R_R_R, [a, b, d])"
    "inst_ok (U_MOV, ty, TY_AM32_R_R, [a, b])" "inst_ok (0x3f, ty, TY_AM32_R_R, [a, b])"
    "inst_ok (U_CONST_L, ty, TY_AM64_R_IMM, [a, w])" "inst_ok (U_CONST_L_HIGH, ty, TY_AM64_R_IMM, [a, w])"
  using assms binop_mode [of f, THEN mode_index] relop_mode [of r, THEN mode_index] other_modes [THEN mode_index]
  by (simp_all add: inst_ok_simps)

lemma binary_result:
  assumes ok: "conv_ok fid base lm (Suc n) src (t2 # t1 # ts) c" and ty: "t1 = t2" "dt \<noteq> VALTY_UNKNOWN" "vt t = dt"
  shows "\<exists>e2 e1 s c1. cr_stack c = e2 # e1 # s \<and> ws_val_type e2 = ws_val_type e1 \<and>
    (\<exists>ca. Pop_wasm_stk VALTY_UNKNOWN c = Inr (e2, ca) \<and> (\<exists>cb. Pop_wasm_stk (ws_val_type e2) ca = Inr (e1, cb) \<and>
      Push_temp_reg cnt dt cb = Inr (of_nat (next_reg base dt s), c1))) \<and>
    regs_ok base c1 \<and> cr_stack c1 = temp_elem base dt cnt s # s \<and> stack_ok base lm n (temp_elem base dt cnt s # s) (None # tl (tl src)) \<and>
    list_all2 (\<lambda>e t. ws_val_type e = vt t) (temp_elem base dt cnt s # s) (t # ts) \<and> same_rest c c1 \<and> cv_enc c1 = cv_enc c \<and>
    unsigned_fits 10 (of_nat (next_reg base dt s)) \<and> unsigned_fits 10 (ws_idx e1) \<and> unsigned_fits 10 (ws_idx e2)"
proof -
  have regs: "regs_ok base c" "locals_ok base lm" using ok by (auto simp: conv_ok_def)
  obtain e2 s2 o2 src2 where 2: "cr_stack c = e2 # s2" "src = o2 # src2" "is_operand e2" "ws_val_type e2 = vt t2" "ws_idx e2 < 126"
    "stack_ok base lm (Suc n) s2 src2" "list_all2 (\<lambda>e t. ws_val_type e = vt t) s2 (t1 # ts)"
    using conv_ok_Cons [OF ok] .
  obtain e1 s where 1: "s2 = e1 # s" "ws_val_type e1 = vt t1" "list_all2 (\<lambda>e t. ws_val_type e = vt t) s ts"
    using 2(7) by (auto simp: list_all2_Cons2)
  obtain o1 src1 where src1: "src2 = o1 # src1" using 2(6) 1(1) by (auto simp: stack_ok_def list_all2_Cons1)
  have e1: "is_operand e1" "ws_idx e1 < 126" using stack_ok_operand(1,3) [OF regs(2) 2(6), of e1] 1(1) by auto
  have s: "stack_ok base lm (Suc n) s src1" using 2(6) 1(1) src1 stack_ok_tl by blast
  obtain ca where ca: "Pop_wasm_stk VALTY_UNKNOWN c = Inr (e2, ca)" "regs_ok base ca" "cr_stack ca = s2" "same_rest c ca"
    "cv_enc ca = cv_enc c"
    using pop_ok [OF regs(1) 2(1,3), of VALTY_UNKNOWN] by blast
  obtain cb where cb: "Pop_wasm_stk (ws_val_type e2) ca = Inr (e1, cb)" "regs_ok base cb" "cr_stack cb = s" "same_rest ca cb"
    "cv_enc cb = cv_enc ca"
    using pop_ok [OF ca(2), of e1 s "ws_val_type e2"] ca(3) 1(1,2) e1(1) 2(4) ty(1) by auto
  have "next_reg base dt s < 126" using s ty(2) by (fastforce simp: stack_ok_def)
  then obtain c1 where c1: "Push_temp_reg cnt dt cb = Inr (of_nat (next_reg base dt s), c1)" "regs_ok base c1"
    "cr_stack c1 = temp_elem base dt cnt s # s" "same_rest cb c1" "cv_enc c1 = cv_enc cb"
    using push_ok [OF cb(2) ty(2), of cnt] cb(3) by auto
  have "same_rest c c1" using same_rest_trans ca(4) cb(4) c1(4) by blast
  moreover have "ws_idx e1 < 128" "ws_idx e2 < 128" using e1(2) 2(5) by (auto simp: word_less_nat_alt)
  ultimately show ?thesis
    using 1 2(1,2,4) ca cb c1 ty s src1 stack_ok_temp [OF s ty(2), of cnt] next_fits [OF s ty(2)] small_fits by auto
qed

lemma conv_binary_op:
  assumes ok: "conv_ok fid base lm (Suc n) src (t # t # ts) c" and enc: "wi_encode inst = op_code (OpBin t f)"
    and cur: "Stmt_by_inst (cv_graph c) cnt = Inr cur"
  shows "conv_result fid base lm n (None # tl (tl src)) (t # ts) c (fst (comp_op base lm cnt (OpBin t f) (cr_stack c)))
    (snd (comp_op base lm cnt (OpBin t f) (cr_stack c))) (conv_inst mv buf ctx fid inst cnt c)"
proof -
  obtain e2 e1 s c1 ca cb where r: "cr_stack c = e2 # e1 # s" "ws_val_type e2 = ws_val_type e1"
    "Pop_wasm_stk VALTY_UNKNOWN c = Inr (e2, ca)" "Pop_wasm_stk (ws_val_type e2) ca = Inr (e1, cb)"
    "Push_temp_reg cnt (vt t) cb = Inr (of_nat (next_reg base (vt t) s), c1)" "regs_ok base c1"
    "cr_stack c1 = temp_elem base (vt t) cnt s # s" "stack_ok base lm n (temp_elem base (vt t) cnt s # s) (None # tl (tl src))"
    "list_all2 (\<lambda>e t. ws_val_type e = vt t) (temp_elem base (vt t) cnt s # s) (t # ts)" "same_rest c c1" "cv_enc c1 = cv_enc c"
    "unsigned_fits 10 (of_nat (next_reg base (vt t) s))" "unsigned_fits 10 (ws_idx e1)" "unsigned_fits 10 (ws_idx e2)"
    using binary_result [OF ok, of "vt t" t cnt] by auto
  have "conv_inst mv buf ctx fid inst cnt c = add_inst (binop_opc f) (vt t) [of_nat (next_reg base (vt t) s), ws_idx e1, ws_idx e2] c1"
    using r(2-5) by (simp add: conv_inst_switch [OF ok enc cur] switch_op [OF enc] conv_binary_def op_pair_def UOPCODE_inst_def
        Check_stack_elem_valty_def)
  moreover have "emits [] (cv_enc c) (cv_enc c1)" using emits_Nil r(11) ok by (simp add: conv_ok_def)
  ultimately show ?thesis
    using result_some [OF ok r(6-10) _ binop_mode op_insts_ok(1) [OF r(12-14), of "vt t"], of "[]"] r(1) by simp
qed

lemma conv_compare_op:
  assumes ok: "conv_ok fid base lm (Suc n) src (T_i32 # T_i32 # ts) c" and enc: "wi_encode inst = op_code (OpRel r)"
    and cur: "Stmt_by_inst (cv_graph c) cnt = Inr cur"
  shows "conv_result fid base lm n (None # tl (tl src)) (T_i32 # ts) c (fst (comp_op base lm cnt (OpRel r) (cr_stack c)))
    (snd (comp_op base lm cnt (OpRel r) (cr_stack c))) (conv_inst mv buf ctx fid inst cnt c)"
proof -
  obtain e2 e1 s c1 ca cb where r: "cr_stack c = e2 # e1 # s" "ws_val_type e2 = ws_val_type e1"
    "Pop_wasm_stk VALTY_UNKNOWN c = Inr (e2, ca)" "Pop_wasm_stk (ws_val_type e2) ca = Inr (e1, cb)"
    "Push_temp_reg cnt I32 cb = Inr (of_nat (next_reg base I32 s), c1)" "regs_ok base c1"
    "cr_stack c1 = temp_elem base I32 cnt s # s" "stack_ok base lm n (temp_elem base I32 cnt s # s) (None # tl (tl src))"
    "list_all2 (\<lambda>e t. ws_val_type e = vt t) (temp_elem base I32 cnt s # s) (T_i32 # ts)" "same_rest c c1" "cv_enc c1 = cv_enc c"
    "unsigned_fits 10 (of_nat (next_reg base I32 s))" "unsigned_fits 10 (ws_idx e1)" "unsigned_fits 10 (ws_idx e2)"
    using binary_result [OF ok, of I32 T_i32 cnt] by (auto simp: vt_def)
  have "conv_inst mv buf ctx fid inst cnt c = add_inst (relop_opc r) I32 [of_nat (next_reg base I32 s), ws_idx e1, ws_idx e2] c1"
    using r(2-5) by (simp add: conv_inst_switch [OF ok enc cur] switch_op [OF enc] conv_compare_def op_pair_def UOPCODE_inst_def)
  moreover have "emits [] (cv_enc c) (cv_enc c1)" using emits_Nil r(11) ok by (simp add: conv_ok_def)
  ultimately show ?thesis
    using result_some [OF ok r(6-10) _ relop_mode op_insts_ok(2) [OF r(12-14), of I32], of "[]"] r(1) by simp
qed

lemma conv_eqz_op:
  assumes ok: "conv_ok fid base lm (Suc n) src (T_i32 # ts) c" and enc: "wi_encode inst = op_code OpEqz"
    and cur: "Stmt_by_inst (cv_graph c) cnt = Inr cur"
  shows "conv_result fid base lm n (None # tl src) (T_i32 # ts) c (fst (comp_op base lm cnt OpEqz (cr_stack c)))
    (snd (comp_op base lm cnt OpEqz (cr_stack c))) (conv_inst mv buf ctx fid inst cnt c)"
proof -
  have regs: "regs_ok base c" using ok by (simp add: conv_ok_def)
  obtain e s o' src' where s: "cr_stack c = e # s" "src = o' # src'" "is_operand e" "ws_val_type e = vt T_i32" "ws_idx e < 126"
    "stack_ok base lm (Suc n) s src'" "list_all2 (\<lambda>e t. ws_val_type e = vt t) s ts"
    using conv_ok_Cons [OF ok] .
  obtain ca where ca: "Pop_wasm_stk I32 c = Inr (e, ca)" "regs_ok base ca" "cr_stack ca = s" "same_rest c ca" "cv_enc ca = cv_enc c"
    using pop_ok [OF regs s(1,3), of I32] s(4) by (auto simp: vt_def)
  have "next_reg base I32 s < 126" using s(6) by (fastforce simp: stack_ok_def)
  then obtain c1 where c1: "Push_temp_reg cnt I32 ca = Inr (of_nat (next_reg base I32 s), c1)" "regs_ok base c1"
    "cr_stack c1 = temp_elem base I32 cnt s # s" "same_rest ca c1" "cv_enc c1 = cv_enc ca"
    using push_ok [OF ca(2), of I32 cnt] ca(3) by auto
  have "conv_inst mv buf ctx fid inst cnt c = add_inst 0x3f I32 [of_nat (next_reg base I32 s), ws_idx e] c1"
    using ca(1) c1(1) by (simp add: conv_inst_switch [OF ok enc cur] switch_op [OF enc] conv_eqz_def op_pair_def UOPCODE_inst_def)
  moreover have "ws_idx e < 128" using s(5) by (simp add: word_less_nat_alt)
  then have fits: "unsigned_fits 10 (of_nat (next_reg base I32 s))" "unsigned_fits 10 (ws_idx e)"
    using next_fits [OF s(6), of I32] small_fits by auto
  have st: "stack_ok base lm n (temp_elem base I32 cnt s # s) (None # src')" using stack_ok_temp [OF s(6)] by simp
  have ts: "list_all2 (\<lambda>e t. ws_val_type e = vt t) (temp_elem base I32 cnt s # s) (T_i32 # ts)" using s(7) by (simp add: vt_def)
  moreover have "emits [] (cv_enc c) (cv_enc c1)" using emits_Nil ca(5) c1(5) ok by (simp add: conv_ok_def)
  ultimately show ?thesis
    using result_some [OF ok c1(2,3) st ts same_rest_trans [OF ca(4) c1(4)] _ other_modes(2) op_insts_ok(4) [OF fits fits(1), of I32], of "[]"]
      s(1,2) by simp
qed

lemma conv_const_op:
  assumes ok: "conv_ok fid base lm (Suc n) src ts c" and enc: "encodes_op buf (OpConst t k) inst"
    and cur: "Stmt_by_inst (cv_graph c) cnt = Inr cur"
  shows "conv_result fid base lm n (None # src) (t # ts) c (fst (comp_op base lm cnt (OpConst t k) (cr_stack c)))
    (snd (comp_op base lm cnt (OpConst t k) (cr_stack c))) (conv_inst mv buf ctx fid inst cnt c)"
proof -
  let ?s = "cr_stack c" and ?w = "word_of_int k :: u64" and ?r = "of_nat (next_reg base (vt t) (cr_stack c)) :: u32"
  have c: "regs_ok base c" "stack_ok base lm (Suc n) ?s src" "list_all2 (\<lambda>e t. ws_val_type e = vt t) ?s ts" "ue_bodies (cv_enc c) \<noteq> []"
    using ok by (simp_all add: conv_ok_def)
  have opc: "wi_encode inst = op_code (OpConst t k)" "Read_const_value buf (Suc (wi_pc inst)) (vt t) = Inr ?w"
    using enc by (simp_all add: encodes_op_def)
  have "next_reg base (vt t) ?s < 126" using next_reg_le [OF c(2), of t] by simp
  then obtain c1 where c1: "Push_temp_reg cnt (vt t) c = Inr (?r, c1)" "regs_ok base c1"
    "cr_stack c1 = temp_elem base (vt t) cnt ?s # ?s" "same_rest c c1" "cv_enc c1 = cv_enc c"
    using push_ok [OF c(1), of "vt t" cnt] by auto
  have fits: "unsigned_fits 10 ?r" using next_fits [OF c(2)] by simp
  have st: "stack_ok base lm n (temp_elem base (vt t) cnt ?s # ?s) (None # src)" using stack_ok_temp [OF c(2)] by simp
  have ts: "list_all2 (\<lambda>e t. ws_val_type e = vt t) (temp_elem base (vt t) cnt ?s # ?s) (t # ts)" using c(3) by simp
  have em: "emits [] (cv_enc c) (cv_enc c1)" using emits_Nil c1(5) c(4) by simp
  note low = op_insts_ok(5) [OF fits fits fits, of "vt t" "ucast (?w AND 0xffffffff)"]
  note high = op_insts_ok(6) [OF fits fits fits, of "vt t" "ucast (drop_bit 32 ?w)"]
  show ?thesis
  proof (cases t)
    case T_i32
    have "conv_inst mv buf ctx fid inst cnt c = add_inst U_CONST_L (vt t) [?r, ucast (?w AND 0xffffffff)] c1"
      using c1(1) opc(2) by (simp add: conv_inst_switch [OF ok opc(1) cur] switch_op [OF opc(1)] conv_const32_def op_pair_def
          UOPCODE_inst_def T_i32 vt_def)
    then show ?thesis
      using result_some [OF ok c1(2,3) st ts c1(4) em other_modes(3) low] by (simp add: const_code_def T_i32)
  next
    case T_i64
    obtain e where e: "add_inst U_CONST_L (vt t) [?r, ucast (?w AND 0xffffffff)] c1 = Inr (c1\<lparr>cv_enc := e\<rparr>)"
      "emits [(U_CONST_L, vt t, TY_AM64_R_IMM, [?r, ucast (?w AND 0xffffffff)])] (cv_enc c1) e"
      using add_inst_ok [OF other_modes(3) low, of c1] c1(5) c(4) by auto
    let ?c = "c1\<lparr>cv_enc := e\<rparr>"
    have "conv_inst mv buf ctx fid inst cnt c = add_inst U_CONST_L_HIGH (vt t) [?r, ucast (drop_bit 32 ?w)] ?c"
      using c1(1) opc(2) e(1) by (simp add: conv_inst_switch [OF ok opc(1) cur] switch_op [OF opc(1)] conv_const64_def op_pair_def
          UOPCODE_inst_def T_i64 vt_def)
    moreover have "regs_ok base ?c" "cr_stack ?c = temp_elem base (vt t) cnt ?s # ?s" "same_rest c ?c"
      using c1(2-4) by (auto simp: regs_ok_def same_rest_def)
    ultimately show ?thesis
      using result_some [OF ok _ _ st ts _ _ other_modes(4) high, of ?c
        "[(U_CONST_L, vt t, TY_AM64_R_IMM, [?r, ucast (?w AND 0xffffffff)])]"] e(2) c1(5) by (simp add: const_code_def T_i64)
  qed
qed

text \<open>Locals.\<close>

definition local_types :: "local_map_elem list \<Rightarrow> int_ty list \<Rightarrow> bool" where
  "local_types lm lts \<longleftrightarrow> list_all2 (\<lambda>l t. lm_ty l = vt t) lm lts"

lemma local_lookup:
  assumes "local_types lm lts" and "i < length lts" and "i < 2 ^ 32" and "locals_ok base lm"
  shows "Get_wasm_local_ty lm (ucast (of_nat i :: u64)) = Inr (lm ! i)" and "lm_ty (lm ! i) = vt (lts ! i)"
    and "unsigned_fits 10 (lm_reg_idx (lm ! i))" and "i < length lm"
proof -
  show i: "i < length lm" and "lm_ty (lm ! i) = vt (lts ! i)" using assms(1,2) by (auto simp: local_types_def list_all2_conv_all_nth)
  have "unat (ucast (of_nat i :: u64) :: u32) = i" using assms(3) by (simp add: unsigned_ucast_eq unsigned_of_nat take_bit_nat_eq_self take_bit_take_bit)
  then show "Get_wasm_local_ty lm (ucast (of_nat i :: u64)) = Inr (lm ! i)" using i by (simp add: Get_wasm_local_ty_def vec_at_def)
  have "lm_reg_idx (lm ! i) < 128" using locals_ok_nth(4) [OF assms(4) i] by (simp add: word_less_nat_alt)
  then show "unsigned_fits 10 (lm_reg_idx (lm ! i))" by (rule small_fits)
qed

lemma conv_get_op:
  assumes ok: "conv_ok fid base lm (Suc n) src ts c" and enc: "encodes_op buf (OpGet i) inst"
    and cur: "Stmt_by_inst (cv_graph c) cnt = Inr cur" and lts: "local_types lm lts" "i < length lts"
  shows "conv_result fid base lm n (Some i # src) (lts ! i # ts) c (fst (comp_op base lm cnt (OpGet i) (cr_stack c)))
    (snd (comp_op base lm cnt (OpGet i) (cr_stack c))) (conv_inst mv buf ctx fid inst cnt c)"
proof -
  let ?l = "lm ! i"
  have c: "regs_ok base c" "locals_ok base lm" "stack_ok base lm (Suc n) (cr_stack c) src" "cv_local_map c = lm"
    "list_all2 (\<lambda>e t. ws_val_type e = vt t) (cr_stack c) ts" "tab_kinds (cr_local_tab c) lm"
    using ok by (simp_all add: conv_ok_def)
  have opc: "wi_encode inst = op_code (OpGet i)" "Read_leb128 buf (Suc (wi_pc inst)) = Inr (of_nat i)" "i < 2 ^ 32"
    using enc by (simp_all add: encodes_op_def)
  note l = local_lookup [OF lts opc(3) c(2)]
  let ?e = "WASM_STACK_ELEM (lm_map_kind ?l) (lm_ty ?l) (lm_reg_idx ?l) cnt" and ?t = "cr_local_tab c ! valtype_num (lm_ty ?l)"
  have mem: "?l \<in> set lm" using l(4) by simp
  have k: "1 \<le> unat (lm_reg_idx ?l)" "unat (lm_reg_idx ?l) - 1 < length (lt_content ?t)"
    "lt_kind (lt_content ?t ! (unat (lm_reg_idx ?l) - 1)) = lm_map_kind ?l" "length (cr_local_tab c) = 4"
    using c(6) mem by (auto simp: tab_kinds_def)
  have "unat (Get_tab_idx_by_reg_idx (lm_reg_idx ?l)) = unat (lm_reg_idx ?l) - 1"
    using k(1) by (simp add: Get_tab_idx_by_reg_idx_def CONST_REG_NUM_def RET_REG_NUM_def unat_sub word_le_nat_alt)
  then have "lt_Get ?t (Get_tab_idx_by_reg_idx (lm_reg_idx ?l)) = Inr (lt_content ?t ! (unat (lm_reg_idx ?l) - 1))"
    using k(2) by (simp add: lt_Get_def vec_at_def)
  moreover have "ty_at (cr_local_tab c) (lm_ty ?l) = Inr ?t"
    using k(4) valtype_num_less locals_ok_nth(2) [OF c(2) l(4)] by (simp add: ty_at_def arr_at_def)
  ultimately have step: "conv_inst mv buf ctx fid inst cnt c = Inr (c\<lparr>cr_stack := ?e # cr_stack c\<rparr>)"
    using l(1) opc(2) k(3) c(4)
    by (simp add: conv_inst_switch [OF ok opc(1) cur] switch_op [OF opc(1)] conv_local_get_def)
  have st: "stack_ok base lm n (?e # cr_stack c) (Some i # src)" by (rule stack_ok_local [OF stack_ok_mono [OF c(3)] c(2) l(4)])
  have "lm_map_kind ?l \<noteq> TEMP" using locals_ok_nth(1) [OF c(2) l(4)] by auto
  then have "regs_ok base (c\<lparr>cr_stack := ?e # cr_stack c\<rparr>)" using c(1) by (auto simp: regs_ok_def stk_ok_other)
  moreover have "list_all2 (\<lambda>e t. ws_val_type e = vt t) (?e # cr_stack c) (lts ! i # ts)" using c(5) l(2) by simp
  ultimately show ?thesis
    using result_none [OF ok _ _ st, of "c\<lparr>cr_stack := ?e # cr_stack c\<rparr>" "lts ! i # ts"] step by (simp add: same_rest_def)
qed

lemma conv_set_op:
  assumes ok: "conv_ok fid base lm (Suc n) src (t # ts) c" and enc: "encodes_op buf (OpSet i) inst"
    and cur: "Stmt_by_inst (cv_graph c) cnt = Inr cur" and lts: "local_types lm lts" "i < length lts" "lts ! i = t"
  shows "conv_result fid base lm n (tl src) ts c (fst (comp_op base lm cnt (OpSet i) (cr_stack c)))
    (snd (comp_op base lm cnt (OpSet i) (cr_stack c))) (conv_inst mv buf ctx fid inst cnt c)"
proof -
  have c: "regs_ok base c" "locals_ok base lm" "cv_local_map c = lm" using ok by (simp_all add: conv_ok_def)
  have opc: "wi_encode inst = op_code (OpSet i)" "Read_leb128 buf (Suc (wi_pc inst)) = Inr (of_nat i)" "i < 2 ^ 32"
    using enc by (simp_all add: encodes_op_def)
  note l = local_lookup [OF lts(1,2) opc(3) c(2)]
  obtain e s o' src' where s: "cr_stack c = e # s" "src = o' # src'" "is_operand e" "ws_val_type e = vt t" "ws_idx e < 126"
    "stack_ok base lm (Suc n) s src'" "list_all2 (\<lambda>e t. ws_val_type e = vt t) s ts"
    using conv_ok_Cons [OF ok] .
  obtain ca where ca: "Pop_wasm_stk (vt t) c = Inr (e, ca)" "regs_ok base ca" "cr_stack ca = s" "same_rest c ca" "cv_enc ca = cv_enc c"
    using pop_ok [OF c(1) s(1,3), of "vt t"] s(4) by auto
  have "conv_inst mv buf ctx fid inst cnt c = add_inst U_MOV (vt t) [lm_reg_idx (lm ! i), ws_idx e] ca"
    using ca(1) l(1,2) lts(3) opc(2) c(3) s(4)
    by (simp add: conv_inst_switch [OF ok opc(1) cur] switch_op [OF opc(1)] conv_local_set_def op_pair_def UOPCODE_inst_def)
  moreover have "ws_idx e < 128" using s(5) by (simp add: word_less_nat_alt)
  then have "unsigned_fits 10 (ws_idx e)" by (rule small_fits)
  moreover have "emits [] (cv_enc c) (cv_enc ca)" using emits_Nil ca(5) ok by (simp add: conv_ok_def)
  ultimately show ?thesis
    using result_some [OF ok ca(2,3) stack_ok_mono [OF s(6)] s(7) ca(4) _ other_modes(1) op_insts_ok(3) [OF l(3) _ l(3), of _ "vt t"], of "[]"]
      s(1,2) l(2) lts(3) by (simp add: mov_code_def)
qed

lemma conv_tee_op:
  assumes ok: "conv_ok fid base lm (Suc n) src (t # ts) c" and enc: "encodes_op buf (OpTee i) inst"
    and cur: "Stmt_by_inst (cv_graph c) cnt = Inr cur" and lts: "local_types lm lts" "i < length lts" "lts ! i = t"
  shows "conv_result fid base lm n src (t # ts) c (fst (comp_op base lm cnt (OpTee i) (cr_stack c)))
    (snd (comp_op base lm cnt (OpTee i) (cr_stack c))) (conv_inst mv buf ctx fid inst cnt c)"
proof -
  have c: "regs_ok base c" "locals_ok base lm" "cv_local_map c = lm" "stack_ok base lm (Suc n) (cr_stack c) src"
    "list_all2 (\<lambda>e t. ws_val_type e = vt t) (cr_stack c) (t # ts)" using ok by (simp_all add: conv_ok_def)
  have opc: "wi_encode inst = op_code (OpTee i)" "Read_leb128 buf (Suc (wi_pc inst)) = Inr (of_nat i)" "i < 2 ^ 32"
    using enc by (simp_all add: encodes_op_def)
  note l = local_lookup [OF lts(1,2) opc(3) c(2)]
  obtain e s o' src' where s: "cr_stack c = e # s" "src = o' # src'" "is_operand e" "ws_val_type e = vt t" "ws_idx e < 126"
    "stack_ok base lm (Suc n) s src'" "list_all2 (\<lambda>e t. ws_val_type e = vt t) s ts"
    using conv_ok_Cons [OF ok] .
  have "conv_inst mv buf ctx fid inst cnt c = add_inst U_MOV (vt t) [lm_reg_idx (lm ! i), ws_idx e] c"
    using l(1,2) lts(3) opc(2) c(3) s(1,4)
    by (simp add: conv_inst_switch [OF ok opc(1) cur] switch_op [OF opc(1)] conv_local_tee_def op_pair_def UOPCODE_inst_def
        stk_top_def Check_stack_elem_valty_def)
  moreover have "ws_idx e < 128" using s(5) by (simp add: word_less_nat_alt)
  then have "unsigned_fits 10 (ws_idx e)" by (rule small_fits)
  moreover have "emits [] (cv_enc c) (cv_enc c)" using emits_Nil ok by (simp add: conv_ok_def)
  ultimately show ?thesis
    using result_some [OF ok c(1) HOL.refl stack_ok_mono [OF c(4)] c(5) _ _ other_modes(1) op_insts_ok(3) [OF l(3) _ l(3), of _ "vt t"], of "[]"]
      s(1,2) l(2) lts(3) by (simp add: mov_code_def same_rest_def)
qed

lemma conv_drop_op:
  assumes ok: "conv_ok fid base lm (Suc n) src (t # ts) c" and enc: "wi_encode inst = op_code OpDrop"
    and cur: "Stmt_by_inst (cv_graph c) cnt = Inr cur"
  shows "conv_result fid base lm n (tl src) ts c [] (tl (cr_stack c)) (conv_inst mv buf ctx fid inst cnt c)"
proof -
  have regs: "regs_ok base c" using ok by (simp add: conv_ok_def)
  obtain e s o' src' where s: "cr_stack c = e # s" "src = o' # src'" "is_operand e" "ws_val_type e = vt t" "ws_idx e < 126"
    "stack_ok base lm (Suc n) s src'" "list_all2 (\<lambda>e t. ws_val_type e = vt t) s ts"
    using conv_ok_Cons [OF ok] .
  obtain ca where ca: "Pop_wasm_stk VALTY_UNKNOWN c = Inr (e, ca)" "regs_ok base ca" "cr_stack ca = s" "same_rest c ca" "cv_enc ca = cv_enc c"
    using pop_ok [OF regs s(1,3), of VALTY_UNKNOWN] by auto
  have "conv_inst mv buf ctx fid inst cnt c = Inr ca"
    using ca(1) by (simp add: conv_inst_switch [OF ok enc cur] switch_op [OF enc] conv_drop_def)
  then show ?thesis using result_none [OF ok ca(2,3) stack_ok_mono [OF s(6)] s(7) ca(4,5)] s(1,2) by simp
qed

text \<open>Any operation that is well-typed.\<close>

lemma conv_inst_op:
  assumes ok: "conv_ok fid base lm (Suc n) src ts c" and enc: "encodes_op buf a inst"
    and cur: "Stmt_by_inst (cv_graph c) cnt = Inr cur" and lts: "local_types lm lts" and ty: "tstep lts a ts = Some ts'"
    and comp: "comp_op base lm cnt a (cr_stack c) = (is, s)"
  shows "conv_result fid base lm n (src_step a src) ts' c is s (conv_inst mv buf ctx fid inst cnt c)"
proof -
  have opc: "wi_encode inst = op_code a" using enc by (simp add: encodes_op_def)
  have fs: "is = fst (comp_op base lm cnt a (cr_stack c))" "s = snd (comp_op base lm cnt a (cr_stack c))" using comp by simp_all
  show ?thesis
  proof (cases "(lts, a, ts)" rule: tstep.cases)
    case (1 lts ts)
    then have "conv_inst mv buf ctx fid inst cnt c = Inr c" using opc by (simp add: conv_inst_switch [OF ok opc cur] switch_op)
    moreover have "same_rest c c" by (simp add: same_rest_def)
    ultimately show ?thesis using result_none [OF ok, of c] 1 ok ty fs stack_ok_mono by (auto simp: conv_ok_def)
  next
    case (3 lts i ts)
    then show ?thesis using conv_get_op [OF ok _ cur] enc lts ty fs by (auto split: if_splits)
  next
    case (4 lts i t ts)
    then show ?thesis using conv_set_op [OF _ _ cur] ok enc lts ty fs by (auto split: if_splits)
  next
    case (5 lts i t ts)
    then show ?thesis using conv_tee_op [OF _ _ cur] ok enc lts ty fs by (auto split: if_splits)
  qed (use ok enc opc ty fs conv_const_op [OF _ _ cur] conv_drop_op [OF _ _ cur] conv_binary_op [OF _ _ cur]
      conv_compare_op [OF _ _ cur] conv_eqz_op [OF _ _ cur] in \<open>auto split: if_splits\<close>)
qed

section \<open>Sequences of operations\<close>

lemma result_trans:
  assumes "conv_result fid base lm n src ts c is s (Inr c1)"
    and "conv_result fid base lm n' src' ts' c1 js s' r"
  shows "conv_result fid base lm n' src' ts' c (is @ js) s' r"
  using assms by (auto simp: conv_result_def intro: same_rest_trans emits_trans)

lemma conv_insts_ops:
  assumes "conv_ok fid base lm (length ops + n) src ts c" and "list_all2 (encodes_op buf) ops insts"
    and "\<And>k. k < length ops \<Longrightarrow> \<exists>cur. Stmt_by_inst (cv_graph c) (cnt + of_nat k) = Inr cur"
    and "local_types lm lts" and "trun lts ops ts = Some ts'" and "comp base lm cnt ops (cr_stack c) = (is, s)"
  shows "conv_result fid base lm n (fold src_step ops src) ts' c is s (conv_insts mv buf ctx fid insts cnt c)"
  using assms
proof (induction ops arbitrary: insts c cnt src ts "is")
  case Nil
  then have "ue_bodies (cv_enc c) \<noteq> []" by (simp add: conv_ok_def)
  with Nil show ?case by (simp add: conv_result_def emits_Nil same_rest_def)
next
  case (Cons a ops)
  obtain inst insts' where i: "insts = inst # insts'" "encodes_op buf a inst" "list_all2 (encodes_op buf) ops insts'"
    using Cons.prems(2) by (auto simp: list_all2_Cons1)
  obtain ts1 where ts1: "tstep lts a ts = Some ts1" "trun lts ops ts1 = Some ts'" using Cons.prems(5) by (auto split: option.splits)
  obtain is1 s1 is2 where comp: "comp_op base lm cnt a (cr_stack c) = (is1, s1)" "comp base lm (cnt + 1) ops s1 = (is2, s)" "is = is1 @ is2"
    using Cons.prems(6) by (auto split: prod.splits)
  have ok: "conv_ok fid base lm (Suc (length ops + n)) src ts c" using Cons.prems(1) by simp
  obtain cur where cur: "Stmt_by_inst (cv_graph c) cnt = Inr cur" using Cons.prems(3) [of 0] by auto
  have r1: "conv_result fid base lm (length ops + n) (src_step a src) ts1 c is1 s1 (conv_inst mv buf ctx fid inst cnt c)"
    by (rule conv_inst_op [OF ok i(2) cur Cons.prems(4) ts1(1) comp(1)])
  then obtain c1 where c1: "conv_inst mv buf ctx fid inst cnt c = Inr c1" "cr_stack c1 = s1"
    "conv_ok fid base lm (length ops + n) (src_step a src) ts1 c1" "cv_graph c1 = cv_graph c"
    by (auto simp: conv_result_def same_rest_def)
  have "conv_result fid base lm n (fold src_step ops (src_step a src)) ts' c1 is2 s (conv_insts mv buf ctx fid insts' (cnt + 1) c1)"
    using Cons.prems(3) [of "Suc _"] c1(2,4) comp(2) by (intro Cons.IH [OF c1(3) i(3) _ Cons.prems(4) ts1(2)]) (auto simp: add.assoc)
  with r1 show ?case using result_trans comp(3) i(1) c1(1) by fastforce
qed

end
