(* ===== verification/Conv_Func.thy ===== *)
theory Conv_Func
  imports Conv_Refine
begin

text \<open>
  A whole function through \<^verbatim>\<open>Wasm_to_uwasm\<close>: the statement graph of a body without blocks, the tables of its parameters
  and locals, the instructions that clear the locals, and the end of the function.
\<close>

section \<open>The statement graph of a straight-line body\<close>

definition graph_ok :: "nat \<Rightarrow> winst_stmt_graph \<Rightarrow> bool" where
  "graph_ok k g \<longleftrightarrow> length (g_stmts g) = Suc k \<and> s_kind (g_stmts g ! 0) = WINST_STMT_ROOT_BLOCK \<and>
    (\<forall>i. g_ins_to_stmt g i = (if 1 \<le> unat i \<and> unat i \<le> k then Some i else None)) \<and>
    (\<forall>i. 1 \<le> i \<longrightarrow> i \<le> k \<longrightarrow> s_parent (g_stmts g ! i) = 0)"

lemma small_nat: "n < 2 ^ 32 \<Longrightarrow> unat (of_nat n :: u32) = n"
  by (simp add: unat_of_nat take_bit_nat_eq_self)

lemma add_instr_ok:
  assumes "graph_ok k (h_graph h)" and "h_work h = 0 # work" and "Suc k < 2 ^ 32"
  shows "\<exists>g. add_instr opc (of_nat (Suc k)) h = Inr (h\<lparr>h_graph := g\<rparr>) \<and> graph_ok (Suc k) g"
proof -
  let ?g = "h_graph h" and ?i = "of_nat (Suc k) :: u32"
  have g: "length (g_stmts ?g) = Suc k" "g_stmts ?g \<noteq> []" "g_ins_to_stmt ?g ?i = None"
    using assms(1,3) by (auto simp: graph_ok_def small_nat simp del: of_nat_Suc)
  have i: "unat ?i = Suc k" using assms(3) by (rule small_nat)
  have i': "j = ?i" if "unat j = Suc k" for j using that i by (simp add: word_unat_eq_iff del: of_nat_Suc)
  have "\<exists>g'. Add_stmt_to_parent (WINST_STMT WINST_STMT_INSTR ?i 0 opc) ?i 0 ?g = Inr (?i, g') \<and> graph_ok (Suc k) g'"
    using assms(1) g i
    by (auto simp: Add_stmt_to_parent_def Add_stmt_def upd_stmt_def Stmt_id_def WINST_STMT_def Let_def graph_ok_def nth_append
        nth_list_update le_Suc_eq simp del: of_nat_Suc dest: i')
  then show ?thesis using assms(2) by (auto simp: add_instr_def simp del: of_nat_Suc)
qed

definition straight :: "wasm_inst \<Rightarrow> bool" where
  "straight inst \<longleftrightarrow> wi_encode inst \<notin> {W_If, W_Block, W_Loop, W_Else, W_End}"

lemma hier_straight:
  assumes "graph_ok k (h_graph h)" and "h_work h = [0]" and "k + length insts < 2 ^ 32" and "list_all straight insts"
  shows "\<exists>g. hier_insts mv buf insts (of_nat (Suc k)) h = Inr (h\<lparr>h_graph := g\<rparr>) \<and> graph_ok (k + length insts) g"
  using assms
proof (induction insts arbitrary: k h)
  case Nil
  then show ?case by (intro exI [of _ "h_graph h"]) simp
next
  case (Cons inst insts)
  obtain g where g: "add_instr (wi_encode inst) (of_nat (Suc k)) h = Inr (h\<lparr>h_graph := g\<rparr>)" "graph_ok (Suc k) g"
    using add_instr_ok [OF Cons.prems(1,2), of "wi_encode inst"] Cons.prems(3) by auto
  have "hier_inst mv buf inst (of_nat (Suc k)) h = Inr (h\<lparr>h_graph := g\<rparr>)"
    using Cons.prems(4) g(1) by (simp add: hier_inst_def straight_def Let_def del: of_nat_Suc)
  moreover have "of_nat (Suc k) + 1 = (of_nat (Suc (Suc k)) :: u32)" by simp
  ultimately show ?case
    using Cons.IH [of "Suc k" "h\<lparr>h_graph := g\<rparr>"] g(2) Cons.prems(2-4) by (simp del: of_nat_Suc)
qed

lemma hier_insts_append:
  "hier_insts mv buf (xs @ ys) n h = bindr (hier_insts mv buf xs n h) (hier_insts mv buf ys (n + of_nat (length xs)))"
  by (induction xs arbitrary: n h) (auto simp: bindr_assoc add.assoc intro!: bindr_cong)

lemma Build_block_hierarchy_straight:
  assumes "list_all straight insts" and "wi_encode ende = W_End" and "length insts + 1 < 2 ^ 32"
  shows "\<exists>g labs. Build_block_hierarchy mv buf (insts @ [ende]) [] e = Inr (g, labs, e) \<and> graph_ok (length insts + 1) g"
proof -
  define h where "h = \<lparr>h_enc = e, h_work = [0], h_graph = \<lparr>g_stmts = [(WINST_STMT WINST_STMT_ROOT_BLOCK 1 0 0)\<lparr>s_id := 0\<rparr>], g_ins_to_stmt = (\<lambda>i. None)\<rparr>\<rparr>"
  have h: "graph_ok 0 (h_graph h)" "h_work h = [0]" by (auto simp: h_def graph_ok_def WINST_STMT_def)
  obtain g where g: "hier_insts mv buf insts 1 h = Inr (h\<lparr>h_graph := g\<rparr>)" "graph_ok (length insts) g"
    using hier_straight [OF h, of insts mv buf] assms(1,3) by auto
  obtain g' where g': "add_instr W_End (of_nat (Suc (length insts))) (h\<lparr>h_graph := g\<rparr>) = Inr (h\<lparr>h_graph := g'\<rparr>)" "graph_ok (Suc (length insts)) g'"
    using add_instr_ok [of "length insts" "h\<lparr>h_graph := g\<rparr>" "[]" W_End] g(2) assms(3) h(2) by auto
  have "0 < length (g_stmts g')" using g'(2) by (simp add: graph_ok_def)
  then have e: "hier_inst mv buf ende (of_nat (Suc (length insts))) (h\<lparr>h_graph := g\<rparr>) = Inr (h\<lparr>h_graph := g', h_work := []\<rparr>)"
    using g'(1) assms(2) h(2)
    by (simp add: hier_inst_def Let_def Finish_old_block_def Stmt_id_def W_End_def W_If_def W_Block_def W_Loop_def W_Else_def del: of_nat_Suc)
  have "hier_insts mv buf (insts @ [ende]) 1 h = bindr (hier_insts mv buf insts 1 h) (\<lambda>h. hier_insts mv buf [ende] (1 + of_nat (length insts)) h)"
    by (rule hier_insts_append)
  then show ?thesis
    using g(1) e g'(2) by (simp add: Build_block_hierarchy_def lab_Add_def LABEL_NOT_NEEDED_def Create_new_block_def Add_stmt_def
        WINST_STMT_GRAPH_def BLOCK_INSTR_BEGIN_def W_Unreachable_def h_def WINST_STMT_def Let_def)
qed

section \<open>Parameters and locals\<close>

text \<open>
  The map of locals and the tables they lead to, for the kinds and types of the parameters and locals in order: a
  parameter or local gets the register after those of the earlier ones of its type, register 0 being the one for results.
\<close>

type_synonym kinds = "(local_kind \<times> int_ty) list"

definition same_ty :: "kinds \<Rightarrow> valtype \<Rightarrow> kinds" where
  "same_ty kts ty = filter (\<lambda>(k, t). vt t = ty) kts"

definition reg_of :: "kinds \<Rightarrow> nat \<Rightarrow> nat" where
  "reg_of kts i = 1 + length (same_ty (take i kts) (vt (snd (kts ! i))))"

definition lm_of :: "kinds \<Rightarrow> local_map_elem list" where
  "lm_of kts = map (\<lambda>i. \<lparr>lm_reg_idx = of_nat (reg_of kts i), lm_ty = vt (snd (kts ! i)), lm_map_kind = fst (kts ! i)\<rparr>) [0..<length kts]"

definition tab_of :: "kinds \<Rightarrow> valtype \<Rightarrow> local_tab" where
  "tab_of kts ty = \<lparr>lt_content = map (\<lambda>(k, t). \<lparr>lt_kind = k, lt_val_type = ty, lt_push_stmt = 0\<rparr>) (same_ty kts ty), lt_max_call_param = 0\<rparr>"

definition tabs_of :: "kinds \<Rightarrow> local_tab list" where
  "tabs_of kts = map (tab_of kts) [I32, I64, F32, F64]"

lemma same_ty_snoc: "same_ty (kts @ [(k, t)]) ty = same_ty kts ty @ (if vt t = ty then [(k, t)] else [])"
  by (simp add: same_ty_def)

lemma reg_of_append: "i < length kts \<Longrightarrow> reg_of (kts @ ks) i = reg_of kts i"
  by (simp add: reg_of_def nth_append)

lemma lm_of_snoc:
  "lm_of (kts @ [(k, t)]) = lm_of kts @ [\<lparr>lm_reg_idx = of_nat (1 + length (same_ty kts (vt t))), lm_ty = vt t, lm_map_kind = k\<rparr>]"
  by (simp add: lm_of_def nth_append reg_of_append) (simp add: reg_of_def nth_append)

lemma tabs_of_nth:
  "ty \<noteq> VALTY_UNKNOWN \<Longrightarrow> tabs_of kts ! valtype_num ty = tab_of kts ty" "length (tabs_of kts) = 4"
  by (cases ty; simp add: tabs_of_def valtype_num_def nth_Cons')+

lemma tabs_of_snoc:
  "tabs_of (kts @ [(k, t)]) =
    (tabs_of kts)[valtype_num (vt t) := lt_push_back \<lparr>lt_kind = k, lt_val_type = vt t, lt_push_stmt = 0\<rparr> (tab_of kts (vt t))]"
  by (cases t) (simp_all add: tabs_of_def tab_of_def same_ty_snoc vt_def valtype_num_def lt_push_back_def list_update_code)

text \<open>The wabt numbers of the types.\<close>

definition wabt_types :: "u32 list \<Rightarrow> int_ty list \<Rightarrow> bool" where
  "wabt_types = list_all2 (\<lambda>w t. Conv_wabt_ty w = Inr (vt t))"

lemma add_locals_ok:
  assumes "wabt_types ws ts" and "length kts + length ws < 2 ^ 32" and "cr_local_tab r = tabs_of kts"
  shows "add_locals kind ws (r, lm_of kts) = Inr (r\<lparr>cr_local_tab := tabs_of (kts @ map (Pair kind) ts)\<rparr>, lm_of (kts @ map (Pair kind) ts))"
  using assms
proof (induction ws arbitrary: ts kts r)
  case Nil
  then show ?case by (simp add: wabt_types_def)
next
  case (Cons w ws)
  obtain t ts' where ts: "ts = t # ts'" "Conv_wabt_ty w = Inr (vt t)" "wabt_types ws ts'"
    using Cons.prems(1) by (auto simp: wabt_types_def list_all2_Cons1)
  have k: "valtype_num (vt t) < 4" by (rule valtype_num_less) simp
  let ?tab = "lt_push_back \<lparr>lt_kind = kind, lt_val_type = vt t, lt_push_stmt = 0\<rparr> (tab_of kts (vt t))"
  have tab: "ty_at (cr_local_tab r) (vt t) = Inr (tab_of kts (vt t))"
    "ty_upd (cr_local_tab r) (vt t) ?tab = Inr (tabs_of (kts @ [(kind, t)]))"
    using k by (simp_all add: Cons.prems(3) ty_at_def ty_upd_def arr_at_def arr_upd_def tabs_of_nth tabs_of_snoc)
  let ?n = "length (same_ty kts (vt t))"
  have n: "?n \<le> length kts" by (simp add: same_ty_def)
  have size: "lt_size ?tab = of_nat (Suc ?n)" by (simp add: lt_size_def lt_push_back_def tab_of_def)
  have "unat (of_nat (Suc ?n) :: u32) = Suc ?n" using n Cons.prems(2) by (intro small_nat) simp
  then have "1 \<le> lt_size ?tab" unfolding size by (simp add: word_le_nat_alt del: of_nat_Suc)
  then have elem: "LOCAL_MAP_ELEM (lt_size ?tab) (vt t) kind =
      Inr \<lparr>lm_reg_idx = of_nat (1 + ?n), lm_ty = vt t, lm_map_kind = kind\<rparr>"
    by (simp add: LOCAL_MAP_ELEM_def size RET_REG_NUM_def CONST_REG_NUM_def)
  show ?case
    using Cons.IH [OF ts(3), of "kts @ [(kind, t)]" "r\<lparr>cr_local_tab := tabs_of (kts @ [(kind, t)])\<rparr>"] Cons.prems(2)
    by (simp add: ts tab elem lm_of_snoc)
qed

text \<open>The first register of a type after the parameters and locals.\<close>

definition temp_base :: "kinds \<Rightarrow> valtype \<Rightarrow> nat" where
  "temp_base kts ty = 1 + length (same_ty kts ty)"

lemma temp_base_le: "temp_base kts ty \<le> 1 + length kts"
  by (simp add: temp_base_def same_ty_def)

lemma same_ty_split:
  "i < length kts \<Longrightarrow> same_ty kts ty = same_ty (take i kts) ty @ same_ty (kts ! i # drop (Suc i) kts) ty"
  using id_take_nth_drop [of i kts] by (metis same_ty_def filter_append)

lemma reg_of_less: "i < length kts \<Longrightarrow> reg_of kts i < temp_base kts (vt (snd (kts ! i)))"
  by (simp add: reg_of_def temp_base_def same_ty_split [of i]) (simp add: same_ty_def split: prod.split)

lemma reg_of_nth: "i < length kts \<Longrightarrow> same_ty kts (vt (snd (kts ! i))) ! (reg_of kts i - 1) = kts ! i"
  by (simp add: reg_of_def nth_append same_ty_split [of i]) (simp add: same_ty_def split: prod.split)

lemma reg_of_mono:
  assumes "i < j" and "j < length kts" and "snd (kts ! i) = snd (kts ! j)"
  shows "reg_of kts i < reg_of kts j"
proof -
  have "reg_of kts i = reg_of (take j kts) i" using assms by (simp add: reg_of_def min_def)
  also have "\<dots> < temp_base (take j kts) (vt (snd (take j kts ! i)))" using assms by (intro reg_of_less) simp
  also have "\<dots> = reg_of kts j" using assms by (simp add: reg_of_def temp_base_def)
  finally show ?thesis .
qed

lemma reg_of_bounds:
  assumes "length kts \<le> 125" and "i < length kts"
  shows "1 \<le> reg_of kts i" and "reg_of kts i \<le> 126" and "unat (of_nat (reg_of kts i) :: u32) = reg_of kts i"
proof -
  show "1 \<le> reg_of kts i" by (simp add: reg_of_def)
  show le: "reg_of kts i \<le> 126" using reg_of_less [OF assms(2)] temp_base_le [of kts "vt (snd (kts ! i))"] assms(1) by simp
  show "unat (of_nat (reg_of kts i) :: u32) = reg_of kts i" by (rule small_word) (use le in simp)
qed

lemma locals_ok_of:
  assumes "length kts \<le> 125" and "list_all (\<lambda>(k, t). k \<in> {LOCAL, FORMAL_PARAM}) kts"
  shows "locals_ok (temp_base kts) (lm_of kts)"
proof -
  note b = reg_of_bounds [OF assms(1)]
  have "distinct (map (\<lambda>l. (lm_ty l, lm_reg_idx l)) (lm_of kts))"
  proof (subst distinct_conv_nth, intro allI impI)
    fix i j assume ij: "i < length (map (\<lambda>l. (lm_ty l, lm_reg_idx l)) (lm_of kts))" "j < length (map (\<lambda>l. (lm_ty l, lm_reg_idx l)) (lm_of kts))" "i \<noteq> j"
    then have len: "i < length kts" "j < length kts" by (simp_all add: lm_of_def)
    then have "reg_of kts i \<noteq> reg_of kts j \<or> snd (kts ! i) \<noteq> snd (kts ! j)"
      using ij(3) reg_of_mono [of i j kts] reg_of_mono [of j i kts] by (cases "i < j") auto
    with b(3) [OF len(1)] b(3) [OF len(2)]
    show "map (\<lambda>l. (lm_ty l, lm_reg_idx l)) (lm_of kts) ! i \<noteq> map (\<lambda>l. (lm_ty l, lm_reg_idx l)) (lm_of kts) ! j"
      using len by (auto simp: lm_of_def dest: arg_cong [of _ _ unat])
  qed
  moreover have "temp_base kts ty \<le> 126" for ty using temp_base_le [of kts ty] assms(1) by simp
  ultimately show ?thesis
    using assms(2) b reg_of_less by (auto simp: locals_ok_def lm_of_def list_all_length split: prod.splits) (metis fst_conv prod.collapse)+
qed

lemma tab_kinds_of: "length kts \<le> 125 \<Longrightarrow> tab_kinds (tabs_of kts) (lm_of kts)"
  using reg_of_bounds [of kts] reg_of_nth [of _ kts] reg_of_less [of _ kts]
  by (fastforce simp: tab_kinds_def tabs_of_nth lm_of_def tab_of_def temp_base_def split: prod.splits)

lemma local_types_of: "local_types (lm_of kts) (map snd kts)"
  by (simp add: local_types_def lm_of_def list_all2_conv_all_nth)

subsection \<open>Their registers taken from the allocator\<close>

definition free_from :: "nat \<Rightarrow> reg_alloc_state list \<Rightarrow> bool" where
  "free_from n st \<longleftrightarrow> length st = 4096 \<and> (\<forall>r. n \<le> r \<longrightarrow> r < 4096 \<longrightarrow> st ! r = ALLOC_FREE)"

lemma occupy_loop:
  assumes "list_all (\<lambda>i. g i < n) is" and "n \<le> 4096" and "free_from n st"
  shows "\<exists>st'. foldr_res (\<lambda>i st. arr_upd st (g i) s) is st = Inr st' \<and> free_from n st'"
  using assms by (induction "is" arbitrary: st) (auto simp: arr_upd_def free_from_def)

lemma Preoccupy_registers_ok:
  assumes "ty \<noteq> VALTY_UNKNOWN" and "length (ra_next ra) = 4" and "length (ra_state ra) = 4"
    and "free_from 0 (ra_state ra ! valtype_num ty)" and "n < 4096"
  shows "\<exists>st. Preoccupy_registers ty 1 (of_nat n) ra = Inr (ra\<lparr>ra_next := (ra_next ra)[valtype_num ty := of_nat (1 + n)],
    ra_state := (ra_state ra)[valtype_num ty := st]\<rparr>) \<and> free_from (1 + n) st"
proof -
  let ?k = "valtype_num ty"
  have k: "?k < 4" using valtype_num_less assms(1) .
  have n: "unat (of_nat n :: u32) = n" using assms(5) by (simp add: small_word)
  have i: "unat (1 + of_nat i :: u32) = Suc i" if "i < n" for i
    using small_word [of "Suc i"] that assms(5) by simp
  have "free_from (1 + n) (ra_state ra ! ?k)" using assms(4) by (simp add: free_from_def)
  then obtain st1 where st1: "foldr_res (\<lambda>i st. arr_upd st i ALLOC_RETURN_REG) [0..<unat (1 :: u32)] (ra_state ra ! ?k) = Inr st1"
    "free_from (1 + n) st1"
    using occupy_loop [of "\<lambda>i. i" "1 + n" "[0..<unat (1 :: u32)]" "ra_state ra ! ?k" ALLOC_RETURN_REG] assms(5) by auto
  obtain st2 where st2: "foldr_res (\<lambda>i st. arr_upd st (unat (1 + of_nat i :: u32)) ALLOC_WASM_LOCAL) [0..<n] st1 = Inr st2"
    "free_from (1 + n) st2"
    using occupy_loop [of "\<lambda>i. unat (1 + of_nat i :: u32)" "1 + n" "[0..<n]" st1 ALLOC_WASM_LOCAL] st1(2) assms(5) i
    by (auto simp: list_all_iff)
  then show ?thesis
    using st1(1) st2 assms(2,3) k n by (auto simp: Preoccupy_registers_def ty_upd_def ty_at_def arr_upd_def arr_at_def)
qed

lemma preoccupy_loop:
  assumes "length kts < 4096" and "cr_local_tab r = tabs_of kts" and "length (ra_next (cr_alloc r)) = 4" and "length (ra_state (cr_alloc r)) = 4"
    and "distinct tys" and "VALTY_UNKNOWN \<notin> set tys" and "\<forall>ty \<in> set tys. free_from 0 (ra_state (cr_alloc r) ! valtype_num ty)"
  shows "\<exists>ra. foldr_res (\<lambda>ty r. bindr (ty_at (cr_local_tab r) ty) (\<lambda>t.
      bindr (Preoccupy_registers ty RET_REG_NUM (lt_size t) (cr_alloc r)) (\<lambda>ra. Inr (r\<lparr>cr_alloc := ra\<rparr>)))) tys r = Inr (r\<lparr>cr_alloc := ra\<rparr>) \<and>
    length (ra_next ra) = 4 \<and> length (ra_state ra) = 4 \<and>
    (\<forall>ty. ty \<noteq> VALTY_UNKNOWN \<longrightarrow> (if ty \<in> set tys
      then ra_next ra ! valtype_num ty = of_nat (temp_base kts ty) \<and> free_from (temp_base kts ty) (ra_state ra ! valtype_num ty)
      else ra_next ra ! valtype_num ty = ra_next (cr_alloc r) ! valtype_num ty \<and>
        ra_state ra ! valtype_num ty = ra_state (cr_alloc r) ! valtype_num ty))"
  using assms(2-)
proof (induction tys arbitrary: r)
  case Nil
  then show ?case by (intro exI [of _ "cr_alloc r"]) simp
next
  case (Cons ty tys)
  let ?n = "length (same_ty kts ty)" and ?k = "valtype_num ty"
  have ty: "ty \<noteq> VALTY_UNKNOWN" "?k < 4" using Cons.prems(5) valtype_num_less by auto
  have n: "?n < 4096" using assms(1) by (simp add: same_ty_def le_less_trans [OF length_filter_le])
  have size: "lt_size (tab_of kts ty) = of_nat ?n" by (simp add: lt_size_def tab_of_def)
  have tab: "ty_at (cr_local_tab r) ty = Inr (tab_of kts ty)"
    using ty by (simp add: Cons.prems(1) ty_at_def arr_at_def tabs_of_nth)
  obtain st where st: "Preoccupy_registers ty RET_REG_NUM (of_nat ?n) (cr_alloc r) = Inr ((cr_alloc r)\<lparr>
      ra_next := (ra_next (cr_alloc r))[?k := of_nat (temp_base kts ty)], ra_state := (ra_state (cr_alloc r))[?k := st]\<rparr>)"
    "free_from (temp_base kts ty) st"
    using Preoccupy_registers_ok [OF ty(1) Cons.prems(2,3) _ n] Cons.prems(6) by (auto simp: RET_REG_NUM_def temp_base_def)
  let ?r = "r\<lparr>cr_alloc := (cr_alloc r)\<lparr>ra_next := (ra_next (cr_alloc r))[?k := of_nat (temp_base kts ty)],
    ra_state := (ra_state (cr_alloc r))[?k := st]\<rparr>\<rparr>"
  have other: "valtype_num ty' \<noteq> ?k" if "ty' \<noteq> ty" "ty' \<noteq> VALTY_UNKNOWN" for ty' using that ty(1) valtype_num_inj by blast
  have "\<forall>ty \<in> set tys. free_from 0 (ra_state (cr_alloc ?r) ! valtype_num ty)"
  proof
    fix ty' assume ty': "ty' \<in> set tys"
    then have "valtype_num ty' \<noteq> ?k" using Cons.prems(4,5) by (intro other) auto
    then show "free_from 0 (ra_state (cr_alloc ?r) ! valtype_num ty')" using Cons.prems(6) ty' by simp
  qed
  then obtain ra where ra: "foldr_res (\<lambda>ty r. bindr (ty_at (cr_local_tab r) ty) (\<lambda>t.
      bindr (Preoccupy_registers ty RET_REG_NUM (lt_size t) (cr_alloc r)) (\<lambda>ra. Inr (r\<lparr>cr_alloc := ra\<rparr>)))) tys ?r = Inr (?r\<lparr>cr_alloc := ra\<rparr>)"
    "length (ra_next ra) = 4" "length (ra_state ra) = 4"
    "\<And>ty. ty \<noteq> VALTY_UNKNOWN \<Longrightarrow> (if ty \<in> set tys
      then ra_next ra ! valtype_num ty = of_nat (temp_base kts ty) \<and> free_from (temp_base kts ty) (ra_state ra ! valtype_num ty)
      else ra_next ra ! valtype_num ty = ra_next (cr_alloc ?r) ! valtype_num ty \<and>
        ra_state ra ! valtype_num ty = ra_state (cr_alloc ?r) ! valtype_num ty)"
    using Cons.IH [of ?r] Cons.prems by auto
  show ?case
  proof (intro exI [of _ ra] conjI allI impI)
    show "foldr_res (\<lambda>ty r. bindr (ty_at (cr_local_tab r) ty) (\<lambda>t.
      bindr (Preoccupy_registers ty RET_REG_NUM (lt_size t) (cr_alloc r)) (\<lambda>ra. Inr (r\<lparr>cr_alloc := ra\<rparr>)))) (ty # tys) r = Inr (r\<lparr>cr_alloc := ra\<rparr>)"
      using ra(1) by (simp add: tab size st(1))
  next
    fix ty' assume ty': "ty' \<noteq> VALTY_UNKNOWN"
    show "if ty' \<in> set (ty # tys)
      then ra_next ra ! valtype_num ty' = of_nat (temp_base kts ty') \<and> free_from (temp_base kts ty') (ra_state ra ! valtype_num ty')
      else ra_next ra ! valtype_num ty' = ra_next (cr_alloc r) ! valtype_num ty' \<and>
        ra_state ra ! valtype_num ty' = ra_state (cr_alloc r) ! valtype_num ty'"
      using ra(4) [OF ty'] other [of ty'] ty' ty(2) st(2) Cons.prems(2-4) by (cases "ty' = ty") auto
  qed (fact ra)+
qed

lemma preoccupy_all_ok:
  assumes "length kts < 4096" and "cr_local_tab r = tabs_of kts" and "cr_alloc r = REG_ALLOC_HELPER"
  shows "\<exists>ra. preoccupy_all r = Inr (r\<lparr>cr_alloc := ra\<rparr>) \<and> length (ra_next ra) = 4 \<and> length (ra_state ra) = 4 \<and>
    (\<forall>ty. ty \<noteq> VALTY_UNKNOWN \<longrightarrow> ra_next ra ! valtype_num ty = of_nat (temp_base kts ty) \<and> free_from (temp_base kts ty) (ra_state ra ! valtype_num ty))"
proof -
  have "\<forall>ty \<in> set [I32, I64, F32, F64]. free_from 0 (ra_state (cr_alloc r) ! valtype_num ty)"
    by (simp add: assms(3) REG_ALLOC_HELPER_def VALTY_COUNT_def valtype_num_def free_from_def)
  moreover have "length (ra_next (cr_alloc r)) = 4" "length (ra_state (cr_alloc r)) = 4"
    by (simp_all add: assms(3) REG_ALLOC_HELPER_def VALTY_COUNT_def)
  moreover have "ty \<in> set [I32, I64, F32, F64]" if "ty \<noteq> VALTY_UNKNOWN" for ty using that by (cases ty) simp_all
  ultimately show ?thesis
    using preoccupy_loop [OF assms(1,2), of "[I32, I64, F32, F64]"] unfolding preoccupy_all_def by fastforce
qed

section \<open>Clearing the locals\<close>

definition zero_code :: "local_map_elem \<Rightarrow> uinst" where
  "zero_code l = (U_CONST, lm_ty l, TY_AM32_R_IMM, [lm_reg_idx l, 0])"

definition zeros :: "int_ty list \<Rightarrow> wval list" where
  "zeros ts = map (\<lambda>t. (t, 0)) ts"

lemma zero_mode: "Get_opc_tyam U_CONST = Inr TY_AM32_R_IMM"
  by (simp add: Get_opc_tyam_def arr_at_def U_CONST_def UWINST_TY_AM_def u_opcode_list_def)

lemma zero_ok: "unsigned_fits 10 r \<Longrightarrow> ty \<noteq> VALTY_UNKNOWN \<Longrightarrow> inst_ok (U_CONST, ty, TY_AM32_R_IMM, [r, 0])"
  using mode_index [OF zero_mode] by (simp add: inst_ok_def content_fits_iff signed_fits_def)

lemma init_locals_emits:
  assumes "local_types qs ts" and "list_all (\<lambda>l. lm_map_kind l = LOCAL \<and> lm_reg_idx l < 128) qs" and "ue_bodies (cv_enc c) \<noteq> []"
  shows "\<exists>e. init_locals qs c = Inr (c\<lparr>cv_enc := e\<rparr>) \<and> emits (map zero_code qs) (cv_enc c) e"
  using assms
proof (induction qs arbitrary: ts c)
  case Nil
  then show ?case by (intro exI [of _ "cv_enc c"]) (simp add: emits_Nil)
next
  case (Cons l qs)
  obtain t ts' where t: "ts = t # ts'" "lm_ty l = vt t" "local_types qs ts'"
    using Cons.prems(1) by (auto simp: local_types_def list_all2_Cons1)
  have "inst_ok (U_CONST, vt t, TY_AM32_R_IMM, [lm_reg_idx l, 0])"
    using Cons.prems(2) by (intro zero_ok small_fits) simp_all
  then obtain e where e: "add_inst U_CONST (vt t) [lm_reg_idx l, 0] c = Inr (c\<lparr>cv_enc := e\<rparr>)" "emits [zero_code l] (cv_enc c) e"
    using add_inst_ok [OF zero_mode, of "vt t" "[lm_reg_idx l, 0]" c] Cons.prems(3) t(2) by (auto simp: zero_code_def)
  have "ue_bodies e \<noteq> []" using emits_bodies [OF e(2)] by simp
  then obtain e' where e': "init_locals qs (c\<lparr>cv_enc := e\<rparr>) = Inr (c\<lparr>cv_enc := e'\<rparr>)" "emits (map zero_code qs) e e'"
    using Cons.IH [OF t(3), of "c\<lparr>cv_enc := e\<rparr>"] Cons.prems(2) by auto
  moreover have "(case vt t of I32 \<Rightarrow> Add_const_inst U_CONST I32 (lm_reg_idx l) 0 c | I64 \<Rightarrow> Add_const_inst U_CONST I64 (lm_reg_idx l) 0 c
      | F32 \<Rightarrow> Add_const_inst U_CONST_L F32 (lm_reg_idx l) 0 c
      | F64 \<Rightarrow> bindr (Add_const_inst U_CONST_L F64 (lm_reg_idx l) 0 c) (Add_const_inst U_CONST_L_HIGH F64 (lm_reg_idx l) 0)
      | VALTY_UNKNOWN \<Rightarrow> Inr c) = Inr (c\<lparr>cv_enc := e\<rparr>)"
    using e(1) by (cases t) (simp_all add: vt_def Add_const_inst_def)
  ultimately show ?case using Cons.prems(2) emits_trans [OF e(2) e'(2)] t(2) by auto
qed

definition zero_handler :: "int_ty \<Rightarrow> am_expand \<Rightarrow> uwasm_machine \<Rightarrow> uwasm_machine res" where
  "zero_handler t = (case t of T_i32 \<Rightarrow> Const_i32_am32_r_imm | T_i64 \<Rightarrow> Const_i64_am32_r_imm)"

lemma zero_action: "op_action (4 * U_CONST + ty_num t) = Brk (op (zero_handler t))"
  by (cases t) (simp_all add: U_CONST_def ty_num_def zero_handler_def op_lookup)

lemma zero_fetched:
  "Get_opcode_l (inst_expanded (p, vt t, TY_AM32_R_IMM, [a, b]) e) = 4 * p + ty_num t"
  "Get_rd (inst_expanded (p, ty, TY_AM32_R_IMM, [a, b]) e) = a"
  "Get_imm (inst_expanded (p, ty, TY_AM32_R_IMM, [a, b]) e) = b"
  by (simp_all add: inst_expanded_def expanded_def expand_content_def operand_slots_def set_slot_def Get_opcode_l_def Get_rd_def
      Get_imm_def vt_def ty_num_def valtype_num_def split: int_ty.split)

lemma zero_exec:
  assumes "fetches m (inst_expanded (U_CONST, vt t, TY_AM32_R_IMM, [dst, 0]) e)" and "reg_val m t dst = Inr d"
  shows "\<exists>m'. exec_step H m = Inr (Running m') \<and> writes t dst 0 m m'"
proof -
  have step: "exec_step H m = bindr (zero_handler t (inst_expanded (U_CONST, vt t, TY_AM32_R_IMM, [dst, 0]) e) m) (\<lambda>m. Inr (Running (Inc_pc m)))"
    using step_Brk [OF assms(1)] zero_action [of t] by (simp add: zero_fetched)
  show ?thesis
  proof (cases t)
    case T_i32
    with assms(2) obtain y where *: "i32_get m dst = Inr y" using file_i32.val_get by metis
    show ?thesis using file_i32.writes_set [OF *, of 0] by (auto simp: step zero_handler_def zero_fetched T_i32 Const_i32_am32_r_imm_def)
  next
    case T_i64
    with assms(2) obtain y where *: "i64_get m dst = Inr y" using file_i64.val_get by metis
    show ?thesis using file_i64.writes_set [OF *, of 0] by (auto simp: step zero_handler_def zero_fetched T_i64 Const_i64_am32_r_imm_def)
  qed
qed

lemma zero_run:
  assumes "locals_ok base (ps @ qs)" and "local_types qs ts" and "holds_locals m ps args" and "readable m"
    and "holds_code m (map zero_code qs)"
  shows "\<exists>m'. ran H (length qs) m m' \<and> readable m' \<and> holds_locals m' (ps @ qs) (args @ zeros ts)"
  using assms
proof (induction qs arbitrary: ps args m ts)
  case Nil
  then show ?case using ran_refl [of H m] by (auto simp: local_types_def zeros_def)
next
  case (Cons l qs)
  obtain t ts' where t: "ts = t # ts'" "lm_ty l = vt t" "local_types qs ts'"
    using Cons.prems(2) by (auto simp: local_types_def list_all2_Cons1)
  have "lm_reg_idx l < 126" using locals_ok_nth(4) [OF Cons.prems(1), of "length ps"] by simp
  then have "lm_reg_idx l < 128" by (simp add: word_less_nat_alt)
  then obtain d where d: "reg_val m t (lm_reg_idx l) = Inr d" using Cons.prems(4) by (auto simp: readable_def)
  obtain e where "fetches m (inst_expanded (U_CONST, vt t, TY_AM32_R_IMM, [lm_reg_idx l, 0]) e)"
    using holds_code_Cons(1) [of m "zero_code l" "map zero_code qs"] Cons.prems(5) t(2) zero_code_def [of l] by auto
  from zero_exec [OF this d] obtain m1 where m1: "exec_step H m = Inr (Running m1)" "writes t (lm_reg_idx l) 0 m m1" by blast
  have adv: "advances 1 (Some (t, lm_reg_idx l, 0)) m m1" using writes_advances [OF m1(2)] by simp
  have code: "holds_code m1 (map zero_code qs)"
    using holds_code_append [of m "[zero_code l]" "map zero_code qs"] Cons.prems(5) adv by auto
  have "(lm_ty q, lm_reg_idx q) \<noteq> (lm_ty l, lm_reg_idx l)" if "q \<in> set ps" for q
  proof -
    have "(lm_ty l, lm_reg_idx l) \<notin> (\<lambda>l. (lm_ty l, lm_reg_idx l)) ` set ps" using Cons.prems(1) by (auto simp: locals_ok_def)
    then show ?thesis using that by (auto simp: image_iff)
  qed
  then have "holds_locals m1 ps args"
    using Cons.prems(3) adv t(2) by (fastforce simp: holds_locals_def list_all2_conv_all_nth advances_def)
  moreover have "reg_val m1 t (lm_reg_idx l) = Inr 0" using adv by (simp add: advances_def)
  ultimately have "holds_locals m1 (ps @ [l]) (args @ [(t, 0)])"
    using t(2) by (auto simp: holds_locals_def intro: list_all2_appendI)
  from Cons.IH [OF _ t(3) this _ code] obtain m2 where
    m2: "ran H (length qs) m1 m2" "readable m2" "holds_locals m2 ((ps @ [l]) @ qs) ((args @ [(t, 0)]) @ zeros ts')"
    using Cons.prems(1,4) advances_readable [OF adv] by auto
  have "ran H (Suc 0 + length qs) m m2"
    using ran_trans [OF advances_ran [OF one_step [OF m1(1)]] m2(1)] adv by simp
  with m2(2,3) t(1) show ?case by (auto simp: zeros_def)
qed

section \<open>The end of the function\<close>

definition return_code :: uinst where
  "return_code = (0x02, I32, TY_AM32, [])"

lemma return_ok: "inst_ok return_code" "Get_opc_tyam 0x02 = Inr TY_AM32"
  by (simp_all add: return_code_def inst_ok_def content_fits_iff Get_opc_tyam_def arr_at_def UWINST_TY_AM_def u_opcode_list_def)

lemma end_pair: "UOPCODE_from_wasm W_End = Inr (UOPCODE_inst 0x02 I32)"
proof -
  have "take 1 (drop 9 op_map) = [(''End'', 0x0b, 0x02, I32)]" by code_simp
  then show ?thesis using op_map_slice by (fastforce simp: W_End_def)
qed

lemma end_statement:
  assumes "graph_ok (Suc k) g" and "Suc k < 2 ^ 32"
  shows "\<exists>cur root. Stmt_by_inst g (of_nat (Suc k)) = Inr cur \<and> Stmt_id g (s_parent cur) = Inr root \<and> s_kind root = WINST_STMT_ROOT_BLOCK"
  using assms small_nat [OF assms(2)]
  by (auto simp: Stmt_by_inst_def Get_stmt_id_by_inst_def Stmt_id_def graph_ok_def simp del: of_nat_Suc)

lemma statement_of:
  assumes "graph_ok n g" and "n < 2 ^ 32" and "k < n"
  shows "\<exists>cur. Stmt_by_inst g (1 + of_nat k) = Inr cur"
proof -
  have "unat (of_nat (Suc k) :: u32) = Suc k" using assms(2,3) by (intro small_nat) simp
  then show ?thesis using assms(1,3)
    by (auto simp: Stmt_by_inst_def Get_stmt_id_by_inst_def Stmt_id_def graph_ok_def)
qed

lemma conv_end_return:
  assumes ok: "conv_ok fid base lm n src [t] c" and e: "wi_encode ende = W_End"
    and f: "ctx_Get_func ctx = Inr f" "length (sg_results (wf_sig f)) = 1"
    and cur: "Stmt_by_inst (cv_graph c) cnt = Inr cur" "Stmt_id (cv_graph c) (s_parent cur) = Inr root" "s_kind root = WINST_STMT_ROOT_BLOCK"
  shows "\<exists>c'. conv_inst mv buf ctx fid ende cnt c = Inr c' \<and> same_rest c c' \<and>
    emits [mov_code (vt t) 0 (ws_idx (hd (cr_stack c))), return_code] (cv_enc c) (cv_enc c')"
proof -
  have regs: "regs_ok base c" "ue_bodies (cv_enc c) \<noteq> []" using ok by (simp_all add: conv_ok_def)
  obtain x s o' src' where s: "cr_stack c = x # s" "src = o' # src'" "is_operand x" "ws_val_type x = vt t" "ws_idx x < 126"
    "stack_ok base lm n s src'" "list_all2 (\<lambda>e t. ws_val_type e = vt t) s []"
    using conv_ok_Cons [OF ok] .
  have "s = []" using s(7) by simp
  obtain ca where ca: "Pop_wasm_stk VALTY_UNKNOWN c = Inr (x, ca)" "same_rest c ca" "cv_enc ca = cv_enc c"
    using pop_ok [OF regs(1) s(1,3), of VALTY_UNKNOWN] by auto
  have "ws_idx x < 128" using s(5) by (simp add: word_less_nat_alt)
  then have "inst_ok (mov_code (vt t) 0 (ws_idx x))" unfolding mov_code_def by (intro op_insts_ok(3) [where d=0] small_fits) simp_all
  then obtain e1 where e1: "add_inst U_MOV (vt t) [0, ws_idx x] ca = Inr (ca\<lparr>cv_enc := e1\<rparr>)"
    "emits [mov_code (vt t) 0 (ws_idx x)] (cv_enc c) e1"
    using add_inst_ok [OF other_modes(1), of "vt t" "[0, ws_idx x]" ca] ca(3) regs(2) by (auto simp: mov_code_def)
  obtain e2 where e2: "add_inst 0x02 I32 [] (ca\<lparr>cv_enc := e1\<rparr>) = Inr (ca\<lparr>cv_enc := e2\<rparr>)" "emits [return_code] e1 e2"
    using add_inst_ok [OF return_ok(2), of I32 "[]" "ca\<lparr>cv_enc := e1\<rparr>"] emits_bodies [OF e1(2)] return_ok(1) by (auto simp: return_code_def)
  have "ws_kind x \<noteq> UNREACHABLE_VALUE" "sg_results (wf_sig f) \<noteq> []" using s(3) f(2) by (auto simp: is_operand_def)
  then have "conv_end_func ctx (UOPCODE_inst 0x02 I32) cnt c = Inr (Some (UOPCODE_inst 0x02 I32, []), ca\<lparr>cv_enc := e1\<rparr>)"
    using f s(1,4) \<open>s = []\<close> ca(1) e1(1) by (simp add: conv_end_func_def Let_def CONST_REG_NUM_def)
  then have "conv_switch mv buf ctx fid ende (UOPCODE_inst 0x02 I32) cnt cur c =
      Inr (Some (UOPCODE_inst 0x02 I32, []), ca\<lparr>cv_enc := e1\<rparr>)"
    using cur e by (simp add: conv_switch_def wasm_opcodes conv_end_def)
  moreover obtain k where "Get_inst_encoder fid (cv_enc c) = Inr k" using ok by (auto simp: conv_ok_def)
  moreover have "Get_ty_am (UOPCODE_inst 0x02 I32) = Inr TY_AM32" using return_ok(2) by (simp add: Get_ty_am_def Get_opc_tyam_def UOPCODE_inst_def)
  ultimately have "conv_inst mv buf ctx fid ende cnt c = Inr (ca\<lparr>cv_enc := e2\<rparr>)"
    using e cur(1) e2(1) by (simp add: conv_inst_def end_pair Get_inst_size_def UOPCODE_inst_def)
  moreover have "same_rest c (ca\<lparr>cv_enc := e2\<rparr>)" using ca(2) by (simp add: same_rest_def)
  ultimately show ?thesis using emits_trans [OF e1(2) e2(2)] s(1) by auto
qed

section \<open>The whole function\<close>

text \<open>The kinds of the parameters and locals of a function.\<close>

definition kinds_of :: "int_ty list \<Rightarrow> int_ty list \<Rightarrow> kinds" where
  "kinds_of pts lts = map (Pair FORMAL_PARAM) pts @ map (Pair LOCAL) lts"

lemma kinds_of_simps [simp]:
  "length (kinds_of pts lts) = length pts + length lts" "map snd (kinds_of pts lts) = pts @ lts"
  "list_all (\<lambda>(k, t). k \<in> {LOCAL, FORMAL_PARAM}) (kinds_of pts lts)"
  by (auto simp: kinds_of_def o_def list_all_iff)

lemma func_name_ctx: "func_name ctx f = (nm, ctx') \<Longrightarrow> ctx_Get_func ctx' = ctx_Get_func ctx"
  by (auto simp: func_name_def Get_anon_func_name_def ctx_Get_func_def split: option.splits if_splits)

lemma initial_tabs: "replicate VALTY_COUNT LOCAL_TAB = tabs_of []" "lm_of [] = []"
  by (simp_all add: VALTY_COUNT_def tabs_of_def tab_of_def same_ty_def LOCAL_TAB_def lm_of_def numeral_eq_Suc)

text \<open>The allocator once the registers of the parameters and locals are taken.\<close>

definition alloc_after :: "kinds \<Rightarrow> reg_alloc \<Rightarrow> bool" where
  "alloc_after kts ra \<longleftrightarrow> length (ra_next ra) = 4 \<and> length (ra_state ra) = 4 \<and>
    (\<forall>ty. ty \<noteq> VALTY_UNKNOWN \<longrightarrow> ra_next ra ! valtype_num ty = of_nat (temp_base kts ty) \<and>
      free_from (temp_base kts ty) (ra_state ra ! valtype_num ty))"

text \<open>The entry of a function: the map and tables of locals, the allocator, and then what the encoder does.\<close>

lemma Create_ubh_code_eq:
  assumes f: "ctx_Get_func ctx = Inr f" and types: "wabt_types (sg_params (wf_sig f)) pts" "wabt_types (wf_locals f) lts"
    and len: "length pts + length lts \<le> 125"
  shows "\<exists>r. cr_stack r = [] \<and> cr_local_tab r = tabs_of (kinds_of pts lts) \<and> alloc_after (kinds_of pts lts) (cr_alloc r) \<and>
    Create_ubh_code mv e ctx =
      bindr (mapr Conv_wabt_ty (sg_params (wf_sig f))) (\<lambda>parm_list.
      bindr (mapr Conv_wabt_ty (sg_results (wf_sig f))) (\<lambda>ret_list.
      bindr (enc_Add_type (mv e) ret_list parm_list e) (\<lambda>(type_idx, e).
      bindr (Request_func (mv e) (cstring (fst (func_name ctx f))) (of_nat type_idx) 0 e) (\<lambda>(func_idx, e).
      bindr (Start_func (of_nat func_idx) (quad (map (\<lambda>t. lt_size t + RET_REG_NUM) (cr_local_tab r))) (0, 0, 0, 0) 0 e) (\<lambda>(code_idx, e).
      Inr (of_nat func_idx, r, lm_of (kinds_of pts lts), e, snd (func_name ctx f)))))))"
proof -
  let ?kts = "kinds_of pts lts" and ?ps = "map (Pair FORMAL_PARAM) pts"
  let ?r = "\<lambda>kts ra. \<lparr>cr_stack = [], cr_alloc = ra, cr_local_tab = tabs_of kts\<rparr> :: conv_regs"
  have lens: "length (sg_params (wf_sig f)) = length pts" "length (wf_locals f) = length lts"
    using types by (auto simp: wabt_types_def dest: list_all2_lengthD)
  have params: "add_locals FORMAL_PARAM (sg_params (wf_sig f)) (?r [] REG_ALLOC_HELPER, []) = Inr (?r ?ps REG_ALLOC_HELPER, lm_of ?ps)"
    using add_locals_ok [OF types(1), of "[]" "?r [] REG_ALLOC_HELPER" FORMAL_PARAM] len lens by (simp add: initial_tabs)
  have locals: "add_locals LOCAL (wf_locals f) (?r ?ps REG_ALLOC_HELPER, lm_of ?ps) = Inr (?r ?kts REG_ALLOC_HELPER, lm_of ?kts)"
    using add_locals_ok [OF types(2), of ?ps "?r ?ps REG_ALLOC_HELPER" LOCAL] len lens by (simp add: kinds_of_def)
  obtain ra where ra: "preoccupy_all (?r ?kts REG_ALLOC_HELPER) = Inr (?r ?kts ra)" "alloc_after ?kts ra"
    using preoccupy_all_ok [of ?kts "?r ?kts REG_ALLOC_HELPER"] len by (auto simp: alloc_after_def)
  obtain nm ctx' where nm: "func_name ctx f = (nm, ctx')" by fastforce
  show ?thesis
    by (rule exI [of _ "?r ?kts ra"]) (simp add: Create_ubh_code_def f initial_tabs params locals ra nm)
qed

lemma Create_ubh_code_facts:
  assumes created: "Create_ubh_code mv e ctx = Inr (fid, r, lm, e1, ctx1)" and f: "ctx_Get_func ctx = Inr f"
    and types: "wabt_types (sg_params (wf_sig f)) pts" "wabt_types (wf_locals f) lts" and len: "length pts + length lts \<le> 125"
  shows "lm = lm_of (kinds_of pts lts)" and "cr_stack r = []" and "cr_local_tab r = tabs_of (kinds_of pts lts)"
    and "alloc_after (kinds_of pts lts) (cr_alloc r)" and "ue_bodies e1 \<noteq> []" and "cb_inst_tab (last (ue_bodies e1)) = []"
    and "ctx_Get_func ctx1 = Inr f"
proof -
  obtain r' where r': "cr_stack r' = []" "cr_local_tab r' = tabs_of (kinds_of pts lts)" "alloc_after (kinds_of pts lts) (cr_alloc r')"
    "Create_ubh_code mv e ctx =
      bindr (mapr Conv_wabt_ty (sg_params (wf_sig f))) (\<lambda>parm_list.
      bindr (mapr Conv_wabt_ty (sg_results (wf_sig f))) (\<lambda>ret_list.
      bindr (enc_Add_type (mv e) ret_list parm_list e) (\<lambda>(type_idx, e).
      bindr (Request_func (mv e) (cstring (fst (func_name ctx f))) (of_nat type_idx) 0 e) (\<lambda>(func_idx, e).
      bindr (Start_func (of_nat func_idx) (quad (map (\<lambda>t. lt_size t + RET_REG_NUM) (cr_local_tab r'))) (0, 0, 0, 0) 0 e) (\<lambda>(code_idx, e).
      Inr (of_nat func_idx, r', lm_of (kinds_of pts lts), e, snd (func_name ctx f)))))))"
    using Create_ubh_code_eq [OF f types len, of mv e] by blast
  have "lm = lm_of (kinds_of pts lts) \<and> r = r' \<and> ue_bodies e1 \<noteq> [] \<and> cb_inst_tab (last (ue_bodies e1)) = [] \<and> ctx1 = snd (func_name ctx f)"
    using created unfolding r'(4) by (auto simp: Start_func_def Allocate_code_body_def U_CODE_BODY_def)
  then show "lm = lm_of (kinds_of pts lts)" "cr_stack r = []" "cr_local_tab r = tabs_of (kinds_of pts lts)"
    "alloc_after (kinds_of pts lts) (cr_alloc r)" "ue_bodies e1 \<noteq> []" "cb_inst_tab (last (ue_bodies e1)) = []" "ctx_Get_func ctx1 = Inr f"
    using r'(1-3) func_name_ctx [of ctx f] f by (auto simp: prod_eq_iff)
qed

text \<open>The state the instructions of a function are converted from.\<close>

lemma start_ok:
  assumes "length kts + n \<le> 125" and "list_all (\<lambda>(k, t). k \<in> {LOCAL, FORMAL_PARAM}) kts"
    and "cr_stack c = []" and "cr_local_tab c = tabs_of kts" and "alloc_after kts (cr_alloc c)"
    and "cv_local_map c = lm_of kts" and "ue_bodies (cv_enc c) \<noteq> []" and "Get_inst_encoder fid (cv_enc c) = Inr k"
  shows "conv_ok fid (temp_base kts) (lm_of kts) n [] [] c"
proof -
  have base: "temp_base kts ty + n \<le> 126" for ty using temp_base_le [of kts ty] assms(1) by simp
  have nr: "next_reg (temp_base kts) ty [] = temp_base kts ty" for ty by (simp add: next_reg_def)
  have "length (lt_content (tab_of kts ty)) + 1 = temp_base kts ty" for ty by (simp add: tab_of_def temp_base_def)
  then have "length (lt_content (tab_of kts ty)) \<le> 126" "temp_base kts ty \<le> length (lt_content (tab_of kts ty)) + 1" "temp_base kts ty \<le> 126" for ty
    using base [of ty] by (auto dest: add_leD1) (metis Suc_eq_plus1 Suc_leD add_leD1)
  then have "regs_ok (temp_base kts) c"
    using assms(3-5) by (simp add: regs_ok_def nr tabs_of_nth alloc_ok_def alloc_after_def free_from_def stk_ok_def)
  moreover have "locals_ok (temp_base kts) (lm_of kts)" "tab_kinds (tabs_of kts) (lm_of kts)"
    using locals_ok_of [OF _ assms(2)] tab_kinds_of [of kts] assms(1) by auto
  moreover have "stack_ok (temp_base kts) (lm_of kts) n [] []" using base by (simp add: stack_ok_def stk_ok_def nr)
  ultimately show ?thesis using assms(3,4,6-8) by (simp add: conv_ok_def)
qed

text \<open>The code of the function, the final return left out.\<close>

definition func_code :: "int_ty list \<Rightarrow> int_ty list \<Rightarrow> wop list \<Rightarrow> int_ty \<Rightarrow> uinst list" where
  "func_code pts lts ops t =
    (let kts = kinds_of pts lts; (is, s) = comp (temp_base kts) (lm_of kts) 1 ops [] in
     map zero_code (drop (length pts) (lm_of kts)) @ is @ [mov_code (vt t) 0 (ws_idx (hd s))])"

lemma encodes_straight: "list_all2 (encodes_op buf) ops insts \<Longrightarrow> list_all straight insts"
proof -
  have "op_code a \<notin> {W_If, W_Block, W_Loop, W_Else, W_End}" for a
    by (cases a) (simp_all add: op_code_def wasm_opcodes binop_num_def relop_num_def split: int_ty.split ibinop.split irelop.split)
  then show "list_all2 (encodes_op buf) ops insts \<Longrightarrow> list_all straight insts"
    by (auto simp: list_all2_conv_all_nth list_all_length encodes_op_def straight_def)
qed

lemma conv_insts_append:
  "conv_insts mv buf ctx fid (xs @ ys) cnt c = bindr (conv_insts mv buf ctx fid xs cnt c) (conv_insts mv buf ctx fid ys (cnt + of_nat (length xs)))"
  by (induction xs arbitrary: cnt c) (auto simp: bindr_assoc add.assoc intro!: bindr_cong)

lemma after_instructions:
  assumes "Get_inst_encoder fid (cv_enc c) = Inr k" and "cv_call_pcs c = []" and "ue_bodies (cv_enc c) \<noteq> []"
  shows "\<exists>c'. bindr (fix_calls ctx fid c) (update_code fid) = Inr c' \<and>
    cb_inst_tab (last (ue_bodies (cv_enc c'))) = cb_inst_tab (last (ue_bodies (cv_enc c)))"
  using assms by (cases "k = length (ue_bodies (cv_enc c)) - 1") (auto simp: fix_calls_def update_code_def on_body_def Let_def last_conv_nth)

text \<open>A well-typed straight-line function converts, to this code and a return.\<close>

lemma function_code:
  assumes f: "ctx_Get_func ctx = Inr f" "wabt_types (sg_params (wf_sig f)) pts" "wabt_types (wf_locals f) lts" "length (sg_results (wf_sig f)) = 1"
    and start: "Create_ubh_code mv e ctx = Inr (fid, r, lm, e1, ctx1)" "Get_inst_encoder fid e1 = Inr k"
    and ops: "trun (pts @ lts) ops [] = Some [t]" "list_all2 (encodes_op buf) ops insts" "wi_encode ende = W_End"
    and len: "length pts + length lts + length ops \<le> 125"
  shows "\<exists>e2. Wasm_to_uwasm mv buf (insts @ [ende]) e ctx = Inr (e2, ctx1) \<and> list_all inst_ok (func_code pts lts ops t @ [return_code]) \<and>
    foldr_res Add_inst_of (func_code pts lts ops t @ [return_code]) [] = Inr (cb_inst_tab (last (ue_bodies e2)))"
proof -
  let ?kts = "kinds_of pts lts" let ?base = "temp_base ?kts" and ?lm = "lm_of ?kts" let ?qs = "drop (length pts) ?lm"
  have n: "length insts = length ops" using ops(2) by (simp add: list_all2_lengthD)
  have "length pts + length lts \<le> 125" using len by simp
  note cr = Create_ubh_code_facts [OF start(1) f(1-3) this]
  obtain g labs where g: "Build_block_hierarchy mv buf (insts @ [ende]) [] e1 = Inr (g, labs, e1)" "graph_ok (Suc (length ops)) g"
    using Build_block_hierarchy_straight [OF encodes_straight [OF ops(2)] ops(3), of mv buf e1] len n by auto
  define c0 where "c0 = \<lparr>cr_stack = cr_stack r, cr_alloc = cr_alloc r, cr_local_tab = cr_local_tab r, cv_enc = e1, cv_graph = g,
             cv_local_map = lm, cv_call_pcs = [], cv_icall = (\<lambda>i. None)\<rparr>"
  have np: "length (sg_params (wf_sig f)) = length pts" using f(2) by (auto simp: wabt_types_def dest: list_all2_lengthD)
  have types: "local_types ?qs lts" using local_types_of [of ?kts] by (auto simp: local_types_def dest: list_all2_dropI [of _ _ _ "length pts"])
  have regs: "list_all (\<lambda>l. lm_map_kind l = LOCAL \<and> lm_reg_idx l < 128) ?qs"
  proof (unfold list_all_length, intro allI impI)
    fix i assume "i < length ?qs"
    then have i: "i < length lts" by (simp add: lm_of_def)
    then have "?kts ! (length pts + i) = (LOCAL, lts ! i)" by (simp add: kinds_of_def nth_append)
    then show "lm_map_kind (?qs ! i) = LOCAL \<and> lm_reg_idx (?qs ! i) < 128"
      using reg_of_bounds(2,3) [of ?kts "length pts + i"] i len by (simp add: lm_of_def word_less_nat_alt)
  qed
  obtain ea where ea: "init_locals ?qs c0 = Inr (c0\<lparr>cv_enc := ea\<rparr>)" "emits (map zero_code ?qs) e1 ea"
    using init_locals_emits [OF types regs, of c0] cr(5) by (auto simp: c0_def)
  let ?c1 = "c0\<lparr>cv_enc := ea\<rparr>"
  have ok: "conv_ok fid ?base ?lm (length ops + 0) [] [] ?c1"
    using len cr(1-4) start(2) emits_bodies [OF ea(2)] emits_Get_inst_encoder [OF ea(2), of fid]
    by (intro start_ok kinds_of_simps(3)) (auto simp: c0_def)
  obtain "is" s where comp: "comp ?base ?lm 1 ops [] = (is, s)" by fastforce
  have "conv_result fid ?base ?lm 0 (fold src_step ops []) [t] ?c1 is s (conv_insts mv buf ctx1 fid insts 1 ?c1)"
    using conv_insts_ops [OF ok ops(2) _ _ ops(1), of 1 "is" s mv ctx1] statement_of [OF g(2)] local_types_of [of ?kts] comp cr(2) len
    by (auto simp: c0_def)
  then obtain c2 where c2: "conv_insts mv buf ctx1 fid insts 1 ?c1 = Inr c2" "cr_stack c2 = s" "conv_ok fid ?base ?lm 0 (fold src_step ops []) [t] c2"
    "same_rest ?c1 c2" "emits is ea (cv_enc c2)"
    by (auto simp: conv_result_def)
  obtain cur root where cur: "Stmt_by_inst (cv_graph c2) (of_nat (Suc (length ops))) = Inr cur" "Stmt_id (cv_graph c2) (s_parent cur) = Inr root"
    "s_kind root = WINST_STMT_ROOT_BLOCK"
    using end_statement [OF g(2)] len c2(4) by (auto simp: same_rest_def c0_def simp del: of_nat_Suc)
  obtain c3 where c3: "conv_inst mv buf ctx1 fid ende (of_nat (Suc (length ops))) c2 = Inr c3" "same_rest c2 c3"
    "emits [mov_code (vt t) 0 (ws_idx (hd s)), return_code] (cv_enc c2) (cv_enc c3)"
    using conv_end_return [OF c2(3) ops(3) cr(7) f(4) cur] c2(2) by blast
  have conv: "conv_insts mv buf ctx1 fid (insts @ [ende]) 1 ?c1 = Inr c3"
    using c2(1) c3(1) n by (simp add: conv_insts_append)
  have em: "emits (func_code pts lts ops t @ [return_code]) e1 (cv_enc c3)"
    using emits_trans [OF ea(2) emits_trans [OF c2(5) c3(3)]] comp by (simp add: func_code_def)
  have "Get_inst_encoder fid (cv_enc c3) = Inr k" using start(2) emits_Get_inst_encoder [OF em] by simp
  moreover have "cv_call_pcs c3 = []" using c2(4) c3(2) by (simp add: same_rest_def c0_def)
  ultimately obtain c4 where c4: "bindr (fix_calls ctx1 fid c3) (update_code fid) = Inr c4"
    "cb_inst_tab (last (ue_bodies (cv_enc c4))) = cb_inst_tab (last (ue_bodies (cv_enc c3)))"
    using after_instructions emits_bodies [OF em] by blast
  have "Wasm_to_uwasm mv buf (insts @ [ende]) e ctx = Inr (cv_enc c4, ctx1)"
    using start(1) g(1) cr(1,7) np ea(1) conv c4(1) by (auto simp: Wasm_to_uwasm_def c0_def BLOCK_INSTR_BEGIN_def Let_def)
  then show ?thesis using em c4(2) cr(6) by (auto simp: emits_def)
qed

end
