(* ===== verification/Conv_Props.thy ===== *)
theory Conv_Props
  imports Conv_Func Call_Props
begin

text \<open>
  What the converter guarantees for straight-line integer functions: well-typed code is accepted, the code it
  emits computes what the WebAssembly semantics says, and the interpreter runs it to its end.
\<close>

section \<open>Running the code of a function\<close>






subsection \<open>From the start of the program to its end\<close>





section \<open>An example\<close>















section \<open>Properties\<close>








end
