(* ===== verification/Data_Init.thy ===== *)
theory Data_Init
  imports Machine
begin

text \<open>
  Preparing a module for execution: the data section copied or its segments laid out in linear memory, relocations
  (\<^verbatim>\<open>Init_mem_with_data_segs\<close>, \<^verbatim>\<open>Fix_up_reloc\<close> and \<^verbatim>\<open>Prepare_before_run\<close> in \<^verbatim>\<open>src/ubh/u_module.cxx\<close>), and the areas of
  memory and the global table of the machine (\<^verbatim>\<open>Init_memory\<close> in \<^verbatim>\<open>src/interpreter/exec_unit.cxx\<close>, \<^verbatim>\<open>UVM_heap_initialize\<close> in
  \<^verbatim>\<open>src/interpreter/uwasm_malloc.cxx\<close>).
\<close>

section \<open>Reading the descriptors of the segments\<close>

text \<open>The first eight bytes of \<^verbatim>\<open>DATA_SEGMENT_MAGIC_PREFIX\<close>.\<close>

definition DATA_SEGMENT_MAGIC_PREFIX :: "u8 list" where
  "DATA_SEGMENT_MAGIC_PREFIX = [0x55, 0x44, 0x53, 0x76, 0x30, 0x2e, 0x31, 0x00]"

text \<open>\<^verbatim>\<open>memcmp(p, s, 8) == 0\<close>, decided at the first byte that differs.\<close>

fun memcmp_eq :: "u8 list \<Rightarrow> u8 list \<Rightarrow> bool res" where
  "memcmp_eq data [] = Inr True"
| "memcmp_eq [] (c # cs) = Inl Out_of_block"
| "memcmp_eq (b # bs) (c # cs) = (if b \<noteq> c then Inr False else memcmp_eq bs cs)"

definition data_word :: "nat \<Rightarrow> u8 list \<Rightarrow> nat \<Rightarrow> 'w::len word res" where
  "data_word n data p = (if p + n \<le> length data then Inr (le_word (take n (drop p data))) else Inl Out_of_block)"

definition data_seg :: "u8 list \<Rightarrow> nat \<Rightarrow> ubh_dseg_info res" where
  "data_seg data i =
    bindr (data_word 4 data (SIZEOF_DATA_SEGMENTS + SIZEOF_DSEG_INFO * i)) (\<lambda>ofs.
    bindr (data_word 4 data (SIZEOF_DATA_SEGMENTS + SIZEOF_DSEG_INFO * i + 4)) (\<lambda>sz.
    Inr \<lparr>ds_mem_offset = ofs, ds_size = sz\<rparr>))"

text \<open>The \<^verbatim>\<open>UBH_DATA_SEGMENTS\<close> the section pointer is cast to, all of whose descriptors \<^verbatim>\<open>Calc_total_space\<close> reads.\<close>

definition data_segments :: "u8 list \<Rightarrow> ubh_data_segments res" where
  "data_segments data =
    bindr (data_word 8 data 0) (\<lambda>magic.
    bindr (data_word 8 data 8) (\<lambda>elements.
    bindr (mapr (data_seg data) [0..<unat (elements :: u64)]) (\<lambda>infos.
    Inr \<lparr>dss_magic = magic, dss_infos = infos\<rparr>)))"

section \<open>Filling the memory\<close>

text \<open>One iteration of the copy loop; \<open>total_copied\<close> is the position in the data section.\<close>

definition copy_seg :: "u8 list \<Rightarrow> u32 \<Rightarrow> ubh_dseg_info \<Rightarrow> u32 \<times> memory \<Rightarrow> (u32 \<times> memory) res" where
  "copy_seg data msize seg t =
    (let (total_copied, blk) = t in
     Is_True (ds_mem_offset seg + ds_size seg < msize) (
     if unat total_copied + unat (ds_size seg) \<le> length data
     then bindr (mem_write blk (Some (uint (ds_mem_offset seg))) (take (unat (ds_size seg)) (drop (unat total_copied) data))) (\<lambda>blk.
       Inr (total_copied + ds_size seg, blk))
     else Inl Out_of_block))"

definition Init_mem_with_data_segs :: "memory \<Rightarrow> u32 \<Rightarrow> u8 list \<Rightarrow> u32 \<Rightarrow> memory res" where
  "Init_mem_with_data_segs blk msize data data_sec_size =
    bindr (data_segments data) (\<lambda>segments.
    Is_True (dss_magic segments = le_word DATA_SEGMENT_MAGIC_PREFIX) (
    Is_True (Calc_total_space segments = data_sec_size) (
    Is_True (\<not> msize < Calc_max_ofs segments) (
    bindr (foldr_res (copy_seg data msize) (dss_infos segments) (Calc_size segments, blk)) (\<lambda>(total_copied, blk).
    Inr blk)))))"

definition NUM_SUCC :: u32 where "NUM_SUCC = 0"
definition ERR_NOT_ENOUGH_MEM_BUF :: u32 where "ERR_NOT_ENOUGH_MEM_BUF = 1"

text \<open>One relocation: the address of a datum, \<open>base\<close> being the address of the memory block, stored as a pointer.\<close>

definition patch_reloc :: "u64 \<Rightarrow> u32 list \<Rightarrow> nat \<Rightarrow> memory \<Rightarrow> memory res" where
  "patch_reloc base reloc_sec i blk =
    bindr (arr_at reloc_sec i) (\<lambda>patch_pos.
    bindr (arr_at reloc_sec (i + 1)) (\<lambda>ref_idx.
    bindr (arr_at reloc_sec (i + 2)) (\<lambda>ref_off.
    mem_write blk (Some (uint patch_pos)) (le_bytes 8 (base + ucast ref_idx + ucast ref_off)))))"

text \<open>The memory block is \<open>None\<close> for a null pointer.\<close>

definition Fix_up_reloc :: "u64 \<Rightarrow> u_module \<Rightarrow> memory option \<Rightarrow> u32 \<Rightarrow> (u32 \<times> memory option) res" where
  "Fix_up_reloc base m mem_p msize =
    (if \<not> Contains_section m S_DATA then Inr (NUM_SUCC, mem_p)
     else bindr (sec_elem_num m S_DATA) (\<lambda>n.
     let data_sec_size = of_nat n :: u32; data_sec = m_data_sec m in
     if data_sec_size = 0 then Inr (NUM_SUCC, mem_p)
     else (case mem_p of
       None \<Rightarrow> Inl Assertion
     | Some blk \<Rightarrow>
       bindr (memcmp_eq data_sec DATA_SEGMENT_MAGIC_PREFIX) (\<lambda>magic.
       bindr (if \<not> magic
              then Is_True (data_sec_size \<le> msize) (
                if n \<le> length data_sec then mem_write blk (Some 0) (take n data_sec) else Inl Out_of_block)
              else Init_mem_with_data_segs blk msize data_sec data_sec_size) (\<lambda>blk.
       if \<not> Contains_section m S_RELOC then Inr (NUM_SUCC, Some blk)
       else bindr (sec_elem_num m S_RELOC) (\<lambda>reloc_num.
       if reloc_num = 0 then Inr (NUM_SUCC, Some blk)
       else Is_True (data_sec_size \<le> msize) (
       if msize \<le> data_sec_size then Inr (ERR_NOT_ENOUGH_MEM_BUF, Some blk)
       else bindr (foldr_res (patch_reloc base (m_reloc_sec m)) (filter (\<lambda>i. i mod 3 = 0) [0..<reloc_num]) blk) (\<lambda>blk.
         Inr (NUM_SUCC, Some blk)))))))))"

text \<open>\<^verbatim>\<open>mprotect\<close> of the pages of each native code buffer; \<open>protected\<close> says whether the call succeeds.\<close>

definition Mprotect_bin_buff :: "(ubh_nat \<Rightarrow> bool) \<Rightarrow> u_module \<Rightarrow> unit res" where
  "Mprotect_bin_buff protected m =
    (if \<not> Contains_section m S_NAT then Inr ()
     else bindr (sec_elem_num m S_NAT) (\<lambda>n.
       foldr_res (\<lambda>i u. bindr (arr_at (m_nat_sec m) i) (\<lambda>bin_entry.
         if protected bin_entry then Inr () else Inl Exit_failure)) [0..<n] ()))"

definition Prepare_before_run ::
  "indet \<Rightarrow> (ubh_nat \<Rightarrow> bool) \<Rightarrow> u64 \<Rightarrow> u_module \<Rightarrow> memory option \<Rightarrow> u32 \<Rightarrow> (u32 \<times> u_module \<times> memory option) res" where
  "Prepare_before_run ind protected base m mem_p msize =
    bindr (Fix_up_reloc base m mem_p msize) (\<lambda>(ret, mem_p).
    if ret \<noteq> NUM_SUCC then Inr (ret, m, mem_p)
    else bindr (Expand_code ind m) (\<lambda>m.
      bindr (Mprotect_bin_buff protected m) (\<lambda>_.
      Inr (NUM_SUCC, m, mem_p))))"

section \<open>The areas of memory\<close>

text \<open>The heap of the machine, from \<open>he_off\<close> on; \<^verbatim>\<open>_hea_p\<close> is \<^verbatim>\<open>_mem_p + _hea_off\<close>.\<close>

record heap_area =
  he_off :: u32
  he_size :: u32

definition PAGE_SIZE :: u32 where "PAGE_SIZE = 4096"

text \<open>The bits of the constant \<^verbatim>\<open>0.8f\<close>.\<close>

definition HEAP_MEM_PERCENT :: u32 where "HEAP_MEM_PERCENT = 0x3f4ccccd"

definition page_up :: "u32 \<Rightarrow> u32" where
  "page_up n = (if n mod PAGE_SIZE \<noteq> 0 then (n div PAGE_SIZE + 1) * PAGE_SIZE else n)"

definition heap_size :: "fpu \<Rightarrow> u32 \<Rightarrow> u32 res" where
  "heap_size F space =
    (case f32_trunc F (f32_mul F (f32_of_int F (uint space)) HEAP_MEM_PERCENT) of
      None \<Rightarrow> Inl Conv_undefined
    | Some n \<Rightarrow> if 0 \<le> n \<and> n < 2 ^ 32 then Inr (word_of_int n) else Inl Conv_undefined)"

text \<open>A null memory pointer: no access succeeds.\<close>

definition null_memory :: memory where
  "null_memory = \<lparr>mb_bytes = (\<lambda>i. 0), mb_len = 0, mb_live = False\<rparr>"

definition mem_block :: "memory option \<Rightarrow> memory" where
  "mem_block mem_p = (case mem_p of None \<Rightarrow> null_memory | Some blk \<Rightarrow> blk)"

definition Init_global :: "u_module \<Rightarrow> u64 list \<Rightarrow> u64 list res" where
  "Init_global md old =
    (if Contains_section md S_GLBL
     then bindr (sec_elem_num md S_GLBL) (\<lambda>glbl_cnt.
       mapr (\<lambda>i. bindr (Get_glbl md i) (\<lambda>g. Inr (g_init_val g))) [0..<glbl_cnt])
     else Inr old)"

text \<open>The size of the data section, where the heap begins before it is rounded up.\<close>

definition data_size :: "u_module \<Rightarrow> u32 res" where
  "data_size md = (if Contains_section md S_DATA then bindr (sec_elem_num md S_DATA) (\<lambda>n. Inr (of_nat n)) else Inr 0)"

text \<open>
  \<open>create_mspace_with_base\<close> is the function of \<^verbatim>\<open>dlmalloc\<close>: for an address and a size, the members \<^verbatim>\<open>extp\<close> and \<^verbatim>\<open>exts\<close> of the
  memory space it sets up there, nothing for a null pointer, and memory afterwards.  The wrapper reads the members through the
  pointer without a test for null.
\<close>

type_synonym create_mspace = "u64 \<Rightarrow> u64 \<Rightarrow> memory \<Rightarrow> ((u64 \<times> u64) option \<times> memory) res"

definition UVM_heap_initialize :: "create_mspace \<Rightarrow> u64 \<Rightarrow> u64 \<Rightarrow> memory \<Rightarrow> memory res" where
  "UVM_heap_initialize create_mspace_with_base pbase sz blk =
    bindr (create_mspace_with_base pbase sz blk) (\<lambda>(space, blk).
    case space of
      None \<Rightarrow> Inl Out_of_block
    | Some (extp, exts) \<Rightarrow> Is_True (extp = pbase) (Is_True (exts = sz) (Inr blk)))"

definition Init_memory ::
  "fpu \<Rightarrow> indet \<Rightarrow> (ubh_nat \<Rightarrow> bool) \<Rightarrow> create_mspace \<Rightarrow> u64 \<Rightarrow> memory option \<Rightarrow> u32 \<Rightarrow>
    uwasm_machine \<times> heap_area \<Rightarrow> (u32 \<times> uwasm_machine \<times> heap_area) res" where
  "Init_memory F ind protected create_mspace_with_base base mem_p msize t =
    (let (m, heap) = t in
     bindr (Prepare_before_run ind protected base (module m) mem_p msize) (\<lambda>(ret, md, mem_p).
     let m = m\<lparr>mem := mem_block mem_p, mem_size := msize, module := md\<rparr> in
     if ret \<noteq> NUM_SUCC \<or> msize = 0 then Inr (ret, m, heap)
     else let m = m\<lparr>sta_p := Some (uint msize)\<rparr> in
       bindr (data_size md) (\<lambda>data_sz.
       let hea_off = page_up data_sz in
       Is_True (hea_off \<le> msize) (
       bindr (heap_size F (msize - hea_off)) (\<lambda>hea_size.
       let heap = \<lparr>he_off = hea_off, he_size = page_up hea_size\<rparr> in
       bindr (Init_global md (global_start m)) (\<lambda>glbl.
       let m = m\<lparr>global_start := glbl\<rparr> in
       bindr (UVM_heap_initialize create_mspace_with_base (base + ucast hea_off) (ucast (he_size heap)) (mem m)) (\<lambda>mem'.
       Inr (ret, m\<lparr>mem := mem'\<rparr>, heap))))))))"

section \<open>The segments of a data section\<close>

text \<open>A data section for segments given by their place in memory and their bytes.\<close>

type_synonym segment = "u32 \<times> u8 list"

definition seg_info :: "segment \<Rightarrow> ubh_dseg_info" where
  "seg_info seg = \<lparr>ds_mem_offset = fst seg, ds_size = of_nat (length (snd seg))\<rparr>"

definition seg_bytes :: "segment \<Rightarrow> u8 list" where
  "seg_bytes seg = le_bytes 4 (fst seg) @ le_bytes 4 (of_nat (length (snd seg)) :: u32)"

definition segs_head :: "segment list \<Rightarrow> u8 list" where
  "segs_head segs = DATA_SEGMENT_MAGIC_PREFIX @ le_bytes 8 (of_nat (length segs) :: u64) @ concat (map seg_bytes segs)"

definition segs_section :: "segment list \<Rightarrow> u8 list" where
  "segs_section segs = segs_head segs @ concat (map snd segs)"

lemma data_word_at: "length xs = p \<Longrightarrow> length ys = n \<Longrightarrow> data_word n (xs @ ys @ zs) p = Inr (le_word ys)"
  by (simp add: data_word_def)

lemma seg_bytes_length [simp]: "length (seg_bytes seg) = 8" "length (concat (map seg_bytes segs)) = 8 * length segs"
proof -
  show len: "length (seg_bytes seg) = 8" for seg by (simp add: seg_bytes_def)
  show "length (concat (map seg_bytes segs)) = 8 * length segs" by (induction segs) (simp_all add: len)
qed

lemma segs_head_length: "length (segs_head segs) = 16 + 8 * length segs"
  by (simp add: segs_head_def DATA_SEGMENT_MAGIC_PREFIX_def)

lemma data_seg_segs:
  assumes "i < length segs"
  shows "data_seg (segs_section segs) i = Inr (seg_info (segs ! i))"
proof -
  let ?pre = "DATA_SEGMENT_MAGIC_PREFIX @ le_bytes 8 (of_nat (length segs) :: u64) @ concat (map seg_bytes (take i segs))"
  let ?post = "concat (map seg_bytes (drop (Suc i) segs)) @ concat (map snd segs)"
  have "concat (map seg_bytes segs) = concat (map seg_bytes (take i segs)) @ seg_bytes (segs ! i) @ concat (map seg_bytes (drop (Suc i) segs))"
    using id_take_nth_drop [OF assms] by (metis concat.simps(2) concat_append list.simps(9) map_append)
  then have sec: "segs_section segs = ?pre @ le_bytes 4 (fst (segs ! i)) @ le_bytes 4 (of_nat (length (snd (segs ! i))) :: u32) @ ?post"
    by (simp add: segs_section_def segs_head_def seg_bytes_def)
  have len: "length ?pre = 16 + 8 * i" using assms by (simp add: DATA_SEGMENT_MAGIC_PREFIX_def)
  have "data_word 4 (segs_section segs) (16 + 8 * i) = Inr (fst (segs ! i) :: u32)"
    unfolding sec by (subst data_word_at [OF len]) (simp_all add: le_word_bytes_full)
  moreover have "data_word 4 (segs_section segs) (16 + 8 * i + 4) = Inr (of_nat (length (snd (segs ! i))) :: u32)"
  proof -
    have "segs_section segs = (?pre @ le_bytes 4 (fst (segs ! i))) @ le_bytes 4 (of_nat (length (snd (segs ! i))) :: u32) @ ?post"
      by (simp add: sec)
    then show ?thesis using len by (simp only:) (subst data_word_at, simp_all add: le_word_bytes_full)
  qed
  ultimately show ?thesis by (simp add: data_seg_def seg_info_def SIZEOF_DATA_SEGMENTS_def SIZEOF_DSEG_INFO_def)
qed

lemma data_segments_segs:
  assumes "length segs < 2 ^ 32"
  shows "data_segments (segs_section segs) = Inr \<lparr>dss_magic = le_word DATA_SEGMENT_MAGIC_PREFIX, dss_infos = map seg_info segs\<rparr>"
proof -
  let ?count = "le_bytes 8 (of_nat (length segs) :: u64)" and ?rest = "concat (map seg_bytes segs) @ concat (map snd segs)"
  have sec: "segs_section segs = [] @ DATA_SEGMENT_MAGIC_PREFIX @ (?count @ ?rest)" "segs_section segs = DATA_SEGMENT_MAGIC_PREFIX @ ?count @ ?rest"
    by (simp_all add: segs_section_def segs_head_def)
  have "data_word 8 (segs_section segs) 0 = Inr (le_word DATA_SEGMENT_MAGIC_PREFIX :: u64)"
    unfolding sec(1) by (rule data_word_at) (simp_all add: DATA_SEGMENT_MAGIC_PREFIX_def)
  moreover have "data_word 8 (segs_section segs) 8 = Inr (of_nat (length segs) :: u64)"
    unfolding sec(2) by (subst data_word_at) (simp_all add: DATA_SEGMENT_MAGIC_PREFIX_def le_word_bytes_full)
  moreover have "unat (of_nat (length segs) :: u64) = length segs" using assms by (simp add: unat_of_nat take_bit_nat_eq_self)
  moreover have "mapr (data_seg (segs_section segs)) [0..<length segs] = Inr (map seg_info segs)"
  proof -
    have "mapr (data_seg (segs_section segs)) [0..<length segs] = Inr (map (\<lambda>i. seg_info (segs ! i)) [0..<length segs])"
      by (rule mapr_total) (simp add: data_seg_segs)
    also have "map (\<lambda>i. seg_info (segs ! i)) [0..<length segs] = map seg_info segs" by (rule nth_equalityI) simp_all
    finally show ?thesis .
  qed
  ultimately show ?thesis by (simp add: data_segments_def)
qed

lemma Calc_total_segs: "Calc_total_space \<lparr>dss_magic = mg, dss_infos = map seg_info segs\<rparr> = of_nat (length (segs_section segs))"
proof -
  have "fold (\<lambda>i total. total + ds_size i) (map seg_info segs) a = a + of_nat (length (concat (map snd segs)))" for a :: u32
    by (induction segs arbitrary: a) (simp_all add: seg_info_def add.assoc)
  then show ?thesis
    by (simp add: Calc_total_space_def Calc_size_def segs_section_def segs_head_length SIZEOF_DATA_SEGMENTS_def SIZEOF_DSEG_INFO_def algebra_simps)
qed

section \<open>The memory after the copy loop\<close>

abbreviation seg_addr :: "segment \<Rightarrow> address" where
  "seg_addr seg \<equiv> Some (uint (fst seg))"

text \<open>Every byte outside the segments as before, and the bytes of a segment that no later one overlaps.\<close>

definition segs_loaded :: "segment list \<Rightarrow> memory \<Rightarrow> memory \<Rightarrow> bool" where
  "segs_loaded segs blk blk' \<longleftrightarrow> mb_len blk' = mb_len blk \<and> mb_live blk' = mb_live blk \<and>
    (\<forall>a n. list_all (\<lambda>seg. disjoint_range (seg_addr seg) (length (snd seg)) a n) segs \<longrightarrow> mem_read blk' a n = mem_read blk a n) \<and>
    (\<forall>i < length segs. list_all (\<lambda>seg. disjoint_range (seg_addr seg) (length (snd seg)) (seg_addr (segs ! i)) (length (snd (segs ! i)))) (drop (Suc i) segs)
      \<longrightarrow> mem_read blk' (seg_addr (segs ! i)) (length (snd (segs ! i))) = Inr (snd (segs ! i)))"

lemma segs_loaded_Cons:
  assumes "mem_write blk (seg_addr seg) (snd seg) = Inr blk1" and "segs_loaded segs blk1 blk'"
  shows "segs_loaded (seg # segs) blk blk'"
  using assms(2) mem_write_shape [OF assms(1)] mem_write_frame [OF assms(1)] mem_read_write [OF assms(1)]
  by (auto simp: segs_loaded_def less_Suc_eq_0_disj)

lemma seg_end:
  fixes msize :: u32 and seg :: segment
  assumes "unat (fst seg) + length (snd seg) \<le> unat msize"
  shows "unat (fst seg + of_nat (length (snd seg))) = unat (fst seg) + length (snd seg)" "unat (of_nat (length (snd seg)) :: u32) = length (snd seg)"
proof -
  have "unat msize < 2 ^ LENGTH(32)" by (rule unsigned_less)
  then have less: "unat (fst seg) + length (snd seg) < 4294967296" using assms by simp
  then show len: "unat (of_nat (length (snd seg)) :: u32) = length (snd seg)" by (simp add: unat_of_nat_u32)
  show "unat (fst seg + of_nat (length (snd seg))) = unat (fst seg) + length (snd seg)"
    using less by (simp add: unat_word_ariths len)
qed

text \<open>One iteration of the loop on a segment that ends inside the memory.\<close>

lemma copy_seg_ok:
  assumes "data = pre @ snd seg @ rest" and "length data < 2 ^ 32" and "mb_live blk" and "unat msize \<le> mb_len blk"
    and "unat (fst seg) + length (snd seg) < unat msize"
  shows "\<exists>blk1. mem_write blk (seg_addr seg) (snd seg) = Inr blk1 \<and>
    copy_seg data msize (seg_info seg) (of_nat (length pre), blk) = Inr (of_nat (length (pre @ snd seg)), blk1)"
proof -
  let ?n = "length (snd seg)"
  have pre: "unat (of_nat (length pre) :: u32) = length pre"
    using assms(1,2) by (simp add: unat_of_nat take_bit_nat_eq_self)
  note n = seg_end [OF less_imp_le [OF assms(5)]]
  have check: "fst seg + of_nat ?n < msize" unfolding word_less_nat_alt n(1) by (rule assms(5))
  have "uint (fst seg) = int (unat (fst seg))" by simp
  then have "uint (fst seg) + int ?n \<le> int (mb_len blk)" using assms(4,5) by linarith
  then obtain blk1 where blk1: "mem_write blk (seg_addr seg) (snd seg) = Inr blk1"
    using mem_write_ok [of blk "seg_addr seg" "snd seg"] assms(3) by (auto simp: mem_ok_def)
  have "take ?n (drop (length pre) data) = snd seg" using assms(1) by simp
  then show ?thesis using n(2) pre check blk1 assms(1) by (simp add: copy_seg_def seg_info_def)
qed

lemma copy_seg_refused:
  assumes "unat (fst seg) + length (snd seg) = unat msize"
  shows "copy_seg data msize (seg_info seg) t = Inl Assertion"
proof -
  have "\<not> fst seg + of_nat (length (snd seg)) < msize"
    unfolding word_less_nat_alt seg_end(1) [OF eq_imp_le [OF assms]] using assms by simp
  then show ?thesis by (simp add: copy_seg_def seg_info_def case_prod_beta)
qed

lemma copy_segs:
  assumes "data = pre @ concat (map snd segs)" and "length data < 2 ^ 32" and "mb_live blk" and "unat msize \<le> mb_len blk"
    and "list_all (\<lambda>seg. unat (fst seg) + length (snd seg) < unat msize) segs"
  shows "\<exists>blk'. foldr_res (copy_seg data msize) (map seg_info segs) (of_nat (length pre), blk) = Inr (of_nat (length data), blk') \<and>
    segs_loaded segs blk blk'"
  using assms
proof (induction segs arbitrary: pre blk)
  case Nil
  then show ?case by (simp add: segs_loaded_def)
next
  case (Cons seg segs)
  obtain blk1 where blk1: "mem_write blk (seg_addr seg) (snd seg) = Inr blk1"
    and step: "copy_seg data msize (seg_info seg) (of_nat (length pre), blk) = Inr (of_nat (length (pre @ snd seg)), blk1)"
    using copy_seg_ok [of data pre seg "concat (map snd segs)" blk msize] Cons.prems by auto
  obtain blk' where "foldr_res (copy_seg data msize) (map seg_info segs) (of_nat (length (pre @ snd seg)), blk1) = Inr (of_nat (length data), blk')"
    "segs_loaded segs blk1 blk'"
    using Cons.IH [of "pre @ snd seg" blk1] Cons.prems mem_write_shape [OF blk1] by auto
  with step show ?case using segs_loaded_Cons [OF blk1] by (auto simp del: of_nat_add length_append)
qed

lemma copy_segs_refused:
  assumes "data = pre @ concat (map snd segs)" and "length data < 2 ^ 32" and "mb_live blk" and "unat msize \<le> mb_len blk"
    and "list_all (\<lambda>seg. unat (fst seg) + length (snd seg) \<le> unat msize) segs"
    and "\<not> list_all (\<lambda>seg. unat (fst seg) + length (snd seg) < unat msize) segs"
  shows "foldr_res (copy_seg data msize) (map seg_info segs) (of_nat (length pre), blk) = Inl Assertion"
  using assms
proof (induction segs arbitrary: pre blk)
  case (Cons seg segs)
  show ?case
  proof (cases "unat (fst seg) + length (snd seg) < unat msize")
    case True
    obtain blk1 where blk1: "mem_write blk (seg_addr seg) (snd seg) = Inr blk1"
      and step: "copy_seg data msize (seg_info seg) (of_nat (length pre), blk) = Inr (of_nat (length (pre @ snd seg)), blk1)"
      using copy_seg_ok [of data pre seg "concat (map snd segs)" blk msize] Cons.prems True by auto
    have "foldr_res (copy_seg data msize) (map seg_info segs) (of_nat (length (pre @ snd seg)), blk1) = Inl Assertion"
      using Cons.IH [of "pre @ snd seg" blk1] Cons.prems True mem_write_shape [OF blk1] by auto
    with step show ?thesis by (simp del: of_nat_add length_append)
  next
    case False
    then have "unat (fst seg) + length (snd seg) = unat msize" using Cons.prems(5) by simp
    then show ?thesis by (simp add: copy_seg_refused)
  qed
qed simp

lemma Calc_max_segs:
  assumes "list_all (\<lambda>seg. unat (fst seg) + length (snd seg) \<le> unat msize) segs"
  shows "\<not> msize < Calc_max_ofs \<lparr>dss_magic = mg, dss_infos = map seg_info segs\<rparr>"
proof -
  have "fold (\<lambda>i mx. if mx < ds_size i + ds_mem_offset i then ds_size i + ds_mem_offset i else mx) (map seg_info segs) mx \<le> msize"
    if "mx \<le> msize" for mx
    using assms that
  proof (induction segs arbitrary: mx)
    case (Cons seg segs)
    have "ds_size (seg_info seg) + ds_mem_offset (seg_info seg) \<le> msize"
      using Cons.prems(1) seg_end(1) [of seg msize] by (simp add: seg_info_def word_le_nat_alt add.commute)
    then show ?case using Cons by simp
  qed simp
  then show ?thesis by (simp add: Calc_max_ofs_def not_less)
qed

text \<open>A data section of segments makes \<^verbatim>\<open>Fix_up_reloc\<close> run the copy loop.\<close>

lemma memcmp_prefix: "memcmp_eq (xs @ ys) xs = Inr True"
  by (induction xs) simp_all

lemma Fix_up_segments:
  assumes "Contains_section m S_DATA" and "sec_elem_num m S_DATA = Inr (length (segs_section segs))" and "m_data_sec m = segs_section segs"
    and "\<not> Contains_section m S_RELOC" and "length (segs_section segs) < 2 ^ 32"
    and "list_all (\<lambda>seg. unat (fst seg) + length (snd seg) \<le> unat msize) segs"
  shows "Fix_up_reloc base m (Some blk) msize =
    bindr (foldr_res (copy_seg (segs_section segs) msize) (map seg_info segs) (of_nat (length (segs_head segs)), blk)) (\<lambda>(n, blk).
      Inr (NUM_SUCC, Some blk))"
proof -
  let ?data = "segs_section segs"
  have few: "length segs < 2 ^ 32" using assms(5) by (simp add: segs_section_def segs_head_length)
  have magic: "memcmp_eq ?data DATA_SEGMENT_MAGIC_PREFIX = Inr True"
    unfolding segs_section_def segs_head_def append_assoc by (rule memcmp_prefix)
  have "0 < length ?data" by (simp add: segs_section_def segs_head_length)
  then have nonzero: "(of_nat (length ?data) :: u32) \<noteq> 0" using assms(5) unat_of_nat_u32 [of "length ?data"] by auto
  have "Calc_size \<lparr>dss_magic = mg, dss_infos = map seg_info segs\<rparr> = of_nat (length (segs_head segs))" for mg
    by (simp add: Calc_size_def segs_head_length SIZEOF_DATA_SEGMENTS_def SIZEOF_DSEG_INFO_def)
  then have "Init_mem_with_data_segs blk msize ?data (of_nat (length ?data)) =
    bindr (foldr_res (copy_seg ?data msize) (map seg_info segs) (of_nat (length (segs_head segs)), blk)) (\<lambda>(n, blk). Inr blk)"
    by (simp add: Init_mem_with_data_segs_def data_segments_segs [OF few] Calc_total_segs Calc_max_segs [OF assms(6)])
  then show ?thesis
    using assms(1-4) nonzero magic by (simp add: Fix_up_reloc_def Let_def bindr_def split: sum.splits)
qed

section \<open>The layout of memory\<close>

text \<open>The number of elements of a section has at most 24 bits, so rounding it up to a page does not wrap.\<close>

lemma rd_less:
  assumes "snd f < LENGTH('w)"
  shows "unat (rd f (w :: 'w::len word)) < 2 ^ snd f"
  by (simp add: rd_def get_bits_def unsigned_take_bit_eq)

lemma sec_elem_num_less:
  assumes "sec_elem_num m sec_id = Inr n"
  shows "n < 2 ^ 24"
proof -
  have "unat (rd S1_elem_num w) < 2 ^ 24" "unat (rd S2_elem_num w) < 2 ^ 24" for w :: u32
    using rd_less [of S1_elem_num w] rd_less [of S2_elem_num w] by (simp_all add: shdr_field_defs)
  then show ?thesis using assms by (auto simp: sec_elem_num_def Get_elem_num_def split: if_splits)
qed

lemma round_up: "(k + 4095) div 4096 * 4096 = (if k mod 4096 = 0 then k else (k div 4096 + 1) * (4096 :: nat))"
proof -
  obtain q r where k: "k = 4096 * q + r" "r < 4096"
    using mult_div_mod_eq [of 4096 k] mod_less_divisor [of 4096 k] by (metis zero_less_numeral)
  show ?thesis
  proof (cases r)
    case 0
    then show ?thesis by (simp add: k(1))
  next
    case (Suc r')
    then have "k + 4095 = r' + (q + 1) * 4096" using k(1) by simp
    then have "(k + 4095) div 4096 = r' div 4096 + (q + 1)" by (metis add.commute div_mult_self3 zero_neq_numeral)
    then show ?thesis using k Suc by simp
  qed
qed

lemma page_up_ok:
  assumes "unat n < 2 ^ 24"
  shows "unat (page_up n) = (unat n + 4095) div 4096 * 4096"
proof -
  let ?k = "unat n"
  have mod0: "n mod PAGE_SIZE = 0 \<longleftrightarrow> ?k mod 4096 = 0"
    by (simp add: PAGE_SIZE_def unat_eq_0 [symmetric] unat_mod_distrib)
  have up: "unat ((n div PAGE_SIZE + 1) * PAGE_SIZE) = (?k div 4096 + 1) * 4096"
    using assms by (simp add: PAGE_SIZE_def unat_word_ariths unat_div_distrib)
  show ?thesis using up mod0 round_up [of ?k] by (simp add: page_up_def)
qed

text \<open>The number of bytes of the data section.\<close>

definition data_count :: "u_module \<Rightarrow> nat" where
  "data_count md = (if Contains_section md S_DATA then (case sec_elem_num md S_DATA of Inr n \<Rightarrow> n | Inl e \<Rightarrow> 0) else 0)"

lemma data_size_page:
  assumes "data_size md = Inr d"
  shows "unat (page_up d) = (data_count md + 4095) div 4096 * 4096"
proof (cases "Contains_section md S_DATA")
  case True
  with assms obtain n where n: "sec_elem_num md S_DATA = Inr n" "d = of_nat n" by (auto simp: data_size_def)
  then have "unat d = n" "n < 2 ^ 24" using sec_elem_num_less [OF n(1)] by (simp_all add: unat_of_nat_u32)
  then show ?thesis using n True page_up_ok [of d] by (simp add: data_count_def)
next
  case False
  then show ?thesis using assms by (simp add: data_size_def data_count_def page_up_def)
qed

lemma Init_global_values:
  assumes "Init_global md old = Inr g" and "Contains_section md S_GLBL"
  shows "\<exists>n. sec_elem_num md S_GLBL = Inr n \<and> length g = n \<and>
    (\<forall>i < n. i < length (m_glbl_sec md) \<and> g ! i = g_init_val (m_glbl_sec md ! i))"
proof -
  obtain n where n: "sec_elem_num md S_GLBL = Inr n"
    and vals: "mapr (\<lambda>i. bindr (Get_glbl md i) (\<lambda>g. Inr (g_init_val g))) [0..<n] = Inr g" using assms by (auto simp: Init_global_def)
  have "i < length (m_glbl_sec md) \<and> g ! i = g_init_val (m_glbl_sec md ! i)" if "i < n" for i
    using mapr_nth [OF vals, of i] that by (auto simp: Get_glbl_def)
  then show ?thesis using n mapr_length [OF vals] by auto
qed

lemma UVM_heap_initialize_succ:
  "UVM_heap_initialize create pbase sz blk = Inr blk' \<longleftrightarrow> create pbase sz blk = Inr (Some (pbase, sz), blk')"
  by (auto simp: UVM_heap_initialize_def split: option.splits)

lemma Init_memory_succ:
  assumes "Init_memory F ind protected create base mem_p msize (m, heap) = Inr (NUM_SUCC, m', heap')" and "msize \<noteq> 0"
  obtains md d g blk mem' hs where "data_size md = Inr d" and "page_up d \<le> msize" and "heap_size F (msize - page_up d) = Inr hs"
    and "Init_global md (global_start m) = Inr g" and "Prepare_before_run ind protected base (module m) mem_p msize = Inr (NUM_SUCC, md, blk)"
    and "create (base + ucast (page_up d)) (ucast (page_up hs)) (mem_block blk) =
      Inr (Some (base + ucast (page_up d), ucast (page_up hs)), mem')"
    and "m' = m\<lparr>mem_size := msize, module := md, sta_p := Some (uint msize), global_start := g, mem := mem'\<rparr>"
    and "heap' = \<lparr>he_off = page_up d, he_size = page_up hs\<rparr>"
proof -
  obtain ret md blk where prep: "Prepare_before_run ind protected base (module m) mem_p msize = Inr (ret, md, blk)"
    using assms(1) by (auto simp: Init_memory_def)
  with assms have ret: "ret = NUM_SUCC" by (auto simp: Init_memory_def Let_def split: if_split_asm)
  with assms prep obtain d hs g mem' where "data_size md = Inr d" "page_up d \<le> msize" "heap_size F (msize - page_up d) = Inr hs"
    "Init_global md (global_start m) = Inr g"
    "UVM_heap_initialize create (base + ucast (page_up d)) (ucast (page_up hs)) (mem_block blk) = Inr mem'"
    "m' = m\<lparr>mem_size := msize, module := md, sta_p := Some (uint msize), global_start := g, mem := mem'\<rparr>"
    "heap' = \<lparr>he_off = page_up d, he_size = page_up hs\<rparr>"
    by (fastforce simp: Init_memory_def Let_def)
  then show ?thesis using that prep unfolding ret UVM_heap_initialize_succ by blast
qed

end
