(* ===== verification/U_Runtime.thy ===== *)
theory U_Runtime
  imports Data_Init U_Encoder
begin

text \<open>
  The runtime of system and native calls (\<^verbatim>\<open>src/runtime/u_runtime.h\<close>, \<^verbatim>\<open>src/runtime/u_runtime.cxx\<close>) and the
  wrappers of the heap allocator (\<^verbatim>\<open>src/interpreter/uwasm_malloc.cxx\<close>).  The C library, the operating
  system, \<^verbatim>\<open>libffi\<close> and the memory spaces of \<^verbatim>\<open>dlmalloc\<close> are the record \<open>os\<close>: what one call of them answers and
  what it does to linear memory.  Output is not part of the state; the memory it reads is.  The build is the
  default one, in which \<^verbatim>\<open>RUNTIME_PARM_REG(x)\<close> is \<^verbatim>\<open>x + 1\<close> and \<^verbatim>\<open>RUNTIME_Z_BASE_REG(x)\<close> is \<^verbatim>\<open>x\<close>.
\<close>

section \<open>Tables of functions\<close>

datatype sys_call =
    SYS_zero | SYS_one | SYS_trap | SYS_putchar | SYS_malloc | SYS_free | SYS_proc_exit | SYS_uwasm_putlong
  | SYS_uwasm_putchar | SYS_uwasm_printfi | SYS_uwasm_getint | SYS_uwasm_getchar | SYS_uwasm_scanfv
  | SYS_uwasm_putfloat | SYS_uwasm_putdouble | SYS_uwasm_putstr | SYS_uwasm_randii | SYS_uwasm_rand
  | SYS_uwasm_assert_true | SYS_uwasm_putint | SYS_clock_gettime | SYS_clock_time_get | SYS_pthread_create
  | SYS_pthread_join | SYS_fd_write | SYS_args_get | SYS_args_sizes_get

text \<open>Native code: an offset in the buffer of an entry of the native section, or a symbol of the process.\<close>

datatype native_ptr = Native_code u32 u32 | Native_symbol "u8 list"

record ffi_cif =
  cif_ret :: u8
  cif_params :: "u8 list"

datatype func_type = FUNC_IS_UWASM | FUNC_IS_NATIVE native_ptr ffi_cif | FUNC_IS_SYSCALL sys_call

record func_info =
  fi_func_idx :: u32
  fi_ntype_ofs :: u32
  fi_type :: func_type

definition FUNC_INFO :: "u32 \<Rightarrow> func_info" where
  "FUNC_INFO idx = \<lparr>fi_func_idx = idx, fi_ntype_ofs = 0, fi_type = FUNC_IS_UWASM\<rparr>"

definition Init_native :: "u32 \<Rightarrow> native_ptr \<Rightarrow> ffi_cif \<Rightarrow> func_info \<Rightarrow> func_info" where
  "Init_native off ptr cif i = i\<lparr>fi_type := FUNC_IS_NATIVE ptr cif, fi_ntype_ofs := off\<rparr>"

definition Init_syscall :: "sys_call \<Rightarrow> func_info \<Rightarrow> func_info" where
  "Init_syscall ptr i = i\<lparr>fi_type := FUNC_IS_SYSCALL ptr\<rparr>"

definition Get_native_ptr :: "func_info \<Rightarrow> native_ptr res" where
  "Get_native_ptr i = (case fi_type i of FUNC_IS_NATIVE ptr cif \<Rightarrow> Inr ptr | _ \<Rightarrow> Inl Assertion)"

section \<open>The environment of the runtime\<close>

text \<open>An argument of a foreign call: a pointer into memory, or the value of a register.\<close>

datatype ffi_arg = Arg_ptr "address option" | Arg_i32 u32 | Arg_i64 u64 | Arg_f32 u32 | Arg_f64 u64

text \<open>
  \<^item> \<open>os_scan_char\<close>, \<open>os_scan_int\<close>: what \<^verbatim>\<open>scanf\<close> reads with \<^verbatim>\<open>%c\<close> and \<^verbatim>\<open>%d\<close>, none when it fails;
  \<^item> \<open>os_printf\<close>, \<open>os_scanf\<close>: the effect on memory of a call with a format of the program;
  \<^item> \<open>os_uniform\<close>: a number drawn from a range; \<open>os_clock\<close>: result, seconds and nanoseconds of \<^verbatim>\<open>clock_gettime\<close>;
  \<^item> \<open>mspace_malloc\<close>, \<open>mspace_free\<close>: the memory space of \<^verbatim>\<open>dlmalloc\<close>, with offsets from the start of the heap; \<open>mspace_extp\<close>: the
    member \<^verbatim>\<open>extp\<close> of the memory space at an address;
  \<^item> \<open>ffi_prep_cif\<close>: whether a call interface is accepted; \<open>ffi_call\<close>: the bytes written at the place of the
    result, and memory afterwards; \<open>os_base\<close>: the address of linear memory.
\<close>

record os =
  os_putchar :: "u32 \<Rightarrow> u32"
  os_scan_char :: "u8 option"
  os_scan_int :: "u32 option"
  os_printf :: "u8 list \<Rightarrow> u32 \<Rightarrow> memory \<Rightarrow> memory res"
  os_scanf :: "u8 list \<Rightarrow> address \<Rightarrow> memory \<Rightarrow> memory res"
  os_uniform :: "u32 \<Rightarrow> u32 \<Rightarrow> u32"
  os_clock :: "u32 \<Rightarrow> u32 \<times> u64 \<times> u64"
  os_writev :: "u32 \<Rightarrow> u8 list list \<Rightarrow> u64"
  os_pthread_create :: "address \<Rightarrow> address \<Rightarrow> native_ptr \<Rightarrow> address \<Rightarrow> memory \<Rightarrow> (u32 \<times> memory) res"
  os_pthread_join :: "u32 \<Rightarrow> memory \<Rightarrow> memory res"
  mspace_malloc :: "heap_area \<Rightarrow> u64 \<Rightarrow> memory \<Rightarrow> (u64 option \<times> memory) res"
  mspace_free :: "heap_area \<Rightarrow> u64 \<Rightarrow> memory \<Rightarrow> memory res"
  mspace_extp :: "u64 \<Rightarrow> memory \<Rightarrow> u64"
  os_dlsym :: "u8 list \<Rightarrow> bool"
  ffi_prep_cif :: "u8 \<Rightarrow> u8 list \<Rightarrow> bool"
  ffi_call :: "ffi_cif \<Rightarrow> native_ptr \<Rightarrow> ffi_arg list \<Rightarrow> memory \<Rightarrow> (u8 list \<times> memory) res"
  os_base :: u64

record runtime =
  rt_os :: os
  rt_args :: "u8 list list"
  rt_heap :: heap_area
  rt_func_infos :: "func_info option list"

text \<open>A C string in memory: the bytes up to a zero byte inside the block.\<close>

definition mem_c_str :: "memory \<Rightarrow> address \<Rightarrow> u8 list res" where
  "mem_c_str blk a =
    (case a of None \<Rightarrow> Inl Out_of_block
     | Some p \<Rightarrow>
       if mb_live blk \<and> 0 \<le> p \<and> p \<le> int (mb_len blk)
       then let bs = map (mb_bytes blk) [nat p..<mb_len blk] in
            if 0 \<in> set bs then Inr (takeWhile (\<lambda>b. b \<noteq> 0) bs) else Inl Out_of_block
       else Inl Out_of_block)"

definition on_mem :: "(memory \<Rightarrow> memory res) \<Rightarrow> uwasm_machine \<Rightarrow> uwasm_machine res" where
  "on_mem f m = bindr (f (mem m)) (\<lambda>blk. Inr (m\<lparr>mem := blk\<rparr>))"

section \<open>System calls\<close>

definition RUNTIME_PARM_REG :: "u32 \<Rightarrow> u32" where "RUNTIME_PARM_REG x = x + 1"
definition RUNTIME_Z_BASE_REG :: "u32 \<Rightarrow> u32" where "RUNTIME_Z_BASE_REG x = x"

definition VM_SYSCALL_putchar :: "runtime \<Rightarrow> uwasm_machine \<Rightarrow> uwasm_machine res" where
  "VM_SYSCALL_putchar R m =
    bindr (i32_get m (RUNTIME_PARM_REG 0)) (\<lambda>charval.
    i32_set 0 (os_putchar (rt_os R) charval) m)"

definition VM_SYSCALL_uwasm_putlong :: "uwasm_machine \<Rightarrow> uwasm_machine res" where
  "VM_SYSCALL_uwasm_putlong m = bindr (i64_get m (RUNTIME_Z_BASE_REG 0)) (\<lambda>i64_val. Inr m)"

definition VM_SYSCALL_uwasm_putfloat :: "uwasm_machine \<Rightarrow> uwasm_machine res" where
  "VM_SYSCALL_uwasm_putfloat m = bindr (f32_get m (RUNTIME_Z_BASE_REG 0)) (\<lambda>f32_val. Inr m)"

definition VM_SYSCALL_uwasm_putdouble :: "uwasm_machine \<Rightarrow> uwasm_machine res" where
  "VM_SYSCALL_uwasm_putdouble m = bindr (f64_get m (RUNTIME_Z_BASE_REG 0)) (\<lambda>f64_val. Inr m)"

definition VM_SYSCALL_uwasm_putstr :: "uwasm_machine \<Rightarrow> uwasm_machine res" where
  "VM_SYSCALL_uwasm_putstr m =
    bindr (Get_base_addr (RUNTIME_Z_BASE_REG 0) m) (\<lambda>str.
    bindr (mem_c_str (mem m) str) (\<lambda>chars. Inr m))"

text \<open>
  The wrappers of the allocator.  \<^verbatim>\<open>pbase\<close> is the address of the heap; the memory space is the one of the heap, whose member \<^verbatim>\<open>exts\<close>
  is the size \<^verbatim>\<open>UVM_heap_initialize\<close> checked it to be.  \<^verbatim>\<open>mspace_malloc\<close> returning null fails the assertion.
\<close>

definition UVM_pbase_to_space :: "os \<Rightarrow> heap_area \<Rightarrow> memory \<Rightarrow> heap_area res" where
  "UVM_pbase_to_space env heap blk =
    (let pbase = os_base env + ucast (he_off heap) in Is_True (mspace_extp env pbase blk = pbase) (Inr heap))"

definition UVM_heap_malloc :: "os \<Rightarrow> heap_area \<Rightarrow> u64 \<Rightarrow> memory \<Rightarrow> (u32 \<times> memory) res" where
  "UVM_heap_malloc env heap sz blk =
    bindr (UVM_pbase_to_space env heap blk) (\<lambda>space.
    bindr (mspace_malloc env space sz blk) (\<lambda>(p, blk).
    case p of None \<Rightarrow> Inl Assertion
    | Some offset \<Rightarrow> Is_True (offset < ucast (he_size space)) (Inr (ucast offset, blk))))"

definition UVM_heap_free :: "os \<Rightarrow> heap_area \<Rightarrow> u32 \<Rightarrow> memory \<Rightarrow> memory res" where
  "UVM_heap_free env heap offset blk =
    bindr (UVM_pbase_to_space env heap blk) (\<lambda>space.
    Is_True ((scast offset :: u64) < ucast (he_size space)) (mspace_free env space (scast offset) blk))"

definition U_malloc :: "runtime \<Rightarrow> u64 \<Rightarrow> memory \<Rightarrow> (u32 \<times> memory) res" where
  "U_malloc R sz blk =
    bindr (UVM_heap_malloc (rt_os R) (rt_heap R) sz blk) (\<lambda>(offset, blk).
    Inr (he_off (rt_heap R) + offset, blk))"

definition U_free :: "runtime \<Rightarrow> u32 \<Rightarrow> memory \<Rightarrow> memory res" where
  "U_free R ptr blk = UVM_heap_free (rt_os R) (rt_heap R) (he_off (rt_heap R) + ptr) blk"

definition VM_SYSCALL_malloc :: "runtime \<Rightarrow> uwasm_machine \<Rightarrow> uwasm_machine res" where
  "VM_SYSCALL_malloc R m =
    bindr (i64_get m (RUNTIME_PARM_REG 0)) (\<lambda>malloc_size.
    bindr (U_malloc R malloc_size (mem m)) (\<lambda>(ptr, blk).
    i32_set 0 ptr (m\<lparr>mem := blk\<rparr>)))"

definition VM_SYSCALL_free :: "runtime \<Rightarrow> uwasm_machine \<Rightarrow> uwasm_machine res" where
  "VM_SYSCALL_free R m =
    bindr (i32_get m (RUNTIME_Z_BASE_REG 0)) (\<lambda>ptr. on_mem (U_free R ptr) m)"

definition VM_SYSCALL_one :: "uwasm_machine \<Rightarrow> uwasm_machine res" where
  "VM_SYSCALL_one m = i32_set 0 1 m"

definition VM_SYSCALL_zero :: "uwasm_machine \<Rightarrow> uwasm_machine res" where
  "VM_SYSCALL_zero m = i32_set 0 0 m"

definition VM_SYSCALL_args_sizes_get :: "runtime \<Rightarrow> uwasm_machine \<Rightarrow> uwasm_machine res" where
  "VM_SYSCALL_args_sizes_get R m =
    bindr (Get_base_addr (RUNTIME_Z_BASE_REG 0) m) (\<lambda>nargs.
    bindr (Get_base_addr (RUNTIME_Z_BASE_REG 1) m) (\<lambda>data_size.
    let total_size = of_nat (length (rt_args R)) :: u32;
        total_len = fold (\<lambda>one_arg total_len. total_len + (of_nat (length one_arg) + 1)) (rt_args R) (0 :: u32) in
    bindr (store32 (mem m) nargs total_size) (\<lambda>blk.
    bindr (store32 blk data_size total_len) (\<lambda>blk.
    Inr (m\<lparr>mem := blk\<rparr>)))))"

text \<open>One iteration of the loop of \<^verbatim>\<open>args_get\<close>: the index, the length so far and memory.\<close>

definition copy_arg :: "address \<Rightarrow> u32 \<Rightarrow> address \<Rightarrow> u8 list \<Rightarrow> nat \<times> u32 \<times> memory \<Rightarrow> (nat \<times> u32 \<times> memory) res" where
  "copy_arg args_ptr base_addr data_chunk one_arg t =
    (let (i, total_len, blk) = t in
     bindr (store32 blk (add_ofs (4 * int i) args_ptr) (base_addr + total_len)) (\<lambda>blk.
     bindr (mem_write blk (add_ofs (uint total_len) data_chunk) one_arg) (\<lambda>blk.
     bindr (store8 blk (add_ofs (uint total_len + int (length one_arg)) data_chunk) 0) (\<lambda>blk.
     Inr (Suc i, total_len + (of_nat (length one_arg) + 1), blk)))))"

definition VM_SYSCALL_args_get :: "runtime \<Rightarrow> uwasm_machine \<Rightarrow> uwasm_machine res" where
  "VM_SYSCALL_args_get R m =
    bindr (Get_base_addr (RUNTIME_Z_BASE_REG 0) m) (\<lambda>args_ptr.
    bindr (i32_get m (RUNTIME_Z_BASE_REG 1)) (\<lambda>base_addr.
    bindr (Get_base_addr (RUNTIME_Z_BASE_REG 1) m) (\<lambda>data_chunk.
    bindr (foldr_res (copy_arg args_ptr base_addr data_chunk) (rt_args R) (0, 0, mem m)) (\<lambda>(i, total_len, blk).
    Inr (m\<lparr>mem := blk\<rparr>)))))"

text \<open>
  One element of the vector of \<^verbatim>\<open>fd_write\<close>: pointer and length, of which only the sum is checked.  The bytes
  are read by \<^verbatim>\<open>writev\<close>.
\<close>

definition ciovec :: "address \<Rightarrow> uwasm_machine \<Rightarrow> nat \<Rightarrow> (u32 \<times> u32) res" where
  "ciovec iovs m i =
    bindr (load32 (mem m) (add_ofs (8 * int i) iovs)) (\<lambda>ptr.
    bindr (load32 (mem m) (add_ofs (8 * int i + 4) iovs)) (\<lambda>buf_len.
    Is_True (ptr + buf_len < mem_size m) (Inr (ptr, buf_len))))"

definition iovec_bytes :: "memory \<Rightarrow> u32 \<times> u32 \<Rightarrow> u8 list res" where
  "iovec_bytes blk iov = mem_read blk (Some (uint (fst iov))) (unat (snd iov))"

definition VM_SYSCALL_fd_write :: "runtime \<Rightarrow> uwasm_machine \<Rightarrow> uwasm_machine res" where
  "VM_SYSCALL_fd_write R m =
    bindr (i32_get m (RUNTIME_PARM_REG 0)) (\<lambda>fd.
    bindr (Get_base_addr (RUNTIME_PARM_REG 1) m) (\<lambda>iovs.
    bindr (i32_get m (RUNTIME_PARM_REG 2)) (\<lambda>iovs_len.
    bindr (Get_base_addr (RUNTIME_PARM_REG 3) m) (\<lambda>result_addr.
    bindr (mapr (ciovec iovs m) [0..<unat iovs_len]) (\<lambda>real_iovs.
    bindr (mapr (iovec_bytes (mem m)) real_iovs) (\<lambda>bufs.
    bindr (store32 (mem m) result_addr (ucast (os_writev (rt_os R) fd bufs))) (\<lambda>blk.
    i32_set 0 0 (m\<lparr>mem := blk\<rparr>))))))))"

definition VM_SYSCALL_uwasm_printfi :: "runtime \<Rightarrow> uwasm_machine \<Rightarrow> uwasm_machine res" where
  "VM_SYSCALL_uwasm_printfi R m =
    bindr (Get_base_addr (RUNTIME_Z_BASE_REG 0) m) (\<lambda>fmt.
    bindr (i32_get m (RUNTIME_PARM_REG 1)) (\<lambda>val.
    bindr (mem_c_str (mem m) fmt) (\<lambda>chars. on_mem (os_printf (rt_os R) chars val) m)))"

definition VM_SYSCALL_uwasm_scanfv :: "runtime \<Rightarrow> uwasm_machine \<Rightarrow> uwasm_machine res" where
  "VM_SYSCALL_uwasm_scanfv R m =
    bindr (Get_base_addr (RUNTIME_Z_BASE_REG 0) m) (\<lambda>fmt.
    bindr (Get_base_addr (RUNTIME_Z_BASE_REG 1) m) (\<lambda>valueptr.
    bindr (mem_c_str (mem m) fmt) (\<lambda>chars. on_mem (os_scanf (rt_os R) chars valueptr) m)))"

definition VM_SYSCALL_uwasm_putchar :: "uwasm_machine \<Rightarrow> uwasm_machine res" where
  "VM_SYSCALL_uwasm_putchar m = bindr (i32_get m (RUNTIME_PARM_REG 0)) (\<lambda>ch. Inr m)"

definition VM_SYSCALL_uwasm_putint :: "uwasm_machine \<Rightarrow> uwasm_machine res" where
  "VM_SYSCALL_uwasm_putint m = bindr (i32_get m (RUNTIME_PARM_REG 0)) (\<lambda>val. Inr m)"

definition VM_SYSCALL_uwasm_randii :: "runtime \<Rightarrow> uwasm_machine \<Rightarrow> uwasm_machine res" where
  "VM_SYSCALL_uwasm_randii R m =
    bindr (i32_get m (RUNTIME_PARM_REG 0)) (\<lambda>min.
    bindr (i32_get m (RUNTIME_PARM_REG 1)) (\<lambda>max.
    i32_set 0 (os_uniform (rt_os R) min max) m))"

definition VM_SYSCALL_uwasm_getchar :: "runtime \<Rightarrow> uwasm_machine \<Rightarrow> uwasm_machine res" where
  "VM_SYSCALL_uwasm_getchar R m =
    (case os_scan_char (rt_os R) of None \<Rightarrow> Inl Assertion | Some reschar \<Rightarrow> i32_set 0 (scast reschar) m)"

definition VM_SYSCALL_uwasm_getint :: "runtime \<Rightarrow> uwasm_machine \<Rightarrow> uwasm_machine res" where
  "VM_SYSCALL_uwasm_getint R m =
    (case os_scan_int (rt_os R) of None \<Rightarrow> Inl Assertion | Some n \<Rightarrow> i32_set 0 n m)"

definition INT_MIN :: u32 where "INT_MIN = 0x80000000"
definition INT_MAX :: u32 where "INT_MAX = 0x7fffffff"

definition VM_SYSCALL_uwasm_rand :: "runtime \<Rightarrow> uwasm_machine \<Rightarrow> uwasm_machine res" where
  "VM_SYSCALL_uwasm_rand R m = i32_set 0 (os_uniform (rt_os R) INT_MIN INT_MAX) m"

definition VM_SYSCALL_uwasm_assert_true :: "uwasm_machine \<Rightarrow> uwasm_machine res" where
  "VM_SYSCALL_uwasm_assert_true m =
    bindr (i32_get m (RUNTIME_PARM_REG 0)) (\<lambda>given. Is_True (given \<noteq> 0) (Inr m))"

definition VM_SYSCALL_proc_exit :: "uwasm_machine \<Rightarrow> uwasm_machine res" where
  "VM_SYSCALL_proc_exit m = bindr (i32_get m (RUNTIME_PARM_REG 0)) (\<lambda>exitval. Inl (Exit_with exitval))"

definition VM_SYSCALL_trap :: "uwasm_machine \<Rightarrow> uwasm_machine res" where
  "VM_SYSCALL_trap m = bindr (i32_get m (RUNTIME_PARM_REG 0)) (\<lambda>trap_param. Inl (Exit_with 6))"

definition VM_SYSCALL_clock_gettime :: "runtime \<Rightarrow> uwasm_machine \<Rightarrow> uwasm_machine res" where
  "VM_SYSCALL_clock_gettime R m =
    bindr (i32_get m (RUNTIME_PARM_REG 0)) (\<lambda>clockid.
    bindr (Get_base_addr (RUNTIME_PARM_REG 1) m) (\<lambda>base_addr.
    let (ret, tv_sec, tv_nsec) = os_clock (rt_os R) clockid in
    bindr (store64 (mem m) base_addr tv_sec) (\<lambda>blk.
    bindr (store64 blk (add_ofs 8 base_addr) tv_nsec) (\<lambda>blk.
    i32_set 0 ret (m\<lparr>mem := blk\<rparr>)))))"

text \<open>
  The product and sum are computed with the 64-bit significand of \<^verbatim>\<open>long double\<close>, which is exact when the result
  fits a signed 64-bit integer; otherwise the conversion back is undefined.
\<close>

definition nanoseconds :: "u64 \<Rightarrow> u64 \<Rightarrow> u64 res" where
  "nanoseconds tv_sec tv_nsec =
    (let n = sint tv_sec * 1000000000 + sint tv_nsec in
     if - (2 ^ 63) \<le> n \<and> n < 2 ^ 63 then Inr (word_of_int n) else Inl Conv_undefined)"

text \<open>The clocks the switch accepts are \<^verbatim>\<open>CLOCK_REALTIME\<close> (0), \<^verbatim>\<open>CLOCK_MONOTONIC\<close> (1) and the two CPU clocks (2, 3).\<close>

definition VM_SYSCALL_clock_time_get :: "runtime \<Rightarrow> uwasm_machine \<Rightarrow> uwasm_machine res" where
  "VM_SYSCALL_clock_time_get R m =
    bindr (i32_get m (RUNTIME_PARM_REG 0)) (\<lambda>clockid.
    bindr (i64_get m (RUNTIME_PARM_REG 0)) (\<lambda>precision.
    bindr (Get_base_addr (RUNTIME_PARM_REG 1) m) (\<lambda>base_addr.
    let (ret, tv_sec, tv_nsec) = os_clock (rt_os R) clockid in
    Is_True (clockid \<le> 3) (
    bindr (nanoseconds tv_sec tv_nsec) (\<lambda>result.
    bindr (store64 (mem m) base_addr result) (\<lambda>blk.
    i32_set 0 0 (m\<lparr>mem := blk\<rparr>)))))))"

definition Get_func_info :: "runtime \<Rightarrow> u32 \<Rightarrow> func_info option" where
  "Get_func_info R func_idx =
    (if unat func_idx \<ge> length (rt_func_infos R) then None else rt_func_infos R ! unat func_idx)"

definition VM_SYSCALL_pthread_create :: "runtime \<Rightarrow> uwasm_machine \<Rightarrow> uwasm_machine res" where
  "VM_SYSCALL_pthread_create R m =
    bindr (Get_base_addr (RUNTIME_PARM_REG 0) m) (\<lambda>thread.
    bindr (Get_base_addr (RUNTIME_PARM_REG 1) m) (\<lambda>attr.
    bindr (Get_base_addr (RUNTIME_PARM_REG 2) m) (\<lambda>start_routine.
    bindr (Get_base_addr (RUNTIME_PARM_REG 3) m) (\<lambda>arg.
    bindr (load32 (mem m) start_routine) (\<lambda>routine_func_idx.
    case Get_func_info R routine_func_idx of None \<Rightarrow> Inl Out_of_block
    | Some func_info \<Rightarrow>
      bindr (Get_native_ptr func_info) (\<lambda>routine.
      bindr (os_pthread_create (rt_os R) thread attr routine arg (mem m)) (\<lambda>(ret, blk).
      i32_set 0 ret (m\<lparr>mem := blk\<rparr>))))))))"

definition VM_SYSCALL_pthread_join :: "runtime \<Rightarrow> uwasm_machine \<Rightarrow> uwasm_machine res" where
  "VM_SYSCALL_pthread_join R m =
    bindr (i32_get m (RUNTIME_PARM_REG 0)) (\<lambda>thread. on_mem (os_pthread_join (rt_os R) thread) m)"

text \<open>Calling through a \<^verbatim>\<open>SYS_CALL_PTR\<close>.\<close>

fun sys_call_ptr :: "runtime \<Rightarrow> sys_call \<Rightarrow> uwasm_machine \<Rightarrow> uwasm_machine res" where
  "sys_call_ptr R SYS_zero = VM_SYSCALL_zero"
| "sys_call_ptr R SYS_one = VM_SYSCALL_one"
| "sys_call_ptr R SYS_trap = VM_SYSCALL_trap"
| "sys_call_ptr R SYS_putchar = VM_SYSCALL_putchar R"
| "sys_call_ptr R SYS_malloc = VM_SYSCALL_malloc R"
| "sys_call_ptr R SYS_free = VM_SYSCALL_free R"
| "sys_call_ptr R SYS_proc_exit = VM_SYSCALL_proc_exit"
| "sys_call_ptr R SYS_uwasm_putlong = VM_SYSCALL_uwasm_putlong"
| "sys_call_ptr R SYS_uwasm_putchar = VM_SYSCALL_uwasm_putchar"
| "sys_call_ptr R SYS_uwasm_printfi = VM_SYSCALL_uwasm_printfi R"
| "sys_call_ptr R SYS_uwasm_getint = VM_SYSCALL_uwasm_getint R"
| "sys_call_ptr R SYS_uwasm_getchar = VM_SYSCALL_uwasm_getchar R"
| "sys_call_ptr R SYS_uwasm_scanfv = VM_SYSCALL_uwasm_scanfv R"
| "sys_call_ptr R SYS_uwasm_putfloat = VM_SYSCALL_uwasm_putfloat"
| "sys_call_ptr R SYS_uwasm_putdouble = VM_SYSCALL_uwasm_putdouble"
| "sys_call_ptr R SYS_uwasm_putstr = VM_SYSCALL_uwasm_putstr"
| "sys_call_ptr R SYS_uwasm_randii = VM_SYSCALL_uwasm_randii R"
| "sys_call_ptr R SYS_uwasm_rand = VM_SYSCALL_uwasm_rand R"
| "sys_call_ptr R SYS_uwasm_assert_true = VM_SYSCALL_uwasm_assert_true"
| "sys_call_ptr R SYS_uwasm_putint = VM_SYSCALL_uwasm_putint"
| "sys_call_ptr R SYS_clock_gettime = VM_SYSCALL_clock_gettime R"
| "sys_call_ptr R SYS_clock_time_get = VM_SYSCALL_clock_time_get R"
| "sys_call_ptr R SYS_pthread_create = VM_SYSCALL_pthread_create R"
| "sys_call_ptr R SYS_pthread_join = VM_SYSCALL_pthread_join R"
| "sys_call_ptr R SYS_fd_write = VM_SYSCALL_fd_write R"
| "sys_call_ptr R SYS_args_get = VM_SYSCALL_args_get R"
| "sys_call_ptr R SYS_args_sizes_get = VM_SYSCALL_args_sizes_get R"

section \<open>Resolving the native imports\<close>

definition ascii :: "string \<Rightarrow> u8 list" where "ascii s = map of_char s"

definition name_ptr_cache :: "(u8 list \<times> sys_call) list" where
  "name_ptr_cache = map (\<lambda>(s, c). (ascii s, c))
    [(''zero'', SYS_zero), (''one'', SYS_one), (''trap'', SYS_trap), (''putchar'', SYS_putchar), (''malloc'', SYS_malloc),
     (''free'', SYS_free), (''proc_exit'', SYS_proc_exit), (''uwasm_putlong'', SYS_uwasm_putlong),
     (''uwasm_putchar'', SYS_uwasm_putchar), (''uwasm_printfi'', SYS_uwasm_printfi), (''uwasm_getint'', SYS_uwasm_getint),
     (''uwasm_getchar'', SYS_uwasm_getchar), (''uwasm_scanfv'', SYS_uwasm_scanfv), (''uwasm_putfloat'', SYS_uwasm_putfloat),
     (''uwasm_putdouble'', SYS_uwasm_putdouble), (''uwasm_putstr'', SYS_uwasm_putstr), (''uwasm_randii'', SYS_uwasm_randii),
     (''uwasm_rand'', SYS_uwasm_rand), (''uwasm_exit'', SYS_proc_exit), (''uwasm_assert_true'', SYS_uwasm_assert_true),
     (''uwasm_putint'', SYS_uwasm_putint), (''clock_gettime'', SYS_clock_gettime), (''clock_time_get'', SYS_clock_time_get),
     (''pthread_create'', SYS_pthread_create), (''pthread_join'', SYS_pthread_join), (''fd_write'', SYS_fd_write),
     (''args_get'', SYS_args_get), (''args_sizes_get'', SYS_args_sizes_get), (''env.uwasm_putlong'', SYS_uwasm_putlong),
     (''env.uwasm_putfloat'', SYS_uwasm_putfloat), (''env.uwasm_putdouble'', SYS_uwasm_putdouble),
     (''env.uwasm_putstr'', SYS_uwasm_putstr), (''wasi_snapshot_preview1.clock_gettime'', SYS_clock_gettime),
     (''wasi_snapshot_preview1.pthread_create'', SYS_pthread_create), (''wasi_snapshot_preview1.pthread_join'', SYS_pthread_join),
     (''wasi_snapshot_preview1.fd_write'', SYS_fd_write), (''wasi_snapshot_preview1.proc_exit'', SYS_proc_exit)]"

text \<open>A C string in a table of names.\<close>

definition str_at :: "u8 list \<Rightarrow> nat \<Rightarrow> u8 list res" where
  "str_at tab i = (if 0 \<in> set (drop i tab) then Inr (takeWhile (\<lambda>b. b \<noteq> 0) (drop i tab)) else Inl Out_of_block)"

definition Get_module_name :: "u_module \<Rightarrow> u16 \<Rightarrow> u8 list res" where
  "Get_module_name m idx = str_at (m_module_name m) (unat idx)"

definition Get_ret_num :: "u_module \<Rightarrow> u16 \<Rightarrow> nat res" where
  "Get_ret_num m type_idx = bindr (arr_at (m_ret_tab m) (unat type_idx)) (\<lambda>tys. Inr (unat (of_nat (length tys) :: u8)))"

definition Get_param_num :: "u_module \<Rightarrow> u16 \<Rightarrow> nat res" where
  "Get_param_num m type_idx = bindr (arr_at (m_param_tab m) (unat type_idx)) (\<lambda>tys. Inr (unat (of_nat (length tys) :: u16)))"

definition Get_ret_type :: "u_module \<Rightarrow> u16 \<Rightarrow> nat \<Rightarrow> u8 res" where
  "Get_ret_type m type_idx i = bindr (arr_at (m_ret_tab m) (unat type_idx)) (\<lambda>tys. vec_at tys (unat (of_nat i :: u8)))"

definition Get_param_type :: "u_module \<Rightarrow> u16 \<Rightarrow> nat \<Rightarrow> u8 res" where
  "Get_param_type m type_idx i = bindr (arr_at (m_param_tab m) (unat type_idx)) (\<lambda>tys. vec_at tys (unat (of_nat i :: u8)))"

text \<open>The native types of a signature start at \<open>ntype_off\<close>: the result first, when there is one.\<close>

definition ntype_at :: "u_module \<Rightarrow> u32 \<Rightarrow> nat \<Rightarrow> u8 res" where
  "ntype_at m ntype_off i = arr_at (m_nn_str m) (unat ntype_off + i)"

definition cif_ntype :: "u_module \<Rightarrow> u32 \<Rightarrow> nat \<Rightarrow> u8 res" where
  "cif_ntype m ntype_off i =
    bindr (ntype_at m ntype_off i) (\<lambda>ntype. Is_True (ntype < ntype_num NTYPE_NUM) (Inr ntype))"

definition Create_cif :: "os \<Rightarrow> u_module \<Rightarrow> u16 \<Rightarrow> u32 \<Rightarrow> ffi_cif res" where
  "Create_cif env m type_idx ntype_off =
    bindr (Get_ret_num m type_idx) (\<lambda>ret_num.
    bindr (Get_param_num m type_idx) (\<lambda>param_num.
    bindr (if ret_num = 1 then cif_ntype m ntype_off 0
           else if ret_num = 0 then Inr (ntype_num NTYPE_V)
           else Inl Assertion) (\<lambda>ret_type.
    bindr (mapr (\<lambda>i. cif_ntype m ntype_off (ret_num + i)) [0..<param_num]) (\<lambda>param_arr.
    Is_True (ffi_prep_cif env ret_type param_arr) (Inr \<lparr>cif_ret = ret_type, cif_params = param_arr\<rparr>)))))"

definition ffi_native_call :: "u8 list list" where
  "ffi_native_call = [ascii ''putchar'']"

type_synonym func_infos = "func_info option list"

definition Reserve_func_info :: "nat \<Rightarrow> func_infos \<Rightarrow> func_infos" where
  "Reserve_func_info n infos = take n infos @ replicate (n - length infos) None"

definition Set_func_info :: "u32 \<Rightarrow> func_info \<Rightarrow> func_infos \<Rightarrow> func_infos res" where
  "Set_func_info func_idx info infos = arr_upd infos (unat func_idx) (Some info)"

text \<open>The body of the loop of \<^verbatim>\<open>Init_cache\<close>; an unknown function leaves its entry as it is, in this build.\<close>

definition resolve_native :: "os \<Rightarrow> u_module \<Rightarrow> ubh_imp_nat \<Rightarrow> u8 list \<Rightarrow> ubh_func \<Rightarrow> func_infos \<Rightarrow> func_infos res" where
  "resolve_native env m imp_nat_entry func_name func infos =
    (let func_idx = in_func_idx imp_nat_entry; ntype_off = in_ntype_off imp_nat_entry; func_info = FUNC_INFO func_idx in
     foldr_res (\<lambda>sym infos.
         if func_name = sym
         then Is_True (os_dlsym env sym) (
              bindr (Create_cif env m (fn_type_idx func) ntype_off) (\<lambda>cif.
              Set_func_info func_idx (Init_native ntype_off (Native_symbol sym) cif func_info) infos))
         else Inr infos)
       ffi_native_call infos)"

definition init_import :: "os \<Rightarrow> u_module \<Rightarrow> nat \<Rightarrow> func_infos \<Rightarrow> func_infos res" where
  "init_import env m i infos =
    bindr (arr_at (m_imp_nat_sec m) i) (\<lambda>imp_nat_entry.
    let func_idx = in_func_idx imp_nat_entry in
    bindr (Get_func m (unat func_idx)) (\<lambda>func.
    let ntype_off = in_ntype_off imp_nat_entry; func_info = FUNC_INFO func_idx in
    bindr (Get_module_name m (fn_name_idx func)) (\<lambda>func_name.
    case map_of name_ptr_cache func_name of
      Some ptr \<Rightarrow> Set_func_info func_idx (Init_syscall ptr func_info) infos
    | None \<Rightarrow>
      if in_nat_off imp_nat_entry \<noteq> 0xffffff
      then bindr (arr_at (m_nat_sec m) (unat (in_nat_idx imp_nat_entry))) (\<lambda>nat_entry.
           bindr (Create_cif env m (fn_type_idx func) ntype_off) (\<lambda>cif.
           Set_func_info func_idx
             (Init_native ntype_off (Native_code (in_nat_idx imp_nat_entry) (in_nat_off imp_nat_entry)) cif func_info) infos))
      else resolve_native env m imp_nat_entry func_name func infos)))"

text \<open>
  \<^verbatim>\<open>Init_cache\<close> sizes the table with the header of section id \<^verbatim>\<open>SEC_FUNC\<close>, a section tag whose number is that of
  the section id \<^verbatim>\<open>S_DATA\<close>.
\<close>

definition Init_cache :: "u_module \<Rightarrow> runtime \<Rightarrow> runtime res" where
  "Init_cache m R =
    (if \<not> Contains_section m S_IMP_NAT then Inr R
     else bindr (sec_elem_num m S_DATA) (\<lambda>func_num.
       bindr (sec_elem_num m S_IMP_NAT) (\<lambda>imp_nat_num.
       bindr (foldr_res (init_import (rt_os R) m) [0..<imp_nat_num] (Reserve_func_info func_num (rt_func_infos R))) (\<lambda>infos.
       Inr (R\<lparr>rt_func_infos := infos\<rparr>)))))"

section \<open>Foreign calls\<close>

definition MAX_PARAM_NUM :: nat where "MAX_PARAM_NUM = 256"

text \<open>One parameter: its value and the counters of the registers used, one for each value type.\<close>

definition ffi_param :: "u_module \<Rightarrow> u16 \<Rightarrow> u32 \<Rightarrow> nat \<Rightarrow> uwasm_machine \<Rightarrow> nat \<Rightarrow> u32 list \<times> ffi_arg list
    \<Rightarrow> (u32 list \<times> ffi_arg list) res" where
  "ffi_param md type_idx ntype_off ret_num m i t =
    (let (param_idx, args) = t in
     bindr (ntype_at md ntype_off (ret_num + i)) (\<lambda>param_ntype.
     bindr (Get_param_type md type_idx i) (\<lambda>param_type.
     if MAX_PARAM_NUM \<le> i then Inl Out_of_block
     else if param_ntype = ntype_num NTYPE_PTR
     then Is_True (param_type = 0) (
       bindr (arr_at param_idx 0) (\<lambda>reg_idx.
       bindr (i32_get m reg_idx) (\<lambda>off.
       bindr (if off \<noteq> 0 then bindr (Get_base_addr reg_idx m) (\<lambda>a. Inr (Arg_ptr (Some a))) else Inr (Arg_ptr None)) (\<lambda>arg.
       bindr (arr_upd param_idx 0 (reg_idx + 1)) (\<lambda>param_idx.
       Inr (param_idx, args @ [arg]))))))
     else Is_True (param_type < 4) (
       bindr (arr_at param_idx (unat param_type)) (\<lambda>reg_idx.
       bindr (if param_type = 0 then bindr (i32_get m reg_idx) (\<lambda>v. Inr (Arg_i32 v))
              else if param_type = 1 then bindr (i64_get m reg_idx) (\<lambda>v. Inr (Arg_i64 v))
              else if param_type = 2 then bindr (f32_get m reg_idx) (\<lambda>v. Inr (Arg_f32 v))
              else bindr (f64_get m reg_idx) (\<lambda>v. Inr (Arg_f64 v))) (\<lambda>arg.
       bindr (arr_upd param_idx (unat param_type) (reg_idx + 1)) (\<lambda>param_idx.
       Inr (param_idx, args @ [arg]))))))))"

text \<open>
  The bytes \<^verbatim>\<open>ffi_call\<close> stores at the address of the first register of a file, cell by cell; a last cell that
  is not filled keeps its upper bytes.
\<close>

definition cell_bytes :: "nat \<Rightarrow> u8 list \<Rightarrow> 'w::len word \<Rightarrow> 'w word" where
  "cell_bytes n bs old = le_word (bs @ drop (length bs) (le_bytes n old))"

definition store_cells :: "nat \<Rightarrow> (uwasm_machine \<Rightarrow> u32 \<Rightarrow> 'w::len word res) \<Rightarrow> (u32 \<Rightarrow> 'w word \<Rightarrow> uwasm_machine \<Rightarrow> uwasm_machine res) \<Rightarrow>
    u8 list \<Rightarrow> uwasm_machine \<Rightarrow> uwasm_machine res" where
  "store_cells n get put bs m =
    foldr_res (\<lambda>k m. bindr (get m (of_nat k)) (\<lambda>old. put (of_nat k) (cell_bytes n (take n (drop (k * n) bs)) old) m))
      [0..<(length bs + n - 1) div n] m"

definition store_ret :: "u8 \<Rightarrow> u8 list \<Rightarrow> uwasm_machine \<Rightarrow> uwasm_machine res" where
  "store_ret ret_type bs m =
    (if ret_type = 0 then store_cells 4 i32_get i32_set bs m
     else if ret_type = 1 then store_cells 8 i64_get i64_set bs m
     else if ret_type = 2 then store_cells 4 f32_get f32_set bs m
     else if ret_type = 3 then store_cells 8 f64_get f64_set bs m
     else Inr m)"

text \<open>A returned pointer becomes an offset from the stack pointer of the machine or from the start of memory.\<close>

definition ret_offset :: "os \<Rightarrow> uwasm_machine \<Rightarrow> u64 \<Rightarrow> u32 res" where
  "ret_offset env m ret_addr =
    (let pos = sint (ret_addr - os_base env) in
     case (x_sp (current m), sta_p m) of
       (Some sp, Some sta) \<Rightarrow> Inr (word_of_int (if pos - sp \<ge> 0 then pos - sta else pos))
     | _ \<Rightarrow> Inl Out_of_block)"

text \<open>What happens to the result of a foreign call.\<close>

definition ffi_return :: "os \<Rightarrow> nat \<Rightarrow> u8 \<Rightarrow> u8 \<Rightarrow> u8 list \<Rightarrow> uwasm_machine \<Rightarrow> uwasm_machine res" where
  "ffi_return env ret_num ret_ntype ret_type bs m =
    (if ret_num = 0 then Inr m
     else if ret_ntype = ntype_num NTYPE_PTR
     then bindr (ret_offset env m (le_word bs)) (\<lambda>off. i32_set 0 off m)
     else store_ret ret_type bs m)"

definition Ffi_call :: "runtime \<Rightarrow> func_info \<Rightarrow> uwasm_machine \<Rightarrow> uwasm_machine res" where
  "Ffi_call R info m =
    (let md = module m; ntype_off = fi_ntype_ofs info in
     bindr (Get_func md (unat (fi_func_idx info))) (\<lambda>func.
     let type_idx = fn_type_idx func in
     case fi_type info of
       FUNC_IS_NATIVE native_ptr cif \<Rightarrow>
         bindr (Get_ret_num md type_idx) (\<lambda>ret_num.
         bindr (Get_param_num md type_idx) (\<lambda>param_num.
         bindr (ntype_at md ntype_off 0) (\<lambda>ret_ntype.
         bindr (if ret_num > 0
                then bindr (Get_ret_type md type_idx 0) (\<lambda>ret_type.
                     Is_True (ret_ntype = ntype_num NTYPE_PTR \<longrightarrow> ret_type = 0) (
                     bindr (arr_upd [0, 0, 0, 0] (unat ret_type) 1) (\<lambda>param_idx. Inr (ret_type, param_idx))))
                else Inr (0, [0, 0, 0, 0])) (\<lambda>(ret_type, param_idx).
         bindr (foldr_res (ffi_param md type_idx ntype_off (if ret_num > 0 then 1 else 0) m) [0..<param_num] (param_idx, [])) (\<lambda>(param_idx, args).
         bindr (ffi_call (rt_os R) cif native_ptr args (mem m)) (\<lambda>(bs, blk).
         ffi_return (rt_os R) ret_num ret_ntype ret_type bs (m\<lparr>mem := blk\<rparr>)))))))
     | _ \<Rightarrow> Inl Assertion))"

definition Call_sys_call :: "runtime \<Rightarrow> u32 \<Rightarrow> uwasm_machine \<Rightarrow> uwasm_machine res" where
  "Call_sys_call R func_idx m =
    bindr (Get_func (module m) (unat func_idx)) (\<lambda>func.
    case Get_func_info R func_idx of
      None \<Rightarrow> Inr m
    | Some info \<Rightarrow>
      (case fi_type info of
        FUNC_IS_SYSCALL ptr \<Rightarrow> sys_call_ptr R ptr m
      | FUNC_IS_NATIVE native_ptr cif \<Rightarrow> Ffi_call R info m
      | FUNC_IS_UWASM \<Rightarrow> Inl Assertion))"

end
