(* ===== verification/Init_Props.thy ===== *)
theory Init_Props
  imports Data_Init Example Expand_Props
begin

text \<open>
  The properties of the preparation of a module for execution: the memory after \<^verbatim>\<open>Fix_up_reloc\<close> on a data
  section of segments, the segments it refuses, and the layout \<^verbatim>\<open>Init_memory\<close> leaves.
\<close>

section \<open>Data segments\<close>

text \<open>\<^verbatim>\<open>Fix_up_reloc\<close> on a module without relocations whose data section holds descriptors and bytes of segments, all
  of which end below the size of the memory, succeeds and leaves in memory the bytes of every segment that no later segment
  overlaps; all bytes outside the segments keep their values.\<close>

lemma data_segments_loaded:
  assumes "Contains_section m S_DATA" and "sec_elem_num m S_DATA = Inr (length (segs_section segs))" and "m_data_sec m = segs_section segs"
    and "\<not> Contains_section m S_RELOC" and "length (segs_section segs) < 2 ^ 32"
    and "mb_live blk" and "unat msize \<le> mb_len blk"
    and "list_all (\<lambda>seg. unat (fst seg) + length (snd seg) < unat msize) segs"
  shows "\<exists>blk'. Fix_up_reloc base m (Some blk) msize = Inr (NUM_SUCC, Some blk') \<and> mb_len blk' = mb_len blk \<and>
    (\<forall>i < length segs.
      list_all (\<lambda>seg. disjoint_range (seg_addr seg) (length (snd seg)) (seg_addr (segs ! i)) (length (snd (segs ! i)))) (drop (Suc i) segs)
      \<longrightarrow> mem_read blk' (seg_addr (segs ! i)) (length (snd (segs ! i))) = Inr (snd (segs ! i))) \<and>
    (\<forall>a n. list_all (\<lambda>seg. disjoint_range (seg_addr seg) (length (snd seg)) a n) segs \<longrightarrow> mem_read blk' a n = mem_read blk a n)"
proof -
  have le: "list_all (\<lambda>seg. unat (fst seg) + length (snd seg) \<le> unat msize) segs"
    using assms(8) by (rule list.pred_mono_strong) simp
  obtain blk' where "foldr_res (copy_seg (segs_section segs) msize) (map seg_info segs) (of_nat (length (segs_head segs)), blk) =
      Inr (of_nat (length (segs_section segs)), blk')" "segs_loaded segs blk blk'"
    using copy_segs [OF segs_section_def assms(5-8)] by blast
  then show ?thesis
    using Fix_up_segments [OF assms(1-5) le, of base blk] by (auto simp: segs_loaded_def)
qed

definition ex_segs :: "segment list" where
  "ex_segs = [(100, [1, 2, 3]), (200, [9]), (101, [7])]"

definition ex_data_module :: u_module where
  "ex_data_module = ex_module\<lparr>m_shdr_tab := [\<lparr>sh_u = 0, sh_idx = 0\<rparr>, \<lparr>sh_u = 0, sh_idx = 0\<rparr>, \<lparr>sh_u = 0x002d0005, sh_idx = 0\<rparr>],
    m_sec_map := [S_DATA \<mapsto> 2], m_data_sec := segs_section ex_segs\<rparr>"

lemma ex_data_module:
  "Contains_section ex_data_module S_DATA" "m_data_sec ex_data_module = segs_section ex_segs" "\<not> Contains_section ex_data_module S_RELOC"
  "length (segs_section ex_segs) = 45" "sec_elem_num ex_data_module S_DATA = Inr (length (segs_section ex_segs))"
proof -
  show len: "length (segs_section ex_segs) = 45" by (simp add: segs_section_def segs_head_length ex_segs_def)
  show "sec_elem_num ex_data_module S_DATA = Inr (length (segs_section ex_segs))" unfolding len
    by (simp add: ex_data_module_def sec_elem_num_def Get_shdr_by_sec_id_def Get_shdr_idx_def arr_at_def Get_elem_num_def Select_struct_def
        Get_sec_tag_def rd_def get_bits_def shdr_field_defs sec_tag_defs drop_bit_eq_div take_bit_eq_mod)
qed (simp_all add: ex_data_module_def Contains_section_def)

text \<open>C31: For segments that all end inside the memory, the last byte of memory included, \<^verbatim>\<open>Calc_max_ofs\<close> is accepted, yet
  \<^verbatim>\<open>Fix_up_reloc\<close> fails its boundary assertion as soon as one segment ends exactly at the end of the memory: the memory
  check of the copy loop is off by one.\<close>

theorem segment_at_end_refused:
  assumes "Contains_section m S_DATA" and "sec_elem_num m S_DATA = Inr (length (segs_section segs))" and "m_data_sec m = segs_section segs"
    and "\<not> Contains_section m S_RELOC" and "length (segs_section segs) < 2 ^ 32"
    and "mb_live blk" and "unat msize \<le> mb_len blk"
    and "list_all (\<lambda>seg. unat (fst seg) + length (snd seg) \<le> unat msize) segs"
  shows "Calc_max_ofs \<lparr>dss_magic = mg, dss_infos = map seg_info segs\<rparr> \<le> msize \<and>
    (Fix_up_reloc base m (Some blk) msize = Inl Assertion \<longleftrightarrow> (\<exists>seg \<in> set segs. unat (fst seg) + length (snd seg) = unat msize))"
proof -
  note run = Fix_up_segments [OF assms(1-5,8), of base blk]
  have iff: "(\<exists>seg \<in> set segs. unat (fst seg) + length (snd seg) = unat msize) \<longleftrightarrow>
      \<not> list_all (\<lambda>seg. unat (fst seg) + length (snd seg) < unat msize) segs"
    using assms(8) unfolding list_all_iff by (metis nat_less_le)
  have "Fix_up_reloc base m (Some blk) msize = Inl Assertion \<longleftrightarrow> \<not> list_all (\<lambda>seg. unat (fst seg) + length (snd seg) < unat msize) segs"
    using copy_segs [OF segs_section_def assms(5-7)] copy_segs_refused [OF segs_section_def assms(5-8)] run by fastforce
  then show ?thesis using Calc_max_segs [OF assms(8), of mg] iff by (simp add: not_less)
qed

theorem segment_at_end_refused_witness:
  "Fix_up_reloc 0 ex_data_module (Some ex_memory) 201 = Inl Assertion"
  using segment_at_end_refused [OF ex_data_module(1,5,2,3), of ex_memory 201 0 0]
  by (simp add: ex_data_module(4) ex_memory_def) (simp add: ex_segs_def)

section \<open>The layout of memory\<close>

text \<open>C32: When \<^verbatim>\<open>Init_memory\<close> succeeds on a memory that is not empty, the stack starts at the end of the memory; the heap starts at
  the number of bytes of the data section (0 without one), rounded up to whole pages, inside the memory; its size is the
  allocator's share of the rest, rounded up to whole pages; the memory space of the allocator was set up exactly there, in the memory the
  data had been placed in; and the global table holds the initial value of every global of the module.  Only the byte count of the section
  matters for the heap: the segments of a section of segments are placed at their own offsets, so the heap can start below a
  segment and contain it, as it does in the example.\<close>

theorem Init_memory_layout:
  assumes "Init_memory F ind protected create_mspace_with_base base mem_p msize (m, heap) = Inr (NUM_SUCC, m', heap')" and "msize \<noteq> 0"
  shows "mem_size m' = msize \<and> sta_p m' = Some (uint msize) \<and>
    unat (he_off heap') = (data_count (module m') + 4095) div 4096 * 4096 \<and> he_off heap' \<le> msize \<and>
    (\<exists>hs. heap_size F (msize - he_off heap') = Inr hs \<and> he_size heap' = page_up hs) \<and>
    (\<exists>blk. Prepare_before_run ind protected base (module m) mem_p msize = Inr (NUM_SUCC, module m', blk) \<and>
      create_mspace_with_base (base + ucast (he_off heap')) (ucast (he_size heap')) (mem_block blk) =
        Inr (Some (base + ucast (he_off heap'), ucast (he_size heap')), mem m')) \<and>
    (Contains_section (module m') S_GLBL \<longrightarrow> (\<exists>n. sec_elem_num (module m') S_GLBL = Inr n \<and> length (global_start m') = n \<and>
      (\<forall>i < n. i < length (m_glbl_sec (module m')) \<and> global_start m' ! i = g_init_val (m_glbl_sec (module m') ! i))))"
proof -
  obtain md d g blk mem' hs where d: "data_size md = Inr d" and "page_up d \<le> msize" "heap_size F (msize - page_up d) = Inr hs"
    and g: "Init_global md (global_start m) = Inr g"
    and "Prepare_before_run ind protected base (module m) mem_p msize = Inr (NUM_SUCC, md, blk)"
      "create_mspace_with_base (base + ucast (page_up d)) (ucast (page_up hs)) (mem_block blk) =
        Inr (Some (base + ucast (page_up d), ucast (page_up hs)), mem')"
      "m' = m\<lparr>mem_size := msize, module := md, sta_p := Some (uint msize), global_start := g, mem := mem'\<rparr>"
      "heap' = \<lparr>he_off = page_up d, he_size = page_up hs\<rparr>"
    using assms by (rule Init_memory_succ)
  then show ?thesis using data_size_page [OF d] Init_global_values [OF g] by simp
qed

text \<open>A module with no function, one global and a data section of one segment of three bytes, at 5000.\<close>

definition ex_init_segs :: "segment list" where
  "ex_init_segs = [(5000, [1, 2, 3])]"

definition ex_init_module :: u_module where
  "ex_init_module = ex_module\<lparr>m_shdr_tab := [\<lparr>sh_u = 0x3, sh_idx = 0\<rparr>, \<lparr>sh_u = 0x106, sh_idx = 0\<rparr>, \<lparr>sh_u = 0x001b0005, sh_idx = 0\<rparr>],
    m_sec_map := [S_FUNC \<mapsto> 0, S_GLBL \<mapsto> 1, S_DATA \<mapsto> 2], m_data_sec := segs_section ex_init_segs,
    m_glbl_sec := [\<lparr>g_mut = 0, g_ty = 0, g_data_idx = 0, g_init_val = 77\<rparr>]\<rparr>"

lemma ex_init_tables:
  "m_data_sec ex_init_module = segs_section ex_init_segs" "m_glbl_sec ex_init_module = [\<lparr>g_mut = 0, g_ty = 0, g_data_idx = 0, g_init_val = 77\<rparr>]"
  "length (segs_section ex_init_segs) = 27"
  by (simp_all add: ex_init_module_def segs_section_def segs_head_length ex_init_segs_def)

lemma ex_init_sections:
  "Contains_section ex_init_module S_DATA" "Contains_section ex_init_module S_GLBL" "\<not> Contains_section ex_init_module S_RELOC"
  "\<not> Contains_section ex_init_module S_NAT" "sec_elem_num ex_init_module S_DATA = Inr 27" "sec_elem_num ex_init_module S_GLBL = Inr 1"
  "sec_elem_num ex_init_module S_FUNC = Inr 0"
  by (simp_all add: ex_init_module_def ex_module_def Contains_section_def sec_elem_num_def Get_shdr_by_sec_id_def Get_shdr_idx_def arr_at_def
      Get_elem_num_def Select_struct_def Get_sec_tag_def rd_def get_bits_def shdr_field_defs sec_tag_defs drop_bit_eq_div take_bit_eq_mod)

definition ex_init_fpu :: fpu where
  "ex_init_fpu = ex_fpu\<lparr>f32_mul := (\<lambda>a b. a - a div 5), f32_trunc := (\<lambda>a. Some (uint a))\<rparr>"

definition ex_prepared :: u_module where
  "ex_prepared = (case Expand_code ex_ind ex_init_module of Inr m \<Rightarrow> m | Inl e \<Rightarrow> ex_init_module)"

lemma ex_prepared:
  "Expand_code ex_ind ex_init_module = Inr ex_prepared"
  "m_sec_map ex_prepared = m_sec_map ex_init_module" "m_shdr_tab ex_prepared = m_shdr_tab ex_init_module"
  "m_glbl_sec ex_prepared = m_glbl_sec ex_init_module"
  by (simp_all add: ex_prepared_def Expand_code_def ex_init_sections arr_at_def)

lemma ex_prepared_sections:
  "Contains_section ex_prepared s = Contains_section ex_init_module s" "sec_elem_num ex_prepared s = sec_elem_num ex_init_module s"
  by (simp_all add: Contains_section_def sec_elem_num_def Get_shdr_by_sec_id_def Get_shdr_idx_def ex_prepared)

definition ex_create :: create_mspace where
  "ex_create pbase sz blk = Inr (Some (pbase, sz), blk)"

abbreviation ex_init :: "(u32 \<times> uwasm_machine \<times> heap_area) res" where
  "ex_init \<equiv> Init_memory ex_init_fpu ex_ind (\<lambda>n. True) ex_create 0 (Some ex_memory) 65536
    (ex_fresh\<lparr>module := ex_init_module\<rparr>, \<lparr>he_off = 0, he_size = 0\<rparr>)"

lemma ex_init_loaded:
  "\<exists>blk. Prepare_before_run ex_ind (\<lambda>n. True) 0 ex_init_module (Some ex_memory) 65536 = Inr (NUM_SUCC, ex_prepared, Some blk) \<and>
    mem_read blk (Some 5000) 3 = Inr [1, 2, 3]"
proof -
  have len: "sec_elem_num ex_init_module S_DATA = Inr (length (segs_section ex_init_segs))" "length (segs_section ex_init_segs) < 2 ^ 32"
    by (simp_all add: ex_init_sections ex_init_tables)
  from data_segments_loaded [OF ex_init_sections(1) len(1) ex_init_tables(1) ex_init_sections(3) len(2), of ex_memory 65536 0]
  obtain blk where blk: "Fix_up_reloc 0 ex_init_module (Some ex_memory) 65536 = Inr (NUM_SUCC, Some blk)"
    "mem_read blk (seg_addr (5000, [1, 2, 3])) 3 = Inr [1, 2, 3]"
    by (auto simp: ex_init_segs_def ex_memory_def numeral_3_eq_3)
  have "Prepare_before_run ex_ind (\<lambda>n. True) 0 ex_init_module (Some ex_memory) 65536 = Inr (NUM_SUCC, ex_prepared, Some blk)"
    by (simp add: Prepare_before_run_def blk(1) ex_prepared Mprotect_bin_buff_def ex_prepared_sections ex_init_sections)
  then show ?thesis using blk(2) by auto
qed

lemma ex_init_run: "\<exists>m heap. ex_init = Inr (NUM_SUCC, m, heap) \<and> module m = ex_prepared"
proof -
  obtain blk where prep: "Prepare_before_run ex_ind (\<lambda>n. True) 0 ex_init_module (Some ex_memory) 65536 = Inr (NUM_SUCC, ex_prepared, Some blk)"
    using ex_init_loaded by blast
  have "heap_size ex_init_fpu (65536 - 4096) = Inr 49152"
    by (simp add: heap_size_def ex_init_fpu_def ex_fpu_def)
  moreover have "Init_global ex_prepared old = Inr [77]" for old
    by (simp add: Init_global_def ex_prepared_sections ex_init_sections Get_glbl_def ex_prepared arr_at_def ex_init_tables)
  moreover have "page_up 27 = 4096" by (simp add: page_up_def PAGE_SIZE_def)
  ultimately show ?thesis
    by (auto simp: Init_memory_def Let_def prep data_size_def ex_prepared_sections ex_init_sections UVM_heap_initialize_def ex_create_def)
qed

text \<open>The heap of the example, from 4096 on, contains the segment.\<close>

theorem Init_memory_layout_witness:
  "\<exists>m heap. ex_init = Inr (NUM_SUCC, m, heap) \<and> he_off heap = 4096 \<and> he_size heap = 49152 \<and>
    mem_read (mem m) (Some 5000) 3 = Inr [1, 2, 3] \<and> global_start m = [77]"
proof -
  obtain m heap where run: "ex_init = Inr (NUM_SUCC, m, heap)" "module m = ex_prepared" using ex_init_run by blast
  have count: "data_count ex_prepared = 27" by (simp add: data_count_def ex_prepared_sections ex_init_sections)
  have "(65536 :: u32) \<noteq> 0" by simp
  note layout = Init_memory_layout [OF run(1) this]
  have off: "he_off heap = 4096" using layout by (simp add: run(2) count word_unat_eq_iff)
  have "heap_size ex_init_fpu (65536 - 4096) = Inr 49152" by (simp add: heap_size_def ex_init_fpu_def ex_fpu_def)
  then have "he_size heap = 49152" using layout by (auto simp: off page_up_def PAGE_SIZE_def)
  moreover have "length (global_start m) = 1 \<and> global_start m ! 0 = 77"
    using layout by (simp add: run(2) ex_prepared_sections ex_init_sections ex_prepared(4) ex_init_tables)
  moreover have "mem_read (mem m) (Some 5000) 3 = Inr [1, 2, 3]"
    using layout ex_init_loaded by (auto simp: ex_create_def mem_block_def)
  ultimately show ?thesis using run(1) off by (auto simp: length_Suc_conv)
qed

end
