(* ===== verification/Runtime_Props.thy ===== *)
theory Runtime_Props
  imports U_Runtime Call_Props Init_Props
begin

text \<open>
  The properties of the runtime: system and native calls keep the frame of the machine, so a call into the
  runtime keeps the locals of the caller; which functions \<^verbatim>\<open>Init_cache\<close> binds;
  and the offsets \<^verbatim>\<open>malloc\<close> and \<^verbatim>\<open>free\<close> use.
\<close>

section \<open>System calls keep the frame\<close>

lemma pres_case_prod [pres_intros]: "(\<And>a b. pres (\<lambda>m. f a b m)) \<Longrightarrow> pres (\<lambda>m. case x of (a, b) \<Rightarrow> f a b m)"
  by (cases x) simp

lemma pres_case_option [pres_intros]:
  "pres (\<lambda>m. f m) \<Longrightarrow> (\<And>a. pres (\<lambda>m. g a m)) \<Longrightarrow> pres (\<lambda>m. case x m of None \<Rightarrow> f m | Some a \<Rightarrow> g a m)"
  by (auto simp: pres_def split: option.splits)

lemma pres_on_mem [pres_intros]: "pres (\<lambda>m. on_mem f m)"
  by (rule pres_eq, rule on_mem_def, intro pres_intros)

lemma pres_after_mem [pres_intros]:
  assumes "pres f"
  shows "pres (\<lambda>m. f (m\<lparr>mem := blk\<rparr>))"
proof -
  have "frame_eq m (m\<lparr>mem := blk\<rparr>)" for m by (simp add: frame_eq_def)
  with assms show ?thesis unfolding pres_def by (blast intro: frame_eq_trans)
qed

lemmas sys_call_defs = VM_SYSCALL_zero_def VM_SYSCALL_one_def VM_SYSCALL_trap_def VM_SYSCALL_putchar_def VM_SYSCALL_malloc_def
  VM_SYSCALL_free_def VM_SYSCALL_proc_exit_def VM_SYSCALL_uwasm_putlong_def VM_SYSCALL_uwasm_putchar_def VM_SYSCALL_uwasm_printfi_def
  VM_SYSCALL_uwasm_getint_def VM_SYSCALL_uwasm_getchar_def VM_SYSCALL_uwasm_scanfv_def VM_SYSCALL_uwasm_putfloat_def
  VM_SYSCALL_uwasm_putdouble_def VM_SYSCALL_uwasm_putstr_def VM_SYSCALL_uwasm_randii_def VM_SYSCALL_uwasm_rand_def
  VM_SYSCALL_uwasm_assert_true_def VM_SYSCALL_uwasm_putint_def VM_SYSCALL_clock_gettime_def VM_SYSCALL_clock_time_get_def
  VM_SYSCALL_pthread_create_def VM_SYSCALL_pthread_join_def VM_SYSCALL_fd_write_def VM_SYSCALL_args_get_def VM_SYSCALL_args_sizes_get_def

lemma pres_sys_call: "pres (sys_call_ptr R c)"
  by (cases c) (simp_all only: sys_call_ptr.simps, (rule pres_eq, rule sys_call_defs, intro pres_intros)+)

lemma pres_foldr_res: "(\<And>x. pres (f x)) \<Longrightarrow> pres (foldr_res f xs)"
proof (induction xs)
  case (Cons x xs)
  then show ?case by (fastforce simp: pres_def intro: frame_eq_trans)
qed (simp add: pres_def)

lemma pres_store_cells:
  assumes "\<And>i v. pres (put i v)"
  shows "pres (store_cells n get put bs)"
  unfolding store_cells_def
  by (rule pres_eq [OF HOL.refl pres_foldr_res], rule pres_bind_val, rule assms)

lemma pres_store_ret: "pres (\<lambda>m. store_ret ty bs m)"
  unfolding store_ret_def by (intro pres_if pres_store_cells pres_set pres_Inr)

lemma pres_ffi_return: "pres (\<lambda>m. ffi_return env n t1 t2 bs m)"
  unfolding ffi_return_def by (intro pres_if pres_bind_val pres_set pres_store_ret pres_Inr)

lemma pres_case_func_type:
  "(\<And>p c. pres (f p c)) \<Longrightarrow> pres (\<lambda>m. case t of FUNC_IS_NATIVE p c \<Rightarrow> f p c m | _ \<Rightarrow> Inl e)"
  by (cases t) (simp_all add: pres_def)

lemma pres_Ffi_call: "pres (\<lambda>m. Ffi_call R info m)"
  unfolding Ffi_call_def by (intro pres_let pres_bind_val pres_case_func_type pres_case_prod pres_after_mem pres_ffi_return)

lemma Call_sys_call_frame: "Call_sys_call R idx m = Inr m' \<Longrightarrow> frame_eq m m'"
  using pres_sys_call pres_Ffi_call
  by (auto simp: Call_sys_call_def pres_def split: option.splits func_type.splits)

text \<open>The machine together with its runtime.\<close>

definition runtime_host :: "fpu \<Rightarrow> (nat \<Rightarrow> realloc_result) \<Rightarrow> runtime \<Rightarrow> host" where
  "runtime_host F re R = \<lparr>h_fpu = F, h_realloc = re, h_sys_call = Call_sys_call R\<rparr>"

lemma runtime_sys_ok: "sys_ok (runtime_host F re R)"
  by (simp add: sys_ok_def runtime_host_def Call_sys_call_frame)

text \<open>C33: a call into the runtime.  When, in a state the machine with its runtime reaches, a function that is
  extern or native is called and the call succeeds, execution continues at the instruction after the call in the
  caller's own context, with the same contexts below it, and every local register of the caller, in each of the
  four files, still has its value, whatever the system call or the foreign function did.\<close>

theorem native_call_preserves_locals:
  assumes "fresh m0" and "Init_env f m0 = Inr m_init" and "reaches (runtime_host F re R) m_init m"
    and "native_callee m idx" and "Func_prologue (runtime_host F re R) idx m = Inr m'"
  shows "current m' = (current m)\<lparr>x_pc := map_option Suc (x_pc (current m))\<rparr> \<and>
    cs_abs (ctx_stack m') = cs_abs (ctx_stack m) \<and> locals_kept m m'"
proof -
  have inv: "minv m" by (rule reaches_minv [OF assms(3) Init_env_minv [OF assms(1,2)] runtime_sys_ok])
  obtain m1 where m1: "minv m1" "cs_abs (ctx_stack m1) = frames m" "cells m1 = cells m" "past_locals m (current m1)" "sizes m1 = sizes m"
    and "(if native_callee m idx then call_native (runtime_host F re R) idx m1 else enter_callee idx m1) = Inr m'"
    using Func_prologue_cases [OF inv assms(5)] .
  then have "call_native (runtime_host F re R) idx m1 = Inr m'" using assms(4) by simp
  note ret = call_native_minv [OF m1(1) runtime_sys_ok this]
  have frame: "current m' = (current m)\<lparr>x_pc := map_option Suc (x_pc (current m))\<rparr>" "cs_abs (ctx_stack m') = cs_abs (ctx_stack m)"
    using ret(2,3) m1(2) by (simp_all add: frames_def)
  have "same_fps (current m') (current m)" using frame(1) by (simp add: same_fps_def)
  moreover have "sizes_le m m'" using ret(5) m1(5) by (simp add: sizes_le_eq)
  moreover have "cells_kept (current m1) m m'" using ret(4) cells_kept_eq [OF m1(3)] cells_kept_trans by blast
  ultimately show ?thesis using frame cells_kept_locals [OF inv ret(1) _ _ m1(4)] by blast
qed

definition ex_os :: os where
  "ex_os = \<lparr>os_putchar = (\<lambda>c. c), os_scan_char = Some 65, os_scan_int = Some 7, os_printf = (\<lambda>fmt v blk. Inr blk),
    os_scanf = (\<lambda>fmt a blk. store32 blk a 7), os_uniform = (\<lambda>a b. a), os_clock = (\<lambda>c. (0, 1, 5)), os_writev = (\<lambda>fd bufs. of_nat (length (concat bufs))),
    os_pthread_create = (\<lambda>t a r x blk. Inr (0, blk)), os_pthread_join = (\<lambda>t blk. Inr blk),
    mspace_malloc = (\<lambda>heap sz blk. Inr (Some 64, blk)), mspace_free = (\<lambda>heap p blk. Inr blk), mspace_extp = (\<lambda>p blk. p), os_dlsym = (\<lambda>s. True),
    ffi_prep_cif = (\<lambda>r ps. True), ffi_call = (\<lambda>c p args blk. Inr (le_bytes 8 (1 :: u64), blk)), os_base = 0\<rparr>"

definition ex_runtime :: runtime where
  "ex_runtime = \<lparr>rt_os = ex_os, rt_args = [[97, 98], [99]], rt_heap = \<lparr>he_off = 4096, he_size = 8192\<rparr>,
    rt_func_infos = [None, Some (Init_syscall SYS_one (FUNC_INFO 1))]\<rparr>"

definition ex_native_fresh :: uwasm_machine where
  "ex_native_fresh = ex_fresh\<lparr>module := ex_module\<lparr>m_func_sec := [UBH_FUNC 0 0 0 0, UBH_FUNC 0 0 F_EXTERN 1]\<rparr>\<rparr>"

abbreviation ex_rt_host :: host where
  "ex_rt_host \<equiv> runtime_host ex_fpu (\<lambda>n. Realloc_in_place) ex_runtime"

lemma ex_native_run:
  "\<exists>m m'. Init_env 0 ex_native_fresh = Inr m \<and> native_callee m 1 \<and> Func_prologue ex_rt_host 1 m = Inr m'"
  by (simp add: ex_native_fresh_def ex_defs frame_ops step_ops native_callee_def call_native_def runtime_host_def ex_runtime_def
      Call_sys_call_def Get_func_info_def Init_syscall_def FUNC_INFO_def VM_SYSCALL_one_def)

theorem native_call_preserves_locals_witness:
  "\<exists>m m'. Init_env 0 ex_native_fresh = Inr m \<and> Func_prologue ex_rt_host 1 m = Inr m' \<and> locals_kept m m' \<and> cs_abs (ctx_stack m') = cs_abs (ctx_stack m)"
proof -
  obtain m m' where run: "Init_env 0 ex_native_fresh = Inr m" "native_callee m 1" "Func_prologue ex_rt_host 1 m = Inr m'"
    using ex_native_run by blast
  have "fresh ex_native_fresh" using ex_fresh_ok by (simp add: fresh_def ex_native_fresh_def fps_agree_def regs_inv_def)
  then show ?thesis using native_call_preserves_locals [OF _ run(1) reaches.refl run(2,3)] run by blast
qed

section \<open>The heap\<close>

text \<open>The widened signed offset passes the test of \<^verbatim>\<open>UVM_heap_free\<close> only if it is not negative.\<close>

lemma scast_below:
  fixes w n :: u32
  assumes "(scast w :: u64) < ucast n"
  shows "unat (scast w :: u64) = unat w"
proof -
  have s: "sint w = (uint w + 2 ^ 31) mod 2 ^ 32 - 2 ^ 31"
    by (simp add: sint_uint signed_take_bit_eq_take_bit_shift take_bit_eq_mod)
  have "uint (word_of_int (sint w) :: u64) = sint w mod 2 ^ 64" by (simp add: uint_word_of_int del: of_int_sint)
  then have "uint (scast w :: u64) = sint w mod 2 ^ 64" by simp
  moreover have "uint n < 2 ^ 32" "uint w < 2 ^ 32" using uint_lt2p [of n] uint_lt2p [of w] by simp_all
  moreover have "uint (ucast n :: u64) = uint n"
    using \<open>uint n < 2 ^ 32\<close> by (simp add: unsigned_ucast_eq take_bit_int_eq_self_iff)
  moreover have "uint (scast w :: u64) < uint (ucast n :: u64)" using assms by (simp add: word_less_def)
  ultimately have "uint (scast w :: u64) < 2 ^ 32" "uint (scast w :: u64) = sint w mod 2 ^ 64" by simp_all
  moreover have "sint w mod 2 ^ 64 = uint w - 2 ^ 32 + 2 ^ 64" if "2 ^ 31 \<le> uint w"
  proof -
    have "(uint w + 2 ^ 31) mod 2 ^ 32 = uint w - 2 ^ 31"
      using that \<open>uint w < 2 ^ 32\<close> by (simp add: mod_pos_geq)
    then have "sint w mod 2 ^ 64 = (uint w - 2 ^ 32 + 2 ^ 64) mod 2 ^ 64" using s by (simp only: mod_add_self2) simp
    then show ?thesis using that \<open>uint w < 2 ^ 32\<close> by simp
  qed
  moreover have "sint w mod 2 ^ 64 = uint w" if "uint w < 2 ^ 31" using s that by simp
  ultimately have "uint (scast w :: u64) = uint w" by (cases "uint w < 2 ^ 31") simp_all
  then show ?thesis by (simp only: unat_eq_nat_uint)
qed

text \<open>C37: freeing what was allocated.  The pointer \<^verbatim>\<open>malloc\<close> hands out counts from the start of memory, but \<^verbatim>\<open>free\<close> adds the
  offset of the heap to it and passes the sum as counted from the heap: for a heap that does not start at the beginning of memory, and
  lies in its lower gigabyte, the allocator is asked to free another block than the one it allocated, or an assertion fails.\<close>

theorem free_misses_block:
  assumes "U_malloc R sz blk = Inr (ptr, blk')" and "0 < he_off (rt_heap R)" and "he_off (rt_heap R) < 2 ^ 30" and "he_size (rt_heap R) < 2 ^ 30"
  shows "\<exists>offset. mspace_malloc (rt_os R) (rt_heap R) sz blk = Inr (Some offset, blk') \<and> ptr = he_off (rt_heap R) + ucast offset \<and>
    (\<forall>blk2. U_free R ptr blk2 = Inl Assertion \<or>
      (\<exists>wrong. U_free R ptr blk2 = mspace_free (rt_os R) (rt_heap R) wrong blk2 \<and> unat wrong = unat offset + 2 * unat (he_off (rt_heap R))))"
proof -
  let ?off = "he_off (rt_heap R)" and ?sz = "he_size (rt_heap R)"
  obtain offset where offset: "mspace_malloc (rt_os R) (rt_heap R) sz blk = Inr (Some offset, blk')" "offset < ucast ?sz" "ptr = ?off + ucast offset"
    using assms(1) by (auto simp: U_malloc_def UVM_heap_malloc_def UVM_pbase_to_space_def Let_def split: option.splits)
  have small: "unat ?off < 2 ^ 30" "unat ?sz < 2 ^ 30" using assms(3,4) by (simp_all add: word_less_nat_alt)
  have lt: "unat offset < unat ?sz" using offset(2) by (simp add: word_less_nat_alt unsigned_ucast_eq take_bit_nat_eq_self unat_ucast_u64)
  have "unat (ucast offset :: u32) = unat offset" using lt small(2) by (simp add: unsigned_ucast_eq take_bit_nat_eq_self)
  then have sum: "unat (?off + ptr) = unat offset + 2 * unat ?off"
    using small lt by (simp add: offset(3) unat_word_ariths)
  have "unat (scast (?off + ptr) :: u64) = unat offset + 2 * unat ?off" if "(scast (?off + ptr) :: u64) < ucast ?sz"
    using scast_below [OF that] sum by simp
  then show ?thesis using offset by (auto simp: U_free_def UVM_heap_free_def UVM_pbase_to_space_def Let_def Is_True_def)
qed

theorem free_misses_block_witness:
  "U_malloc ex_runtime 16 ex_memory = Inr (4160, ex_memory) \<and>
    (\<exists>offset. 4160 = he_off (rt_heap ex_runtime) + ucast (offset :: u64) \<and>
      (U_free ex_runtime 4160 ex_memory = Inl Assertion \<or>
       (\<exists>wrong. U_free ex_runtime 4160 ex_memory = mspace_free ex_os (rt_heap ex_runtime) wrong ex_memory \<and> unat wrong \<noteq> unat offset)))"
proof -
  have run: "U_malloc ex_runtime 16 ex_memory = Inr (4160, ex_memory)" "rt_os ex_runtime = ex_os"
    "0 < he_off (rt_heap ex_runtime)" "he_off (rt_heap ex_runtime) < 2 ^ 30" "he_size (rt_heap ex_runtime) < 2 ^ 30" "unat (he_off (rt_heap ex_runtime)) = 4096"
    by (simp_all add: U_malloc_def UVM_heap_malloc_def UVM_pbase_to_space_def Let_def ex_runtime_def ex_os_def)
  show ?thesis using free_misses_block [OF run(1,3-5)] run(1,6) unfolding run(2) by (metis add_cancel_right_right mult_eq_0_iff zero_neq_numeral)
qed

section \<open>Resolving imports\<close>

text \<open>The functions an import binds: only the entry of its own function changes.\<close>

lemma init_import_step:
  assumes "init_import env m j infos = Inr infos'" and "arr_at (m_imp_nat_sec m) j = Inr e"
  shows "length infos' = length infos" and "\<And>k. k \<noteq> unat (in_func_idx e) \<Longrightarrow> infos' ! k = infos ! k"
    and "\<And>func name c. Get_func m (unat (in_func_idx e)) = Inr func \<Longrightarrow> Get_module_name m (fn_name_idx func) = Inr name \<Longrightarrow>
      map_of name_ptr_cache name = Some c \<Longrightarrow>
      unat (in_func_idx e) < length infos \<and> infos' ! unat (in_func_idx e) = Some (Init_syscall c (FUNC_INFO (in_func_idx e)))"
  using assms
  by (auto simp: init_import_def Let_def Set_func_info_def arr_upd_def resolve_native_def ffi_native_call_def Is_True_def
      split: option.splits if_split_asm)

text \<open>Import \<open>i\<close> of a module names function \<open>f\<close>, whose name is that of system call \<open>c\<close>.\<close>

definition sys_import :: "u_module \<Rightarrow> nat \<Rightarrow> u32 \<Rightarrow> sys_call \<Rightarrow> bool" where
  "sys_import m i f c \<longleftrightarrow> i < length (m_imp_nat_sec m) \<and> in_func_idx (m_imp_nat_sec m ! i) = f \<and>
    (case Get_func m (unat f) of Inl e \<Rightarrow> False
     | Inr func \<Rightarrow> (case Get_module_name m (fn_name_idx func) of Inl e \<Rightarrow> False | Inr name \<Rightarrow> map_of name_ptr_cache name = Some c))"

lemma sys_import_step:
  assumes "init_import env m i infos = Inr infos'" and "sys_import m i f c"
  shows "unat f < length infos \<and> infos' ! unat f = Some (Init_syscall c (FUNC_INFO f))"
  using init_import_step(3) [OF assms(1), of "m_imp_nat_sec m ! i"] assms(2)
  by (auto simp: sys_import_def arr_at_def split: sum.splits)

lemma init_imports:
  assumes "foldr_res (init_import env m) [0..<n] infos = Inr infos'"
    and "distinct (map in_func_idx (take n (m_imp_nat_sec m)))" and "n \<le> length (m_imp_nat_sec m)"
  shows "length infos' = length infos \<and>
    (\<forall>i < n. \<forall>f c. sys_import m i f c \<longrightarrow> unat f < length infos \<and> infos' ! unat f = Some (Init_syscall c (FUNC_INFO f)))"
  using assms
proof (induction n arbitrary: infos')
  case (Suc n)
  then obtain mid where mid: "foldr_res (init_import env m) [0..<n] infos = Inr mid" "init_import env m n mid = Inr infos'"
    by (auto simp: foldr_res_append)
  let ?e = "m_imp_nat_sec m ! n"
  have "arr_at (m_imp_nat_sec m) n = Inr ?e" using Suc.prems(3) by (simp add: arr_at_def)
  note step = init_import_step [OF mid(2) this]
  have split: "take (Suc n) (m_imp_nat_sec m) = take n (m_imp_nat_sec m) @ [?e]"
    using Suc.prems(3) by (simp add: take_Suc_conv_app_nth)
  have IH: "length mid = length infos \<and>
      (\<forall>i < n. \<forall>f c. sys_import m i f c \<longrightarrow> unat f < length infos \<and> mid ! unat f = Some (Init_syscall c (FUNC_INFO f)))"
    using Suc.IH [OF mid(1)] Suc.prems(2,3) by (simp add: split)
  have "unat f \<noteq> unat (in_func_idx ?e)" if "i < n" "sys_import m i f c" for i f c
  proof -
    have "m_imp_nat_sec m ! i \<in> set (take n (m_imp_nat_sec m))"
      using that Suc.prems(3) by (auto simp: in_set_conv_nth intro!: exI [of _ i])
    then have "f \<in> in_func_idx ` set (take n (m_imp_nat_sec m))" using that(2) by (auto simp: sys_import_def)
    moreover have "in_func_idx ?e \<notin> in_func_idx ` set (take n (m_imp_nat_sec m))" using Suc.prems(2) by (simp add: split)
    ultimately have "f \<noteq> in_func_idx ?e" by metis
    then show ?thesis by (simp add: word_unat_eq_iff)
  qed
  then show ?case using IH step(1,2) sys_import_step [OF mid(2)] by (auto simp: less_Suc_eq)
qed simp

text \<open>C34: binding system calls.  When \<^verbatim>\<open>Init_cache\<close> succeeds on a module whose native imports are for different functions, every
  imported function whose name is that of a system call is bound to it: calling the function runs exactly that system call.\<close>

theorem Init_cache_binds:
  assumes "Init_cache m R = Inr R'" and "Contains_section m S_IMP_NAT" and "sec_elem_num m S_IMP_NAT = Inr n"
    and "n \<le> length (m_imp_nat_sec m)" and "distinct (map in_func_idx (take n (m_imp_nat_sec m)))"
    and "i < n" and "sys_import m i f c" and "module mach = m"
  shows "Call_sys_call R' f mach = sys_call_ptr R' c mach"
proof -
  obtain d infos where "foldr_res (init_import (rt_os R) m) [0..<n] (Reserve_func_info d (rt_func_infos R)) = Inr infos"
    and R': "R' = R\<lparr>rt_func_infos := infos\<rparr>"
    using assms(1-3) by (auto simp: Init_cache_def)
  from init_imports [OF this(1) assms(5,4)] assms(6,7)
  have "unat f < length infos" "infos ! unat f = Some (Init_syscall c (FUNC_INFO f))" by auto
  then have "Get_func_info R' f = Some (Init_syscall c (FUNC_INFO f))" by (simp add: Get_func_info_def R')
  moreover obtain func where "Get_func m (unat f) = Inr func" using assms(7) by (auto simp: sys_import_def split: sum.splits)
  ultimately show ?thesis using assms(8) by (simp add: Call_sys_call_def Init_syscall_def)
qed

text \<open>C35: the table of \<^verbatim>\<open>Init_cache\<close> is sized by the data section.  On a module with native imports and no data section it fails an
  assertion, and it cannot succeed when an imported system call has a function index that is not below the number of bytes of the
  data section, however many functions the module has.\<close>

theorem Init_cache_sized_by_data:
  assumes "Contains_section m S_IMP_NAT" and "sec_elem_num m S_IMP_NAT = Inr n"
    and "n \<le> length (m_imp_nat_sec m)" and "distinct (map in_func_idx (take n (m_imp_nat_sec m)))"
    and "i < n" and "sys_import m i f c"
  shows "(\<not> Contains_section m S_DATA \<longrightarrow> Init_cache m R = Inl Assertion) \<and>
    (\<forall>d R'. sec_elem_num m S_DATA = Inr d \<and> d \<le> unat f \<longrightarrow> Init_cache m R \<noteq> Inr R')"
proof -
  have "\<not> d \<le> unat f" if run: "sec_elem_num m S_DATA = Inr d" "Init_cache m R = Inr R'" for d R'
  proof -
    obtain infos where "foldr_res (init_import (rt_os R) m) [0..<n] (Reserve_func_info d (rt_func_infos R)) = Inr infos"
      using run assms(1,2) by (auto simp: Init_cache_def)
    from init_imports [OF this assms(4,3)] assms(5,6) have "unat f < length (Reserve_func_info d (rt_func_infos R))" by blast
    moreover have "length (Reserve_func_info d (rt_func_infos R)) = d" by (simp add: Reserve_func_info_def)
    ultimately show ?thesis by simp
  qed
  moreover have "Init_cache m R = Inl Assertion" if "\<not> Contains_section m S_DATA"
    using that assms(1) by (simp add: Init_cache_def sec_elem_num_def Get_shdr_by_sec_id_def Get_shdr_idx_def Contains_section_def)
  ultimately show ?thesis by blast
qed

text \<open>Function 1 of the example module imported as the system call \<^verbatim>\<open>one\<close>, without and with a data section.\<close>

definition ex_import_module :: u_module where
  "ex_import_module = ex_module\<lparr>m_shdr_tab := [\<lparr>sh_u = 0x112, sh_idx = 0\<rparr>, \<lparr>sh_u = 0x00040005, sh_idx = 0\<rparr>],
    m_sec_map := [S_IMP_NAT \<mapsto> 0], m_imp_nat_sec := [UBH_IMP_NAT 0 0 1 0], m_module_name := ascii ''one'' @ [0]\<rparr>"

definition ex_import_data :: u_module where
  "ex_import_data = ex_import_module\<lparr>m_sec_map := [S_IMP_NAT \<mapsto> 0, S_DATA \<mapsto> 1]\<rparr>"

lemmas ex_import_defs = ex_import_data_def ex_import_module_def ex_module_def Contains_section_def sec_elem_num_def Get_shdr_by_sec_id_def
  Get_shdr_idx_def arr_at_def Get_elem_num_def Select_struct_def Get_sec_tag_def rd_def get_bits_def shdr_field_defs sec_tag_defs
  drop_bit_eq_div take_bit_eq_mod

lemma ex_import_sections:
  "Contains_section ex_import_module S_IMP_NAT" "\<not> Contains_section ex_import_module S_DATA" "sec_elem_num ex_import_module S_IMP_NAT = Inr 1"
  "Contains_section ex_import_data S_IMP_NAT" "sec_elem_num ex_import_data S_IMP_NAT = Inr 1" "sec_elem_num ex_import_data S_DATA = Inr 4"
  by (simp_all add: ex_import_defs)

lemma ex_name: "map_of name_ptr_cache (ascii ''one'') = Some SYS_one"
  by (simp add: name_ptr_cache_def ascii_def)

lemma ex_sys_import: "sys_import ex_import_module 0 1 SYS_one" "sys_import ex_import_data 0 1 SYS_one"
  using ex_name
  by (simp_all add: sys_import_def Get_func_def Get_module_name_def str_at_def ex_import_data_def ex_import_module_def ex_module_def arr_at_def
      UBH_FUNC_def UBH_IMP_NAT_def ascii_def take_bit_eq_mod)

lemma ex_imports:
  "1 \<le> length (m_imp_nat_sec ex_import_module)" "distinct (map in_func_idx (take 1 (m_imp_nat_sec ex_import_module)))"
  "1 \<le> length (m_imp_nat_sec ex_import_data)" "distinct (map in_func_idx (take 1 (m_imp_nat_sec ex_import_data)))"
  by (simp_all add: ex_import_data_def ex_import_module_def)

lemma ex_Init_cache: "\<exists>R'. Init_cache ex_import_data ex_runtime = Inr R'"
proof -
  have "Get_func ex_import_data 1 = Inr (UBH_FUNC 0 0 0 1)" "Get_module_name ex_import_data 0 = Inr (ascii ''one'')"
    "arr_at (m_imp_nat_sec ex_import_data) 0 = Inr (UBH_IMP_NAT 0 0 1 0)"
    by (simp_all add: Get_func_def Get_module_name_def str_at_def ascii_def ex_import_data_def ex_import_module_def ex_module_def arr_at_def)
  then show ?thesis
    using ex_name by (simp add: Init_cache_def ex_import_sections init_import_def UBH_IMP_NAT_def UBH_FUNC_def take_bit_eq_mod Set_func_info_def
        arr_upd_def Reserve_func_info_def ex_runtime_def)
qed

theorem Init_cache_binds_witness:
  "\<exists>R'. Init_cache ex_import_data ex_runtime = Inr R' \<and>
    Call_sys_call R' 1 (ex_fresh\<lparr>module := ex_import_data\<rparr>) = VM_SYSCALL_one (ex_fresh\<lparr>module := ex_import_data\<rparr>)"
proof -
  obtain R' where R': "Init_cache ex_import_data ex_runtime = Inr R'" using ex_Init_cache by blast
  show ?thesis
    using Init_cache_binds [OF R' ex_import_sections(4,5) ex_imports(3,4) _ ex_sys_import(2), of "ex_fresh\<lparr>module := ex_import_data\<rparr>"] R' by simp
qed

theorem Init_cache_sized_by_data_witness: "Init_cache ex_import_module ex_runtime = Inl Assertion"
  using Init_cache_sized_by_data [OF ex_import_sections(1,3) ex_imports(1,2) _ ex_sys_import(1), of ex_runtime] ex_import_sections(2) by simp

end
