(* ===== verification/Args_Props.thy ===== *)
theory Args_Props
  imports Runtime_Props
begin

text \<open>
  The memory the system call \<^verbatim>\<open>args_get\<close> writes: the table of pointers and the strings they point to.
\<close>

section \<open>The loop of args-get\<close>

definition args_len :: "u8 list list \<Rightarrow> nat" where
  "args_len args = sum_list (map (\<lambda>arg. length arg + 1) args)"

lemma args_len_simps [simp]:
  "args_len [] = 0" "args_len (arg # args) = length arg + 1 + args_len args" "args_len (xs @ ys) = args_len xs + args_len ys"
  by (simp_all add: args_len_def)

text \<open>Two adjacent writes are one.\<close>

lemma mem_write_append:
  assumes "mem_write blk (Some p) xs = Inr blk1" and "mem_write blk1 (Some (p + int (length xs))) ys = Inr blk2"
  shows "mem_write blk (Some p) (xs @ ys) = Inr blk2"
proof -
  have ok: "mem_ok blk (Some p) (length (xs @ ys))" "0 \<le> p"
    using assms by (auto simp: mem_write_def mem_ok_def split: if_splits)
  have len: "nat (p + int (length xs)) = nat p + length xs" using ok(2) by simp
  have "mb_bytes blk2 i = (if nat p \<le> i \<and> i < nat p + length (xs @ ys) then (xs @ ys) ! (i - nat p) else mb_bytes blk i)" for i
    using assms by (auto simp: mem_write_def len nth_append split: if_split_asm)
  then have "blk2 = blk\<lparr>mb_bytes := (\<lambda>i. if nat p \<le> i \<and> i < nat p + length (xs @ ys) then (xs @ ys) ! (i - nat p) else mb_bytes blk i)\<rparr>"
    using mem_write_shape [OF assms(1)] mem_write_shape [OF assms(2)] by (intro memory.equality) (auto simp: fun_eq_iff)
  then show ?thesis using ok by (simp add: mem_write_def cong: if_cong)
qed

text \<open>One iteration: the entry of the table, then the string with its final zero.\<close>

lemma copy_arg_ok:
  assumes "mb_live blk" and "0 \<le> p" and "0 \<le> q" and "p + 4 * int i + 4 \<le> int (mb_len blk)"
    and "q + int n + int (length arg) + 1 \<le> int (mb_len blk)" and "n + length arg + 1 < 2 ^ 32"
  shows "\<exists>blk1 blk2. mem_write blk (Some (p + 4 * int i)) (le_bytes 4 (base + of_nat n)) = Inr blk1 \<and>
    mem_write blk1 (Some (q + int n)) (arg @ [0]) = Inr blk2 \<and>
    copy_arg (Some p) base (Some q) arg (i, of_nat n, blk) = Inr (Suc i, of_nat (n + length arg + 1), blk2)"
proof -
  let ?n = "of_nat n :: u32"
  have n: "uint ?n = int n" using assms(6) by (simp add: unsigned_of_nat take_bit_nat_eq_self)
  have "mem_ok blk (Some (p + 4 * int i)) 4" using assms(1,2,4) by (simp add: mem_ok_def)
  then obtain blk1 where blk1: "mem_write blk (Some (p + 4 * int i)) (le_bytes 4 (base + ?n)) = Inr blk1"
    using mem_write_ok [of blk "Some (p + 4 * int i)" "le_bytes 4 (base + ?n)"] by auto
  note shape1 = mem_write_shape [OF blk1]
  have "mem_ok blk1 (Some (q + int n)) (length arg)" using assms(1,3,5) shape1 by (simp add: mem_ok_def)
  then obtain blk2 where blk2: "mem_write blk1 (Some (q + int n)) arg = Inr blk2" using mem_write_ok by blast
  note shape2 = mem_write_shape [OF blk2]
  have "mem_ok blk2 (Some (q + int n + int (length arg))) 1" using assms(1,3,5) shape1 shape2 by (simp add: mem_ok_def)
  then obtain blk3 where blk3: "mem_write blk2 (Some (q + int n + int (length arg))) [0] = Inr blk3"
    using mem_write_ok [of blk2 "Some (q + int n + int (length arg))" "[0]"] by auto
  have "copy_arg (Some p) base (Some q) arg (i, ?n, blk) = Inr (Suc i, of_nat (n + length arg + 1), blk3)"
    using blk1 blk2 blk3 by (simp add: copy_arg_def add_ofs_def store_defs n add.assoc)
  then show ?thesis using blk1 mem_write_append [OF blk2 blk3] by blast
qed

text \<open>What memory holds after the loop on \<open>args\<close>, from entry \<open>i\<close> and byte \<open>n\<close> on.\<close>

definition args_written :: "int \<Rightarrow> int \<Rightarrow> u32 \<Rightarrow> nat \<Rightarrow> nat \<Rightarrow> u8 list list \<Rightarrow> memory \<Rightarrow> bool" where
  "args_written p q base i n args blk \<longleftrightarrow> (\<forall>j < length args.
    mem_read blk (Some (p + 4 * int (i + j))) 4 = Inr (le_bytes 4 (base + of_nat (n + args_len (take j args)))) \<and>
    mem_read blk (Some (q + int (n + args_len (take j args)))) (length (args ! j) + 1) = Inr (args ! j @ [0]))"

lemma args_written_Cons:
  "args_written p q base i n (arg # args) blk \<longleftrightarrow>
    mem_read blk (Some (p + 4 * int i)) 4 = Inr (le_bytes 4 (base + of_nat n)) \<and>
    mem_read blk (Some (q + int n)) (length arg + 1) = Inr (arg @ [0]) \<and>
    args_written p q base (Suc i) (n + length arg + 1) args blk"
  by (auto simp: args_written_def less_Suc_eq_0_disj ac_simps)

lemma copy_args:
  assumes "mb_live blk" and "0 \<le> p" and "0 \<le> q" and "p + 4 * int (i + length args) \<le> int (mb_len blk)"
    and "q + int (n + args_len args) \<le> int (mb_len blk)" and "n + args_len args < 2 ^ 32"
    and "p + 4 * int (i + length args) \<le> q + int n \<or> q + int (n + args_len args) \<le> p + 4 * int i"
  shows "\<exists>k t blk'. foldr_res (copy_arg (Some p) base (Some q)) args (i, of_nat n, blk) = Inr (k, t, blk') \<and>
    args_written p q base i n args blk' \<and>
    (\<forall>a k. disjoint_range (Some (p + 4 * int i)) (4 * length args) a k \<and> disjoint_range (Some (q + int n)) (args_len args) a k
      \<longrightarrow> mem_read blk' a k = mem_read blk a k)"
  using assms
proof (induction args arbitrary: i n blk)
  case Nil
  then show ?case by (simp add: args_written_def)
next
  case (Cons arg args)
  obtain blk1 blk2 where blk1: "mem_write blk (Some (p + 4 * int i)) (le_bytes 4 (base + of_nat n)) = Inr blk1"
    and blk2: "mem_write blk1 (Some (q + int n)) (arg @ [0]) = Inr blk2"
    and step: "copy_arg (Some p) base (Some q) arg (i, of_nat n, blk) = Inr (Suc i, of_nat (n + length arg + 1), blk2)"
    using copy_arg_ok [of blk p q i n arg base] Cons.prems by auto
  note shape = mem_write_shape [OF blk1] mem_write_shape [OF blk2]
  obtain k t blk' where rest: "foldr_res (copy_arg (Some p) base (Some q)) args (Suc i, of_nat (n + length arg + 1), blk2) = Inr (k, t, blk')"
    and written: "args_written p q base (Suc i) (n + length arg + 1) args blk'"
    and kept: "\<And>a k. disjoint_range (Some (p + 4 * int (Suc i))) (4 * length args) a k \<Longrightarrow>
      disjoint_range (Some (q + int (n + length arg + 1))) (args_len args) a k \<Longrightarrow> mem_read blk' a k = mem_read blk2 a k"
    using Cons.IH [of blk2 "Suc i" "n + length arg + 1"] Cons.prems shape by auto
  have "mem_read blk' (Some (p + 4 * int i)) 4 = mem_read blk2 (Some (p + 4 * int i)) 4"
    using Cons.prems(7) by (intro kept) (auto simp: disjoint_range_def)
  also have "\<dots> = mem_read blk1 (Some (p + 4 * int i)) 4"
    using Cons.prems(7) by (intro mem_write_frame [OF blk2]) (auto simp: disjoint_range_def)
  also have "\<dots> = Inr (le_bytes 4 (base + of_nat n))" using mem_read_write [OF blk1] by simp
  finally have entry: "mem_read blk' (Some (p + 4 * int i)) 4 = Inr (le_bytes 4 (base + of_nat n))" .
  have "mem_read blk' (Some (q + int n)) (length arg + 1) = mem_read blk2 (Some (q + int n)) (length arg + 1)"
    using Cons.prems(7) by (intro kept) (auto simp: disjoint_range_def)
  then have str: "mem_read blk' (Some (q + int n)) (length arg + 1) = Inr (arg @ [0])" using mem_read_write [OF blk2] by simp
  have "mem_read blk' a k = mem_read blk a k"
    if "disjoint_range (Some (p + 4 * int i)) (4 * length (arg # args)) a k" "disjoint_range (Some (q + int n)) (args_len (arg # args)) a k" for a k
  proof -
    have "mem_read blk' a k = mem_read blk2 a k" using that by (intro kept) (auto simp: disjoint_range_def split: option.splits)
    also have "\<dots> = mem_read blk1 a k"
      using that by (intro mem_write_frame [OF blk2]) (auto simp: disjoint_range_def split: option.splits)
    also have "\<dots> = mem_read blk a k"
      using that by (intro mem_write_frame [OF blk1]) (auto simp: disjoint_range_def split: option.splits)
    finally show ?thesis .
  qed
  then show ?case using step rest written entry str by (auto simp: args_written_Cons simp del: of_nat_add)
qed

section \<open>The layout of the arguments\<close>

text \<open>C36: the arguments of the program.  When the registers point to a table and a buffer in memory that are large enough and do not
  overlap, \<^verbatim>\<open>args_get\<close> succeeds; entry \<open>j\<close> of the table then holds the address of argument \<open>j\<close> in the buffer, where the bytes
  of the argument and a zero byte follow, and all memory outside the table and the buffer is unchanged.\<close>

theorem args_get_layout:
  assumes "Get_base_addr 0 m = Inr (Some p)" and "Get_base_addr 1 m = Inr (Some q)" and "i32_get m 1 = Inr base"
    and "mb_live (mem m)" and "0 \<le> p" and "0 \<le> q"
    and "p + 4 * int (length (rt_args R)) \<le> int (mb_len (mem m))" and "q + int (args_len (rt_args R)) \<le> int (mb_len (mem m))"
    and "args_len (rt_args R) < 2 ^ 32"
    and "p + 4 * int (length (rt_args R)) \<le> q \<or> q + int (args_len (rt_args R)) \<le> p"
  shows "\<exists>m'. VM_SYSCALL_args_get R m = Inr m' \<and> m' = m\<lparr>mem := mem m'\<rparr> \<and>
    (\<forall>j < length (rt_args R). let ofs = args_len (take j (rt_args R)); arg = rt_args R ! j in
      load32 (mem m') (Some (p + 4 * int j)) = Inr (base + of_nat ofs) \<and>
      mem_read (mem m') (Some (q + int ofs)) (length arg + 1) = Inr (arg @ [0])) \<and>
    (\<forall>a k. disjoint_range (Some p) (4 * length (rt_args R)) a k \<and> disjoint_range (Some q) (args_len (rt_args R)) a k
      \<longrightarrow> mem_read (mem m') a k = mem_read (mem m) a k)"
proof -
  obtain k t blk where run: "foldr_res (copy_arg (Some p) base (Some q)) (rt_args R) (0, 0, mem m) = Inr (k, t, blk)"
    and written: "args_written p q base 0 0 (rt_args R) blk"
    and kept: "\<forall>a k. disjoint_range (Some p) (4 * length (rt_args R)) a k \<and> disjoint_range (Some q) (args_len (rt_args R)) a k
      \<longrightarrow> mem_read blk a k = mem_read (mem m) a k"
    using copy_args [of "mem m" p q 0 "rt_args R" 0 base] assms(4-10) by auto
  have "VM_SYSCALL_args_get R m = Inr (m\<lparr>mem := blk\<rparr>)"
    using run assms(1-3) by (simp add: VM_SYSCALL_args_get_def RUNTIME_Z_BASE_REG_def)
  then show ?thesis
    using written kept by (auto simp: args_written_def load32_def le_word_bytes_full Let_def)
qed

definition ex_args_machine :: uwasm_machine where
  "ex_args_machine = ex_fresh\<lparr>reg_i32 := (REGISTER (\<lambda>i. 0))\<lparr>r_cells := (\<lambda>i. 0)(0 := 100, 1 := 200)\<rparr>\<rparr>"

lemma ex_args_regs:
  "Get_base_addr 0 ex_args_machine = Inr (Some 100)" "Get_base_addr 1 ex_args_machine = Inr (Some 200)" "i32_get ex_args_machine 1 = Inr 200"
  by (simp_all add: Get_base_addr_def i32_get_def reg_get_def ex_args_machine_def REGISTER_def INITIAL_REG_SIZE_def ex_fresh_def abs32_def)

theorem args_get_layout_witness:
  "\<exists>m'. VM_SYSCALL_args_get ex_runtime ex_args_machine = Inr m' \<and> load32 (mem m') (Some 104) = Inr 203 \<and>
    mem_read (mem m') (Some 200) 3 = Inr [97, 98, 0] \<and> mem_read (mem m') (Some 203) 2 = Inr [99, 0]"
proof -
  have args: "rt_args ex_runtime = [[97, 98], [99]]" by (simp add: ex_runtime_def)
  have mem: "mb_live (mem ex_args_machine)" "mb_len (mem ex_args_machine) = 65536" by (simp_all add: ex_args_machine_def ex_fresh_def ex_memory_def)
  obtain m' where run: "VM_SYSCALL_args_get ex_runtime ex_args_machine = Inr m'"
    and written: "\<And>j. j < length (rt_args ex_runtime) \<Longrightarrow> let ofs = args_len (take j (rt_args ex_runtime)); arg = rt_args ex_runtime ! j in
      load32 (mem m') (Some (100 + 4 * int j)) = Inr (200 + of_nat ofs) \<and>
      mem_read (mem m') (Some (200 + int ofs)) (length arg + 1) = Inr (arg @ [0])"
    using args_get_layout [OF ex_args_regs mem(1), of ex_runtime] by (auto simp: args mem)
  show ?thesis using run written [of 0] written [of 1] by (simp add: args numeral_3_eq_3 numeral_2_eq_2)
qed

end
