(* ===== verification/Exec_System.thy ===== *)
theory Exec_System
  imports U_Runtime Example
begin

text \<open>
  The system around the machine (\<^verbatim>\<open>src/runtime/exec_system.cxx\<close>, \<^verbatim>\<open>src/runtime/exec_system.h\<close>): choosing the start
  function, and the programming interface \<^verbatim>\<open>UVM_...\<close> over the one machine of the process.
\<close>

section \<open>The start function\<close>

definition Is_imported :: "ubh_func \<Rightarrow> bool" where
  "Is_imported func = (Is_set_flag F_EXTERN func \<or> Is_set_flag F_IMPORT_WASM func)"

text \<open>The loop over the headers for a start section; its function is looked up before it is returned.\<close>

fun search_start_section :: "u_module \<Rightarrow> ubh_shdr list \<Rightarrow> u16 option res" where
  "search_start_section m [] = Inr None"
| "search_start_section m (shdr # shdrs) =
    (if Get_sec_tag shdr = SEC_START
     then bindr (Get_func m (unat (ucast (sh_idx shdr) :: u16))) (\<lambda>func. Inr (Some (ucast (sh_idx shdr))))
     else search_start_section m shdrs)"

fun first_defined :: "u_module \<Rightarrow> nat list \<Rightarrow> nat option res" where
  "first_defined m [] = Inr None"
| "first_defined m (fid # fids) =
    bindr (Get_func m fid) (\<lambda>func. if Is_imported func then first_defined m fids else Inr (Some fid))"

fun search_defined :: "u_module \<Rightarrow> ubh_shdr list \<Rightarrow> nat option res" where
  "search_defined m [] = Inr None"
| "search_defined m (shdr # shdrs) =
    (if Get_sec_tag shdr = SEC_FUNC
     then bindr (Get_elem_num shdr) (\<lambda>elem_num.
          bindr (first_defined m [0..<unat (ucast elem_num :: u16)]) (\<lambda>found.
          case found of Some fid \<Rightarrow> Inr (Some fid) | None \<Rightarrow> search_defined m shdrs))
     else search_defined m shdrs)"

definition Search_start :: "u_module \<Rightarrow> nat res" where
  "Search_start m =
    bindr (search_start_section m (m_shdr_tab m)) (\<lambda>start.
    case start of Some func_idx \<Rightarrow> Inr (unat func_idx)
    | None \<Rightarrow>
      bindr (search_defined m (m_shdr_tab m)) (\<lambda>found.
      case found of Some fid \<Rightarrow> Inr fid | None \<Rightarrow> Inl Assertion))"

fun named_func :: "u_module \<Rightarrow> u8 list \<Rightarrow> nat list \<Rightarrow> nat option res" where
  "named_func m func_name [] = Inr None"
| "named_func m func_name (fid # fids) =
    bindr (Get_func m fid) (\<lambda>func.
    bindr (Get_module_name m (fn_name_idx func)) (\<lambda>name.
    if func_name \<noteq> name then named_func m func_name fids
    else Is_True (\<not> Is_imported func) (Inr (Some fid))))"

text \<open>Only the first function section is searched.\<close>

definition Search_start_by_name :: "u_module \<Rightarrow> u8 list \<Rightarrow> nat res" where
  "Search_start_by_name m func_name =
    (case find (\<lambda>shdr. Get_sec_tag shdr = SEC_FUNC) (m_shdr_tab m) of
      None \<Rightarrow> Inl Assertion
    | Some shdr \<Rightarrow>
      bindr (Get_elem_num shdr) (\<lambda>elem_num.
      bindr (named_func m func_name [0..<unat (ucast elem_num :: u16)]) (\<lambda>found.
      case found of Some fid \<Rightarrow> Inr fid | None \<Rightarrow> Inl Assertion)))"

section \<open>Loading and running\<close>

definition Load_from_buffer :: "u8 list \<Rightarrow> uwasm_machine \<Rightarrow> uwasm_machine res" where
  "Load_from_buffer buffer m = bindr (Init_module_from_buffer buffer (module m)) (\<lambda>md. Inr (m\<lparr>module := md\<rparr>))"

text \<open>The contents of the file are \<open>None\<close> when it cannot be read.\<close>

definition Load_from_file :: "u8 list option \<Rightarrow> uwasm_machine \<times> runtime \<Rightarrow> (uwasm_machine \<times> runtime) res" where
  "Load_from_file contents t =
    (case contents of None \<Rightarrow> Inl Exit_failure
     | Some buffer \<Rightarrow>
       bindr (Load_from_buffer buffer (fst t)) (\<lambda>m.
       bindr (Init_cache (module m) (snd t)) (\<lambda>R. Inr (m, R))))"

definition Set_string_args :: "u8 list list \<Rightarrow> runtime \<Rightarrow> runtime" where
  "Set_string_args args R = R\<lparr>rt_args := args\<rparr>"

definition Exec_continue :: "host \<Rightarrow> uwasm_machine \<Rightarrow> uwasm_debug \<Rightarrow> (uwasm_machine \<times> uwasm_debug) res option" where
  "Exec_continue H m d = Exec_start H m d"

text \<open>The signed count is widened to 64 bits.\<close>

definition Debug_next_instr :: "host \<Rightarrow> u32 \<Rightarrow> uwasm_machine \<Rightarrow> uwasm_debug \<Rightarrow> (uwasm_machine \<times> uwasm_debug) res" where
  "Debug_next_instr H count m d = Control_start H (scast count) m d"

section \<open>The programming interface\<close>

record export_func =
  ef_name_offset :: u32
  ef_name_size :: u32
  ef_func_index :: u32
  ef_type_index :: u32
  ef_param_count :: u16
  ef_return_count :: u16

text \<open>One exported function; \<open>base\<close> is the offset of the table of names in the file.\<close>

definition export_entry :: "u32 \<Rightarrow> u_module \<Rightarrow> nat \<Rightarrow> export_func res" where
  "export_entry base m i =
    bindr (arr_at (m_export_sec m) i) (\<lambda>entry.
    let func_idx = ex_func_idx entry in
    bindr (Get_func m (unat func_idx)) (\<lambda>func.
    bindr (Get_module_name m (fn_name_idx func)) (\<lambda>name.
    bindr (Get_type m (unat (fn_type_idx func))) (\<lambda>m_type.
    bindr (Get_param_num m (fn_type_idx func)) (\<lambda>param_num.
    Inr \<lparr>ef_name_offset = base + ucast (fn_name_idx func), ef_name_size = of_nat (length name), ef_func_index = func_idx,
         ef_type_index = ucast (fn_type_idx func), ef_param_count = of_nat param_num,
         ef_return_count = ucast (ucast (t_ret_num m_type) :: u8)\<rparr>)))))"

definition UVM_get_export_funcs :: "u32 \<Rightarrow> u_module \<Rightarrow> export_func list res" where
  "UVM_get_export_funcs base m =
    bindr (sec_elem_num m S_EXPORT) (\<lambda>number. mapr (export_entry base m) [0..<number])"

definition UVM_get_func_name :: "u_module \<Rightarrow> u32 \<Rightarrow> u8 list res" where
  "UVM_get_func_name m name_offset = str_at (m_module_name m) (unat name_offset)"

definition UVM_get_param_type :: "u_module \<Rightarrow> u32 \<Rightarrow> u16 \<Rightarrow> u8 res" where
  "UVM_get_param_type m func_index idx =
    bindr (Get_func m (unat func_index)) (\<lambda>func. Get_param_type m (fn_type_idx func) (unat idx))"

definition UVM_get_return_type :: "u_module \<Rightarrow> u32 \<Rightarrow> u16 \<Rightarrow> u8 res" where
  "UVM_get_return_type m func_index idx =
    bindr (Get_func m (unat func_index)) (\<lambda>func. Get_ret_type m (fn_type_idx func) (unat idx))"

definition UVM_set_func :: "u32 \<Rightarrow> uwasm_machine \<Rightarrow> uwasm_machine res" where
  "UVM_set_func func_idx m = Init_env func_idx m"

definition UVM_set_reg_i32 :: "u32 \<Rightarrow> u32 \<Rightarrow> uwasm_machine \<Rightarrow> uwasm_machine res" where
  "UVM_set_reg_i32 r v m = i32_set r v m"

definition UVM_set_reg_i64 :: "u32 \<Rightarrow> u64 \<Rightarrow> uwasm_machine \<Rightarrow> uwasm_machine res" where
  "UVM_set_reg_i64 r v m = i64_set r v m"

definition UVM_set_reg_f32 :: "u32 \<Rightarrow> u32 \<Rightarrow> uwasm_machine \<Rightarrow> uwasm_machine res" where
  "UVM_set_reg_f32 r v m = f32_set r v m"

definition UVM_set_reg_f64 :: "u32 \<Rightarrow> u64 \<Rightarrow> uwasm_machine \<Rightarrow> uwasm_machine res" where
  "UVM_set_reg_f64 r v m = f64_set r v m"

definition UVM_get_reg_i32 :: "u32 \<Rightarrow> uwasm_machine \<Rightarrow> u32 res" where
  "UVM_get_reg_i32 r m = i32_get m r"

definition UVM_get_reg_i64 :: "u32 \<Rightarrow> uwasm_machine \<Rightarrow> u64 res" where
  "UVM_get_reg_i64 r m = i64_get m r"

definition UVM_get_reg_f32 :: "u32 \<Rightarrow> uwasm_machine \<Rightarrow> u32 res" where
  "UVM_get_reg_f32 r m = f32_get m r"

definition UVM_get_reg_f64 :: "u32 \<Rightarrow> uwasm_machine \<Rightarrow> u64 res" where
  "UVM_get_reg_f64 r m = f64_get m r"

section \<open>What the searches return\<close>

lemma first_defined_spec:
  assumes "\<And>fid. fid \<in> set fids \<Longrightarrow> fid < length (m_func_sec m)"
  shows "first_defined m fids = Inr (find (\<lambda>fid. \<not> Is_imported (m_func_sec m ! fid)) fids)"
  using assms by (induction fids) (simp_all add: Get_func_def arr_at_def)

lemma find_upt_Some: "find P [0..<n] = Some fid \<longleftrightarrow> fid < n \<and> P fid \<and> (\<forall>j < fid. \<not> P j)"
  by (auto simp: find_Some_iff)

lemma find_upt_None: "find P [0..<n] = None \<longleftrightarrow> (\<forall>fid < n. \<not> P fid)"
  by (auto simp: find_None_iff)

lemma search_start_section_None:
  "\<forall>shdr \<in> set shdrs. Get_sec_tag shdr \<noteq> SEC_START \<Longrightarrow> search_start_section m shdrs = Inr None"
  by (induction shdrs) simp_all

lemma search_start_section_Some:
  assumes "find (\<lambda>shdr. Get_sec_tag shdr = SEC_START) shdrs = Some shdr" and "unat (ucast (sh_idx shdr) :: u16) < length (m_func_sec m)"
  shows "search_start_section m shdrs = Inr (Some (ucast (sh_idx shdr)))"
  using assms by (induction shdrs) (auto simp: Get_func_def arr_at_def split: if_split_asm)

lemma search_defined_spec:
  assumes "filter (\<lambda>shdr. Get_sec_tag shdr = SEC_FUNC) shdrs = [shdr]" and "Get_elem_num shdr = Inr n" and "unat n < 2 ^ 16"
    and "unat n \<le> length (m_func_sec m)"
  shows "search_defined m shdrs = Inr (find (\<lambda>fid. \<not> Is_imported (m_func_sec m ! fid)) [0..<unat n])"
  using assms(1)
proof (induction shdrs)
  case (Cons s shdrs)
  show ?case
  proof (cases "Get_sec_tag s = SEC_FUNC")
    case True
    with Cons.prems have s: "s = shdr" and none: "filter (\<lambda>shdr. Get_sec_tag shdr = SEC_FUNC) shdrs = []" by simp_all
    have "unat (ucast n :: u16) = unat n" using assms(3) by (simp add: unsigned_ucast_eq take_bit_nat_eq_self)
    moreover have "first_defined m [0..<unat n] = Inr (find (\<lambda>fid. \<not> Is_imported (m_func_sec m ! fid)) [0..<unat n])"
      using assms(4) by (intro first_defined_spec) simp
    moreover have "search_defined m shdrs = Inr None" using none by (induction shdrs) (simp_all split: if_split_asm)
    ultimately show ?thesis using True assms(2) by (auto simp: s split: option.splits)
  qed (use Cons in simp)
qed simp

text \<open>C38: the start function.  With a start section \<^verbatim>\<open>Search_start\<close> returns the function of the first one, its index cut to 16
  bits.  Without one, on a module with one function section, it returns the first function that is neither extern nor imported,
  and fails its assertion exactly when there is none.\<close>

theorem Search_start_correct:
  assumes "filter (\<lambda>shdr. Get_sec_tag shdr = SEC_FUNC) (m_shdr_tab m) = [shdr]" and "Get_elem_num shdr = Inr n" and "unat n < 2 ^ 16"
    and "unat n \<le> length (m_func_sec m)"
  shows "(\<forall>s. find (\<lambda>shdr. Get_sec_tag shdr = SEC_START) (m_shdr_tab m) = Some s \<and> unat (ucast (sh_idx s) :: u16) < length (m_func_sec m)
      \<longrightarrow> Search_start m = Inr (unat (ucast (sh_idx s) :: u16))) \<and>
    (find (\<lambda>shdr. Get_sec_tag shdr = SEC_START) (m_shdr_tab m) = None \<longrightarrow>
      (\<forall>fid. Search_start m = Inr fid \<longleftrightarrow>
        fid < unat n \<and> \<not> Is_imported (m_func_sec m ! fid) \<and> (\<forall>j < fid. Is_imported (m_func_sec m ! j))) \<and>
      (Search_start m = Inl Assertion \<longleftrightarrow> (\<forall>fid < unat n. Is_imported (m_func_sec m ! fid))))"
proof -
  let ?found = "find (\<lambda>fid. \<not> Is_imported (m_func_sec m ! fid)) [0..<unat n]"
  have start: "Search_start m = Inr (unat (ucast (sh_idx s) :: u16))"
    if "find (\<lambda>shdr. Get_sec_tag shdr = SEC_START) (m_shdr_tab m) = Some s" "unat (ucast (sh_idx s) :: u16) < length (m_func_sec m)" for s
    using search_start_section_Some [OF that] by (simp add: Search_start_def)
  have "Search_start m = (case ?found of Some fid \<Rightarrow> Inr fid | None \<Rightarrow> Inl Assertion)"
    if "find (\<lambda>shdr. Get_sec_tag shdr = SEC_START) (m_shdr_tab m) = None"
    using that search_defined_spec [OF assms] search_start_section_None [of "m_shdr_tab m" m]
    by (auto simp: Search_start_def find_None_iff)
  moreover have "(case ?found of Some fid \<Rightarrow> Inr fid | None \<Rightarrow> Inl Assertion) = Inr fid \<longleftrightarrow> ?found = Some fid"
    "(case ?found of Some fid \<Rightarrow> Inr fid | None \<Rightarrow> Inl Assertion) = (Inl Assertion :: nat res) \<longleftrightarrow> ?found = None" for fid
    by (auto split: option.splits)
  ultimately show ?thesis using start unfolding find_upt_Some find_upt_None by auto
qed

text \<open>The example module with a first function that is extern.\<close>

definition ex_start_module :: u_module where
  "ex_start_module = ex_module\<lparr>m_func_sec := [UBH_FUNC 0 0 F_EXTERN 0, UBH_FUNC 0 0 0 1]\<rparr>"

theorem Search_start_correct_witness: "Search_start ex_start_module = Inr 1"
proof -
  have tags: "Get_sec_tag \<lparr>sh_u = 0x00000001, sh_idx = 0\<rparr> = 1" "Get_sec_tag \<lparr>sh_u = 0x00020003, sh_idx = 0\<rparr> = 3"
    by (simp_all add: Get_sec_tag_def rd_def get_bits_def shdr_field_defs take_bit_eq_mod)
  have shdrs: "m_shdr_tab ex_start_module = [\<lparr>sh_u = 0x00000001, sh_idx = 0\<rparr>, \<lparr>sh_u = 0x00020003, sh_idx = 0\<rparr>]"
    by (simp add: ex_start_module_def ex_module_def)
  have one: "filter (\<lambda>shdr. Get_sec_tag shdr = SEC_FUNC) (m_shdr_tab ex_start_module) = [\<lparr>sh_u = 0x00020003, sh_idx = 0\<rparr>]"
    and none: "find (\<lambda>shdr. Get_sec_tag shdr = SEC_START) (m_shdr_tab ex_start_module) = None"
    by (simp_all add: shdrs tags SEC_FUNC_def SEC_START_def)
  have elem: "Get_elem_num \<lparr>sh_u = 0x00020003, sh_idx = 0\<rparr> = Inr 2"
    by (simp add: Get_elem_num_def Select_struct_def tags sec_tag_defs rd_def get_bits_def shdr_field_defs drop_bit_eq_div take_bit_eq_mod)
  have "\<not> Is_imported (m_func_sec ex_start_module ! 1)" "Is_imported (m_func_sec ex_start_module ! 0)" "length (m_func_sec ex_start_module) = 2"
    by (simp_all add: ex_start_module_def Is_imported_def Is_set_flag_def UBH_FUNC_def func_flag_defs)
  then show ?thesis using Search_start_correct [OF one elem] none by simp
qed

end
