(* ===== verification/U_Sld.thy ===== *)
theory U_Sld
  imports File_Props U_Runtime
begin

text \<open>
  The static linker (\<^verbatim>\<open>src/static_linker/u_sld.cxx\<close>): native code of an ELF file is added to a module as a native section, and
  the native imports of the module get the offsets of the functions in it.  The ELF reader \<^verbatim>\<open>ELFIO\<close> is represented by what the
  linker asks of it: the sections with their type, name, file offset and bytes, and the symbols of symbol tables.
\<close>

section \<open>Opening the files\<close>

datatype elf_sec_type = SHT_PROGBITS | SHT_SYMTAB | SHT_other

record elf_symbol =
  sym_name :: "u8 list"
  sym_value :: u64
  sym_func :: bool

record elf_section =
  es_type :: elf_sec_type
  es_name :: "u8 list"
  es_offset :: u64
  es_data :: "u8 list"
  es_symbols :: "elf_symbol list"

record u_sld =
  sld_module :: u_module
  sld_buf :: "u8 list"
  sld_text_sec :: "elf_section option"
  sld_name_import_cache :: "u8 list \<Rightarrow> nat option"

definition import_name :: "u_module \<Rightarrow> nat \<Rightarrow> u8 list res" where
  "import_name m i =
    bindr (arr_at (m_imp_nat_sec m) i) (\<lambda>imp_nat_entry.
    bindr (Get_func m (unat (in_func_idx imp_nat_entry))) (\<lambda>func.
    Get_module_name m (fn_name_idx func)))"

definition Open_ubh_file :: "u8 list \<Rightarrow> u_sld res" where
  "Open_ubh_file buf =
    bindr (Init_module_from_buffer buf U_MODULE) (\<lambda>m.
    let s = \<lparr>sld_module = m, sld_buf = buf, sld_text_sec = None, sld_name_import_cache = (\<lambda>name. None)\<rparr> in
    if \<not> Contains_section m S_IMP_NAT then Inr s
    else bindr (sec_elem_num m S_IMP_NAT) (\<lambda>n.
      bindr (foldr_res (\<lambda>i cache. bindr (import_name m i) (\<lambda>func_name. Inr (cache(func_name \<mapsto> i)))) [0..<n] (sld_name_import_cache s)) (\<lambda>cache.
      Inr (s\<lparr>sld_name_import_cache := cache\<rparr>))))"

text \<open>
  The import entry is a reference into the buffer, so setting its members changes the bytes that \<^verbatim>\<open>Link\<close> copies: the word
  with the index of the native entry and the offset in it is the third of the entry.
\<close>

definition Set_native :: "nat \<Rightarrow> u32 \<Rightarrow> u_sld \<Rightarrow> u_sld res" where
  "Set_native i off s =
    bindr (Get_shdr_by_sec_id (sld_module s) S_IMP_NAT) (\<lambda>shdr.
    bindr (arr_at (m_imp_nat_sec (sld_module s)) i) (\<lambda>entry.
    let entry = Set_nat_off off (Set_nat_idx 0 entry) in
    bindr (arr_copy (sld_buf s) (unat (sh_idx shdr) + UBH_IMP_NAT_SIZE * i) (imp_nat_bytes entry)) (\<lambda>buf.
    Inr (s\<lparr>sld_module := (sld_module s)\<lparr>m_imp_nat_sec := (m_imp_nat_sec (sld_module s))[i := entry]\<rparr>, sld_buf := buf\<rparr>))))"

definition link_symbol :: "elf_symbol \<Rightarrow> u_sld \<Rightarrow> u_sld res" where
  "link_symbol symb s =
    (if \<not> sym_func symb then Inr s
     else case sld_name_import_cache s (sym_name symb) of
       None \<Rightarrow> Inr s
     | Some i \<Rightarrow> (case sld_text_sec s of None \<Rightarrow> Inl Out_of_block
         | Some text \<Rightarrow> Set_native i (ucast (sym_value symb - es_offset text)) s))"

text \<open>The symbol tables in order; the function returns at the first empty one.\<close>

fun link_symtabs :: "elf_section list \<Rightarrow> u_sld \<Rightarrow> u_sld res" where
  "link_symtabs [] s = Inr s"
| "link_symtabs (psec # secs) s =
    (if es_type psec = SHT_SYMTAB
     then if es_symbols psec = [] then Inr s
          else bindr (foldr_res link_symbol (es_symbols psec) s) (link_symtabs secs)
     else link_symtabs secs s)"

definition text_name :: "u8 list" where "text_name = ascii ''.text''"

definition Open_so_file :: "elf_section list \<Rightarrow> u_sld \<Rightarrow> u_sld res" where
  "Open_so_file secs s =
    link_symtabs secs (fold (\<lambda>psec s. if es_type psec = SHT_PROGBITS \<and> es_name psec = text_name then s\<lparr>sld_text_sec := Some psec\<rparr> else s) secs s)"

section \<open>Linking\<close>

definition SECTION_ALIGN :: nat where "SECTION_ALIGN = 8"

definition aligned_size :: "nat \<Rightarrow> nat" where
  "aligned_size n = (if n mod SECTION_ALIGN \<noteq> 0 then n + (SECTION_ALIGN - n mod SECTION_ALIGN) else n)"

definition nat_bytes :: "u32 \<Rightarrow> u64 \<Rightarrow> u32 \<Rightarrow> u8 list" where
  "nat_bytes byte_num buf_off checksum = le_bytes 4 byte_num @ le_bytes 4 checksum @ le_bytes 8 buf_off"

text \<open>\<^verbatim>\<open>Set_shdr_off\<close>, then \<^verbatim>\<open>Set_shdr_num\<close>, on the third word of the file.\<close>

definition set_shdrs :: "u32 \<Rightarrow> u32 \<Rightarrow> u8 list \<Rightarrow> u8 list res" where
  "set_shdrs shdr_off shdr_num file =
    (let w = le_word (take 4 (drop 8 file)) :: u32 in
     arr_copy file 8 (le_bytes 4 (wr M_shdr_num shdr_num (wr M_shdr_off shdr_off w))))"

definition Link :: "u_sld \<Rightarrow> u8 list res" where
  "Link s =
    (case sld_text_sec s of None \<Rightarrow> Inl Out_of_block
     | Some text_sec \<Rightarrow>
       let text = es_data text_sec; aligned_ts_size = aligned_size (length text) in
       bindr (read_mhdr (sld_buf s)) (\<lambda>(shdr_num, old_off).
       let table = UBH_SHDR_SIZE * unat shdr_num; shdr_off = length (sld_buf s) - table in
       if length (sld_buf s) < table then Inl Out_of_block
       else bindr (UBH_SHDR (ucast SEC_BIN) 1 (of_nat shdr_off)) (\<lambda>bin_shdr.
         let file = take shdr_off (sld_buf s) @ nat_bytes (of_nat aligned_ts_size) (of_nat UBH_NAT_SIZE) 0 @
               text @ replicate (aligned_ts_size - length text) 0 @
               concat (map shdr_bytes (take (unat shdr_num) (m_shdr_tab (sld_module s)))) @ shdr_bytes bin_shdr in
         set_shdrs (of_nat (shdr_off + UBH_NAT_SIZE + aligned_ts_size)) (shdr_num + 1) file)))"

section \<open>The linked file\<close>

lemma aligned_size_le: "n \<le> aligned_size n"
  by (simp add: aligned_size_def)

lemma bin_header:
  "\<exists>s. UBH_SHDR (ucast SEC_BIN) 1 off = Inr s \<and> Have_sec s \<and> Get_sec_id_from_header s = Inr S_NAT \<and> Get_elem_num s = Inr 1 \<and> sh_idx s = off"
  by (simp add: UBH_SHDR_def Set_sec_tag_def Set_elem_num_def Select_struct_def Get_sec_tag_def Have_sec_def Get_sec_id_from_header_def
      Get_elem_num_def Let_def sec_tag_defs field_simps_bits in_word_def apart_def shdr_field_defs)

text \<open>The header word after the two assignments.\<close>

lemma read_mhdr_word:
  assumes "unat n < 2 ^ 6" and "unat off < 2 ^ 26"
  shows "read_mhdr (UBH_MAGIC @ replicate 4 0 @ le_bytes 4 (wr M_shdr_num n (wr M_shdr_off off w)) @ rest) = Inr (n, off)"
proof -
  have "length UBH_MAGIC = 4" by (simp add: UBH_MAGIC_def)
  moreover have "rd M_shdr_num (wr M_shdr_num n (wr M_shdr_off off w)) = n" "rd M_shdr_off (wr M_shdr_num n (wr M_shdr_off off w)) = off"
    using assms by (simp_all add: field_simps_bits in_word_def apart_def entry_fields take_bit_unat_less)
  ultimately show ?thesis by (simp add: read_mhdr_def Let_def UBH_MHDR_SIZE_def)
qed

lemma set_shdrs_prefix:
  "length pre = 8 \<Longrightarrow> set_shdrs off n (pre @ le_bytes 4 (w :: u32) @ rest) =
    Inr (pre @ le_bytes 4 (wr M_shdr_num n (wr M_shdr_off off w)) @ rest)"
  by (simp add: set_shdrs_def arr_copy_def Let_def)

text \<open>The contents of the linked file.\<close>

definition native_part :: "u8 list \<Rightarrow> u8 list" where
  "native_part text = nat_bytes (of_nat (aligned_size (length text))) (of_nat UBH_NAT_SIZE) 0 @
    text @ replicate (aligned_size (length text) - length text) 0"

lemma length_native_part: "length (native_part text) = 16 + aligned_size (length text)"
  using aligned_size_le [of "length text"] by (simp add: native_part_def nat_bytes_def)

lemma Link_contents:
  assumes "sld_buf s = mhdr_bytes (of_nat (length hs)) off @ body @ concat (map shdr_bytes hs)" and "m_shdr_tab (sld_module s) = hs"
    and "sld_text_sec s = Some text" and "length hs < 63" and "unat off < 2 ^ 26"
  shows "\<exists>bin w. UBH_SHDR (ucast SEC_BIN) 1 (of_nat (12 + length body)) = Inr bin \<and>
    Link s = Inr (UBH_MAGIC @ replicate 4 0 @
      le_bytes 4 (wr M_shdr_num (of_nat (length hs) + 1) (wr M_shdr_off (of_nat (12 + length body + UBH_NAT_SIZE + aligned_size (length (es_data text)))) w) :: u32) @
      body @ native_part (es_data text) @ concat (map shdr_bytes (hs @ [bin])))"
proof -
  let ?w = "wr_all [M_shdr_num, M_shdr_off] [of_nat (length hs), off] 0 :: u32"
  obtain bin where bin: "UBH_SHDR (ucast SEC_BIN) 1 (of_nat (12 + length body)) = Inr bin" using bin_header by blast
  have num: "unat (of_nat (length hs) :: u32) = length hs" using assms(4) by (simp add: unat_of_nat_u32)
  have hdr: "read_mhdr (sld_buf s) = Inr (of_nat (length hs), off)"
    unfolding assms(1) by (rule read_mhdr_bytes) (use assms(4,5) num in simp_all)
  have table: "length (concat (map shdr_bytes hs)) = 8 * length hs" using shdr_codec.length_encs [of hs] by (simp add: ubh_sizes)
  have len: "length (sld_buf s) = 12 + length body + 8 * length hs" by (simp add: assms(1) length_mhdr_bytes table)
  have cut: "take (12 + length body) (sld_buf s) = (UBH_MAGIC @ replicate 4 0) @ le_bytes 4 ?w @ body"
    by (simp add: assms(1) length_mhdr_bytes) (simp add: mhdr_bytes_def)
  have "Link s = set_shdrs (of_nat (12 + length body + UBH_NAT_SIZE + aligned_size (length (es_data text)))) (of_nat (length hs) + 1)
      ((UBH_MAGIC @ replicate 4 0) @ le_bytes 4 ?w @ body @ native_part (es_data text) @ concat (map shdr_bytes (hs @ [bin])))"
    using bin cut by (simp add: Link_def assms(2,3) hdr num len ubh_sizes Let_def native_part_def)
  then show ?thesis using bin set_shdrs_prefix [of "UBH_MAGIC @ replicate 4 0"] by (auto simp: UBH_MAGIC_def simp del: wr_all.simps)
qed

lemma load_native_part:
  assumes "UBH_SHDR (ucast SEC_BIN) 1 (of_nat p) = Inr bin" and "length pre = p" and "p < 2 ^ 32" and "sec_elem_num m S_NAT = Inr 1"
  shows "\<exists>e. load_section (pre @ native_part text @ rest) bin m = Inr (m\<lparr>m_nat_sec := [e]\<rparr>) \<and>
    n_byte_num e = of_nat (aligned_size (length text)) \<and> take (length text) (n_buf e) = text"
proof -
  have bin: "Have_sec bin" "Get_sec_id_from_header bin = Inr S_NAT" "Get_elem_num bin = Inr 1" "unat (sh_idx bin) = p"
    using bin_header [of "of_nat p"] assms(1,3) by (auto simp: unat_of_nat_u32)
  define sec where "sec = native_part text @ rest"
  define e where "e = \<lparr>n_byte_num = of_nat (aligned_size (length text)), n_checksum = le_word (take 4 (drop 4 sec)), n_buf = drop UBH_NAT_SIZE sec\<rparr>"
  have "UBH_NAT_SIZE \<le> length sec" by (simp add: sec_def length_native_part ubh_sizes)
  moreover have "le_word (take 4 sec) = (of_nat (aligned_size (length text)) :: u32)" "le_word (take 8 (drop 8 sec)) = (of_nat UBH_NAT_SIZE :: u64)"
    by (simp_all add: sec_def native_part_def nat_bytes_def le_word_bytes_full)
  ultimately have "load_section (pre @ sec) bin m = Inr (m\<lparr>m_nat_sec := [e]\<rparr>)"
    using bin assms(2,4) by (simp add: load_section_def Let_def ubh_sizes e_def)
  moreover have "take (length text) (n_buf e) = text"
    by (simp add: e_def sec_def native_part_def nat_bytes_def ubh_sizes)
  ultimately show ?thesis by (auto simp: sec_def e_def)
qed

text \<open>C39: linking.  For a module file as the encoder writes it and the text section of an ELF file, \<^verbatim>\<open>Link\<close> produces a file whose
  header leads the loader to the old section headers and one more, for a native section; the old sections stay where they
  were; and loading the new section yields one native entry whose buffer begins with the bytes of the text section.\<close>

theorem Link_adds_native_section:
  assumes "sld_buf s = mhdr_bytes (of_nat (length hs)) off @ body @ concat (map shdr_bytes hs)" and "m_shdr_tab (sld_module s) = hs"
    and "sld_text_sec s = Some text" and "length hs < 63" and "unat off < 2 ^ 26"
    and "28 + length body + aligned_size (length (es_data text)) < 2 ^ 26"
  shows "\<exists>file bin num tab_off. Link s = Inr file \<and> read_mhdr file = Inr (num, tab_off) \<and> read_shdr_tab file num tab_off = Inr (hs @ [bin]) \<and>
    Get_sec_id_from_header bin = Inr S_NAT \<and> drop 12 (take (12 + length body) file) = body \<and>
    (\<forall>m. sec_elem_num m S_NAT = Inr 1 \<longrightarrow>
      (\<exists>e. load_section file bin m = Inr (m\<lparr>m_nat_sec := [e]\<rparr>) \<and> n_byte_num e = of_nat (aligned_size (length (es_data text))) \<and>
        take (length (es_data text)) (n_buf e) = es_data text))"
proof -
  let ?n = "of_nat (length hs) + 1 :: u32" and ?off = "of_nat (12 + length body + UBH_NAT_SIZE + aligned_size (length (es_data text))) :: u32"
  obtain bin w where bin: "UBH_SHDR (ucast SEC_BIN) 1 (of_nat (12 + length body)) = Inr bin"
    and link: "Link s = Inr (UBH_MAGIC @ replicate 4 0 @ le_bytes 4 (wr M_shdr_num ?n (wr M_shdr_off ?off w)) @
      body @ native_part (es_data text) @ concat (map shdr_bytes (hs @ [bin])))"
    using Link_contents [OF assms(1-5)] by blast
  let ?head = "UBH_MAGIC @ replicate 4 0 @ le_bytes 4 (wr M_shdr_num ?n (wr M_shdr_off ?off w) :: u32)"
  let ?file = "?head @ body @ native_part (es_data text) @ concat (map shdr_bytes (hs @ [bin]))"
  have head: "length ?head = 12" by (simp add: UBH_MAGIC_def)
  have "unat ?off = 12 + length body + UBH_NAT_SIZE + aligned_size (length (es_data text))"
    by (rule unat_of_nat_u32) (use assms(6) in \<open>simp add: ubh_sizes\<close>)
  then have off: "unat ?off = 12 + (length body + length (native_part (es_data text)))" "unat ?off < 2 ^ 26"
    using assms(6) by (simp_all only: length_native_part ubh_sizes)
  have "?n = of_nat (length hs + 1)" by simp
  then have n: "unat ?n = length (hs @ [bin])" using assms(4) unat_of_nat_u32 [of "length hs + 1"] by (simp add: add.commute)
  have "read_mhdr ?file = Inr (?n, ?off)" using read_mhdr_word [of ?n ?off] off n assms(4) by simp
  moreover have "read_shdr_tab ?file ?n ?off = Inr (hs @ [bin])"
    using read_headers [OF _ n off(1), of "?head @ body @ native_part (es_data text)"] head by simp
  moreover have "Get_sec_id_from_header bin = Inr S_NAT" using bin_header [of "of_nat (12 + length body)"] bin by auto
  moreover have "drop 12 (take (12 + length body) ?file) = body" using head by simp
  moreover have "\<exists>e. load_section ?file bin m = Inr (m\<lparr>m_nat_sec := [e]\<rparr>) \<and> n_byte_num e = of_nat (aligned_size (length (es_data text))) \<and>
      take (length (es_data text)) (n_buf e) = es_data text" if "sec_elem_num m S_NAT = Inr 1" for m
    using load_native_part [OF bin _ _ that, of "?head @ body" "es_data text" "concat (map shdr_bytes (hs @ [bin]))"] head assms(6) by simp
  ultimately show ?thesis using link by auto
qed

text \<open>A file with one section header and eight bytes of sections, linked with three bytes of code.\<close>

definition ex_sld :: u_sld where
  "ex_sld = \<lparr>sld_module = U_MODULE\<lparr>m_shdr_tab := [\<lparr>sh_u = 0x00080005, sh_idx = 12\<rparr>]\<rparr>,
    sld_buf = mhdr_bytes (of_nat 1) 20 @ [1, 2, 3, 4, 5, 6, 7, 8] @ concat (map shdr_bytes [\<lparr>sh_u = 0x00080005, sh_idx = 12\<rparr>]),
    sld_text_sec = Some \<lparr>es_type = SHT_PROGBITS, es_name = text_name, es_offset = 0, es_data = [0x90, 0x90, 0xc3], es_symbols = []\<rparr>,
    sld_name_import_cache = (\<lambda>name. None)\<rparr>"

theorem Link_adds_native_section_witness:
  "\<exists>file bin num tab_off. Link ex_sld = Inr file \<and> read_mhdr file = Inr (num, tab_off) \<and>
    read_shdr_tab file num tab_off = Inr [\<lparr>sh_u = 0x00080005, sh_idx = 12\<rparr>, bin] \<and> Get_sec_id_from_header bin = Inr S_NAT \<and>
    drop 12 (take 20 file) = [1, 2, 3, 4, 5, 6, 7, 8]"
proof -
  have "sld_buf ex_sld = mhdr_bytes (of_nat (length [\<lparr>sh_u = 0x00080005, sh_idx = 12\<rparr>])) 20 @ [1, 2, 3, 4, 5, 6, 7, 8] @
      concat (map shdr_bytes [\<lparr>sh_u = 0x00080005, sh_idx = 12\<rparr>])"
    "m_shdr_tab (sld_module ex_sld) = [\<lparr>sh_u = 0x00080005, sh_idx = 12\<rparr>]"
    "sld_text_sec ex_sld = Some \<lparr>es_type = SHT_PROGBITS, es_name = text_name, es_offset = 0, es_data = [0x90, 0x90, 0xc3], es_symbols = []\<rparr>"
    by (simp_all add: ex_sld_def)
  from Link_adds_native_section [OF this] show ?thesis
    by (simp add: aligned_size_def SECTION_ALIGN_def) blast
qed

end
