(* ===== verification/Debug_Props.thy ===== *)
theory Debug_Props
  imports Example
begin

text \<open>
  The properties of the debugger: where the loops of the interpreter stop for a breakpoint, and which frames it shows.
\<close>

section \<open>Breakpoints\<close>








section \<open>Frames are counted from the wrong end\<close>

lemma sint_of_unat_less:
  fixes w :: u32
  assumes "unat w < 2 ^ 31"
  shows "sint w = int (unat w)"
proof -
  have "uint w = int (unat w)" by simp
  moreover have "int (unat w) < 2147483648" using assms by (simp del: of_nat_unat)
  ultimately have "uint w < 2147483648" by linarith
  then show ?thesis by (simp add: sint_uint signed_take_bit_eq_take_bit_shift take_bit_eq_mod)
qed

lemma selected_frame:
  assumes "cs_inv (ctx_stack m)" and "cs_abs (ctx_stack m) = caller # rest" and "length rest < 2 ^ 31"
  shows "unat (TopIdx m) = length rest"
    and "fr \<noteq> 0 \<Longrightarrow> unat fr \<le> length rest \<Longrightarrow> saved_context m (sint (TopIdx m - fr)) = Inr (rest ! (unat fr - 1))"
proof -
  let ?s = "ctx_stack m"
  have len: "nat (cs_top ?s + 1) = Suc (length rest)"
    using arg_cong [OF assms(2), of length] by (simp add: cs_abs_def)
  then have top: "cs_top ?s = int (length rest)" by linarith
  then have idx: "TopIdx m = of_nat (length rest)" by (simp add: TopIdx_def)
  then show unat_top: "unat (TopIdx m) = length rest" using assms(3) by (simp add: unat_of_nat_u32)
  show "saved_context m (sint (TopIdx m - fr)) = Inr (rest ! (unat fr - 1))" if fr: "fr \<noteq> 0" "unat fr \<le> length rest"
  proof -
    have pos: "1 \<le> unat fr" using fr(1) by (simp add: Suc_le_eq unat_gt_0)
    have target: "unat (TopIdx m - fr) = length rest - unat fr" using fr(2) unat_top by (simp add: unat_sub word_le_nat_alt)
    then have "sint (TopIdx m - fr) = int (length rest - unat fr)" using assms(3) by (simp add: sint_of_unat_less)
    moreover have "cs_vec ?s (length rest - unat fr) = cs_abs ?s ! unat fr"
      unfolding cs_abs_def len using fr(2) by (subst rev_nth) (simp_all add: nth_append del: upt_Suc)
    moreover have "cs_abs ?s ! unat fr = rest ! (unat fr - 1)" using pos by (simp add: assms(2))
    moreover have "int (length rest - unat fr) < int (cs_size ?s)" using assms(1) top by (auto simp: cs_inv_def)
    ultimately show ?thesis by (simp add: saved_context_def)
  qed
qed

text \<open>C40: inspecting frames.  With saved contexts \<open>caller\<close> and \<open>rest\<close>, where \<open>caller\<close> is the context of the function that made the current call,
  selecting frame \<open>k\<close> for \<open>k\<close> from 1 on shows element \<open>k - 1\<close> of \<open>rest\<close>, and a larger number changes nothing: the context of the
  caller itself is never shown.\<close>

theorem frames_skip_caller:
  assumes "cs_inv (ctx_stack m)" and "cs_abs (ctx_stack m) = caller # rest" and "length rest < 2 ^ 31"
    and "fr \<noteq> 0" and "Change_current_frame m fr d = Inr d'"
  shows "(unat fr \<le> length rest \<longrightarrow> db_frame d' = Some (rest ! (unat fr - 1)) \<and> db_frame_id d' = fr) \<and>
    (length rest < unat fr \<longrightarrow> d' = d)"
proof (cases "unat fr \<le> length rest")
  case True
  then have "\<not> TopIdx m < fr" using selected_frame(1) [OF assms(1-3)] by (simp add: word_less_nat_alt)
  then show ?thesis
    using assms(4,5) True selected_frame(2) [OF assms(1-4) True] by (auto simp: Change_current_frame_def Let_def)
next
  case False
  then have "TopIdx m < fr" using selected_frame(1) [OF assms(1-3)] by (simp add: word_less_nat_alt)
  then show ?thesis using assms(4,5) False by (simp add: Change_current_frame_def)
qed

text \<open>A machine with two saved contexts, of functions 1 and 0, while function 2 runs.\<close>

definition ex_debug_machine :: uwasm_machine where
  "ex_debug_machine = ex_fresh\<lparr>ctx_stack := CONTEXT_STACK\<lparr>cs_top := 1,
      cs_vec := (\<lambda>i. EXEC_CONTEXT\<lparr>x_func_idx := of_nat i, x_pc := Some 0\<rparr>)\<rparr>,
    module := ex_module\<lparr>m_exp_to_pc_map := [(0, (0, 0))]\<rparr>\<rparr>"

theorem frames_skip_caller_witness:
  "\<exists>d'. Change_current_frame ex_debug_machine 1 (UWASM_DEBUG\<lparr>db_machine := True\<rparr>) = Inr d' \<and>
    db_frame d' = Some (EXEC_CONTEXT\<lparr>x_func_idx := 0, x_pc := Some 0\<rparr>)"
proof -
  let ?c = "\<lambda>i :: nat. EXEC_CONTEXT\<lparr>x_func_idx := of_nat i, x_pc := Some 0\<rparr>"
  have stack: "cs_inv (ctx_stack ex_debug_machine)" "cs_abs (ctx_stack ex_debug_machine) = ?c 1 # [?c 0]"
    by (simp_all add: ex_debug_machine_def cs_inv_def cs_abs_def CONTEXT_STACK_def DEFAULT_STACK_SIZE_def numeral_2_eq_2)
  have "\<exists>d'. Change_current_frame ex_debug_machine 1 (UWASM_DEBUG\<lparr>db_machine := True\<rparr>) = Inr d'"
    by (simp add: Change_current_frame_def UWASM_DEBUG_def TopIdx_def ex_debug_machine_def saved_context_def Print_one_frame_def Map_to_ubh_pc_def
        Get_func_def arr_at_def EXEC_CONTEXT_def CONTEXT_STACK_def DEFAULT_STACK_SIZE_def ex_module_def)
  then show ?thesis using frames_skip_caller [OF stack, of 1] by force
qed

end
