(* ===== verification/Wasm_Cvt.thy ===== *)
theory Wasm_Cvt
  imports Converter Data_Init
begin

text \<open>
  The driver of the converter (\<^verbatim>\<open>src/thirdparty/wasm/src/wasm-cvt.cc\<close>): the imports, exports, globals and data segments
  of a WebAssembly module and all its functions are handed to the encoder, which writes the file.  The module
  read by wabt is given by the values the driver takes from it.
\<close>

section \<open>The module read by wabt\<close>

datatype external_kind = Ext_Func | Ext_Table | Ext_Memory | Ext_Global | Ext_Event

datatype segment_kind = Seg_Active | Seg_Passive | Seg_Declared

text \<open>An expression of an initialiser: a constant with its wabt type and its bits, or another expression.\<close>

datatype wabt_expr = Const_expr u32 u64 | Other_expr

record wabt_import =
  im_kind :: external_kind
  im_module_name :: "u8 list"
  im_field_name :: "u8 list"
  im_sig :: wabt_sig

record wabt_export =
  ep_kind :: external_kind
  ep_name :: "u8 list"
  ep_index :: u32

record wabt_global =
  gl_name :: "u8 list"
  gl_type :: u32
  gl_mutable :: bool
  gl_init_expr :: "wabt_expr list"

record data_segment =
  dg_kind :: segment_kind
  dg_offset :: "wabt_expr list"
  dg_data :: "u8 list"

text \<open>\<open>wx_bins\<close>: the bytes from \<^verbatim>\<open>GetWasmBin\<close> on with \<^verbatim>\<open>GetWasmBinSize\<close>, one for each function, none for a null pointer.\<close>

record wasm_file =
  wx_module :: wabt_module
  wx_imports :: "wabt_import list"
  wx_exports :: "wabt_export list"
  wx_globals :: "wabt_global list"
  wx_segments :: "data_segment list"
  wx_bins :: "(u8 list \<times> u64) option list"

text \<open>What the run of the encoder leaves open: which buffers move, and bits that are never initialised.\<close>

record cvt_env =
  ce_moved :: "u_encoder \<Rightarrow> bool"
  ce_moved_nn :: "u_encoder \<Rightarrow> bool"
  ce_moved_pad :: "bool \<times> bool \<times> bool"
  ce_junk :: "u_encoder \<Rightarrow> u32"

section \<open>The context of the file\<close>

record cvt_context =
  cc_file :: file_context
  cc_import_globals :: u32
  cc_glbl_name_cache :: "u32 \<Rightarrow> u8 list option"

text \<open>A new context with \<^verbatim>\<open>Set_stack_check\<close> and \<^verbatim>\<open>Set_module\<close>; the function index is set before it is read.\<close>

definition FILE_CONTEXT :: "bool \<Rightarrow> wabt_module \<Rightarrow> cvt_context" where
  "FILE_CONTEXT stack_check md =
    \<lparr>cc_file = \<lparr>fc_module = md, fc_func_idx = 0, fc_last_anon_func_idx = 0, fc_stack_check = stack_check,
       fc_func_name_cache = (\<lambda>i. None), fc_glbl_id_map = (\<lambda>i. None)\<rparr>,
     cc_import_globals = 0, cc_glbl_name_cache = (\<lambda>i. None)\<rparr>"

definition Set_func_name_cache :: "u32 \<Rightarrow> u8 list \<Rightarrow> cvt_context \<Rightarrow> cvt_context res" where
  "Set_func_name_cache i name c =
    Is_True (fc_func_name_cache (cc_file c) i = None) (
    Inr (c\<lparr>cc_file := (cc_file c)\<lparr>fc_func_name_cache := (fc_func_name_cache (cc_file c))(i \<mapsto> name)\<rparr>\<rparr>))"

definition Set_global_name_cache :: "u32 \<Rightarrow> u8 list \<Rightarrow> cvt_context \<Rightarrow> cvt_context res" where
  "Set_global_name_cache i name c =
    Is_True (cc_glbl_name_cache c i = None) (Inr (c\<lparr>cc_glbl_name_cache := (cc_glbl_name_cache c)(i \<mapsto> name)\<rparr>))"

text \<open>\<^verbatim>\<open>map::insert\<close> keeps an entry that is already there.\<close>

definition Set_global_id_map :: "u32 \<Rightarrow> u32 \<Rightarrow> cvt_context \<Rightarrow> cvt_context" where
  "Set_global_id_map wasm_id uwasm_id c =
    (if fc_glbl_id_map (cc_file c) wasm_id = None
     then c\<lparr>cc_file := (cc_file c)\<lparr>fc_glbl_id_map := (fc_glbl_id_map (cc_file c))(wasm_id \<mapsto> uwasm_id)\<rparr>\<rparr>
     else c)"

definition Inc_import_global_cnt :: "cvt_context \<Rightarrow> cvt_context" where
  "Inc_import_global_cnt c = c\<lparr>cc_import_globals := cc_import_globals c + 1\<rparr>"

text \<open>The name is numbered by the counter of the anonymous functions.\<close>

definition Get_anon_global_name :: "cvt_context \<Rightarrow> u8 list \<times> cvt_context" where
  "Get_anon_global_name c =
    (of_char CHR ''g'' # decimal (unat (fc_last_anon_func_idx (cc_file c))),
     c\<lparr>cc_file := (cc_file c)\<lparr>fc_last_anon_func_idx := fc_last_anon_func_idx (cc_file c) + 1\<rparr>\<rparr>)"

definition Set_func_ctx :: "u32 \<Rightarrow> cvt_context \<Rightarrow> cvt_context" where
  "Set_func_ctx i c = c\<lparr>cc_file := (cc_file c)\<lparr>fc_func_idx := i\<rparr>\<rparr>"

definition Next_func :: "cvt_context \<Rightarrow> cvt_context" where
  "Next_func c = Set_func_ctx (fc_func_idx (cc_file c) + 1) c"

section \<open>Imports and exports\<close>

definition Conv_valty_to_nty :: "valtype \<Rightarrow> ntype res" where
  "Conv_valty_to_nty valty = (case valty of
      I32 \<Rightarrow> Inr NTYPE_I4 | I64 \<Rightarrow> Inr NTYPE_I8 | F32 \<Rightarrow> Inr NTYPE_F4 | F64 \<Rightarrow> Inr NTYPE_F8 | _ \<Rightarrow> Inl Assertion)"

definition native_type :: "u32 \<Rightarrow> (valtype \<times> ntype) res" where
  "native_type t = bindr (Conv_wabt_ty t) (\<lambda>res. bindr (Conv_valty_to_nty res) (\<lambda>n. Inr (res, n)))"

definition Process_external_func :: "cvt_env \<Rightarrow> u8 list \<Rightarrow> wabt_sig \<Rightarrow> u_encoder \<Rightarrow> (nat \<times> u_encoder) res" where
  "Process_external_func V combined_name sig e =
    bindr (case sg_results sig of
        [] \<Rightarrow> Inr ([], NTYPE_V)
      | [t] \<Rightarrow> bindr (native_type t) (\<lambda>(res, n). Inr ([res], n))
      | _ \<Rightarrow> Inl Assertion) (\<lambda>(ret_ty_list, ret).
    bindr (mapr native_type (sg_params sig)) (\<lambda>params.
    bindr (enc_Add_type (ce_moved_nn V e) ret_ty_list (map fst params) e) (\<lambda>(type_idx, e).
    Request_native_func (ce_moved V e) (ce_moved_nn V e) (ce_junk V e) (cstring combined_name) (of_nat type_idx) ret (map snd params) e)))"

definition process_export :: "wabt_export \<Rightarrow> cvt_context \<Rightarrow> cvt_context res" where
  "process_export export_info c = (case ep_kind export_info of
      Ext_Func \<Rightarrow> Set_func_name_cache (ep_index export_info) (ep_name export_info) c
    | Ext_Global \<Rightarrow> Set_global_name_cache (ep_index export_info) (ep_name export_info) c
    | _ \<Rightarrow> Inr c)"

definition Process_wasm_exports :: "wabt_export list \<Rightarrow> cvt_context \<Rightarrow> cvt_context res" where
  "Process_wasm_exports exports c = foldr_res process_export exports c"

text \<open>An imported global takes the number of its name in the table of global names; no entry of the global table is made.\<close>

definition import_global :: "cvt_env \<Rightarrow> u8 list \<Rightarrow> u_encoder \<times> cvt_context \<Rightarrow> (u_encoder \<times> cvt_context) res" where
  "import_global V combined_name t =
    (let (e, c) = t;
         cur_wasm_id = cc_import_globals c;
         (global_id, e) = Add_global_name (ce_moved V e) (cstring combined_name) e in
     bindr (Set_global_name_cache cur_wasm_id combined_name c) (\<lambda>c.
     let c = Inc_import_global_cnt (Set_global_id_map cur_wasm_id global_id c) in
     Is_True (cur_wasm_id + 1 = global_id) (Inr (e, c))))"

definition process_import :: "cvt_env \<Rightarrow> wabt_import \<Rightarrow> u_encoder \<times> cvt_context \<Rightarrow> (u_encoder \<times> cvt_context) res" where
  "process_import V import_item t = (case im_kind import_item of
      Ext_Func \<Rightarrow> bindr (Process_external_func V (im_field_name import_item) (im_sig import_item) (fst t)) (\<lambda>(i, e). Inr (e, snd t))
    | Ext_Global \<Rightarrow> import_global V (im_module_name import_item @ of_char CHR ''.'' # im_field_name import_item) t
    | Ext_Table \<Rightarrow> Inr t
    | Ext_Memory \<Rightarrow> Inr t
    | Ext_Event \<Rightarrow> Inl Assertion)"

definition Process_wasm_imports :: "cvt_env \<Rightarrow> wabt_import list \<Rightarrow> u_encoder \<times> cvt_context \<Rightarrow> (u_encoder \<times> cvt_context) res" where
  "Process_wasm_imports V imports t = foldr_res (process_import V) imports t"

section \<open>Globals\<close>

text \<open>The initial value: a constant of the type of the global, or 0 for any other initialiser, which only gives a warning.\<close>

definition global_init :: "valtype \<Rightarrow> wabt_expr list \<Rightarrow> u64 res" where
  "global_init valty exprs = (case exprs of
      [Const_expr t v] \<Rightarrow>
        bindr (Conv_wabt_ty t) (\<lambda>ty.
        Is_True (ty = valty) (case valty of
            I32 \<Rightarrow> Inr (take_bit 32 v) | I64 \<Rightarrow> Inr v | F32 \<Rightarrow> Inr (take_bit 32 v) | F64 \<Rightarrow> Inr v | _ \<Rightarrow> Inl Assertion))
    | _ \<Rightarrow> Inr 0)"

definition global_name_of :: "u32 \<Rightarrow> wabt_global \<Rightarrow> cvt_context \<Rightarrow> u8 list \<times> cvt_context" where
  "global_name_of wasm_id glbl c = (case cc_glbl_name_cache c wasm_id of
      Some name \<Rightarrow> (name, c)
    | None \<Rightarrow> if gl_name glbl = [] then Get_anon_global_name c else (gl_name glbl, c))"

text \<open>One global; the value is passed as the 32-bit argument of the shorter \<^verbatim>\<open>Add_global\<close>.\<close>

definition process_global :: "cvt_env \<Rightarrow> u32 \<Rightarrow> wabt_global \<Rightarrow> u_encoder \<times> cvt_context \<Rightarrow> (u_encoder \<times> cvt_context) res" where
  "process_global V wasm_id glbl t =
    (let (e, c) = t in
     bindr (Conv_wabt_ty (gl_type glbl)) (\<lambda>valty.
     let (global_name, c) = global_name_of wasm_id glbl c in
     if wasm_id < cc_import_globals c then Inr (e, c)
     else bindr (global_init valty (gl_init_expr glbl)) (\<lambda>init_value.
       bindr (Add_global32 (ce_moved V e) (gl_mutable glbl) (ucast init_value) (cstring global_name) e) (\<lambda>(global_id, e).
       Inr (e, Set_global_id_map wasm_id (of_nat global_id) c)))))"

fun process_globals :: "cvt_env \<Rightarrow> u32 \<Rightarrow> wabt_global list \<Rightarrow> u_encoder \<times> cvt_context \<Rightarrow> (u_encoder \<times> cvt_context) res" where
  "process_globals V wasm_id [] t = Inr t"
| "process_globals V wasm_id (glbl # glbls) t =
    bindr (process_global V wasm_id glbl t) (process_globals V (wasm_id + 1) glbls)"

definition Process_wasm_globals :: "cvt_env \<Rightarrow> wabt_global list \<Rightarrow> u_encoder \<times> cvt_context \<Rightarrow> (u_encoder \<times> cvt_context) res" where
  "Process_wasm_globals V glbls t = process_globals V 0 glbls t"

section \<open>Data segments\<close>

text \<open>The offset of an active segment; other segments are refused.\<close>

definition active_offset :: "data_segment \<Rightarrow> u32 res" where
  "active_offset data_chunk = (case dg_kind data_chunk of
      Seg_Active \<Rightarrow> (case dg_offset data_chunk of [Const_expr t v] \<Rightarrow> Inr (ucast v) | _ \<Rightarrow> Inl Assertion)
    | _ \<Rightarrow> Inl Assertion)"

text \<open>The loop that checks the segments and adds up their sizes: the size and the number.\<close>

definition count_seg :: "data_segment \<Rightarrow> u32 \<times> u32 \<Rightarrow> (u32 \<times> u32) res" where
  "count_seg data_chunk t =
    bindr (active_offset data_chunk) (\<lambda>ofs. Inr (fst t + of_nat (length (dg_data data_chunk)), snd t + 1))"

text \<open>The loop that copies a segment and fills its descriptor: \<open>index\<close>, \<open>current_copied\<close> and the buffer.\<close>

definition place_seg :: "u32 \<Rightarrow> data_segment \<Rightarrow> u32 \<times> u32 \<times> u8 list \<Rightarrow> (u32 \<times> u32 \<times> u8 list) res" where
  "place_seg total_size data_chunk t =
    (let (index, current_copied, data_infos) = t; sz = length (dg_data data_chunk) in
     Is_True (unat current_copied + sz \<le> unat total_size) (
     bindr (active_offset data_chunk) (\<lambda>ofs.
     bindr (arr_copy data_infos (unat current_copied) (dg_data data_chunk)) (\<lambda>data_infos.
     bindr (arr_copy data_infos (SIZEOF_DATA_SEGMENTS + SIZEOF_DSEG_INFO * unat index + 4) (le_bytes 4 (of_nat sz :: u32))) (\<lambda>data_infos.
     bindr (arr_copy data_infos (SIZEOF_DATA_SEGMENTS + SIZEOF_DSEG_INFO * unat index) (le_bytes 4 ofs)) (\<lambda>data_infos.
     Inr (index + 1, current_copied + of_nat sz, data_infos)))))))"

definition Process_wasm_static_data :: "data_segment list \<Rightarrow> u_encoder \<Rightarrow> u_encoder res" where
  "Process_wasm_static_data dataseg e =
    bindr (foldr_res count_seg dataseg (0, 0)) (\<lambda>(total_size, dseg_size).
    let prepend_size = dseg_size * of_nat SIZEOF_DSEG_INFO + of_nat SIZEOF_DATA_SEGMENTS;
        total_size = total_size + prepend_size;
        data_infos = replicate (unat total_size) 0
    in bindr (arr_copy data_infos 0 (DATA_SEGMENT_MAGIC_PREFIX @ le_bytes 8 (0 :: u64))) (\<lambda>data_infos.
       bindr (arr_copy data_infos 8 (le_bytes 8 (ucast dseg_size :: u64))) (\<lambda>data_infos.
       bindr (foldr_res (place_seg total_size) dataseg (0, prepend_size, data_infos)) (\<lambda>(index, current_copied, data_infos).
       Is_True (index = dseg_size \<and> total_size = current_copied) (
       Set_data_section (of_nat (length data_infos)) data_infos e)))))"

section \<open>The program\<close>

record cvt_options =
  co_start_func_set :: bool
  co_start_func_id :: int
  co_maximum_limited :: bool
  co_maximum_func_id :: int
  co_stack_check :: bool

text \<open>The loop over the functions; \<open>None\<close> when it returns from the program before the file is written.\<close>

fun process_funcs ::
  "cvt_env \<Rightarrow> cvt_options \<Rightarrow> (u8 list \<times> u64) option list \<Rightarrow> u_encoder \<times> cvt_context \<Rightarrow> (u_encoder \<times> cvt_context) option res" where
  "process_funcs V opt [] t = Inr (Some t)"
| "process_funcs V opt (bin # bins) t =
    (let (e, c) = t in
     bindr (ctx_Get_func (cc_file c)) (\<lambda>func.
     let (name, fctx) = func_name (cc_file c) func; c = c\<lparr>cc_file := fctx\<rparr>; idx = uint (fc_func_idx fctx) in
     case bin of
       None \<Rightarrow> process_funcs V opt bins (e, Next_func c)
     | Some (wasm_bin, sz) \<Rightarrow>
         if co_start_func_set opt \<and> idx < co_start_func_id opt
         then bindr (Process_external_func V (cstring name) (wf_sig func) e) (\<lambda>(i, e). process_funcs V opt bins (e, Next_func c))
         else if co_maximum_limited opt \<and> co_maximum_func_id opt \<le> idx then Inr None
         else bindr (Read_insts wasm_bin (unat (ucast sz :: u32))) (\<lambda>wasm_inst.
           bindr (Wasm_to_uwasm (ce_moved V) wasm_bin wasm_inst e (cc_file c)) (\<lambda>(e, fctx).
           process_funcs V opt bins (e, Next_func (c\<lparr>cc_file := fctx\<rparr>))))))"

text \<open>The conversion of a module that wabt has read: the contents of the file, if one is written.\<close>

definition ProgramMain :: "cvt_env \<Rightarrow> cvt_options \<Rightarrow> wasm_file \<Rightarrow> u8 list option res" where
  "ProgramMain V opt md =
    bindr (Process_wasm_imports V (wx_imports md) (U_ENCODER, FILE_CONTEXT (co_stack_check opt) (wx_module md))) (\<lambda>(e, c).
    bindr (Process_wasm_exports (wx_exports md) c) (\<lambda>c.
    bindr (Process_wasm_globals V (wx_globals md) (e, c)) (\<lambda>(e, c).
    bindr (Process_wasm_static_data (wx_segments md) e) (\<lambda>e.
    bindr (process_funcs V opt (wx_bins md) (e, Set_func_ctx 0 c)) (\<lambda>done.
    case done of None \<Rightarrow> Inr None
    | Some (e, c) \<Rightarrow> bindr (Write_to_file (ce_moved_pad V) e) (\<lambda>file. Inr (Some file)))))))"

definition String_has_ending :: "u8 list \<Rightarrow> u8 list \<Rightarrow> bool" where
  "String_has_ending fullString ending =
    (length ending \<le> length fullString \<and> drop (length fullString - length ending) fullString = ending)"

text \<open>\<^verbatim>\<open>substr(0, find_last_of('.'))\<close>.\<close>

definition file_stem :: "u8 list \<Rightarrow> u8 list" where
  "file_stem s = (if of_char CHR ''.'' \<in> set s then rev (tl (dropWhile (\<lambda>b. b \<noteq> of_char CHR ''.'') (rev s))) else s)"

text \<open>The name of the file written; \<open>None\<close> for an object file, which is copied.\<close>

definition output_name :: "bool \<Rightarrow> u8 list \<Rightarrow> u8 list option" where
  "output_name compile_only_mode infile =
    (if String_has_ending infile (map of_char ''.o'') then None
     else if compile_only_mode then Some (file_stem infile @ map of_char ''.o'')
     else Some (file_stem infile @ map of_char ''.uwm''))"

end
