(* ===== verification/Cvt_Props.thy ===== *)
theory Cvt_Props
  imports Wasm_Cvt
begin

text \<open>
  The properties of the driver of the converter: the data section it builds from the data segments of a module, and the
  numbers and initial values of globals.
\<close>

section \<open>The data section\<close>

text \<open>A segment in the form wabt has it and its place in memory and bytes.\<close>

definition seg_of :: "data_segment \<Rightarrow> segment \<Rightarrow> bool" where
  "seg_of d seg \<longleftrightarrow> active_offset d = Inr (fst seg) \<and> dg_data d = snd seg"

lemma arr_copy_at:
  assumes "length pre = p" and "length old = length new"
  shows "arr_copy (pre @ old @ rest) p new = Inr (pre @ new @ rest)"
  using assms by (simp add: arr_copy_def)

lemma count_segs:
  assumes "list_all2 seg_of ds segs"
  shows "foldr_res count_seg ds (n, k) = Inr (n + of_nat (length (concat (map snd segs))), k + of_nat (length segs))"
  using assms
  by (induction arbitrary: n k rule: list_all2_induct) (simp_all add: count_seg_def seg_of_def algebra_simps)

text \<open>The buffer after some segments, with room for the others.\<close>

definition seg_buf :: "nat \<Rightarrow> segment list \<Rightarrow> segment list \<Rightarrow> u8 list" where
  "seg_buf n done todo = DATA_SEGMENT_MAGIC_PREFIX @ le_bytes 8 (of_nat n :: u64) @ concat (map seg_bytes done) @
    replicate (8 * length todo) 0 @ concat (map snd done) @ replicate (length (concat (map snd todo))) 0"

lemma place_seg_step:
  assumes seg: "seg_of d seg" and len: "length (seg_buf n done (seg # todo)) < 2 ^ 32"
  defines "tot \<equiv> of_nat (length (seg_buf n done (seg # todo))) :: u32"
    and "p \<equiv> \<lambda>segs :: segment list. of_nat (16 + 8 * (length done + Suc (length todo)) + length (concat (map snd segs))) :: u32"
  shows "place_seg tot d (of_nat (length done), p done, seg_buf n done (seg # todo)) =
    Inr (of_nat (length (done @ [seg])), p (done @ [seg]), seg_buf n (done @ [seg]) todo)"
proof -
  let ?head = "DATA_SEGMENT_MAGIC_PREFIX @ le_bytes 8 (of_nat n :: u64) @ concat (map seg_bytes done)"
  let ?data = "concat (map snd done)" and ?rest = "replicate (length (concat (map snd todo))) (0 :: u8)" and ?z = "\<lambda>k. replicate k (0 :: u8)"
  let ?i = "length done" and ?sz = "of_nat (length (snd seg)) :: u32" and ?tail = "?z (8 * length todo) @ concat (map snd done)"
  let ?b1 = "(?head @ ?z 4) @ ?z 4 @ ?tail @ snd seg @ ?rest"
  have h: "length ?head = 16 + 8 * ?i" by (simp add: DATA_SEGMENT_MAGIC_PREFIX_def)
  have L: "length (seg_buf n done (seg # todo)) = 16 + 8 * (?i + Suc (length todo)) + length ?data + length (snd seg) + length ?rest"
    using h by (simp add: seg_buf_def)
  have u: "unat tot = length (seg_buf n done (seg # todo))" "unat (of_nat ?i :: u32) = ?i"
    "unat (p done) = 16 + 8 * (?i + Suc (length todo)) + length ?data"
    unfolding tot_def p_def by (rule unat_of_nat_u32, use len L in simp)+
  have b0: "seg_buf n done (seg # todo) = (?head @ ?z 8 @ ?tail) @ ?z (length (snd seg)) @ ?rest"
    by (simp add: seg_buf_def replicate_add)
  have "length (?head @ ?z 8 @ ?tail) = unat (p done)" using h u(3) by simp
  then have "arr_copy (seg_buf n done (seg # todo)) (unat (p done)) (snd seg) = Inr ((?head @ ?z 8 @ ?tail) @ snd seg @ ?rest)"
    unfolding b0 by (rule arr_copy_at) simp
  also have "(?head @ ?z 8 @ ?tail) @ snd seg @ ?rest = ?b1" using replicate_add [of 4 4 "0 :: u8"] by simp
  finally have s1: "arr_copy (seg_buf n done (seg # todo)) (unat (p done)) (snd seg) = Inr ?b1" .
  have s2: "arr_copy ?b1 (16 + 8 * ?i + 4) (le_bytes 4 ?sz) = Inr ((?head @ ?z 4) @ le_bytes 4 ?sz @ ?tail @ snd seg @ ?rest)"
    by (rule arr_copy_at) (use h in simp_all)
  have s3: "arr_copy ((?head @ ?z 4) @ le_bytes 4 ?sz @ ?tail @ snd seg @ ?rest) (16 + 8 * ?i) (le_bytes 4 (fst seg)) =
      Inr (seg_buf n (done @ [seg]) todo)"
    using arr_copy_at [of ?head "16 + 8 * ?i" "?z 4" "le_bytes 4 (fst seg)" "le_bytes 4 ?sz @ ?tail @ snd seg @ ?rest"] h
    by (simp add: seg_buf_def seg_bytes_def)
  have "unat (p done) + length (snd seg) \<le> unat tot" using L u by simp
  moreover have "p done + ?sz = p (done @ [seg])" "of_nat ?i + 1 = (of_nat (length (done @ [seg])) :: u32)" by (simp_all add: p_def)
  ultimately show ?thesis
    using seg by (simp only: place_seg_def Let_def prod.case seg_of_def Is_True_def u(2) s1 s2 s3 bindr_simps
        SIZEOF_DATA_SEGMENTS_def SIZEOF_DSEG_INFO_def if_True)
qed

lemma length_seg_buf: "length (seg_buf n done todo) = 16 + 8 * (length done + length todo) + length (concat (map snd (done @ todo)))"
  by (simp add: seg_buf_def DATA_SEGMENT_MAGIC_PREFIX_def)

lemma place_segs:
  assumes "list_all2 seg_of ds todo" and "L = 16 + 8 * (length done + length todo)" and "T = L + length (concat (map snd (done @ todo)))"
    and "T < 2 ^ 32"
  shows "foldr_res (place_seg (of_nat T)) ds (of_nat (length done), of_nat (L + length (concat (map snd done))), seg_buf n done todo) =
    Inr (of_nat (length (done @ todo)), of_nat T, seg_buf n (done @ todo) [])"
  using assms
proof (induction arbitrary: "done" rule: list_all2_induct)
  case Nil
  then show ?case by simp
next
  case (Cons d ds seg todo)
  have "T = length (seg_buf n done (seg # todo))" using Cons.prems(1,2) by (simp add: length_seg_buf)
  then have "place_seg (of_nat T) d (of_nat (length done), of_nat (L + length (concat (map snd done))), seg_buf n done (seg # todo)) =
      Inr (of_nat (length (done @ [seg])), of_nat (L + length (concat (map snd (done @ [seg])))), seg_buf n (done @ [seg]) todo)"
    using place_seg_step [OF Cons.hyps(1), of n "done" todo] Cons.prems by simp
  then show ?case using Cons.IH [of "done @ [seg]"] Cons.prems by simp
qed

text \<open>The driver builds the data section of the segments.\<close>

lemma Process_wasm_static_data_section:
  assumes "list_all2 seg_of ds segs" and "length (segs_section segs) < 0xffffffff"
  shows "Process_wasm_static_data ds e = Inr (e\<lparr>ue_const_data := segs_section segs\<rparr>)"
proof -
  let ?L = "16 + 8 * length segs" and ?D = "length (concat (map snd segs))" and ?n = "length segs"
  let ?T = "?L + ?D" and ?z = "\<lambda>k. replicate k (0 :: u8)"
  have T: "length (segs_section segs) = ?T" "?T < 2 ^ 32" "?n < 2 ^ 32"
    using assms(2) segs_head_length [of segs] by (simp_all add: segs_section_def)
  have tot: "of_nat ?D + of_nat ?L = (of_nat ?T :: u32)"
    "of_nat ?n * of_nat SIZEOF_DSEG_INFO + of_nat SIZEOF_DATA_SEGMENTS = (of_nat ?L :: u32)"
    by (simp_all add: SIZEOF_DSEG_INFO_def SIZEOF_DATA_SEGMENTS_def)
  have uT: "unat (of_nat ?T :: u32) = ?T" using T(2) by (intro unat_of_nat_u32) simp
  have cnt: "ucast (of_nat ?n :: u32) = (of_nat ?n :: u64)" using T(3) by (simp add: word_unat_eq_iff unat_of_nat unsigned_ucast_eq take_bit_nat_eq_self)
  have z: "?z ?T = [] @ ?z 16 @ ?z (8 * ?n + ?D)" by (simp add: replicate_add [symmetric])
  have c1: "arr_copy (?z ?T) 0 (DATA_SEGMENT_MAGIC_PREFIX @ le_bytes 8 (0 :: u64)) =
      Inr (DATA_SEGMENT_MAGIC_PREFIX @ le_bytes 8 (0 :: u64) @ ?z (8 * ?n + ?D))"
    unfolding z by (subst arr_copy_at) (simp_all add: DATA_SEGMENT_MAGIC_PREFIX_def)
  have c2: "arr_copy (DATA_SEGMENT_MAGIC_PREFIX @ le_bytes 8 (0 :: u64) @ ?z (8 * ?n + ?D)) 8 (le_bytes 8 (of_nat ?n :: u64)) =
      Inr (seg_buf ?n [] segs)"
    by (subst arr_copy_at) (simp_all add: DATA_SEGMENT_MAGIC_PREFIX_def seg_buf_def replicate_add)
  have pl: "foldr_res (place_seg (of_nat ?T)) ds (0, of_nat ?L, seg_buf ?n [] segs) = Inr (of_nat ?n, of_nat ?T, seg_buf ?n segs [])"
    using place_segs [OF assms(1), of ?L "[]" ?T ?n] T(2) by simp
  have buf: "seg_buf ?n segs [] = segs_section segs" by (simp add: seg_buf_def segs_section_def segs_head_def)
  have "Set_data_section (of_nat (length (segs_section segs))) (segs_section segs) e = Inr (e\<lparr>ue_const_data := segs_section segs\<rparr>)"
  proof -
    have "unat (of_nat (length (segs_section segs)) :: u64) = length (segs_section segs)"
      using assms(2) by (simp add: unat_of_nat take_bit_nat_eq_self)
    then show ?thesis using assms(2) by (simp add: Set_data_section_def Is_True_def word_less_nat_alt)
  qed
  then show ?thesis
    unfolding Process_wasm_static_data_def count_segs [OF assms(1)]
    by (simp add: tot uT c1 c2 cnt pl buf Is_True_def Let_def del: of_nat_add of_nat_mult)
qed

section \<open>Globals\<close>

abbreviation id_map :: "cvt_context \<Rightarrow> u32 \<Rightarrow> u32 option" where
  "id_map c \<equiv> fc_glbl_id_map (cc_file c)"

lemma Request_native_func_glbl: "Request_native_func mv mn j name ti r ps e = Inr (i, e') \<Longrightarrow> ue_glbl_tab e' = ue_glbl_tab e"
  by (auto simp: Request_native_func_def Inner_request_func_def Encode_and_save_ntype_def Add_to_import_native_tab_def Is_True_def
      Let_def split: if_splits option.splits prod.splits)

lemma Process_external_func_glbl: "Process_external_func V name sig e = Inr (i, e') \<Longrightarrow> ue_glbl_tab e' = ue_glbl_tab e"
  by (auto simp: Process_external_func_def enc_Add_type_def dest!: Request_native_func_glbl split: prod.splits)

text \<open>After \<open>k\<close> imported globals: they are numbered from 1 on, and there is no other global.\<close>

definition imported :: "nat \<Rightarrow> u_encoder \<times> cvt_context \<Rightarrow> bool" where
  "imported k t \<longleftrightarrow> ue_glbl_tab (fst t) = [] \<and> cc_import_globals (snd t) = of_nat k \<and>
    id_map (snd t) = (\<lambda>w. if unat w < k then Some (w + 1) else None)"

lemma import_global_imported:
  assumes "import_global V name t = Inr t'" and "imported k t" and "Suc k < 2 ^ 32"
  shows "imported (Suc k) t'"
proof -
  obtain e c where t: "t = (e, c)" by (cases t)
  obtain gid e1 where g: "Add_global_name (ce_moved V e) (cstring name) e = (gid, e1)" by fastforce
  have k: "unat (of_nat k :: u32) = k" using assms(3) by (intro unat_of_nat_u32) simp
  have ids: "id_map c = (\<lambda>w. if unat w < k then Some (w + 1) else None)" "cc_import_globals c = of_nat k" "ue_glbl_tab e = []"
    using assms(2) t by (simp_all add: imported_def)
  have t': "t' = (e1, Inc_import_global_cnt (Set_global_id_map (of_nat k) (of_nat k + 1)
      (c\<lparr>cc_glbl_name_cache := (cc_glbl_name_cache c)(of_nat k \<mapsto> name)\<rparr>)))"
    using assms(1) ids by (auto simp: t import_global_def g Set_global_name_cache_def Is_True_def Let_def split: if_splits)
  have "id_map (snd t') = (\<lambda>w. if unat w < Suc k then Some (w + 1) else None)"
  proof
    fix w :: u32
    have "w = of_nat k \<longleftrightarrow> unat w = k" using k by (metis word_unat_eq_iff)
    then show "id_map (snd t') w = (if unat w < Suc k then Some (w + 1) else None)"
      using t' ids k by (auto simp: Inc_import_global_cnt_def Set_global_id_map_def)
  qed
  moreover have "ue_glbl_tab e1 = ue_glbl_tab e" using g by (auto simp: Add_global_name_def split: prod.splits)
  ultimately show ?thesis using t' ids by (simp add: imported_def Inc_import_global_cnt_def Set_global_id_map_def add.commute)
qed

definition global_imports :: "wabt_import list \<Rightarrow> nat" where
  "global_imports imps = length (filter (\<lambda>i. im_kind i = Ext_Global) imps)"

lemma imports_imported:
  assumes "foldr_res (process_import V) imps t = Inr t'" and "imported k t" and "k + global_imports imps < 2 ^ 32"
  shows "imported (k + global_imports imps) t'"
  using assms
proof (induction imps arbitrary: k t)
  case Nil
  then show ?case by (simp add: global_imports_def)
next
  case (Cons i imps)
  from Cons.prems(1) obtain t1 where t1: "process_import V i t = Inr t1" "foldr_res (process_import V) imps t1 = Inr t'" by auto
  show ?case
  proof (cases "im_kind i = Ext_Global")
    case True
    then have "imported (Suc k) t1"
      using t1(1) Cons.prems(2,3) import_global_imported by (auto simp: process_import_def global_imports_def)
    with Cons.IH [OF t1(2), of "Suc k"] Cons.prems(3) True show ?thesis by (simp add: global_imports_def)
  next
    case False
    then have "imported k t1"
      using t1(1) Cons.prems(2) Process_external_func_glbl
      by (auto simp: process_import_def imported_def split: external_kind.splits)
    with Cons.IH [OF t1(2), of k] Cons.prems(3) False show ?thesis by (simp add: global_imports_def)
  qed
qed

lemma exports_ids:
  "foldr_res process_export exports c = Inr c' \<Longrightarrow> id_map c' = id_map c \<and> cc_import_globals c' = cc_import_globals c"
  by (induction exports arbitrary: c)
    (auto simp: process_export_def Set_func_name_cache_def Set_global_name_cache_def Is_True_def split: external_kind.splits if_splits)

lemma global_name_of_ids: "id_map (snd (global_name_of w g c)) = id_map c" "cc_import_globals (snd (global_name_of w g c)) = cc_import_globals c"
  by (auto simp: global_name_of_def Get_anon_global_name_def split: option.splits)

lemma ucast_low32: "ucast (ucast v :: u32) = take_bit 32 (v :: u64)"
  by (rule bit_word_eqI) (auto simp: bit_simps)

text \<open>The entry of the global table that is made for a global, its initial value cut to 32 bits.\<close>

definition converted :: "wabt_global \<Rightarrow> ubh_glbl \<Rightarrow> bool" where
  "converted g u \<longleftrightarrow> (\<exists>ty v. Conv_wabt_ty (gl_type g) = Inr ty \<and> global_init ty (gl_init_expr g) = Inr v \<and>
    g_init_val u = take_bit 32 v \<and> g_mut u = (if gl_mutable g then 1 else 0))"

text \<open>After the first \<open>n\<close> globals, of which \<open>k\<close> are imported.\<close>

definition numbered :: "nat \<Rightarrow> wabt_global list \<Rightarrow> nat \<Rightarrow> u_encoder \<times> cvt_context \<Rightarrow> bool" where
  "numbered k gs n t \<longleftrightarrow> cc_import_globals (snd t) = of_nat k \<and> list_all2 converted (drop k (take n gs)) (ue_glbl_tab (fst t)) \<and>
    id_map (snd t) = (\<lambda>w. if unat w < k then Some (w + 1) else if unat w < n then Some (w - of_nat k) else None)"

lemma process_global_numbered:
  assumes "process_global V (of_nat n) (gs ! n) t = Inr t'" and "numbered k gs n t" and "n < length gs" and "length gs < 2 ^ 32" and "k \<le> length gs"
  shows "numbered k gs (Suc n) t'"
proof -
  obtain e c where t: "t = (e, c)" by (cases t)
  obtain name c1 where name: "global_name_of (of_nat n) (gs ! n) c = (name, c1)" by fastforce
  then obtain ty where ty: "Conv_wabt_ty (gl_type (gs ! n)) = Inr ty" using assms(1) t by (auto simp: process_global_def)
  note c1 = global_name_of_ids [of "of_nat n" "gs ! n" c, unfolded name snd_conv]
  have u: "unat (of_nat n :: u32) = n" "unat (of_nat k :: u32) = k" using assms(3-5) by (simp_all add: unat_of_nat_u32)
  have lt: "(of_nat n :: u32) < of_nat k \<longleftrightarrow> n < k" by (simp add: word_less_nat_alt u)
  show ?thesis
  proof (cases "n < k")
    case True
    then have "t' = (e, c1)" using assms(1) t ty name lt c1(2) assms(2) by (simp add: process_global_def numbered_def)
    then show ?thesis using assms(2) t c1 True by (auto simp: numbered_def fun_eq_iff)
  next
    case False
    let ?tab = "ue_glbl_tab e"
    obtain v gid e1 where v: "global_init ty (gl_init_expr (gs ! n)) = Inr v"
      and add: "Add_global32 (ce_moved V e) (gl_mutable (gs ! n)) (ucast v) (cstring name) e = Inr (gid, e1)"
      and t': "t' = (e1, Set_global_id_map (of_nat n) (of_nat gid) c1)"
      using assms(1,2) t ty name lt c1(2) False by (auto simp: process_global_def numbered_def)
    have tab: "list_all2 converted (drop k (take n gs)) ?tab" using assms(2) t by (simp add: numbered_def)
    then have len: "length ?tab = n - k" using assms(3) by (auto dest: list_all2_lengthD)
    from add obtain u where u': "ue_glbl_tab e1 = ?tab @ [u]" "converted (gs ! n) u" "gid = n - k"
      using ty v len
      by (auto simp: Add_global32_def Is_True_def Let_def converted_def Set_mutable_def Set_init_val_def Set_data_idx_def empty_glbl_def
          ucast_low32 split: if_splits prod.splits)
    have "drop k (take (Suc n) gs) = drop k (take n gs) @ [gs ! n]" using False assms(3) by (simp add: take_Suc_conv_app_nth)
    then have conv: "list_all2 converted (drop k (take (Suc n) gs)) (ue_glbl_tab e1)"
      using tab u'(1,2) by (simp add: list_all2_appendI)
    have "of_nat gid = (of_nat n - of_nat k :: u32)" using u'(3) False by (simp add: of_nat_diff)
    moreover have "w = of_nat n \<longleftrightarrow> unat w = n" for w :: u32 using u(1) by (metis word_unat_eq_iff)
    ultimately show ?thesis
      using assms(2) t t' c1 conv u False by (auto simp: numbered_def Set_global_id_map_def fun_eq_iff)
  qed
qed

lemma process_globals_numbered:
  assumes "process_globals V (of_nat n) gs' t = Inr t'" and "numbered k gs n t" and "gs' = drop n gs" and "n \<le> length gs" and "length gs < 2 ^ 32"
    and "k \<le> length gs"
  shows "numbered k gs (length gs) t'"
  using assms
proof (induction gs' arbitrary: n t)
  case Nil
  then show ?case by simp
next
  case (Cons g gs')
  have n: "n < length gs" using Cons.prems(3,4) by (cases "n = length gs") simp_all
  then have n': "g = gs ! n" "gs' = drop (Suc n) gs" using Cons.prems(3) by (simp_all add: Cons_nth_drop_Suc [symmetric])
  from Cons.prems(1) obtain t1 where t1: "process_global V (of_nat n) g t = Inr t1" "process_globals V (of_nat n + 1) gs' t1 = Inr t'" by auto
  have "numbered k gs (Suc n) t1" by (rule process_global_numbered [OF t1(1) [unfolded n'(1)] Cons.prems(2) n Cons.prems(5,6)])
  moreover have "process_globals V (of_nat (Suc n)) gs' t1 = Inr t'" using t1(2) by (simp add: add.commute)
  ultimately show ?case using Cons.IH n n'(2) Cons.prems(5,6) by (metis Suc_leI)
qed

text \<open>C30: The numbers the driver gives to globals.  When the imports, exports and globals of a module are processed, the own
  globals get the entries of the global table in order and their numbers, each with its mutability and its initial value cut to 32
  bits, whatever its type.  The imported globals, which come first in WebAssembly, get no entry; the \<open>w\<close>-th of them is numbered
  \<open>w + 1\<close>, which is also the number of the own global \<open>w + 1\<close> if there is one.\<close>

theorem globals_numbered:
  assumes imp: "Process_wasm_imports V imps (U_ENCODER, FILE_CONTEXT chk md) = Inr (e1, c1)" and exp: "Process_wasm_exports exps c1 = Inr c2"
    and glb: "Process_wasm_globals V gs (e1, c2) = Inr (e2, c3)" and k: "k = global_imports imps" "k \<le> length gs" and "length gs < 2 ^ 32"
  shows "length (ue_glbl_tab e2) = length gs - k \<and>
    (\<forall>i < length gs - k. Get_global_uwasm_id (of_nat (k + i)) (cc_file c3) = of_nat i \<and> converted (gs ! (k + i)) (ue_glbl_tab e2 ! i)) \<and>
    (\<forall>w < k. Get_global_uwasm_id (of_nat w) (cc_file c3) = of_nat (w + 1))"
proof -
  have "imported k (e1, c1)"
    using imports_imported [OF imp [unfolded Process_wasm_imports_def], of 0] assms(6) k
    by (simp add: imported_def FILE_CONTEXT_def U_ENCODER_def Let_def)
  then have "numbered k gs 0 (e1, c2)"
    using exports_ids [OF exp [unfolded Process_wasm_exports_def]] by (simp add: imported_def numbered_def fun_eq_iff)
  then have num: "numbered k gs (length gs) (e2, c3)"
    using process_globals_numbered [of V 0 gs "(e1, c2)" "(e2, c3)" k gs] glb k(2) assms(6) by (simp add: Process_wasm_globals_def)
  then have tab: "list_all2 converted (drop k gs) (ue_glbl_tab e2)" by (simp add: numbered_def)
  have ids: "id_map c3 = (\<lambda>w. if unat w < k then Some (w + 1) else if unat w < length gs then Some (w - of_nat k) else None)"
    using num by (simp add: numbered_def)
  have u: "unat (of_nat j :: u32) = j" if "j < length gs" for j using that assms(6) by (intro unat_of_nat_u32) simp
  have "converted (gs ! (k + i)) (ue_glbl_tab e2 ! i)" if "i < length gs - k" for i
    using list_all2_nthD [OF tab, of i] that by (simp add: add.commute)
  moreover have "Get_global_uwasm_id (of_nat (k + i)) (cc_file c3) = of_nat i" if "i < length gs - k" for i
  proof -
    have "k + i < length gs" using that by simp
    then show ?thesis using u [of "k + i"] by (simp add: Get_global_uwasm_id_def ids)
  qed
  moreover have "Get_global_uwasm_id (of_nat w) (cc_file c3) = of_nat (w + 1)" if "w < k" for w
    using u [of w] that k(2) by (simp add: Get_global_uwasm_id_def ids add.commute)
  ultimately show ?thesis using tab by (auto dest: list_all2_lengthD)
qed

text \<open>One imported global and two own ones, the second a 64-bit constant.\<close>

definition ex_cvt_env :: cvt_env where
  "ex_cvt_env = \<lparr>ce_moved = (\<lambda>e. False), ce_moved_nn = (\<lambda>e. False), ce_moved_pad = (False, False, False), ce_junk = (\<lambda>e. 0)\<rparr>"

definition ex_import :: wabt_import where
  "ex_import = \<lparr>im_kind = Ext_Global, im_module_name = [109], im_field_name = [120], im_sig = \<lparr>sg_params = [], sg_results = []\<rparr>\<rparr>"

definition ex_globals :: "wabt_global list" where
  "ex_globals = [\<lparr>gl_name = [], gl_type = WABT_I32, gl_mutable = False, gl_init_expr = []\<rparr>,
    \<lparr>gl_name = [97], gl_type = WABT_I32, gl_mutable = True, gl_init_expr = [Const_expr WABT_I32 7]\<rparr>,
    \<lparr>gl_name = [98], gl_type = WABT_I64, gl_mutable = False, gl_init_expr = [Const_expr WABT_I64 0x100000005]\<rparr>]"

lemma ex_globals_run:
  "\<exists>e1 c1 e2 c3. Process_wasm_imports ex_cvt_env [ex_import] (U_ENCODER, FILE_CONTEXT False \<lparr>wm_funcs = [], wm_types = [], wm_globals = []\<rparr>) = Inr (e1, c1) \<and>
    Process_wasm_exports [] c1 = Inr c1 \<and> Process_wasm_globals ex_cvt_env ex_globals (e1, c1) = Inr (e2, c3)"
  by (simp add: Process_wasm_imports_def Process_wasm_exports_def Process_wasm_globals_def ex_cvt_env_def ex_import_def ex_globals_def
      process_import_def import_global_def Add_global_name_def Request_def Add_def U_ENCODER_def U_STR_TAB_def FILE_CONTEXT_def c_str_def cstring_def
      Set_global_name_cache_def Set_global_id_map_def Inc_import_global_cnt_def Is_True_def Let_def process_global_def global_name_of_def
      Conv_wabt_ty_def wabt_op_tab_def WABT_I32_def WABT_I64_def WABT_F32_def WABT_F64_def WABT_Void_def global_init_def Add_global32_def Contains_def)

theorem globals_numbered_witness:
  "\<exists>e1 c1 e2 c3. Process_wasm_imports ex_cvt_env [ex_import]
      (U_ENCODER, FILE_CONTEXT False \<lparr>wm_funcs = [], wm_types = [], wm_globals = []\<rparr>) = Inr (e1, c1) \<and>
    Process_wasm_globals ex_cvt_env ex_globals (e1, c1) = Inr (e2, c3) \<and>
    length (ue_glbl_tab e2) = 2 \<and> g_init_val (ue_glbl_tab e2 ! 1) = 5 \<and>
    Get_global_uwasm_id 0 (cc_file c3) = 1 \<and> Get_global_uwasm_id 2 (cc_file c3) = 1"
proof -
  obtain e1 c1 e2 c3 where run: "Process_wasm_imports ex_cvt_env [ex_import]
      (U_ENCODER, FILE_CONTEXT False \<lparr>wm_funcs = [], wm_types = [], wm_globals = []\<rparr>) = Inr (e1, c1)"
    "Process_wasm_exports [] c1 = Inr c1" "Process_wasm_globals ex_cvt_env ex_globals (e1, c1) = Inr (e2, c3)"
    using ex_globals_run by blast
  have "length ex_globals = 3" "global_imports [ex_import] = 1" by (simp_all add: ex_globals_def global_imports_def ex_import_def)
  then have "length (ue_glbl_tab e2) = 2 \<and> (\<forall>i < 2. Get_global_uwasm_id (of_nat (1 + i)) (cc_file c3) = of_nat i \<and>
      converted (ex_globals ! (1 + i)) (ue_glbl_tab e2 ! i)) \<and> (\<forall>w < 1. Get_global_uwasm_id (of_nat w) (cc_file c3) = of_nat (w + 1))"
    using globals_numbered [OF run, of 1] by simp
  then have "length (ue_glbl_tab e2) = 2" "Get_global_uwasm_id 2 (cc_file c3) = 1" "converted (ex_globals ! 2) (ue_glbl_tab e2 ! 1)"
    "Get_global_uwasm_id 0 (cc_file c3) = 1" by (force simp: numeral_2_eq_2 dest: spec [of _ 1])+
  moreover from this(3) have "g_init_val (ue_glbl_tab e2 ! 1) = 5"
    by (simp add: converted_def ex_globals_def numeral_2_eq_2 global_init_def Is_True_def Conv_wabt_ty_def wabt_op_tab_def WABT_I32_def WABT_I64_def
        WABT_F32_def WABT_F64_def WABT_Void_def take_bit_eq_mod)
  ultimately show ?thesis using run by blast
qed

end
