(* ===== verification/Spec2Isabelle.thy ===== *)
theory Spec2Isabelle
  imports Call_Props Expand_Props File_Props U_Leb128 Mem_Props Reader_Props Conv_Props Args_Props Exec_System U_Sld Debug_Props Cvt_Props
begin

text \<open>
  \<^bold>\<open>The uWASM virtual machine.\<close>

  The repository holds a virtual machine for uwasm, a register-based bytecode, and the tools around it: an
  encoder library that builds uwasm binaries, a converter from WebAssembly to uwasm, a loader, an interpreter
  with its runtime of system and foreign calls, a debugger and a static linker for native code.  A WebAssembly module is
  read by the third-party library wabt, the driver \<^verbatim>\<open>wasm-cvt\<close> hands its tables
  to the encoder, every function body is converted by \<^verbatim>\<open>Wasm_to_uwasm\<close> through the
  encoder, the encoder writes one binary file, the loader maps it, expands the compressed instructions into a
  table of fixed-size entries and fills linear memory, and the interpreter executes that table over four
  register files, a stack of call contexts and one block of linear memory.

  \<^bold>\<open>Build and conventions.\<close>  The model is of the default build on a 64-bit little-endian Linux: assertions
  (\<^verbatim>\<open>Is_True\<close>, \<^verbatim>\<open>Is_True_Rel\<close>) are active, \<^verbatim>\<open>RET_REG_NUM\<close> is 1, and \<^verbatim>\<open>DIRECT_ACC_MEM\<close>, \<^verbatim>\<open>UWASM_MEM_CHECK\<close>,
  \<^verbatim>\<open>UWASM_VM_RUNTIME_WASM\<close> and \<^verbatim>\<open>UWASM_VM_RELEASE\<close> are off.  Machine integers are words of their width, so additions wrap;
  signed overflow wraps too, as the compiled code does.  Every operation that can fail returns a \<open>res\<close>: a failed
  assertion, an exception of \<^verbatim>\<open>at\<close>, an access outside the C object, an undefined shift, division or conversion, and a
  call of \<^verbatim>\<open>exit\<close> are error values (theory \<open>Prelude\<close>).  Tracing and printing are left out.  Memory that C++ leaves
  uninitialised is a parameter (\<open>indet\<close>, \<open>junk\<close>), as is whether a growing buffer moves (\<open>moved\<close>, \<open>mv\<close>).

  \<^bold>\<open>Theories and the code they model.\<close>  Paths are under \<^verbatim>\<open>src/\<close>.

  \<^item> \<open>Prelude\<close>: errors, the result monad, C bit-fields, little-endian bytes, and the locale \<open>bitfield_struct\<close> of a
    struct of bit-fields.
  \<^item> \<open>U_Inst\<close>: \<^verbatim>\<open>include/u_am.h\<close>, \<^verbatim>\<open>src/ubh/u_inst.h\<close>, \<^verbatim>\<open>u_inst.cxx\<close>, \<^verbatim>\<open>u_opcode_list.def\<close>: the 32- and 64-bit
    instruction words, \<^verbatim>\<open>Add_inst\<close>, and decoding into \<^verbatim>\<open>AM_EXPAND\<close>.
  \<^item> \<open>Ubh\<close>, \<open>U_Binary\<close>: \<^verbatim>\<open>include/ubh/ubh.h\<close>, \<^verbatim>\<open>src/ubh/ubh.cxx\<close>: the entries of a binary, their bytes, and the loader
    \<^verbatim>\<open>Init_module_from_buffer\<close>.
  \<^item> \<open>U_Module\<close>, \<open>Expand_Props\<close>: \<^verbatim>\<open>src/ubh/u_module.cxx\<close>: section map, type caches, \<^verbatim>\<open>Expand_code\<close>, maps of program
    counters.  The form of a module in which code is kept as offsets, for the linker only, is not distinguished.
  \<^item> \<open>Data_Init\<close>, \<open>Init_Props\<close>: \<^verbatim>\<open>Fix_up_reloc\<close>, \<^verbatim>\<open>Init_mem_with_data_segs\<close>, \<^verbatim>\<open>Prepare_before_run\<close>, \<^verbatim>\<open>Init_memory\<close> with
    \<^verbatim>\<open>UVM_heap_initialize\<close>.
  \<^item> \<open>U_Str_Tab\<close>, \<open>U_Type_Encoder\<close>, \<open>U_Inst_Encoder\<close>, \<open>U_Encoder\<close>, \<open>Type_Cache\<close>, \<open>File_Props\<close>: \<^verbatim>\<open>src/utilities/u_str_tab.cxx\<close> and
    \<^verbatim>\<open>src/encoder/\<close>: string tables, types, code bodies with labels, and the writer of the binary file; what the loader makes of it,
    the caches of types and register counts included.
  \<^item> \<open>Register\<close>, \<open>Ctx_Stack\<close>, \<open>Memory\<close>, \<open>Machine\<close>: \<^verbatim>\<open>src/interpreter/exec_unit.h\<close>, \<^verbatim>\<open>exec_unit.cxx\<close>: the state of
    \<^verbatim>\<open>UWASM_MACHINE\<close> and its frame operations.  The locales \<open>register_file\<close>, \<open>bounded_stack\<close> and \<open>typed_access\<close> state what
    the machine relies on and are interpreted on these definitions, as \<open>entry_codec\<close> is on the entries of a binary and
    \<open>int_file\<close> on the integer registers.
  \<^item> \<open>Float_Bits\<close>, \<open>Exec_Ops_32\<close>, \<open>Exec_Ops_64\<close>, \<open>Exec\<close>: \<^verbatim>\<open>exec_unit_func.h\<close> and \<^verbatim>\<open>exec_unit_op.def\<close>: one definition for each
    instruction handler, the dispatch table, and the loops \<^verbatim>\<open>Exec_start\<close> and \<^verbatim>\<open>Control_start\<close> with their tests for breakpoints.
  \<^item> \<open>Frame\<close>, \<open>Call_Props\<close>, \<open>Wasm_Int\<close>, \<open>Alu_Props\<close>, \<open>Mem_Props\<close>: the invariant of the machine and what the
    instructions compute, with \<open>Wasm_Int\<close> as the reference for integers.
  \<^item> \<open>U_Leb128\<close>, \<open>Wasm_Reader\<close>, \<open>Reader_Props\<close>: \<^verbatim>\<open>src/wasm/u_leb128.h\<close>, \<^verbatim>\<open>reader.cxx\<close>, \<^verbatim>\<open>winst.cxx\<close>, \<^verbatim>\<open>conv_map.cxx\<close>.
  \<^item> \<open>Conv_Regs\<close>, \<open>Conv_Stmts\<close>, \<open>Conv_Insts\<close>, \<open>Converter\<close>: \<^verbatim>\<open>src/wasm/converter.cxx\<close>, \<^verbatim>\<open>converter.h\<close>, \<^verbatim>\<open>local_table.h\<close>: registers
    and operand stack, statement graph, the switch over the instructions, functions.  \<open>Conv_Alloc\<close>, \<open>Conv_Comp\<close>,
    \<open>Conv_Refine\<close>, \<open>Conv_Func\<close>, \<open>Conv_Props\<close>: the proof that its code is right.
  \<^item> \<open>Wasm_Cvt\<close>, \<open>Cvt_Props\<close>: \<^verbatim>\<open>src/thirdparty/wasm/src/wasm-cvt.cc\<close>, the driver of the converter: imports, exports, globals,
    data segments and functions of a module.
  \<^item> \<open>U_Runtime\<close>, \<open>Runtime_Props\<close>, \<open>Args_Props\<close>: \<^verbatim>\<open>src/runtime/u_runtime.cxx\<close>, \<^verbatim>\<open>src/interpreter/uwasm_malloc.cxx\<close>: system calls, the
    binding of imports, foreign calls.
  \<^item> \<open>Exec_System\<close>: \<^verbatim>\<open>src/runtime/exec_system.cxx\<close>; \<open>U_Sld\<close>: \<^verbatim>\<open>src/static_linker/u_sld.cxx\<close>; \<open>Exec_Debug\<close>,
    \<open>Debug_Props\<close>: \<^verbatim>\<open>src/interpreter/exec_debug.cxx\<close>, \<^verbatim>\<open>exec_debug.h\<close>.  \<open>Example\<close> holds the concrete machine of the witnesses.

  \<^bold>\<open>State.\<close>  A class is a record with one field for each member (\<open>uwasm_machine\<close>, \<open>u_module\<close>, \<open>u_encoder\<close>, \<open>conv\<close>,
  \<open>runtime\<close>, \<open>uwasm_debug\<close>); a section pointer with its count is a list; a pointer into the expanded table is an index; an address of
  linear memory is an offset from \<^verbatim>\<open>_mem_p\<close>, and a null pointer is \<open>None\<close>.  Operations take and return these records.

  \<^bold>\<open>What is shown.\<close>

  \<^item> \<^emph>\<open>Frames.\<close>  Every reachable state satisfies the machine invariant; a call that returns, into the module or into the
    runtime, resumes the caller with its locals; other instructions leave the frame alone; the registers of a callee are
    accessible; the context vector overflows at depth 1024.
  \<^item> \<^emph>\<open>Conversion.\<close>  For functions with straight-line integer code (constants, locals, arithmetic, comparisons, drop, nop) that
    is well typed, \<^verbatim>\<open>Wasm_to_uwasm\<close> succeeds, the emitted code refines the WebAssembly semantics, and the interpreter runs it
    to its end.  The functions have one result and at most 125 parameters, locals and instructions.  The hypothesis \<open>conv_safe\<close> of the
    last two excludes the code for which the converter is wrong (a local overwritten while its value is on the operand stack), operators the
    machine does not implement as WebAssembly has them (unsigned division and remainder, shifts of 64 bits), and operands on which
    the C++ expression is undefined.  Control flow, calls, memory and floating point are modelled but
    not covered by this theorem.
  \<^item> \<^emph>\<open>Round trips.\<close>  Instruction words, expanded code, function types (with at most three results; what happens with more is part of
    the statement), code sections, whole files through \<^verbatim>\<open>Init_module_from_buffer\<close>, LEB128 numbers, function bodies, linked files and
    stores followed by loads.
  \<^item> \<^emph>\<open>Instructions.\<close>  Integer arithmetic, comparison and conditional jumps against \<open>Wasm_Int\<close>, with the opcodes that do
    not agree with it (unsigned division, rotations) stated as such; loads, stores and memory growth.
  \<^item> \<^emph>\<open>Start-up and runtime.\<close>  Data segments from the WebAssembly module through the file to memory (in this theory), the layout of memory, the start function, the binding of system calls, the
    arguments of the program, and the places where the code goes wrong (segments at the end of memory, the size of the table of
    functions, the numbers and values of globals, a heap over the data segments, \<^verbatim>\<open>free\<close>).
  \<^item> \<^emph>\<open>Debugging.\<close>  Where the two loops stop for a breakpoint, why neither gets past it, and which frames the debugger shows.

  \<^bold>\<open>Termination and fuel.\<close>  The loop of \<^verbatim>\<open>Exec_start\<close> may run forever; it is a \<open>partial_function\<close> into \<open>option\<close>, next to a
  step relation (\<open>exec1\<close>, \<open>reaches\<close>) and a version with fuel (\<open>exec_fuel\<close>), both without breakpoints.  The loop returns exactly at the end of a
  sequence of steps that meet no breakpoint, and, with no breakpoint set, wherever enough fuel ends.  Statements that a program ends are of the form
  \<open>Exec_start H m d = Some (Inr (m', d'))\<close>, where \<open>d\<close> is the state of the debugger.  All other loops are structural recursion or folds over the lists the code walks, so no
  bound is chosen; the bounds in hypotheses (string and section sizes, 126 registers, ten bytes of LEB128) are those of the fields or
  of the code.

  \<^bold>\<open>Parameters.\<close>  Floating-point arithmetic (\<open>fpu\<close>), \<^verbatim>\<open>realloc\<close> and the outcome of system calls (\<open>host\<close>), and the C library, the
  operating system, \<^verbatim>\<open>libffi\<close> and \<^verbatim>\<open>dlmalloc\<close> (\<open>os\<close>) are arguments; the machine's properties assume of them only
  that a system call keeps the frame (\<open>sys_ok\<close>), which is proved for the runtime modelled here.  The module of wabt and the ELF
  reader are represented by the answers the code asks of them.

  \<^bold>\<open>Not modelled.\<close>  The command-line front ends and the option parser of \<^verbatim>\<open>src/main.cxx\<close> (input and output), printing and
  tracing (\<^verbatim>\<open>Print\<close> functions, \<^verbatim>\<open>src/trace\<close>), performance counters, the file mapping of \<^verbatim>\<open>src/utilities/u_utils.cxx\<close>, and the
  vendored third-party code: wabt (the other files of \<^verbatim>\<open>src/thirdparty/wasm\<close>), \<^verbatim>\<open>dlmalloc\<close>, \<^verbatim>\<open>libffi\<close>, \<^verbatim>\<open>ELFIO\<close> and \<^verbatim>\<open>gtest\<close>.
\<close>

section \<open>From the data segments of a WebAssembly module to memory\<close>

text \<open>A file written by an encoder that holds a data section of segments and no relocations is loaded as a module with that section.\<close>

lemma segments_loaded:
  assumes "ue_const_data e = segs_section segs" and "ue_reloc_data e = []"
    and written: "Finish moved e = Inr e'" "file_ok e'" "tables_fit e'" "list_all body_small (ue_bodies e)"
      "find_start (st_raw_buf (ue_module_str e')) 0 (ue_func_tab e') = Inr start_fn"
  shows "\<exists>file m. Write_to_file moved e = Inr file \<and> load_sections file U_MODULE = Inr m \<and> Contains_section m S_DATA \<and>
    sec_elem_num m S_DATA = Inr (length (segs_section segs)) \<and> m_data_sec m = segs_section segs \<and> \<not> Contains_section m S_RELOC"
proof -
  have const: "ue_const_data e' = segs_section segs" "ue_reloc_data e' = []" using Finish_fields [OF written(1)] assms(1,2) by simp_all
  have counts: "sec_count e' S_DATA = length (segs_section segs)" "sec_count e' S_RELOC = 0" "length (segs_section segs) \<noteq> 0"
    by (simp_all add: sec_count_def const) (simp add: segs_section_def segs_head_def DATA_SEGMENT_MAGIC_PREFIX_def)
  obtain bytes m where f: "Write_to_file moved e = Inr bytes" "load_sections bytes U_MODULE = Inr m"
    and sec: "\<forall>i \<in> set SEC_INFO_ARR. sec_loaded (ue_bodies e) e' m (si_sec_id i)"
      "\<forall>i \<in> set SEC_INFO_ARR. sec_count e' (si_sec_id i) \<noteq> 0 \<longrightarrow> sec_elem_num m (si_sec_id i) = Inr (sec_count e' (si_sec_id i))"
      "\<forall>i \<in> set SEC_INFO_ARR. sec_count e' (si_sec_id i) = 0 \<longrightarrow> \<not> Contains_section m (si_sec_id i)"
    using load_written [OF written] by blast
  have "m_data_sec m = segs_section segs" "sec_elem_num m S_DATA = Inr (length (segs_section segs))" "\<not> Contains_section m S_RELOC"
    using sec counts by (simp_all add: SEC_INFO_ARR_def sec_loaded_def const)
  moreover from this(2) have "Contains_section m S_DATA"
    by (auto simp: sec_elem_num_def Get_shdr_by_sec_id_def Get_shdr_idx_def Contains_section_def split: option.splits)
  ultimately show ?thesis using f by blast
qed

text \<open>C29: The data segments of a WebAssembly module reach the memory of the machine.  When the driver has turned them into a data
  section, an encoder that still holds it is written to a file, and the file is loaded, \<^verbatim>\<open>Fix_up_reloc\<close> succeeds for segments
  that end below the size of the memory and leaves in memory the bytes of every segment that no later segment overlaps; all bytes
  outside the segments keep their values.\<close>

theorem static_data_reaches_memory:
  assumes segs: "list_all2 seg_of ds segs" "length (segs_section segs) < 0xffffffff"
    and enc: "Process_wasm_static_data ds e0 = Inr e1" "ue_const_data e = ue_const_data e1" "ue_reloc_data e = []"
    and written: "Finish moved e = Inr e'" "file_ok e'" "tables_fit e'" "list_all body_small (ue_bodies e)"
      "find_start (st_raw_buf (ue_module_str e')) 0 (ue_func_tab e') = Inr start_fn"
    and blk: "mb_live blk" "unat msize \<le> mb_len blk" "list_all (\<lambda>seg. unat (fst seg) + length (snd seg) < unat msize) segs"
  shows "\<exists>file m blk'. Write_to_file moved e = Inr file \<and> load_sections file U_MODULE = Inr m \<and>
    Fix_up_reloc base m (Some blk) msize = Inr (NUM_SUCC, Some blk') \<and>
    (\<forall>i < length segs.
      list_all (\<lambda>seg. disjoint_range (seg_addr seg) (length (snd seg)) (seg_addr (segs ! i)) (length (snd (segs ! i)))) (drop (Suc i) segs)
      \<longrightarrow> mem_read blk' (seg_addr (segs ! i)) (length (snd (segs ! i))) = Inr (snd (segs ! i))) \<and>
    (\<forall>a n. list_all (\<lambda>seg. disjoint_range (seg_addr seg) (length (snd seg)) a n) segs \<longrightarrow> mem_read blk' a n = mem_read blk a n)"
proof -
  have "e1 = e0\<lparr>ue_const_data := segs_section segs\<rparr>" using Process_wasm_static_data_section [OF segs, of e0] enc(1) by simp
  with enc(2) have "ue_const_data e = segs_section segs" by simp
  from segments_loaded [OF this enc(3) written] obtain bytes m where m: "Write_to_file moved e = Inr bytes" "load_sections bytes U_MODULE = Inr m"
    "Contains_section m S_DATA" "sec_elem_num m S_DATA = Inr (length (segs_section segs))" "m_data_sec m = segs_section segs"
    "\<not> Contains_section m S_RELOC" by blast
  have "length (segs_section segs) < 2 ^ 32" using segs(2) by simp
  from data_segments_loaded [OF m(3-6) this blk, of base] m(1,2) show ?thesis by blast
qed

text \<open>The example file with three data segments, the last of which overlaps the first.\<close>

definition ex_wabt_segs :: "data_segment list" where
  "ex_wabt_segs = map (\<lambda>(ofs, bytes). \<lparr>dg_kind = Seg_Active, dg_offset = [Const_expr WABT_I32 (ucast ofs)], dg_data = bytes\<rparr>) ex_segs"

definition ex_seg_encoder :: u_encoder where
  "ex_seg_encoder = File_Props.ex_encoder\<lparr>ue_const_data := segs_section ex_segs\<rparr>"

definition ex_seg_finished :: u_encoder where
  "ex_seg_finished = ex_finished\<lparr>ue_const_data := segs_section ex_segs\<rparr>"

lemma ex_wabt_segs: "list_all2 seg_of ex_wabt_segs ex_segs"
  by (simp add: ex_wabt_segs_def ex_segs_def seg_of_def active_offset_def)

lemma Finish_const_data: "Finish moved e = Inr e' \<Longrightarrow> Finish moved (e\<lparr>ue_const_data := d\<rparr>) = Inr (e'\<lparr>ue_const_data := d\<rparr>)"
  by (auto simp: Finish_def)

lemma ex_seg_Finish: "Finish (False, True, False) ex_seg_encoder = Inr ex_seg_finished"
  unfolding ex_seg_encoder_def ex_seg_finished_def by (rule Finish_const_data [OF ex_Finish])

lemma ex_seg_ok: "file_ok ex_seg_finished" "tables_fit ex_seg_finished" "list_all body_small (ue_bodies ex_seg_encoder)"
  "find_start (st_raw_buf (ue_module_str ex_seg_finished)) 0 (ue_func_tab ex_seg_finished) = Inr (Some 0)"
proof -
  show "file_ok ex_seg_finished"
    by (simp add: file_ok_def SEC_INFO_ARR_def sec_count_def sec_len_def sec_bytes_def ex_seg_finished_def ex_data_module(4) ex_fields ex_bodies
        ex_raw_bufs length_Write_to_buf ex_counts [unfolded sec_count_def] File_Props.ex_encoder_def U_ENCODER_def Let_def type_codec.length_encs
        export_codec.length_encs func_codec.length_encs glbl_codec.length_encs word_codec.length_encs type_codec.length_enc
        export_codec.length_enc func_codec.length_enc glbl_codec.length_enc ubh_sizes START_FUNC_NAME_def padded_def ex_raw STR_TAB_ALIGN_def)
  show "tables_fit ex_seg_finished" using ex_tables_fit by (simp add: tables_fit_def ex_seg_finished_def)
  show "list_all body_small (ue_bodies ex_seg_encoder)" using ex_body_small by (simp add: ex_seg_encoder_def)
  show "find_start (st_raw_buf (ue_module_str ex_seg_finished)) 0 (ue_func_tab ex_seg_finished) = Inr (Some 0)"
    using ex_start_func by (simp add: ex_seg_finished_def)
qed

theorem static_data_reaches_memory_witness:
  "\<exists>file m blk'. Process_wasm_static_data ex_wabt_segs File_Props.ex_encoder = Inr ex_seg_encoder \<and>
    Write_to_file (False, True, False) ex_seg_encoder = Inr file \<and> load_sections file U_MODULE = Inr m \<and>
    Fix_up_reloc 0 m (Some ex_memory) 4096 = Inr (NUM_SUCC, Some blk') \<and>
    mem_read blk' (Some 101) 1 = Inr [7] \<and> mem_read blk' (Some 200) 1 = Inr [9] \<and> mem_read blk' (Some 300) 4 = mem_read ex_memory (Some 300) 4"
proof -
  have segs: "length ex_segs = 3" "ex_segs ! 1 = (200, [9])" "ex_segs ! 2 = (101, [7])" "drop 3 ex_segs = []" "drop 2 ex_segs = [(101, [7])]"
    by (simp_all add: ex_segs_def)
  have len: "length (segs_section ex_segs) < 0xffffffff" by (simp add: ex_data_module(4))
  have enc: "Process_wasm_static_data ex_wabt_segs File_Props.ex_encoder = Inr ex_seg_encoder"
    using Process_wasm_static_data_section [OF ex_wabt_segs len] by (simp add: ex_seg_encoder_def)
  have prems: "ue_reloc_data ex_seg_encoder = []" "mb_live ex_memory" "unat (4096 :: u32) \<le> mb_len ex_memory"
    "list_all (\<lambda>seg. unat (fst seg) + length (snd seg) < unat (4096 :: u32)) ex_segs"
    by (simp_all add: ex_seg_encoder_def File_Props.ex_encoder_def U_ENCODER_def Let_def ex_memory_def) (simp add: ex_segs_def)
  obtain bytes m blk' where run: "Write_to_file (False, True, False) ex_seg_encoder = Inr bytes" "load_sections bytes U_MODULE = Inr m"
      "Fix_up_reloc 0 m (Some ex_memory) 4096 = Inr (NUM_SUCC, Some blk')"
    and seg: "\<And>i. i < length ex_segs \<Longrightarrow>
      list_all (\<lambda>seg. disjoint_range (seg_addr seg) (length (snd seg)) (seg_addr (ex_segs ! i)) (length (snd (ex_segs ! i)))) (drop (Suc i) ex_segs)
      \<Longrightarrow> mem_read blk' (seg_addr (ex_segs ! i)) (length (snd (ex_segs ! i))) = Inr (snd (ex_segs ! i))"
    and outside: "\<And>a n. list_all (\<lambda>seg. disjoint_range (seg_addr seg) (length (snd seg)) a n) ex_segs \<Longrightarrow> mem_read blk' a n = mem_read ex_memory a n"
    using static_data_reaches_memory [OF ex_wabt_segs len enc HOL.refl prems(1) ex_seg_Finish ex_seg_ok prems(2-4), where base = 0] by blast
  have "mem_read blk' (Some 200) 1 = Inr [9]" using seg [of 1] by (simp add: segs [simplified] disjoint_range_def numeral_2_eq_2 [symmetric])
  moreover have "mem_read blk' (Some 101) 1 = Inr [7]" using seg [of 2] by (simp add: segs)
  moreover have "mem_read blk' (Some 300) 4 = mem_read ex_memory (Some 300) 4" by (rule outside) (simp add: ex_segs_def disjoint_range_def)
  ultimately show ?thesis using run enc by blast
qed

end
